(* ===== verification/Prelude.thy ===== *)
theory Prelude
  imports Main
begin

text \<open>
  Prelude: the pieces every component shares.

  \<^item> Go error values (\<open>goerr\<close>) with wrapping (\<open>fmt.Errorf\<close> and \<open>%w\<close>), and the result of
    running a Go function: a value, an error, or a run-time panic.
  \<^item> Effectful code as functions of an explicit state. The state carries the world behind
    the clients (Kubernetes API server and OpenStack, both outside this repository and so
    a type parameter) and the trace of the calls made to it, in order, each with the flag
    whether it succeeded.
  \<^item> A weakest-precondition predicate \<open>runs\<close>, with its rules in the collection \<open>runs_simps\<close>,
    and the trace predicates built on it.
  \<^item> The parts of \<open>strings\<close> and \<open>strconv\<close> the code calls.
\<close>

section \<open>Errors and results\<close>

datatype goerr =
    ErrUnexpectedResponseCode int string string \<comment> \<open>status code, body, text\<close>
  | ErrResourceNotFound string
  | ApiNotFound string
  | HelperErr string
  | Wrapped string goerr
  | Suffixed goerr string
  | JoinedErr goerr goerr
  | OtherErr string

text \<open>The text of \<open>err.Error()\<close>; \<open>errors.Join\<close> separates by a newline.\<close>

primrec Error_text :: "goerr \<Rightarrow> string" where
  "Error_text (ErrUnexpectedResponseCode c b t) = t"
| "Error_text (ErrResourceNotFound t) = t"
| "Error_text (ApiNotFound t) = t"
| "Error_text (HelperErr t) = t"
| "Error_text (Wrapped p e) = p @ Error_text e"
| "Error_text (Suffixed e s) = Error_text e @ s"
| "Error_text (JoinedErr e f) = Error_text e @ [CHR 10] @ Error_text f"
| "Error_text (OtherErr t) = t"

text \<open>\<open>apierrors.IsNotFound\<close> looks through wrapped errors.\<close>

primrec IsNotFound :: "goerr \<Rightarrow> bool" where
  "IsNotFound (ErrUnexpectedResponseCode c b t) = False"
| "IsNotFound (ErrResourceNotFound t) = False"
| "IsNotFound (ApiNotFound t) = True"
| "IsNotFound (HelperErr t) = False"
| "IsNotFound (Wrapped p e) = IsNotFound e"
| "IsNotFound (Suffixed e s) = IsNotFound e"
| "IsNotFound (JoinedErr e f) = (IsNotFound e \<or> IsNotFound f)"
| "IsNotFound (OtherErr t) = False"

text \<open>The \<open>case gophercloud.ErrUnexpectedResponseCode, gophercloud.ErrResourceNotFound\<close> of the
  type switches: a type switch does not look through wrapping.\<close>

fun is_gopher_gone :: "goerr \<Rightarrow> bool" where
  "is_gopher_gone (ErrUnexpectedResponseCode c b t) = True"
| "is_gopher_gone (ErrResourceNotFound t) = True"
| "is_gopher_gone e = False"

fun is_unexpected_code :: "goerr \<Rightarrow> bool" where
  "is_unexpected_code (ErrUnexpectedResponseCode c b t) = True"
| "is_unexpected_code e = False"

datatype 'a result = Ok 'a | Err goerr | Crash string

fun is_Ok :: "'a result \<Rightarrow> bool" where
  "is_Ok (Ok x) = True"
| "is_Ok (Err e) = False"
| "is_Ok (Crash c) = False"

fun is_Crash :: "'a result \<Rightarrow> bool" where
  "is_Crash (Crash c) = True"
| "is_Crash (Ok x) = False"
| "is_Crash (Err e) = False"

section \<open>Effectful functions\<close>

type_synonym ('s, 'a) gop = "'s \<Rightarrow> 'a result \<times> 's"

definition ret :: "'a \<Rightarrow> ('s, 'a) gop" where
  "ret x s = (Ok x, s)"

definition fail :: "goerr \<Rightarrow> ('s, 'a) gop" where
  "fail e s = (Err e, s)"

definition crash :: "string \<Rightarrow> ('s, 'a) gop" where
  "crash c s = (Crash c, s)"

text \<open>\<open>x, err := m; if err != nil { h } ; k\<close>. A panic is not an error value: nothing handles it.\<close>

definition catchM :: "('s, 'a) gop \<Rightarrow> (goerr \<Rightarrow> ('s, 'b) gop) \<Rightarrow> ('a \<Rightarrow> ('s, 'b) gop) \<Rightarrow> ('s, 'b) gop" where
  "catchM m h k s =
     (case m s of (r, t) \<Rightarrow>
       (case r of Ok x \<Rightarrow> k x t | Err e \<Rightarrow> h e t | Crash c \<Rightarrow> (Crash c, t)))"

text \<open>\<open>x, err := m; if err != nil { return err } ; k\<close>\<close>

definition bindM :: "('s, 'a) gop \<Rightarrow> ('a \<Rightarrow> ('s, 'b) gop) \<Rightarrow> ('s, 'b) gop" where
  "bindM m k = catchM m fail k"

definition thenM :: "('s, 'a) gop \<Rightarrow> ('s, 'b) gop \<Rightarrow> ('s, 'b) gop" where
  "thenM m k = bindM m (\<lambda>_. k)"

text \<open>\<open>return fmt.Errorf("p: %w", err)\<close> on the error path\<close>

definition wrapM :: "string \<Rightarrow> ('s, 'a) gop \<Rightarrow> ('s, 'a) gop" where
  "wrapM p m = catchM m (\<lambda>e. fail (Wrapped p e)) ret"

definition whenM :: "bool \<Rightarrow> ('s, unit) gop \<Rightarrow> ('s, unit) gop" where
  "whenM b m = (if b then m else ret ())"

text \<open>A pointer dereference panics on \<open>nil\<close>.\<close>

definition deref :: "'a option \<Rightarrow> ('a \<Rightarrow> ('s, 'b) gop) \<Rightarrow> ('s, 'b) gop" where
  "deref p k = (case p of None \<Rightarrow> crash ''nil pointer dereference'' | Some x \<Rightarrow> k x)"

text \<open>A loop whose body returns early on an error only.\<close>

primrec forM :: "'x list \<Rightarrow> ('x \<Rightarrow> ('s, unit) gop) \<Rightarrow> ('s, unit) gop" where
  "forM [] f = ret ()"
| "forM (x # xs) f = thenM (f x) (forM xs f)"

section \<open>The state and the calls\<close>

record ('w, 'c) st =
  world :: 'w
  trace :: "('c \<times> bool) list"

text \<open>One call of a client: the world answers, and the call is recorded.\<close>

definition ext :: "'c \<Rightarrow> ('w, 'a) gop \<Rightarrow> (('w, 'c, 'z) st_scheme, 'a) gop" where
  "ext c f s =
     (case f (world s) of (r, w) \<Rightarrow>
       (r, s\<lparr>world := w, trace := trace s @ [(c, is_Ok r)]\<rparr>))"

text \<open>A call that only records (events have no result the code looks at).\<close>

definition record_call :: "'c \<Rightarrow> (('w, 'c, 'z) st_scheme, unit) gop" where
  "record_call c s = (Ok (), s\<lparr>trace := trace s @ [(c, True)]\<rparr>)"

text \<open>A reading that cannot fail and is not a call of a client (\<open>time.Now()\<close>).\<close>

definition readW :: "('w \<Rightarrow> 'a \<times> 'w) \<Rightarrow> ('a \<Rightarrow> (('w, 'c, 'z) st_scheme, 'b) gop) \<Rightarrow> (('w, 'c, 'z) st_scheme, 'b) gop" where
  "readW f k s = (case f (world s) of (x, w) \<Rightarrow> k x (s\<lparr>world := w\<rparr>))"

section \<open>Weakest preconditions\<close>

named_theorems runs_simps "equations that push runs through the combinators"

definition runs :: "('s, 'a) gop \<Rightarrow> 's \<Rightarrow> ('a result \<Rightarrow> 's \<Rightarrow> bool) \<Rightarrow> bool" where
  "runs m s R = (case m s of (r, t) \<Rightarrow> R r t)"

lemma runsI: "(\<And>r t. m s = (r, t) \<Longrightarrow> R r t) \<Longrightarrow> runs m s R"
  by (simp add: runs_def split: prod.split)

lemma runsD: "runs m s R \<Longrightarrow> m s = (r, t) \<Longrightarrow> R r t"
  by (simp add: runs_def)

lemma runs_weaken: "runs m s R \<Longrightarrow> (\<And>r t. R r t \<Longrightarrow> Q r t) \<Longrightarrow> runs m s Q"
  by (auto simp: runs_def split: prod.splits)

lemma runs_conj: "runs m s R \<Longrightarrow> runs m s Q \<Longrightarrow> runs m s (\<lambda>r t. R r t \<and> Q r t)"
  by (auto simp: runs_def split: prod.splits)

lemma runs_ret [runs_simps]: "runs (ret x) s R = R (Ok x) s"
  by (simp add: runs_def ret_def)

lemma runs_fail [runs_simps]: "runs (fail e) s R = R (Err e) s"
  by (simp add: runs_def fail_def)

lemma runs_crash [runs_simps]: "runs (crash c) s R = R (Crash c) s"
  by (simp add: runs_def crash_def)

definition caseR :: "('a \<Rightarrow> 's \<Rightarrow> bool) \<Rightarrow> (goerr \<Rightarrow> 's \<Rightarrow> bool) \<Rightarrow> (string \<Rightarrow> 's \<Rightarrow> bool) \<Rightarrow> 'a result \<Rightarrow> 's \<Rightarrow> bool" where
  "caseR P E C r t = (case r of Ok x \<Rightarrow> P x t | Err e \<Rightarrow> E e t | Crash c \<Rightarrow> C c t)"

lemma caseR_simps [simp]:
  "caseR P E C (Ok x) t = P x t" "caseR P E C (Err e) t = E e t" "caseR P E C (Crash c) t = C c t"
  by (simp_all add: caseR_def)

lemma caseR_const: "caseR (\<lambda>_. P) (\<lambda>_. P) (\<lambda>_. P) = (\<lambda>_. P)"
  by (auto simp: caseR_def fun_eq_iff split: result.split)

lemma runs_catchM [runs_simps]:
  "runs (catchM m h k) s R =
     runs m s (caseR (\<lambda>x t. runs (k x) t R) (\<lambda>e t. runs (h e) t R) (\<lambda>c t. R (Crash c) t))"
  by (auto simp: runs_def catchM_def split: prod.splits result.splits)

lemma runs_bindM [runs_simps]:
  "runs (bindM m k) s R =
     runs m s (caseR (\<lambda>x t. runs (k x) t R) (\<lambda>e t. R (Err e) t) (\<lambda>c t. R (Crash c) t))"
  by (simp add: bindM_def runs_simps)

lemma runs_thenM [runs_simps]:
  "runs (thenM m k) s R =
     runs m s (caseR (\<lambda>x t. runs k t R) (\<lambda>e t. R (Err e) t) (\<lambda>c t. R (Crash c) t))"
  by (simp add: thenM_def runs_simps)

lemma runs_wrapM [runs_simps]:
  "runs (wrapM p m) s R =
     runs m s (caseR (\<lambda>x t. R (Ok x) t) (\<lambda>e t. R (Err (Wrapped p e)) t) (\<lambda>c t. R (Crash c) t))"
  by (simp add: wrapM_def runs_simps)

lemma runs_whenM [runs_simps]:
  "runs (whenM b m) s R = (if b then runs m s R else R (Ok ()) s)"
  by (simp add: whenM_def runs_simps)

lemma runs_deref [runs_simps]:
  "runs (deref p k) s R =
     (case p of None \<Rightarrow> R (Crash ''nil pointer dereference'') s | Some x \<Rightarrow> runs (k x) s R)"
  by (simp add: deref_def runs_simps split: option.split)

lemma runs_if [runs_simps]:
  "runs (if b then m else n) s R = (if b then runs m s R else runs n s R)"
  by simp

lemma runs_ext [runs_simps]:
  "runs (ext c f) s R =
     (case f (world s) of (r, w) \<Rightarrow> R r (s\<lparr>world := w, trace := trace s @ [(c, is_Ok r)]\<rparr>))"
  by (simp add: runs_def ext_def split: prod.split)

lemma runs_record_call [runs_simps]:
  "runs (record_call c) s R = R (Ok ()) (s\<lparr>trace := trace s @ [(c, True)]\<rparr>)"
  by (simp add: runs_def record_call_def)

lemma runs_readW [runs_simps]:
  "runs (readW f k) s R = (case f (world s) of (x, w) \<Rightarrow> runs (k x) (s\<lparr>world := w\<rparr>) R)"
  by (simp add: runs_def readW_def split: prod.split)

lemma runs_option [runs_simps]:
  "runs (case p of None \<Rightarrow> m | Some x \<Rightarrow> k x) s R =
     (case p of None \<Rightarrow> runs m s R | Some x \<Rightarrow> runs (k x) s R)"
  by (simp split: option.split)

lemma runs_list_case [runs_simps]:
  "runs (case xs of [] \<Rightarrow> m | y # ys \<Rightarrow> k y ys) s R =
     (case xs of [] \<Rightarrow> runs m s R | y # ys \<Rightarrow> runs (k y ys) s R)"
  by (simp split: list.split)

text \<open>An invariant carried through a loop.\<close>

lemma runs_forM:
  assumes step: "\<And>x s. x \<in> set xs \<Longrightarrow> I s \<Longrightarrow>
      runs (f x) s (caseR (\<lambda>_ t. I t) (\<lambda>e t. R (Err e) t) (\<lambda>c t. R (Crash c) t))"
    and fin: "\<And>t. I t \<Longrightarrow> R (Ok ()) t"
    and start: "I s"
  shows "runs (forM xs f) s R"
  using step start
proof (induction xs arbitrary: s)
  case Nil
  then show ?case by (simp add: runs_simps fin)
next
  case (Cons x xs)
  have "runs (f x) s (caseR (\<lambda>_ t. I t) (\<lambda>e t. R (Err e) t) (\<lambda>c t. R (Crash c) t))"
    using Cons.prems by simp
  moreover have "runs (forM xs f) t R" if "I t" for t
    using Cons.IH Cons.prems(1) that by simp
  ultimately show ?case
    by (auto simp: runs_simps caseR_def elim!: runs_weaken split: result.splits)
qed

section \<open>Trace predicates\<close>

text \<open>\<open>extends P s t\<close>: between \<open>s\<close> and \<open>t\<close> only calls satisfying \<open>P\<close> were made.\<close>

definition extends :: "('c \<times> bool \<Rightarrow> bool) \<Rightarrow> ('w, 'c, 'z) st_scheme \<Rightarrow> ('w, 'c, 'z) st_scheme \<Rightarrow> bool" where
  "extends P s t = (\<exists>cs. trace t = trace s @ cs \<and> (\<forall>c \<in> set cs. P c))"

lemma extends_refl [simp, intro]: "extends P s s"
  by (simp add: extends_def)

lemma extends_trans: "extends P s t \<Longrightarrow> extends P t u \<Longrightarrow> extends P s u"
  by (auto simp: extends_def)

lemma extends_snoc: "extends P s t \<Longrightarrow> P c \<Longrightarrow> extends P s (t\<lparr>trace := trace t @ [c]\<rparr>)"
  by (auto simp: extends_def)

lemma extends_weaken: "extends P s t \<Longrightarrow> (\<And>c. P c \<Longrightarrow> Q c) \<Longrightarrow> extends Q s t"
  by (auto simp: extends_def)

lemma extends_trace: "trace t = trace t' \<Longrightarrow> extends P s t = extends P s t'"
  by (simp add: extends_def)

text \<open>\<open>emits P m\<close>: whatever the state, running \<open>m\<close> makes only calls that satisfy \<open>P\<close>.\<close>

definition emits :: "('c \<times> bool \<Rightarrow> bool) \<Rightarrow> (('w, 'c, 'z) st_scheme, 'a) gop \<Rightarrow> bool" where
  "emits P m = (\<forall>s. runs m s (\<lambda>_ t. extends P s t))"

named_theorems emits_intros "introduction rules for emits"

lemma emits_runs: "emits P m \<Longrightarrow> runs m s (\<lambda>_ t. extends P s t)"
  by (simp add: emits_def)

lemma emits_weaken: "emits P m \<Longrightarrow> (\<And>c. P c \<Longrightarrow> Q c) \<Longrightarrow> emits Q m"
  unfolding emits_def by (blast intro: runs_weaken extends_weaken)

lemma emits_ret [emits_intros]: "emits P (ret x)"
  by (simp add: emits_def runs_simps)

lemma emits_fail [emits_intros]: "emits P (fail e)"
  by (simp add: emits_def runs_simps)

lemma emits_crash [emits_intros]: "emits P (crash e)"
  by (simp add: emits_def runs_simps)

lemma emits_catchM [emits_intros]:
  assumes "emits P m" and "\<And>e. emits P (h e)" and "\<And>x. emits P (k x)"
  shows "emits P (catchM m h k)"
  unfolding emits_def
proof
  fix s
  have "runs m s (\<lambda>_ t. extends P s t)"
    by (rule emits_runs [OF assms(1)])
  then show "runs (catchM m h k) s (\<lambda>_ t. extends P s t)"
    unfolding runs_catchM
  proof (rule runs_weaken)
    fix r t
    assume st: "extends P s t"
    have "runs (h e) t (\<lambda>_ u. extends P s u)" "runs (k x) t (\<lambda>_ u. extends P s u)" for e x
      using st by (auto intro: extends_trans runs_weaken [OF emits_runs [OF assms(2)]]
          runs_weaken [OF emits_runs [OF assms(3)]])
    then show "caseR (\<lambda>x t. runs (k x) t (\<lambda>_ t. extends P s t))
        (\<lambda>e t. runs (h e) t (\<lambda>_ t. extends P s t)) (\<lambda>c t. extends P s t) r t"
      using st by (cases r) simp_all
  qed
qed

lemma emits_bindM [emits_intros]:
  "emits P m \<Longrightarrow> (\<And>x. emits P (k x)) \<Longrightarrow> emits P (bindM m k)"
  unfolding bindM_def by (intro emits_catchM emits_fail)

lemma emits_thenM [emits_intros]: "emits P m \<Longrightarrow> emits P k \<Longrightarrow> emits P (thenM m k)"
  unfolding thenM_def by (intro emits_bindM)

lemma emits_wrapM [emits_intros]: "emits P m \<Longrightarrow> emits P (wrapM p m)"
  unfolding wrapM_def by (intro emits_catchM emits_fail emits_ret)

lemma emits_whenM [emits_intros]: "(b \<Longrightarrow> emits P m) \<Longrightarrow> emits P (whenM b m)"
  by (simp add: whenM_def emits_ret)

lemma emits_deref [emits_intros]: "(\<And>x. p = Some x \<Longrightarrow> emits P (k x)) \<Longrightarrow> emits P (deref p k)"
  by (simp add: deref_def emits_crash split: option.split)

lemma emits_if [emits_intros]:
  "(b \<Longrightarrow> emits P m) \<Longrightarrow> (\<not> b \<Longrightarrow> emits P n) \<Longrightarrow> emits P (if b then m else n)"
  by simp

lemma emits_option [emits_intros]:
  "(p = None \<Longrightarrow> emits P m) \<Longrightarrow> (\<And>x. p = Some x \<Longrightarrow> emits P (k x)) \<Longrightarrow>
     emits P (case p of None \<Rightarrow> m | Some x \<Rightarrow> k x)"
  by (simp split: option.split)

lemma emits_list_case [emits_intros]:
  "(xs = [] \<Longrightarrow> emits P m) \<Longrightarrow> (\<And>y ys. xs = y # ys \<Longrightarrow> emits P (k y ys)) \<Longrightarrow>
     emits P (case xs of [] \<Rightarrow> m | y # ys \<Rightarrow> k y ys)"
  by (simp split: list.split)

lemma emits_ext [emits_intros]: "(\<And>b. P (c, b)) \<Longrightarrow> emits P (ext c f)"
  by (auto simp: emits_def runs_simps extends_def split: prod.split)

lemma emits_record_call [emits_intros]: "P (c, True) \<Longrightarrow> emits P (record_call c)"
  by (auto simp: emits_def runs_simps extends_def)

lemma emits_readW [emits_intros]:
  assumes "\<And>x. emits P (k x)"
  shows "emits P (readW f k)"
proof -
  have "runs (k x) (s\<lparr>world := w\<rparr>) (\<lambda>_ t. extends P s t)" for x w s
    using emits_runs [OF assms, of x "s\<lparr>world := w\<rparr>"] by (simp add: extends_def)
  then show ?thesis
    by (auto simp: emits_def runs_simps split: prod.split)
qed

lemma emits_forM [emits_intros]: "(\<And>x. x \<in> set xs \<Longrightarrow> emits P (f x)) \<Longrightarrow> emits P (forM xs f)"
  by (induction xs) (auto intro: emits_ret emits_thenM)

lemma emits_let [emits_intros]: "emits P (f x) \<Longrightarrow> emits P (let y = x in f y)"
  by simp

text \<open>A computed \<open>(value, error)\<close>.\<close>

definition liftR :: "'a result \<Rightarrow> ('s, 'a) gop" where
  "liftR r s = (r, s)"

lemma runs_liftR [runs_simps]: "runs (liftR r) s R = R r s"
  by (simp add: runs_def liftR_def)

lemma emits_liftR [emits_intros]: "emits P (liftR r)"
  by (simp add: emits_def runs_simps)

section \<open>Preserved predicates and possible results\<close>

text \<open>\<open>preserves I m\<close>: \<open>I\<close> survives \<open>m\<close>, however \<open>m\<close> ends. \<open>returns Q m\<close>: every value \<open>m\<close>
  returns satisfies \<open>Q\<close>.\<close>

definition preserves :: "('s \<Rightarrow> bool) \<Rightarrow> ('s, 'a) gop \<Rightarrow> bool" where
  "preserves I m = (\<forall>s. I s \<longrightarrow> runs m s (\<lambda>_ t. I t))"

definition returns :: "('a \<Rightarrow> bool) \<Rightarrow> ('s, 'a) gop \<Rightarrow> bool" where
  "returns Q m = (\<forall>s. runs m s (\<lambda>r _. \<forall>x. r = Ok x \<longrightarrow> Q x))"

named_theorems preserves_intros "introduction rules for preserves"

lemma preservesD: "preserves I m \<Longrightarrow> I s \<Longrightarrow> runs m s (\<lambda>_ t. I t)"
  by (simp add: preserves_def)

lemma preserves_ret [preserves_intros]: "preserves I (ret x)"
  by (simp add: preserves_def runs_simps)

lemma preserves_fail [preserves_intros]: "preserves I (fail e)"
  by (simp add: preserves_def runs_simps)

lemma preserves_crash [preserves_intros]: "preserves I (crash e)"
  by (simp add: preserves_def runs_simps)

lemma preserves_liftR [preserves_intros]: "preserves I (liftR r)"
  by (simp add: preserves_def runs_simps)

lemma preserves_catchM [preserves_intros]:
  assumes "preserves I m" and "\<And>e. preserves I (h e)" and "\<And>x. preserves I (k x)"
  shows "preserves I (catchM m h k)"
  unfolding preserves_def runs_catchM
proof (intro allI impI)
  fix s assume "I s"
  with assms(1) have "runs m s (\<lambda>_ t. I t)" by (rule preservesD)
  then show "runs m s (caseR (\<lambda>x t. runs (k x) t (\<lambda>_. I)) (\<lambda>e t. runs (h e) t (\<lambda>_. I)) (\<lambda>c. I))"
    by (rule runs_weaken) (auto simp: caseR_def assms preservesD split: result.split)
qed

lemma preserves_bindM [preserves_intros]:
  "preserves I m \<Longrightarrow> (\<And>x. preserves I (k x)) \<Longrightarrow> preserves I (bindM m k)"
  unfolding bindM_def by (intro preserves_catchM preserves_fail)

lemma preserves_thenM [preserves_intros]: "preserves I m \<Longrightarrow> preserves I k \<Longrightarrow> preserves I (thenM m k)"
  unfolding thenM_def by (intro preserves_bindM)

lemma preserves_wrapM [preserves_intros]: "preserves I m \<Longrightarrow> preserves I (wrapM p m)"
  unfolding wrapM_def by (intro preserves_catchM preserves_fail preserves_ret)

lemma preserves_whenM [preserves_intros]: "(b \<Longrightarrow> preserves I m) \<Longrightarrow> preserves I (whenM b m)"
  by (simp add: whenM_def preserves_ret)

lemma preserves_deref [preserves_intros]: "(\<And>x. p = Some x \<Longrightarrow> preserves I (k x)) \<Longrightarrow> preserves I (deref p k)"
  by (simp add: deref_def preserves_crash split: option.split)

lemma preserves_if [preserves_intros]:
  "(b \<Longrightarrow> preserves I m) \<Longrightarrow> (\<not> b \<Longrightarrow> preserves I n) \<Longrightarrow> preserves I (if b then m else n)"
  by simp

lemma preserves_option [preserves_intros]:
  "(p = None \<Longrightarrow> preserves I m) \<Longrightarrow> (\<And>x. p = Some x \<Longrightarrow> preserves I (k x)) \<Longrightarrow>
     preserves I (case p of None \<Rightarrow> m | Some x \<Rightarrow> k x)"
  by (simp split: option.split)

lemma preserves_list_case [preserves_intros]:
  "(xs = [] \<Longrightarrow> preserves I m) \<Longrightarrow> (\<And>y ys. xs = y # ys \<Longrightarrow> preserves I (k y ys)) \<Longrightarrow>
     preserves I (case xs of [] \<Rightarrow> m | y # ys \<Rightarrow> k y ys)"
  by (simp split: list.split)

lemma preserves_pair_case [preserves_intros]:
  "(\<And>x y. p = (x, y) \<Longrightarrow> preserves I (k x y)) \<Longrightarrow> preserves I (case p of (x, y) \<Rightarrow> k x y)"
  by (simp split: prod.split)

lemma preserves_readW [preserves_intros]:
  assumes "\<And>s x w. I s \<Longrightarrow> f (world s) = (x, w) \<Longrightarrow> I (s\<lparr>world := w\<rparr>)" and "\<And>x. preserves I (k x)"
  shows "preserves I (readW f k)"
  using assms by (auto simp: preserves_def runs_readW split: prod.split)

lemma preserves_forM [preserves_intros]: "(\<And>x. x \<in> set xs \<Longrightarrow> preserves I (f x)) \<Longrightarrow> preserves I (forM xs f)"
  by (induction xs) (auto intro: preserves_ret preserves_thenM)

lemma preserves_let [preserves_intros]: "preserves I (f x) \<Longrightarrow> preserves I (let y = x in f y)"
  by simp

lemma emits_bindM_returns:
  assumes "emits P m" and "returns Q m" and "\<And>x. Q x \<Longrightarrow> emits P (k x)"
  shows "emits P (bindM m k)"
  unfolding emits_def runs_bindM
proof
  fix s
  have "runs m s (\<lambda>r t. extends P s t \<and> (\<forall>x. r = Ok x \<longrightarrow> Q x))"
    using assms(1,2) by (simp add: emits_def returns_def runs_conj)
  then show "runs m s (caseR (\<lambda>x t. runs (k x) t (\<lambda>_ t. extends P s t)) (\<lambda>e t. extends P s t) (\<lambda>c t. extends P s t))"
  proof (rule runs_weaken)
    fix r t
    assume r: "extends P s t \<and> (\<forall>x. r = Ok x \<longrightarrow> Q x)"
    then have "runs (k x) t (\<lambda>_ u. extends P s u)" if "r = Ok x" for x
      using that by (auto intro: extends_trans runs_weaken [OF emits_runs [OF assms(3)]])
    then show "caseR (\<lambda>x t. runs (k x) t (\<lambda>_ t. extends P s t)) (\<lambda>e t. extends P s t) (\<lambda>c t. extends P s t) r t"
      using r by (cases r) simp_all
  qed
qed

section \<open>Objects found by a key\<close>

lemma find_holds: "find P xs = Some x \<Longrightarrow> x \<in> set xs \<and> P x"
  by (induction xs) (auto split: if_splits)

lemma find_member: "List.find P xs = Some x \<Longrightarrow> x \<in> set xs"
  by (metis find_Some_iff nth_mem)

lemma find_change:
  assumes "\<And>x. key (f x) = key x"
  shows "List.find (\<lambda>x. key x = n) (map (\<lambda>x. if key x = k then f x else x) xs) =
    map_option (\<lambda>x. if key x = k then f x else x) (List.find (\<lambda>x. key x = n) xs)"
  by (induction xs) (auto simp: assms)

lemma find_key: "List.find (\<lambda>x. key x = n) xs = Some x \<Longrightarrow> key x = n"
  by (auto simp: find_Some_iff)

lemma find_distinct_key:
  "distinct (map key xs) \<Longrightarrow> x \<in> set xs \<Longrightarrow> List.find (\<lambda>y. key y = key x) xs = Some x"
  by (induction xs) auto

end
