(* ===== verification/GoStrings.thy ===== *)
theory GoStrings
  imports Prelude "HOL-Library.Sublist"
begin

text \<open>
  The parts of Go's \<open>strings\<close> and \<open>strconv\<close> that the controllers call, on byte strings, and
  the two small packages built on them: \<open>internal/helper/kubernetes/namespacedname.go\<close> and
  \<open>internal/helper/kubernetes/version.go\<close>. \<open>strings.EqualFold\<close> and \<open>strings.ToLower\<close> are
  given on ASCII, which is all that the protocol names, ether types and directions they are
  applied to contain.
\<close>

section \<open>strings\<close>

text \<open>\<open>strings.Split\<close> with a one-byte separator.\<close>

fun splitOn :: "char \<Rightarrow> string \<Rightarrow> string list" where
  "splitOn c [] = [[]]"
| "splitOn c (x # xs) =
     (if x = c then [] # splitOn c xs
      else (case splitOn c xs of [] \<Rightarrow> [[x]] | y # ys \<Rightarrow> (x # y) # ys))"

lemma splitOn_ne [simp]: "splitOn c xs \<noteq> []"
  by (cases xs) (auto split: list.splits)

lemma splitOn_absent: "c \<notin> set xs \<Longrightarrow> splitOn c xs = [xs]"
  by (induction xs) auto

lemma splitOn_sep: "c \<notin> set xs \<Longrightarrow> splitOn c (xs @ c # ys) = xs # splitOn c ys"
  by (induction xs) auto

lemma splitOn_parts: "part \<in> set (splitOn c xs) \<Longrightarrow> c \<notin> set part"
proof (induction xs arbitrary: part)
  case Nil
  then show ?case by simp
next
  case (Cons x xs)
  obtain y ys where "splitOn c xs = y # ys"
    by (cases "splitOn c xs") simp_all
  with Cons show ?case by (auto split: if_splits)
qed

fun join_sep :: "char \<Rightarrow> string list \<Rightarrow> string" where
  "join_sep c [] = []"
| "join_sep c [x] = x"
| "join_sep c (x # y # ys) = x @ c # join_sep c (y # ys)"

lemma join_splitOn: "join_sep c (splitOn c xs) = xs"
proof (induction xs)
  case Nil
  then show ?case by simp
next
  case (Cons x xs)
  obtain y ys where s: "splitOn c xs = y # ys"
    by (cases "splitOn c xs") simp_all
  with Cons have j: "join_sep c (y # ys) = xs" by simp
  show ?case
    using s j by (cases ys) auto
qed

definition HasPrefix :: "string \<Rightarrow> string \<Rightarrow> bool" where
  "HasPrefix s p = prefix p s"

definition TrimPrefix :: "string \<Rightarrow> string \<Rightarrow> string" where
  "TrimPrefix s p = (if prefix p s then drop (length p) s else s)"

definition ascii_lower :: "char \<Rightarrow> char" where
  "ascii_lower c = (if 65 \<le> (of_char c :: nat) \<and> (of_char c :: nat) \<le> 90
       then char_of ((of_char c :: nat) + 32) else c)"

definition ToLower :: "string \<Rightarrow> string" where
  "ToLower s = map ascii_lower s"

definition EqualFold :: "string \<Rightarrow> string \<Rightarrow> bool" where
  "EqualFold s t = (ToLower s = ToLower t)"

lemma EqualFold_refl [simp]: "EqualFold s s"
  by (simp add: EqualFold_def)

lemma EqualFold_sym: "EqualFold s t \<Longrightarrow> EqualFold t s"
  by (simp add: EqualFold_def)

lemma EqualFold_trans: "EqualFold s t \<Longrightarrow> EqualFold t u \<Longrightarrow> EqualFold s u"
  by (simp add: EqualFold_def)

text \<open>A lookup in a Go \<open>map[string]string\<close>: the zero value where the key is absent.\<close>

definition at_key :: "(string \<rightharpoonup> string) \<Rightarrow> string \<Rightarrow> string" where
  "at_key m k = (case m k of None \<Rightarrow> [] | Some v \<Rightarrow> v)"

lemma at_key_upd [simp]: "at_key (m(k \<mapsto> v)) k' = (if k' = k then v else at_key m k')"
  by (simp add: at_key_def)

lemma at_key_empty [simp]: "at_key Map.empty k = []"
  by (simp add: at_key_def)

section \<open>strconv\<close>

definition ParseBool :: "string \<Rightarrow> bool option" where
  "ParseBool s =
     (if s \<in> set [''1'', ''t'', ''T'', ''TRUE'', ''true'', ''True''] then Some True
      else if s \<in> set [''0'', ''f'', ''F'', ''FALSE'', ''false'', ''False''] then Some False
      else None)"

text \<open>\<open>val, _ := strconv.ParseBool(s)\<close>: false when the text does not parse.\<close>

definition ParseBool_val :: "string \<Rightarrow> bool" where
  "ParseBool_val s = (ParseBool s = Some True)"

definition is_digit :: "char \<Rightarrow> bool" where
  "is_digit c = (48 \<le> (of_char c :: nat) \<and> (of_char c :: nat) \<le> 57)"

definition digit_val :: "char \<Rightarrow> nat" where
  "digit_val c = of_char c - 48"

definition digit_char :: "nat \<Rightarrow> char" where
  "digit_char n = char_of (n + 48)"

definition parse_digits :: "string \<Rightarrow> nat option" where
  "parse_digits s =
     (if s = [] \<or> \<not> list_all is_digit s then None
      else Some (foldl (\<lambda>n c. 10 * n + digit_val c) 0 s))"

text \<open>\<open>strconv.Atoi\<close>: an optional sign, then decimal digits; 64 bits.\<close>

definition in_int64 :: "int \<Rightarrow> bool" where
  "in_int64 i = (- (2 ^ 63) \<le> i \<and> i < 2 ^ 63)"

definition Atoi :: "string \<Rightarrow> int option" where
  "Atoi s =
     (let (sign, ds) = (case s of
          [] \<Rightarrow> (1, [])
        | c # cs \<Rightarrow> if c = CHR ''-'' then (- 1, cs) else if c = CHR ''+'' then (1, cs) else (1, s))
      in case parse_digits ds of
          None \<Rightarrow> None
        | Some n \<Rightarrow> if in_int64 (sign * int n) then Some (sign * int n) else None)"

text \<open>\<open>strconv.Itoa\<close>\<close>

fun nat_digits :: "nat \<Rightarrow> string" where
  "nat_digits n = (if n < 10 then [digit_char n] else nat_digits (n div 10) @ [digit_char (n mod 10)])"

declare nat_digits.simps [simp del]

definition Itoa :: "int \<Rightarrow> string" where
  "Itoa i = (if i < 0 then CHR ''-'' # nat_digits (nat (- i)) else nat_digits (nat i))"

lemma digit_char_val: "n < 10 \<Longrightarrow> digit_val (digit_char n) = n"
  by (simp add: digit_val_def digit_char_def)

lemma digit_char_digit: "n < 10 \<Longrightarrow> is_digit (digit_char n)"
  by (simp add: is_digit_def digit_char_def)

lemma nat_digits_ne [simp]: "nat_digits n \<noteq> []"
  by (subst nat_digits.simps) simp

lemma nat_digits_digits: "list_all is_digit (nat_digits n)"
proof (induction n rule: nat_digits.induct)
  case (1 n)
  then show ?case
    by (subst nat_digits.simps) (auto simp: digit_char_digit)
qed

lemma nat_digits_val: "foldl (\<lambda>n c. 10 * n + digit_val c) 0 (nat_digits n) = n"
proof (induction n rule: nat_digits.induct)
  case (1 n)
  show ?case
  proof (cases "n < 10")
    case True
    then show ?thesis by (subst nat_digits.simps) (simp add: digit_char_val)
  next
    case False
    then show ?thesis
      using "1.IH" by (subst nat_digits.simps) (simp add: digit_char_val)
  qed
qed

lemma parse_nat_digits: "parse_digits (nat_digits n) = Some n"
  by (simp add: parse_digits_def nat_digits_digits nat_digits_val)

lemma digit_not_sign: "is_digit c \<Longrightarrow> c \<noteq> CHR ''-'' \<and> c \<noteq> CHR ''+''"
  by (auto simp: is_digit_def)

lemma Itoa_ne [simp]: "Itoa i \<noteq> []"
  by (simp add: Itoa_def)

lemma Atoi_Itoa: "in_int64 i \<Longrightarrow> Atoi (Itoa i) = Some i"
proof (cases "i < 0")
  case True
  moreover assume "in_int64 i"
  ultimately show ?thesis
    by (simp add: Atoi_def Itoa_def parse_nat_digits)
next
  case False
  obtain c cs where d: "nat_digits (nat i) = c # cs"
    by (cases "nat_digits (nat i)") simp_all
  then have "is_digit c"
    using nat_digits_digits [of "nat i"] by simp
  then have "c \<noteq> CHR ''-''" "c \<noteq> CHR ''+''"
    using digit_not_sign by auto
  moreover assume "in_int64 i"
  ultimately show ?thesis
    using False d parse_nat_digits [of "nat i"] by (simp add: Atoi_def Itoa_def)
qed

lemma Atoi_range: "Atoi s = Some i \<Longrightarrow> in_int64 i"
  by (auto simp: Atoi_def Let_def split: list.splits option.splits if_splits prod.splits)

text \<open>Itoa is injective on 64-bit values; no two revisions share their text.\<close>

lemma Itoa_inject: "in_int64 i \<Longrightarrow> in_int64 j \<Longrightarrow> Itoa i = Itoa j \<longleftrightarrow> i = j"
  by (metis Atoi_Itoa option.inject)

section \<open>Namespaced names\<close>

record namespaced_name =
  nn_Namespace :: string
  nn_Name :: string

text \<open>\<open>types.NamespacedName.String()\<close>\<close>

definition nn_String :: "namespaced_name \<Rightarrow> string" where
  "nn_String n = nn_Namespace n @ CHR ''/'' # nn_Name n"

definition ErrNamespacedNameSplit :: goerr where
  "ErrNamespacedNameSplit = HelperErr ''unable to decode string into NamespacedName''"

definition ToNamespacedName :: "string \<Rightarrow> namespaced_name result" where
  "ToNamespacedName nnString =
     (case splitOn (CHR ''/'') nnString of
        [ns, name] \<Rightarrow> Ok \<lparr>nn_Namespace = ns, nn_Name = name\<rparr>
      | _ \<Rightarrow> Err ErrNamespacedNameSplit)"

lemma ToNamespacedName_String:
  "CHR ''/'' \<notin> set (nn_Namespace n) \<Longrightarrow> CHR ''/'' \<notin> set (nn_Name n) \<Longrightarrow>
     ToNamespacedName (nn_String n) = Ok n"
  by (simp add: ToNamespacedName_def nn_String_def splitOn_sep splitOn_absent)

lemma ToNamespacedName_Ok:
  assumes "ToNamespacedName s = Ok n"
  shows "nn_String n = s"
proof -
  obtain ns name where sp: "splitOn (CHR ''/'') s = [ns, name]" and n: "n = \<lparr>nn_Namespace = ns, nn_Name = name\<rparr>"
    using assms by (auto simp: ToNamespacedName_def split: list.splits)
  have "join_sep (CHR ''/'') [ns, name] = s"
    using join_splitOn [of "CHR ''/''" s] sp by simp
  then show ?thesis by (simp add: n nn_String_def)
qed

section \<open>Server versions\<close>

datatype version = Version (Major: int) (Minor: int)

definition IsGreater :: "version \<Rightarrow> version \<Rightarrow> bool" where
  "IsGreater v u =
     (if Major v > Major u then True
      else if Major v < Major u then False
      else if Minor v > Minor u then True
      else if Minor v < Minor u then False
      else False)"

definition IsEqual :: "version \<Rightarrow> version \<Rightarrow> bool" where
  "IsEqual v u = (Major v = Major u \<and> Minor v = Minor u)"

definition IsLower :: "version \<Rightarrow> version \<Rightarrow> bool" where
  "IsLower v u = (if IsGreater v u then False else if IsEqual v u then False else True)"

lemma IsLower_iff: "IsLower v u = (Major v < Major u \<or> Major v = Major u \<and> Minor v < Minor u)"
  by (auto simp: IsLower_def IsGreater_def IsEqual_def)

lemma IsEqual_iff: "IsEqual v u = (v = u)"
  by (cases v; cases u) (auto simp: IsEqual_def)

instantiation version :: linorder
begin

definition less_version :: "version \<Rightarrow> version \<Rightarrow> bool" where
  "less_version v u = IsLower v u"

definition less_eq_version :: "version \<Rightarrow> version \<Rightarrow> bool" where
  "less_eq_version v u = (IsLower v u \<or> IsEqual v u)"

instance
proof
  fix v u w :: version
  show "(v < u) = (v \<le> u \<and> \<not> u \<le> v)"
    by (auto simp: less_version_def less_eq_version_def IsLower_iff IsEqual_iff)
  show "v \<le> v"
    by (simp add: less_eq_version_def IsEqual_iff)
  show "v \<le> u \<Longrightarrow> u \<le> w \<Longrightarrow> v \<le> w"
    by (auto simp: less_eq_version_def IsLower_iff IsEqual_iff)
  show "v \<le> u \<Longrightarrow> u \<le> v \<Longrightarrow> v = u"
    by (auto simp: less_eq_version_def IsLower_iff IsEqual_iff)
  show "v \<le> u \<or> u \<le> v"
    by (cases v; cases u) (auto simp: less_eq_version_def IsLower_iff IsEqual_iff)
qed

end

text \<open>The three comparison methods of the source are the order of the type.\<close>

lemma IsGreater_less: "IsGreater v u = (u < v)"
  by (auto simp: less_version_def IsLower_iff IsGreater_def)

end
