(* ===== verification/ApiTypes.thy ===== *)
theory ApiTypes
  imports GoStrings
begin

text \<open>
  The data the controllers work on: the custom resources of \<open>src/api/v1beta1\<close>
  (\<open>LoadBalancer\<close>, \<open>LoadBalancerSet\<close>, \<open>LoadBalancerMachine\<close> and the structs they contain),
  the fields of the Kubernetes types they embed, and the constants of the API and of
  \<open>internal/helper/const.go\<close>. A Go struct is a record whose fields carry a short prefix, an
  embedded struct is the record extended, a pointer is an option, a time is a number of
  nanoseconds (0 is Go's zero time), a Go \<open>int\<close> is an \<open>int\<close>. A slice is a list; where the
  code tells a nil slice from an empty one (\<open>reflect.DeepEqual\<close> on endpoints, their addresses,
  source ranges and additional networks) it is an optional list.
\<close>

section \<open>Constants\<close>

definition ServiceImageID :: string where "ServiceImageID = ''yawol.stackit.cloud/imageId''"
definition ServiceFlavorID :: string where "ServiceFlavorID = ''yawol.stackit.cloud/flavorId''"
definition ServiceDefaultNetworkID :: string where
  "ServiceDefaultNetworkID = ''yawol.stackit.cloud/defaultNetworkID''"
definition ServiceDefaultSubnetID :: string where
  "ServiceDefaultSubnetID = ''yawol.stackit.cloud/defaultSubnetID''"
definition ServiceSkipCloudControllerDefaultNetworkID :: string where
  "ServiceSkipCloudControllerDefaultNetworkID = ''yawol.stackit.cloud/skipCloudControllerDefaultNetworkID''"
definition ServiceDefaultProjectID :: string where
  "ServiceDefaultProjectID = ''yawol.stackit.cloud/projectID''"
definition ServiceFloatingNetworkID :: string where
  "ServiceFloatingNetworkID = ''yawol.stackit.cloud/floatingNetworkID''"
definition ServiceAvailabilityZone :: string where
  "ServiceAvailabilityZone = ''yawol.stackit.cloud/availabilityZone''"
definition ServiceInternalLoadbalancer :: string where
  "ServiceInternalLoadbalancer = ''yawol.stackit.cloud/internalLB''"
definition ServiceDebug :: string where "ServiceDebug = ''yawol.stackit.cloud/debug''"
definition ServiceDebugSSHKey :: string where "ServiceDebugSSHKey = ''yawol.stackit.cloud/debugsshkey''"
definition ServiceClassName :: string where "ServiceClassName = ''yawol.stackit.cloud/className''"
definition ServiceReplicas :: string where "ServiceReplicas = ''yawol.stackit.cloud/replicas''"
definition ServiceLoadBalancerSourceRanges :: string where
  "ServiceLoadBalancerSourceRanges = ''yawol.stackit.cloud/loadBalancerSourceRanges''"
definition ServiceTCPProxyProtocol :: string where
  "ServiceTCPProxyProtocol = ''yawol.stackit.cloud/tcpProxyProtocol''"
definition ServiceTCPProxyProtocolPortsFilter :: string where
  "ServiceTCPProxyProtocolPortsFilter = ''yawol.stackit.cloud/tcpProxyProtocolPortsFilter''"
definition ServiceTCPIdleTimeout :: string where
  "ServiceTCPIdleTimeout = ''yawol.stackit.cloud/tcpIdleTimeout''"
definition ServiceUDPIdleTimeout :: string where
  "ServiceUDPIdleTimeout = ''yawol.stackit.cloud/udpIdleTimeout''"
definition ServiceExistingFloatingIP :: string where
  "ServiceExistingFloatingIP = ''yawol.stackit.cloud/existingFloatingIP''"
definition ServiceLogForward :: string where "ServiceLogForward = ''yawol.stackit.cloud/logForward''"
definition ServiceLogForwardLokiURL :: string where
  "ServiceLogForwardLokiURL = ''yawol.stackit.cloud/logForwardLokiURL''"
definition ServiceLogForwardProxyURL :: string where
  "ServiceLogForwardProxyURL = ''yawol.stackit.cloud/logForwardProxyURL''"
definition ServiceServerGroupPolicy :: string where
  "ServiceServerGroupPolicy = ''yawol.stackit.cloud/serverGroupPolicy''"
definition ServiceAdditionalNetworks :: string where
  "ServiceAdditionalNetworks = ''yawol.stackit.cloud/additionalNetworks''"

definition LoadBalancerAdHocDebug :: string where
  "LoadBalancerAdHocDebug = ''yawol.stackit.cloud/adHocDebug''"
definition LoadBalancerAdHocDebugSSHKey :: string where
  "LoadBalancerAdHocDebugSSHKey = ''yawol.stackit.cloud/adHocDebugSSHKey''"
definition LoadBalancerLogLabelPrefix :: string where
  "LoadBalancerLogLabelPrefix = ''logging.yawol.stackit.cloud/''"
definition LoadBalancerKeepFloatingIP :: string where
  "LoadBalancerKeepFloatingIP = ''yawol.stackit.cloud/keepFloatingIP''"
definition LoadBalancerKeepPort :: string where
  "LoadBalancerKeepPort = ''yawol.stackit.cloud/keepPort''"
definition LoadBalancerKeepSecurityGroup :: string where
  "LoadBalancerKeepSecurityGroup = ''yawol.stackit.cloud/keepSecurityGroup''"
definition LoadBalancerMachineCreationTimeoutAnnotation :: string where
  "LoadBalancerMachineCreationTimeoutAnnotation = ''yawol.stackit.cloud/creationTimeout''"

text \<open>Durations in nanoseconds, as Go's \<open>time.Duration\<close>.\<close>

definition Millisecond :: int where "Millisecond = 1000000"
definition Second :: int where "Second = 1000 * Millisecond"
definition Minute :: int where "Minute = 60 * Second"

definition OpenstackReconcileTime :: int where "OpenstackReconcileTime = 5 * Minute"
definition DefaultRequeueTime :: int where "DefaultRequeueTime = 10 * Millisecond"
definition RevisionAnnotation :: string where
  "RevisionAnnotation = ''loadbalancer.yawol.stackit.cloud/revision''"
definition HashLabel :: string where "HashLabel = ''lbm-template-hash''"
definition LoadBalancerKind :: string where "LoadBalancerKind = ''LoadBalancer''"
definition HasKeepalivedMaster :: string where "HasKeepalivedMaster = ''HasKeepalivedMaster''"

section \<open>Kubernetes types\<close>

type_synonym labels = "string \<rightharpoonup> string"

record owner_reference =
  or_APIVersion :: string
  or_Kind :: string
  or_Name :: string
  or_UID :: string

record object_meta =
  meta_APIVersion :: string
  meta_Kind :: string
  meta_Name :: string
  meta_Namespace :: string
  meta_UID :: string
  meta_ResourceVersion :: string
  meta_Labels :: labels
  meta_Annotations :: labels
  meta_Finalizers :: "string list"
  meta_OwnerReferences :: "owner_reference list"
  meta_CreationTimestamp :: int
  meta_DeletionTimestamp :: "int option"

record label_selector_requirement =
  req_Key :: string
  req_Operator :: string
  req_Values :: "string list"

record label_selector =
  MatchLabels :: labels
  MatchExpressions :: "label_selector_requirement list"

datatype int_or_string = IntVal int | StrVal string

record service_port =
  sp_Name :: string
  sp_Protocol :: string
  sp_AppProtocol :: "string option"
  sp_Port :: int
  sp_TargetPort :: int_or_string
  sp_NodePort :: int

text \<open>\<open>corev1.NodeCondition\<close>, the conditions of a machine\<close>

record node_condition =
  nc_Type :: string
  nc_Status :: string
  nc_LastHeartbeatTime :: int
  nc_LastTransitionTime :: int
  nc_Reason :: string
  nc_Message :: string

text \<open>\<open>metav1.Condition\<close>, the conditions of a set\<close>

record condition =
  cond_Type :: string
  cond_Status :: string
  cond_LastTransitionTime :: int
  cond_Reason :: string
  cond_Message :: string

definition ConditionTrue :: string where "ConditionTrue = ''True''"
definition ConditionFalse :: string where "ConditionFalse = ''False''"
definition ConditionUnknown :: string where "ConditionUnknown = ''Unknown''"

text \<open>\<open>controllerutil.ContainsFinalizer\<close> and \<open>RemoveFinalizer\<close> on an object's finalizers.\<close>

definition ContainsFinalizer :: "string list \<Rightarrow> string \<Rightarrow> bool" where
  "ContainsFinalizer fs f = (f \<in> set fs)"

definition RemoveFinalizer :: "string list \<Rightarrow> string \<Rightarrow> string list" where
  "RemoveFinalizer fs f = filter (\<lambda>g. g \<noteq> f) fs"

definition is_deleting :: "'z object_meta_scheme \<Rightarrow> bool" where
  "is_deleting obj = (meta_DeletionTimestamp obj \<noteq> None)"

section \<open>The LoadBalancer\<close>

record secret_reference =
  ref_Name :: string
  ref_Namespace :: string

record default_network =
  dn_FloatingNetID :: "string option"
  dn_NetworkID :: string
  dn_SubnetID :: "string option"

record additional_network =
  an_NetworkID :: string

record image_ref =
  ImageID :: "string option"
  ImageName :: "string option"
  ImageSearch :: "string option"
  ImageIDOld :: "string option"
  ImageNameOld :: "string option"
  ImageSearchOld :: "string option"

record flavor_ref =
  FlavorID :: "string option"
  FlavorName :: "string option"
  FlavorSearch :: "string option"
  FlavorIDOld :: "string option"
  FlavorNameOld :: "string option"
  FlavorSearchOld :: "string option"

record infrastructure =
  infra_FloatingNetID :: "string option"
  infra_NetworkID :: string
  infra_DefaultNetwork :: default_network
  infra_AdditionalNetworks :: "additional_network list option"
  infra_Flavor :: flavor_ref
  infra_Image :: image_ref
  infra_AvailabilityZone :: string
  infra_AuthSecretRef :: secret_reference
  infra_ProjectID :: "string option"

record log_forward =
  lf_Enabled :: bool
  lf_LokiURL :: string
  lf_ProxyURL :: string
  lf_Labels :: "labels option"

record debug_settings =
  dbg_Enabled :: bool
  dbg_SshkeyName :: string

record endpoint =
  ep_Name :: string
  ep_Addresses :: "string list option"

record lb_options =
  opt_InternalLB :: bool
  opt_LoadBalancerSourceRanges :: "string list option"
  opt_TCPProxyProtocol :: bool
  opt_TCPProxyProtocolPortsFilter :: "int list option"
  opt_TCPIdleTimeout :: "int option"
  opt_UDPIdleTimeout :: "int option"
  opt_LogForward :: log_forward
  opt_ServerGroupPolicy :: string

record lb_spec =
  spec_Selector :: label_selector
  spec_Replicas :: int
  spec_ExistingFloatingIP :: "string option"
  spec_DebugSettings :: debug_settings
  spec_Endpoints :: "endpoint list option"
  spec_Ports :: "service_port list"
  spec_Infrastructure :: infrastructure
  spec_Options :: lb_options

record lb_status =
  ReadyReplicas :: "int option"
  Replicas :: "int option"
  ExternalIP :: "string option"
  FloatingID :: "string option"
  FloatingName :: "string option"
  PortID :: "string option"
  PortName :: "string option"
  PortIP :: "string option"
  ServerGroupID :: "string option"
  ServerGroupName :: "string option"
  SecurityGroupID :: "string option"
  SecurityGroupName :: "string option"
  SecurityGroupIDOld :: "string option"
  SecurityGroupNameOld :: "string option"
  LastOpenstackReconcile :: "int option"
  OpenstackReconcileHash :: "string option"

record load_balancer = object_meta +
  lb_Spec :: lb_spec
  lb_Status :: lb_status

section \<open>The LoadBalancerMachine\<close>

record lb_ref =
  lbr_Name :: string
  lbr_Namespace :: string

record lbm_spec =
  mspec_Infrastructure :: infrastructure
  mspec_PortID :: string
  mspec_ServerGroupID :: string
  mspec_LoadBalancerRef :: lb_ref

record lbm_template_spec =
  tmpl_Labels :: labels
  tmpl_Spec :: lbm_spec

record lbm_metric =
  metric_Type :: string
  metric_Value :: string
  metric_Time :: int

record lbm_status =
  lbm_Conditions :: "node_condition list option"
  lbm_Metrics :: "lbm_metric list option"
  lbm_CreationTimestamp :: "int option"
  lbm_LastOpenstackReconcile :: "int option"
  lbm_ServerID :: "string option"
  lbm_PortID :: "string option"
  lbm_DefaultPortID :: "string option"
  lbm_DefaultPortName :: "string option"
  lbm_DefaultPortIP :: "string option"
  lbm_ServiceAccountName :: "string option"
  lbm_ServiceAccountSecretName :: "string option"
  lbm_RoleName :: "string option"
  lbm_RoleBindingName :: "string option"

record load_balancer_machine = object_meta +
  lbm_Spec :: lbm_spec
  lbm_Status :: lbm_status

section \<open>The LoadBalancerSet\<close>

record set_spec =
  sspec_Selector :: label_selector
  sspec_Replicas :: int
  sspec_Template :: lbm_template_spec

record set_status =
  set_AvailableReplicas :: "int option"
  set_Conditions :: "condition list"
  set_ReadyReplicas :: "int option"
  set_Replicas :: "int option"

record load_balancer_set = object_meta +
  set_Spec :: set_spec
  set_Status :: set_status

text \<open>\<open>client.ObjectKeyFromObject\<close>\<close>

definition key_of :: "'z object_meta_scheme \<Rightarrow> namespaced_name" where
  "key_of obj = \<lparr>nn_Namespace = meta_Namespace obj, nn_Name = meta_Name obj\<rparr>"

text \<open>Concrete objects used by witnesses: every field at Go's zero value.\<close>

definition zero_infra :: infrastructure where
  "zero_infra = \<lparr>infra_FloatingNetID = None, infra_NetworkID = [],
     infra_DefaultNetwork = \<lparr>dn_FloatingNetID = None, dn_NetworkID = [], dn_SubnetID = None\<rparr>,
     infra_AdditionalNetworks = None,
     infra_Flavor = \<lparr>FlavorID = None, FlavorName = None, FlavorSearch = None,
        FlavorIDOld = None, FlavorNameOld = None, FlavorSearchOld = None\<rparr>,
     infra_Image = \<lparr>ImageID = None, ImageName = None, ImageSearch = None,
        ImageIDOld = None, ImageNameOld = None, ImageSearchOld = None\<rparr>,
     infra_AvailabilityZone = [], infra_AuthSecretRef = \<lparr>ref_Name = [], ref_Namespace = []\<rparr>,
     infra_ProjectID = None\<rparr>"

definition zero_options :: lb_options where
  "zero_options = \<lparr>opt_InternalLB = False, opt_LoadBalancerSourceRanges = None,
     opt_TCPProxyProtocol = False, opt_TCPProxyProtocolPortsFilter = None,
     opt_TCPIdleTimeout = None, opt_UDPIdleTimeout = None,
     opt_LogForward = \<lparr>lf_Enabled = False, lf_LokiURL = [], lf_ProxyURL = [], lf_Labels = None\<rparr>,
     opt_ServerGroupPolicy = []\<rparr>"

definition zero_lb_spec :: lb_spec where
  "zero_lb_spec = \<lparr>spec_Selector = \<lparr>MatchLabels = Map.empty, MatchExpressions = []\<rparr>,
     spec_Replicas = 0, spec_ExistingFloatingIP = None,
     spec_DebugSettings = \<lparr>dbg_Enabled = False, dbg_SshkeyName = []\<rparr>,
     spec_Endpoints = None, spec_Ports = [], spec_Infrastructure = zero_infra,
     spec_Options = zero_options\<rparr>"

definition zero_lb_status :: lb_status where
  "zero_lb_status = \<lparr>ReadyReplicas = None, Replicas = None, ExternalIP = None,
     FloatingID = None, FloatingName = None, PortID = None, PortName = None, PortIP = None,
     ServerGroupID = None, ServerGroupName = None, SecurityGroupID = None,
     SecurityGroupName = None, SecurityGroupIDOld = None, SecurityGroupNameOld = None,
     LastOpenstackReconcile = None, OpenstackReconcileHash = None\<rparr>"

definition zero_lb :: load_balancer where
  "zero_lb = \<lparr>meta_APIVersion = [], meta_Kind = [], meta_Name = [], meta_Namespace = [], meta_UID = [], meta_ResourceVersion = [],
     meta_Labels = Map.empty, meta_Annotations = Map.empty, meta_Finalizers = [],
     meta_OwnerReferences = [], meta_CreationTimestamp = 0, meta_DeletionTimestamp = None,
     lb_Spec = zero_lb_spec, lb_Status = zero_lb_status\<rparr>"

end
