(* ===== verification/MachineApi.thy ===== *)
theory MachineApi
  imports ApiTypes
begin

text \<open>
  What the LoadBalancerMachine controller uses beyond the objects of the other controllers: the servers
  of OpenStack (\<open>ServerClient\<close> of \<open>internal/openstack/interface.go\<close>) and the service accounts,
  secrets, roles and role bindings of Kubernetes, as records of functions over a world of any type, the
  patches of a machine with their effect, and the calls that are recorded in the trace.
\<close>

section \<open>Servers\<close>

record server =
  srv_ID :: string
  srv_Name :: string
  srv_Status :: string
  srv_Created :: int
  srv_Fault :: string

record server_network =
  snw_UUID :: string
  snw_Port :: string

text \<open>\<open>servers.CreateOpts\<close>, with the key of \<open>keypairs.CreateOptsExt\<close> where that wraps it.\<close>

record server_create_opts =
  sco_Name :: string
  sco_FlavorRef :: string
  sco_ImageRef :: string
  sco_UserData :: string
  sco_AvailabilityZone :: string
  sco_Networks :: "server_network list"
  sco_KeyName :: "string option"

section \<open>Access of a machine\<close>

record service_account =
  sa_Name :: string
  sa_Namespace :: string
  sa_Secrets :: "string list"

record policy_rule =
  pr_Verbs :: "string list"
  pr_APIGroups :: "string list"
  pr_Resources :: "string list"
  pr_ResourceNames :: "string list"

record role_binding =
  rb_Key :: namespaced_name
  rb_SubjectKind :: string
  rb_Subject :: namespaced_name
  rb_RoleAPIGroup :: string
  rb_RoleKind :: string
  rb_RoleName :: string

section \<open>Patches of a machine\<close>

datatype machine_patch =
    MSetFields lbm_status
  | MRemoveKey string
  | MReport "node_condition list option option" "lbm_metric list option option"

text \<open>The last one is the difference that the yawollet sends: for conditions and for metrics either no key,
  \<open>null\<close> or a value.\<close>

definition take_new :: "'a option \<Rightarrow> 'a option \<Rightarrow> 'a option" where
  "take_new p old = (case p of None \<Rightarrow> old | Some v \<Rightarrow> Some v)"

definition replaced :: "'a option \<Rightarrow> 'a \<Rightarrow> 'a" where
  "replaced p old = (case p of None \<Rightarrow> old | Some v \<Rightarrow> v)"

definition merge_lbm_fields :: "lbm_status \<Rightarrow> lbm_status \<Rightarrow> lbm_status" where
  "merge_lbm_fields p st = \<lparr>
     lbm_Conditions = take_new (lbm_Conditions p) (lbm_Conditions st),
     lbm_Metrics = take_new (lbm_Metrics p) (lbm_Metrics st),
     lbm_CreationTimestamp = take_new (lbm_CreationTimestamp p) (lbm_CreationTimestamp st),
     lbm_LastOpenstackReconcile = take_new (lbm_LastOpenstackReconcile p) (lbm_LastOpenstackReconcile st),
     lbm_ServerID = take_new (lbm_ServerID p) (lbm_ServerID st),
     lbm_PortID = take_new (lbm_PortID p) (lbm_PortID st),
     lbm_DefaultPortID = take_new (lbm_DefaultPortID p) (lbm_DefaultPortID st),
     lbm_DefaultPortName = take_new (lbm_DefaultPortName p) (lbm_DefaultPortName st),
     lbm_DefaultPortIP = take_new (lbm_DefaultPortIP p) (lbm_DefaultPortIP st),
     lbm_ServiceAccountName = take_new (lbm_ServiceAccountName p) (lbm_ServiceAccountName st),
     lbm_ServiceAccountSecretName = take_new (lbm_ServiceAccountSecretName p) (lbm_ServiceAccountSecretName st),
     lbm_RoleName = take_new (lbm_RoleName p) (lbm_RoleName st),
     lbm_RoleBindingName = take_new (lbm_RoleBindingName p) (lbm_RoleBindingName st)\<rparr>"

text \<open>The keys are the JSON names of the fields of \<open>LoadBalancerMachineStatus\<close>.\<close>

definition drop_if :: "bool \<Rightarrow> 'a option \<Rightarrow> 'a option" where
  "drop_if b x = (if b then None else x)"

definition remove_lbm_key :: "string \<Rightarrow> lbm_status \<Rightarrow> lbm_status" where
  "remove_lbm_key k st = \<lparr>
     lbm_Conditions = drop_if (k = ''conditions'') (lbm_Conditions st),
     lbm_Metrics = drop_if (k = ''metrics'') (lbm_Metrics st),
     lbm_CreationTimestamp = drop_if (k = ''creationTimestamp'') (lbm_CreationTimestamp st),
     lbm_LastOpenstackReconcile = drop_if (k = ''lastOpenstackReconcile'') (lbm_LastOpenstackReconcile st),
     lbm_ServerID = drop_if (k = ''serverID'') (lbm_ServerID st),
     lbm_PortID = drop_if (k = ''portID'') (lbm_PortID st),
     lbm_DefaultPortID = drop_if (k = ''defaultPortID'') (lbm_DefaultPortID st),
     lbm_DefaultPortName = drop_if (k = ''defaultPortName'') (lbm_DefaultPortName st),
     lbm_DefaultPortIP = drop_if (k = ''defaultPortIP'') (lbm_DefaultPortIP st),
     lbm_ServiceAccountName = drop_if (k = ''serviceAccountName'') (lbm_ServiceAccountName st),
     lbm_ServiceAccountSecretName = drop_if (k = ''serviceAccountSecretName'') (lbm_ServiceAccountSecretName st),
     lbm_RoleName = drop_if (k = ''roleName'') (lbm_RoleName st),
     lbm_RoleBindingName = drop_if (k = ''roleBindingName'') (lbm_RoleBindingName st)\<rparr>"

fun merge_lbm_status :: "machine_patch \<Rightarrow> lbm_status \<Rightarrow> lbm_status" where
  "merge_lbm_status (MSetFields p) st = merge_lbm_fields p st"
| "merge_lbm_status (MRemoveKey k) st = remove_lbm_key k st"
| "merge_lbm_status (MReport cs ms) st = st\<lparr>lbm_Conditions := replaced cs (lbm_Conditions st),
     lbm_Metrics := replaced ms (lbm_Metrics st)\<rparr>"

definition no_lbm_status :: lbm_status where
  "no_lbm_status = \<lparr>lbm_Conditions = None, lbm_Metrics = None, lbm_CreationTimestamp = None, lbm_LastOpenstackReconcile = None,
     lbm_ServerID = None, lbm_PortID = None, lbm_DefaultPortID = None, lbm_DefaultPortName = None, lbm_DefaultPortIP = None,
     lbm_ServiceAccountName = None, lbm_ServiceAccountSecretName = None, lbm_RoleName = None, lbm_RoleBindingName = None\<rparr>"

section \<open>Calls\<close>

datatype machine_call =
    MServerClient
  | MServerList string
  | MServerGet string
  | MServerCreate server_create_opts "string option"
  | MServerDelete string
  | MGetSA namespaced_name
  | MCreateSA namespaced_name
  | MDeleteSA namespaced_name
  | MGetVersion
  | MGetTokenSecret namespaced_name
  | MCreateTokenSecret namespaced_name string
  | MGetRole namespaced_name
  | MCreateRole namespaced_name "policy_rule list"
  | MDeleteRole namespaced_name
  | MGetRoleBinding namespaced_name
  | MCreateRoleBinding role_binding
  | MDeleteRoleBinding namespaced_name
  | MPatchStatus namespaced_name machine_patch
  | MPatchFinalizers namespaced_name "string list"

section \<open>Environments\<close>

record 'w server_env =
  os_ServerClient :: "('w, unit) gop"
  server_List :: "string \<Rightarrow> ('w, server list) gop"
  server_Create :: "server_create_opts \<Rightarrow> string option \<Rightarrow> ('w, server option) gop"
  server_Get :: "string \<Rightarrow> ('w, server option) gop"
  server_Delete :: "string \<Rightarrow> ('w, unit) gop"

record 'w machine_kube =
  mk_GetSA :: "namespaced_name \<Rightarrow> ('w, service_account) gop"
  mk_CreateSA :: "namespaced_name \<Rightarrow> ('w, service_account) gop"
  mk_DeleteSA :: "namespaced_name \<Rightarrow> ('w, unit) gop"
  mk_GetVersion :: "('w, version) gop"
  mk_GetTokenSecret :: "namespaced_name \<Rightarrow> ('w, unit) gop"
  mk_CreateTokenSecret :: "namespaced_name \<Rightarrow> string \<Rightarrow> ('w, unit) gop"
  mk_GetRole :: "namespaced_name \<Rightarrow> ('w, unit) gop"
  mk_CreateRole :: "namespaced_name \<Rightarrow> policy_rule list \<Rightarrow> ('w, unit) gop"
  mk_DeleteRole :: "namespaced_name \<Rightarrow> ('w, unit) gop"
  mk_GetRoleBinding :: "namespaced_name \<Rightarrow> ('w, unit) gop"
  mk_CreateRoleBinding :: "role_binding \<Rightarrow> ('w, unit) gop"
  mk_DeleteRoleBinding :: "namespaced_name \<Rightarrow> ('w, unit) gop"
  mk_PatchStatus :: "namespaced_name \<Rightarrow> machine_patch \<Rightarrow> ('w, load_balancer_machine) gop"
  mk_PatchFinalizers :: "namespaced_name \<Rightarrow> string list \<Rightarrow> ('w, load_balancer_machine) gop"

end
