(* ===== verification/EnvoyTypes.thy ===== *)
theory EnvoyTypes
  imports ApiTypes "HOL-Library.Word"
begin

text \<open>
  What the yawollet works with beyond the custom resources: the part of Envoy's configuration
  messages that \<open>internal/helper/yawollet.go\<close> fills, the snapshots of go-control-plane, and the
  host a machine runs on (files, processes, commands, HTTP, readings of the system). The messages are
  records with the fields the code sets; a field the code leaves out has its zero value. A protobuf
  \<open>uint32\<close> is a 32-bit word. Neither Envoy's libraries nor the host are part of the repository, so
  they are records of functions.
\<close>

section \<open>Messages of Envoy\<close>

datatype socket_protocol = SocketTCP | SocketUDP

record socket_address =
  sock_Protocol :: socket_protocol
  sock_Address :: string
  sock_PortValue :: "32 word"

record duration_pb =
  dur_Seconds :: int
  dur_Nanos :: int

record cidr_range =
  cidr_AddressPrefix :: string
  cidr_PrefixLen :: "32 word"

datatype rbac_action = RBAC_ALLOW | RBAC_DENY | RBAC_LOG

text \<open>A policy: whether each permission is \<open>any\<close>, and the ranges of the principals.\<close>

record rbac_policy =
  pol_Any :: "bool list"
  pol_Principals :: "cidr_range list"

text \<open>The messages that are packed into an \<open>anypb.Any\<close>: the raw buffer; the upstream proxy protocol
  with its version and the name and configuration of the inner transport socket; the RBAC filter with its
  statistics prefix, action and policies; the TCP proxy with prefix, cluster and idle timeout; the route of
  the UDP proxy with its cluster; the UDP proxy with prefix, idle timeout and the name and configuration of
  the action on no match.\<close>

datatype any_config =
    RawBuffer
  | ProxyProtocolUpstreamTransport nat string any_config
  | RBAC string rbac_action "(string \<times> rbac_policy) list"
  | TcpProxy string string "duration_pb option"
  | UdpRoute string
  | UdpProxyConfig string "duration_pb option" string any_config

record transport_socket =
  ts_Name :: string
  ts_Config :: any_config

record health_check =
  hc_Timeout :: duration_pb
  hc_Interval :: duration_pb
  hc_UnhealthyThreshold :: "32 word"
  hc_HealthyThreshold :: "32 word"
  hc_TcpSend :: "string option"
  hc_TcpReceive :: "string list"

datatype discovery_type = STATIC | STRICT_DNS | LOGICAL_DNS | EDS | ORIGINAL_DST
datatype lb_policy = ROUND_ROBIN | LEAST_REQUEST | RING_HASH | RANDOM | MAGLEV
datatype dns_family = DNS_AUTO | DNS_V4_ONLY | DNS_V6_ONLY
datatype routing_priority = PRIORITY_DEFAULT | PRIORITY_HIGH

record circuit_threshold =
  ct_Priority :: routing_priority
  ct_MaxConnections :: "32 word"
  ct_MaxRequests :: "32 word"
  ct_MaxPendingRequests :: "32 word"

text \<open>The endpoints are those of the load assignment, one list per locality.\<close>

record cluster =
  cl_Name :: string
  cl_ConnectTimeout :: duration_pb
  cl_Type :: discovery_type
  cl_HealthyPanicThreshold :: int
  cl_LbPolicy :: lb_policy
  cl_AssignmentName :: string
  cl_Endpoints :: "socket_address list list"
  cl_DnsLookupFamily :: dns_family
  cl_HealthChecks :: "health_check list"
  cl_TransportSocket :: "transport_socket option"
  cl_PerConnectionBufferLimitBytes :: "32 word"
  cl_Thresholds :: "circuit_threshold list"

record envoy_filter =
  flt_Name :: string
  flt_Config :: any_config

record listener =
  ls_Name :: string
  ls_Address :: socket_address
  ls_FilterChains :: "envoy_filter list list"
  ls_ListenerFilters :: "envoy_filter list"
  ls_Freebind :: bool
  ls_EnableReusePort :: bool
  ls_PerConnectionBufferLimitBytes :: "32 word"

text \<open>What \<open>GetVersion\<close> and \<open>GetResources\<close> return for clusters and listeners: a version and the
  resources by name.\<close>

record snapshot =
  sn_ClusterVersion :: string
  sn_ListenerVersion :: string
  sn_Clusters :: "string \<rightharpoonup> cluster"
  sn_Listeners :: "string \<rightharpoonup> listener"

text \<open>The snapshot that \<open>cmd/yawollet/main.go\<close> begins with.\<close>

definition initial_snapshot :: snapshot where
  "initial_snapshot = \<lparr>sn_ClusterVersion = ''1'', sn_ListenerVersion = ''1'', sn_Clusters = Map.empty, sn_Listeners = Map.empty\<rparr>"

section \<open>The libraries\<close>

text \<open>\<open>anypb.New\<close> fails for a message that cannot be encoded. \<open>fmt.Sprint\<close> of the resources is
  the text of the messages, which their library chooses.\<close>

record envoy_lib =
  any_Error :: "any_config \<Rightarrow> goerr option"
  NewSnapshot :: "string \<Rightarrow> cluster list \<Rightarrow> listener list \<Rightarrow> snapshot result"
  Consistent :: "snapshot \<Rightarrow> goerr option"
  clusters_print :: "(string \<rightharpoonup> cluster) \<Rightarrow> string"
  listeners_print :: "(string \<rightharpoonup> listener) \<Rightarrow> string"

record 'w snapshot_cache =
  GetSnapshot :: "string \<Rightarrow> ('w, snapshot) gop"
  SetSnapshot :: "string \<Rightarrow> snapshot \<Rightarrow> ('w, unit) gop"

section \<open>The host\<close>

text \<open>A finite \<open>float64\<close> is a sign, a mantissa and a binary exponent.\<close>

datatype float64 = Finite bool nat int | Infinite bool | NaN

text \<open>The statistics of a keepalived instance that the yawollet reads.\<close>

record vrrp_instance =
  vrrp_Received :: int
  vrrp_Sent :: int
  vrrp_BecameMaster :: int
  vrrp_ReleasedMaster :: int

text \<open>A response whose body may fail to be read.\<close>

record http_response =
  resp_StatusCode :: int
  resp_Body :: "string result"

text \<open>Standard library and gopsutil calls: \<open>http.Get\<close>, \<open>os.ReadFile\<close>, the modification time of
  \<open>os.Stat\<close>, \<open>process.NewProcess\<close>, \<open>IsRunning\<close>, \<open>exec.Command(..).Run\<close>, \<open>load.Avg\<close>,
  \<open>host.Uptime\<close>, \<open>mem.VirtualMemory\<close> (total, free, available), the steal times of \<open>cpu.Times\<close>,
  \<open>runtime.NumCPU\<close>, and the decoding of one YAML statistics section.\<close>

record 'w host =
  h_HttpGet :: "string \<Rightarrow> ('w, http_response) gop"
  h_ReadFile :: "string \<Rightarrow> ('w, string) gop"
  h_ModTime :: "string \<Rightarrow> ('w, int) gop"
  h_NewProcess :: "int \<Rightarrow> ('w, unit) gop"
  h_IsRunning :: "int \<Rightarrow> ('w, bool) gop"
  h_Run :: "string list \<Rightarrow> ('w, unit) gop"
  h_LoadAvg :: "('w, float64 \<times> float64 \<times> float64) gop"
  h_Uptime :: "('w, 64 word) gop"
  h_VirtualMemory :: "('w, 64 word \<times> 64 word \<times> 64 word) gop"
  h_CPUTimes :: "('w, float64 list) gop"
  h_NumCPU :: int
  h_yaml :: "string \<Rightarrow> vrrp_instance result"

section \<open>Calls\<close>

text \<open>What the yawollet does to its machine and its cache.\<close>

datatype yawollet_call =
    YHttpGet string
  | YReadFile string
  | YStat string
  | YNewProcess int
  | YIsRunning int
  | YRun "string list"
  | YReading string
  | YGetSnapshot string
  | YSetSnapshot string snapshot

end
