(* ===== verification/CloudApi.thy ===== *)
theory CloudApi
  imports MachineApi EnvoyTypes
begin

text \<open>
  The two systems behind the controllers, as interfaces: the OpenStack clients of
  \<open>internal/openstack/interface.go\<close> with the gophercloud structs that pass through them, and
  the operations of the Kubernetes API that the controllers use. Neither system is part of the
  repository, so each is a record of functions over a world of any type. Every operation the
  controllers perform on them is a constructor of \<open>call\<close> and is recorded in the trace.
\<close>

section \<open>OpenStack objects\<close>

record floating_ip =
  fip_ID :: string
  fip_Description :: string
  fip_FloatingNetworkID :: string
  fip_FloatingIP :: string
  fip_PortID :: string
  fip_Status :: string

record fip_list_opts =
  flo_Description :: string
  flo_FloatingIP :: string

record fip_create_opts =
  fco_Description :: string
  fco_FloatingNetworkID :: string

record fip_update_opts =
  fuo_Description :: "string option"
  fuo_PortID :: "string option"

record port_ip =
  pip_SubnetID :: string
  pip_IPAddress :: string

record address_pair =
  ap_IPAddress :: string
  ap_MACAddress :: string

record port =
  port_ID :: string
  port_Name :: string
  port_NetworkID :: string
  port_FixedIPs :: "port_ip list"
  port_SecurityGroups :: "string list"
  port_AllowedAddressPairs :: "address_pair list"

record port_create_opts =
  pco_Name :: string
  pco_NetworkID :: string
  pco_FixedIPs :: "port_ip list option"

record port_update_opts =
  puo_SecurityGroups :: "string list option"
  puo_AllowedAddressPairs :: "address_pair list option"

record sec_group_rule =
  rule_ID :: string
  rule_Description :: string
  rule_SecGroupID :: string
  rule_Direction :: string
  rule_EtherType :: string
  rule_Protocol :: string
  rule_PortRangeMin :: int
  rule_PortRangeMax :: int
  rule_RemoteIPPrefix :: string
  rule_RemoteGroupID :: string

record sec_group =
  grp_ID :: string
  grp_Name :: string
  grp_Rules :: "sec_group_rule list"

record rule_create_opts =
  rco_SecGroupID :: string
  rco_Description :: string
  rco_Direction :: string
  rco_EtherType :: string
  rco_Protocol :: string
  rco_PortRangeMin :: int
  rco_PortRangeMax :: int
  rco_RemoteIPPrefix :: string
  rco_RemoteGroupID :: string

record server_group =
  sg_ID :: string
  sg_Name :: string
  sg_Policies :: "string list"

section \<open>Patches of a LoadBalancer\<close>

text \<open>
  A status patch is a JSON merge patch: the fields present in a status object (absent ones are
  omitted by \<open>omitempty\<close>), the removal of one JSON key, or the difference of two statuses
  (\<open>client.MergeFrom\<close>). Its effect on a status is that of RFC 7386.
\<close>

datatype status_patch =
    SetFields lb_status
  | RemoveKey string
  | DiffStatus lb_status lb_status

definition over :: "'a option \<Rightarrow> 'a option \<Rightarrow> 'a option" where
  "over p old = (case p of None \<Rightarrow> old | Some v \<Rightarrow> Some v)"

lemma over_simps [simp]: "over None x = x" "over (Some v) x = Some v" "over p (over p x) = over p x"
  by (simp_all add: over_def split: option.split)

definition diff :: "'a option \<Rightarrow> 'a option \<Rightarrow> 'a option \<Rightarrow> 'a option" where
  "diff old new x = (if old = new then x else new)"

lemma diff_simps [simp]: "diff x x y = y" "diff a b (diff a b x) = diff a b x"
  by (simp_all add: diff_def)

definition merge_fields :: "lb_status \<Rightarrow> lb_status \<Rightarrow> lb_status" where
  "merge_fields p st = \<lparr>
     ReadyReplicas = over (ReadyReplicas p) (ReadyReplicas st),
     Replicas = over (Replicas p) (Replicas st),
     ExternalIP = over (ExternalIP p) (ExternalIP st),
     FloatingID = over (FloatingID p) (FloatingID st),
     FloatingName = over (FloatingName p) (FloatingName st),
     PortID = over (PortID p) (PortID st),
     PortName = over (PortName p) (PortName st),
     PortIP = over (PortIP p) (PortIP st),
     ServerGroupID = over (ServerGroupID p) (ServerGroupID st),
     ServerGroupName = over (ServerGroupName p) (ServerGroupName st),
     SecurityGroupID = over (SecurityGroupID p) (SecurityGroupID st),
     SecurityGroupName = over (SecurityGroupName p) (SecurityGroupName st),
     SecurityGroupIDOld = over (SecurityGroupIDOld p) (SecurityGroupIDOld st),
     SecurityGroupNameOld = over (SecurityGroupNameOld p) (SecurityGroupNameOld st),
     LastOpenstackReconcile = over (LastOpenstackReconcile p) (LastOpenstackReconcile st),
     OpenstackReconcileHash = over (OpenstackReconcileHash p) (OpenstackReconcileHash st)\<rparr>"

text \<open>The keys are the JSON names of the fields of \<open>LoadBalancerStatus\<close>.\<close>

definition clear_if :: "bool \<Rightarrow> 'a option \<Rightarrow> 'a option" where
  "clear_if b x = (if b then None else x)"

lemma clear_if_simps [simp]:
  "clear_if True x = None" "clear_if False x = x" "clear_if b (clear_if b x) = clear_if b x"
  by (simp_all add: clear_if_def)

definition remove_key :: "string \<Rightarrow> lb_status \<Rightarrow> lb_status" where
  "remove_key k st = \<lparr>
     ReadyReplicas = clear_if (k = ''readyReplicas'') (ReadyReplicas st),
     Replicas = clear_if (k = ''replicas'') (Replicas st),
     ExternalIP = clear_if (k = ''externalIP'') (ExternalIP st),
     FloatingID = clear_if (k = ''floatingID'') (FloatingID st),
     FloatingName = clear_if (k = ''floatingName'') (FloatingName st),
     PortID = clear_if (k = ''portID'') (PortID st),
     PortName = clear_if (k = ''portName'') (PortName st),
     PortIP = clear_if (k = ''portIP'') (PortIP st),
     ServerGroupID = clear_if (k = ''serverGroupID'') (ServerGroupID st),
     ServerGroupName = clear_if (k = ''serverGroupName'') (ServerGroupName st),
     SecurityGroupID = clear_if (k = ''securityGroupID'') (SecurityGroupID st),
     SecurityGroupName = clear_if (k = ''securityGroupName'') (SecurityGroupName st),
     SecurityGroupIDOld = clear_if (k = ''security_group_id'') (SecurityGroupIDOld st),
     SecurityGroupNameOld = clear_if (k = ''security_group_name'') (SecurityGroupNameOld st),
     LastOpenstackReconcile = clear_if (k = ''lastOpenstackReconcile'') (LastOpenstackReconcile st),
     OpenstackReconcileHash = clear_if (k = ''openstackReconcileHash'') (OpenstackReconcileHash st)\<rparr>"

definition merge_diff :: "lb_status \<Rightarrow> lb_status \<Rightarrow> lb_status \<Rightarrow> lb_status" where
  "merge_diff a b st = \<lparr>
     ReadyReplicas = diff (ReadyReplicas a) (ReadyReplicas b) (ReadyReplicas st),
     Replicas = diff (Replicas a) (Replicas b) (Replicas st),
     ExternalIP = diff (ExternalIP a) (ExternalIP b) (ExternalIP st),
     FloatingID = diff (FloatingID a) (FloatingID b) (FloatingID st),
     FloatingName = diff (FloatingName a) (FloatingName b) (FloatingName st),
     PortID = diff (PortID a) (PortID b) (PortID st),
     PortName = diff (PortName a) (PortName b) (PortName st),
     PortIP = diff (PortIP a) (PortIP b) (PortIP st),
     ServerGroupID = diff (ServerGroupID a) (ServerGroupID b) (ServerGroupID st),
     ServerGroupName = diff (ServerGroupName a) (ServerGroupName b) (ServerGroupName st),
     SecurityGroupID = diff (SecurityGroupID a) (SecurityGroupID b) (SecurityGroupID st),
     SecurityGroupName = diff (SecurityGroupName a) (SecurityGroupName b) (SecurityGroupName st),
     SecurityGroupIDOld = diff (SecurityGroupIDOld a) (SecurityGroupIDOld b) (SecurityGroupIDOld st),
     SecurityGroupNameOld = diff (SecurityGroupNameOld a) (SecurityGroupNameOld b) (SecurityGroupNameOld st),
     LastOpenstackReconcile = diff (LastOpenstackReconcile a) (LastOpenstackReconcile b) (LastOpenstackReconcile st),
     OpenstackReconcileHash = diff (OpenstackReconcileHash a) (OpenstackReconcileHash b) (OpenstackReconcileHash st)\<rparr>"

fun merge_status :: "status_patch \<Rightarrow> lb_status \<Rightarrow> lb_status" where
  "merge_status (SetFields p) st = merge_fields p st"
| "merge_status (RemoveKey k) st = remove_key k st"
| "merge_status (DiffStatus a b) st = merge_diff a b st"

text \<open>Applying a patch a second time changes nothing.\<close>

lemma merge_status_idem: "merge_status p (merge_status p st) = merge_status p st"
  by (cases p) (simp_all add: merge_fields_def merge_diff_def remove_key_def)

datatype meta_patch =
    PatchFinalizers "string list"
  | PatchAnnotation string string

section \<open>Calls\<close>

datatype call =
    CFipClient | CPortClient | CGroupClient | CRuleClient | CServerGroupClient
  | CFipList fip_list_opts | CFipGet string | CFipCreate fip_create_opts
  | CFipUpdate string fip_update_opts | CFipDelete string
  | CPortList string | CPortGet string | CPortCreate port_create_opts
  | CPortUpdate string port_update_opts | CPortDelete string
  | CGroupList string | CGroupGet string | CGroupCreate string | CGroupDelete string
  | CRuleCreate rule_create_opts | CRuleDelete string
  | CServerGroupList | CServerGroupGet string | CServerGroupCreate string "string list"
  | CServerGroupDelete string
  | CGetSecret namespaced_name | CGetOsClient string "string option"
  | CGetLB namespaced_name | CUpdateLB load_balancer
  | CPatchLBStatus namespaced_name status_patch | CPatchLBMeta namespaced_name meta_patch
  | CGetSet namespaced_name | CListSets "string option" labels | CCreateSet load_balancer_set
  | CDeleteSet namespaced_name | CPatchSetReplicas namespaced_name int
  | CPatchSetMeta namespaced_name meta_patch
  | CPatchSetStatus namespaced_name set_status set_status
  | CGetMachine namespaced_name | CListMachines string labels
  | CCreateMachine load_balancer_machine | CDeleteMachine namespaced_name
  | CUpdateMachineStatus namespaced_name lbm_status
  | CEvent namespaced_name string string string
  | CMetrics string namespaced_name
  | CMachine machine_call
  | CYawollet yawollet_call

section \<open>Environments\<close>

text \<open>\<open>FipClient\<close>, \<open>PortClient\<close>, \<open>GroupClient\<close>, \<open>RuleClient\<close> and \<open>ServerGroupClient\<close> of
  \<open>internal/openstack/interface.go\<close>, with the functions of \<open>Client\<close> that produce them. A
  method that returns a pointer and an error yields an optional object.\<close>

record 'w os_env =
  os_FipClient :: "('w, unit) gop"
  os_PortClient :: "('w, unit) gop"
  os_GroupClient :: "('w, unit) gop"
  os_RuleClient :: "('w, unit) gop"
  os_ServerGroupClient :: "('w, unit) gop"
  fip_List :: "fip_list_opts \<Rightarrow> ('w, floating_ip list) gop"
  fip_Create :: "fip_create_opts \<Rightarrow> ('w, floating_ip option) gop"
  fip_Update :: "string \<Rightarrow> fip_update_opts \<Rightarrow> ('w, floating_ip option) gop"
  fip_Get :: "string \<Rightarrow> ('w, floating_ip option) gop"
  fip_Delete :: "string \<Rightarrow> ('w, unit) gop"
  port_List :: "string \<Rightarrow> ('w, port list) gop"
  port_Get :: "string \<Rightarrow> ('w, port option) gop"
  port_Create :: "port_create_opts \<Rightarrow> ('w, port option) gop"
  port_Update :: "string \<Rightarrow> port_update_opts \<Rightarrow> ('w, port option) gop"
  port_Delete :: "string \<Rightarrow> ('w, unit) gop"
  group_List :: "string \<Rightarrow> ('w, sec_group list) gop"
  group_Create :: "string \<Rightarrow> ('w, sec_group option) gop"
  group_Get :: "string \<Rightarrow> ('w, sec_group option) gop"
  group_Delete :: "string \<Rightarrow> ('w, unit) gop"
  rule_Create :: "rule_create_opts \<Rightarrow> ('w, sec_group_rule option) gop"
  rule_Delete :: "string \<Rightarrow> ('w, unit) gop"
  servergroup_List :: "('w, server_group list) gop"
  servergroup_Create :: "string \<Rightarrow> string list \<Rightarrow> ('w, server_group option) gop"
  servergroup_Get :: "string \<Rightarrow> ('w, server_group option) gop"
  servergroup_Delete :: "string \<Rightarrow> ('w, unit) gop"

text \<open>A cloud in which every call succeeds and nothing exists, for concrete runs.\<close>

definition ok_os :: "'w os_env" where
  "ok_os = (let ok = (\<lambda>w. (Ok (), w)) in
     \<lparr>os_FipClient = ok, os_PortClient = ok, os_GroupClient = ok, os_RuleClient = ok,
      os_ServerGroupClient = ok,
      fip_List = (\<lambda>_ w. (Ok [], w)), fip_Create = (\<lambda>_ w. (Ok None, w)), fip_Update = (\<lambda>_ _ w. (Ok None, w)),
      fip_Get = (\<lambda>_ w. (Ok None, w)), fip_Delete = (\<lambda>_. ok),
      port_List = (\<lambda>_ w. (Ok [], w)), port_Get = (\<lambda>_ w. (Ok None, w)), port_Create = (\<lambda>_ w. (Ok None, w)),
      port_Update = (\<lambda>_ _ w. (Ok None, w)), port_Delete = (\<lambda>_. ok),
      group_List = (\<lambda>_ w. (Ok [], w)), group_Create = (\<lambda>_ w. (Ok None, w)), group_Get = (\<lambda>_ w. (Ok None, w)),
      group_Delete = (\<lambda>_. ok),
      rule_Create = (\<lambda>_ w. (Ok None, w)), rule_Delete = (\<lambda>_. ok),
      servergroup_List = (\<lambda>w. (Ok [], w)), servergroup_Create = (\<lambda>_ _ w. (Ok None, w)),
      servergroup_Get = (\<lambda>_ w. (Ok None, w)), servergroup_Delete = (\<lambda>_. ok)\<rparr>)"

text \<open>The Kubernetes API as the controllers use it, and the clock. A patch or an update yields
  the object the server answers with, which replaces the one in memory.\<close>

record 'w kube =
  k_now :: "'w \<Rightarrow> int \<times> 'w"
  k_GetSecret :: "namespaced_name \<Rightarrow> ('w, labels) gop"
  k_GetLB :: "namespaced_name \<Rightarrow> ('w, load_balancer) gop"
  k_UpdateLB :: "load_balancer \<Rightarrow> ('w, load_balancer) gop"
  k_PatchLBStatus :: "namespaced_name \<Rightarrow> status_patch \<Rightarrow> ('w, load_balancer) gop"
  k_PatchLBMeta :: "namespaced_name \<Rightarrow> meta_patch \<Rightarrow> ('w, load_balancer) gop"
  k_GetSet :: "namespaced_name \<Rightarrow> ('w, load_balancer_set) gop"
  k_ListSets :: "string option \<Rightarrow> labels \<Rightarrow> ('w, load_balancer_set list) gop"
  k_CreateSet :: "load_balancer_set \<Rightarrow> ('w, load_balancer_set) gop"
  k_DeleteSet :: "namespaced_name \<Rightarrow> ('w, unit) gop"
  k_PatchSetReplicas :: "namespaced_name \<Rightarrow> int \<Rightarrow> ('w, load_balancer_set) gop"
  k_PatchSetMeta :: "namespaced_name \<Rightarrow> meta_patch \<Rightarrow> ('w, load_balancer_set) gop"
  k_PatchSetStatus :: "namespaced_name \<Rightarrow> set_status \<Rightarrow> set_status \<Rightarrow> ('w, load_balancer_set) gop"
  k_GetMachine :: "namespaced_name \<Rightarrow> ('w, load_balancer_machine) gop"
  k_ListMachines :: "string \<Rightarrow> labels \<Rightarrow> ('w, load_balancer_machine list) gop"
  k_CreateMachine :: "load_balancer_machine \<Rightarrow> ('w, load_balancer_machine) gop"
  k_DeleteMachine :: "namespaced_name \<Rightarrow> ('w, unit) gop"
  k_UpdateMachineStatus :: "namespaced_name \<Rightarrow> lbm_status \<Rightarrow> ('w, load_balancer_machine) gop"
  k_random :: "('w, string) gop"

text \<open>\<open>time.Now()\<close>\<close>

definition nowM :: "'w kube \<Rightarrow> (int \<Rightarrow> (('w, call, 'z) st_scheme, 'a) gop) \<Rightarrow> (('w, call, 'z) st_scheme, 'a) gop" where
  "nowM k f = readW (k_now k) f"

lemma runs_nowM [runs_simps]:
  "runs (nowM k m) s R = (case k_now k (world s) of (x, w) \<Rightarrow> runs (m x) (s\<lparr>world := w\<rparr>) R)"
  by (simp add: nowM_def runs_simps)

lemma emits_now [emits_intros]:
  assumes "\<And>w. emits P (m (fst (k_now k w)))"
  shows "emits P (nowM k m)"
proof -
  have "runs (m x) (s\<lparr>world := w'\<rparr>) (\<lambda>_ t. extends P s t)" if "k_now k (world s) = (x, w')" for s x w'
    using emits_runs [OF assms, of "world s" "s\<lparr>world := w'\<rparr>"] that by (simp add: extends_def)
  then show ?thesis
    by (auto simp: emits_def nowM_def runs_simps split: prod.split)
qed

section \<open>Events\<close>

text \<open>\<open>SendErrorAsEvent\<close>: the body of an unexpected response, or else the text of the error,
  is sent as an event unless it is empty; the error is returned.\<close>

definition error_body :: "goerr \<Rightarrow> string" where
  "error_body e = (case e of ErrUnexpectedResponseCode c b t \<Rightarrow> b | _ \<Rightarrow> Error_text e)"

definition SendErrorAsEvent :: "goerr \<Rightarrow> namespaced_name \<Rightarrow> (('w, call, 'z) st_scheme, 'a) gop" where
  "SendErrorAsEvent e obj =
     thenM (whenM (error_body e \<noteq> []) (record_call (CEvent obj ''Warning'' ''Failed'' (error_body e))))
       (fail e)"

lemma runs_SendErrorAsEvent [runs_simps]:
  "runs (SendErrorAsEvent e obj) s R =
     (if error_body e \<noteq> []
      then R (Err e) (s\<lparr>trace := trace s @ [(CEvent obj ''Warning'' ''Failed'' (error_body e), True)]\<rparr>)
      else R (Err e) s)"
  by (simp add: SendErrorAsEvent_def runs_simps)

lemma emits_SendErrorAsEvent [emits_intros]:
  "(\<And>t r m. P (CEvent obj t r m, True)) \<Longrightarrow> emits P (SendErrorAsEvent e obj)"
  by (auto simp: SendErrorAsEvent_def intro!: emits_intros)

end
