(* ===== verification/OpenstackHelper.thy ===== *)
theory OpenstackHelper
  imports CloudApi
begin

text \<open>
  The functions of \<open>internal/helper/openstack\<close>: thin wrappers around the OpenStack clients, the
  search of an object by name, and the synchronisation of the rules of a security group
  (\<open>secgroup.go\<close>). The last is the component's core: which calls it makes is characterised
  exactly, for every security group and every list of desired rules.
\<close>

section \<open>Floating IPs (floatingip.go)\<close>

definition ErrFIPNotFound :: goerr where
  "ErrFIPNotFound = HelperErr ''FIP not found''"

text \<open>The \<open>for i := range\<close> loops that return the first element with a given name are \<open>find\<close>.\<close>

definition CreateFIP :: "'w os_env \<Rightarrow> load_balancer \<Rightarrow> (('w, call, 'z) st_scheme, floating_ip option) gop" where
  "CreateFIP os lb =
     (let infra = spec_Infrastructure (lb_Spec lb);
          floatingNetID = (case infra_FloatingNetID infra of None \<Rightarrow> [] | Some i \<Rightarrow> i);
          floatingNetID = (case dn_FloatingNetID (infra_DefaultNetwork infra) of
              None \<Rightarrow> floatingNetID | Some i \<Rightarrow> i)
      in deref (FloatingName (lb_Status lb)) (\<lambda>name.
           let opts = \<lparr>fco_Description = name, fco_FloatingNetworkID = floatingNetID\<rparr>
           in ext (CFipCreate opts) (fip_Create os opts)))"

definition DeleteFIP :: "'w os_env \<Rightarrow> string \<Rightarrow> (('w, call, 'z) st_scheme, unit) gop" where
  "DeleteFIP os fipID = ext (CFipDelete fipID) (fip_Delete os fipID)"

definition FipList :: "'w os_env \<Rightarrow> fip_list_opts \<Rightarrow> (('w, call, 'z) st_scheme, floating_ip list) gop" where
  "FipList os opts = ext (CFipList opts) (fip_List os opts)"

definition GetFIPByName :: "'w os_env \<Rightarrow> string \<Rightarrow> (('w, call, 'z) st_scheme, floating_ip) gop" where
  "GetFIPByName os fipName =
     bindM (FipList os \<lparr>flo_Description = fipName, flo_FloatingIP = []\<rparr>) (\<lambda>fipList.
       case find (\<lambda>f. fip_Description f = fipName) fipList of
         Some f \<Rightarrow> ret f
       | None \<Rightarrow> fail ErrFIPNotFound)"

definition GetFIPByIP :: "'w os_env \<Rightarrow> string \<Rightarrow> (('w, call, 'z) st_scheme, floating_ip) gop" where
  "GetFIPByIP os fipIP =
     bindM (FipList os \<lparr>flo_Description = [], flo_FloatingIP = fipIP\<rparr>) (\<lambda>fipList.
       case find (\<lambda>f. fip_FloatingIP f = fipIP) fipList of
         Some f \<Rightarrow> ret f
       | None \<Rightarrow> fail ErrFIPNotFound)"

definition GetFIPByID :: "'w os_env \<Rightarrow> string \<Rightarrow> (('w, call, 'z) st_scheme, floating_ip option) gop" where
  "GetFIPByID os fipID = ext (CFipGet fipID) (fip_Get os fipID)"

definition FipUpdate :: "'w os_env \<Rightarrow> string \<Rightarrow> fip_update_opts \<Rightarrow> (('w, call, 'z) st_scheme, floating_ip option) gop" where
  "FipUpdate os fipID opts = ext (CFipUpdate fipID opts) (fip_Update os fipID opts)"

definition BindFIPToPort :: "'w os_env \<Rightarrow> string \<Rightarrow> string option \<Rightarrow> (('w, call, 'z) st_scheme, unit) gop" where
  "BindFIPToPort os fipID portID =
     bindM (FipUpdate os fipID \<lparr>fuo_Description = None, fuo_PortID = portID\<rparr>) (\<lambda>_. ret ())"

section \<open>Ports (port.go)\<close>

definition PortList :: "'w os_env \<Rightarrow> string \<Rightarrow> (('w, call, 'z) st_scheme, port list) gop" where
  "PortList os name = ext (CPortList name) (port_List os name)"

definition GetPortByName :: "'w os_env \<Rightarrow> string \<Rightarrow> (('w, call, 'z) st_scheme, port option) gop" where
  "GetPortByName os portName =
     bindM (PortList os portName) (\<lambda>portList.
       ret (find (\<lambda>p. port_Name p = portName) portList))"

definition CreatePort :: "'w os_env \<Rightarrow> string \<Rightarrow> string \<Rightarrow> string \<Rightarrow> (('w, call, 'z) st_scheme, port option) gop" where
  "CreatePort os portName networkID subnetID =
     (let opts = \<lparr>pco_Name = portName, pco_NetworkID = networkID,
            pco_FixedIPs = (if subnetID \<noteq> [] then Some [\<lparr>pip_SubnetID = subnetID, pip_IPAddress = []\<rparr>]
                            else None)\<rparr>
      in ext (CPortCreate opts) (port_Create os opts))"

definition GetPortByID :: "'w os_env \<Rightarrow> string \<Rightarrow> (('w, call, 'z) st_scheme, port option) gop" where
  "GetPortByID os portID = ext (CPortGet portID) (port_Get os portID)"

definition GetAllPorts :: "'w os_env \<Rightarrow> (('w, call, 'z) st_scheme, port list) gop" where
  "GetAllPorts os = PortList os []"

definition DeletePort :: "'w os_env \<Rightarrow> string \<Rightarrow> (('w, call, 'z) st_scheme, unit) gop" where
  "DeletePort os portID = ext (CPortDelete portID) (port_Delete os portID)"

definition PortUpdate :: "'w os_env \<Rightarrow> string \<Rightarrow> port_update_opts \<Rightarrow> (('w, call, 'z) st_scheme, port option) gop" where
  "PortUpdate os portID opts = ext (CPortUpdate portID opts) (port_Update os portID opts)"

definition SetAllowedAddressPairsInPort :: "'w os_env \<Rightarrow> port \<Rightarrow> address_pair list option \<Rightarrow>
    (('w, call, 'z) st_scheme, unit) gop" where
  "SetAllowedAddressPairsInPort os port addressPair =
     (if addressPair = None then ret ()
      else bindM (PortUpdate os (port_ID port)
             \<lparr>puo_SecurityGroups = None, puo_AllowedAddressPairs = addressPair\<rparr>) (\<lambda>_. ret ()))"

definition BindSecGroupToPortIfNeeded :: "'w os_env \<Rightarrow> string option \<Rightarrow> port \<Rightarrow>
    (('w, call, 'z) st_scheme, bool) gop" where
  "BindSecGroupToPortIfNeeded os secGroup port =
     (case secGroup of
        None \<Rightarrow> ret False
      | Some sg \<Rightarrow>
          if length (port_SecurityGroups port) = 1 \<and> port_SecurityGroups port ! 0 = sg then ret False
          else bindM (PortUpdate os (port_ID port)
                 \<lparr>puo_SecurityGroups = Some [sg], puo_AllowedAddressPairs = None\<rparr>) (\<lambda>_. ret True))"

fun purge_loop :: "string \<Rightarrow> string list \<Rightarrow> bool \<Rightarrow> string list \<Rightarrow> bool \<times> string list" where
  "purge_loop secGroupID [] changed purgedList = (changed, purgedList)"
| "purge_loop secGroupID (secGroup # rest) changed purgedList =
     (if secGroup = secGroupID then purge_loop secGroupID rest True purgedList
      else purge_loop secGroupID rest changed (purgedList @ [secGroup]))"

definition RemoveSecGroupFromPortIfNeeded :: "'w os_env \<Rightarrow> port \<Rightarrow> string \<Rightarrow>
    (('w, call, 'z) st_scheme, unit) gop" where
  "RemoveSecGroupFromPortIfNeeded os port secGroupID =
     (let (changed, purgedList) = purge_loop secGroupID (port_SecurityGroups port) False []
      in if \<not> changed then ret ()
         else bindM (PortUpdate os (port_ID port)
                \<lparr>puo_SecurityGroups = Some purgedList, puo_AllowedAddressPairs = None\<rparr>) (\<lambda>_. ret ()))"

lemma purge_loop_eq:
  "purge_loop g xs c ys = (c \<or> g \<in> set xs, ys @ filter (\<lambda>x. x \<noteq> g) xs)"
  by (induction g xs c ys rule: purge_loop.induct) auto

lemma RemoveSecGroupFromPortIfNeeded_eq:
  "RemoveSecGroupFromPortIfNeeded os port g =
     (if g \<in> set (port_SecurityGroups port)
      then bindM (PortUpdate os (port_ID port)
             \<lparr>puo_SecurityGroups = Some (filter (\<lambda>x. x \<noteq> g) (port_SecurityGroups port)),
              puo_AllowedAddressPairs = None\<rparr>) (\<lambda>_. ret ())
      else ret ())"
  by (simp add: RemoveSecGroupFromPortIfNeeded_def purge_loop_eq)

section \<open>Server groups (servergroup.go)\<close>

definition GetServerGroupByName :: "'w os_env \<Rightarrow> string \<Rightarrow> (('w, call, 'z) st_scheme, server_group option) gop" where
  "GetServerGroupByName os serverGroupName =
     bindM (ext CServerGroupList (servergroup_List os)) (\<lambda>serverGroupList.
       ret (find (\<lambda>g. sg_Name g = serverGroupName) serverGroupList))"

definition CreateServerGroup :: "'w os_env \<Rightarrow> string \<Rightarrow> string \<Rightarrow> (('w, call, 'z) st_scheme, server_group option) gop" where
  "CreateServerGroup os serverGroupName affinity =
     ext (CServerGroupCreate serverGroupName [affinity]) (servergroup_Create os serverGroupName [affinity])"

definition GetServerGroupByID :: "'w os_env \<Rightarrow> string \<Rightarrow> (('w, call, 'z) st_scheme, server_group option) gop" where
  "GetServerGroupByID os serverGroupID = ext (CServerGroupGet serverGroupID) (servergroup_Get os serverGroupID)"

definition DeleteServerGroup :: "'w os_env \<Rightarrow> string \<Rightarrow> (('w, call, 'z) st_scheme, unit) gop" where
  "DeleteServerGroup os serverGroupID = ext (CServerGroupDelete serverGroupID) (servergroup_Delete os serverGroupID)"

section \<open>Security groups (secgroup.go)\<close>

definition CreateSecGroup :: "'w os_env \<Rightarrow> string \<Rightarrow> (('w, call, 'z) st_scheme, sec_group option) gop" where
  "CreateSecGroup os name = ext (CGroupCreate name) (group_Create os name)"

definition DeleteSecGroup :: "'w os_env \<Rightarrow> string \<Rightarrow> (('w, call, 'z) st_scheme, unit) gop" where
  "DeleteSecGroup os secGroupID = ext (CGroupDelete secGroupID) (group_Delete os secGroupID)"

definition GroupList :: "'w os_env \<Rightarrow> string \<Rightarrow> (('w, call, 'z) st_scheme, sec_group list) gop" where
  "GroupList os name = ext (CGroupList name) (group_List os name)"

definition GetSecGroupByName :: "'w os_env \<Rightarrow> string \<Rightarrow> (('w, call, 'z) st_scheme, sec_group option) gop" where
  "GetSecGroupByName os groupName =
     bindM (GroupList os groupName) (\<lambda>groupList.
       ret (find (\<lambda>g. grp_Name g = groupName) groupList))"

definition GetSecGroupByID :: "'w os_env \<Rightarrow> string \<Rightarrow> (('w, call, 'z) st_scheme, sec_group option) gop" where
  "GetSecGroupByID os secGroupID = ext (CGroupGet secGroupID) (group_Get os secGroupID)"

definition DeleteSecGroupRule :: "'w os_env \<Rightarrow> string \<Rightarrow> (('w, call, 'z) st_scheme, unit) gop" where
  "DeleteSecGroupRule os ruleID = ext (CRuleDelete ruleID) (rule_Delete os ruleID)"

definition rule_opts :: "string \<Rightarrow> string \<Rightarrow> sec_group_rule \<Rightarrow> rule_create_opts" where
  "rule_opts secGroupID namespacedName rule =
     \<lparr>rco_SecGroupID = secGroupID, rco_Description = namespacedName,
      rco_Direction = rule_Direction rule, rco_EtherType = rule_EtherType rule,
      rco_Protocol = rule_Protocol rule, rco_PortRangeMin = rule_PortRangeMin rule,
      rco_PortRangeMax = rule_PortRangeMax rule, rco_RemoteIPPrefix = rule_RemoteIPPrefix rule,
      rco_RemoteGroupID = rule_RemoteGroupID rule\<rparr>"

definition CreateSecGroupRule :: "'w os_env \<Rightarrow> string \<Rightarrow> string \<Rightarrow> sec_group_rule \<Rightarrow>
    (('w, call, 'z) st_scheme, unit) gop" where
  "CreateSecGroupRule os secGroupID namespacedName rule =
     (let opts = rule_opts secGroupID namespacedName rule
      in bindM (ext (CRuleCreate opts) (rule_Create os opts)) (\<lambda>_. ret ()))"

definition SecGroupRuleIsEqual :: "sec_group_rule \<Rightarrow> sec_group_rule \<Rightarrow> bool" where
  "SecGroupRuleIsEqual a b =
     (if EqualFold (rule_EtherType a) (rule_EtherType b) \<and>
         EqualFold (rule_Direction a) (rule_Direction b) \<and>
         EqualFold (rule_Protocol a) (rule_Protocol b) \<and>
         rule_RemoteIPPrefix a = rule_RemoteIPPrefix b \<and>
         rule_PortRangeMax a = rule_PortRangeMax b \<and>
         rule_PortRangeMin a = rule_PortRangeMin b \<and>
         rule_RemoteGroupID a = rule_RemoteGroupID b
      then True else False)"

text \<open>The inner loop of both functions: a search that stops at the first equal rule.\<close>

fun rule_search :: "(sec_group_rule \<Rightarrow> bool) \<Rightarrow> sec_group_rule list \<Rightarrow> bool" where
  "rule_search eq [] = False"
| "rule_search eq (y # ys) = (if eq y then True else rule_search eq ys)"

definition DeleteUnusedSecGroupRulesFromSecGroup :: "'w os_env \<Rightarrow> sec_group \<Rightarrow> sec_group_rule list \<Rightarrow>
    (('w, call, 'z) st_scheme, unit) gop" where
  "DeleteUnusedSecGroupRulesFromSecGroup os secGroup desired =
     forM (grp_Rules secGroup) (\<lambda>r.
       let found = rule_search (\<lambda>d. SecGroupRuleIsEqual r d) desired
       in if found then ret () else DeleteSecGroupRule os (rule_ID r))"

definition CreateNonExistingSecGroupRules :: "'w os_env \<Rightarrow> string \<Rightarrow> sec_group \<Rightarrow> sec_group_rule list \<Rightarrow>
    (('w, call, 'z) st_scheme, unit) gop" where
  "CreateNonExistingSecGroupRules os namespacedName secGroup desired =
     forM desired (\<lambda>d.
       let isApplied = rule_search (\<lambda>r. SecGroupRuleIsEqual r d) (grp_Rules secGroup)
       in if isApplied then ret ()
          else CreateSecGroupRule os (grp_ID secGroup) namespacedName d)"

section \<open>What the synchronisation does\<close>

lemma rule_search_iff [simp]: "rule_search eq ys = (\<exists>y \<in> set ys. eq y)"
  by (induction ys) auto

lemma SecGroupRuleIsEqual_refl [simp]: "SecGroupRuleIsEqual a a"
  by (simp add: SecGroupRuleIsEqual_def)

lemma SecGroupRuleIsEqual_sym: "SecGroupRuleIsEqual a b \<Longrightarrow> SecGroupRuleIsEqual b a"
  by (auto simp: SecGroupRuleIsEqual_def EqualFold_def split: if_splits)

lemma SecGroupRuleIsEqual_trans:
  "SecGroupRuleIsEqual a b \<Longrightarrow> SecGroupRuleIsEqual b c \<Longrightarrow> SecGroupRuleIsEqual a c"
  by (auto simp: SecGroupRuleIsEqual_def EqualFold_def split: if_splits)

text \<open>The specification: the present rules no desired rule is equal to, and the desired rules no
  present rule is equal to.\<close>

definition unused_rules :: "sec_group_rule list \<Rightarrow> sec_group_rule list \<Rightarrow> sec_group_rule list" where
  "unused_rules present desired = filter (\<lambda>r. \<not> (\<exists>d \<in> set desired. SecGroupRuleIsEqual r d)) present"

definition missing_rules :: "sec_group_rule list \<Rightarrow> sec_group_rule list \<Rightarrow> sec_group_rule list" where
  "missing_rules present desired = filter (\<lambda>d. \<not> (\<exists>r \<in> set present. SecGroupRuleIsEqual r d)) desired"

text \<open>A loop that makes one call for each element a test selects makes exactly these calls,
  in order, up to and including the first that does not succeed.\<close>

definition made_calls :: "'c list \<Rightarrow> ('w, 'c, 'z) st_scheme \<Rightarrow> 'a result \<Rightarrow> ('w, 'c, 'z) st_scheme \<Rightarrow> bool" where
  "made_calls cs s r t =
     (if is_Ok r then trace t = trace s @ map (\<lambda>c. (c, True)) cs
      else \<exists>n < length cs. trace t = trace s @ map (\<lambda>c. (c, True)) (take n cs) @ [(cs ! n, False)])"

lemma runs_forM_calls:
  assumes "\<And>x s. x \<in> set xs \<Longrightarrow> runs (f x) s (\<lambda>r t.
      if P x then trace t = trace s @ [(c x, is_Ok r)] else r = Ok () \<and> trace t = trace s)"
  shows "runs (forM xs f) s (made_calls (map c (filter P xs)) s)"
  using assms
proof (induction xs arbitrary: s)
  case Nil
  then show ?case by (simp add: runs_simps made_calls_def)
next
  case (Cons x xs)
  have step: "runs (f x) s (\<lambda>r t. if P x then trace t = trace s @ [(c x, is_Ok r)] else r = Ok () \<and> trace t = trace s)"
    using Cons.prems by simp
  have rest: "runs (forM xs f) t (made_calls (map c (filter P xs)) t)" for t
    using Cons.IH Cons.prems by simp
  have first: "made_calls (map c (filter P (x # xs))) s r u"
    if "P x" "trace t = trace s @ [(c x, True)]" "made_calls (map c (filter P xs)) t r u" for t u and r :: "unit result"
    using that(3)
  proof (cases "is_Ok r")
    case True
    then show ?thesis using that by (simp add: made_calls_def)
  next
    case False
    assume "made_calls (map c (filter P xs)) t r u"
    with False obtain n where "n < length (filter P xs)"
        "trace u = trace t @ map (\<lambda>c. (c, True)) (take n (map c (filter P xs))) @ [(map c (filter P xs) ! n, False)]"
      by (auto simp: made_calls_def)
    then show ?thesis
      using False that by (auto simp: made_calls_def intro!: exI [of _ "Suc n"])
  qed
  have skip: "made_calls (map c (filter P (x # xs))) s r u"
    if "\<not> P x" "trace t = trace s" "made_calls (map c (filter P xs)) t r u" for t u and r :: "unit result"
    using that by (auto simp: made_calls_def split: if_splits)
  have fails: "made_calls (c x # map c (filter P xs)) s (Err e :: unit result) t"
      "made_calls (c x # map c (filter P xs)) s (Crash m :: unit result) t"
    if "trace t = trace s @ [(c x, False)]" for t e m
    using that by (auto simp: made_calls_def intro!: exI [of _ "0::nat"])
  show ?case
    using step
    by (auto simp: runs_simps caseR_def elim!: runs_weaken split: result.splits if_splits
        intro!: runs_weaken [OF rest] first [simplified] skip [simplified] fails)
qed

lemma runs_thenM_calls:
  assumes "runs m s (made_calls xs s)" and "\<And>t. runs k t (made_calls ys t)"
  shows "runs (thenM m k) s (made_calls (xs @ ys) s)"
  unfolding runs_thenM
  using assms(1)
proof (rule runs_weaken)
  fix r :: "'d result" and t
  assume m: "made_calls xs s r t"
  have ok: "made_calls (xs @ ys) s r' u" if "trace t = trace s @ map (\<lambda>c. (c, True)) xs" "made_calls ys t r' u"
    for r' :: "'f result" and u
  proof (cases "is_Ok r'")
    case True
    then show ?thesis using that by (simp add: made_calls_def)
  next
    case False
    with that(2) obtain n where "n < length ys"
      "trace u = trace t @ map (\<lambda>c. (c, True)) (take n ys) @ [(ys ! n, False)]"
      by (auto simp: made_calls_def)
    then show ?thesis
      using False that(1) by (auto simp: made_calls_def nth_append intro!: exI [of _ "length xs + n"])
  qed
  have bad: "made_calls (xs @ ys) s (Err e :: 'f result) t" "made_calls (xs @ ys) s (Crash q :: 'f result) t"
    if "\<not> is_Ok r" for e q
    using m that by (auto simp: made_calls_def nth_append intro: less_le_trans)
  show "caseR (\<lambda>x t. runs k t (made_calls (xs @ ys) s)) (\<lambda>e t. made_calls (xs @ ys) s (Err e) t)
          (\<lambda>c t. made_calls (xs @ ys) s (Crash c) t) r t"
  proof (cases "is_Ok r")
    case True
    then have "trace t = trace s @ map (\<lambda>c. (c, True)) xs"
      using m by (simp add: made_calls_def)
    then show ?thesis
      using True by (cases r) (auto intro: runs_weaken [OF assms(2)] ok)
  next
    case False
    then show ?thesis
      using bad by (cases r) simp_all
  qed
qed

lemma DeleteUnused_calls:
  "runs (DeleteUnusedSecGroupRulesFromSecGroup os g desired) s
     (made_calls (map (\<lambda>r. CRuleDelete (rule_ID r)) (unused_rules (grp_Rules g) desired)) s)"
  unfolding DeleteUnusedSecGroupRulesFromSecGroup_def unused_rules_def
  by (rule runs_forM_calls)
    (auto simp: runs_simps DeleteSecGroupRule_def Let_def split: prod.split)

lemma CreateNonExisting_calls:
  "runs (CreateNonExistingSecGroupRules os nn g desired) s
     (made_calls (map (\<lambda>d. CRuleCreate (rule_opts (grp_ID g) nn d)) (missing_rules (grp_Rules g) desired)) s)"
  unfolding CreateNonExistingSecGroupRules_def missing_rules_def
  by (rule runs_forM_calls)
    (auto simp: runs_simps CreateSecGroupRule_def Let_def caseR_def split: prod.split result.splits)

text \<open>C5. Synchronising the rules of a security group makes exactly these calls: one deletion for
  each present rule that no desired rule equals, then one creation for each desired rule that no
  present rule equals, in this order (all deletions before the first creation), stopping at the
  first call that fails. Rules wanted and present are never touched.\<close>

theorem secgroup_sync_calls:
  "runs (thenM (DeleteUnusedSecGroupRulesFromSecGroup os g desired)
               (CreateNonExistingSecGroupRules os nn g desired)) s
     (made_calls (map (\<lambda>r. CRuleDelete (rule_ID r)) (unused_rules (grp_Rules g) desired) @
                  map (\<lambda>d. CRuleCreate (rule_opts (grp_ID g) nn d)) (missing_rules (grp_Rules g) desired)) s)"
  by (rule runs_thenM_calls [OF DeleteUnused_calls CreateNonExisting_calls])

text \<open>The comparison of rules is an equivalence: rules that differ only in the case of their
  ether type, direction or protocol (as OpenStack reports them) are the same rule.\<close>

lemma secgroup_rule_equal_equivp: "equivp SecGroupRuleIsEqual"
  by (auto intro!: equivpI reflpI sympI transpI
      intro: SecGroupRuleIsEqual_sym SecGroupRuleIsEqual_trans)

text \<open>The effect of a successful call on the rules of a group: a deletion removes the rule with the
  ID, a creation adds a rule with the options sent and an ID that OpenStack chooses.\<close>

fun rule_effect :: "(rule_create_opts \<Rightarrow> string) \<Rightarrow> call \<times> bool \<Rightarrow> sec_group_rule list \<Rightarrow> sec_group_rule list" where
  "rule_effect gen (CRuleDelete i, True) rs = filter (\<lambda>r. rule_ID r \<noteq> i) rs"
| "rule_effect gen (CRuleCreate c, True) rs =
     rs @ [\<lparr>rule_ID = gen c, rule_Description = rco_Description c, rule_SecGroupID = rco_SecGroupID c,
            rule_Direction = rco_Direction c, rule_EtherType = rco_EtherType c,
            rule_Protocol = rco_Protocol c, rule_PortRangeMin = rco_PortRangeMin c,
            rule_PortRangeMax = rco_PortRangeMax c, rule_RemoteIPPrefix = rco_RemoteIPPrefix c,
            rule_RemoteGroupID = rco_RemoteGroupID c\<rparr>]"
| "rule_effect gen c rs = rs"

definition rules_after :: "(rule_create_opts \<Rightarrow> string) \<Rightarrow> (call \<times> bool) list \<Rightarrow> sec_group_rule list \<Rightarrow> sec_group_rule list" where
  "rules_after gen calls rs = fold (rule_effect gen) calls rs"

text \<open>The deletions of the unused rules leave the used ones; the creations then add one rule per
  missing rule.\<close>

lemma rules_after_append: "rules_after gen (xs @ ys) rs = rules_after gen ys (rules_after gen xs rs)"
  by (simp add: rules_after_def)

lemma rules_after_deletes:
  "rules_after gen (map (\<lambda>c. (c, True)) (map (\<lambda>r. CRuleDelete (rule_ID r)) ds)) rs =
     filter (\<lambda>r. rule_ID r \<notin> rule_ID ` set ds) rs"
  unfolding rules_after_def
proof (induction ds arbitrary: rs)
  case Nil
  then show ?case by simp
next
  case (Cons d ds)
  then show ?case by (auto intro: filter_cong)
qed

lemma rules_after_creates:
  "set (rules_after gen (map (\<lambda>c. (c, True)) (map (\<lambda>d. CRuleCreate (rule_opts gid nn d)) ms)) rs) =
     set rs \<union> (\<lambda>d. d\<lparr>rule_ID := gen (rule_opts gid nn d), rule_Description := nn, rule_SecGroupID := gid\<rparr>) ` set ms"
  unfolding rules_after_def
  by (induction ms arbitrary: rs) (auto simp: rule_opts_def)

lemma SecGroupRuleIsEqual_created [simp]:
  "SecGroupRuleIsEqual (d\<lparr>rule_ID := i, rule_Description := nn, rule_SecGroupID := gid\<rparr>) d"
  by (simp add: SecGroupRuleIsEqual_def)

lemma unused_by_id:
  assumes "distinct (map rule_ID rs)"
  shows "filter (\<lambda>r. rule_ID r \<notin> rule_ID ` set (unused_rules rs desired)) rs =
     filter (\<lambda>r. \<exists>d \<in> set desired. SecGroupRuleIsEqual r d) rs"
proof (rule filter_cong [OF refl])
  fix r assume r: "r \<in> set rs"
  have "rule_ID r \<in> rule_ID ` set (unused_rules rs desired) \<longleftrightarrow> r \<in> set (unused_rules rs desired)"
    using assms r by (auto simp: unused_rules_def distinct_map dest: inj_onD)
  then show "(rule_ID r \<notin> rule_ID ` set (unused_rules rs desired)) = (\<exists>d \<in> set desired. SecGroupRuleIsEqual r d)"
    using r by (auto simp: unused_rules_def)
qed


definition example_rule :: sec_group_rule where
  "example_rule = \<lparr>rule_ID = ''r1'', rule_Description = [], rule_SecGroupID = ''g'',
     rule_Direction = ''ingress'', rule_EtherType = ''IPv4'', rule_Protocol = ''tcp'',
     rule_PortRangeMin = 80, rule_PortRangeMax = 80, rule_RemoteIPPrefix = ''0.0.0.0/0'',
     rule_RemoteGroupID = []\<rparr>"

definition example_group :: sec_group where
  "example_group = \<lparr>grp_ID = ''g'', grp_Name = ''ns/lb'',
     grp_Rules = [example_rule, example_rule\<lparr>rule_ID := ''r2'', rule_PortRangeMin := 22, rule_PortRangeMax := 22\<rparr>]\<rparr>"

definition example_desired :: "sec_group_rule list" where
  "example_desired = [example_rule\<lparr>rule_ID := [], rule_Protocol := ''TCP''\<rparr>,
     example_rule\<lparr>rule_ID := [], rule_PortRangeMin := 443, rule_PortRangeMax := 443\<rparr>]"


end
