(* ===== verification/GoNet.thy ===== *)
theory GoNet
  imports GoStrings
begin

text \<open>
  The parts of Go's \<open>net\<close> and \<open>net/netip\<close> that decide whether a source range is usable:
  \<open>net.ParseCIDR\<close> with the parsers of IPv4 and IPv6 addresses it calls. Only whether the text
  parses is modelled, which is all the code looks at.
\<close>

section \<open>IPv4\<close>

text \<open>One field: one to three digits without a leading zero, at most 255.\<close>

definition ipv4_field :: "string \<Rightarrow> bool" where
  "ipv4_field s =
     (case parse_digits s of
        None \<Rightarrow> False
      | Some n \<Rightarrow> n \<le> 255 \<and> (hd s = CHR ''0'' \<longrightarrow> length s = 1))"

definition parse_ipv4 :: "string \<Rightarrow> bool" where
  "parse_ipv4 s = (let fs = splitOn (CHR ''.'') s in length fs = 4 \<and> list_all ipv4_field fs)"

section \<open>IPv6\<close>

definition is_hex :: "char \<Rightarrow> bool" where
  "is_hex c = (is_digit c \<or> (97 \<le> (of_char c :: nat) \<and> (of_char c :: nat) \<le> 102) \<or>
     (65 \<le> (of_char c :: nat) \<and> (of_char c :: nat) \<le> 70))"

text \<open>The loop of \<open>netip.parseIPv6\<close>: \<open>i\<close> counts the bytes written, \<open>ell\<close> tells whether an
  ellipsis was seen. Each round takes a group of one to four hexadecimal digits; the result is
  the number of bytes and the ellipsis flag, or nothing when the text is malformed.\<close>

function ipv6_loop :: "nat \<Rightarrow> bool \<Rightarrow> string \<Rightarrow> (nat \<times> bool) option" where
  "ipv6_loop i ell s =
     (if i \<ge> 16 then (if s = [] then Some (i, ell) else None)
      else
        let group = takeWhile is_hex s; rest = dropWhile is_hex s in
        if group = [] \<or> length group > 4 then None
        else case rest of
          [] \<Rightarrow> Some (i + 2, ell)
        | c # cs \<Rightarrow>
            if c = CHR ''.'' then
              (if \<not> ell \<and> i \<noteq> 12 then None
               else if i + 4 > 16 then None
               else if parse_ipv4 s then Some (i + 4, ell) else None)
            else if c \<noteq> CHR '':'' then None
            else case cs of
              [] \<Rightarrow> None
            | d # tail \<Rightarrow>
                if d = CHR '':'' then
                  (if ell then None
                   else if tail = [] then Some (i + 2, True)
                   else ipv6_loop (i + 2) True tail)
                else ipv6_loop (i + 2) ell cs)"
  by pat_completeness auto

termination
  by (relation "measure (\<lambda>(i, ell, s). 16 - i)") auto

declare ipv6_loop.simps [simp del]

definition parse_ipv6 :: "string \<Rightarrow> bool" where
  "parse_ipv6 s =
     (let ell = prefix ''::'' s; t = (if ell then drop 2 s else s) in
      if ell \<and> t = [] then True
      else case ipv6_loop 0 ell t of
          None \<Rightarrow> False
        | Some (i, e) \<Rightarrow> if i < 16 then e else \<not> e)"

section \<open>Addresses and prefixes\<close>

datatype ip_family = Family4 | Family6

text \<open>\<open>netip.ParseAddr\<close>: the first dot, colon or percent sign decides. A zone makes
  \<open>ParseCIDR\<close> fail, so a text with a percent sign never parses here.\<close>

fun addr_family :: "string \<Rightarrow> ip_family option" where
  "addr_family [] = None"
| "addr_family (c # cs) =
     (if c = CHR ''.'' then Some Family4
      else if c = CHR '':'' then Some Family6
      else if c = CHR ''%'' then None
      else addr_family cs)"

definition ParseAddr :: "string \<Rightarrow> ip_family option" where
  "ParseAddr s =
     (case addr_family s of
        None \<Rightarrow> None
      | Some Family4 \<Rightarrow> if parse_ipv4 s then Some Family4 else None
      | Some Family6 \<Rightarrow> if CHR ''%'' \<notin> set s \<and> parse_ipv6 s then Some Family6 else None)"

definition address_bits :: "ip_family \<Rightarrow> nat" where
  "address_bits f = (case f of Family4 \<Rightarrow> 32 | Family6 \<Rightarrow> 128)"

text \<open>\<open>net.ParseCIDR\<close>: the text before the first slash is an address, the rest a number of at
  most as many bits as the address has.\<close>

definition ParseCIDR :: "string \<Rightarrow> ip_family option" where
  "ParseCIDR s =
     (case splitOn (CHR ''/'') s of
        [address, msk] \<Rightarrow>
          (case (ParseAddr address, parse_digits msk) of
             (Some f, Some n) \<Rightarrow> if n \<le> address_bits f then Some f else None
           | _ \<Rightarrow> None)
      | _ \<Rightarrow> None)"

text \<open>Runs on concrete prefixes.\<close>

lemma ParseCIDR_examples:
  "ParseCIDR ''0.0.0.0/0'' = Some Family4"
  "ParseCIDR ''::/0'' = Some Family6"
  "ParseCIDR ''10.0.0.0/33'' = None"
  "ParseCIDR ''10.0.01.0/8'' = None"
  "ParseCIDR ''2001:db8::/32'' = Some Family6"
  "ParseCIDR ''::ffff:10.0.0.0/104'' = Some Family6"
  "ParseCIDR ''1::2::3/64'' = None"
  "ParseCIDR ''10.0.0.0'' = None"
  by code_simp+

end
