(* ===== verification/HelperLB.thy ===== *)
theory HelperLB
  imports CloudApi GoNet "HOL-Library.Word"
begin

text \<open>
  The helpers of the LoadBalancer controllers: \<open>internal/helper/others.go\<close> (the hash of a
  specification), \<open>internal/helper/loadbalancer.go\<close> (reconcile-needed test, status patches,
  revisions, desired security group rules) and \<open>internal/helper/loadbalancerset.go\<close> (sets of a
  load balancer, keepalived master, scaling). The LoadBalancer a reconcile works on lives in the
  field \<open>cur\<close> of the state: the code passes a pointer, and every patch overwrites the object
  behind it with the server's answer.
\<close>

section \<open>The state of a LoadBalancer reconcile\<close>

record ('w, 'c) lbst = "('w, 'c) st" +
  cur :: load_balancer

type_synonym ('w, 'a) lbop = "(('w, call) lbst, 'a) gop"

definition getLB :: "(load_balancer \<Rightarrow> ('w, 'a) lbop) \<Rightarrow> ('w, 'a) lbop" where
  "getLB k s = k (cur s) s"

definition putLB :: "load_balancer \<Rightarrow> ('w, unit) lbop" where
  "putLB lb s = (Ok (), s\<lparr>cur := lb\<rparr>)"

lemma runs_getLB [runs_simps]: "runs (getLB k) s R = runs (k (cur s)) s R"
  by (simp add: runs_def getLB_def)

lemma runs_putLB [runs_simps]: "runs (putLB lb) s R = R (Ok ()) (s\<lparr>cur := lb\<rparr>)"
  by (simp add: runs_def putLB_def)

lemma emits_getLB [emits_intros]: "(\<And>lb. emits P (k lb)) \<Longrightarrow> emits P (getLB k)"
  by (simp add: emits_def runs_simps)

lemma emits_putLB [emits_intros]: "emits P (putLB lb)"
  by (simp add: emits_def runs_simps extends_def)

text \<open>Events and errors on the object at hand.\<close>

definition eventLB :: "string \<Rightarrow> string \<Rightarrow> string \<Rightarrow> ('w, unit) lbop" where
  "eventLB ty reason msg = getLB (\<lambda>lb. record_call (CEvent (key_of lb) ty reason msg))"

definition SendErrorLB :: "goerr \<Rightarrow> ('w, 'a) lbop" where
  "SendErrorLB e = getLB (\<lambda>lb. SendErrorAsEvent e (key_of lb))"

section \<open>Hashes (others.go)\<close>

text \<open>What is hashed; its JSON text and SHA-256 are parameters.\<close>

datatype hash_input =
    OpenStackHashInput "service_port list" "string list option" debug_settings string bool
  | MachineSetHashInput lbm_spec log_forward debug_settings string

record digest =
  dg_json :: "hash_input \<Rightarrow> string result"
  dg_sha256 :: "string \<Rightarrow> 8 word list"

definition byte_bits :: "8 word \<Rightarrow> bool list" where
  "byte_bits b = map (\<lambda>i. bit b (7 - i)) [0..<8]"

definition base32_alphabet :: string where
  "base32_alphabet = ''ABCDEFGHIJKLMNOPQRSTUVWXYZ234567''"

definition bits_value :: "bool list \<Rightarrow> nat" where
  "bits_value bs = foldl (\<lambda>n b. 2 * n + (if b then 1 else 0)) 0 bs"

fun base32_chars :: "bool list \<Rightarrow> string" where
  "base32_chars [] = []"
| "base32_chars (b # bs) =
     (let group = take 5 (b # bs) in
      base32_alphabet ! bits_value (group @ replicate (5 - length group) False) #
      base32_chars (drop 5 (b # bs)))"

text \<open>\<open>base32.StdEncoding.EncodeToString\<close>, padded with equals signs to a multiple of eight.\<close>

definition base32_StdEncoding :: "8 word list \<Rightarrow> string" where
  "base32_StdEncoding bytes =
     (let cs = base32_chars (concat (map byte_bits bytes))
      in cs @ replicate ((8 - length cs mod 8) mod 8) CHR ''='')"

text \<open>The slice \<open>[:16]\<close> panics on a shorter text.\<close>

definition HashData :: "digest \<Rightarrow> hash_input \<Rightarrow> string result" where
  "HashData dg d =
     (case dg_json dg d of
        Ok jsonSpec \<Rightarrow>
          (let s = ToLower (base32_StdEncoding (dg_sha256 dg jsonSpec))
           in if length s < 16 then Crash ''slice bounds out of range'' else Ok (take 16 s))
      | Err e \<Rightarrow> Err e
      | Crash c \<Rightarrow> Crash c)"

section \<open>Reconcile needed, hashes, patches (loadbalancer.go)\<close>

definition GetOpenStackReconcileHash :: "digest \<Rightarrow> load_balancer \<Rightarrow> string result" where
  "GetOpenStackReconcileHash dg lb =
     (let adHocDebug = ParseBool_val (at_key (meta_Annotations lb) LoadBalancerAdHocDebug) in
      HashData dg (OpenStackHashInput (spec_Ports (lb_Spec lb))
        (opt_LoadBalancerSourceRanges (spec_Options (lb_Spec lb)))
        (spec_DebugSettings (lb_Spec lb))
        (opt_ServerGroupPolicy (spec_Options (lb_Spec lb))) adHocDebug))"

text \<open>The cascade of early returns; \<open>now\<close> is \<open>time.Now()\<close>.\<close>

definition LoadBalancerOpenstackReconcileIsNeeded :: "digest \<Rightarrow> int \<Rightarrow> load_balancer \<Rightarrow> bool" where
  "LoadBalancerOpenstackReconcileIsNeeded dg now lb =
     (let st = lb_Status lb; internal = opt_InternalLB (spec_Options (lb_Spec lb)) in
      case LastOpenstackReconcile st of
        None \<Rightarrow> True
      | Some lastRun \<Rightarrow>
          if lastRun < now - OpenstackReconcileTime + 2 * Second then True
          else if ExternalIP st = None \<and> (case ReadyReplicas st of None \<Rightarrow> False | Some n \<Rightarrow> n > 0) then True
          else if internal \<and> (FloatingID st \<noteq> None \<or> FloatingName st \<noteq> None) then True
          else if \<not> internal \<and> (FloatingID st = None \<or> FloatingName st = None) then True
          else (case GetOpenStackReconcileHash dg lb of
                  Ok h \<Rightarrow> OpenstackReconcileHash st \<noteq> Some h
                | _ \<Rightarrow> True))"

text \<open>The status writer decodes the answer into the object; the key of the object addresses it.\<close>

definition patchStatus :: "'w kube \<Rightarrow> status_patch \<Rightarrow> ('w, unit) lbop" where
  "patchStatus k p = getLB (\<lambda>lb.
     bindM (ext (CPatchLBStatus (key_of lb) p) (k_PatchLBStatus k (key_of lb) p)) putLB)"

definition RemoveFromLBStatus :: "'w kube \<Rightarrow> string \<Rightarrow> ('w, unit) lbop" where
  "RemoveFromLBStatus k key = patchStatus k (RemoveKey key)"

text \<open>\<open>metav1.Time\<close> is written with seconds.\<close>

definition json_status :: "lb_status \<Rightarrow> lb_status" where
  "json_status st = st\<lparr>LastOpenstackReconcile :=
     map_option (\<lambda>t. t div Second * Second) (LastOpenstackReconcile st)\<rparr>"

definition PatchLBStatus :: "'w kube \<Rightarrow> lb_status \<Rightarrow> ('w, unit) lbop" where
  "PatchLBStatus k lbStatus = patchStatus k (SetFields (json_status lbStatus))"

definition GetOwnersReferenceForLB :: "load_balancer \<Rightarrow> owner_reference" where
  "GetOwnersReferenceForLB lb =
     \<lparr>or_APIVersion = meta_APIVersion lb, or_Kind = meta_Kind lb, or_Name = meta_Name lb, or_UID = meta_UID lb\<rparr>"

section \<open>Revisions\<close>

definition ErrInvalidRevision :: goerr where
  "ErrInvalidRevision = HelperErr ''revision number for lb must be >0''"

definition ErrFailToReadRevisionFromAnnotation :: goerr where
  "ErrFailToReadRevisionFromAnnotation = HelperErr ''failed to read revision from annotation''"

definition patchMeta :: "'w kube \<Rightarrow> meta_patch \<Rightarrow> ('w, unit) lbop" where
  "patchMeta k p = getLB (\<lambda>lb.
     bindM (ext (CPatchLBMeta (key_of lb) p) (k_PatchLBMeta k (key_of lb) p)) putLB)"

definition PatchLoadBalancerRevision :: "'w kube \<Rightarrow> int \<Rightarrow> ('w, unit) lbop" where
  "PatchLoadBalancerRevision k revision =
     (if revision < 1 then fail ErrInvalidRevision
      else patchMeta k (PatchAnnotation RevisionAnnotation (Itoa revision)))"

text \<open>\<open>fmt.Errorf("%w: %s", ErrFailToReadRevisionFromAnnotation, err)\<close>\<close>

definition ReadRevisionFromLBS :: "load_balancer_set \<Rightarrow> int result" where
  "ReadRevisionFromLBS lbs =
     (if at_key (meta_Annotations lbs) RevisionAnnotation = [] then Ok 0
      else case Atoi (at_key (meta_Annotations lbs) RevisionAnnotation) of
          Some n \<Rightarrow> Ok n
        | None \<Rightarrow> Err ErrFailToReadRevisionFromAnnotation)"

definition ReadCurrentRevisionFromLB :: "load_balancer \<Rightarrow> int result" where
  "ReadCurrentRevisionFromLB lb =
     (if at_key (meta_Annotations lb) RevisionAnnotation = [] then Ok 0
      else case Atoi (at_key (meta_Annotations lb) RevisionAnnotation) of
          Some n \<Rightarrow> Ok n
        | None \<Rightarrow> Err ErrFailToReadRevisionFromAnnotation)"

fun highest_revision :: "int \<Rightarrow> load_balancer_set list \<Rightarrow> int result" where
  "highest_revision h [] = Ok h"
| "highest_revision h (lbs # rest) =
     (case ReadRevisionFromLBS lbs of
        Ok revision \<Rightarrow> highest_revision (if revision > h then revision else h) rest
      | Err e \<Rightarrow> Err e
      | Crash c \<Rightarrow> Crash c)"

text \<open>\<open>highestRevision++\<close> on a 64-bit \<open>int\<close>.\<close>

definition wrap64 :: "int \<Rightarrow> int" where
  "wrap64 i = signed_take_bit 63 i"

definition GetNextRevisionForLoadBalancer :: "load_balancer_set list \<Rightarrow> int result" where
  "GetNextRevisionForLoadBalancer setList =
     (case highest_revision 0 setList of
        Ok h \<Rightarrow> Ok (wrap64 (h + 1))
      | Err e \<Rightarrow> Err e
      | Crash c \<Rightarrow> Crash c)"

section \<open>Desired security group rules\<close>

text \<open>Collecting the results of a loop that appends to a list.\<close>

primrec gatherM :: "'x list \<Rightarrow> ('x \<Rightarrow> ('s, 'y list) gop) \<Rightarrow> ('s, 'y list) gop" where
  "gatherM [] f = ret []"
| "gatherM (x # xs) f = bindM (f x) (\<lambda>ys. bindM (gatherM xs f) (\<lambda>zs. ret (ys @ zs)))"

definition EtherType4 :: string where "EtherType4 = ''IPv4''"
definition EtherType6 :: string where "EtherType6 = ''IPv6''"
definition DirIngress :: string where "DirIngress = ''ingress''"
definition DirEgress :: string where "DirEgress = ''egress''"
definition ProtocolVRRP :: string where "ProtocolVRRP = ''vrrp''"
definition ProtocolICMP :: string where "ProtocolICMP = ''icmp''"
definition ProtocolIPv6ICMP :: string where "ProtocolIPv6ICMP = ''ipv6-icmp''"
definition ProtocolTCP :: string where "ProtocolTCP = ''tcp''"

definition zero_rule :: sec_group_rule where
  "zero_rule = \<lparr>rule_ID = [], rule_Description = [], rule_SecGroupID = [], rule_Direction = [],
     rule_EtherType = [], rule_Protocol = [], rule_PortRangeMin = 0, rule_PortRangeMax = 0,
     rule_RemoteIPPrefix = [], rule_RemoteGroupID = []\<rparr>"

definition GetLoadBalancerSourceRanges :: "load_balancer \<Rightarrow> string list" where
  "GetLoadBalancerSourceRanges lb =
     (case opt_LoadBalancerSourceRanges (spec_Options (lb_Spec lb)) of
        Some (c # cs) \<Rightarrow> c # cs
      | _ \<Rightarrow> [''0.0.0.0/0'', ''::/0''])"

definition default_rules :: "string \<Rightarrow> string \<Rightarrow> sec_group_rule list" where
  "default_rules secGroupID etherType =
     (let icmpProtocol = (if etherType = EtherType6 then ProtocolIPv6ICMP else ProtocolICMP) in
      [zero_rule\<lparr>rule_EtherType := etherType, rule_Direction := DirEgress\<rparr>,
       zero_rule\<lparr>rule_EtherType := etherType, rule_Direction := DirIngress, rule_Protocol := ProtocolVRRP,
         rule_RemoteGroupID := secGroupID\<rparr>,
       zero_rule\<lparr>rule_EtherType := etherType, rule_Direction := DirIngress, rule_Protocol := icmpProtocol,
         rule_PortRangeMin := 1, rule_PortRangeMax := 8\<rparr>])"

definition cidr_ether_type :: "string \<Rightarrow> string" where
  "cidr_ether_type cidr =
     (if CHR ''.'' \<in> set cidr then EtherType4
      else if CHR '':'' \<in> set cidr then EtherType6
      else [])"

definition port_rule :: "service_port \<Rightarrow> string \<Rightarrow> sec_group_rule" where
  "port_rule port cidr =
     (let portValue = sp_Port port in
      zero_rule\<lparr>rule_Direction := DirIngress, rule_EtherType := cidr_ether_type cidr,
        rule_PortRangeMin := portValue, rule_PortRangeMax := portValue,
        rule_RemoteIPPrefix := cidr, rule_Protocol := ToLower (sp_Protocol port)\<rparr>)"

definition getSecGroupRulesForPorts :: "load_balancer \<Rightarrow> ('w, sec_group_rule list) lbop" where
  "getSecGroupRulesForPorts lb =
     (let sourceRanges = GetLoadBalancerSourceRanges lb in
      gatherM (spec_Ports (lb_Spec lb)) (\<lambda>port.
        gatherM sourceRanges (\<lambda>cidr.
          if ParseCIDR cidr = None
          then thenM (eventLB ''Warning'' ''Error'' (''Could not parse LoadBalancerSourceRange: '' @ cidr)) (ret [])
          else ret [port_rule port cidr])))"

definition debug_rules :: "sec_group_rule list" where
  "debug_rules =
     [zero_rule\<lparr>rule_Direction := DirIngress, rule_EtherType := EtherType4, rule_RemoteIPPrefix := ''0.0.0.0/0'',
        rule_PortRangeMin := 22, rule_PortRangeMax := 22, rule_Protocol := ProtocolTCP\<rparr>,
      zero_rule\<lparr>rule_Direction := DirIngress, rule_EtherType := EtherType6, rule_RemoteIPPrefix := ''::/0'',
        rule_PortRangeMin := 22, rule_PortRangeMax := 22, rule_Protocol := ProtocolTCP\<rparr>]"

definition debug_enabled :: "load_balancer \<Rightarrow> bool" where
  "debug_enabled lb =
     (let adHocDebug = ParseBool_val (at_key (meta_Annotations lb) LoadBalancerAdHocDebug)
      in \<not> (\<not> dbg_Enabled (spec_DebugSettings (lb_Spec lb)) \<and> \<not> adHocDebug))"

definition getSecGroupRulesForDebugSettings :: "load_balancer \<Rightarrow> ('w, sec_group_rule list) lbop" where
  "getSecGroupRulesForDebugSettings lb =
     (if \<not> debug_enabled lb then ret []
      else if \<exists>port \<in> set (spec_Ports (lb_Spec lb)). sp_Port port = 22 then
        thenM (eventLB ''Warning'' ''Warning'' ''DebugSettings are enabled but port 22 is already in use.'') (ret [])
      else
        thenM (eventLB ''Warning'' ''Warning'' ''DebugSettings are enabled, Port 22 is open to all IP ranges.'')
          (ret debug_rules))"

definition GetDesiredSecGroupRulesForLoadBalancer :: "load_balancer \<Rightarrow> string \<Rightarrow> ('w, sec_group_rule list) lbop" where
  "GetDesiredSecGroupRulesForLoadBalancer lb secGroupID =
     (let defaults = default_rules secGroupID EtherType4 @ default_rules secGroupID EtherType6 in
      bindM (getSecGroupRulesForPorts lb) (\<lambda>portRules.
      bindM (getSecGroupRulesForDebugSettings lb) (\<lambda>debugRules.
      ret (defaults @ portRules @ debugRules))))"

section \<open>LoadBalancerSets (loadbalancerset.go)\<close>

definition GetLoadBalancerSetLabelsFromLoadBalancer :: "load_balancer \<Rightarrow> labels" where
  "GetLoadBalancerSetLabelsFromLoadBalancer lb = MatchLabels (spec_Selector (lb_Spec lb))"

definition NewLoadBalancerSetForLoadBalancer :: "load_balancer \<Rightarrow> string \<Rightarrow> int \<Rightarrow> ('s, load_balancer_set) gop" where
  "NewLoadBalancerSetForLoadBalancer lb hash revision =
     (let setLabels = (GetLoadBalancerSetLabelsFromLoadBalancer lb)(HashLabel \<mapsto> hash) in
      deref (PortID (lb_Status lb)) (\<lambda>portID.
      ret \<lparr>meta_APIVersion = [], meta_Kind = [],
           meta_Name = meta_Name lb @ ''-'' @ hash, meta_Namespace = meta_Namespace lb,
           meta_UID = [], meta_ResourceVersion = [], meta_Labels = setLabels,
           meta_Annotations = [RevisionAnnotation \<mapsto> Itoa revision], meta_Finalizers = [],
           meta_OwnerReferences = [GetOwnersReferenceForLB lb],
           meta_CreationTimestamp = 0, meta_DeletionTimestamp = None,
           set_Spec = \<lparr>sspec_Selector = \<lparr>MatchLabels = setLabels, MatchExpressions = []\<rparr>,
             sspec_Replicas = spec_Replicas (lb_Spec lb),
             sspec_Template = \<lparr>tmpl_Labels = setLabels,
               tmpl_Spec = \<lparr>mspec_Infrastructure = spec_Infrastructure (lb_Spec lb),
                 mspec_PortID = portID,
                 mspec_ServerGroupID = (case ServerGroupID (lb_Status lb) of None \<Rightarrow> [] | Some g \<Rightarrow> g),
                 mspec_LoadBalancerRef = \<lparr>lbr_Name = meta_Name lb, lbr_Namespace = meta_Namespace lb\<rparr>\<rparr>\<rparr>\<rparr>,
           set_Status = \<lparr>set_AvailableReplicas = None, set_Conditions = [], set_ReadyReplicas = None,
             set_Replicas = None\<rparr>\<rparr>))"

text \<open>\<open>GetHashForLoadBalancerMachineSet\<close> of \<open>internal/helper/loadbalancermachine.go\<close>: the server
  group's name, not its ID, enters the hash.\<close>

definition GetHashForLoadBalancerMachineSet :: "digest \<Rightarrow> load_balancer \<Rightarrow> string result" where
  "GetHashForLoadBalancerMachineSet dg lb =
     (let portID = (case PortID (lb_Status lb) of None \<Rightarrow> [] | Some p \<Rightarrow> p);
          serverGroupName = (case ServerGroupName (lb_Status lb) of None \<Rightarrow> [] | Some n \<Rightarrow> n) in
      HashData dg (MachineSetHashInput
        \<lparr>mspec_Infrastructure = spec_Infrastructure (lb_Spec lb), mspec_PortID = portID,
         mspec_ServerGroupID = serverGroupName,
         mspec_LoadBalancerRef = \<lparr>lbr_Name = meta_Name lb, lbr_Namespace = meta_Namespace lb\<rparr>\<rparr>
        (opt_LogForward (spec_Options (lb_Spec lb)))
        (spec_DebugSettings (lb_Spec lb))
        (opt_ServerGroupPolicy (spec_Options (lb_Spec lb)))))"

definition PatchLoadBalancerSetReplicas :: "'w kube \<Rightarrow> load_balancer_set \<Rightarrow> int \<Rightarrow>
    (('w, call, 'z) st_scheme, load_balancer_set) gop" where
  "PatchLoadBalancerSetReplicas k lbs replicas =
     ext (CPatchSetReplicas (key_of lbs) replicas) (k_PatchSetReplicas k (key_of lbs) replicas)"

definition ScaleDownOldLoadBalancerSets :: "'w kube \<Rightarrow> load_balancer_set list \<Rightarrow> string \<Rightarrow>
    (('w, call, 'z) st_scheme, unit) gop" where
  "ScaleDownOldLoadBalancerSets k setList currentSetName =
     forM setList (\<lambda>lbs.
       if meta_Name lbs \<noteq> currentSetName \<and> sspec_Replicas (set_Spec lbs) > 0
       then bindM (PatchLoadBalancerSetReplicas k lbs 0) (\<lambda>_. ret ())
       else ret ())"

text \<open>The loop over the conditions, with its \<open>break\<close> at the first true one.\<close>

fun master_loop :: "condition list \<Rightarrow> int \<Rightarrow> int" where
  "master_loop [] considerTrueAfter = considerTrueAfter"
| "master_loop (c # cs) considerTrueAfter =
     (if cond_Type c \<noteq> HasKeepalivedMaster then master_loop cs considerTrueAfter
      else if cond_Status c = ConditionTrue then cond_LastTransitionTime c + 2 * Minute
      else master_loop cs (cond_LastTransitionTime c + 10 * Minute))"

text \<open>\<open>Time.Sub\<close> saturates at the range of a duration.\<close>

definition time_Sub :: "int \<Rightarrow> int \<Rightarrow> int" where
  "time_Sub t u = max (- (2 ^ 63)) (min (2 ^ 63 - 1) (t - u))"

definition LBSetHasKeepalivedMaster :: "int \<Rightarrow> load_balancer_set \<Rightarrow> bool \<times> int" where
  "LBSetHasKeepalivedMaster now lbs =
     (let considerTrueAfter = master_loop (set_Conditions (set_Status lbs))
            (meta_CreationTimestamp lbs + 15 * Minute)
      in (considerTrueAfter < now, time_Sub considerTrueAfter now))"

definition Deref :: "int option \<Rightarrow> int \<Rightarrow> int" where
  "Deref p d = (case p of None \<Rightarrow> d | Some x \<Rightarrow> x)"

fun StatusReplicasFromSetList :: "load_balancer_set list \<Rightarrow> int \<times> int" where
  "StatusReplicasFromSetList [] = (0, 0)"
| "StatusReplicasFromSetList (lbs # rest) =
     (let (r, rr) = StatusReplicasFromSetList rest in
      (Deref (set_Replicas (set_Status lbs)) 0 + r, Deref (set_ReadyReplicas (set_Status lbs)) 0 + rr))"

definition ErrLBUIDMustNotBeNil :: goerr where
  "ErrLBUIDMustNotBeNil = HelperErr ''LoadBalancer.UID must not be nil''"

definition GetLoadBalancerSetsForLoadBalancer :: "'w kube \<Rightarrow> load_balancer \<Rightarrow>
    (('w, call, 'z) st_scheme, load_balancer_set list) gop" where
  "GetLoadBalancerSetsForLoadBalancer k lb =
     (if meta_UID lb = [] then fail ErrLBUIDMustNotBeNil
      else
        let filterLabels = GetLoadBalancerSetLabelsFromLoadBalancer lb in
        ext (CListSets (Some (meta_Namespace lb)) filterLabels)
          (k_ListSets k (Some (meta_Namespace lb)) filterLabels))"

text \<open>The loop keeps the set of highest revision among those with the hash; \<open>strconv.Atoi\<close>
  of a missing annotation fails, and the set is passed over.\<close>

fun set_for_hash_loop :: "load_balancer_set list \<Rightarrow> string \<Rightarrow> int \<Rightarrow> load_balancer_set option \<Rightarrow> load_balancer_set option" where
  "set_for_hash_loop [] currentHash highestGen highestGenLBS = highestGenLBS"
| "set_for_hash_loop (lbs # rest) currentHash highestGen highestGenLBS =
     (if at_key (meta_Labels lbs) HashLabel \<noteq> currentHash
      then set_for_hash_loop rest currentHash highestGen highestGenLBS
      else case Atoi (at_key (meta_Annotations lbs) RevisionAnnotation) of
          Some gen \<Rightarrow>
            if highestGen < gen then set_for_hash_loop rest currentHash gen (Some lbs)
            else set_for_hash_loop rest currentHash highestGen highestGenLBS
        | None \<Rightarrow> set_for_hash_loop rest currentHash highestGen highestGenLBS)"

definition GetLoadBalancerSetForHash :: "load_balancer_set list \<Rightarrow> string \<Rightarrow> load_balancer_set option" where
  "GetLoadBalancerSetForHash setList currentHash = set_for_hash_loop setList currentHash 0 None"

section \<open>The desired rules in closed form\<close>

definition is_event :: "call \<times> bool \<Rightarrow> bool" where
  "is_event c = (case fst c of CEvent k t r m \<Rightarrow> True | _ \<Rightarrow> False)"

text \<open>\<open>yields v m\<close>: \<open>m\<close> always returns \<open>v\<close> and does nothing but record events.\<close>

definition yields :: "'a \<Rightarrow> ('w, 'a) lbop \<Rightarrow> bool" where
  "yields v m = (\<forall>s. runs m s (\<lambda>r t. r = Ok v \<and> world t = world s \<and> cur t = cur s \<and> extends is_event s t))"

lemma yieldsD:
  assumes "yields v m"
  obtains t where "m s = (Ok v, t)" "world t = world s" "cur t = cur s" "extends is_event s t"
proof -
  obtain r t where m: "m s = (r, t)" by (cases "m s")
  have "runs m s (\<lambda>r t. r = Ok v \<and> world t = world s \<and> cur t = cur s \<and> extends is_event s t)"
    using assms by (simp add: yields_def)
  with m that show thesis by (simp add: runs_def)
qed

lemma yields_ret: "yields v (ret v)"
  by (simp add: yields_def runs_simps)

lemma yields_bindM:
  assumes "yields v m" and "yields u (k v)"
  shows "yields u (bindM m k)"
  unfolding yields_def
proof
  fix s
  have "runs m s (\<lambda>r t. r = Ok v \<and> world t = world s \<and> cur t = cur s \<and> extends is_event s t)"
    using assms(1) by (simp add: yields_def)
  then show "runs (bindM m k) s (\<lambda>r t. r = Ok u \<and> world t = world s \<and> cur t = cur s \<and> extends is_event s t)"
    unfolding runs_bindM
  proof (rule runs_weaken)
    fix r t
    assume m: "r = Ok v \<and> world t = world s \<and> cur t = cur s \<and> extends is_event s t"
    have "runs (k v) t (\<lambda>r t'. r = Ok u \<and> world t' = world t \<and> cur t' = cur t \<and> extends is_event t t')"
      using assms(2) by (simp add: yields_def)
    with m show "caseR (\<lambda>x t. runs (k x) t (\<lambda>r t. r = Ok u \<and> world t = world s \<and> cur t = cur s \<and> extends is_event s t))
        (\<lambda>e t. Err e = Ok u \<and> world t = world s \<and> cur t = cur s \<and> extends is_event s t)
        (\<lambda>c t. Crash c = Ok u \<and> world t = world s \<and> cur t = cur s \<and> extends is_event s t) r t"
      by (auto elim!: runs_weaken intro: extends_trans)
  qed
qed

lemma yields_event: "yields v (thenM (eventLB ty reason msg) (ret v))"
  by (auto simp: yields_def eventLB_def runs_simps is_event_def extends_def)

lemma yields_gatherM: "(\<And>x. x \<in> set xs \<Longrightarrow> yields (g x) (f x)) \<Longrightarrow> yields (concat (map g xs)) (gatherM xs f)"
proof (induction xs)
  case Nil
  then show ?case by (simp add: yields_ret)
next
  case (Cons x xs)
  have x: "yields (g x) (f x)" and xs: "yields (concat (map g xs)) (gatherM xs f)"
    using Cons by auto
  show ?case
    unfolding gatherM.simps
    by (rule yields_bindM [OF x], rule yields_bindM [OF xs]) (simp add: yields_ret)
qed

definition port_rules :: "load_balancer \<Rightarrow> sec_group_rule list" where
  "port_rules lb = [port_rule port cidr. port \<leftarrow> spec_Ports (lb_Spec lb),
     cidr \<leftarrow> filter (\<lambda>c. ParseCIDR c \<noteq> None) (GetLoadBalancerSourceRanges lb)]"

definition desired_rules :: "load_balancer \<Rightarrow> string \<Rightarrow> sec_group_rule list" where
  "desired_rules lb gid = default_rules gid EtherType4 @ default_rules gid EtherType6 @ port_rules lb @
     (if debug_enabled lb \<and> (\<forall>p \<in> set (spec_Ports (lb_Spec lb)). sp_Port p \<noteq> 22) then debug_rules else [])"

lemma concat_filter_if: "concat (map (\<lambda>c. if P c then [] else [g c]) cs) = map g (filter (\<lambda>c. \<not> P c) cs)"
  by (induction cs) simp_all

lemma yields_port_rules: "yields (port_rules lb) (getSecGroupRulesForPorts lb)"
proof -
  have inner: "yields (map (port_rule port) (filter (\<lambda>c. ParseCIDR c \<noteq> None) cs))
      (gatherM cs (\<lambda>cidr. if ParseCIDR cidr = None
        then thenM (eventLB ''Warning'' ''Error'' (''Could not parse LoadBalancerSourceRange: '' @ cidr)) (ret [])
        else ret [port_rule port cidr]))" for port cs
    unfolding concat_filter_if [symmetric]
    by (rule yields_gatherM) (auto intro: yields_event yields_ret)
  show ?thesis
    unfolding getSecGroupRulesForPorts_def Let_def port_rules_def
    by (rule yields_gatherM, rule inner)
qed

lemma yields_debug_rules:
  "yields (if debug_enabled lb \<and> (\<forall>p \<in> set (spec_Ports (lb_Spec lb)). sp_Port p \<noteq> 22) then debug_rules else [])
     (getSecGroupRulesForDebugSettings lb)"
  by (auto simp: getSecGroupRulesForDebugSettings_def intro: yields_event yields_ret)

lemma yields_desired_rules: "yields (desired_rules lb gid) (GetDesiredSecGroupRulesForLoadBalancer lb gid)"
  unfolding GetDesiredSecGroupRulesForLoadBalancer_def Let_def
  by (rule yields_bindM [OF yields_port_rules], rule yields_bindM [OF yields_debug_rules])
    (simp add: desired_rules_def yields_ret)

text \<open>An ingress rule that admits traffic from outside the security group, other than ICMP.\<close>

definition opens_ports :: "sec_group_rule \<Rightarrow> bool" where
  "opens_ports r = (rule_Direction r = DirIngress \<and> rule_RemoteGroupID r = [] \<and>
     rule_Protocol r \<notin> {ProtocolICMP, ProtocolIPv6ICMP})"

lemma no_opens_default: "gid \<noteq> [] \<Longrightarrow> r \<in> set (default_rules gid e) \<Longrightarrow> \<not> opens_ports r"
  by (auto simp: default_rules_def opens_ports_def zero_rule_def DirIngress_def DirEgress_def
      ProtocolICMP_def ProtocolIPv6ICMP_def Let_def split: if_splits)

text \<open>C11. Only the ports of the load balancer are opened, and only to valid source ranges: every
  desired rule that admits traffic from outside the security group is for exactly one port; either
  a service port, with that port's protocol and a source range that parses as a CIDR, or port 22
  over TCP when debugging is enabled and no service uses port 22.\<close>

theorem desired_rules_open_only_service_ports:
  assumes "GetDesiredSecGroupRulesForLoadBalancer lb gid s = (Ok rules, t)"
    and "gid \<noteq> []" and "r \<in> set rules" and "opens_ports r"
  shows "rule_PortRangeMin r = rule_PortRangeMax r \<and>
     ((\<exists>p \<in> set (spec_Ports (lb_Spec lb)). rule_PortRangeMin r = sp_Port p \<and>
         rule_Protocol r = ToLower (sp_Protocol p) \<and>
         rule_RemoteIPPrefix r \<in> set (GetLoadBalancerSourceRanges lb) \<and> ParseCIDR (rule_RemoteIPPrefix r) \<noteq> None)
      \<or> (debug_enabled lb \<and> (\<forall>p \<in> set (spec_Ports (lb_Spec lb)). sp_Port p \<noteq> 22) \<and>
         rule_PortRangeMin r = 22 \<and> rule_Protocol r = ProtocolTCP))"
proof -
  have "rules = desired_rules lb gid"
    using yields_desired_rules [of lb gid] assms(1) by (auto simp: yields_def dest: runsD)
  with assms(3) consider
      "r \<in> set (default_rules gid EtherType4) \<union> set (default_rules gid EtherType6)"
    | "r \<in> set (port_rules lb)"
    | "debug_enabled lb" "\<forall>p \<in> set (spec_Ports (lb_Spec lb)). sp_Port p \<noteq> 22" "r \<in> set debug_rules"
    by (auto simp: desired_rules_def split: if_splits)
  then show ?thesis
  proof cases
    case 1
    then show ?thesis using no_opens_default assms(2,4) by blast
  next
    case 2
    then show ?thesis by (auto simp: port_rules_def port_rule_def zero_rule_def Let_def)
  next
    case 3
    then show ?thesis by (auto simp: debug_rules_def zero_rule_def)
  qed
qed

definition example_lb :: load_balancer where
  "example_lb = zero_lb\<lparr>meta_Name := ''lb'', meta_Namespace := ''ns'', meta_UID := ''uid'',
     lb_Spec := zero_lb_spec\<lparr>spec_Replicas := 1, spec_Ports := [\<lparr>sp_Name = ''http'', sp_Protocol = ''TCP'',
       sp_AppProtocol = None, sp_Port = 80, sp_TargetPort = IntVal 8080, sp_NodePort = 30080\<rparr>],
       spec_Options := zero_options\<lparr>opt_LoadBalancerSourceRanges := Some [''10.0.0.0/8'', ''bad'']\<rparr>\<rparr>\<rparr>"

lemma desired_rules_open_only_service_ports_witness:
  "\<exists>r \<in> set (desired_rules example_lb ''g''). opens_ports r \<and>
     rule_PortRangeMin r = rule_PortRangeMax r \<and> rule_RemoteIPPrefix r = ''10.0.0.0/8''"
proof -
  let ?s = "\<lparr>world = (), trace = [], cur = example_lb\<rparr> :: (unit, call) lbst"
  let ?r = "zero_rule\<lparr>rule_Direction := DirIngress, rule_EtherType := EtherType4, rule_PortRangeMin := 80,
     rule_PortRangeMax := 80, rule_RemoteIPPrefix := ''10.0.0.0/8'', rule_Protocol := ''tcp''\<rparr>"
  obtain t where run: "GetDesiredSecGroupRulesForLoadBalancer example_lb ''g'' ?s = (Ok (desired_rules example_lb ''g''), t)"
    by (rule yieldsD [OF yields_desired_rules])
  have "?r \<in> set (desired_rules example_lb ''g'')" "opens_ports ?r"
    by code_simp+
  then show ?thesis
    using desired_rules_open_only_service_ports [OF run _ _ \<open>opens_ports ?r\<close>] by (auto simp: zero_rule_def)
qed

section \<open>Revisions select the set\<close>

lemma highest_revision_Ok:
  "highest_revision h xs = Ok m \<Longrightarrow>
     h \<le> m \<and> (m = h \<or> (\<exists>x \<in> set xs. ReadRevisionFromLBS x = Ok m)) \<and>
     (\<forall>x \<in> set xs. \<exists>r. ReadRevisionFromLBS x = Ok r \<and> r \<le> m)"
proof (induction xs arbitrary: h)
  case Nil
  then show ?case by simp
next
  case (Cons x xs)
  then obtain r where r: "ReadRevisionFromLBS x = Ok r"
    by (auto split: result.splits)
  with Cons.prems have "highest_revision (if r > h then r else h) xs = Ok m" by simp
  from Cons.IH [OF this] r show ?case by (auto split: if_splits)
qed

lemma revision_in_int64: "ReadRevisionFromLBS x = Ok r \<Longrightarrow> in_int64 r"
  by (auto simp: ReadRevisionFromLBS_def in_int64_def dest: Atoi_range split: if_splits option.splits)

lemma wrap64_id: "in_int64 i \<Longrightarrow> wrap64 i = i"
  by (simp add: wrap64_def in_int64_def signed_take_bit_int_eq_self)

lemma GetNextRevision_Ok:
  assumes "GetNextRevisionForLoadBalancer xs = Ok n"
    and "\<forall>x \<in> set xs. ReadRevisionFromLBS x \<noteq> Ok (2 ^ 63 - 1)"
  shows "1 \<le> n \<and> in_int64 n \<and> (\<forall>x \<in> set xs. \<exists>r. ReadRevisionFromLBS x = Ok r \<and> r < n)"
proof -
  obtain h where h: "highest_revision 0 xs = Ok h" and n: "n = wrap64 (h + 1)"
    using assms(1) by (auto simp: GetNextRevisionForLoadBalancer_def split: result.splits)
  have "in_int64 h \<and> h \<noteq> 2 ^ 63 - 1"
    using highest_revision_Ok [OF h] assms(2) by (auto simp: in_int64_def dest: revision_in_int64)
  then have "in_int64 (h + 1)"
    using highest_revision_Ok [OF h] by (auto simp: in_int64_def)
  then show ?thesis
    using highest_revision_Ok [OF h] n by (fastforce simp: wrap64_id)
qed

text \<open>A set in the list that the loop considers: its hash label matches and its revision parses.\<close>

definition matches_hash :: "string \<Rightarrow> load_balancer_set \<Rightarrow> int \<Rightarrow> bool" where
  "matches_hash h lbs gen = (at_key (meta_Labels lbs) HashLabel = h \<and>
     Atoi (at_key (meta_Annotations lbs) RevisionAnnotation) = Some gen)"

lemma set_for_hash_below:
  "(\<And>x gen. x \<in> set xs \<Longrightarrow> matches_hash h x gen \<Longrightarrow> gen < n) \<Longrightarrow> g < n \<Longrightarrow>
     \<exists>g' b'. g' < n \<and> set_for_hash_loop (xs @ zs) h g b = set_for_hash_loop zs h g' b'"
proof (induction xs arbitrary: g b)
  case Nil
  then show ?case by auto
next
  case (Cons x xs)
  have step: "\<exists>g' b'. g' < n \<and> set_for_hash_loop (xs @ zs) h g0 b0 = set_for_hash_loop zs h g' b'" if "g0 < n" for g0 b0
    by (rule Cons.IH [OF _ that]) (rule Cons.prems(1), simp_all)
  have "matches_hash h x gen \<Longrightarrow> gen < n" for gen
    using Cons.prems(1) [of x gen] by simp
  then show ?case
    using Cons.prems(2) step by (auto simp: matches_hash_def split: option.split)
qed

lemma set_for_hash_keeps:
  "(\<And>x gen. x \<in> set ys \<Longrightarrow> matches_hash h x gen \<Longrightarrow> gen < n) \<Longrightarrow> set_for_hash_loop ys h n b = b"
proof (induction ys)
  case (Cons y ys)
  then show ?case by (force simp: matches_hash_def split: option.split)
qed simp

lemma set_for_hash_selects:
  assumes "matches_hash h new n" and "0 < n"
    and "\<And>x gen. x \<in> set (xs @ ys) \<Longrightarrow> matches_hash h x gen \<Longrightarrow> gen < n"
  shows "GetLoadBalancerSetForHash (xs @ new # ys) h = Some new"
proof -
  obtain g b where "g < n" "set_for_hash_loop (xs @ new # ys) h 0 None = set_for_hash_loop (new # ys) h g b"
    using set_for_hash_below [of xs h n 0 "new # ys" None] assms by auto
  moreover have "set_for_hash_loop ys h n (Some new) = Some new"
    using assms(3) by (intro set_for_hash_keeps) auto
  ultimately show ?thesis
    using assms(1) by (simp add: GetLoadBalancerSetForHash_def matches_hash_def)
qed

lemma matches_hash_revision: "matches_hash h x gen \<Longrightarrow> ReadRevisionFromLBS x = Ok r \<Longrightarrow> gen = r"
  by (auto simp: matches_hash_def ReadRevisionFromLBS_def Atoi_def parse_digits_def split: if_splits)

text \<open>C30. A new set is the one its hash selects: when no revision is exhausted, the next revision is
  positive and strictly greater than that of every existing set, and once the set built with it
  appears anywhere in the list of sets, \<open>GetLoadBalancerSetForHash\<close> returns it for its hash, even
  if older sets carry the same hash.\<close>

theorem new_set_is_selected:
  assumes "GetNextRevisionForLoadBalancer (xs @ ys) = Ok n"
    and "\<forall>x \<in> set (xs @ ys). ReadRevisionFromLBS x \<noteq> Ok (2 ^ 63 - 1)"
    and "NewLoadBalancerSetForLoadBalancer lb h n s = (Ok new, s')"
  shows "(\<forall>x \<in> set (xs @ ys). \<exists>r. ReadRevisionFromLBS x = Ok r \<and> r < n) \<and>
     ReadRevisionFromLBS new = Ok n \<and> 1 \<le> n \<and>
     GetLoadBalancerSetForHash (xs @ new # ys) h = Some new"
proof -
  note next_rev = GetNextRevision_Ok [OF assms(1,2)]
  have m: "matches_hash h new n" and r: "ReadRevisionFromLBS new = Ok n"
    using assms(3) next_rev
    by (auto simp: NewLoadBalancerSetForLoadBalancer_def deref_def ret_def crash_def matches_hash_def
        ReadRevisionFromLBS_def Atoi_Itoa Let_def split: option.splits)
  have older: "gen < n" if "x \<in> set (xs @ ys)" "matches_hash h x gen" for x gen
    using next_rev that by (metis matches_hash_revision)
  have "GetLoadBalancerSetForHash (xs @ new # ys) h = Some new"
    using m next_rev older by (intro set_for_hash_selects) auto
  with next_rev r show ?thesis by simp
qed

definition example_set :: "string \<Rightarrow> string \<Rightarrow> string \<Rightarrow> load_balancer_set" where
  "example_set name hash revision =
     \<lparr>meta_APIVersion = [], meta_Kind = [], meta_Name = name, meta_Namespace = ''ns'', meta_UID = [],
      meta_ResourceVersion = [], meta_Labels = [HashLabel \<mapsto> hash],
      meta_Annotations = [RevisionAnnotation \<mapsto> revision], meta_Finalizers = [], meta_OwnerReferences = [],
      meta_CreationTimestamp = 0, meta_DeletionTimestamp = None,
      set_Spec = \<lparr>sspec_Selector = \<lparr>MatchLabels = [HashLabel \<mapsto> hash], MatchExpressions = []\<rparr>, sspec_Replicas = 1,
        sspec_Template = \<lparr>tmpl_Labels = [HashLabel \<mapsto> hash],
          tmpl_Spec = \<lparr>mspec_Infrastructure = zero_infra, mspec_PortID = [], mspec_ServerGroupID = [],
            mspec_LoadBalancerRef = \<lparr>lbr_Name = ''lb'', lbr_Namespace = ''ns''\<rparr>\<rparr>\<rparr>\<rparr>,
      set_Status = \<lparr>set_AvailableReplicas = None, set_Conditions = [], set_ReadyReplicas = None, set_Replicas = None\<rparr>\<rparr>"

text \<open>An older set with the same hash and a set of another hash.\<close>

lemma new_set_is_selected_witness:
  "\<exists>new. ReadRevisionFromLBS new = Ok 8 \<and>
     GetLoadBalancerSetForHash [example_set ''a'' ''h'' ''7'', new, example_set ''b'' ''x'' ''3''] ''h'' = Some new"
proof -
  let ?xs = "[example_set ''a'' ''h'' ''7'']" and ?ys = "[example_set ''b'' ''x'' ''3'']"
  let ?lb = "example_lb\<lparr>lb_Status := zero_lb_status\<lparr>PortID := Some ''p''\<rparr>\<rparr>"
  have pd: "parse_digits ''7'' = Some 7" "parse_digits ''3'' = Some 3"
    by (simp_all add: parse_digits_def is_digit_def digit_val_def)
  have atoi: "Atoi ''7'' = Some 7" "Atoi ''3'' = Some 3"
    by (simp_all add: Atoi_def pd in_int64_def)
  have annos: "at_key (meta_Annotations (example_set name h revision)) RevisionAnnotation = revision" for name h revision
    by (simp add: example_set_def)
  have revs: "ReadRevisionFromLBS (example_set ''a'' ''h'' ''7'') = Ok 7"
      "ReadRevisionFromLBS (example_set ''b'' ''x'' ''3'') = Ok 3"
    by (simp_all add: ReadRevisionFromLBS_def atoi annos)
  then have next_rev: "GetNextRevisionForLoadBalancer (?xs @ ?ys) = Ok 8"
    by (simp add: GetNextRevisionForLoadBalancer_def wrap64_id in_int64_def)
  have fresh: "\<forall>x \<in> set (?xs @ ?ys). ReadRevisionFromLBS x \<noteq> Ok (2 ^ 63 - 1)"
    by (simp add: revs)
  obtain new where "NewLoadBalancerSetForLoadBalancer ?lb ''h'' 8 () = (Ok new, ())"
    by (simp add: NewLoadBalancerSetForLoadBalancer_def deref_def ret_def Let_def)
  from new_set_is_selected [OF next_rev fresh this]
  have "ReadRevisionFromLBS new = Ok 8" "GetLoadBalancerSetForHash (?xs @ new # ?ys) ''h'' = Some new"
    by blast+
  then show ?thesis by (metis append_Cons append_Nil)
qed

section \<open>Waiting for the keepalived master is bounded\<close>

lemma master_loop_bound:
  "(\<forall>c \<in> set cs. cond_LastTransitionTime c \<le> now) \<Longrightarrow> start \<le> now + 15 * Minute \<Longrightarrow>
     master_loop cs start \<le> now + 15 * Minute"
  by (induction cs arbitrary: start) (auto simp: Minute_def Second_def Millisecond_def)

text \<open>C32. Waiting for a keepalived master cannot block a rollout: if the set and its conditions are
  not dated in the future, a negative answer comes with a wait of at most 15 minutes, and once that
  wait is over the answer for the unchanged set is positive.\<close>

theorem keepalived_wait_bounded:
  assumes "LBSetHasKeepalivedMaster now lbs = (False, d)"
    and "meta_CreationTimestamp lbs \<le> now"
    and "\<forall>c \<in> set (set_Conditions (set_Status lbs)). cond_LastTransitionTime c \<le> now"
  shows "0 \<le> d \<and> d \<le> 15 * Minute \<and> (\<forall>later > now + d. fst (LBSetHasKeepalivedMaster later lbs))"
proof -
  let ?after = "master_loop (set_Conditions (set_Status lbs)) (meta_CreationTimestamp lbs + 15 * Minute)"
  have "now \<le> ?after" "?after \<le> now + 15 * Minute"
    using assms by (auto simp: LBSetHasKeepalivedMaster_def Let_def intro: master_loop_bound)
  moreover from this have "d = ?after - now"
    using assms(1) by (auto simp: LBSetHasKeepalivedMaster_def Let_def time_Sub_def Minute_def Second_def Millisecond_def)
  ultimately show ?thesis
    by (auto simp: LBSetHasKeepalivedMaster_def Let_def)
qed

lemma keepalived_wait_bounded_witness:
  "fst (LBSetHasKeepalivedMaster (16 * Minute) (example_set ''a'' ''h'' ''7''))"
proof -
  have "LBSetHasKeepalivedMaster 0 (example_set ''a'' ''h'' ''7'') = (False, 15 * Minute)"
    by (simp add: LBSetHasKeepalivedMaster_def example_set_def time_Sub_def Minute_def Second_def Millisecond_def)
  from keepalived_wait_bounded [OF this] show ?thesis
    by (simp add: example_set_def Minute_def Second_def Millisecond_def)
qed

section \<open>Hashes are label values\<close>

lemma base32_chars_length: "length (base32_chars bs) = (length bs + 4) div 5"
proof (induction bs rule: base32_chars.induct)
  case (2 b bs)
  have "Suc ((length bs - 4 + 4) div 5) = (5 + length bs) div 5"
    by presburger
  with 2 show ?case by (simp add: Let_def)
qed simp

lemma foldl_bits_less: "foldl (\<lambda>n b. 2 * n + (if b then 1 else 0 :: nat)) a bs < (a + 1) * 2 ^ length bs"
proof (induction bs arbitrary: a)
  case (Cons b bs)
  have "foldl (\<lambda>n b. 2 * n + (if b then 1 else 0)) (2 * a + (if b then 1 else 0)) bs <
      (2 * a + (if b then 1 else 0) + 1) * 2 ^ length bs"
    by (rule Cons.IH)
  also have "\<dots> \<le> (2 * a + 2) * 2 ^ length bs"
    by (rule mult_right_mono) auto
  finally show ?case by (simp add: algebra_simps)
qed simp

lemma base32_chars_alphabet: "set (base32_chars bs) \<subseteq> set base32_alphabet"
proof (induction bs rule: base32_chars.induct)
  case (2 b bs)
  let ?group = "take 5 (b # bs) @ replicate (5 - length (take 5 (b # bs))) False"
  have "bits_value ?group < 2 ^ length ?group"
    using foldl_bits_less [of 0 ?group] by (simp only: bits_value_def add_0 mult_1)
  then have "bits_value ?group < length base32_alphabet"
    by (simp add: base32_alphabet_def min_def split: if_splits)
  then show ?case using 2 by (simp add: Let_def)
qed simp

lemma ToLower_alphabet: "c \<in> set base32_alphabet \<Longrightarrow> ascii_lower c \<in> set ''abcdefghijklmnopqrstuvwxyz234567''"
proof -
  have "list_all (\<lambda>c. ascii_lower c \<in> set ''abcdefghijklmnopqrstuvwxyz234567'') base32_alphabet"
    by code_simp
  then show "c \<in> set base32_alphabet \<Longrightarrow> ascii_lower c \<in> set ''abcdefghijklmnopqrstuvwxyz234567''"
    by (simp only: list_all_iff)
qed

lemma length_bytes: "length (concat (map byte_bits bytes)) = 8 * length bytes"
  by (induction bytes) (simp_all add: byte_bits_def)

text \<open>A hash is a valid label value and name suffix: whatever is hashed, if its JSON text exists
  and the digest has the 32 bytes of SHA-256, \<open>HashData\<close> does not panic and yields exactly 16
  characters, each a lower-case letter or one of the digits 2 to 7.\<close>

theorem HashData_label:
  assumes "dg_json dg d = Ok jsonSpec" and "length (dg_sha256 dg jsonSpec) = 32"
  shows "\<exists>h. HashData dg d = Ok h \<and> length h = 16 \<and> set h \<subseteq> set ''abcdefghijklmnopqrstuvwxyz234567''"
proof -
  let ?cs = "base32_chars (concat (map byte_bits (dg_sha256 dg jsonSpec)))"
  have len: "length ?cs = 52"
    by (simp add: base32_chars_length length_bytes assms(2))
  then have "take 16 (ToLower (base32_StdEncoding (dg_sha256 dg jsonSpec))) = map ascii_lower (take 16 ?cs)"
    by (simp add: base32_StdEncoding_def ToLower_def Let_def take_map)
  moreover have "ascii_lower c \<in> set ''abcdefghijklmnopqrstuvwxyz234567''" if "c \<in> set (take 16 ?cs)" for c
    using that base32_chars_alphabet by (blast intro: ToLower_alphabet dest: in_set_takeD)
  moreover have "\<not> length (ToLower (base32_StdEncoding (dg_sha256 dg jsonSpec))) < 16"
    using len by (simp add: base32_StdEncoding_def ToLower_def Let_def)
  ultimately show ?thesis
    using len by (auto simp: HashData_def assms(1) Let_def)
qed

lemma HashData_label_witness:
  "\<exists>h. HashData \<lparr>dg_json = \<lambda>_. Ok ''{}'', dg_sha256 = \<lambda>_. replicate 32 0\<rparr>
      (OpenStackHashInput [] None \<lparr>dbg_Enabled = False, dbg_SshkeyName = []\<rparr> [] False) = Ok h \<and> length h = 16"
  using HashData_label [of "\<lparr>dg_json = \<lambda>_. Ok ''{}'', dg_sha256 = \<lambda>_. replicate 32 0\<rparr>" _ "''{}''"]
  by fastforce

end
