(* ===== verification/LBDelete.thy ===== *)
theory LBDelete
  imports OpenstackHelper HelperLB
begin

text \<open>
  The deletion half of \<open>controllers/yawol-controller/loadbalancer/loadbalancer_controller.go\<close>:
  the four functions that remove the OpenStack resources of a LoadBalancer and release its status
  (\<open>deleteFips\<close>, \<open>deletePorts\<close>, \<open>deleteSecGroups\<close>, \<open>deleteServerGroups\<close>) and the
  \<open>deletionRoutine\<close> that calls them in order and finally removes the finalizer. A Go function
  that returns \<open>(bool, error)\<close> is an operation that returns the flag \<open>requeue\<close> or fails; the
  callers ignore the flag on an error. A block that may leave the function early yields
  \<open>Return\<close>, otherwise \<open>Continue\<close> with the current value of \<open>requeue\<close>.
\<close>

section \<open>Early returns and reporting\<close>

datatype 'a flow = Return 'a | Continue bool

definition flowM :: "('s, 'a flow) gop \<Rightarrow> (bool \<Rightarrow> ('s, 'a) gop) \<Rightarrow> ('s, 'a) gop" where
  "flowM m k = bindM m (\<lambda>f. case f of Return x \<Rightarrow> ret x | Continue requeue \<Rightarrow> k requeue)"

lemma runs_flowM [runs_simps]:
  "runs (flowM m k) s R = runs m s (caseR (\<lambda>f t. case f of Return x \<Rightarrow> R (Ok x) t | Continue b \<Rightarrow> runs (k b) t R)
     (\<lambda>e t. R (Err e) t) (\<lambda>c t. R (Crash c) t))"
  by (auto simp: flowM_def runs_simps caseR_def fun_eq_iff intro!: arg_cong [where f = "runs m s"]
      split: flow.split result.split)

lemma emits_flowM [emits_intros]: "emits P m \<Longrightarrow> (\<And>b. emits P (k b)) \<Longrightarrow> emits P (flowM m k)"
  unfolding flowM_def by (rule emits_bindM) (auto intro: emits_ret split: flow.split)

text \<open>\<open>if err := m; err != nil { return kubernetes.SendErrorAsEvent(r.RecorderLB, err, lb) }\<close>\<close>

definition reportM :: "('w, 'a) lbop \<Rightarrow> ('w, 'a) lbop" where
  "reportM m = catchM m SendErrorLB ret"

lemma emits_SendErrorLB [emits_intros]:
  "(\<And>o' t r m. P (CEvent o' t r m, True)) \<Longrightarrow> emits P (SendErrorLB e)"
  unfolding SendErrorLB_def by (intro emits_intros)

lemma emits_reportM [emits_intros]:
  "emits P m \<Longrightarrow> (\<And>o' t r m. P (CEvent o' t r m, True)) \<Longrightarrow> emits P (reportM m)"
  unfolding reportM_def by (intro emits_intros) auto

section \<open>Finalizers (internal/helper/kubernetes/finalizer.go)\<close>

definition ServiceFinalizer :: string where
  "ServiceFinalizer = ''yawol.stackit.cloud/controller2''"

definition AddFinalizerIfNeeded :: "'w kube \<Rightarrow> string \<Rightarrow> ('w, unit) lbop" where
  "AddFinalizerIfNeeded k finalizer = getLB (\<lambda>lb.
     if ContainsFinalizer (meta_Finalizers lb) finalizer then ret ()
     else patchMeta k (PatchFinalizers (meta_Finalizers lb @ [finalizer])))"

definition RemoveFinalizerIfNeeded :: "'w kube \<Rightarrow> string \<Rightarrow> ('w, unit) lbop" where
  "RemoveFinalizerIfNeeded k finalizer = getLB (\<lambda>lb.
     if \<not> ContainsFinalizer (meta_Finalizers lb) finalizer then ret ()
     else
       let finalizers = RemoveFinalizer (meta_Finalizers lb) finalizer in
       thenM (putLB (lb\<lparr>meta_Finalizers := finalizers\<rparr>)) (patchMeta k (PatchFinalizers finalizers)))"

section \<open>Floating IPs\<close>

definition keep_annotated :: "load_balancer \<Rightarrow> string \<Rightarrow> bool" where
  "keep_annotated lb anno = (ParseBool (at_key (meta_Annotations lb) anno) = Some True)"

text \<open>The two blocks that release the status instead of deleting.\<close>

definition releaseFip :: "'w kube \<Rightarrow> load_balancer \<Rightarrow> ('w, bool) lbop" where
  "releaseFip k lb =
     (if FloatingID (lb_Status lb) = None \<and> FloatingName (lb_Status lb) = None then ret False
      else thenM (RemoveFromLBStatus k ''floatingID'')
          (thenM (RemoveFromLBStatus k ''floatingName'') (ret True)))"

definition deleteFipByID :: "'w kube \<Rightarrow> 'w os_env \<Rightarrow> ('w, bool flow) lbop" where
  "deleteFipByID k os = getLB (\<lambda>lb.
     case FloatingID (lb_Status lb) of
       None \<Rightarrow> ret (Continue False)
     | Some floatingID \<Rightarrow>
         catchM (GetFIPByID os floatingID)
           (\<lambda>err.
              if err = ErrFIPNotFound then
                thenM (RemoveFromLBStatus k ''floatingID'') (ret (Return True))
              else if is_gopher_gone err then
                thenM (RemoveFromLBStatus k ''floatingID'') (ret (Return True))
              else SendErrorLB err)
           (\<lambda>fip.
              thenM (case fip of None \<Rightarrow> ret () | Some f \<Rightarrow> reportM (DeleteFIP os (fip_ID f)))
                (ret (Continue True))))"

definition deleteFipsByName :: "'w kube \<Rightarrow> 'w os_env \<Rightarrow> bool \<Rightarrow> ('w, bool) lbop" where
  "deleteFipsByName k os requeue = getLB (\<lambda>lb.
     case FloatingName (lb_Status lb) of
       None \<Rightarrow> ret requeue
     | Some fipName \<Rightarrow>
         bindM (FipList os \<lparr>flo_Description = fipName, flo_FloatingIP = []\<rparr>) (\<lambda>fipList.
           if fipList = [] then thenM (RemoveFromLBStatus k ''floatingName'') (ret False)
           else
             thenM (forM fipList (\<lambda>fip.
                 if fip_ID fip = [] \<or> fip_Description fip \<noteq> fipName then ret ()
                 else reportM (DeleteFIP os (fip_ID fip))))
               (ret True)))"

definition deleteFips :: "'w kube \<Rightarrow> 'w os_env \<Rightarrow> ('w, bool) lbop" where
  "deleteFips k os =
     thenM (ext CFipClient (os_FipClient os))
     (getLB (\<lambda>lb.
        if keep_annotated lb LoadBalancerKeepFloatingIP then releaseFip k lb
        else if spec_ExistingFloatingIP (lb_Spec lb) \<noteq> None then releaseFip k lb
        else flowM (deleteFipByID k os) (\<lambda>requeue. deleteFipsByName k os requeue)))"

section \<open>Ports\<close>

definition deletePortByID :: "'w kube \<Rightarrow> 'w os_env \<Rightarrow> ('w, bool flow) lbop" where
  "deletePortByID k os = getLB (\<lambda>lb.
     case PortID (lb_Status lb) of
       None \<Rightarrow> ret (Continue False)
     | Some portID \<Rightarrow>
         catchM (GetPortByID os portID)
           (\<lambda>err.
              if is_gopher_gone err then
                thenM (catchM (RemoveFromLBStatus k ''portIP'') (\<lambda>_. ret ()) ret)
                  (thenM (RemoveFromLBStatus k ''portID'') (ret (Return True)))
              else fail err)
           (\<lambda>port.
              thenM (case port of None \<Rightarrow> ret () | Some p \<Rightarrow> reportM (DeletePort os (port_ID p)))
                (ret (Continue True))))"

definition deletePortsByName :: "'w kube \<Rightarrow> 'w os_env \<Rightarrow> bool \<Rightarrow> ('w, bool) lbop" where
  "deletePortsByName k os requeue = getLB (\<lambda>lb.
     case PortName (lb_Status lb) of
       None \<Rightarrow> ret requeue
     | Some portName \<Rightarrow>
         bindM (PortList os portName) (\<lambda>portList.
           if portList = [] then thenM (RemoveFromLBStatus k ''portName'') (ret False)
           else
             thenM (forM portList (\<lambda>port.
                 if port_ID port = [] \<or> port_Name port \<noteq> portName then ret ()
                 else reportM (DeletePort os (port_ID port))))
               (ret True)))"

definition deletePorts :: "'w kube \<Rightarrow> 'w os_env \<Rightarrow> ('w, bool) lbop" where
  "deletePorts k os =
     thenM (ext CPortClient (os_PortClient os))
     (getLB (\<lambda>lb.
        if keep_annotated lb LoadBalancerKeepPort then
          (if PortID (lb_Status lb) = None then ret False
           else thenM (RemoveFromLBStatus k ''portID'') (ret True))
        else flowM (deletePortByID k os) (\<lambda>requeue. deletePortsByName k os requeue)))"

section \<open>Security groups\<close>

text \<open>The loop returns at the first port it cannot update; \<open>SendErrorAsEvent\<close> gives the error
  back, so the inner \<open>return nil\<close> is not reached.\<close>

definition findAndDeleteSecGroupUsages :: "'w os_env \<Rightarrow> ('w, unit) lbop" where
  "findAndDeleteSecGroupUsages os = getLB (\<lambda>lb.
     case SecurityGroupID (lb_Status lb) of
       None \<Rightarrow> ret ()
     | Some secGroupID \<Rightarrow>
         bindM (wrapM ''failed to get all ports: '' (GetAllPorts os)) (\<lambda>listedPorts.
           forM listedPorts (\<lambda>port.
             wrapM (''failed to remove sec group from port '' @ port_ID port @ '': '')
               (reportM (RemoveSecGroupFromPortIfNeeded os port secGroupID)))))"

definition deleteSecGroupByID :: "'w kube \<Rightarrow> 'w os_env \<Rightarrow> ('w, bool flow) lbop" where
  "deleteSecGroupByID k os = getLB (\<lambda>lb.
     case SecurityGroupID (lb_Status lb) of
       None \<Rightarrow> ret (Continue False)
     | Some secGroupID \<Rightarrow>
         catchM (GetSecGroupByID os secGroupID)
           (\<lambda>err.
              if is_gopher_gone err then
                thenM (wrapM ''failed to remove securityGroupID from lb status: ''
                    (RemoveFromLBStatus k ''securityGroupID''))
                  (ret (Return True))
              else fail (Wrapped ''failed to get sec group by ID: '' err))
           (\<lambda>secGroup.
              thenM (case secGroup of None \<Rightarrow> ret () | Some g \<Rightarrow> reportM (DeleteSecGroup os (grp_ID g)))
                (ret (Continue True))))"

definition deleteSecGroupsByName :: "'w kube \<Rightarrow> 'w os_env \<Rightarrow> bool \<Rightarrow> ('w, bool) lbop" where
  "deleteSecGroupsByName k os requeue = getLB (\<lambda>lb.
     case SecurityGroupName (lb_Status lb) of
       None \<Rightarrow> ret requeue
     | Some secGroupName \<Rightarrow>
         bindM (wrapM ''failed to list sec groups: '' (GroupList os secGroupName)) (\<lambda>secGroupList.
           if secGroupList = [] then
             thenM (wrapM ''failed to remove securityGroupName from lb status: ''
                 (RemoveFromLBStatus k ''securityGroupName''))
               (ret False)
           else
             thenM (forM secGroupList (\<lambda>secGroup.
                 if grp_ID secGroup = [] \<or> grp_Name secGroup \<noteq> secGroupName then ret ()
                 else reportM (DeleteSecGroup os (grp_ID secGroup))))
               (ret True)))"

definition deleteSecGroups :: "'w kube \<Rightarrow> 'w os_env \<Rightarrow> ('w, bool) lbop" where
  "deleteSecGroups k os = getLB (\<lambda>lb.
     if keep_annotated lb LoadBalancerKeepSecurityGroup then
       (if SecurityGroupID (lb_Status lb) = None then ret False
        else thenM (wrapM ''failed to remove from lb status: ''
              (RemoveFromLBStatus k ''security_group_id''))
            (ret False))
     else
       thenM (wrapM ''failed to create port client: '' (ext CPortClient (os_PortClient os)))
       (thenM (wrapM ''failed to create group client: '' (ext CGroupClient (os_GroupClient os)))
       (thenM (wrapM ''failed to delete sec group usages: '' (findAndDeleteSecGroupUsages os))
       (flowM (deleteSecGroupByID k os) (\<lambda>requeue. deleteSecGroupsByName k os requeue)))))"

section \<open>Server groups\<close>

definition deleteServerGroupByID :: "'w kube \<Rightarrow> 'w os_env \<Rightarrow> ('w, bool flow) lbop" where
  "deleteServerGroupByID k os = getLB (\<lambda>lb.
     case ServerGroupID (lb_Status lb) of
       None \<Rightarrow> ret (Continue False)
     | Some serverGroupID \<Rightarrow>
         catchM (GetServerGroupByID os serverGroupID)
           (\<lambda>err.
              if is_gopher_gone err then
                thenM (RemoveFromLBStatus k ''serverGroupID'') (ret (Return True))
              else fail err)
           (\<lambda>serverGroup.
              thenM (case serverGroup of None \<Rightarrow> ret () | Some g \<Rightarrow> reportM (DeleteServerGroup os (sg_ID g)))
                (ret (Continue True))))"

text \<open>The log line of the default branch dereferences \<open>Status.SecurityGroupID\<close>.\<close>

definition deleteServerGroupsByName :: "'w kube \<Rightarrow> 'w os_env \<Rightarrow> bool \<Rightarrow> ('w, bool) lbop" where
  "deleteServerGroupsByName k os requeue = getLB (\<lambda>lb.
     case ServerGroupName (lb_Status lb) of
       None \<Rightarrow> ret requeue
     | Some serverGroupName \<Rightarrow>
         catchM (GetServerGroupByName os serverGroupName)
           (\<lambda>err.
              if is_gopher_gone err then
                thenM (RemoveFromLBStatus k ''serverGroupName'') (ret True)
              else deref (SecurityGroupID (lb_Status lb)) (\<lambda>_. fail err))
           (\<lambda>serverGroup.
              case serverGroup of
                None \<Rightarrow> thenM (RemoveFromLBStatus k ''serverGroupName'') (ret True)
              | Some g \<Rightarrow> thenM (reportM (DeleteServerGroup os (sg_ID g))) (ret True)))"

definition deleteServerGroups :: "'w kube \<Rightarrow> 'w os_env \<Rightarrow> ('w, bool) lbop" where
  "deleteServerGroups k os =
     thenM (ext CServerGroupClient (os_ServerGroupClient os))
     (flowM (deleteServerGroupByID k os) (\<lambda>requeue. deleteServerGroupsByName k os requeue))"

section \<open>The deletion routine\<close>

text \<open>\<open>ctrl.Result\<close>: the time after which to reconcile again, 0 for none.\<close>

record ctrl_result =
  RequeueAfter :: int

definition emptyResult :: ctrl_result where
  "emptyResult = \<lparr>RequeueAfter = 0\<rparr>"

definition requeueDefault :: ctrl_result where
  "requeueDefault = \<lparr>RequeueAfter = DefaultRequeueTime\<rparr>"

definition deleteSets :: "'w kube \<Rightarrow> load_balancer_set list \<Rightarrow> ('w, unit) lbop" where
  "deleteSets k items =
     forM items (\<lambda>lbs.
       if meta_DeletionTimestamp lbs = None
       then wrapM (''failed to delete item '' @ meta_Name lbs @ '': '')
              (ext (CDeleteSet (key_of lbs)) (k_DeleteSet k (key_of lbs)))
       else ret ())"

text \<open>The part of the routine after the sets are gone.\<close>

definition deleteResources :: "'w kube \<Rightarrow> 'w os_env \<Rightarrow> ('w, ctrl_result) lbop" where
  "deleteResources k os =
     bindM (wrapM ''failed to delete server groups: '' (deleteServerGroups k os)) (\<lambda>requeue.
     if requeue then ret requeueDefault else
     bindM (wrapM ''failed to delete FIPs: '' (deleteFips k os)) (\<lambda>requeue.
     if requeue then ret requeueDefault else
     bindM (wrapM ''failed to delete ports: '' (deletePorts k os)) (\<lambda>requeue.
     if requeue then ret requeueDefault else
     bindM (wrapM ''failed to delete sec groups: '' (deleteSecGroups k os)) (\<lambda>requeue.
     if requeue then ret requeueDefault else
     getLB (\<lambda>lb.
     thenM (record_call (CMetrics ''RemoveLoadBalancerMetrics'' (key_of lb)))
     (thenM (wrapM ''failed to remove finalizer: '' (RemoveFinalizerIfNeeded k ServiceFinalizer))
     (ret emptyResult)))))))"

definition deletionRoutine :: "'w kube \<Rightarrow> 'w os_env \<Rightarrow> ('w, ctrl_result) lbop" where
  "deletionRoutine k os = getLB (\<lambda>lb.
     bindM (wrapM ''failed to get lb sets for lb: '' (GetLoadBalancerSetsForLoadBalancer k lb)) (\<lambda>items.
     thenM (deleteSets k items)
     (if items \<noteq> [] then ret \<lparr>RequeueAfter = 10 * Second\<rparr>
      else deleteResources k os)))"

end
