(* ===== verification/LBController.thy ===== *)
theory LBController
  imports LBDelete
begin

text \<open>
  The reconciler of LoadBalancers,
  \<open>controllers/yawol-controller/loadbalancer/loadbalancer_controller.go\<close>: the API migration, the
  OpenStack resources (security group, floating IP, port, association, server group), the rollout of
  LoadBalancerSets, the watch predicate and \<open>Reconcile\<close>, which composes them. The functions keep
  the order of the source's calls and its early returns; log lines are left out.
\<close>

section \<open>The reconciler\<close>

text \<open>\<open>getOsClientForIni\<close> gets the content of the secret and the project that overwrites it.\<close>

record 'w reconciler =
  rc_Client :: "'w kube"
  rc_getOsClientForIni :: "string \<Rightarrow> string option \<Rightarrow> ('w, 'w os_env) gop"
  rc_digest :: digest
  rc_skipReconciles :: bool
  rc_skipAllButNN :: "namespaced_name option"

definition stringErr :: "string \<Rightarrow> goerr" where
  "stringErr t = OtherErr t"

text \<open>\<open>GetOpenStackClientForInfrastructure\<close> of \<open>internal/helper/openstack/client.go\<close>\<close>

definition GetOpenStackClientForInfrastructure ::
    "'w kube \<Rightarrow> (string \<Rightarrow> string option \<Rightarrow> ('w, 'o) gop) \<Rightarrow> infrastructure \<Rightarrow> (('w, call, 'z) st_scheme, 'o) gop" where
  "GetOpenStackClientForInfrastructure k getOsClientForIni infra =
     (let key = \<lparr>nn_Namespace = ref_Namespace (infra_AuthSecretRef infra),
            nn_Name = ref_Name (infra_AuthSecretRef infra)\<rparr> in
      bindM (ext (CGetSecret key) (k_GetSecret k key)) (\<lambda>data.
        case data ''cloudprovider.conf'' of
          None \<Rightarrow> fail (stringErr ''cloudprovider.conf not found in secret'')
        | Some ini \<Rightarrow>
            ext (CGetOsClient ini (infra_ProjectID infra))
              (getOsClientForIni ini (infra_ProjectID infra))))"

section \<open>API migration\<close>

definition no_status :: lb_status where
  "no_status = zero_lb_status"

definition updateLB :: "'w kube \<Rightarrow> ('w, unit) lbop" where
  "updateLB k = getLB (\<lambda>lb. bindM (ext (CUpdateLB lb) (k_UpdateLB k lb)) putLB)"

definition migrateSecurityGroupID :: "'w kube \<Rightarrow> ('w, unit) lbop" where
  "migrateSecurityGroupID k = getLB (\<lambda>lb.
     if SecurityGroupIDOld (lb_Status lb) \<noteq> None then
       thenM (PatchLBStatus k (no_status\<lparr>SecurityGroupID := SecurityGroupIDOld (lb_Status lb)\<rparr>))
         (RemoveFromLBStatus k ''security_group_id'')
     else ret ())"

definition migrateSecurityGroupName :: "'w kube \<Rightarrow> ('w, unit) lbop" where
  "migrateSecurityGroupName k = getLB (\<lambda>lb.
     if SecurityGroupNameOld (lb_Status lb) \<noteq> None then
       thenM (PatchLBStatus k (no_status\<lparr>SecurityGroupName := SecurityGroupNameOld (lb_Status lb)\<rparr>))
         (RemoveFromLBStatus k ''security_group_name'')
     else ret ())"

text \<open>Moving a deprecated field of the flavor or the image to its successor, and updating.\<close>

definition set_flavor :: "(flavor_ref \<Rightarrow> flavor_ref) \<Rightarrow> load_balancer \<Rightarrow> load_balancer" where
  "set_flavor f lb = (let sp = lb_Spec lb; infra = spec_Infrastructure sp in
     lb\<lparr>lb_Spec := sp\<lparr>spec_Infrastructure := infra\<lparr>infra_Flavor := f (infra_Flavor infra)\<rparr>\<rparr>\<rparr>)"

definition set_image :: "(image_ref \<Rightarrow> image_ref) \<Rightarrow> load_balancer \<Rightarrow> load_balancer" where
  "set_image f lb = (let sp = lb_Spec lb; infra = spec_Infrastructure sp in
     lb\<lparr>lb_Spec := sp\<lparr>spec_Infrastructure := infra\<lparr>infra_Image := f (infra_Image infra)\<rparr>\<rparr>\<rparr>)"

definition migrateField :: "'w kube \<Rightarrow> (load_balancer \<Rightarrow> string option) \<Rightarrow> (load_balancer \<Rightarrow> load_balancer) \<Rightarrow> ('w, unit) lbop" where
  "migrateField k old move = getLB (\<lambda>lb.
     if old lb \<noteq> None then thenM (putLB (move lb)) (updateLB k) else ret ())"

definition flavor_of :: "load_balancer \<Rightarrow> flavor_ref" where
  "flavor_of lb = infra_Flavor (spec_Infrastructure (lb_Spec lb))"

definition image_of :: "load_balancer \<Rightarrow> image_ref" where
  "image_of lb = infra_Image (spec_Infrastructure (lb_Spec lb))"

definition migrateAPI :: "'w kube \<Rightarrow> ('w, unit) lbop" where
  "migrateAPI k =
     thenM (migrateSecurityGroupID k)
     (thenM (migrateSecurityGroupName k)
     (thenM (migrateField k (\<lambda>lb. FlavorIDOld (flavor_of lb))
        (set_flavor (\<lambda>f. f\<lparr>FlavorID := FlavorIDOld f, FlavorIDOld := None\<rparr>)))
     (thenM (migrateField k (\<lambda>lb. FlavorNameOld (flavor_of lb))
        (set_flavor (\<lambda>f. f\<lparr>FlavorName := FlavorNameOld f, FlavorNameOld := None\<rparr>)))
     (thenM (migrateField k (\<lambda>lb. FlavorSearchOld (flavor_of lb))
        (set_flavor (\<lambda>f. f\<lparr>FlavorSearch := FlavorSearchOld f, FlavorSearchOld := None\<rparr>)))
     (thenM (migrateField k (\<lambda>lb. ImageIDOld (image_of lb))
        (set_image (\<lambda>f. f\<lparr>ImageID := ImageIDOld f, ImageIDOld := None\<rparr>)))
     (thenM (migrateField k (\<lambda>lb. ImageNameOld (image_of lb))
        (set_image (\<lambda>f. f\<lparr>ImageName := ImageNameOld f, ImageNameOld := None\<rparr>)))
     (migrateField k (\<lambda>lb. ImageSearchOld (image_of lb))
        (set_image (\<lambda>f. f\<lparr>ImageSearch := ImageSearchOld f, ImageSearchOld := None\<rparr>)))))))))"

section \<open>Floating IP\<close>

definition ErrFIPIDEmpty :: goerr where
  "ErrFIPIDEmpty = HelperErr ''fip was successfully created but fip id is empty''"

text \<open>An error of the lookup by name is only logged; a FIP is then created.\<close>

definition assignOrCreateFIP :: "'w kube \<Rightarrow> 'w os_env \<Rightarrow> ('w, unit) lbop" where
  "assignOrCreateFIP k os = getLB (\<lambda>lb.
     case spec_ExistingFloatingIP (lb_Spec lb) of
       Some existing \<Rightarrow>
         bindM (reportM (GetFIPByIP os existing)) (\<lambda>fip.
           if fip_ID fip \<noteq> [] then PatchLBStatus k (no_status\<lparr>FloatingID := Some (fip_ID fip)\<rparr>)
           else ret ())
     | None \<Rightarrow>
         deref (FloatingName (lb_Status lb)) (\<lambda>floatingName.
         bindM (catchM (GetFIPByName os floatingName) (\<lambda>_. ret None) (\<lambda>f. ret (Some f))) (\<lambda>found.
         case found of
           Some fip \<Rightarrow> PatchLBStatus k (no_status\<lparr>FloatingID := Some (fip_ID fip)\<rparr>)
         | None \<Rightarrow>
             bindM (reportM (CreateFIP os lb)) (\<lambda>created.
             deref created (\<lambda>fip.
             if fip_ID fip = [] then fail ErrFIPIDEmpty
             else PatchLBStatus k (no_status\<lparr>FloatingID := Some (fip_ID fip)\<rparr>))))))"

definition getStatusCode :: "goerr \<Rightarrow> int" where
  "getStatusCode e = (case e of ErrUnexpectedResponseCode c b t \<Rightarrow> c | _ \<Rightarrow> 0)"

definition fetchFIP :: "'w os_env \<Rightarrow> string \<Rightarrow> ('w, floating_ip option) lbop" where
  "fetchFIP os floatingID =
     catchM (GetFIPByID os floatingID)
       (\<lambda>err.
          if is_unexpected_code err then
            (if getStatusCode err = 404 then fail (Wrapped ''fip not found: '' err)
             else fail (Wrapped ''unexpected gophercloud error occurred: '' err))
          else SendErrorLB err)
       ret"

definition reconcileFIP :: "'w kube \<Rightarrow> namespaced_name \<Rightarrow> 'w os_env \<Rightarrow> ('w, bool) lbop" where
  "reconcileFIP k req os = getLB (\<lambda>lb.
     if opt_InternalLB (spec_Options (lb_Spec lb)) then
       wrapM ''failed to delete FIPs for internal LB: '' (deleteFips k os)
     else
       thenM (wrapM ''failed to create FIP client: '' (ext CFipClient (os_FipClient os)))
       (bindM (if FloatingName (lb_Status lb) = None then
            thenM (wrapM ''failed to patch lb status: ''
                (PatchLBStatus k (no_status\<lparr>FloatingName := Some (nn_String req)\<rparr>)))
              (ret True)
          else ret False) (\<lambda>requeue.
       getLB (\<lambda>lb.
       bindM (if FloatingID (lb_Status lb) = None then
            thenM (wrapM ''failed to assign FIP: '' (assignOrCreateFIP k os)) (ret True)
          else ret requeue) (\<lambda>requeue.
       getLB (\<lambda>lb.
       deref (FloatingID (lb_Status lb)) (\<lambda>floatingID.
       bindM (fetchFIP os floatingID) (\<lambda>found.
       deref found (\<lambda>fip.
       bindM (if ExternalIP (lb_Status lb) \<noteq> Some (fip_FloatingIP fip) then
            thenM (wrapM ''failed to add FIP to lb status: ''
                (PatchLBStatus k (no_status\<lparr>ExternalIP := Some (fip_FloatingIP fip)\<rparr>)))
              (ret True)
          else ret requeue) (\<lambda>requeue.
       getLB (\<lambda>lb.
       thenM (if spec_ExistingFloatingIP (lb_Spec lb) \<noteq> None \<and>
                 FloatingName (lb_Status lb) = Some (fip_Description fip) then
            wrapM ''failed to mark FIP as user managed: ''
              (bindM (FipUpdate os (fip_ID fip)
                  \<lparr>fuo_Description = Some (fip_Description fip @ '' (user managed)''), fuo_PortID = None\<rparr>)
                (\<lambda>_. ret ()))
          else ret ())
       (ret requeue))))))))))))"

section \<open>Port\<close>

definition ErrPortIDEmpty :: goerr where
  "ErrPortIDEmpty = HelperErr ''port was successfully created but port id is empty''"

definition createPortFor :: "'w kube \<Rightarrow> 'w os_env \<Rightarrow> ('w, port) lbop" where
  "createPortFor k os = getLB (\<lambda>lb.
     let infra = spec_Infrastructure (lb_Spec lb);
         networkID = (if infra_NetworkID infra \<noteq> [] then infra_NetworkID infra else []);
         networkID = (if dn_NetworkID (infra_DefaultNetwork infra) \<noteq> []
                      then dn_NetworkID (infra_DefaultNetwork infra) else networkID);
         subnetID = (case dn_SubnetID (infra_DefaultNetwork infra) of None \<Rightarrow> [] | Some i \<Rightarrow> i)
     in deref (PortName (lb_Status lb)) (\<lambda>portName.
        bindM (reportM (CreatePort os portName networkID subnetID)) (\<lambda>created.
        deref created (\<lambda>port.
        if port_ID port = [] then fail ErrPortIDEmpty
        else thenM (PatchLBStatus k (no_status\<lparr>PortID := Some (port_ID port)\<rparr>)) (ret port)))))"

text \<open>A port that OpenStack does not know is dropped from the status and the error is returned.\<close>

definition fetchPort :: "'w kube \<Rightarrow> 'w os_env \<Rightarrow> string \<Rightarrow> ('w, port option) lbop" where
  "fetchPort k os portID =
     catchM (GetPortByID os portID)
       (\<lambda>err.
          if is_gopher_gone err then thenM (RemoveFromLBStatus k ''portID'') (SendErrorLB err)
          else SendErrorLB err)
       ret"

definition bindSecGroups :: "'w os_env \<Rightarrow> port \<Rightarrow> bool \<Rightarrow> ('w, bool) lbop" where
  "bindSecGroups os port requeue = getLB (\<lambda>lb.
     bindM (case SecurityGroupID (lb_Status lb) of
          None \<Rightarrow> ret requeue
        | Some sg \<Rightarrow>
            if length (port_SecurityGroups port) \<noteq> 1 \<or> port_SecurityGroups port ! 0 \<noteq> sg then
              thenM (reportM (bindM (PortUpdate os (port_ID port)
                  \<lparr>puo_SecurityGroups = Some [sg], puo_AllowedAddressPairs = None\<rparr>) (\<lambda>_. ret ())))
                (ret True)
            else ret requeue) (\<lambda>requeue.
     bindM (reportM (BindSecGroupToPortIfNeeded os (SecurityGroupID (lb_Status lb)) port)) (\<lambda>changed.
     ret (requeue \<or> changed))))"

definition publishPortIP :: "'w kube \<Rightarrow> port \<Rightarrow> bool \<Rightarrow> ('w, bool) lbop" where
  "publishPortIP k port requeue =
     (case port_FixedIPs port of
        [] \<Rightarrow> ret requeue
      | ip # _ \<Rightarrow>
          bindM (getLB (\<lambda>lb.
            if PortIP (lb_Status lb) \<noteq> Some (pip_IPAddress ip) then
              thenM (PatchLBStatus k (no_status\<lparr>PortIP := Some (pip_IPAddress ip)\<rparr>)) (ret True)
            else ret requeue)) (\<lambda>requeue.
          getLB (\<lambda>lb.
            if opt_InternalLB (spec_Options (lb_Spec lb)) \<and> ExternalIP (lb_Status lb) \<noteq> Some (pip_IPAddress ip) then
              thenM (PatchLBStatus k (no_status\<lparr>ExternalIP := Some (pip_IPAddress ip)\<rparr>)) (ret True)
            else ret requeue)))"

text \<open>The variable \<open>port\<close> of the source is nil until a port is found, created or fetched; a nil
  port after the lookup is dereferenced when there is a security group to bind.\<close>

definition reconcilePort :: "'w kube \<Rightarrow> namespaced_name \<Rightarrow> 'w os_env \<Rightarrow> ('w, bool) lbop" where
  "reconcilePort k req os =
     thenM (ext CPortClient (os_PortClient os))
     (bindM (getLB (\<lambda>lb.
        if PortName (lb_Status lb) = None then
          thenM (PatchLBStatus k (no_status\<lparr>PortName := Some (nn_String req)\<rparr>)) (ret True)
        else ret False)) (\<lambda>requeue.
     bindM (getLB (\<lambda>lb.
        if PortID (lb_Status lb) = None then
          deref (PortName (lb_Status lb)) (\<lambda>portName.
          bindM (GetPortByName os portName) (\<lambda>port.
          case port of
            None \<Rightarrow> ret (None, requeue)
          | Some p \<Rightarrow> thenM (PatchLBStatus k (no_status\<lparr>PortID := Some (port_ID p)\<rparr>)) (ret (port, True))))
        else ret (None, requeue))) (\<lambda>(port, requeue).
     bindM (getLB (\<lambda>lb.
        if PortID (lb_Status lb) = None then bindM (createPortFor k os) (\<lambda>p. ret (Some p, True))
        else ret (port, requeue))) (\<lambda>(port, requeue).
     bindM (getLB (\<lambda>lb.
        case PortID (lb_Status lb) of
          None \<Rightarrow> ret (port, requeue)
        | Some portID \<Rightarrow>
            bindM (fetchPort k os portID) (\<lambda>port.
            case port of
              None \<Rightarrow> getLB (\<lambda>lb.
                  if SecurityGroupID (lb_Status lb) = None then ret (port, requeue)
                  else crash ''nil pointer dereference'')
            | Some p \<Rightarrow> bindM (bindSecGroups os p requeue) (\<lambda>requeue. ret (port, requeue))))) (\<lambda>(port, requeue).
     case port of
       None \<Rightarrow> ret True
     | Some p \<Rightarrow> publishPortIP k p requeue)))))"

section \<open>Security group\<close>

definition ErrSecGroupIDEmpty :: goerr where
  "ErrSecGroupIDEmpty = HelperErr ''secGroup was successfully created but secGroup id is empty''"

definition ErrSecGroupNil :: goerr where
  "ErrSecGroupNil = HelperErr ''SecGroup is nil, cannot create rules''"

definition createSecGroupFor :: "'w kube \<Rightarrow> namespaced_name \<Rightarrow> 'w os_env \<Rightarrow> ('w, sec_group) lbop" where
  "createSecGroupFor k req os =
     bindM (reportM (CreateSecGroup os (nn_String req))) (\<lambda>created.
     deref created (\<lambda>secGroup.
     if grp_ID secGroup = [] then fail ErrSecGroupIDEmpty
     else thenM (PatchLBStatus k (no_status\<lparr>SecurityGroupID := Some (grp_ID secGroup)\<rparr>)) (ret secGroup)))"

definition reconcileSecGroupRules :: "namespaced_name \<Rightarrow> 'w os_env \<Rightarrow> sec_group \<Rightarrow> ('w, unit) lbop" where
  "reconcileSecGroupRules req os secGroup = getLB (\<lambda>lb.
     bindM (GetDesiredSecGroupRulesForLoadBalancer lb (grp_ID secGroup)) (\<lambda>desired.
     thenM (reportM (DeleteUnusedSecGroupRulesFromSecGroup os secGroup desired))
       (reportM (CreateNonExistingSecGroupRules os (nn_String req) secGroup desired))))"

definition reconcileSecGroup :: "'w kube \<Rightarrow> namespaced_name \<Rightarrow> 'w os_env \<Rightarrow> ('w, bool) lbop" where
  "reconcileSecGroup k req os =
     thenM (ext CGroupClient (os_GroupClient os))
     (thenM (ext CRuleClient (os_RuleClient os))
     (bindM (getLB (\<lambda>lb.
        if SecurityGroupName (lb_Status lb) = None then
          thenM (PatchLBStatus k (no_status\<lparr>SecurityGroupName := Some (nn_String req)\<rparr>)) (ret True)
        else ret False)) (\<lambda>requeue.
     bindM (getLB (\<lambda>lb.
        if SecurityGroupID (lb_Status lb) = None then
          deref (SecurityGroupName (lb_Status lb)) (\<lambda>groupName.
          bindM (reportM (GetSecGroupByName os groupName)) (\<lambda>secGroup.
          case secGroup of
            None \<Rightarrow> ret (None, requeue)
          | Some g \<Rightarrow> thenM (PatchLBStatus k (no_status\<lparr>SecurityGroupID := Some (grp_ID g)\<rparr>)) (ret (secGroup, True))))
        else ret (None, requeue))) (\<lambda>(secGroup, requeue).
     bindM (getLB (\<lambda>lb.
        if SecurityGroupID (lb_Status lb) = None then bindM (createSecGroupFor k req os) (\<lambda>g. ret (Some g, True))
        else ret (secGroup, requeue))) (\<lambda>(secGroup, requeue).
     bindM (getLB (\<lambda>lb.
        case SecurityGroupID (lb_Status lb) of
          None \<Rightarrow> ret (Inr secGroup)
        | Some secGroupID \<Rightarrow>
            catchM (GetSecGroupByID os secGroupID)
              (\<lambda>err.
                 if is_gopher_gone err then
                   thenM (RemoveFromLBStatus k ''securityGroupID'') (ret (Inl True))
                 else SendErrorLB err)
              (\<lambda>secGroup. ret (Inr secGroup)))) (\<lambda>fetched.
     case fetched of
       Inl early \<Rightarrow> ret early
     | Inr None \<Rightarrow> fail ErrSecGroupNil
     | Inr (Some g) \<Rightarrow> thenM (reconcileSecGroupRules req os g) (ret requeue)))))))"

section \<open>Server group\<close>

definition ErrServerGroupIDEmpty :: goerr where
  "ErrServerGroupIDEmpty = HelperErr ''server group was successfully created but server group id is empty''"

definition createServerGroupFor :: "'w kube \<Rightarrow> 'w os_env \<Rightarrow> ('w, unit) lbop" where
  "createServerGroupFor k os = getLB (\<lambda>lb.
     deref (ServerGroupName (lb_Status lb)) (\<lambda>name.
     bindM (reportM (CreateServerGroup os name (opt_ServerGroupPolicy (spec_Options (lb_Spec lb))))) (\<lambda>created.
     deref created (\<lambda>g.
     if sg_ID g = [] then fail ErrServerGroupIDEmpty
     else PatchLBStatus k (no_status\<lparr>ServerGroupID := Some (sg_ID g)\<rparr>)))))"

text \<open>A group with the wrong policy is deleted; the next reconcile finds its ID gone.\<close>

definition checkServerGroup :: "'w kube \<Rightarrow> 'w os_env \<Rightarrow> string \<Rightarrow> bool \<Rightarrow> ('w, bool) lbop" where
  "checkServerGroup k os serverGroupID requeue =
     catchM (GetServerGroupByID os serverGroupID)
       (\<lambda>err.
          if is_gopher_gone err then thenM (RemoveFromLBStatus k ''serverGroupID'') (SendErrorLB err)
          else SendErrorLB err)
       (\<lambda>found. deref found (\<lambda>g. getLB (\<lambda>lb.
          if length (sg_Policies g) \<noteq> 1 \<or> sg_Policies g ! 0 \<noteq> opt_ServerGroupPolicy (spec_Options (lb_Spec lb))
          then thenM (DeleteServerGroup os (sg_ID g)) (ret True)
          else ret requeue)))"

definition reconcileServerGroup :: "'w kube \<Rightarrow> namespaced_name \<Rightarrow> 'w os_env \<Rightarrow> ('w, bool) lbop" where
  "reconcileServerGroup k req os =
     thenM (ext CServerGroupClient (os_ServerGroupClient os))
     (bindM (getLB (\<lambda>lb.
        if ServerGroupName (lb_Status lb) = None then
          thenM (PatchLBStatus k (no_status\<lparr>ServerGroupName := Some (nn_String req)\<rparr>)) (ret True)
        else ret False)) (\<lambda>requeue.
     bindM (getLB (\<lambda>lb.
        if ServerGroupID (lb_Status lb) = None then
          deref (ServerGroupName (lb_Status lb)) (\<lambda>name.
          bindM (GetServerGroupByName os name) (\<lambda>serverGroup.
          case serverGroup of
            None \<Rightarrow> ret requeue
          | Some g \<Rightarrow> thenM (PatchLBStatus k (no_status\<lparr>ServerGroupID := Some (sg_ID g)\<rparr>)) (ret True)))
        else ret requeue)) (\<lambda>requeue.
     bindM (getLB (\<lambda>lb.
        if ServerGroupID (lb_Status lb) = None then thenM (createServerGroupFor k os) (ret True)
        else ret requeue)) (\<lambda>requeue.
     getLB (\<lambda>lb.
        case ServerGroupID (lb_Status lb) of
          None \<Rightarrow> ret requeue
        | Some serverGroupID \<Rightarrow> checkServerGroup k os serverGroupID requeue)))))"

section \<open>Association of the floating IP\<close>

definition reconcileFIPAssociate :: "'w kube \<Rightarrow> namespaced_name \<Rightarrow> 'w os_env \<Rightarrow> ('w, bool) lbop" where
  "reconcileFIPAssociate k req os = getLB (\<lambda>lb.
     if opt_InternalLB (spec_Options (lb_Spec lb)) then ret False
     else
       thenM (ext CFipClient (os_FipClient os))
       (case (PortID (lb_Status lb), FloatingID (lb_Status lb)) of
          (Some portID, Some floatingID) \<Rightarrow>
            bindM (reportM (GetFIPByID os floatingID)) (\<lambda>found.
            deref found (\<lambda>fip.
            if fip_PortID fip = portID \<and> fip_Status fip = ''ACTIVE'' then ret False
            else thenM (reportM (BindFIPToPort os floatingID (Some portID))) (ret False)))
        | _ \<Rightarrow> ret True))"

section \<open>The OpenStack reconcile\<close>

definition updateOpenstackReconcileHash :: "'w reconciler \<Rightarrow> ('w, unit) lbop" where
  "updateOpenstackReconcileHash rc = getLB (\<lambda>lb.
     bindM (wrapM ''failed to get reconcicle hash: '' (liftR (GetOpenStackReconcileHash (rc_digest rc) lb))) (\<lambda>hash.
     if OpenstackReconcileHash (lb_Status lb) = Some hash then ret ()
     else reportM (PatchLBStatus (rc_Client rc) (no_status\<lparr>OpenstackReconcileHash := Some hash\<rparr>))))"

definition reconcileOpenStackIfNeeded :: "'w reconciler \<Rightarrow> namespaced_name \<Rightarrow> 'w os_env \<Rightarrow> ('w, ctrl_result) lbop" where
  "reconcileOpenStackIfNeeded rc req os = (let k = rc_Client rc in
     getLB (\<lambda>lb. nowM k (\<lambda>now.
     if \<not> LoadBalancerOpenstackReconcileIsNeeded (rc_digest rc) now lb then ret emptyResult
     else
       bindM (wrapM ''failed to reconcile sec group: '' (reconcileSecGroup k req os)) (\<lambda>r1.
       bindM (wrapM ''failed to reconcile FIP: '' (reconcileFIP k req os)) (\<lambda>r2.
       bindM (wrapM ''failed to reconcile port: '' (reconcilePort k req os)) (\<lambda>r3.
       bindM (wrapM ''failed to reconcile FIP association: '' (reconcileFIPAssociate k req os)) (\<lambda>r4.
       bindM (getLB (\<lambda>lb.
         if opt_ServerGroupPolicy (spec_Options (lb_Spec lb)) \<noteq> []
         then wrapM ''failed to reconcile server group: '' (reconcileServerGroup k req os)
         else wrapM ''failed to delete server groups: '' (deleteServerGroups k os))) (\<lambda>r5.
       if r1 \<or> r2 \<or> r3 \<or> r4 \<or> r5 then ret requeueDefault
       else
         nowM k (\<lambda>now.
         thenM (wrapM ''failed to patch lb status: ''
             (PatchLBStatus k (no_status\<lparr>LastOpenstackReconcile := Some now\<rparr>)))
         (thenM (wrapM ''failed to update openstack reconcile hash: '' (updateOpenstackReconcileHash rc))
         (ret emptyResult)))))))))))"

section \<open>Rollout of LoadBalancerSets\<close>

definition ErrLBPortNotSet :: goerr where
  "ErrLBPortNotSet = HelperErr ''load balancer port not set''"

text \<open>A new set: the LoadBalancer takes the next revision first, then the set is created.\<close>

definition createSetFor :: "'w reconciler \<Rightarrow> load_balancer_set list \<Rightarrow> string \<Rightarrow> ('w, load_balancer_set) lbop" where
  "createSetFor rc setList hash =
     bindM (liftR (GetNextRevisionForLoadBalancer setList)) (\<lambda>nextRevision.
     getLB (\<lambda>lb.
     if PortID (lb_Status lb) = None then fail ErrLBPortNotSet
     else
       thenM (PatchLoadBalancerRevision (rc_Client rc) nextRevision)
       (getLB (\<lambda>lb.
       bindM (NewLoadBalancerSetForLoadBalancer lb hash nextRevision) (\<lambda>lbs.
       ext (CCreateSet lbs) (k_CreateSet (rc_Client rc) lbs))))))"

text \<open>\<open>Status().Patch(ctx, lb, client.MergeFrom(old))\<close> with the new replica counts in memory.\<close>

definition patchReplicaStatus :: "'w kube \<Rightarrow> load_balancer_set list \<Rightarrow> ('w, unit) lbop" where
  "patchReplicaStatus k setList = getLB (\<lambda>lb.
     let (statusReplicas, statusReadyReplicas) = StatusReplicasFromSetList setList;
         new = (lb_Status lb)\<lparr>Replicas := Some statusReplicas, ReadyReplicas := Some statusReadyReplicas\<rparr>
     in thenM (putLB (lb\<lparr>lb_Status := new\<rparr>)) (patchStatus k (DiffStatus (lb_Status lb) new)))"

text \<open>What happens once the current set is known; the error of the scale down is dropped.\<close>

definition rolloutSet :: "'w reconciler \<Rightarrow> load_balancer_set list \<Rightarrow> load_balancer_set \<Rightarrow> ('w, ctrl_result) lbop" where
  "rolloutSet rc setList currentSet = (let k = rc_Client rc in
     thenM (patchReplicaStatus k setList)
     (getLB (\<lambda>lb.
     let desiredReplicas = spec_Replicas (lb_Spec lb) in
     bindM (if sspec_Replicas (set_Spec currentSet) \<noteq> desiredReplicas
            then PatchLoadBalancerSetReplicas k currentSet desiredReplicas
            else ret currentSet) (\<lambda>currentSet.
     let currentReplicas = Deref (set_Replicas (set_Status currentSet)) 0;
         currentReadyReplicas = Deref (set_ReadyReplicas (set_Status currentSet)) 0 in
     if currentReplicas \<noteq> desiredReplicas \<or> currentReadyReplicas \<noteq> desiredReplicas then ret emptyResult
     else nowM k (\<lambda>now.
       let (ok, requeueAfter) = LBSetHasKeepalivedMaster now currentSet in
       if \<not> ok then
         ret \<lparr>RequeueAfter = (if requeueAfter > 5 * Minute then 5 * Minute else requeueAfter)\<rparr>
       else
         catchM (ScaleDownOldLoadBalancerSets k setList (meta_Name currentSet))
           (\<lambda>_. ret emptyResult) (\<lambda>_. ret emptyResult))))))"

definition reconcileLoadBalancerSet :: "'w reconciler \<Rightarrow> ('w, ctrl_result) lbop" where
  "reconcileLoadBalancerSet rc = (let k = rc_Client rc in
     getLB (\<lambda>lb.
     bindM (liftR (ReadCurrentRevisionFromLB lb)) (\<lambda>currentRevision.
     if currentRevision = 0 then thenM (PatchLoadBalancerRevision k 1) (ret emptyResult)
     else
       let lbsLabels = GetLoadBalancerSetLabelsFromLoadBalancer lb in
       bindM (ext (CListSets None lbsLabels) (k_ListSets k None lbsLabels)) (\<lambda>setList.
       bindM (liftR (GetHashForLoadBalancerMachineSet (rc_digest rc) lb)) (\<lambda>hash.
       bindM (case GetLoadBalancerSetForHash setList hash of
            Some lbs \<Rightarrow> ret lbs
          | None \<Rightarrow> createSetFor rc setList hash) (\<lambda>currentSet.
       rolloutSet rc setList currentSet))))))"

section \<open>The watch predicate\<close>

text \<open>Events for sets: a creation never, an update when the status differs (\<^emph>\<open>semantic\<close> equality
  takes a nil and an empty list of conditions for equal, as the lists here do), a deletion when the
  set has or should have replicas.\<close>

datatype set_event =
    CreateEvent load_balancer_set
  | UpdateEvent load_balancer_set load_balancer_set
  | DeleteEvent load_balancer_set
  | GenericEvent load_balancer_set

fun LoadBalancerSetPredicate :: "set_event \<Rightarrow> bool" where
  "LoadBalancerSetPredicate (CreateEvent lbs) = False"
| "LoadBalancerSetPredicate (UpdateEvent old new) = (\<not> set_Status old = set_Status new)"
| "LoadBalancerSetPredicate (DeleteEvent lbs) =
     (sspec_Replicas (set_Spec lbs) > 0 \<or>
      Deref (set_Replicas (set_Status lbs)) 0 > 0 \<or>
      Deref (set_ReadyReplicas (set_Status lbs)) 0 > 0 \<or>
      Deref (set_AvailableReplicas (set_Status lbs)) 0 > 0)"
| "LoadBalancerSetPredicate (GenericEvent lbs) = False"

section \<open>Reconcile\<close>

definition skips :: "'w reconciler \<Rightarrow> namespaced_name \<Rightarrow> bool" where
  "skips rc req = (rc_skipReconciles rc \<or>
     (case rc_skipAllButNN rc of
        None \<Rightarrow> False
      | Some n \<Rightarrow> nn_Name n \<noteq> nn_Name req \<and> nn_Namespace n \<noteq> nn_Namespace req))"

definition reconcileLB :: "'w reconciler \<Rightarrow> namespaced_name \<Rightarrow> ('w, ctrl_result) lbop" where
  "reconcileLB rc req = (let k = rc_Client rc in
     thenM (wrapM ''failed to migrateAPI: '' (migrateAPI k))
     (getLB (\<lambda>lb.
     bindM (wrapM ''failed to get open stack client for infrastructure: ''
         (GetOpenStackClientForInfrastructure k (rc_getOsClientForIni rc) (spec_Infrastructure (lb_Spec lb)))) (\<lambda>os.
     if is_deleting lb then wrapM ''failed to run deletion routine: '' (deletionRoutine k os)
     else
       thenM (record_call (CMetrics ''ParseLoadBalancerMetrics'' (key_of lb)))
       (thenM (wrapM ''failed to add finalizer: '' (AddFinalizerIfNeeded k ServiceFinalizer))
       (bindM (wrapM ''failed to reconcile openstack: '' (reconcileOpenStackIfNeeded rc req os)) (\<lambda>res.
       if res \<noteq> emptyResult then ret res
       else
         bindM (wrapM ''failed to reconcile loadBalancerSet: '' (reconcileLoadBalancerSet rc)) (\<lambda>res.
         if res \<noteq> emptyResult then ret res
         else ret \<lparr>RequeueAfter = 5 * Minute\<rparr>))))))))"

definition Reconcile :: "'w reconciler \<Rightarrow> namespaced_name \<Rightarrow> ('w, ctrl_result) lbop" where
  "Reconcile rc req =
     (if skips rc req then ret requeueDefault
      else
        catchM (ext (CGetLB req) (k_GetLB (rc_Client rc) req))
          (\<lambda>err. let e = Wrapped ''failed to get LB: '' err in
             if IsNotFound e then ret emptyResult else fail e)
          (\<lambda>lb. thenM (putLB lb) (reconcileLB rc req)))"

end
