(* ===== verification/FakeOpenstack.thy ===== *)
theory FakeOpenstack
  imports CloudApi "HOL-Library.AList"
begin

text \<open>
  The in-memory OpenStack of \<open>internal/openstack/testing/fake.go\<close> that the repository's own
  tests run the controllers against, with an in-memory Kubernetes API for the same world. Its
  stores are Go maps; a map is an association list here, iterated in list order (Go leaves the
  order open). \<open>generateIP\<close> draws random numbers: it is the parameter \<open>gen\<close>, a function of the
  identifier counter. Both serve to interpret the laws that the theorems about the controllers
  assume of the systems behind them, and to run the controllers on concrete inputs.
\<close>

section \<open>The world\<close>

record mem =
  mem_id :: int
  mem_fips :: "(string \<times> floating_ip) list"
  mem_ports :: "(string \<times> port) list"
  mem_groups :: "(string \<times> sec_group) list"
  mem_rules :: "(string \<times> sec_group_rule) list"
  mem_servers :: "(string \<times> server) list"
  mem_servergroups :: "(string \<times> server_group) list"
  mem_lbs :: "(namespaced_name \<times> load_balancer) list"
  mem_sets :: "(namespaced_name \<times> load_balancer_set) list"
  mem_machines :: "load_balancer_machine list"
  mem_secrets :: "(namespaced_name \<times> labels) list"
  mem_accounts :: "namespaced_name list"
  mem_roles :: "namespaced_name list"
  mem_bindings :: "namespaced_name list"
  mem_now :: int
  mem_snapshot :: snapshot

definition getID :: "mem \<Rightarrow> string \<times> mem" where
  "getID w = (Itoa (mem_id w), w\<lparr>mem_id := mem_id w + 1\<rparr>)"

definition NotFoundResponse :: goerr where
  "NotFoundResponse = ErrUnexpectedResponseCode 0 [] []"

definition nil_panic :: "mem \<Rightarrow> 'a result \<times> mem" where
  "nil_panic w = (Crash ''nil pointer dereference'', w)"

text \<open>A lookup by ID in a store.\<close>

definition found :: "(string \<times> 'a) list \<Rightarrow> string \<Rightarrow> mem \<Rightarrow> 'a option result \<times> mem" where
  "found store i w = (case map_of store i of None \<Rightarrow> (Err NotFoundResponse, w) | Some x \<Rightarrow> (Ok (Some x), w))"

lemma delete_subset: "x \<in> set (AList.delete i xs) \<Longrightarrow> x \<in> set xs"
  by (auto simp: AList.delete_eq)

lemma update_subset: "x \<in> set (AList.update i v xs) \<Longrightarrow> x = (i, v) \<or> x \<in> set xs"
  by (induction xs) (auto split: if_splits)

section \<open>Floating IPs\<close>

definition fake_fip_List :: "fip_list_opts \<Rightarrow> (mem, floating_ip list) gop" where
  "fake_fip_List opts w =
     (Ok (filter (\<lambda>v. \<not> (flo_Description opts \<noteq> [] \<and> flo_Description opts \<noteq> fip_Description v) \<and>
                      \<not> (flo_FloatingIP opts \<noteq> [] \<and> flo_FloatingIP opts \<noteq> fip_FloatingIP v))
            (map snd (mem_fips w))), w)"

definition fake_fip_Create :: "(int \<Rightarrow> string) \<Rightarrow> fip_create_opts \<Rightarrow> (mem, floating_ip option) gop" where
  "fake_fip_Create gen opts w =
     (let floatingIP = gen (mem_id w); (i, w1) = getID w;
          fip = \<lparr>fip_ID = i, fip_Description = fco_Description opts,
            fip_FloatingNetworkID = fco_FloatingNetworkID opts, fip_FloatingIP = floatingIP,
            fip_PortID = [], fip_Status = []\<rparr>
      in (Ok (Some fip), w1\<lparr>mem_fips := AList.update i fip (mem_fips w1)\<rparr>))"

definition fake_fip_Get :: "string \<Rightarrow> (mem, floating_ip option) gop" where
  "fake_fip_Get i w = found (mem_fips w) i w"

definition fake_fip_Delete :: "string \<Rightarrow> (mem, unit) gop" where
  "fake_fip_Delete i w = (Ok (), w\<lparr>mem_fips := AList.delete i (mem_fips w)\<rparr>)"

text \<open>The update looks at the port only, and dereferences it without a check.\<close>

definition fake_fip_Update :: "string \<Rightarrow> fip_update_opts \<Rightarrow> (mem, floating_ip option) gop" where
  "fake_fip_Update i opts w =
     (case (map_of (mem_fips w) i, fuo_PortID opts) of
        (Some fip, Some portID) \<Rightarrow>
          let fip = (if fip_PortID fip \<noteq> portID then fip\<lparr>fip_PortID := portID\<rparr> else fip)
          in (Ok (Some fip), w\<lparr>mem_fips := AList.update i fip (mem_fips w)\<rparr>)
      | _ \<Rightarrow> nil_panic w)"

section \<open>Ports\<close>

definition fake_port_List :: "string \<Rightarrow> (mem, port list) gop" where
  "fake_port_List name w =
     (Ok (filter (\<lambda>v. \<not> (name \<noteq> [] \<and> name \<noteq> port_Name v)) (map snd (mem_ports w))), w)"

definition fake_port_Create :: "(int \<Rightarrow> string) \<Rightarrow> port_create_opts \<Rightarrow> (mem, port option) gop" where
  "fake_port_Create gen opts w =
     (let fixedIPs = (case pco_FixedIPs opts of None \<Rightarrow> [] | Some ips \<Rightarrow> ips);
          subnetID = (case fixedIPs of [] \<Rightarrow> ''default-subnet-id'' | ip # ips \<Rightarrow> pip_SubnetID ip);
          address = gen (mem_id w); (i, w1) = getID w;
          port = \<lparr>port_ID = i, port_Name = pco_Name opts, port_NetworkID = pco_NetworkID opts,
            port_FixedIPs = [\<lparr>pip_SubnetID = subnetID, pip_IPAddress = address\<rparr>],
            port_SecurityGroups = [], port_AllowedAddressPairs = []\<rparr>
      in (Ok (Some port), w1\<lparr>mem_ports := AList.update i port (mem_ports w1)\<rparr>))"

definition fake_port_Get :: "string \<Rightarrow> (mem, port option) gop" where
  "fake_port_Get i w = found (mem_ports w) i w"

definition fake_port_Delete :: "string \<Rightarrow> (mem, unit) gop" where
  "fake_port_Delete i w =
     (case map_of (mem_ports w) i of
        None \<Rightarrow> (Err NotFoundResponse, w)
      | Some _ \<Rightarrow> (Ok (), w\<lparr>mem_ports := AList.delete i (mem_ports w)\<rparr>))"

definition fake_port_Update :: "string \<Rightarrow> port_update_opts \<Rightarrow> (mem, port option) gop" where
  "fake_port_Update i opts w =
     (case map_of (mem_ports w) i of
        None \<Rightarrow> nil_panic w
      | Some port \<Rightarrow>
          let port = (case puo_SecurityGroups opts of None \<Rightarrow> port | Some gs \<Rightarrow> port\<lparr>port_SecurityGroups := gs\<rparr>);
              port = (case puo_AllowedAddressPairs opts of None \<Rightarrow> port
                      | Some aps \<Rightarrow> port\<lparr>port_AllowedAddressPairs := aps\<rparr>)
          in (Ok (Some port), w\<lparr>mem_ports := AList.update i port (mem_ports w)\<rparr>))"

section \<open>Security groups and rules\<close>

definition fake_group_List :: "string \<Rightarrow> (mem, sec_group list) gop" where
  "fake_group_List name w =
     (Ok (filter (\<lambda>v. \<not> (name \<noteq> [] \<and> name \<noteq> grp_Name v)) (map snd (mem_groups w))), w)"

definition fake_group_Create :: "string \<Rightarrow> (mem, sec_group option) gop" where
  "fake_group_Create name w =
     (let (i, w1) = getID w; group = \<lparr>grp_ID = i, grp_Name = name, grp_Rules = []\<rparr>
      in (Ok (Some group), w1\<lparr>mem_groups := AList.update i group (mem_groups w1)\<rparr>))"

definition fake_group_Get :: "string \<Rightarrow> (mem, sec_group option) gop" where
  "fake_group_Get i w = found (mem_groups w) i w"

definition fake_group_Delete :: "string \<Rightarrow> (mem, unit) gop" where
  "fake_group_Delete i w = (Ok (), w\<lparr>mem_groups := AList.delete i (mem_groups w)\<rparr>)"

definition rules_of_group :: "mem \<Rightarrow> string \<Rightarrow> sec_group_rule list" where
  "rules_of_group w gid =
     filter (\<lambda>v. \<not> (gid \<noteq> [] \<and> gid \<noteq> rule_SecGroupID v)) (map snd (mem_rules w))"

text \<open>A created rule is stored, and the rules of its group are listed again into the group.\<close>

definition fake_rule_Create :: "rule_create_opts \<Rightarrow> (mem, sec_group_rule option) gop" where
  "fake_rule_Create opts w =
     (let (i, w1) = getID w;
          rule = \<lparr>rule_ID = i, rule_Description = rco_Description opts, rule_SecGroupID = rco_SecGroupID opts,
            rule_Direction = rco_Direction opts, rule_EtherType = rco_EtherType opts,
            rule_Protocol = rco_Protocol opts, rule_PortRangeMin = rco_PortRangeMin opts,
            rule_PortRangeMax = rco_PortRangeMax opts, rule_RemoteIPPrefix = rco_RemoteIPPrefix opts,
            rule_RemoteGroupID = rco_RemoteGroupID opts\<rparr>;
          w2 = w1\<lparr>mem_rules := AList.update i rule (mem_rules w1)\<rparr>
      in (Ok (Some rule),
          w2\<lparr>mem_groups := map (\<lambda>(k, v). if k \<noteq> rule_SecGroupID rule then (k, v)
               else (k, v\<lparr>grp_Rules := rules_of_group w2 (rule_SecGroupID rule)\<rparr>)) (mem_groups w2)\<rparr>))"

definition fake_rule_Delete :: "string \<Rightarrow> (mem, unit) gop" where
  "fake_rule_Delete i w = (Ok (), w\<lparr>mem_rules := AList.delete i (mem_rules w)\<rparr>)"

section \<open>Servers\<close>

definition fake_server_List :: "string \<Rightarrow> (mem, server list) gop" where
  "fake_server_List name w =
     (Ok (filter (\<lambda>v. \<not> (name \<noteq> [] \<and> name \<noteq> srv_Name v)) (map snd (mem_servers w))), w)"

text \<open>The options are asserted to be a \<open>*servers.CreateOpts\<close>, which those with a key are not. The
  addresses, which the controllers never read, are left out.\<close>

definition fake_server_Create :: "server_create_opts \<Rightarrow> string option \<Rightarrow> (mem, server option) gop" where
  "fake_server_Create opts hints w =
     (if sco_KeyName opts \<noteq> None then (Crash ''interface conversion'', w)
      else
        let (i, w1) = getID w;
            server = \<lparr>srv_ID = i, srv_Name = sco_Name opts, srv_Status = ''ACTIVE'', srv_Created = mem_now w, srv_Fault = []\<rparr>
        in (Ok (Some server), w1\<lparr>mem_servers := AList.update i server (mem_servers w1)\<rparr>))"

definition fake_server_Get :: "string \<Rightarrow> (mem, server option) gop" where
  "fake_server_Get i w = found (mem_servers w) i w"

definition fake_server_Delete :: "string \<Rightarrow> (mem, unit) gop" where
  "fake_server_Delete i w = (Ok (), w\<lparr>mem_servers := AList.delete i (mem_servers w)\<rparr>)"

definition fake_servers :: "mem server_env" where
  "fake_servers = \<lparr>os_ServerClient = (\<lambda>w. (Ok (), w)), server_List = fake_server_List, server_Create = fake_server_Create,
     server_Get = fake_server_Get, server_Delete = fake_server_Delete\<rparr>"

section \<open>Server groups\<close>

definition fake_servergroup_List :: "(mem, server_group list) gop" where
  "fake_servergroup_List w = (Ok (map snd (mem_servergroups w)), w)"

definition fake_servergroup_Create :: "string \<Rightarrow> string list \<Rightarrow> (mem, server_group option) gop" where
  "fake_servergroup_Create name policies w =
     (let (i, w1) = getID w; sg = \<lparr>sg_ID = i, sg_Name = name, sg_Policies = policies\<rparr>
      in (Ok (Some sg), w1\<lparr>mem_servergroups := AList.update i sg (mem_servergroups w1)\<rparr>))"

definition fake_servergroup_Get :: "string \<Rightarrow> (mem, server_group option) gop" where
  "fake_servergroup_Get i w = found (mem_servergroups w) i w"

definition fake_servergroup_Delete :: "string \<Rightarrow> (mem, unit) gop" where
  "fake_servergroup_Delete i w = (Ok (), w\<lparr>mem_servergroups := AList.delete i (mem_servergroups w)\<rparr>)"

section \<open>The client\<close>

definition fake_os :: "(int \<Rightarrow> string) \<Rightarrow> mem os_env" where
  "fake_os gen = \<lparr>
     os_FipClient = (\<lambda>w. (Ok (), w)), os_PortClient = (\<lambda>w. (Ok (), w)), os_GroupClient = (\<lambda>w. (Ok (), w)),
     os_RuleClient = (\<lambda>w. (Ok (), w)), os_ServerGroupClient = (\<lambda>w. (Ok (), w)),
     fip_List = fake_fip_List, fip_Create = fake_fip_Create gen, fip_Update = fake_fip_Update,
     fip_Get = fake_fip_Get, fip_Delete = fake_fip_Delete,
     port_List = fake_port_List, port_Get = fake_port_Get, port_Create = fake_port_Create gen,
     port_Update = fake_port_Update, port_Delete = fake_port_Delete,
     group_List = fake_group_List, group_Create = fake_group_Create, group_Get = fake_group_Get,
     group_Delete = fake_group_Delete,
     rule_Create = fake_rule_Create, rule_Delete = fake_rule_Delete,
     servergroup_List = fake_servergroup_List, servergroup_Create = fake_servergroup_Create,
     servergroup_Get = fake_servergroup_Get, servergroup_Delete = fake_servergroup_Delete\<rparr>"

section \<open>An in-memory Kubernetes API\<close>

text \<open>Objects by name; a patch applies to the stored object, which is the answer. An object that
  is being deleted goes away with its last finalizer.\<close>

definition api_not_found :: "'a result" where
  "api_not_found = Err (ApiNotFound ''not found'')"

definition mem_PatchLB :: "(load_balancer \<Rightarrow> load_balancer) \<Rightarrow> namespaced_name \<Rightarrow> (mem, load_balancer) gop" where
  "mem_PatchLB f n w =
     (case map_of (mem_lbs w) n of
        None \<Rightarrow> (api_not_found, w)
      | Some lb \<Rightarrow> (Ok (f lb), w\<lparr>mem_lbs := AList.update n (f lb) (mem_lbs w)\<rparr>))"

text \<open>After a change of the metadata: without finalizers, an object marked as deleted is removed.\<close>

definition mem_collect :: "namespaced_name \<Rightarrow> load_balancer result \<times> mem \<Rightarrow> load_balancer result \<times> mem" where
  "mem_collect n rw =
     (case rw of
        (Ok lb, w) \<Rightarrow> if is_deleting lb \<and> meta_Finalizers lb = [] then (Ok lb, w\<lparr>mem_lbs := AList.delete n (mem_lbs w)\<rparr>)
                      else (Ok lb, w)
      | (r, w) \<Rightarrow> (r, w))"

fun patch_lb_meta :: "meta_patch \<Rightarrow> load_balancer \<Rightarrow> load_balancer" where
  "patch_lb_meta (PatchFinalizers fs) lb = lb\<lparr>meta_Finalizers := fs\<rparr>"
| "patch_lb_meta (PatchAnnotation a v) lb = lb\<lparr>meta_Annotations := (meta_Annotations lb)(a \<mapsto> v)\<rparr>"

fun patch_set_meta :: "meta_patch \<Rightarrow> load_balancer_set \<Rightarrow> load_balancer_set" where
  "patch_set_meta (PatchFinalizers fs) lbs = lbs\<lparr>meta_Finalizers := fs\<rparr>"
| "patch_set_meta (PatchAnnotation a v) lbs = lbs\<lparr>meta_Annotations := (meta_Annotations lbs)(a \<mapsto> v)\<rparr>"

definition mem_PatchSet :: "(load_balancer_set \<Rightarrow> load_balancer_set) \<Rightarrow> namespaced_name \<Rightarrow> (mem, load_balancer_set) gop" where
  "mem_PatchSet f n w =
     (case map_of (mem_sets w) n of
        None \<Rightarrow> (api_not_found, w)
      | Some lbs \<Rightarrow> (Ok (f lbs), w\<lparr>mem_sets := AList.update n (f lbs) (mem_sets w)\<rparr>))"

text \<open>Equality selectors: every label asked for is there. The selectors of the code have finitely
  many labels; the comparison is on the keys the objects or the query use.\<close>

definition selects :: "labels \<Rightarrow> labels \<Rightarrow> bool" where
  "selects query ls = (query \<subseteq>\<^sub>m ls)"

text \<open>Deletion removes an object without finalizers and marks another one as deleted.\<close>

definition mem_DeleteMachine :: "namespaced_name \<Rightarrow> (mem, unit) gop" where
  "mem_DeleteMachine n w =
     (if list_ex (\<lambda>x. key_of x = n) (mem_machines w)
      then (Ok (), w\<lparr>mem_machines :=
        map (\<lambda>x. if key_of x = n \<and> meta_DeletionTimestamp x = None then x\<lparr>meta_DeletionTimestamp := Some (mem_now w)\<rparr> else x)
          (filter (\<lambda>x. key_of x \<noteq> n \<or> meta_Finalizers x \<noteq> []) (mem_machines w))\<rparr>)
      else (api_not_found, w))"

definition mem_kube :: "mem kube" where
  "mem_kube = \<lparr>
     k_now = (\<lambda>w. (mem_now w, w\<lparr>mem_now := mem_now w + 1\<rparr>)),
     k_GetSecret = (\<lambda>n w. (case map_of (mem_secrets w) n of None \<Rightarrow> api_not_found | Some x \<Rightarrow> Ok x, w)),
     k_GetLB = (\<lambda>n w. (case map_of (mem_lbs w) n of None \<Rightarrow> api_not_found | Some x \<Rightarrow> Ok x, w)),
     k_UpdateLB = (\<lambda>lb. mem_PatchLB (\<lambda>old. lb\<lparr>lb_Status := lb_Status old\<rparr>) (key_of lb)),
     k_PatchLBStatus = (\<lambda>n p. mem_PatchLB (\<lambda>lb. lb\<lparr>lb_Status := merge_status p (lb_Status lb)\<rparr>) n),
     k_PatchLBMeta = (\<lambda>n p w. mem_collect n (mem_PatchLB (patch_lb_meta p) n w)),
     k_GetSet = (\<lambda>n w. (case map_of (mem_sets w) n of None \<Rightarrow> api_not_found | Some x \<Rightarrow> Ok x, w)),
     k_ListSets = (\<lambda>ns q w. (Ok (filter (\<lambda>x. (ns = None \<or> ns = Some (meta_Namespace x)) \<and> selects q (meta_Labels x))
        (map snd (mem_sets w))), w)),
     k_CreateSet = (\<lambda>x w. if map_of (mem_sets w) (key_of x) = None
        then (Ok x, w\<lparr>mem_sets := AList.update (key_of x) x (mem_sets w)\<rparr>)
        else (Err (OtherErr ''already exists''), w)),
     k_DeleteSet = (\<lambda>n w. (Ok (), w\<lparr>mem_sets := AList.delete n (mem_sets w)\<rparr>)),
     k_PatchSetReplicas = (\<lambda>n r. mem_PatchSet (\<lambda>x. x\<lparr>set_Spec := (set_Spec x)\<lparr>sspec_Replicas := r\<rparr>\<rparr>) n),
     k_PatchSetMeta = (\<lambda>n p. mem_PatchSet (patch_set_meta p) n),
     k_PatchSetStatus = (\<lambda>n old new. mem_PatchSet (\<lambda>x. x\<lparr>set_Status := new\<rparr>) n),
     k_GetMachine = (\<lambda>n w. (case List.find (\<lambda>x. key_of x = n) (mem_machines w) of None \<Rightarrow> api_not_found | Some x \<Rightarrow> Ok x, w)),
     k_ListMachines = (\<lambda>ns q w. (Ok (filter (\<lambda>x. ns = meta_Namespace x \<and> selects q (meta_Labels x)) (mem_machines w)), w)),
     k_CreateMachine = (\<lambda>x w. if list_ex (\<lambda>y. key_of y = key_of x) (mem_machines w)
        then (Err (OtherErr ''already exists''), w)
        else (Ok x, w\<lparr>mem_machines := mem_machines w @ [x]\<rparr>)),
     k_DeleteMachine = mem_DeleteMachine,
     k_UpdateMachineStatus = (\<lambda>n st w. (case List.find (\<lambda>x. key_of x = n) (mem_machines w) of None \<Rightarrow> (api_not_found, w)
        | Some x \<Rightarrow> (Ok (x\<lparr>lbm_Status := st\<rparr>),
            w\<lparr>mem_machines := map (\<lambda>y. if key_of y = n then y\<lparr>lbm_Status := st\<rparr> else y) (mem_machines w)\<rparr>))),
     k_random = (\<lambda>w. (Ok (replicate 16 (char_of (mem_id w mod 256))), w\<lparr>mem_id := mem_id w + 1\<rparr>))\<rparr>"

text \<open>Service accounts, roles and role bindings by their keys. The token of a secret is filled in by
  Kubernetes.\<close>

definition key_Get :: "(mem \<Rightarrow> namespaced_name list) \<Rightarrow> (namespaced_name \<Rightarrow> 'a) \<Rightarrow> namespaced_name \<Rightarrow> (mem, 'a) gop" where
  "key_Get keys obj n w = (if n \<in> set (keys w) then Ok (obj n) else api_not_found, w)"

definition key_Delete :: "((namespaced_name list \<Rightarrow> namespaced_name list) \<Rightarrow> mem \<Rightarrow> mem) \<Rightarrow> (mem \<Rightarrow> namespaced_name list) \<Rightarrow>
    namespaced_name \<Rightarrow> (mem, unit) gop" where
  "key_Delete upd keys n w =
     (if n \<in> set (keys w) then (Ok (), upd (removeAll n) w) else (api_not_found, w))"

definition mem_account :: "namespaced_name \<Rightarrow> service_account" where
  "mem_account n = \<lparr>sa_Name = nn_Name n, sa_Namespace = nn_Namespace n, sa_Secrets = []\<rparr>"

definition mem_PatchMachine :: "(load_balancer_machine \<Rightarrow> load_balancer_machine) \<Rightarrow> namespaced_name \<Rightarrow> (mem, load_balancer_machine) gop" where
  "mem_PatchMachine f n w =
     (case List.find (\<lambda>x. key_of x = n) (mem_machines w) of
        None \<Rightarrow> (api_not_found, w)
      | Some m \<Rightarrow> (Ok (f m), w\<lparr>mem_machines := map (\<lambda>x. if key_of x = n then f x else x) (mem_machines w)\<rparr>))"

definition mem_collect_machines :: "mem \<Rightarrow> mem" where
  "mem_collect_machines w = w\<lparr>mem_machines := filter (\<lambda>m. \<not> (is_deleting m \<and> meta_Finalizers m = [])) (mem_machines w)\<rparr>"

definition mem_machine_kube :: "mem machine_kube" where
  "mem_machine_kube = \<lparr>
     mk_GetSA = key_Get mem_accounts mem_account,
     mk_CreateSA = (\<lambda>n w. (Ok (mem_account n), w\<lparr>mem_accounts := n # mem_accounts w\<rparr>)),
     mk_DeleteSA = key_Delete mem_accounts_update mem_accounts,
     mk_GetVersion = (\<lambda>w. (Ok (Version 1 30), w)),
     mk_GetTokenSecret = (\<lambda>n w. (case map_of (mem_secrets w) n of None \<Rightarrow> api_not_found | Some x \<Rightarrow> Ok (), w)),
     mk_CreateTokenSecret = (\<lambda>n sa w. (Ok (), w\<lparr>mem_secrets :=
        AList.update n [''token'' \<mapsto> ''t'' @ sa, ''ca.crt'' \<mapsto> ''ca''] (mem_secrets w)\<rparr>)),
     mk_GetRole = key_Get mem_roles (\<lambda>_. ()),
     mk_CreateRole = (\<lambda>n rules w. (Ok (), w\<lparr>mem_roles := n # mem_roles w\<rparr>)),
     mk_DeleteRole = key_Delete mem_roles_update mem_roles,
     mk_GetRoleBinding = key_Get mem_bindings (\<lambda>_. ()),
     mk_CreateRoleBinding = (\<lambda>b w. (Ok (), w\<lparr>mem_bindings := rb_Key b # mem_bindings w\<rparr>)),
     mk_DeleteRoleBinding = key_Delete mem_bindings_update mem_bindings,
     mk_PatchStatus = (\<lambda>n p. mem_PatchMachine (\<lambda>m. m\<lparr>lbm_Status := merge_lbm_status p (lbm_Status m)\<rparr>) n),
     mk_PatchFinalizers = (\<lambda>n fs w. apsnd mem_collect_machines (mem_PatchMachine (\<lambda>m. m\<lparr>meta_Finalizers := fs\<rparr>) n w))\<rparr>"

end
