(* ===== verification/DeletionCleanup.thy ===== *)
theory DeletionCleanup
  imports LBDelete FakeOpenstack
begin

text \<open>
  Deleting a LoadBalancer leaves nothing behind. The locale \<open>deletion_cloud\<close> states what the
  deletion relies on in the systems behind it: no other client changes the LoadBalancer or creates
  resources with its names meanwhile, a patch is applied to the stored object and answered with it,
  and an empty list means that nothing matches. It says nothing about the error codes of OpenStack:
  the code takes every unexpected response of a lookup by ID for "already deleted", and the result
  holds in spite of that, because the resources are searched again by name. The locale is
  interpreted on the in-memory OpenStack of the repository's tests.
\<close>

section \<open>Resources and the names recorded for them\<close>

datatype resource = FIP | PORT | SECGROUP | SERVERGROUP

fun recorded_name :: "resource \<Rightarrow> lb_status \<Rightarrow> string option" where
  "recorded_name FIP st = FloatingName st"
| "recorded_name PORT st = PortName st"
| "recorded_name SECGROUP st = SecurityGroupName st"
| "recorded_name SERVERGROUP st = ServerGroupName st"

fun name_key :: "resource \<Rightarrow> string" where
  "name_key FIP = ''floatingName''"
| "name_key PORT = ''portName''"
| "name_key SECGROUP = ''securityGroupName''"
| "name_key SERVERGROUP = ''serverGroupName''"

lemma name_key_inj: "name_key a = name_key b \<longleftrightarrow> a = b"
  by (cases a; cases b; simp)

lemma recorded_name_remove:
  "recorded_name kd (remove_key key st) = (if key = name_key kd then None else recorded_name kd st)"
  by (cases kd) (simp_all add: remove_key_def)

text \<open>Which resources a deletion removes: not those whose keep annotation is set, and not a
  floating IP that the user brought.\<close>

fun deletes :: "resource \<Rightarrow> load_balancer \<Rightarrow> bool" where
  "deletes FIP lb = (\<not> keep_annotated lb LoadBalancerKeepFloatingIP \<and> spec_ExistingFloatingIP (lb_Spec lb) = None)"
| "deletes PORT lb = (\<not> keep_annotated lb LoadBalancerKeepPort)"
| "deletes SECGROUP lb = (\<not> keep_annotated lb LoadBalancerKeepSecurityGroup)"
| "deletes SERVERGROUP lb = True"

text \<open>What a status patch leaves alone.\<close>

definition same_desired :: "load_balancer \<Rightarrow> load_balancer \<Rightarrow> bool" where
  "same_desired lb lb' = (key_of lb' = key_of lb \<and> meta_Annotations lb' = meta_Annotations lb \<and>
     lb_Spec lb' = lb_Spec lb)"

lemma same_desired_trans: "same_desired a b \<Longrightarrow> same_desired b c \<Longrightarrow> same_desired a c"
  by (simp add: same_desired_def)

lemma same_desired_deletes: "same_desired a b \<Longrightarrow> deletes kd b = deletes kd a"
  by (cases kd) (simp_all add: same_desired_def keep_annotated_def)

text \<open>The name under which the deletion has to remove resources, if any.\<close>

definition wanted :: "resource \<Rightarrow> load_balancer \<Rightarrow> string option" where
  "wanted kd lb = (if deletes kd lb then recorded_name kd (lb_Status lb) else None)"

text \<open>A call of a client that neither changes the stored LoadBalancer nor adds a named resource.\<close>

definition benign :: "('w \<Rightarrow> namespaced_name \<Rightarrow> load_balancer option) \<Rightarrow> ('w \<Rightarrow> resource \<Rightarrow> string \<Rightarrow> bool) \<Rightarrow>
    ('w, 'a) gop \<Rightarrow> bool" where
  "benign stored named f = (\<forall>w r w'. f w = (r, w') \<longrightarrow>
     stored w' = stored w \<and> (\<forall>kd n. named w' kd n \<longrightarrow> named w kd n))"

locale deletion_cloud =
  fixes k :: "'w kube" and os :: "'w os_env"
    and stored :: "'w \<Rightarrow> namespaced_name \<Rightarrow> load_balancer option"
    and named :: "'w \<Rightarrow> resource \<Rightarrow> string \<Rightarrow> bool"
  assumes benign_clients: "benign stored named (os_FipClient os)" "benign stored named (os_PortClient os)"
      "benign stored named (os_GroupClient os)" "benign stored named (os_ServerGroupClient os)"
    and benign_fip: "benign stored named (fip_Get os i)" "benign stored named (fip_List os fopts)"
      "benign stored named (fip_Delete os i)"
    and benign_port: "benign stored named (port_Get os i)" "benign stored named (port_List os i)"
      "benign stored named (port_Update os i puopts)" "benign stored named (port_Delete os i)"
    and benign_group: "benign stored named (group_Get os i)" "benign stored named (group_List os i)"
      "benign stored named (group_Delete os i)"
    and benign_servergroup: "benign stored named (servergroup_Get os i)" "benign stored named (servergroup_List os)"
      "benign stored named (servergroup_Delete os i)"
    and benign_sets: "benign stored named (k_ListSets k nsopt q)" "benign stored named (k_DeleteSet k nn)"
    and fip_none: "fip_List os \<lparr>flo_Description = n, flo_FloatingIP = []\<rparr> w = (Ok [], w') \<Longrightarrow> \<not> named w' FIP n"
    and port_none: "port_List os n w = (Ok [], w') \<Longrightarrow> \<not> named w' PORT n"
    and group_none: "group_List os n w = (Ok [], w') \<Longrightarrow> \<not> named w' SECGROUP n"
    and servergroup_none: "servergroup_List os w = (Ok gs, w') \<Longrightarrow> find (\<lambda>g. sg_Name g = n) gs = None \<Longrightarrow>
        \<not> named w' SERVERGROUP n"
    and servergroup_gone: "servergroup_List os w = (Err e, w') \<Longrightarrow> is_gopher_gone e \<Longrightarrow> \<not> named w' SERVERGROUP n"
    and patch_status: "k_PatchLBStatus k nn p w = (r, w') \<Longrightarrow>
        (\<forall>kd n. named w' kd n \<longrightarrow> named w kd n) \<and>
        (case r of
           Ok lb' \<Rightarrow> \<exists>lb. stored w nn = Some lb \<and> same_desired lb lb' \<and>
             lb_Status lb' = merge_status p (lb_Status lb) \<and> stored w' = (stored w)(nn \<mapsto> lb')
         | _ \<Rightarrow> stored w' = stored w)"
    and patch_meta: "k_PatchLBMeta k nn (PatchFinalizers fs) w = (r, w') \<Longrightarrow>
        (\<forall>kd n. named w' kd n \<longrightarrow> named w kd n) \<and>
        (\<forall>lb'. stored w' nn = Some lb' \<longrightarrow> (\<exists>lb. stored w nn = Some lb \<and>
           same_desired lb lb' \<and> lb_Status lb' = lb_Status lb))"
begin

text \<open>The invariant of a deletion that started from \<open>lb0\<close>: a recorded name stays recorded until
  nothing has it any more. The object in memory is the stored one.\<close>

definition pending :: "load_balancer \<Rightarrow> lb_status \<Rightarrow> 'w \<Rightarrow> bool" where
  "pending lb0 st w = (\<forall>kd n. wanted kd lb0 = Some n \<longrightarrow>
     recorded_name kd st = Some n \<or> \<not> named w kd n)"

text \<open>\<open>clean kd lb0 w\<close>: nothing has the name that \<open>lb0\<close> recorded for resources of this kind.
  The set \<open>D\<close> collects the kinds that are known to be clean.\<close>

definition clean :: "resource \<Rightarrow> load_balancer \<Rightarrow> 'w \<Rightarrow> bool" where
  "clean kd lb0 w = (\<forall>n. wanted kd lb0 = Some n \<longrightarrow> \<not> named w kd n)"

definition good :: "load_balancer \<Rightarrow> resource set \<Rightarrow> ('w, call) lbst \<Rightarrow> bool" where
  "good lb0 D s = (stored (world s) (key_of lb0) = Some (cur s) \<and> same_desired lb0 (cur s) \<and>
     pending lb0 (lb_Status (cur s)) (world s) \<and> (\<forall>kd \<in> D. clean kd lb0 (world s)))"

lemma good_world:
  "good lb0 D s \<Longrightarrow> stored w' = stored (world s) \<Longrightarrow> (\<And>kd n. named w' kd n \<Longrightarrow> named (world s) kd n) \<Longrightarrow>
     good lb0 D (s\<lparr>world := w'\<rparr>)"
  by (auto simp: good_def pending_def clean_def)

lemma good_trace [simp]: "good lb0 D (s\<lparr>trace := tr\<rparr>) = good lb0 D s"
  by (simp add: good_def)

lemma good_benign:
  assumes "benign stored named f"
  shows "preserves (good lb0 D) (ext c f)"
  using assms by (auto simp: preserves_def runs_simps benign_def split: prod.split intro: good_world)

lemmas good_calls = good_benign [OF benign_clients(1)] good_benign [OF benign_clients(2)]
  good_benign [OF benign_clients(3)] good_benign [OF benign_clients(4)]
  good_benign [OF benign_fip(1)] good_benign [OF benign_fip(2)] good_benign [OF benign_fip(3)]
  good_benign [OF benign_port(1)] good_benign [OF benign_port(2)] good_benign [OF benign_port(3)]
  good_benign [OF benign_port(4)] good_benign [OF benign_group(1)] good_benign [OF benign_group(2)]
  good_benign [OF benign_group(3)] good_benign [OF benign_servergroup(1)]
  good_benign [OF benign_servergroup(2)] good_benign [OF benign_servergroup(3)]
  good_benign [OF benign_sets(1)] good_benign [OF benign_sets(2)]

lemma good_getLB: "(\<And>lb. preserves (good lb0 D) (m lb)) \<Longrightarrow> preserves (good lb0 D) (getLB m)"
  by (simp add: preserves_def runs_simps)

lemma good_event: "preserves (good lb0 D) (record_call c)"
  by (simp add: preserves_def runs_simps)

lemma good_SendErrorLB: "preserves (good lb0 D) (SendErrorLB e)"
  unfolding SendErrorLB_def SendErrorAsEvent_def
  by (intro good_getLB preserves_intros good_event)

lemma good_reportM: "preserves (good lb0 D) m \<Longrightarrow> preserves (good lb0 D) (reportM m)"
  unfolding reportM_def by (intro preserves_intros good_SendErrorLB)

text \<open>Removing a key keeps the invariant, unless it is the key of a name something still has.\<close>

lemma runs_RemoveFromLBStatus:
  assumes "good lb0 D s"
    and "\<And>kd n. key = name_key kd \<Longrightarrow> wanted kd lb0 = Some n \<Longrightarrow> \<not> named (world s) kd n"
  shows "runs (RemoveFromLBStatus k key) s (\<lambda>r t. good lb0 D t \<and> (\<forall>kd n. named (world t) kd n \<longrightarrow> named (world s) kd n))"
proof -
  have "good lb0 D (s\<lparr>world := w', trace := tr, cur := lb'\<rparr>)"
    if "k_PatchLBStatus k (key_of lb0) (RemoveKey key) (world s) = (Ok lb', w')" for w' tr lb'
  proof -
    have keyed: "same_desired lb0 (cur s)" "stored (world s) (key_of lb0) = Some (cur s)"
      using assms(1) by (simp_all add: good_def)
    have "same_desired lb0 lb'" "lb_Status lb' = remove_key key (lb_Status (cur s))"
        "stored w' (key_of lb0) = Some lb'" "\<And>kd n. named w' kd n \<Longrightarrow> named (world s) kd n"
      using patch_status [OF that] keyed by (auto intro: same_desired_trans)
    moreover have "pending lb0 (lb_Status (cur s)) (world s)" "\<forall>kd \<in> D. clean kd lb0 (world s)"
      using assms(1) by (simp_all add: good_def)
    ultimately show ?thesis
      using assms(2) by (auto simp: good_def pending_def clean_def recorded_name_remove) blast
  qed
  moreover have "good lb0 D (s\<lparr>world := w', trace := tr\<rparr>)"
    if "k_PatchLBStatus k (key_of lb0) (RemoveKey key) (world s) = (r, w')" "\<not> is_Ok r" for w' tr and r
    using patch_status [OF that(1)] that(2) assms(1)
    by (auto intro: good_world split: result.splits)
  moreover have "named (world s) kd n"
    if "k_PatchLBStatus k (key_of lb0) (RemoveKey key) (world s) = (r, w')" "named w' kd n" for r w' kd n
    using patch_status [OF that(1)] that(2) by blast
  ultimately show ?thesis
    using assms(1)
    by (auto simp: RemoveFromLBStatus_def patchStatus_def runs_simps caseR_def good_def [of lb0 D s] same_desired_def
        split: prod.split result.split)
qed

lemma good_Remove: "(\<And>kd. key \<noteq> name_key kd) \<Longrightarrow> preserves (good lb0 D) (RemoveFromLBStatus k key)"
  by (auto simp: preserves_def intro: runs_weaken [OF runs_RemoveFromLBStatus])

lemma id_keys: "''floatingID'' \<noteq> name_key kd" "''portID'' \<noteq> name_key kd" "''portIP'' \<noteq> name_key kd"
  "''securityGroupID'' \<noteq> name_key kd" "''security_group_id'' \<noteq> name_key kd" "''serverGroupID'' \<noteq> name_key kd"
  by (cases kd; simp)+

lemmas good_intros = good_getLB good_reportM good_SendErrorLB good_calls good_event
  good_Remove [OF id_keys(1)] good_Remove [OF id_keys(2)] good_Remove [OF id_keys(3)]
  good_Remove [OF id_keys(4)] good_Remove [OF id_keys(5)] good_Remove [OF id_keys(6)]
  preserves_intros

section \<open>The four deletions\<close>

definition cleans :: "resource \<Rightarrow> load_balancer \<Rightarrow> ('w, bool) lbop \<Rightarrow> bool" where
  "cleans kd lb0 m = (\<forall>D s. good lb0 D s \<longrightarrow>
     runs m s (\<lambda>r t. good lb0 D t \<and> (r = Ok False \<longrightarrow> clean kd lb0 (world t))))"

lemma good_unrecorded: "good lb0 D s \<Longrightarrow> recorded_name kd (lb_Status (cur s)) = None \<Longrightarrow> clean kd lb0 (world s)"
  by (fastforce simp: good_def pending_def clean_def)

lemma good_recorded:
  "good lb0 D s \<Longrightarrow> recorded_name kd (lb_Status (cur s)) = Some n \<Longrightarrow> \<not> named (world s) kd n \<Longrightarrow> clean kd lb0 (world s)"
  by (fastforce simp: good_def pending_def clean_def)

lemma flowM_cleans:
  assumes "good lb0 D s" and "\<And>D. preserves (good lb0 D) m" and "returns (\<lambda>f. f \<noteq> Return False) m"
    and rest: "\<And>b t. good lb0 D t \<Longrightarrow> runs (rest b) t (\<lambda>r t. good lb0 D t \<and> (r = Ok False \<longrightarrow> clean kd lb0 (world t)))"
  shows "runs (flowM m rest) s (\<lambda>r t. good lb0 D t \<and> (r = Ok False \<longrightarrow> clean kd lb0 (world t)))"
  unfolding runs_flowM
proof -
  have "runs m s (\<lambda>r t. good lb0 D t \<and> (\<forall>x. r = Ok x \<longrightarrow> x \<noteq> Return False))"
    using assms(3) by (intro runs_conj [OF preservesD [OF assms(2,1)]]) (simp add: returns_def)
  then show "runs m s (caseR (\<lambda>f t. case f of
        Return x \<Rightarrow> good lb0 D t \<and> (Ok x = Ok False \<longrightarrow> clean kd lb0 (world t))
      | Continue b \<Rightarrow> runs (rest b) t (\<lambda>r t. good lb0 D t \<and> (r = Ok False \<longrightarrow> clean kd lb0 (world t))))
    (\<lambda>e t. good lb0 D t \<and> (Err e = Ok False \<longrightarrow> clean kd lb0 (world t)))
    (\<lambda>c t. good lb0 D t \<and> (Crash c = Ok False \<longrightarrow> clean kd lb0 (world t))))"
    by (rule runs_weaken) (auto simp: caseR_def rest split: result.split flow.split)
qed

text \<open>The search by name: an empty list clears the name, otherwise the matches are deleted.\<close>

lemma by_name_cleans:
  assumes "good lb0 D s" and "recorded_name kd (lb_Status (cur s)) = Some n"
    and L: "preserves (good lb0 D) L" "\<And>s. runs L s (\<lambda>r t. cur t = cur s \<and> (r = Ok [] \<longrightarrow> \<not> named (world t) kd n))"
    and loop: "\<And>xs. preserves (good lb0 D) (loop xs)"
    and Rm: "\<And>s. good lb0 D s \<Longrightarrow> clean kd lb0 (world s) \<Longrightarrow>
        runs Rm s (\<lambda>r t. good lb0 D t \<and> clean kd lb0 (world t))"
  shows "runs (bindM L (\<lambda>xs. if xs = [] then thenM Rm (ret False) else thenM (loop xs) (ret True))) s
     (\<lambda>r t. good lb0 D t \<and> (r = Ok False \<longrightarrow> clean kd lb0 (world t)))"
proof -
  have "runs L s (\<lambda>r t. good lb0 D t \<and> cur t = cur s \<and> (r = Ok [] \<longrightarrow> \<not> named (world t) kd n))"
    by (rule runs_conj [OF preservesD [OF L(1) assms(1)] L(2)])
  then show ?thesis
    unfolding runs_bindM
  proof (rule runs_weaken)
    fix r :: "'a list result" and t
    assume t: "good lb0 D t \<and> cur t = cur s \<and> (r = Ok [] \<longrightarrow> \<not> named (world t) kd n)"
    have empty: "runs Rm t (\<lambda>r t. good lb0 D t \<and> clean kd lb0 (world t))" if "r = Ok []"
      using t that assms(2) by (auto intro!: Rm good_recorded)
    have nonempty: "runs (loop xs) t (\<lambda>_ t. good lb0 D t)" for xs
      using t loop by (auto intro: preservesD)
    show "caseR (\<lambda>xs t. runs (if xs = [] then thenM Rm (ret False) else thenM (loop xs) (ret True)) t
          (\<lambda>r t. good lb0 D t \<and> (r = Ok False \<longrightarrow> clean kd lb0 (world t))))
        (\<lambda>e t. good lb0 D t \<and> (Err e = Ok False \<longrightarrow> clean kd lb0 (world t)))
        (\<lambda>c t. good lb0 D t \<and> (Crash c = Ok False \<longrightarrow> clean kd lb0 (world t))) r t"
      using t by (cases r) (auto simp: runs_simps caseR_def split: result.split
          intro: runs_weaken [OF empty] runs_weaken [OF nonempty])
  qed
qed

lemma runs_Remove_name:
  "good lb0 D s \<Longrightarrow> clean kd lb0 (world s) \<Longrightarrow>
     runs (RemoveFromLBStatus k (name_key kd)) s (\<lambda>r t. good lb0 D t \<and> clean kd lb0 (world t))"
  by (rule runs_weaken [OF runs_RemoveFromLBStatus]) (auto simp: clean_def name_key_inj)

lemma listing:
  assumes "benign stored named f" and "\<And>w w'. f w = (Ok [], w') \<Longrightarrow> \<not> named w' kd n"
  shows "runs (ext c f) s (\<lambda>r t. cur t = cur s \<and> (r = Ok [] \<longrightarrow> \<not> named (world t) kd n))"
  using assms(2) by (auto simp: runs_simps split: prod.split)

lemma cleansI:
  assumes "\<And>D s. good lb0 D s \<Longrightarrow> deletes kd (cur s) \<Longrightarrow>
      runs m s (\<lambda>r t. good lb0 D t \<and> (r = Ok False \<longrightarrow> clean kd lb0 (world t)))"
    and "\<And>D s. good lb0 D s \<Longrightarrow> \<not> deletes kd (cur s) \<Longrightarrow> runs m s (\<lambda>r t. good lb0 D t)"
  shows "cleans kd lb0 m"
  unfolding cleans_def
proof (intro allI impI)
  fix D s assume g: "good lb0 D s"
  then have d: "deletes kd (cur s) = deletes kd lb0"
    by (simp add: good_def same_desired_deletes)
  show "runs m s (\<lambda>r t. good lb0 D t \<and> (r = Ok False \<longrightarrow> clean kd lb0 (world t)))"
    using assms(1) [OF g] assms(2) [OF g] d
    by (cases "deletes kd lb0") (auto simp: clean_def wanted_def elim: runs_weaken)
qed

lemma returns_by_id: "returns (\<lambda>f. f \<noteq> Return False) (deleteFipByID k os)"
    "returns (\<lambda>f. f \<noteq> Return False) (deletePortByID k os)"
    "returns (\<lambda>f. f \<noteq> Return False) (deleteSecGroupByID k os)"
    "returns (\<lambda>f. f \<noteq> Return False) (deleteServerGroupByID k os)"
  by (auto simp: returns_def deleteFipByID_def deletePortByID_def deleteSecGroupByID_def
      deleteServerGroupByID_def SendErrorLB_def reportM_def SendErrorAsEvent_def GetFIPByID_def DeleteFIP_def
      GetPortByID_def DeletePort_def GetSecGroupByID_def DeleteSecGroup_def GetServerGroupByID_def
      DeleteServerGroup_def RemoveFromLBStatus_def patchStatus_def runs_simps caseR_def
      split: option.split prod.split result.split)

lemma preserves_by_id: "preserves (good lb0 D) (deleteFipByID k os)"
    "preserves (good lb0 D) (deletePortByID k os)"
    "preserves (good lb0 D) (deleteSecGroupByID k os)"
    "preserves (good lb0 D) (deleteServerGroupByID k os)"
  unfolding deleteFipByID_def deletePortByID_def deleteSecGroupByID_def deleteServerGroupByID_def
    GetFIPByID_def DeleteFIP_def GetPortByID_def DeletePort_def GetSecGroupByID_def DeleteSecGroup_def
    GetServerGroupByID_def DeleteServerGroup_def
  by (intro good_intros)+

lemma not_deletes_Remove:
  "\<not> deletes kd lb0 \<Longrightarrow> preserves (good lb0 D) (RemoveFromLBStatus k (name_key kd))"
  by (auto simp: preserves_def wanted_def name_key_inj intro: runs_weaken [OF runs_RemoveFromLBStatus])

lemma good_deletes: "good lb0 D s \<Longrightarrow> deletes kd (cur s) = deletes kd lb0"
  by (simp add: good_def same_desired_deletes)

text \<open>A first step that only preserves the invariant.\<close>

lemma after_step:
  assumes "good lb0 D s" and "preserves (good lb0 D) m"
    and "\<And>t. good lb0 D t \<Longrightarrow> runs m' t (\<lambda>r t. good lb0 D t \<and> (r = Ok x \<longrightarrow> Q t))"
  shows "runs (thenM m m') s (\<lambda>r t. good lb0 D t \<and> (r = Ok x \<longrightarrow> Q t))"
  unfolding runs_thenM
  by (rule runs_weaken [OF preservesD [OF assms(2,1)]]) (auto simp: caseR_def assms(3) split: result.split)

lemma wrapM_runs:
  "runs m s (\<lambda>r t. P t \<and> (r = Ok x \<longrightarrow> Q t)) \<Longrightarrow> runs (wrapM p m) s (\<lambda>r t. P t \<and> (r = Ok x \<longrightarrow> Q t))"
  unfolding runs_wrapM by (erule runs_weaken) (simp add: caseR_def split: result.split)

lemma wrapM_runs_all: "runs m s (\<lambda>r t. P t) \<Longrightarrow> runs (wrapM p m) s (\<lambda>r t. P t)"
  unfolding runs_wrapM by (erule runs_weaken) (simp add: caseR_def split: result.split)

lemma runs_Remove_key:
  "good lb0 D s \<Longrightarrow> clean kd lb0 (world s) \<Longrightarrow> key = name_key kd \<Longrightarrow>
     runs (RemoveFromLBStatus k key) s (\<lambda>r t. good lb0 D t \<and> clean kd lb0 (world t))"
  using runs_Remove_name by blast

lemma deleteFipsByName_cleans:
  assumes "good lb0 D t"
  shows "runs (deleteFipsByName k os b) t (\<lambda>r t. good lb0 D t \<and> (r = Ok False \<longrightarrow> clean FIP lb0 (world t)))"
proof (cases "FloatingName (lb_Status (cur t))")
  case None
  then show ?thesis
    using assms good_unrecorded [OF assms, of FIP] by (simp add: deleteFipsByName_def runs_simps)
next
  case (Some n)
  show ?thesis
    unfolding deleteFipsByName_def runs_getLB Some option.case
    by (rule by_name_cleans [OF assms, where kd = FIP and n = n])
      (auto simp: Some FipList_def DeleteFIP_def intro!: good_intros listing [OF benign_fip(2)] fip_none runs_Remove_key)
qed

lemma deletePortsByName_cleans:
  assumes "good lb0 D t"
  shows "runs (deletePortsByName k os b) t (\<lambda>r t. good lb0 D t \<and> (r = Ok False \<longrightarrow> clean PORT lb0 (world t)))"
proof (cases "PortName (lb_Status (cur t))")
  case None
  then show ?thesis
    using assms good_unrecorded [OF assms, of PORT] by (simp add: deletePortsByName_def runs_simps)
next
  case (Some n)
  show ?thesis
    unfolding deletePortsByName_def runs_getLB Some option.case
    by (rule by_name_cleans [OF assms, where kd = PORT and n = n])
      (auto simp: Some PortList_def DeletePort_def intro!: good_intros listing [OF benign_port(2)] port_none runs_Remove_key)
qed

lemma deleteSecGroupsByName_cleans:
  assumes "good lb0 D t"
  shows "runs (deleteSecGroupsByName k os b) t (\<lambda>r t. good lb0 D t \<and> (r = Ok False \<longrightarrow> clean SECGROUP lb0 (world t)))"
proof (cases "SecurityGroupName (lb_Status (cur t))")
  case None
  then show ?thesis
    using assms good_unrecorded [OF assms, of SECGROUP] by (simp add: deleteSecGroupsByName_def runs_simps)
next
  case (Some n)
  have listed: "runs (wrapM p (GroupList os n)) s (\<lambda>r t. cur t = cur s \<and> (r = Ok [] \<longrightarrow> \<not> named (world t) SECGROUP n))"
    for p s
    unfolding GroupList_def by (rule wrapM_runs, rule listing [OF benign_group(2)], rule group_none)
  show ?thesis
    unfolding deleteSecGroupsByName_def runs_getLB Some option.case
    by (rule by_name_cleans [OF assms, where kd = SECGROUP and n = n])
      (auto simp: Some GroupList_def [symmetric] DeleteSecGroup_def intro!: good_intros listed wrapM_runs_all runs_Remove_key,
       auto simp: GroupList_def intro!: good_intros)
qed

lemma runs_Remove_key_True:
  "good lb0 D s \<Longrightarrow> clean kd lb0 (world s) \<Longrightarrow> key = name_key kd \<Longrightarrow>
     runs (thenM (RemoveFromLBStatus k key) (ret b)) s (\<lambda>r t. good lb0 D t)"
  unfolding runs_thenM
  by (rule runs_weaken [OF runs_Remove_key]) (auto simp: caseR_def runs_simps split: result.split)

text \<open>Server groups are never reported clean in the run that finds the name gone; the flag is
  true in every branch that looks.\<close>

lemma deleteServerGroupsByName_cleans:
  assumes "good lb0 D t"
  shows "runs (deleteServerGroupsByName k os b) t
     (\<lambda>r t. good lb0 D t \<and> (r = Ok False \<longrightarrow> clean SERVERGROUP lb0 (world t)))"
proof (cases "ServerGroupName (lb_Status (cur t))")
  case None
  then show ?thesis
    using assms good_unrecorded [OF assms, of SERVERGROUP] by (simp add: deleteServerGroupsByName_def runs_simps)
next
  case (Some n)
  have here: "recorded_name SERVERGROUP (lb_Status (cur t)) = Some n" by (simp add: Some)
  let ?t = "\<lambda>w tr. t\<lparr>world := w, trace := tr\<rparr>"
  have g: "good lb0 D (t\<lparr>world := w\<rparr>)" and gone: "\<not> named w SERVERGROUP n \<Longrightarrow> clean SERVERGROUP lb0 w"
    if "servergroup_List os (world t) = (r, w)" for w r
  proof -
    show "good lb0 D (t\<lparr>world := w\<rparr>)"
      using benign_servergroup(2) that by (auto simp: benign_def intro: good_world [OF assms])
    then show "\<not> named w SERVERGROUP n \<Longrightarrow> clean SERVERGROUP lb0 w"
      using good_recorded [of lb0 D "t\<lparr>world := w\<rparr>" SERVERGROUP n] here by simp
  qed
  have rm: "runs (RemoveFromLBStatus k ''serverGroupName'') (?t w tr) (\<lambda>_. good lb0 D)"
    if "good lb0 D (t\<lparr>world := w\<rparr>)" "clean SERVERGROUP lb0 w" for w tr
    by (rule runs_weaken [OF runs_Remove_key [where D = D, of lb0 "?t w tr" SERVERGROUP]]) (use that in auto)
  have del: "runs (reportM (DeleteServerGroup os i)) (?t w tr) (\<lambda>_. good lb0 D)"
    if "good lb0 D (t\<lparr>world := w\<rparr>)" for w tr i
    by (rule preservesD [where I = "good lb0 D"])
      (use that in \<open>auto simp: DeleteServerGroup_def intro!: good_intros\<close>)
  show ?thesis
    unfolding deleteServerGroupsByName_def runs_getLB Some option.case GetServerGroupByName_def
    by (auto simp: runs_simps caseR_const split: prod.split option.split)
      (auto simp: caseR_def intro!: rm del g gone dest: servergroup_gone servergroup_none split: result.split)
qed

lemma deleteServerGroups_cleans: "cleans SERVERGROUP lb0 (deleteServerGroups k os)"
  unfolding cleans_def deleteServerGroups_def
  by (auto intro!: after_step good_intros flowM_cleans preserves_by_id returns_by_id deleteServerGroupsByName_cleans)

lemma deleteFips_cleans: "cleans FIP lb0 (deleteFips k os)"
proof (rule cleansI)
  fix D s assume g: "good lb0 D s" and d: "deletes FIP (cur s)"
  have step: "runs (getLB (\<lambda>lb.
        if keep_annotated lb LoadBalancerKeepFloatingIP then releaseFip k lb
        else if spec_ExistingFloatingIP (lb_Spec lb) \<noteq> None then releaseFip k lb
        else flowM (deleteFipByID k os) (\<lambda>requeue. deleteFipsByName k os requeue))) t
      (\<lambda>r t. good lb0 D t \<and> (r = Ok False \<longrightarrow> clean FIP lb0 (world t)))" if "good lb0 D t" for t
  proof -
    have "deletes FIP (cur t)"
      using good_deletes [OF that, of FIP] good_deletes [OF g, of FIP] d by simp
    then show ?thesis
      unfolding runs_getLB
      using that by (auto intro!: flowM_cleans preserves_by_id returns_by_id deleteFipsByName_cleans)
  qed
  show "runs (deleteFips k os) s (\<lambda>r t. good lb0 D t \<and> (r = Ok False \<longrightarrow> clean FIP lb0 (world t)))"
    unfolding deleteFips_def by (rule after_step [OF g good_calls(1) step])
next
  fix D s assume g: "good lb0 D s" and d: "\<not> deletes FIP (cur s)"
  then have nd: "\<not> deletes FIP lb0"
    using good_deletes by blast
  have "preserves (good lb0 D) (RemoveFromLBStatus k ''floatingName'')"
    using not_deletes_Remove [OF nd] by simp
  then have release: "preserves (good lb0 D) (releaseFip k lb)" for lb
    unfolding releaseFip_def by (intro good_intros)
  have step: "runs (getLB (\<lambda>lb.
        if keep_annotated lb LoadBalancerKeepFloatingIP then releaseFip k lb
        else if spec_ExistingFloatingIP (lb_Spec lb) \<noteq> None then releaseFip k lb
        else flowM (deleteFipByID k os) (\<lambda>requeue. deleteFipsByName k os requeue))) t
      (\<lambda>r t. good lb0 D t \<and> (r = Ok True \<longrightarrow> True))" if "good lb0 D t" for t
    using nd good_deletes [OF that, of FIP] preservesD [OF release that]
    unfolding runs_getLB by auto
  show "runs (deleteFips k os) s (\<lambda>r t. good lb0 D t)"
    unfolding deleteFips_def by (rule runs_weaken [OF after_step [OF g good_calls(1) step]]) blast+
qed

lemma deletePorts_cleans: "cleans PORT lb0 (deletePorts k os)"
  unfolding cleans_def
proof (intro allI impI)
  fix D s assume g: "good lb0 D s"
  have step: "runs (getLB (\<lambda>lb.
        if keep_annotated lb LoadBalancerKeepPort then
          (if PortID (lb_Status lb) = None then ret False
           else thenM (RemoveFromLBStatus k ''portID'') (ret True))
        else flowM (deletePortByID k os) (\<lambda>requeue. deletePortsByName k os requeue))) t
      (\<lambda>r t. good lb0 D t \<and> (r = Ok False \<longrightarrow> clean PORT lb0 (world t)))" if "good lb0 D t" for t
  proof (cases "keep_annotated (cur t) LoadBalancerKeepPort")
    case True
    then have "clean PORT lb0 w" for w
      using good_deletes [OF that, of PORT] by (simp add: clean_def wanted_def)
    moreover have "runs (thenM (RemoveFromLBStatus k ''portID'') (ret True)) t (\<lambda>_ t. good lb0 D t)"
      by (rule preservesD [where I = "good lb0 D"]) (use that in \<open>auto intro!: good_intros\<close>)
    ultimately show ?thesis
      using True that unfolding runs_getLB by (auto simp: runs_ret elim: runs_weaken)
  next
    case False
    then show ?thesis
      unfolding runs_getLB
      using that by (auto intro!: flowM_cleans preserves_by_id returns_by_id deletePortsByName_cleans)
  qed
  show "runs (deletePorts k os) s (\<lambda>r t. good lb0 D t \<and> (r = Ok False \<longrightarrow> clean PORT lb0 (world t)))"
    unfolding deletePorts_def by (rule after_step [OF g good_calls(2) step])
qed

lemma preserves_usages: "preserves (good lb0 D) (findAndDeleteSecGroupUsages os)"
  unfolding findAndDeleteSecGroupUsages_def RemoveSecGroupFromPortIfNeeded_eq GetAllPorts_def PortList_def PortUpdate_def
  by (intro good_intros)

lemma deleteSecGroups_cleans: "cleans SECGROUP lb0 (deleteSecGroups k os)"
  unfolding cleans_def
proof (intro allI impI)
  fix D s assume g: "good lb0 D s"
  show "runs (deleteSecGroups k os) s (\<lambda>r t. good lb0 D t \<and> (r = Ok False \<longrightarrow> clean SECGROUP lb0 (world t)))"
  proof (cases "keep_annotated (cur s) LoadBalancerKeepSecurityGroup")
    case True
    then have c: "clean SECGROUP lb0 w" for w
      using good_deletes [OF g, of SECGROUP] by (simp add: clean_def wanted_def)
    have "runs (deleteSecGroups k os) s (\<lambda>_ t. good lb0 D t)"
      unfolding deleteSecGroups_def runs_getLB using True
      by (auto intro!: preservesD [where I = "good lb0 D", OF _ g] good_intros)
    then show ?thesis by (rule runs_weaken) (simp add: c)
  next
    case False
    then show ?thesis
      unfolding deleteSecGroups_def runs_getLB using g
      by (auto intro!: after_step good_intros preserves_usages flowM_cleans preserves_by_id returns_by_id
          deleteSecGroupsByName_cleans)
  qed
qed

section \<open>The routine\<close>

definition hist_ok :: "load_balancer \<Rightarrow> 'w \<Rightarrow> bool" where
  "hist_ok lb0 w = (\<forall>lb. stored w (key_of lb0) = Some lb \<longrightarrow>
     same_desired lb0 lb \<and> pending lb0 (lb_Status lb) w)"

definition outcome :: "load_balancer \<Rightarrow> ctrl_result result \<Rightarrow> ('w, call) lbst \<Rightarrow> bool" where
  "outcome lb0 r t = (hist_ok lb0 (world t) \<and> (r = Ok emptyResult \<longrightarrow> (\<forall>kd. clean kd lb0 (world t))))"

lemma good_outcome: "good lb0 D t \<Longrightarrow> r \<noteq> Ok emptyResult \<Longrightarrow> outcome lb0 r t"
  by (auto simp: outcome_def hist_ok_def good_def)

lemma requeue_not_empty: "requeueDefault \<noteq> emptyResult" "\<lparr>RequeueAfter = 10 * Second\<rparr> \<noteq> emptyResult"
  by (simp_all add: requeueDefault_def emptyResult_def DefaultRequeueTime_def Second_def Millisecond_def)

lemma chain_step:
  assumes "good lb0 D s" and "cleans kd lb0 m"
    and rest: "\<And>t. good lb0 (insert kd D) t \<Longrightarrow> runs rest t (outcome lb0)"
  shows "runs (bindM (wrapM p m) (\<lambda>requeue. if requeue then ret requeueDefault else rest)) s (outcome lb0)"
proof -
  have "runs m s (\<lambda>r t. good lb0 D t \<and> (r = Ok False \<longrightarrow> clean kd lb0 (world t)))"
    using assms(1,2) by (simp add: cleans_def)
  then show ?thesis
    unfolding runs_bindM runs_wrapM
    by (rule runs_weaken)
      (auto simp: caseR_def runs_simps requeue_not_empty good_def [of lb0 "insert kd D"] good_def [of lb0 D]
        intro!: rest good_outcome [of lb0 D] split: result.split)
qed

lemma runs_finish:
  assumes "good lb0 {FIP, PORT, SECGROUP, SERVERGROUP} s"
  shows "runs (getLB (\<lambda>lb.
        thenM (record_call (CMetrics ''RemoveLoadBalancerMetrics'' (key_of lb)))
        (thenM (wrapM p (RemoveFinalizerIfNeeded k f)) (ret emptyResult)))) s (outcome lb0)"
proof -
  have clean: "clean kd lb0 (world s)" for kd
    using assms by (cases kd) (auto simp: good_def)
  have key: "key_of (lb\<lparr>meta_Finalizers := fs\<rparr>) = key_of lb" for lb :: load_balancer and fs
    by (simp add: key_of_def)
  have patched: "outcome lb0 r u"
    if "k_PatchLBMeta k (key_of lb0) (PatchFinalizers fs) (world s) = (q, w')" "world u = w'" for q w' u fs and r
  proof -
    have shrink: "\<forall>kd n. named w' kd n \<longrightarrow> named (world s) kd n"
      and "\<forall>lb'. stored w' (key_of lb0) = Some lb' \<longrightarrow> same_desired (cur s) lb' \<and> lb_Status lb' = lb_Status (cur s)"
      using patch_meta [OF that(1)] assms by (auto simp: good_def)
    moreover have "same_desired lb0 (cur s)" "pending lb0 (lb_Status (cur s)) (world s)"
      using assms by (auto simp: good_def)
    moreover have "clean kd lb0 w'" for kd
      using clean shrink unfolding clean_def by blast
    ultimately show ?thesis
      using that(2) by (auto simp: outcome_def hist_ok_def pending_def clean_def intro: same_desired_trans)
  qed
  have unpatched: "outcome lb0 r u" if "world u = world s" for u and r
    using clean assms that by (auto simp: outcome_def hist_ok_def good_def)
  show ?thesis
    using assms
    by (auto intro: patched unpatched simp: runs_simps caseR_def RemoveFinalizerIfNeeded_def patchMeta_def Let_def key good_def
        same_desired_def split: prod.split result.split)
qed

lemma runs_deleteResources:
  assumes "good lb0 {} t"
  shows "runs (deleteResources k os) t (outcome lb0)"
  unfolding deleteResources_def
  by (rule chain_step [OF assms deleteServerGroups_cleans],
      rule chain_step [OF _ deleteFips_cleans], assumption,
      rule chain_step [OF _ deletePorts_cleans], assumption,
      rule chain_step [OF _ deleteSecGroups_cleans], assumption,
      rule runs_finish, simp add: insert_commute)

lemma runs_deletionRoutine:
  assumes "good lb0 {} s"
  shows "runs (deletionRoutine k os) s (outcome lb0)"
proof -
  have list: "preserves (good lb0 {}) (wrapM p (GetLoadBalancerSetsForLoadBalancer k lb))" for p lb
    unfolding GetLoadBalancerSetsForLoadBalancer_def by (intro good_intros)
  have sets: "preserves (good lb0 {}) (deleteSets k items)" for items
    unfolding deleteSets_def by (intro good_intros)
  have rest: "runs (thenM (deleteSets k items)
      (if items \<noteq> [] then ret \<lparr>RequeueAfter = 10 * Second\<rparr> else deleteResources k os)) t (outcome lb0)"
    if "good lb0 {} t" for items t
    unfolding runs_thenM
    by (rule runs_weaken [OF preservesD [OF sets that]])
      (auto simp: caseR_def runs_ret requeue_not_empty intro!: runs_deleteResources good_outcome [of lb0 "{}"]
        split: result.split)
  show ?thesis
    unfolding deletionRoutine_def runs_getLB runs_bindM
  proof (rule runs_weaken [OF preservesD [OF list assms]])
    fix r :: "load_balancer_set list result" and t
    assume "good lb0 {} t"
    then show "caseR (\<lambda>items t. runs (thenM (deleteSets k items)
            (if items \<noteq> [] then ret \<lparr>RequeueAfter = 10 * Second\<rparr> else deleteResources k os)) t (outcome lb0))
          (\<lambda>e t. outcome lb0 (Err e) t) (\<lambda>c t. outcome lb0 (Crash c) t) r t"
      by (cases r) (simp_all only: caseR_simps rest, simp_all add: good_outcome)
  qed
qed

end

section \<open>Over several reconciles\<close>

text \<open>The worlds a deletion passes through: every reconcile reads the stored LoadBalancer and runs
  the routine, whatever the outcome (a panic ends a reconcile, not the history).\<close>

inductive deletion_history :: "'w kube \<Rightarrow> 'w os_env \<Rightarrow> ('w \<Rightarrow> namespaced_name \<Rightarrow> load_balancer option) \<Rightarrow>
    load_balancer \<Rightarrow> 'w \<Rightarrow> bool"
  for k os stored lb0 where
  start: "stored w (key_of lb0) = Some lb0 \<Longrightarrow> deletion_history k os stored lb0 w"
| reconcile: "deletion_history k os stored lb0 w \<Longrightarrow> stored w (key_of lb0) = Some lb \<Longrightarrow>
    deletionRoutine k os \<lparr>world = w, trace = tr, cur = lb\<rparr> = (r, t) \<Longrightarrow>
    deletion_history k os stored lb0 (world t)"

context deletion_cloud
begin

lemma hist_good:
  assumes "hist_ok lb0 (world s)" and "stored (world s) (key_of lb0) = Some (cur s)"
  shows "good lb0 {} s"
  using assms by (auto simp: good_def hist_ok_def)

lemma history_hist_ok: "deletion_history k os stored lb0 w \<Longrightarrow> hist_ok lb0 w"
proof (induction rule: deletion_history.induct)
  case (start w)
  then show ?case by (auto simp: hist_ok_def pending_def wanted_def same_desired_def split: if_splits)
next
  case (reconcile w lb tr r t)
  then have "good lb0 {} \<lparr>world = w, trace = tr, cur = lb\<rparr>"
    by (intro hist_good) simp_all
  from runsD [OF runs_deletionRoutine [OF this] reconcile.hyps(3)] show ?case
    by (simp add: outcome_def)
qed

lemma finished_clean:
  assumes "deletion_history k os stored lb0 w" and "stored w (key_of lb0) = Some lb"
    and "deletionRoutine k os \<lparr>world = w, trace = tr, cur = lb\<rparr> = (Ok emptyResult, t)"
  shows "clean kd lb0 (world t)"
proof -
  have "good lb0 {} \<lparr>world = w, trace = tr, cur = lb\<rparr>"
    using history_hist_ok [OF assms(1)] assms(2) by (intro hist_good) simp_all
  from runsD [OF runs_deletionRoutine [OF this] assms(3)] show ?thesis
    by (simp add: outcome_def)
qed

end


section \<open>The in-memory cloud satisfies the laws\<close>

definition mem_stored :: "mem \<Rightarrow> namespaced_name \<Rightarrow> load_balancer option" where
  "mem_stored w n = map_of (mem_lbs w) n"

fun mem_named :: "mem \<Rightarrow> resource \<Rightarrow> string \<Rightarrow> bool" where
  "mem_named w FIP n = (n \<in> fip_Description ` set (map snd (mem_fips w)))"
| "mem_named w PORT n = (n \<in> port_Name ` set (map snd (mem_ports w)))"
| "mem_named w SECGROUP n = (n \<in> grp_Name ` set (map snd (mem_groups w)))"
| "mem_named w SERVERGROUP n = (n \<in> sg_Name ` set (map snd (mem_servergroups w)))"

lemma benign_mem:
  assumes "\<And>w r w'. f w = (r, w') \<Longrightarrow> mem_lbs w' = mem_lbs w"
    and "\<And>w r w' kd n. f w = (r, w') \<Longrightarrow> mem_named w' kd n \<Longrightarrow> mem_named w kd n"
  shows "benign mem_stored mem_named f"
  using assms by (auto simp: benign_def mem_stored_def fun_eq_iff)

lemma benign_readonly: "(\<And>w. snd (f w) = w) \<Longrightarrow> benign mem_stored mem_named f"
  by (rule benign_mem) (metis snd_conv)+

lemma named_delete:
  "mem_named (w\<lparr>mem_fips := AList.delete i (mem_fips w)\<rparr>) kd n \<Longrightarrow> mem_named w kd n"
  "mem_named (w\<lparr>mem_ports := AList.delete i (mem_ports w)\<rparr>) kd n \<Longrightarrow> mem_named w kd n"
  "mem_named (w\<lparr>mem_groups := AList.delete i (mem_groups w)\<rparr>) kd n \<Longrightarrow> mem_named w kd n"
  "mem_named (w\<lparr>mem_servergroups := AList.delete i (mem_servergroups w)\<rparr>) kd n \<Longrightarrow> mem_named w kd n"
  by (cases kd; auto dest!: delete_subset; force)+

lemma named_others [simp]:
  "mem_named (w\<lparr>mem_sets := x\<rparr>) kd n = mem_named w kd n"
  "mem_named (w\<lparr>mem_lbs := y\<rparr>) kd n = mem_named w kd n"
  by (cases kd; simp)+

lemma named_update_port:
  assumes "map_of (mem_ports w) i = Some p" and "port_Name q = port_Name p"
    and "mem_named (w\<lparr>mem_ports := AList.update i q (mem_ports w)\<rparr>) kd n"
  shows "mem_named w kd n"
  using assms(2,3) map_of_SomeD [OF assms(1)]
  by (cases kd) (auto dest!: update_subset, force+)

lemmas fake_defs = fake_os_def mem_kube_def fake_fip_Get_def fake_fip_List_def fake_fip_Delete_def
  fake_port_Get_def fake_port_List_def fake_port_Delete_def fake_port_Update_def
  fake_group_Get_def fake_group_List_def fake_group_Delete_def
  fake_servergroup_Get_def fake_servergroup_List_def fake_servergroup_Delete_def found_def

interpretation fake: deletion_cloud mem_kube "fake_os gen" mem_stored mem_named
proof
  show "benign mem_stored mem_named (os_FipClient (fake_os gen))" "benign mem_stored mem_named (os_PortClient (fake_os gen))"
      "benign mem_stored mem_named (os_GroupClient (fake_os gen))" "benign mem_stored mem_named (os_ServerGroupClient (fake_os gen))"
      "benign mem_stored mem_named (fip_Get (fake_os gen) i)" "benign mem_stored mem_named (fip_List (fake_os gen) fo)"
      "benign mem_stored mem_named (port_Get (fake_os gen) i)" "benign mem_stored mem_named (port_List (fake_os gen) i)"
      "benign mem_stored mem_named (group_Get (fake_os gen) i)" "benign mem_stored mem_named (group_List (fake_os gen) i)"
      "benign mem_stored mem_named (servergroup_Get (fake_os gen) i)" "benign mem_stored mem_named (servergroup_List (fake_os gen))"
      "benign mem_stored mem_named (k_ListSets mem_kube nso q)" for i fo nso q
    by (rule benign_readonly, simp add: fake_defs split: option.split)+
  show "benign mem_stored mem_named (fip_Delete (fake_os gen) i)" "benign mem_stored mem_named (port_Delete (fake_os gen) i)"
      "benign mem_stored mem_named (group_Delete (fake_os gen) i)" "benign mem_stored mem_named (servergroup_Delete (fake_os gen) i)"
      "benign mem_stored mem_named (k_DeleteSet mem_kube nn)" for i nn
    by (rule benign_mem; auto simp: fake_defs split: option.splits dest: named_delete)+
  show "benign mem_stored mem_named (port_Update (fake_os gen) i po)" for i po
    by (rule benign_mem) (auto simp: fake_defs nil_panic_def Let_def split: option.splits elim: named_update_port [rotated 2])
  show "\<not> mem_named w' FIP n" if "fip_List (fake_os gen) \<lparr>flo_Description = n, flo_FloatingIP = []\<rparr> w = (Ok [], w')" for n w w'
    using that by (auto simp: fake_defs filter_empty_conv)
  show "\<not> mem_named w' PORT n" if "port_List (fake_os gen) n w = (Ok [], w')" for n w w'
    using that by (auto simp: fake_defs filter_empty_conv)
  show "\<not> mem_named w' SECGROUP n" if "group_List (fake_os gen) n w = (Ok [], w')" for n w w'
    using that by (auto simp: fake_defs filter_empty_conv)
  show "\<not> mem_named w' SERVERGROUP n"
    if "servergroup_List (fake_os gen) w = (Ok gs, w')" "find (\<lambda>g. sg_Name g = n) gs = None" for n w w' gs
    using that by (fastforce simp: fake_defs find_None_iff)
  show "\<not> mem_named w' SERVERGROUP n" if "servergroup_List (fake_os gen) w = (Err e, w')" for n w w' e
    using that by (simp add: fake_defs)
next
  fix nn p w r w'
  assume "k_PatchLBStatus mem_kube nn p w = (r, w')"
  then show "(\<forall>kd n. mem_named w' kd n \<longrightarrow> mem_named w kd n) \<and> (case r of
        Ok lb' \<Rightarrow> \<exists>lb. mem_stored w nn = Some lb \<and> same_desired lb lb' \<and>
          lb_Status lb' = merge_status p (lb_Status lb) \<and> mem_stored w' = (mem_stored w)(nn \<mapsto> lb')
      | _ \<Rightarrow> mem_stored w' = mem_stored w)"
    by (auto simp: mem_kube_def mem_PatchLB_def api_not_found_def mem_stored_def same_desired_def key_of_def
        fun_eq_iff update_conv' split: option.splits)
next
  fix nn fs w r w'
  assume "k_PatchLBMeta mem_kube nn (PatchFinalizers fs) w = (r, w')"
  then show "(\<forall>kd n. mem_named w' kd n \<longrightarrow> mem_named w kd n) \<and>
      (\<forall>lb'. mem_stored w' nn = Some lb' \<longrightarrow> (\<exists>lb. mem_stored w nn = Some lb \<and> same_desired lb lb' \<and> lb_Status lb' = lb_Status lb))"
    by (auto simp: mem_kube_def mem_PatchLB_def mem_collect_def api_not_found_def mem_stored_def same_desired_def
        key_of_def update_conv' delete_conv' split: option.splits if_splits)
qed

text \<open>A load balancer being deleted, with a floating IP under its recorded name.\<close>

definition example_doomed :: load_balancer where
  "example_doomed = zero_lb\<lparr>meta_Name := ''lb'', meta_Namespace := ''ns'', meta_UID := ''u'',
     meta_Finalizers := [ServiceFinalizer], meta_DeletionTimestamp := Some 1,
     lb_Status := zero_lb_status\<lparr>FloatingName := Some ''ns/lb''\<rparr>\<rparr>"

definition example_mem :: "(string \<times> floating_ip) list \<Rightarrow> load_balancer \<Rightarrow> mem" where
  "example_mem fips lb = \<lparr>mem_id = 1, mem_fips = fips, mem_ports = [], mem_groups = [], mem_rules = [],
     mem_servers = [], mem_servergroups = [], mem_lbs = [(key_of lb, lb)], mem_sets = [], mem_machines = [], mem_secrets = [], mem_accounts = [], mem_roles = [], mem_bindings = [], mem_now = 0, mem_snapshot = initial_snapshot\<rparr>"

definition example_fip :: floating_ip where
  "example_fip = \<lparr>fip_ID = ''0'', fip_Description = ''ns/lb'', fip_FloatingNetworkID = [],
     fip_FloatingIP = ''1.2.3.4'', fip_PortID = [], fip_Status = []\<rparr>"

lemmas run_defs = thenM_def bindM_def catchM_def wrapM_def flowM_def reportM_def ret_def fail_def ext_def
  getLB_def putLB_def record_call_def patchStatus_def patchMeta_def RemoveFromLBStatus_def
  deletionRoutine_def deleteResources_def deleteServerGroups_def deleteFips_def deletePorts_def deleteSecGroups_def
  deleteServerGroupByID_def deleteServerGroupsByName_def deleteFipByID_def deleteFipsByName_def
  deletePortByID_def deletePortsByName_def deleteSecGroupByID_def deleteSecGroupsByName_def
  findAndDeleteSecGroupUsages_def deleteSets_def GetLoadBalancerSetsForLoadBalancer_def
  FipList_def DeleteFIP_def RemoveFinalizerIfNeeded_def

lemma example_run1:
  "\<exists>t. deletionRoutine mem_kube (fake_os gen)
       \<lparr>world = example_mem [(''0'', example_fip)] example_doomed, trace = [], cur = example_doomed\<rparr> =
     (Ok requeueDefault, t) \<and> world t = example_mem [] example_doomed"
  by (simp add: run_defs fake_defs example_mem_def example_doomed_def example_fip_def zero_lb_def Let_def
      zero_lb_spec_def zero_lb_status_def keep_annotated_def ParseBool_def)

lemma example_run2:
  "\<exists>t. deletionRoutine mem_kube (fake_os gen)
       \<lparr>world = example_mem [] example_doomed, trace = [], cur = example_doomed\<rparr> = (Ok emptyResult, t) \<and>
     mem_named (world t) FIP ''ns/lb'' = False"
  by (simp add: run_defs fake_defs example_mem_def example_doomed_def example_fip_def zero_lb_def Let_def
      zero_lb_spec_def zero_lb_status_def keep_annotated_def ParseBool_def key_of_def mem_PatchLB_def remove_key_def
      ContainsFinalizer_def RemoveFinalizer_def mem_collect_def is_deleting_def)


end
