(* ===== verification/UserResources.thy ===== *)
theory UserResources
  imports LBController DeletionCleanup
begin

text \<open>
  What a LoadBalancer says about the user's resources is respected by every reconcile: resources
  that a keep annotation protects, or a floating IP that the user brought, are never deleted, no
  floating IP is created for a LoadBalancer that has one of its own, and an internal one neither
  creates nor updates floating IPs. The locale \<open>lb_cloud\<close> states that no other client changes the
  LoadBalancer during the reconcile; nothing is assumed of the answers of OpenStack.
\<close>

section \<open>Forbidden calls\<close>

fun forbidden :: "load_balancer \<Rightarrow> call \<Rightarrow> bool" where
  "forbidden lb (CFipDelete i) = (\<not> deletes FIP lb)"
| "forbidden lb (CPortDelete i) = (\<not> deletes PORT lb)"
| "forbidden lb (CGroupDelete i) = (\<not> deletes SECGROUP lb)"
| "forbidden lb (CFipCreate opts) = (opt_InternalLB (spec_Options (lb_Spec lb)) \<or> spec_ExistingFloatingIP (lb_Spec lb) \<noteq> None)"
| "forbidden lb (CFipUpdate i opts) = opt_InternalLB (spec_Options (lb_Spec lb))"
| "forbidden lb c = False"

text \<open>What the controller's own updates leave alone.\<close>

definition same_intent :: "load_balancer \<Rightarrow> load_balancer \<Rightarrow> bool" where
  "same_intent lb lb' = (key_of lb' = key_of lb \<and> spec_Options (lb_Spec lb') = spec_Options (lb_Spec lb) \<and>
     spec_ExistingFloatingIP (lb_Spec lb') = spec_ExistingFloatingIP (lb_Spec lb) \<and>
     (\<forall>a. a \<noteq> RevisionAnnotation \<longrightarrow> meta_Annotations lb' a = meta_Annotations lb a))"

lemma same_intent_refl [simp]: "same_intent lb lb"
  by (simp add: same_intent_def)

lemma same_intent_trans: "same_intent a b \<Longrightarrow> same_intent b c \<Longrightarrow> same_intent a c"
  by (simp add: same_intent_def)

lemma same_intent_keep:
  "same_intent a b \<Longrightarrow> anno \<noteq> RevisionAnnotation \<Longrightarrow> keep_annotated b anno = keep_annotated a anno"
  by (simp add: same_intent_def keep_annotated_def at_key_def)

lemma keep_keys [simp]: "LoadBalancerKeepFloatingIP \<noteq> RevisionAnnotation" "LoadBalancerKeepPort \<noteq> RevisionAnnotation"
  "LoadBalancerKeepSecurityGroup \<noteq> RevisionAnnotation"
  by (simp_all add: LoadBalancerKeepFloatingIP_def LoadBalancerKeepPort_def LoadBalancerKeepSecurityGroup_def
      RevisionAnnotation_def)

section \<open>The systems behind a reconcile\<close>

definition stays :: "('w \<Rightarrow> namespaced_name \<Rightarrow> load_balancer option) \<Rightarrow> ('w, 'a) gop \<Rightarrow> bool" where
  "stays stored f = (\<forall>w r w'. f w = (r, w') \<longrightarrow> stored w' = stored w)"

definition cloud_stays :: "('w \<Rightarrow> namespaced_name \<Rightarrow> load_balancer option) \<Rightarrow> 'w os_env \<Rightarrow> bool" where
  "cloud_stays stored os = (
     stays stored (os_FipClient os) \<and> stays stored (os_PortClient os) \<and> stays stored (os_GroupClient os) \<and>
     stays stored (os_RuleClient os) \<and> stays stored (os_ServerGroupClient os) \<and>
     (\<forall>x. stays stored (fip_List os x)) \<and> (\<forall>x. stays stored (fip_Create os x)) \<and> (\<forall>i x. stays stored (fip_Update os i x)) \<and>
     (\<forall>x. stays stored (fip_Get os x)) \<and> (\<forall>x. stays stored (fip_Delete os x)) \<and>
     (\<forall>x. stays stored (port_List os x)) \<and> (\<forall>x. stays stored (port_Get os x)) \<and> (\<forall>x. stays stored (port_Create os x)) \<and>
     (\<forall>i x. stays stored (port_Update os i x)) \<and> (\<forall>x. stays stored (port_Delete os x)) \<and>
     (\<forall>x. stays stored (group_List os x)) \<and> (\<forall>x. stays stored (group_Create os x)) \<and> (\<forall>x. stays stored (group_Get os x)) \<and>
     (\<forall>x. stays stored (group_Delete os x)) \<and>
     (\<forall>x. stays stored (rule_Create os x)) \<and> (\<forall>x. stays stored (rule_Delete os x)) \<and>
     stays stored (servergroup_List os) \<and> (\<forall>n x. stays stored (servergroup_Create os n x)) \<and>
     (\<forall>x. stays stored (servergroup_Get os x)) \<and> (\<forall>x. stays stored (servergroup_Delete os x)))"

locale lb_cloud =
  fixes rc :: "'w reconciler" and stored :: "'w \<Rightarrow> namespaced_name \<Rightarrow> load_balancer option"
  assumes os_stays: "rc_getOsClientForIni rc ini p w = (Ok os, w') \<Longrightarrow> cloud_stays stored os"
    and login_stays: "stays stored (rc_getOsClientForIni rc ini p)"
    and now_stays: "k_now (rc_Client rc) w = (x, w') \<Longrightarrow> stored w' = stored w"
    and api_stays: "stays stored (k_GetSecret (rc_Client rc) nn)" "stays stored (k_GetLB (rc_Client rc) nn)"
      "stays stored (k_ListSets (rc_Client rc) ns q)" "stays stored (k_CreateSet (rc_Client rc) lbs)"
      "stays stored (k_DeleteSet (rc_Client rc) nn)" "stays stored (k_PatchSetReplicas (rc_Client rc) nn n)"
    and get_lb: "k_GetLB (rc_Client rc) nn w = (Ok lb, w') \<Longrightarrow> stored w nn = Some lb"
    and update_lb: "k_UpdateLB (rc_Client rc) lb w = (r, w') \<Longrightarrow>
        (\<forall>lb'. r = Ok lb' \<longrightarrow> same_intent lb lb') \<and>
        (\<forall>x. stored w' (key_of lb) = Some x \<longrightarrow> same_intent lb x \<or> stored w (key_of lb) = Some x)"
    and patch_status: "k_PatchLBStatus (rc_Client rc) nn sp w = (r, w') \<Longrightarrow>
        (\<forall>lb'. r = Ok lb' \<longrightarrow> (\<exists>lb. stored w nn = Some lb \<and> same_intent lb lb')) \<and>
        (\<forall>x. stored w' nn = Some x \<longrightarrow> (\<exists>lb. stored w nn = Some lb \<and> same_intent lb x))"
    and patch_meta: "k_PatchLBMeta (rc_Client rc) nn mp w = (r, w') \<Longrightarrow>
        (\<forall>a v. mp = PatchAnnotation a v \<longrightarrow> a = RevisionAnnotation) \<Longrightarrow>
        (\<forall>lb'. r = Ok lb' \<longrightarrow> (\<exists>lb. stored w nn = Some lb \<and> same_intent lb lb')) \<and>
        (\<forall>x. stored w' nn = Some x \<longrightarrow> (\<exists>lb. stored w nn = Some lb \<and> same_intent lb x))"
begin

text \<open>The invariant of a reconcile of \<open>lb0\<close> that started in \<open>s0\<close>: the object in memory and the
  stored one keep the user's intent, and no forbidden call has been made.\<close>

definition safe :: "load_balancer \<Rightarrow> ('w, call) lbst \<Rightarrow> ('w, call) lbst \<Rightarrow> bool" where
  "safe lb0 s0 s = (same_intent lb0 (cur s) \<and>
     (\<forall>x. stored (world s) (key_of lb0) = Some x \<longrightarrow> same_intent lb0 x) \<and>
     extends (\<lambda>c. \<not> forbidden lb0 (fst c)) s0 s)"

lemma safe_call: "safe lb0 s0 s \<Longrightarrow> \<not> forbidden lb0 c \<Longrightarrow> safe lb0 s0 (s\<lparr>trace := trace s @ [(c, b)]\<rparr>)"
  by (auto simp: safe_def extends_def)

lemma safe_world: "safe lb0 s0 s \<Longrightarrow> stored w' = stored (world s) \<Longrightarrow> safe lb0 s0 (s\<lparr>world := w'\<rparr>)"
  by (simp add: safe_def extends_def)

lemma safe_ext: "stays stored f \<Longrightarrow> \<not> forbidden lb0 c \<Longrightarrow> preserves (safe lb0 s0) (ext c f)"
  by (auto simp: preserves_def runs_ext stays_def safe_def extends_def split: prod.split)

lemma safe_getLB:
  "(\<And>lb. same_intent lb0 lb \<Longrightarrow> preserves (safe lb0 s0) (m lb)) \<Longrightarrow> preserves (safe lb0 s0) (getLB m)"
  by (auto simp: preserves_def runs_getLB safe_def)

lemma safe_putLB: "same_intent lb0 lb \<Longrightarrow> preserves (safe lb0 s0) (putLB lb)"
  by (auto simp: preserves_def runs_putLB safe_def extends_def)

lemma safe_record: "\<not> forbidden lb0 c \<Longrightarrow> preserves (safe lb0 s0) (record_call c)"
  by (auto simp: preserves_def runs_record_call intro: safe_call)

lemma safe_now: "(\<And>x. preserves (safe lb0 s0) (m x)) \<Longrightarrow> preserves (safe lb0 s0) (nowM (rc_Client rc) m)"
  unfolding nowM_def by (rule preserves_readW) (auto intro: safe_world dest: now_stays)

lemma safe_liftR: "preserves (safe lb0 s0) (liftR r)"
  by (simp add: preserves_def runs_liftR)

lemma safe_flowM:
  "preserves (safe lb0 s0) m \<Longrightarrow> (\<And>b. preserves (safe lb0 s0) (n b)) \<Longrightarrow> preserves (safe lb0 s0) (flowM m n)"
  unfolding flowM_def by (rule preserves_bindM) (auto intro: preserves_ret split: flow.split)

lemma safe_SendErrorLB: "preserves (safe lb0 s0) (SendErrorLB e)"
  unfolding SendErrorLB_def SendErrorAsEvent_def
  by (intro safe_getLB preserves_intros safe_record) simp

lemma safe_reportM: "preserves (safe lb0 s0) m \<Longrightarrow> preserves (safe lb0 s0) (reportM m)"
  unfolding reportM_def by (intro preserves_intros safe_SendErrorLB)

lemma safe_gatherM: "(\<And>x. preserves (safe lb0 s0) (f x)) \<Longrightarrow> preserves (safe lb0 s0) (gatherM xs f)"
  by (induction xs) (auto intro!: preserves_intros)

lemma safe_eventLB: "preserves (safe lb0 s0) (eventLB ty reason msg)"
  unfolding eventLB_def by (intro safe_getLB safe_record) simp

text \<open>The object in memory after a patch is the server's answer.\<close>

lemma safe_answer:
  assumes "\<And>s r w'. safe lb0 s0 s \<Longrightarrow> f (world s) = (r, w') \<Longrightarrow>
      (\<forall>lb'. r = Ok lb' \<longrightarrow> same_intent lb0 lb') \<and> (\<forall>x. stored w' (key_of lb0) = Some x \<longrightarrow> same_intent lb0 x)"
    and "\<not> forbidden lb0 c"
  shows "preserves (safe lb0 s0) (bindM (ext c f) putLB)"
  unfolding preserves_def
proof (intro allI impI)
  fix s assume s: "safe lb0 s0 s"
  obtain r w' where f: "f (world s) = (r, w')" by (cases "f (world s)")
  from assms(1) [OF s f] s assms(2)
  show "runs (bindM (ext c f) putLB) s (\<lambda>_. safe lb0 s0)"
    by (cases r) (auto simp: runs_simps f safe_def extends_def)
qed

lemma safe_patchStatus: "preserves (safe lb0 s0) (patchStatus (rc_Client rc) p)"
  unfolding patchStatus_def
proof (rule safe_getLB)
  fix lb assume "same_intent lb0 lb"
  then have key: "key_of lb = key_of lb0" by (simp add: same_intent_def)
  show "preserves (safe lb0 s0) (bindM (ext (CPatchLBStatus (key_of lb) p) (k_PatchLBStatus (rc_Client rc) (key_of lb) p)) putLB)"
    unfolding key
    by (rule safe_answer) (auto simp: safe_def dest!: patch_status, (blast intro: same_intent_trans)+)
qed

lemma safe_patchMeta:
  "(\<forall>a v. p = PatchAnnotation a v \<longrightarrow> a = RevisionAnnotation) \<Longrightarrow> preserves (safe lb0 s0) (patchMeta (rc_Client rc) p)"
  unfolding patchMeta_def
proof (rule safe_getLB)
  fix lb assume p: "\<forall>a v. p = PatchAnnotation a v \<longrightarrow> a = RevisionAnnotation" and "same_intent lb0 lb"
  then have key: "key_of lb = key_of lb0" by (simp add: same_intent_def)
  show "preserves (safe lb0 s0) (bindM (ext (CPatchLBMeta (key_of lb) p) (k_PatchLBMeta (rc_Client rc) (key_of lb) p)) putLB)"
    unfolding key
    by (rule safe_answer) (auto simp: safe_def dest!: patch_meta [OF _ p], (blast intro: same_intent_trans)+)
qed

lemma safe_updateLB: "preserves (safe lb0 s0) (updateLB (rc_Client rc))"
  unfolding updateLB_def
proof (rule safe_getLB)
  fix lb assume lb: "same_intent lb0 lb"
  then have key: "key_of lb = key_of lb0" by (simp add: same_intent_def)
  show "preserves (safe lb0 s0) (bindM (ext (CUpdateLB lb) (k_UpdateLB (rc_Client rc) lb)) putLB)"
    by (rule safe_answer) (auto simp: safe_def key intro: same_intent_trans [OF lb] dest!: update_lb)
qed

lemma safe_PatchLBStatus: "preserves (safe lb0 s0) (PatchLBStatus (rc_Client rc) st)"
  unfolding PatchLBStatus_def by (rule safe_patchStatus)

lemma safe_RemoveFromLBStatus: "preserves (safe lb0 s0) (RemoveFromLBStatus (rc_Client rc) key)"
  unfolding RemoveFromLBStatus_def by (rule safe_patchStatus)

lemmas safe_intros = safe_getLB safe_now safe_liftR safe_flowM safe_SendErrorLB safe_reportM safe_gatherM
  safe_eventLB safe_patchStatus safe_updateLB safe_PatchLBStatus safe_RemoveFromLBStatus preserves_intros


section \<open>The OpenStack helpers\<close>

lemmas helper_defs = FipList_def GetFIPByName_def GetFIPByIP_def GetFIPByID_def PortList_def GetPortByName_def
  GetPortByID_def CreatePort_def GetAllPorts_def PortUpdate_def BindSecGroupToPortIfNeeded_def
  RemoveSecGroupFromPortIfNeeded_eq GetServerGroupByName_def CreateServerGroup_def GetServerGroupByID_def
  DeleteServerGroup_def CreateSecGroup_def GroupList_def GetSecGroupByName_def GetSecGroupByID_def
  DeleteSecGroupRule_def CreateSecGroupRule_def DeleteUnusedSecGroupRulesFromSecGroup_def
  CreateNonExistingSecGroupRules_def

lemma safe_helpers:
  assumes "cloud_stays stored os"
  shows "preserves (safe lb0 s0) (FipList os fo)" "preserves (safe lb0 s0) (GetFIPByName os n)"
    "preserves (safe lb0 s0) (GetFIPByIP os n)" "preserves (safe lb0 s0) (GetFIPByID os n)"
    "preserves (safe lb0 s0) (PortList os n)" "preserves (safe lb0 s0) (GetPortByName os n)"
    "preserves (safe lb0 s0) (GetPortByID os n)" "preserves (safe lb0 s0) (CreatePort os n a b)"
    "preserves (safe lb0 s0) (GetAllPorts os)" "preserves (safe lb0 s0) (PortUpdate os n po)"
    "preserves (safe lb0 s0) (BindSecGroupToPortIfNeeded os g p)" "preserves (safe lb0 s0) (RemoveSecGroupFromPortIfNeeded os p n)"
    "preserves (safe lb0 s0) (GetServerGroupByName os n)" "preserves (safe lb0 s0) (CreateServerGroup os n a)"
    "preserves (safe lb0 s0) (GetServerGroupByID os n)" "preserves (safe lb0 s0) (DeleteServerGroup os n)"
    "preserves (safe lb0 s0) (CreateSecGroup os n)" "preserves (safe lb0 s0) (GroupList os n)"
    "preserves (safe lb0 s0) (GetSecGroupByName os n)" "preserves (safe lb0 s0) (GetSecGroupByID os n)"
    "preserves (safe lb0 s0) (DeleteUnusedSecGroupRulesFromSecGroup os sg ds)"
    "preserves (safe lb0 s0) (CreateNonExistingSecGroupRules os n sg ds)"
    "preserves (safe lb0 s0) (ext CFipClient (os_FipClient os))" "preserves (safe lb0 s0) (ext CPortClient (os_PortClient os))"
    "preserves (safe lb0 s0) (ext CGroupClient (os_GroupClient os))" "preserves (safe lb0 s0) (ext CRuleClient (os_RuleClient os))"
    "preserves (safe lb0 s0) (ext CServerGroupClient (os_ServerGroupClient os))"
  using assms unfolding helper_defs Let_def cloud_stays_def
  by (intro preserves_intros safe_ext; simp)+

lemma safe_deletions:
  assumes "cloud_stays stored os"
  shows "deletes FIP lb0 \<Longrightarrow> preserves (safe lb0 s0) (DeleteFIP os n)"
    "deletes PORT lb0 \<Longrightarrow> preserves (safe lb0 s0) (DeletePort os n)"
    "deletes SECGROUP lb0 \<Longrightarrow> preserves (safe lb0 s0) (DeleteSecGroup os n)"
    "\<not> opt_InternalLB (spec_Options (lb_Spec lb0)) \<Longrightarrow> spec_ExistingFloatingIP (lb_Spec lb0) = None \<Longrightarrow>
       preserves (safe lb0 s0) (CreateFIP os lb)"
    "\<not> opt_InternalLB (spec_Options (lb_Spec lb0)) \<Longrightarrow> preserves (safe lb0 s0) (FipUpdate os n fu)"
  using assms unfolding DeleteFIP_def DeletePort_def DeleteSecGroup_def CreateFIP_def FipUpdate_def Let_def cloud_stays_def
  by (intro preserves_intros safe_ext; simp)+

section \<open>The deletions\<close>

lemma same_intent_keeps:
  "same_intent lb0 lb \<Longrightarrow>
     keep_annotated lb LoadBalancerKeepFloatingIP = keep_annotated lb0 LoadBalancerKeepFloatingIP \<and>
     keep_annotated lb LoadBalancerKeepPort = keep_annotated lb0 LoadBalancerKeepPort \<and>
     keep_annotated lb LoadBalancerKeepSecurityGroup = keep_annotated lb0 LoadBalancerKeepSecurityGroup \<and>
     spec_ExistingFloatingIP (lb_Spec lb) = spec_ExistingFloatingIP (lb_Spec lb0)"
  by (simp add: same_intent_keep, simp add: same_intent_def)

lemma safe_deleteFips:
  assumes "cloud_stays stored os"
  shows "preserves (safe lb0 s0) (deleteFips (rc_Client rc) os)"
proof -
  have found: "preserves (safe lb0 s0) (deleteFipByID (rc_Client rc) os)"
      "preserves (safe lb0 s0) (deleteFipsByName (rc_Client rc) os b)" if "deletes FIP lb0" for b
    unfolding deleteFipByID_def deleteFipsByName_def
    by (intro safe_intros safe_helpers [OF assms] safe_deletions [OF assms] that)+
  show ?thesis
    unfolding deleteFips_def releaseFip_def
    by (intro safe_intros safe_helpers [OF assms] found) (auto dest!: same_intent_keeps)
qed

lemma safe_deletePorts:
  assumes "cloud_stays stored os"
  shows "preserves (safe lb0 s0) (deletePorts (rc_Client rc) os)"
proof -
  have found: "preserves (safe lb0 s0) (deletePortByID (rc_Client rc) os)"
      "preserves (safe lb0 s0) (deletePortsByName (rc_Client rc) os b)" if "deletes PORT lb0" for b
    unfolding deletePortByID_def deletePortsByName_def
    by (intro safe_intros safe_helpers [OF assms] safe_deletions [OF assms] that)+
  show ?thesis
    unfolding deletePorts_def
    by (intro safe_intros safe_helpers [OF assms] found) (auto dest!: same_intent_keeps)
qed

lemma safe_deleteSecGroups:
  assumes "cloud_stays stored os"
  shows "preserves (safe lb0 s0) (deleteSecGroups (rc_Client rc) os)"
proof -
  have found: "preserves (safe lb0 s0) (deleteSecGroupByID (rc_Client rc) os)"
      "preserves (safe lb0 s0) (deleteSecGroupsByName (rc_Client rc) os b)" if "deletes SECGROUP lb0" for b
    unfolding deleteSecGroupByID_def deleteSecGroupsByName_def
    by (intro safe_intros safe_helpers [OF assms] safe_deletions [OF assms] that)+
  show ?thesis
    unfolding deleteSecGroups_def findAndDeleteSecGroupUsages_def
    by (intro safe_intros safe_helpers [OF assms] found) (auto dest!: same_intent_keeps)
qed

lemma safe_deleteServerGroups:
  assumes "cloud_stays stored os"
  shows "preserves (safe lb0 s0) (deleteServerGroups (rc_Client rc) os)"
  unfolding deleteServerGroups_def deleteServerGroupByID_def deleteServerGroupsByName_def
  by (intro safe_intros safe_helpers [OF assms])

lemmas safe_parts = safe_deleteFips safe_deletePorts safe_deleteSecGroups safe_deleteServerGroups

lemma safe_Finalizers:
  "preserves (safe lb0 s0) (AddFinalizerIfNeeded (rc_Client rc) f)"
  "preserves (safe lb0 s0) (RemoveFinalizerIfNeeded (rc_Client rc) f)"
  unfolding AddFinalizerIfNeeded_def RemoveFinalizerIfNeeded_def Let_def
  by (intro safe_intros safe_patchMeta safe_putLB; simp add: same_intent_def key_of_def)+

lemma safe_deletionRoutine:
  assumes "cloud_stays stored os"
  shows "preserves (safe lb0 s0) (deletionRoutine (rc_Client rc) os)"
  unfolding deletionRoutine_def GetLoadBalancerSetsForLoadBalancer_def deleteSets_def deleteResources_def Let_def
  by (intro safe_intros safe_parts [OF assms] safe_Finalizers safe_record safe_ext api_stays) simp_all

section \<open>The reconcile\<close>

lemma safe_migrateAPI: "preserves (safe lb0 s0) (migrateAPI (rc_Client rc))"
  unfolding migrateAPI_def migrateSecurityGroupID_def migrateSecurityGroupName_def migrateField_def
  by (intro safe_intros safe_putLB; simp add: same_intent_def key_of_def set_flavor_def set_image_def Let_def)

lemma safe_reconcileFIP:
  assumes "cloud_stays stored os"
  shows "preserves (safe lb0 s0) (reconcileFIP (rc_Client rc) req os)"
  unfolding reconcileFIP_def assignOrCreateFIP_def fetchFIP_def
  by (intro safe_intros safe_helpers [OF assms] safe_deletions [OF assms] safe_deleteFips [OF assms])
    (auto simp: same_intent_def)

lemma safe_reconcilePort:
  assumes "cloud_stays stored os"
  shows "preserves (safe lb0 s0) (reconcilePort (rc_Client rc) req os)"
  unfolding reconcilePort_def createPortFor_def fetchPort_def bindSecGroups_def publishPortIP_def Let_def
  by (intro safe_intros safe_helpers [OF assms])

lemma safe_reconcileSecGroup:
  assumes "cloud_stays stored os"
  shows "preserves (safe lb0 s0) (reconcileSecGroup (rc_Client rc) req os)"
proof -
  have rules: "preserves (safe lb0 s0) (reconcileSecGroupRules req os g)" for g
    unfolding reconcileSecGroupRules_def GetDesiredSecGroupRulesForLoadBalancer_def getSecGroupRulesForPorts_def
      getSecGroupRulesForDebugSettings_def Let_def
    by (intro safe_intros safe_helpers [OF assms])
  have fetched: "preserves (safe lb0 s0) (case f of Inl early \<Rightarrow> ret early | Inr None \<Rightarrow> fail ErrSecGroupNil
      | Inr (Some g) \<Rightarrow> thenM (reconcileSecGroupRules req os g) (ret b))" for f b
    by (auto intro!: safe_intros rules split: sum.split)
  show ?thesis
    unfolding reconcileSecGroup_def createSecGroupFor_def
    by (intro safe_intros safe_helpers [OF assms] fetched)
qed

lemma safe_reconcileServerGroup:
  assumes "cloud_stays stored os"
  shows "preserves (safe lb0 s0) (reconcileServerGroup (rc_Client rc) req os)"
  unfolding reconcileServerGroup_def createServerGroupFor_def checkServerGroup_def
  by (intro safe_intros safe_helpers [OF assms])

lemma safe_reconcileFIPAssociate:
  assumes "cloud_stays stored os"
  shows "preserves (safe lb0 s0) (reconcileFIPAssociate (rc_Client rc) req os)"
  unfolding reconcileFIPAssociate_def BindFIPToPort_def
  by (intro safe_intros safe_helpers [OF assms] safe_deletions [OF assms]) (auto simp: same_intent_def)

lemma safe_reconcileOpenStack:
  assumes "cloud_stays stored os"
  shows "preserves (safe lb0 s0) (reconcileOpenStackIfNeeded rc req os)"
  unfolding reconcileOpenStackIfNeeded_def updateOpenstackReconcileHash_def Let_def
  by (intro safe_intros safe_reconcileFIP [OF assms] safe_reconcilePort [OF assms] safe_reconcileSecGroup [OF assms]
      safe_reconcileServerGroup [OF assms] safe_reconcileFIPAssociate [OF assms] safe_deleteServerGroups [OF assms])

lemma safe_sets: "preserves (safe lb0 s0) (reconcileLoadBalancerSet rc)"
  unfolding reconcileLoadBalancerSet_def createSetFor_def rolloutSet_def patchReplicaStatus_def
    PatchLoadBalancerRevision_def NewLoadBalancerSetForLoadBalancer_def PatchLoadBalancerSetReplicas_def
    ScaleDownOldLoadBalancerSets_def Let_def
  by (intro safe_intros safe_patchMeta safe_putLB safe_ext api_stays) (auto simp: same_intent_def key_of_def)

lemma safe_reconcileLB: "preserves (safe lb0 s0) (reconcileLB rc req)"
proof -
  have client: "runs (GetOpenStackClientForInfrastructure (rc_Client rc) (rc_getOsClientForIni rc) infra) s
      (\<lambda>r t. safe lb0 s0 t \<and> (\<forall>os. r = Ok os \<longrightarrow> cloud_stays stored os))" if "safe lb0 s0 s" for infra s
  proof (rule runs_conj)
    show "runs (GetOpenStackClientForInfrastructure (rc_Client rc) (rc_getOsClientForIni rc) infra) s (\<lambda>_ t. safe lb0 s0 t)"
      unfolding GetOpenStackClientForInfrastructure_def Let_def
      by (rule preservesD [where I = "safe lb0 s0", OF _ that]) (intro safe_intros safe_ext api_stays login_stays; simp)
    show "runs (GetOpenStackClientForInfrastructure (rc_Client rc) (rc_getOsClientForIni rc) infra) s (\<lambda>r t. \<forall>os. r = Ok os \<longrightarrow> cloud_stays stored os)"
      unfolding GetOpenStackClientForInfrastructure_def Let_def
      by (auto simp: runs_simps caseR_def split: prod.split result.split option.split dest: os_stays)
  qed
  have rest: "preserves (safe lb0 s0) (n os)"
    if "\<And>os. cloud_stays stored os \<Longrightarrow> preserves (safe lb0 s0) (n os)" "cloud_stays stored os" for n os
    using that by simp
  have bind_client: "preserves (safe lb0 s0) (bindM (wrapM p (GetOpenStackClientForInfrastructure (rc_Client rc) (rc_getOsClientForIni rc) infra)) n)"
    if "\<And>os. cloud_stays stored os \<Longrightarrow> preserves (safe lb0 s0) (n os)" for p infra and n :: "_ \<Rightarrow> ('w, ctrl_result) lbop"
    unfolding preserves_def runs_bindM runs_wrapM
  proof (intro allI impI)
    fix s assume "safe lb0 s0 s"
    from client [OF this, of infra]
    show "runs (GetOpenStackClientForInfrastructure (rc_Client rc) (rc_getOsClientForIni rc) infra) s
        (caseR (\<lambda>x t. caseR (\<lambda>x t. runs (n x) t (\<lambda>_. safe lb0 s0)) (\<lambda>e. safe lb0 s0) (\<lambda>c. safe lb0 s0) (Ok x) t)
          (\<lambda>e t. caseR (\<lambda>x t. runs (n x) t (\<lambda>_. safe lb0 s0)) (\<lambda>e. safe lb0 s0) (\<lambda>c. safe lb0 s0) (Err (Wrapped p e)) t)
          (\<lambda>c t. caseR (\<lambda>x t. runs (n x) t (\<lambda>_. safe lb0 s0)) (\<lambda>e. safe lb0 s0) (\<lambda>c. safe lb0 s0) (Crash c) t))"
      by (rule runs_weaken) (auto simp: caseR_def that preservesD split: result.split)
  qed
  show ?thesis
    unfolding reconcileLB_def Let_def
    by (intro safe_getLB bind_client safe_record preserves_intros safe_migrateAPI safe_deletionRoutine safe_Finalizers
        safe_reconcileOpenStack safe_sets) simp_all
qed

lemma reconcile_safe:
  assumes "stored (world s) (key_of lb0) = Some lb0"
  shows "runs (Reconcile rc (key_of lb0)) s (\<lambda>_ t. extends (\<lambda>c. \<not> forbidden lb0 (fst c)) s t)"
proof -
  obtain r w' where get: "k_GetLB (rc_Client rc) (key_of lb0) (world s) = (r, w')"
    by (cases "k_GetLB (rc_Client rc) (key_of lb0) (world s)")
  then have same: "stored w' = stored (world s)"
    using api_stays(2) by (auto simp: stays_def)
  show ?thesis
  proof (cases r)
    case (Ok lb)
    then have lb: "lb = lb0" using get_lb get assms by force
    let ?s1 = "s\<lparr>world := w', trace := trace s @ [(CGetLB (key_of lb0), True)], cur := lb0\<rparr>"
    have "safe lb0 s ?s1"
      using assms same by (auto simp: safe_def extends_def)
    from preservesD [OF safe_reconcileLB this]
    have "runs (reconcileLB rc req) ?s1 (\<lambda>_ t. extends (\<lambda>c. \<not> forbidden lb0 (fst c)) s t)" for req
      by (rule runs_weaken) (simp add: safe_def)
    then show ?thesis
      by (auto simp: Reconcile_def runs_simps get Ok lb extends_def)
  qed (auto simp: Reconcile_def runs_simps get extends_def Let_def)
qed

end

section \<open>The property\<close>

text \<open>C2. A reconcile respects what the LoadBalancer says about the user's resources: whatever the
  OpenStack API answers, in the rollout as well as in the deletion, \<open>Reconcile\<close> never deletes a
  floating IP, port or security group that its keep annotation protects, never deletes a floating
  IP when the user brought one or creates another, and for an internal LoadBalancer neither creates
  nor updates a floating IP.\<close>

theorem user_resources_respected:
  assumes "lb_cloud rc stored" and "stored (world s) (key_of lb) = Some lb"
    and "Reconcile rc (key_of lb) s = (r, t)"
  shows "\<exists>cs. trace t = trace s @ cs \<and> (\<forall>(c, ok) \<in> set cs. \<not> forbidden lb c)"
  using runsD [OF lb_cloud.reconcile_safe [OF assms(1,2)] assms(3)] by (fastforce simp: extends_def)

section \<open>The in-memory systems\<close>

definition mem_reconciler :: "(int \<Rightarrow> string) \<Rightarrow> digest \<Rightarrow> mem reconciler" where
  "mem_reconciler gen dg = \<lparr>rc_Client = mem_kube, rc_getOsClientForIni = (\<lambda>ini p w. (Ok (fake_os gen), w)),
     rc_digest = dg, rc_skipReconciles = False, rc_skipAllButNN = None\<rparr>"

lemma stays_mem: "(\<And>w. mem_lbs (snd (f w)) = mem_lbs w) \<Longrightarrow> stays mem_stored f"
  by (auto simp: stays_def mem_stored_def fun_eq_iff) (metis snd_conv)

lemma fake_os_stays: "cloud_stays mem_stored (fake_os gen)"
  unfolding cloud_stays_def
  by (intro conjI allI; rule stays_mem)
    (simp_all add: fake_defs fake_fip_Create_def fake_fip_Update_def fake_port_Create_def fake_group_Create_def
      fake_rule_Create_def fake_rule_Delete_def fake_servergroup_Create_def getID_def nil_panic_def Let_def
      split: option.split)

lemma same_intent_mem_patch:
  assumes "map_of (mem_lbs w) n = Some lb" and "\<And>lb. same_intent lb (f lb)"
  shows "\<exists>lb'. map_of (mem_lbs w) n = Some lb' \<and> same_intent lb' (f lb)"
  using assms by blast

lemma patch_lb_meta_intent:
  "(\<forall>a v. p = PatchAnnotation a v \<longrightarrow> a = RevisionAnnotation) \<Longrightarrow> same_intent lb (patch_lb_meta p lb)"
  by (cases p) (simp_all add: same_intent_def key_of_def)

interpretation mem: lb_cloud "mem_reconciler gen dg" mem_stored
proof
  fix ini p w os w'
  assume "rc_getOsClientForIni (mem_reconciler gen dg) ini p w = (Ok os, w')"
  then show "cloud_stays mem_stored os"
    using fake_os_stays [of gen] by (auto simp: mem_reconciler_def)
next
  show "stays mem_stored (rc_getOsClientForIni (mem_reconciler gen dg) ini p)"
      "stays mem_stored (k_GetSecret (rc_Client (mem_reconciler gen dg)) nn)"
      "stays mem_stored (k_GetLB (rc_Client (mem_reconciler gen dg)) nn)"
      "stays mem_stored (k_ListSets (rc_Client (mem_reconciler gen dg)) ns q)"
      "stays mem_stored (k_CreateSet (rc_Client (mem_reconciler gen dg)) lbs)"
      "stays mem_stored (k_DeleteSet (rc_Client (mem_reconciler gen dg)) nn)"
      "stays mem_stored (k_PatchSetReplicas (rc_Client (mem_reconciler gen dg)) nn n)" for ini p nn ns q lbs n
    by (rule stays_mem, simp add: mem_reconciler_def mem_kube_def mem_PatchSet_def split: option.split)+
next
  fix w x w' assume "k_now (rc_Client (mem_reconciler gen dg)) w = (x, w')"
  then show "mem_stored w' = mem_stored w"
    by (auto simp: mem_reconciler_def mem_kube_def mem_stored_def fun_eq_iff)
next
  fix nn w lb w' assume "k_GetLB (rc_Client (mem_reconciler gen dg)) nn w = (Ok lb, w')"
  then show "mem_stored w nn = Some lb"
    by (auto simp: mem_reconciler_def mem_kube_def mem_stored_def api_not_found_def split: option.splits)
next
  fix lb w r w' assume "k_UpdateLB (rc_Client (mem_reconciler gen dg)) lb w = (r, w')"
  then show "(\<forall>lb'. r = Ok lb' \<longrightarrow> same_intent lb lb') \<and>
      (\<forall>x. mem_stored w' (key_of lb) = Some x \<longrightarrow> same_intent lb x \<or> mem_stored w (key_of lb) = Some x)"
    by (auto simp: mem_reconciler_def mem_kube_def mem_PatchLB_def mem_stored_def api_not_found_def same_intent_def
        key_of_def update_conv' split: option.splits)
next
  fix nn p w r w' assume "k_PatchLBStatus (rc_Client (mem_reconciler gen dg)) nn p w = (r, w')"
  then show "(\<forall>lb'. r = Ok lb' \<longrightarrow> (\<exists>lb. mem_stored w nn = Some lb \<and> same_intent lb lb')) \<and>
      (\<forall>x. mem_stored w' nn = Some x \<longrightarrow> (\<exists>lb. mem_stored w nn = Some lb \<and> same_intent lb x))"
    by (auto simp: mem_reconciler_def mem_kube_def mem_PatchLB_def mem_stored_def api_not_found_def same_intent_def
        key_of_def update_conv' split: option.splits)
next
  fix nn p w r w'
  assume r: "k_PatchLBMeta (rc_Client (mem_reconciler gen dg)) nn p w = (r, w')"
    and p: "\<forall>a v. p = PatchAnnotation a v \<longrightarrow> a = RevisionAnnotation"
  from r patch_lb_meta_intent [OF p] show "(\<forall>lb'. r = Ok lb' \<longrightarrow> (\<exists>lb. mem_stored w nn = Some lb \<and> same_intent lb lb')) \<and>
      (\<forall>x. mem_stored w' nn = Some x \<longrightarrow> (\<exists>lb. mem_stored w nn = Some lb \<and> same_intent lb x))"
    by (auto simp: mem_reconciler_def mem_kube_def mem_PatchLB_def mem_collect_def mem_stored_def api_not_found_def
        update_conv' delete_conv' split: option.splits if_splits)
qed

text \<open>The deletion of a LoadBalancer whose floating IP is to be kept.\<close>

definition example_kept :: load_balancer where
  "example_kept = example_doomed\<lparr>meta_Annotations := [LoadBalancerKeepFloatingIP \<mapsto> ''true'']\<rparr>"

lemma user_resources_respected_witness:
  "\<forall>ok. (CFipDelete ''0'', ok) \<notin> set (trace (snd (Reconcile (mem_reconciler Itoa \<lparr>dg_json = \<lambda>_. Ok [], dg_sha256 = \<lambda>_. []\<rparr>)
     (key_of example_kept) \<lparr>world = example_mem [(''0'', example_fip)] example_kept, trace = [], cur = example_kept\<rparr>)))"
proof -
  let ?dg = "\<lparr>dg_json = \<lambda>_. Ok [], dg_sha256 = \<lambda>_. []\<rparr>"
  let ?s = "\<lparr>world = example_mem [(''0'', example_fip)] example_kept, trace = [], cur = example_kept\<rparr>"
  have st: "mem_stored (world ?s) (key_of example_kept) = Some example_kept"
    by (simp add: mem_stored_def example_mem_def)
  have "forbidden example_kept (CFipDelete ''0'')"
    by (simp add: example_kept_def keep_annotated_def ParseBool_def)
  then show ?thesis
    using user_resources_respected [OF mem.lb_cloud_axioms st surjective_pairing, of Itoa ?dg] by auto
qed

end
