(* ===== verification/Rollout.thy ===== *)
theory Rollout
  imports LBController FakeOpenstack
begin

text \<open>
  The rollout of LoadBalancerSets without downtime: an old set is scaled down only when the set for
  the current specification is ready and has had a keepalived master, and once it is, every old set
  is scaled down. Also what \<open>migrateAPI\<close> leaves behind, and when the OpenStack reconcile runs.
\<close>

section \<open>Scaling down waits for the current set\<close>

text \<open>\<open>seen k currentSet d c\<close>: \<open>c\<close> is the current set as the reconcile last saw it, the answer to
  setting its replicas if that was needed.\<close>

definition seen :: "'w kube \<Rightarrow> load_balancer_set \<Rightarrow> int \<Rightarrow> load_balancer_set \<Rightarrow> bool" where
  "seen k currentSet d c =
     (if sspec_Replicas (set_Spec currentSet) = d then c = currentSet
      else \<exists>w w'. k_PatchSetReplicas k (key_of currentSet) d w = (Ok c, w'))"

definition all_ready :: "int \<Rightarrow> load_balancer_set \<Rightarrow> bool" where
  "all_ready d c = (Deref (set_Replicas (set_Status c)) 0 = d \<and> Deref (set_ReadyReplicas (set_Status c)) 0 = d)"

text \<open>The calls the end of a rollout may make, with \<open>d\<close> replicas desired.\<close>

definition rollout_call :: "'w kube \<Rightarrow> load_balancer_set list \<Rightarrow> load_balancer_set \<Rightarrow> int \<Rightarrow> call \<Rightarrow> bool" where
  "rollout_call k setList currentSet d c = (
     (c = CPatchSetReplicas (key_of currentSet) d \<and> sspec_Replicas (set_Spec currentSet) \<noteq> d) \<or>
     (\<exists>cur' w lbs. seen k currentSet d cur' \<and> all_ready d cur' \<and>
        fst (LBSetHasKeepalivedMaster (fst (k_now k w)) cur') \<and>
        lbs \<in> set setList \<and> meta_Name lbs \<noteq> meta_Name cur' \<and> 0 < sspec_Replicas (set_Spec lbs) \<and>
        c = CPatchSetReplicas (key_of lbs) 0))"

lemma emits_ScaleDown:
  assumes "\<And>lbs b. lbs \<in> set setList \<Longrightarrow> meta_Name lbs \<noteq> n \<Longrightarrow> 0 < sspec_Replicas (set_Spec lbs) \<Longrightarrow>
      P (CPatchSetReplicas (key_of lbs) 0, b)"
  shows "emits P (ScaleDownOldLoadBalancerSets k setList n)"
  unfolding ScaleDownOldLoadBalancerSets_def PatchLoadBalancerSetReplicas_def
  by (intro emits_intros) (auto intro: assms)

text \<open>The part of \<open>rolloutSet\<close> after the status patch.\<close>

definition finishRollout :: "'w kube \<Rightarrow> load_balancer_set list \<Rightarrow> load_balancer_set \<Rightarrow> int \<Rightarrow> ('w, ctrl_result) lbop" where
  "finishRollout k setList currentSet d =
     bindM (if sspec_Replicas (set_Spec currentSet) \<noteq> d then PatchLoadBalancerSetReplicas k currentSet d else ret currentSet)
       (\<lambda>c. if Deref (set_Replicas (set_Status c)) 0 \<noteq> d \<or> Deref (set_ReadyReplicas (set_Status c)) 0 \<noteq> d then ret emptyResult
         else nowM k (\<lambda>now.
           let (ok, requeueAfter) = LBSetHasKeepalivedMaster now c in
           if \<not> ok then ret \<lparr>RequeueAfter = (if requeueAfter > 5 * Minute then 5 * Minute else requeueAfter)\<rparr>
           else catchM (ScaleDownOldLoadBalancerSets k setList (meta_Name c)) (\<lambda>_. ret emptyResult) (\<lambda>_. ret emptyResult)))"

lemma rolloutSet_eq:
  "rolloutSet rc setList currentSet =
     thenM (patchReplicaStatus (rc_Client rc) setList)
       (getLB (\<lambda>lb. finishRollout (rc_Client rc) setList currentSet (spec_Replicas (lb_Spec lb))))"
  by (simp add: rolloutSet_def finishRollout_def Let_def)

lemma emits_finishRollout:
  "emits (\<lambda>c. rollout_call k setList currentSet d (fst c)) (finishRollout k setList currentSet d)"
  unfolding finishRollout_def
proof (rule emits_bindM_returns [where Q = "seen k currentSet d"])
  show "emits (\<lambda>c. rollout_call k setList currentSet d (fst c))
      (if sspec_Replicas (set_Spec currentSet) \<noteq> d then PatchLoadBalancerSetReplicas k currentSet d else ret currentSet)"
    unfolding PatchLoadBalancerSetReplicas_def by (intro emits_intros) (simp add: rollout_call_def)
  show "returns (seen k currentSet d)
      (if sspec_Replicas (set_Spec currentSet) \<noteq> d then PatchLoadBalancerSetReplicas k currentSet d else ret currentSet)"
    by (auto simp: PatchLoadBalancerSetReplicas_def seen_def returns_def runs_simps split: prod.split)
  fix c assume c: "seen k currentSet d c"
  show "emits (\<lambda>c. rollout_call k setList currentSet d (fst c))
      (if Deref (set_Replicas (set_Status c)) 0 \<noteq> d \<or> Deref (set_ReadyReplicas (set_Status c)) 0 \<noteq> d then ret emptyResult
       else nowM k (\<lambda>now.
         let (ok, requeueAfter) = LBSetHasKeepalivedMaster now c in
         if \<not> ok then ret \<lparr>RequeueAfter = (if requeueAfter > 5 * Minute then 5 * Minute else requeueAfter)\<rparr>
         else catchM (ScaleDownOldLoadBalancerSets k setList (meta_Name c)) (\<lambda>_. ret emptyResult) (\<lambda>_. ret emptyResult)))"
  proof (intro emits_if emits_ret emits_now)
    fix w assume "\<not> (Deref (set_Replicas (set_Status c)) 0 \<noteq> d \<or> Deref (set_ReadyReplicas (set_Status c)) 0 \<noteq> d)"
    with c have "emits (\<lambda>c. rollout_call k setList currentSet d (fst c)) (ScaleDownOldLoadBalancerSets k setList (meta_Name c))"
      if "fst (LBSetHasKeepalivedMaster (fst (k_now k w)) c)"
      using that by (intro emits_ScaleDown) (auto simp: rollout_call_def all_ready_def)
    then show "emits (\<lambda>c. rollout_call k setList currentSet d (fst c))
       (let (ok, requeueAfter) = LBSetHasKeepalivedMaster (fst (k_now k w)) c in
        if \<not> ok then ret \<lparr>RequeueAfter = (if requeueAfter > 5 * Minute then 5 * Minute else requeueAfter)\<rparr>
        else catchM (ScaleDownOldLoadBalancerSets k setList (meta_Name c)) (\<lambda>_. ret emptyResult) (\<lambda>_. ret emptyResult))"
      by (auto intro!: emits_intros split: prod.split)
  qed
qed

lemma emits_patchReplicaStatus:
  "(\<And>p b. P (CPatchLBStatus p b, True)) \<Longrightarrow> (\<And>p b. P (CPatchLBStatus p b, False)) \<Longrightarrow> emits P (patchReplicaStatus k setList)"
  unfolding patchReplicaStatus_def patchStatus_def Let_def
  by (auto intro!: emits_intros split: prod.split) (metis (full_types))

text \<open>The object in memory does not change after the status patch.\<close>

lemma finishRollout_cur: "preserves (\<lambda>s. cur s = lb) (finishRollout k setList currentSet d)"
  unfolding finishRollout_def PatchLoadBalancerSetReplicas_def ScaleDownOldLoadBalancerSets_def nowM_def Let_def
  by (intro preserves_intros) (auto simp: preserves_def runs_simps split: prod.split)

lemma runs_rolloutSet:
  "runs (rolloutSet rc setList currentSet) s (\<lambda>r t. extends (\<lambda>c. (\<exists>nn p. fst c = CPatchLBStatus nn p) \<or>
     rollout_call (rc_Client rc) setList currentSet (spec_Replicas (lb_Spec (cur t))) (fst c)) s t)"
proof -
  let ?P = "\<lambda>(lb :: load_balancer) c. (\<exists>nn p. fst c = CPatchLBStatus nn p) \<or>
     rollout_call (rc_Client rc) setList currentSet (spec_Replicas (lb_Spec lb)) (fst c)"
  have status: "runs (patchReplicaStatus (rc_Client rc) setList) s (\<lambda>_ t. extends (?P lb) s t)" for lb :: load_balancer
    by (intro emits_runs emits_patchReplicaStatus) auto
  have finish: "runs (finishRollout (rc_Client rc) setList currentSet (spec_Replicas (lb_Spec (cur t)))) t
      (\<lambda>r u. extends (?P (cur u)) s u)" if "\<And>lb. extends (?P lb) s t" for t
  proof -
    let ?m = "finishRollout (rc_Client rc) setList currentSet (spec_Replicas (lb_Spec (cur t)))"
    have "runs ?m t (\<lambda>_ u. extends (?P (cur t)) t u)"
      by (rule emits_runs, rule emits_weaken [OF emits_finishRollout]) simp
    moreover have "runs ?m t (\<lambda>_ u. cur u = cur t)"
      by (rule preservesD [OF finishRollout_cur]) simp
    ultimately have "runs ?m t (\<lambda>_ u. extends (?P (cur t)) t u \<and> cur u = cur t)"
      by (rule runs_conj)
    then show ?thesis
      by (rule runs_weaken) (use extends_trans [OF that [of "cur t"]] in auto)
  qed
  have "runs (patchReplicaStatus (rc_Client rc) setList) s (\<lambda>_ t. \<forall>lb. extends (?P lb) s t)"
    by (intro runsI allI) (rule runsD [OF status])
  then show ?thesis
    unfolding rolloutSet_eq runs_thenM runs_getLB
    by (rule runs_weaken) (auto simp: caseR_def finish split: result.split)
qed

text \<open>C3. Old machines serve until the new ones do: a rollout changes the replicas of a set other
  than the current one only to scale an existing set with replicas down to zero, and only when the
  current set, as last answered by the API, has the desired number of replicas, all of them ready,
  and passes the keepalived check at the current time.\<close>

theorem scale_down_waits_for_current_set:
  assumes "rolloutSet rc setList currentSet s = (r, t)" and "trace t = trace s @ cs"
    and "(CPatchSetReplicas nn n, ok) \<in> set cs" and "nn \<noteq> key_of currentSet"
  shows "n = 0 \<and> (\<exists>c w. seen (rc_Client rc) currentSet (spec_Replicas (lb_Spec (cur t))) c \<and>
      all_ready (spec_Replicas (lb_Spec (cur t))) c \<and>
      fst (LBSetHasKeepalivedMaster (fst (k_now (rc_Client rc) w)) c) \<and>
      (\<exists>lbs \<in> set setList. key_of lbs = nn \<and> meta_Name lbs \<noteq> meta_Name c \<and> 0 < sspec_Replicas (set_Spec lbs)))"
proof -
  have "rollout_call (rc_Client rc) setList currentSet (spec_Replicas (lb_Spec (cur t))) (CPatchSetReplicas nn n)"
    using runsD [OF runs_rolloutSet assms(1)] assms(2,3) by (force simp: extends_def)
  then show ?thesis
    using assms(4) unfolding rollout_call_def by blast
qed

section \<open>Once it is ready, the old sets are scaled down\<close>

definition old_sets :: "load_balancer_set list \<Rightarrow> string \<Rightarrow> load_balancer_set list" where
  "old_sets setList n = filter (\<lambda>lbs. meta_Name lbs \<noteq> n \<and> 0 < sspec_Replicas (set_Spec lbs)) setList"

lemma made_calls_from: "made_calls cs s r t \<Longrightarrow> trace s' = trace s \<Longrightarrow> made_calls cs s' r t"
  by (simp add: made_calls_def)

lemma runs_ScaleDown:
  "runs (ScaleDownOldLoadBalancerSets k setList n) s
     (made_calls (map (\<lambda>lbs. CPatchSetReplicas (key_of lbs) 0) (old_sets setList n)) s)"
  unfolding ScaleDownOldLoadBalancerSets_def old_sets_def
  by (rule runs_forM_calls) (auto simp: PatchLoadBalancerSetReplicas_def runs_simps caseR_def split: prod.split result.split)

lemma runs_finishRollout_ready:
  assumes "sspec_Replicas (set_Spec c) = d" and "all_ready d c"
    and "\<And>w. fst (LBSetHasKeepalivedMaster (fst (k_now k w)) c)"
  shows "runs (finishRollout k setList c d) s (\<lambda>r t. (r = Ok emptyResult \<or> is_Crash r) \<and>
     (\<exists>r'. made_calls (map (\<lambda>lbs. CPatchSetReplicas (key_of lbs) 0) (old_sets setList (meta_Name c))) s (r' :: unit result) t))"
proof -
  obtain now w' where now: "k_now k (world s) = (now, w')" by (cases "k_now k (world s)")
  obtain after where ok: "LBSetHasKeepalivedMaster now c = (True, after)"
    using assms(3) [of "world s"] now by (cases "LBSetHasKeepalivedMaster now c") auto
  have "runs (ScaleDownOldLoadBalancerSets k setList (meta_Name c)) (s\<lparr>world := w'\<rparr>)
      (made_calls (map (\<lambda>lbs. CPatchSetReplicas (key_of lbs) 0) (old_sets setList (meta_Name c))) (s\<lparr>world := w'\<rparr>))"
    by (rule runs_ScaleDown)
  then have "runs (ScaleDownOldLoadBalancerSets k setList (meta_Name c)) (s\<lparr>world := w'\<rparr>)
      (caseR (\<lambda>_ t. \<exists>r'. made_calls (map (\<lambda>lbs. CPatchSetReplicas (key_of lbs) 0) (old_sets setList (meta_Name c))) s (r' :: unit result) t)
        (\<lambda>_ t. \<exists>r'. made_calls (map (\<lambda>lbs. CPatchSetReplicas (key_of lbs) 0) (old_sets setList (meta_Name c))) s (r' :: unit result) t)
        (\<lambda>_ t. \<exists>r'. made_calls (map (\<lambda>lbs. CPatchSetReplicas (key_of lbs) 0) (old_sets setList (meta_Name c))) s (r' :: unit result) t))"
    unfolding caseR_const by (rule runs_weaken) (rule exI, erule made_calls_from, simp)
  with assms(1,2) show ?thesis
    by (simp add: finishRollout_def runs_simps nowM_def now ok all_ready_def caseR_def)

qed

text \<open>C31. A finished rollout is completed: when the current set already has the desired replicas, is
  ready and passes the keepalived check, the reconcile patches the status and then scales down
  exactly the other sets that still have replicas, in the order of the list, stopping at the first
  patch that fails (the next reconcile repeats it, and the error is not returned); if the status
  patch fails it does nothing else.\<close>

theorem scale_down_when_ready:
  assumes "rolloutSet rc setList c s = (r, t)"
    and "sspec_Replicas (set_Spec c) = spec_Replicas (lb_Spec (cur t))" and "all_ready (spec_Replicas (lb_Spec (cur t))) c"
    and "\<And>w. fst (LBSetHasKeepalivedMaster (fst (k_now (rc_Client rc) w)) c)"
  shows "(\<exists>nn p. trace t = trace s @ [(CPatchLBStatus nn p, False)] \<and> \<not> is_Ok r) \<or>
    (\<exists>nn p u r'. trace u = trace s @ [(CPatchLBStatus nn p, True)] \<and> (r = Ok emptyResult \<or> is_Crash r) \<and>
       made_calls (map (\<lambda>lbs. CPatchSetReplicas (key_of lbs) 0) (old_sets setList (meta_Name c))) u (r' :: unit result) t)"
proof -
  obtain r1 u where status: "patchReplicaStatus (rc_Client rc) setList s = (r1, u)" by (cases "patchReplicaStatus (rc_Client rc) setList s")
  have "runs (patchReplicaStatus (rc_Client rc) setList) s (\<lambda>r u. \<exists>nn p. trace u = trace s @ [(CPatchLBStatus nn p, is_Ok r)])"
    by (auto simp: patchReplicaStatus_def patchStatus_def Let_def runs_simps caseR_def split: prod.split result.split)
  from runsD [OF this status] obtain nn p where tr: "trace u = trace s @ [(CPatchLBStatus nn p, is_Ok r1)]" by blast
  show ?thesis
  proof (cases r1)
    case (Ok x)
    let ?d = "spec_Replicas (lb_Spec (cur u))"
    have run: "finishRollout (rc_Client rc) setList c ?d u = (r, t)"
      using assms(1) status Ok by (simp add: rolloutSet_eq thenM_def bindM_def catchM_def getLB_def)
    have "cur t = cur u"
      using runsD [OF preservesD [OF finishRollout_cur] run] by simp
    with runsD [OF runs_finishRollout_ready run] assms(2-4) tr Ok show ?thesis by force
  qed (use assms(1) status tr in \<open>auto simp: rolloutSet_eq thenM_def bindM_def catchM_def fail_def\<close>)
qed

text \<open>A rollout with one old set, in the in-memory API with the clock at three minutes.\<close>

definition example_rc :: "mem reconciler" where
  "example_rc = \<lparr>rc_Client = mem_kube\<lparr>k_now := \<lambda>w. (3 * Minute, w)\<rparr>,
     rc_getOsClientForIni = (\<lambda>ini p w. (Ok (fake_os Itoa), w)),
     rc_digest = \<lparr>dg_json = \<lambda>_. Ok ''{}'', dg_sha256 = \<lambda>_. replicate 32 0\<rparr>,
     rc_skipReconciles = False, rc_skipAllButNN = None\<rparr>"

definition example_current :: load_balancer_set where
  "example_current = (example_set ''new'' ''h'' ''2'')\<lparr>set_Status := \<lparr>set_AvailableReplicas = None,
     set_Conditions = [\<lparr>cond_Type = HasKeepalivedMaster, cond_Status = ConditionTrue, cond_LastTransitionTime = 0,
       cond_Reason = [], cond_Message = []\<rparr>], set_ReadyReplicas = Some 1, set_Replicas = Some 1\<rparr>\<rparr>"

definition example_old :: load_balancer_set where
  "example_old = example_set ''old'' ''x'' ''1''"

definition example_rollout :: "(mem, call) lbst" where
  "example_rollout = \<lparr>world = \<lparr>mem_id = 1, mem_fips = [], mem_ports = [], mem_groups = [], mem_rules = [],
     mem_servers = [], mem_servergroups = [], mem_lbs = [(key_of example_lb, example_lb)],
     mem_sets = [(key_of example_current, example_current), (key_of example_old, example_old)],
     mem_machines = [], mem_secrets = [], mem_accounts = [], mem_roles = [], mem_bindings = [], mem_now = 0, mem_snapshot = initial_snapshot\<rparr>, trace = [], cur = example_lb\<rparr>"

lemmas rollout_defs = rolloutSet_eq finishRollout_def patchReplicaStatus_def patchStatus_def
  ScaleDownOldLoadBalancerSets_def PatchLoadBalancerSetReplicas_def nowM_def readW_def
  thenM_def bindM_def catchM_def ret_def fail_def ext_def getLB_def putLB_def

lemma example_rollout_run:
  "\<exists>t nn p. rolloutSet example_rc [example_current, example_old] example_current example_rollout = (Ok emptyResult, t) \<and>
     trace t = trace example_rollout @ [(CPatchLBStatus nn p, True), (CPatchSetReplicas (key_of example_old) 0, True)] \<and>
     spec_Replicas (lb_Spec (cur t)) = 1"
  by (simp add: rollout_defs example_rc_def example_rollout_def example_current_def example_old_def example_set_def
      example_lb_def zero_lb_def zero_lb_spec_def mem_kube_def mem_PatchLB_def mem_PatchSet_def key_of_def Deref_def
      LBSetHasKeepalivedMaster_def Minute_def Second_def Millisecond_def Let_def)

lemma example_current_ready:
  "all_ready 1 example_current" "sspec_Replicas (set_Spec example_current) = 1"
  "fst (LBSetHasKeepalivedMaster (fst (k_now (rc_Client example_rc) w)) example_current)"
  by (simp_all add: all_ready_def example_current_def example_set_def Deref_def example_rc_def
      LBSetHasKeepalivedMaster_def Minute_def Second_def Millisecond_def)

lemma scale_down_waits_for_current_set_witness:
  "\<exists>c. seen (rc_Client example_rc) example_current 1 c \<and> all_ready 1 c"
proof -
  obtain t nn p where run: "rolloutSet example_rc [example_current, example_old] example_current example_rollout = (Ok emptyResult, t)"
      "trace t = trace example_rollout @ [(CPatchLBStatus nn p, True), (CPatchSetReplicas (key_of example_old) 0, True)]"
      "spec_Replicas (lb_Spec (cur t)) = 1"
    using example_rollout_run by blast
  have "(CPatchSetReplicas (key_of example_old) 0, True) \<in>
      set [(CPatchLBStatus nn p, True), (CPatchSetReplicas (key_of example_old) 0, True)]" by simp
  moreover have "key_of example_old \<noteq> key_of example_current"
    by (simp add: key_of_def example_old_def example_current_def example_set_def)
  ultimately show ?thesis
    using scale_down_waits_for_current_set [OF run(1,2)] run(3) by auto
qed

lemma scale_down_when_ready_witness:
  "\<exists>t. rolloutSet example_rc [example_current, example_old] example_current example_rollout = (Ok emptyResult, t) \<and>
     (CPatchSetReplicas (key_of example_old) 0, True) \<in> set (trace t) \<and>
     (\<exists>nn p u r'. trace u = [(CPatchLBStatus nn p, True)] \<and>
        made_calls [CPatchSetReplicas (key_of example_old) 0] (u :: (mem, call) lbst) (r' :: unit result) t)"
proof -
  obtain t nn p where run: "rolloutSet example_rc [example_current, example_old] example_current example_rollout = (Ok emptyResult, t)"
      "trace t = trace example_rollout @ [(CPatchLBStatus nn p, True), (CPatchSetReplicas (key_of example_old) 0, True)]"
      "spec_Replicas (lb_Spec (cur t)) = 1"
    using example_rollout_run by blast
  have "old_sets [example_current, example_old] (meta_Name example_current) = [example_old]"
    by (simp add: old_sets_def example_old_def example_current_def example_set_def)
  with scale_down_when_ready [OF run(1)] run example_current_ready show ?thesis
    by (auto simp: example_rollout_def)
qed

end
