(* ===== verification/GoTime.thy ===== *)
theory GoTime
  imports ApiTypes
begin

text \<open>
  The parts of Go's \<open>time\<close> that the controllers call. An instant and a duration are counts of
  nanoseconds; durations are 64-bit. \<open>ParseDuration\<close> follows the source of the package, except that
  the fraction of a number is computed exactly where Go computes it in floating point.
\<close>

definition zero_time :: int where
  "zero_time = - 62135596800 * Second"

text \<open>The map of units; the two spellings of the micro sign are UTF-8.\<close>

definition micro_sign :: string where "micro_sign = [char_of (194 :: nat), char_of (181 :: nat)]"
definition greek_mu :: string where "greek_mu = [char_of (206 :: nat), char_of (188 :: nat)]"

definition duration_unit :: "string \<Rightarrow> int option" where
  "duration_unit u =
     map_of [(''ns'', 1), (''us'', 1000), (micro_sign @ ''s'', 1000), (greek_mu @ ''s'', 1000), (''ms'', 1000000),
       (''s'', 1000000000), (''m'', 60000000000), (''h'', 3600000000000)] u"

text \<open>\<open>leadingInt\<close>: the digits at the front, nothing on an overflow.\<close>

fun leadingInt :: "int \<Rightarrow> string \<Rightarrow> (int \<times> string) option" where
  "leadingInt x [] = Some (x, [])"
| "leadingInt x (c # cs) =
     (if \<not> is_digit c then Some (x, c # cs)
      else if x > 2 ^ 63 div 10 then None
      else if 10 * x + int (digit_val c) > 2 ^ 63 then None
      else leadingInt (10 * x + int (digit_val c)) cs)"

text \<open>\<open>leadingFraction\<close>: once the digits overflow, the rest of them is skipped.\<close>

fun leadingFraction :: "int \<Rightarrow> int \<Rightarrow> bool \<Rightarrow> string \<Rightarrow> int \<times> int \<times> string" where
  "leadingFraction x scale overflow [] = (x, scale, [])"
| "leadingFraction x scale overflow (c # cs) =
     (if \<not> is_digit c then (x, scale, c # cs)
      else if overflow then leadingFraction x scale True cs
      else if x > (2 ^ 63 - 1) div 10 then leadingFraction x scale True cs
      else if 10 * x + int (digit_val c) > 2 ^ 63 then leadingFraction x scale True cs
      else leadingFraction (10 * x + int (digit_val c)) (10 * scale) False cs)"

definition unit_char :: "char \<Rightarrow> bool" where
  "unit_char c = (c \<noteq> CHR ''.'' \<and> \<not> is_digit c)"

text \<open>One number with its unit: the value and the rest of the text.\<close>

definition duration_item :: "string \<Rightarrow> (int \<times> string) option" where
  "duration_item s =
     (if s = [] \<or> \<not> (hd s = CHR ''.'' \<or> is_digit (hd s)) then None
      else case leadingInt 0 s of
        None \<Rightarrow> None
      | Some (v, s1) \<Rightarrow>
          let pre = (length s1 \<noteq> length s);
              (f, scale, s2) = (if s1 \<noteq> [] \<and> hd s1 = CHR ''.'' then leadingFraction 0 1 False (tl s1) else (0, 1, s1));
              post = (s1 \<noteq> [] \<and> hd s1 = CHR ''.'' \<and> length s2 \<noteq> length (tl s1));
              u = takeWhile unit_char s2; s3 = dropWhile unit_char s2
          in if \<not> pre \<and> \<not> post then None
             else if u = [] then None
             else case duration_unit u of
               None \<Rightarrow> None
             | Some unit \<Rightarrow>
                 if v > 2 ^ 63 div unit then None
                 else let w = v * unit + f * unit div scale
                      in if f > 0 \<and> w > 2 ^ 63 then None else Some (w, s3))"

lemma leadingInt_length: "leadingInt x s = Some (v, r) \<Longrightarrow> length r \<le> length s"
  by (induction x s arbitrary: v r rule: leadingInt.induct) (auto split: if_splits simp: le_SucI)

lemma leadingFraction_length: "leadingFraction x sc ov s = (f, scale, r) \<Longrightarrow> length r \<le> length s"
  by (induction x sc ov s arbitrary: f scale r rule: leadingFraction.induct) (auto split: if_splits simp: le_SucI)

lemma dropWhile_shorter: "takeWhile P xs \<noteq> [] \<Longrightarrow> length (dropWhile P xs) < length xs"
  by (cases xs) (auto simp: length_dropWhile_le le_imp_less_Suc split: if_splits)

lemma duration_item_shorter:
  assumes "duration_item s = Some (w, r)"
  shows "length r < length s"
proof -
  obtain v s1 where i: "leadingInt 0 s = Some (v, s1)"
    using assms by (auto simp: duration_item_def split: if_splits option.splits)
  define q where "q = (if s1 \<noteq> [] \<and> hd s1 = CHR ''.'' then leadingFraction 0 1 False (tl s1) else (0, 1, s1))"
  obtain f sc s2 where q: "q = (f, sc, s2)" by (cases q)
  have "length s2 \<le> length s1"
    using q leadingFraction_length [of 0 1 False "tl s1" f sc s2]
    by (cases s1) (auto simp: q_def split: if_splits)
  moreover have "takeWhile unit_char s2 \<noteq> [] \<and> r = dropWhile unit_char s2"
    using assms q by (auto simp: duration_item_def i q_def [symmetric] Let_def split: if_splits option.splits)
  ultimately show ?thesis
    using leadingInt_length [OF i] dropWhile_shorter [of unit_char s2] by auto
qed

function duration_sum :: "int \<Rightarrow> string \<Rightarrow> int option" where
  "duration_sum d s =
     (if s = [] then Some d
      else case duration_item s of
        None \<Rightarrow> None
      | Some (w, rest) \<Rightarrow> if d + w > 2 ^ 63 then None else duration_sum (d + w) rest)"
  by pat_completeness auto

termination
  by (relation "measure (length \<circ> snd)") (auto dest: duration_item_shorter)

declare duration_sum.simps [simp del]

definition ParseDuration :: "string \<Rightarrow> int option" where
  "ParseDuration s =
     (let neg = (s \<noteq> [] \<and> hd s = CHR ''-'');
          s = (if s \<noteq> [] \<and> (hd s = CHR ''-'' \<or> hd s = CHR ''+'') then tl s else s)
      in if s = ''0'' then Some 0
         else if s = [] then None
         else case duration_sum 0 s of
           None \<Rightarrow> None
         | Some d \<Rightarrow> if neg then Some (- d) else if d > 2 ^ 63 - 1 then None else Some d)"

end
