(* ===== verification/MachineHealth.thy ===== *)
theory MachineHealth
  imports HelperLB GoTime FakeOpenstack
begin

text \<open>
  Which machines are healthy: \<open>AreRelevantConditionsMet\<close> of
  \<open>internal/helper/loadbalancermachine.go\<close>, the readiness and deletion tests of
  \<open>loadbalancerset_controller.go\<close>, the deletion marker of \<open>helper.go\<close> and the controller that marks
  and deletes unhealthy machines, \<open>loadbalancermachine_status_controller.go\<close> (all under
  \<open>controllers/yawol-controller/loadbalancerset\<close>).
\<close>

section \<open>Conditions\<close>

definition ConfigReady :: string where "ConfigReady = ''ConfigReady''"
definition EnvoyReady :: string where "EnvoyReady = ''EnvoyReady''"
definition EnvoyUpToDate :: string where "EnvoyUpToDate = ''EnvoyUpToDate''"
definition KeepalivedMaster :: string where "KeepalivedMaster = ''KeepalivedMaster''"
definition DeletionMarkerCondition :: string where "DeletionMarkerCondition = ''MarkedForDeletion''"

definition relevantLBMConditionslForLBS :: "string list" where
  "relevantLBMConditionslForLBS = [ConfigReady, EnvoyReady, EnvoyUpToDate]"

text \<open>The lookup map: a later condition of the same type replaces an earlier one.\<close>

fun cond_map :: "node_condition list \<Rightarrow> string \<Rightarrow> node_condition option" where
  "cond_map [] ty = None"
| "cond_map (c # cs) ty =
     (case cond_map cs ty of Some d \<Rightarrow> Some d | None \<Rightarrow> if nc_Type c = ty then Some c else None)"

text \<open>Why a machine fails, with the texts of the source. The text of an instant depends on the time
  zone; it is the parameter \<open>tt\<close>.\<close>

datatype reason =
    NoConditions
  | NotPresent string
  | BadStatus node_condition
  | StaleHeartbeat string

fun reason_text :: "(int \<Rightarrow> string) \<Rightarrow> reason \<Rightarrow> string" where
  "reason_text tt NoConditions = ''no conditions set''"
| "reason_text tt (NotPresent ty) = ''required condition '' @ ty @ '' not present on machine''"
| "reason_text tt (BadStatus c) =
     ''condition '' @ nc_Type c @ '' is in status '' @ nc_Status c @ '' with reason: '' @ nc_Reason c @
     '', message: '' @ nc_Message c @ '', lastTransitionTime: '' @ tt (nc_LastTransitionTime c)"
| "reason_text tt (StaleHeartbeat ty) = ''condition '' @ ty @ '' heartbeat is stale''"

text \<open>The loop over the relevant types; nothing means that all conditions are met.\<close>

fun conditions_loop :: "node_condition list \<Rightarrow> int \<Rightarrow> bool \<Rightarrow> string list \<Rightarrow> reason option" where
  "conditions_loop conditions expiration stableConditions [] = None"
| "conditions_loop conditions expiration stableConditions (typ # rest) =
     (case cond_map conditions typ of
        None \<Rightarrow> Some (NotPresent typ)
      | Some condition \<Rightarrow>
          let conditionIsStable = (if stableConditions then nc_LastTransitionTime condition < expiration else True) in
          if conditionIsStable \<and> nc_Status condition \<noteq> ConditionTrue then Some (BadStatus condition)
          else if nc_LastHeartbeatTime condition < expiration then Some (StaleHeartbeat (nc_Type condition))
          else conditions_loop conditions expiration stableConditions rest)"

definition AreRelevantConditionsMet :: "load_balancer_machine \<Rightarrow> int \<Rightarrow> bool \<Rightarrow> reason option" where
  "AreRelevantConditionsMet machine expiration stableConditions =
     (case lbm_Conditions (lbm_Status machine) of
        None \<Rightarrow> Some NoConditions
      | Some conditions \<Rightarrow> conditions_loop conditions expiration stableConditions relevantLBMConditionslForLBS)"

text \<open>\<open>now\<close> and \<open>now2\<close> are the readings of the clock.\<close>

definition isMachineReady :: "int \<Rightarrow> load_balancer_machine \<Rightarrow> bool" where
  "isMachineReady now machine = (AreRelevantConditionsMet machine (now - 180 * Second) False = None)"

definition isMachineKeepalivedMaster :: "load_balancer_machine \<Rightarrow> bool" where
  "isMachineKeepalivedMaster machine =
     (case lbm_Conditions (lbm_Status machine) of
        None \<Rightarrow> False
      | Some cs \<Rightarrow> (case find (\<lambda>c. nc_Type c = KeepalivedMaster) cs of
            None \<Rightarrow> False
          | Some c \<Rightarrow> nc_Status c = ConditionTrue))"

definition creationTimeoutDuration :: "load_balancer_machine \<Rightarrow> int" where
  "creationTimeoutDuration machine =
     (let v = at_key (meta_Annotations machine) LoadBalancerMachineCreationTimeoutAnnotation in
      if v \<noteq> [] then (case ParseDuration v of Some parsed \<Rightarrow> parsed | None \<Rightarrow> 10 * Minute)
      else 10 * Minute)"

text \<open>\<open>-1 * d\<close> wraps for the least duration.\<close>

definition shouldMachineBeDeleted :: "int \<Rightarrow> int \<Rightarrow> load_balancer_machine \<Rightarrow> reason option" where
  "shouldMachineBeDeleted now now2 machine =
     (let before3Minutes = now - 3 * Minute;
          creationTimeout = now2 + wrap64 (- 1 * creationTimeoutDuration machine) in
      if meta_CreationTimestamp machine > creationTimeout \<and>
         (case lbm_Conditions (lbm_Status machine) of None \<Rightarrow> True | Some cs \<Rightarrow> cs = [])
      then None
      else AreRelevantConditionsMet machine before3Minutes True)"

section \<open>The deletion marker\<close>

definition findDeletionCondition :: "load_balancer_machine \<Rightarrow> node_condition option" where
  "findDeletionCondition machine =
     (case lbm_Conditions (lbm_Status machine) of
        None \<Rightarrow> None
      | Some conditions \<Rightarrow> find (\<lambda>c. nc_Type c = DeletionMarkerCondition) conditions)"

definition with_conditions :: "node_condition list \<Rightarrow> load_balancer_machine \<Rightarrow> load_balancer_machine" where
  "with_conditions cs machine = machine\<lparr>lbm_Status := (lbm_Status machine)\<lparr>lbm_Conditions := Some cs\<rparr>\<rparr>"

text \<open>The update in place of the condition that the pointer \<open>existingCondition\<close> shows.\<close>

fun update_first :: "('a \<Rightarrow> bool) \<Rightarrow> ('a \<Rightarrow> 'a) \<Rightarrow> 'a list \<Rightarrow> 'a list" where
  "update_first p f [] = []"
| "update_first p f (x # xs) = (if p x then f x # xs else x # update_first p f xs)"

definition refresh_condition :: "int \<Rightarrow> node_condition \<Rightarrow> node_condition \<Rightarrow> node_condition" where
  "refresh_condition now newCondition existing =
     (let existing =
        (if nc_Status existing \<noteq> nc_Status newCondition then
           existing\<lparr>nc_Status := nc_Status newCondition,
             nc_LastTransitionTime := (if nc_LastTransitionTime newCondition \<noteq> zero_time
                then nc_LastTransitionTime newCondition else now)\<rparr>
         else existing)
      in existing\<lparr>nc_Reason := nc_Reason newCondition, nc_Message := nc_Message newCondition,
           nc_LastHeartbeatTime := nc_LastHeartbeatTime newCondition\<rparr>)"

definition setDeletionCondition :: "int \<Rightarrow> load_balancer_machine \<Rightarrow> node_condition \<Rightarrow> load_balancer_machine" where
  "setDeletionCondition now machine newCondition =
     (let conditions = (case lbm_Conditions (lbm_Status machine) of None \<Rightarrow> [] | Some cs \<Rightarrow> cs);
          machine = with_conditions conditions machine;
          newCondition = newCondition\<lparr>nc_Type := DeletionMarkerCondition\<rparr> in
      case findDeletionCondition machine of
        None \<Rightarrow>
          with_conditions (conditions @ [newCondition\<lparr>nc_LastTransitionTime :=
            (if nc_LastTransitionTime newCondition = zero_time then now else nc_LastTransitionTime newCondition)\<rparr>]) machine
      | Some _ \<Rightarrow>
          with_conditions (update_first (\<lambda>c. nc_Type c = DeletionMarkerCondition)
            (refresh_condition now newCondition) conditions) machine)"

definition removeDeletionCondition :: "load_balancer_machine \<Rightarrow> load_balancer_machine" where
  "removeDeletionCondition machine =
     (case lbm_Conditions (lbm_Status machine) of
        None \<Rightarrow> machine
      | Some conditions \<Rightarrow>
          if conditions = [] then machine
          else with_conditions (filter (\<lambda>c. nc_Type c \<noteq> DeletionMarkerCondition) conditions) machine)"

section \<open>The status controller\<close>

record 'w status_reconciler =
  sr_Client :: "'w kube"
  sr_DeletionGracePeriod :: int
  sr_time_text :: "int \<Rightarrow> string"

type_synonym ('w, 'a) kop = "(('w, call) st, 'a) gop"

text \<open>Instants are written with seconds.\<close>

definition trunc_time :: "int \<Rightarrow> int" where
  "trunc_time t = t div Second * Second"

definition json_condition :: "node_condition \<Rightarrow> node_condition" where
  "json_condition c = c\<lparr>nc_LastHeartbeatTime := trunc_time (nc_LastHeartbeatTime c),
     nc_LastTransitionTime := trunc_time (nc_LastTransitionTime c)\<rparr>"

definition json_lbm_status :: "lbm_status \<Rightarrow> lbm_status" where
  "json_lbm_status st = st\<lparr>lbm_Conditions := map_option (map json_condition) (lbm_Conditions st),
     lbm_Metrics := map_option (map (\<lambda>m. m\<lparr>metric_Time := trunc_time (metric_Time m)\<rparr>)) (lbm_Metrics st),
     lbm_CreationTimestamp := map_option trunc_time (lbm_CreationTimestamp st),
     lbm_LastOpenstackReconcile := map_option trunc_time (lbm_LastOpenstackReconcile st)\<rparr>"

definition UpdateMachineStatus :: "'w kube \<Rightarrow> load_balancer_machine \<Rightarrow> ('w, load_balancer_machine) kop" where
  "UpdateMachineStatus k machine = (let st = json_lbm_status (lbm_Status machine) in
     ext (CUpdateMachineStatus (key_of machine) st) (k_UpdateMachineStatus k (key_of machine) st))"

definition DeleteMachine :: "'w kube \<Rightarrow> load_balancer_machine \<Rightarrow> ('w, unit) kop" where
  "DeleteMachine k machine = ext (CDeleteMachine (key_of machine)) (k_DeleteMachine k (key_of machine))"

definition deletion_mark :: "string \<Rightarrow> node_condition" where
  "deletion_mark message = \<lparr>nc_Type = [], nc_Status = ConditionTrue, nc_LastHeartbeatTime = zero_time,
     nc_LastTransitionTime = zero_time, nc_Reason = ''PendingDeletion'', nc_Message = message\<rparr>"

definition markForDeletion :: "'w status_reconciler \<Rightarrow> load_balancer_machine \<Rightarrow> string \<Rightarrow> ('w, unit) kop" where
  "markForDeletion sr machine message =
     nowM (sr_Client sr) (\<lambda>now.
       bindM (UpdateMachineStatus (sr_Client sr) (setDeletionCondition now machine (deletion_mark message))) (\<lambda>_. ret ()))"

definition handleMarkedMachine :: "'w status_reconciler \<Rightarrow> load_balancer_machine \<Rightarrow> node_condition \<Rightarrow> ('w, unit) kop" where
  "handleMarkedMachine sr machine condition = (let k = sr_Client sr in
     nowM k (\<lambda>now. nowM k (\<lambda>now2.
     if shouldMachineBeDeleted now now2 machine = None then
       bindM (UpdateMachineStatus k (removeDeletionCondition machine)) (\<lambda>_. ret ())
     else
       nowM k (\<lambda>now3.
         let gracePeriodEnd = now3 + wrap64 (- sr_DeletionGracePeriod sr) in
         if nc_LastTransitionTime condition < gracePeriodEnd then DeleteMachine k machine
         else ret ()))))"

definition checkMachine :: "'w status_reconciler \<Rightarrow> load_balancer_machine \<Rightarrow> ('w, unit) kop" where
  "checkMachine sr machine = (let k = sr_Client sr in
     nowM k (\<lambda>now. nowM k (\<lambda>now2.
       case shouldMachineBeDeleted now now2 machine of
         Some reason \<Rightarrow> markForDeletion sr machine (reason_text (sr_time_text sr) reason)
       | None \<Rightarrow> ret ())))"

definition reconcileMachineStatus :: "'w status_reconciler \<Rightarrow> load_balancer_machine \<Rightarrow> ('w, unit) kop" where
  "reconcileMachineStatus sr machine =
     (case findDeletionCondition machine of
        Some condition \<Rightarrow>
          if nc_Status condition = ConditionTrue then handleMarkedMachine sr machine condition
          else checkMachine sr machine
      | None \<Rightarrow> checkMachine sr machine)"

definition StatusReconcile :: "'w status_reconciler \<Rightarrow> namespaced_name \<Rightarrow> ('w, int) kop" where
  "StatusReconcile sr req =
     catchM (ext (CGetMachine req) (k_GetMachine (sr_Client sr) req))
       (\<lambda>err. if IsNotFound err then ret 0
          else fail (Wrapped ''error retrieving LoadBalancerMachine: '' err))
       (\<lambda>machine.
          if is_deleting machine then ret 0
          else thenM (reconcileMachineStatus sr machine) (ret (15 * Second)))"

section \<open>When the conditions are met\<close>

lemma cond_map_None: "cond_map cs ty = None \<longleftrightarrow> (\<forall>d \<in> set cs. nc_Type d \<noteq> ty)"
  by (induction cs) (auto split: option.split)

lemma cond_map_last:
  "cond_map cs ty = Some c \<longleftrightarrow> (\<exists>xs ys. cs = xs @ c # ys \<and> nc_Type c = ty \<and> (\<forall>d \<in> set ys. nc_Type d \<noteq> ty))"
proof
  assume "cond_map cs ty = Some c"
  then show "\<exists>xs ys. cs = xs @ c # ys \<and> nc_Type c = ty \<and> (\<forall>d \<in> set ys. nc_Type d \<noteq> ty)"
  proof (induction cs)
    case (Cons a cs)
    then show ?case
    proof (cases "cond_map cs ty")
      case None
      with Cons.prems have "a = c" "nc_Type c = ty" by (simp_all split: if_splits)
      with None show ?thesis by (intro exI [of _ "[]"] exI [of _ cs]) (simp add: cond_map_None)
    next
      case (Some d)
      with Cons obtain xs ys where "cs = xs @ c # ys" "nc_Type c = ty" "\<forall>d \<in> set ys. nc_Type d \<noteq> ty" by auto
      then show ?thesis by (intro exI [of _ "a # xs"] exI [of _ ys]) simp
    qed
  qed simp
next
  have "cond_map (xs @ c # ys) ty = Some c" if "nc_Type c = ty" "\<forall>d \<in> set ys. nc_Type d \<noteq> ty" for xs ys
    using that by (induction xs) (simp_all add: cond_map_None [THEN iffD2])
  then show "\<exists>xs ys. cs = xs @ c # ys \<and> nc_Type c = ty \<and> (\<forall>d \<in> set ys. nc_Type d \<noteq> ty) \<Longrightarrow> cond_map cs ty = Some c"
    by blast
qed

text \<open>A condition as \<open>AreRelevantConditionsMet\<close> accepts it.\<close>

definition acceptable :: "int \<Rightarrow> bool \<Rightarrow> node_condition \<Rightarrow> bool" where
  "acceptable expiration steady c = ((nc_Status c = ConditionTrue \<or> steady \<and> expiration \<le> nc_LastTransitionTime c) \<and>
     expiration \<le> nc_LastHeartbeatTime c)"

lemma conditions_loop_iff:
  "conditions_loop cs expiration steady tys = None \<longleftrightarrow>
     (\<forall>ty \<in> set tys. \<exists>c. cond_map cs ty = Some c \<and> acceptable expiration steady c)"
  by (induction tys) (auto simp: acceptable_def Let_def not_less split: option.split)

lemma conditions_met_iff:
  "AreRelevantConditionsMet m expiration steady = None \<longleftrightarrow>
     (\<exists>cs. lbm_Conditions (lbm_Status m) = Some cs \<and>
        (\<forall>ty \<in> {ConfigReady, EnvoyReady, EnvoyUpToDate}. \<exists>c. cond_map cs ty = Some c \<and> acceptable expiration steady c))"
proof (cases "lbm_Conditions (lbm_Status m)")
  case (Some cs)
  have "AreRelevantConditionsMet m expiration steady = None \<longleftrightarrow>
      (\<forall>ty \<in> set relevantLBMConditionslForLBS. \<exists>c. cond_map cs ty = Some c \<and> acceptable expiration steady c)"
    by (simp only: AreRelevantConditionsMet_def Some option.case conditions_loop_iff)
  then show ?thesis
    by (simp add: Some relevantLBMConditionslForLBS_def)
qed (simp add: AreRelevantConditionsMet_def)

lemma acceptable_last:
  "(\<exists>c. cond_map cs ty = Some c \<and> acceptable expiration steady c) \<longleftrightarrow>
     (\<exists>xs c ys. cs = xs @ c # ys \<and> nc_Type c = ty \<and> (\<forall>d \<in> set ys. nc_Type d \<noteq> ty) \<and>
        expiration \<le> nc_LastHeartbeatTime c \<and>
        (nc_Status c = ConditionTrue \<or> steady \<and> expiration \<le> nc_LastTransitionTime c))"
  unfolding cond_map_last acceptable_def by blast

text \<open>The health check means what it says: the relevant conditions are met exactly when each of
  \<open>ConfigReady\<close>, \<open>EnvoyReady\<close> and \<open>EnvoyUpToDate\<close> occurs, and its last occurrence has a heartbeat no
  older than the expiration and is true, or (when only stable conditions count) has changed since.\<close>

theorem conditions_met_spec:
  "AreRelevantConditionsMet m expiration steady = None \<longleftrightarrow>
     (\<exists>cs. lbm_Conditions (lbm_Status m) = Some cs \<and>
        (\<forall>ty \<in> {ConfigReady, EnvoyReady, EnvoyUpToDate}. \<exists>xs c ys. cs = xs @ c # ys \<and> nc_Type c = ty \<and>
           (\<forall>d \<in> set ys. nc_Type d \<noteq> ty) \<and> expiration \<le> nc_LastHeartbeatTime c \<and>
           (nc_Status c = ConditionTrue \<or> steady \<and> expiration \<le> nc_LastTransitionTime c)))"
  by (simp only: conditions_met_iff acceptable_last)

text \<open>A machine that counts as ready is not one to be deleted: the two controllers, which use the
  test with the same age of three minutes, never disagree about a machine at the same time.\<close>

theorem ready_not_deleted:
  assumes "isMachineReady now m"
  shows "shouldMachineBeDeleted now now2 m = None"
proof -
  have "AreRelevantConditionsMet m (now - 3 * Minute) False = None"
    using assms by (simp add: isMachineReady_def Minute_def)
  then have "AreRelevantConditionsMet m (now - 3 * Minute) True = None"
    unfolding conditions_met_iff acceptable_def by blast
  then show ?thesis
    by (simp add: shouldMachineBeDeleted_def Let_def)
qed

lemma conditions_loop_cong:
  "(\<forall>ty \<in> set tys. cond_map cs ty = cond_map cs' ty) \<Longrightarrow>
     conditions_loop cs expiration steady tys = conditions_loop cs' expiration steady tys"
  by (induction tys) (auto simp: Let_def split: option.split)

lemma marker_not_relevant: "DeletionMarkerCondition \<notin> set relevantLBMConditionslForLBS"
  by (simp add: relevantLBMConditionslForLBS_def DeletionMarkerCondition_def ConfigReady_def EnvoyReady_def EnvoyUpToDate_def)

lemma verdict_cong:
  assumes "lbm_Conditions (lbm_Status m) = Some cs" and "lbm_Conditions (lbm_Status m') = Some cs'"
    and "\<And>ty. ty \<noteq> DeletionMarkerCondition \<Longrightarrow> cond_map cs' ty = cond_map cs ty"
  shows "AreRelevantConditionsMet m' expiration steady = AreRelevantConditionsMet m expiration steady"
  unfolding AreRelevantConditionsMet_def assms(1,2) option.case
  using assms(3) marker_not_relevant by (intro conditions_loop_cong) metis

lemma cond_map_append: "cond_map (xs @ ys) ty = (case cond_map ys ty of Some c \<Rightarrow> Some c | None \<Rightarrow> cond_map xs ty)"
  by (induction xs) (auto split: option.split)

lemma cond_map_update_first:
  "(\<And>c. nc_Type (f c) = nc_Type c) \<Longrightarrow> (\<And>c. p c \<Longrightarrow> nc_Type c = mk) \<Longrightarrow> ty \<noteq> mk \<Longrightarrow>
     cond_map (update_first p f cs) ty = cond_map cs ty"
  by (induction cs) (auto split: option.split)

lemma cond_map_filter: "ty \<noteq> mk \<Longrightarrow> cond_map (filter (\<lambda>c. nc_Type c \<noteq> mk) cs) ty = cond_map cs ty"
  by (induction cs) (auto split: option.split)

lemma refresh_type [simp]: "nc_Type (refresh_condition now c e) = nc_Type e"
  by (simp add: refresh_condition_def Let_def)

lemma with_conditions_conditions [simp]: "lbm_Conditions (lbm_Status (with_conditions cs m)) = Some cs"
  by (simp add: with_conditions_def)

text \<open>The conditions after setting the marker.\<close>

definition marked_conditions :: "int \<Rightarrow> node_condition \<Rightarrow> node_condition list \<Rightarrow> node_condition list" where
  "marked_conditions now c cs =
     (if \<exists>d \<in> set cs. nc_Type d = DeletionMarkerCondition
      then update_first (\<lambda>d. nc_Type d = DeletionMarkerCondition) (refresh_condition now (c\<lparr>nc_Type := DeletionMarkerCondition\<rparr>)) cs
      else cs @ [c\<lparr>nc_Type := DeletionMarkerCondition,
        nc_LastTransitionTime := (if nc_LastTransitionTime c = zero_time then now else nc_LastTransitionTime c)\<rparr>])"

lemma setDeletion_conditions:
  "lbm_Conditions (lbm_Status (setDeletionCondition now m c)) =
     Some (marked_conditions now c (case lbm_Conditions (lbm_Status m) of None \<Rightarrow> [] | Some cs \<Rightarrow> cs))"
  by (auto simp: setDeletionCondition_def marked_conditions_def findDeletionCondition_def Let_def find_None_iff find_Some_iff
      split: option.split)

lemma cond_map_marked: "ty \<noteq> DeletionMarkerCondition \<Longrightarrow> cond_map (marked_conditions now c cs) ty = cond_map cs ty"
  by (auto simp: marked_conditions_def cond_map_append intro: cond_map_update_first)

lemma filter_update_first:
  "(\<And>c. p c \<Longrightarrow> \<not> q c) \<Longrightarrow> (\<And>c. p c \<Longrightarrow> \<not> q (f c)) \<Longrightarrow> filter q (update_first p f cs) = filter q cs"
  by (induction cs) auto

lemma filter_marked:
  "filter (\<lambda>d. nc_Type d \<noteq> DeletionMarkerCondition) (marked_conditions now c cs) =
     filter (\<lambda>d. nc_Type d \<noteq> DeletionMarkerCondition) cs"
  by (auto simp: marked_conditions_def intro: filter_update_first)

lemma marked_ne [simp]: "marked_conditions now c cs \<noteq> []"
  by (cases cs) (auto simp: marked_conditions_def)

lemma find_update_first:
  "(\<And>x. p (f x) = p x) \<Longrightarrow> find p (update_first p f cs) = map_option f (find p cs)"
  by (induction cs) auto

lemma find_marked:
  "find (\<lambda>d. nc_Type d = DeletionMarkerCondition) (marked_conditions now c cs) =
     (case find (\<lambda>d. nc_Type d = DeletionMarkerCondition) cs of
        Some e \<Rightarrow> Some (refresh_condition now (c\<lparr>nc_Type := DeletionMarkerCondition\<rparr>) e)
      | None \<Rightarrow> Some (c\<lparr>nc_Type := DeletionMarkerCondition,
          nc_LastTransitionTime := (if nc_LastTransitionTime c = zero_time then now else nc_LastTransitionTime c)\<rparr>))"
proof (cases "find (\<lambda>d. nc_Type d = DeletionMarkerCondition) cs")
  case None
  then have absent: "\<forall>d \<in> set cs. nc_Type d \<noteq> DeletionMarkerCondition" by (simp add: find_None_iff)
  have "find p (xs @ [x]) = Some x" if "\<forall>d \<in> set xs. \<not> p d" "p x" for p xs and x :: node_condition
    using that by (induction xs) auto
  with absent None show ?thesis by (simp add: marked_conditions_def)
next
  case (Some e)
  then have "\<exists>d \<in> set cs. nc_Type d = DeletionMarkerCondition" by (auto simp: find_Some_iff)
  with Some show ?thesis by (simp add: marked_conditions_def find_update_first)
qed

text \<open>The deletion marker is invisible to everything else: setting or removing it changes neither
  the verdict about the machine nor any other condition, removing what was set leaves exactly the
  other conditions, in their order, and marking a machine that is already marked keeps the time of
  the first marking, from which the grace period counts.\<close>

theorem marker_is_transparent:
  assumes "lbm_Conditions (lbm_Status m) = Some cs"
  shows "AreRelevantConditionsMet (setDeletionCondition now m c) expiration steady = AreRelevantConditionsMet m expiration steady \<and>
    AreRelevantConditionsMet (removeDeletionCondition m) expiration steady = AreRelevantConditionsMet m expiration steady \<and>
    lbm_Conditions (lbm_Status (removeDeletionCondition (setDeletionCondition now m c))) =
      Some (filter (\<lambda>d. nc_Type d \<noteq> DeletionMarkerCondition) cs) \<and>
    (\<forall>e. findDeletionCondition m = Some e \<and> nc_Status c = nc_Status e \<longrightarrow>
      (\<exists>e'. findDeletionCondition (setDeletionCondition now m c) = Some e' \<and>
        nc_LastTransitionTime e' = nc_LastTransitionTime e \<and> nc_Status e' = nc_Status e))"
proof (intro conjI allI impI)
  show "AreRelevantConditionsMet (setDeletionCondition now m c) expiration steady = AreRelevantConditionsMet m expiration steady"
    by (rule verdict_cong [OF assms, of _ "marked_conditions now c cs"])
      (simp_all add: setDeletion_conditions assms cond_map_marked)
  show "AreRelevantConditionsMet (removeDeletionCondition m) expiration steady = AreRelevantConditionsMet m expiration steady"
    by (rule verdict_cong [OF assms, of _ "filter (\<lambda>d. nc_Type d \<noteq> DeletionMarkerCondition) cs"])
      (auto simp: removeDeletionCondition_def assms cond_map_filter)
  show "lbm_Conditions (lbm_Status (removeDeletionCondition (setDeletionCondition now m c))) =
      Some (filter (\<lambda>d. nc_Type d \<noteq> DeletionMarkerCondition) cs)"
    by (simp add: removeDeletionCondition_def setDeletion_conditions assms filter_marked)
next
  fix e assume "findDeletionCondition m = Some e \<and> nc_Status c = nc_Status e"
  then show "\<exists>e'. findDeletionCondition (setDeletionCondition now m c) = Some e' \<and>
      nc_LastTransitionTime e' = nc_LastTransitionTime e \<and> nc_Status e' = nc_Status e"
    by (auto simp: findDeletionCondition_def setDeletion_conditions assms find_marked refresh_condition_def Let_def)
qed

section \<open>A deletion needs a grace period of failure\<close>

text \<open>The machine as stored after a reconcile that made the calls \<open>cs\<close>.\<close>

fun stored_after :: "(call \<times> bool) list \<Rightarrow> load_balancer_machine \<Rightarrow> load_balancer_machine" where
  "stored_after [] m = m"
| "stored_after ((CUpdateMachineStatus n st, True) # cs) m = stored_after cs (m\<lparr>lbm_Status := st\<rparr>)"
| "stored_after (c # cs) m = stored_after cs m"

text \<open>The three readings of the clock in a reconcile that starts in \<open>w\<close>.\<close>

definition readings :: "'w kube \<Rightarrow> 'w \<Rightarrow> int \<times> int \<times> int" where
  "readings k w = (let (a, w1) = k_now k w; (b, w2) = k_now k w1; (c, w3) = k_now k w2 in (a, b, c))"

definition unhealthy :: "'w kube \<Rightarrow> 'w \<Rightarrow> load_balancer_machine \<Rightarrow> bool" where
  "unhealthy k w m = (case readings k w of (a, b, c) \<Rightarrow> shouldMachineBeDeleted a b m \<noteq> None)"

datatype verdict = Healthy | Unhealthy | Failed

definition verdict_of :: "'w kube \<Rightarrow> 'w \<Rightarrow> load_balancer_machine \<Rightarrow> unit result \<Rightarrow> verdict" where
  "verdict_of k w m r = (if \<not> is_Ok r then Failed else if unhealthy k w m then Unhealthy else Healthy)"

text \<open>What happens to a machine: anyone may change everything but its marker, and the controller
  reconciles it. The history lists the reconciles, the latest first, with the time of the last
  reading and the verdict; a reconcile whose write fails counts as failed.\<close>

inductive machine_history :: "'w status_reconciler \<Rightarrow> load_balancer_machine \<Rightarrow> (int \<times> verdict) list \<Rightarrow> bool" for sr where
  start: "findDeletionCondition m = None \<Longrightarrow> machine_history sr m []"
| report: "machine_history sr m h \<Longrightarrow> findDeletionCondition m' = findDeletionCondition m \<Longrightarrow> machine_history sr m' h"
| reconcile: "machine_history sr m h \<Longrightarrow> reconcileMachineStatus sr m \<lparr>world = w, trace = []\<rparr> = (r, t) \<Longrightarrow>
    machine_history sr (stored_after (trace t) m)
      ((snd (snd (readings (sr_Client sr) w)), verdict_of (sr_Client sr) w m r) # h)"

text \<open>The invariant: a marker stems from an unhealthy reconcile, and none since was healthy.\<close>

definition marked_since :: "int \<Rightarrow> (int \<times> verdict) list \<Rightarrow> bool" where
  "marked_since lt h = (\<exists>later tm earlier. h = later @ (tm, Unhealthy) # earlier \<and> lt = trunc_time tm \<and>
     (\<forall>(t, v) \<in> set later. v \<noteq> Healthy))"

definition history_ok :: "load_balancer_machine \<Rightarrow> (int \<times> verdict) list \<Rightarrow> bool" where
  "history_ok m h = (\<forall>c. findDeletionCondition m = Some c \<longrightarrow>
     nc_Status c = ConditionTrue \<and> marked_since (nc_LastTransitionTime c) h)"

lemma marked_since_more: "marked_since lt h \<Longrightarrow> v \<noteq> Healthy \<Longrightarrow> marked_since lt ((t, v) # h)"
proof -
  assume "marked_since lt h" and v: "v \<noteq> Healthy"
  then obtain later tm earlier where "h = later @ (tm, Unhealthy) # earlier" "lt = trunc_time tm"
      "\<forall>(t, v) \<in> set later. v \<noteq> Healthy"
    by (auto simp: marked_since_def)
  with v show ?thesis
    by (auto simp: marked_since_def intro!: exI [of _ "(t, v) # later"])
qed

lemma marked_since_now: "marked_since (trunc_time t) ((t, Unhealthy) # h)"
  unfolding marked_since_def by (intro exI [of _ "[]"]) auto

lemma find_json: "find (\<lambda>c. nc_Type c = ty) (map json_condition cs) = map_option json_condition (find (\<lambda>c. nc_Type c = ty) cs)"
  by (induction cs) (simp_all add: json_condition_def)

lemma findDeletion_json:
  "findDeletionCondition (m\<lparr>lbm_Status := json_lbm_status (lbm_Status m')\<rparr>) =
     map_option json_condition (findDeletionCondition m')"
  by (simp add: findDeletionCondition_def json_lbm_status_def find_json split: option.split)

lemma findDeletion_set_fresh:
  "findDeletionCondition m = None \<Longrightarrow> nc_LastTransitionTime c = zero_time \<Longrightarrow>
     findDeletionCondition (setDeletionCondition now m c) =
       Some (c\<lparr>nc_Type := DeletionMarkerCondition, nc_LastTransitionTime := now\<rparr>)"
  by (simp add: findDeletionCondition_def setDeletion_conditions find_marked split: option.splits)

lemma findDeletion_remove: "findDeletionCondition (removeDeletionCondition m) = None"
  by (auto simp: findDeletionCondition_def removeDeletionCondition_def find_None_iff split: option.split)

lemma readings_eq:
  "k_now k w = (a, w1) \<Longrightarrow> k_now k w1 = (b, w2) \<Longrightarrow> k_now k w2 = (c, w3) \<Longrightarrow> readings k w = (a, b, c)"
  by (simp add: readings_def)

lemma runs_checkMachine:
  assumes "findDeletionCondition m = None" and "sr_Client sr = k"
  shows "runs (checkMachine sr m) \<lparr>world = w, trace = []\<rparr>
    (\<lambda>r t. history_ok (stored_after (trace t) m) ((snd (snd (readings k w)), verdict_of k w m r) # h) \<and>
       (\<forall>n ok. (CDeleteMachine n, ok) \<notin> set (trace t)))"
proof -
  obtain a w1 b w2 c w3 where clock: "k_now k w = (a, w1)" "k_now k w1 = (b, w2)" "k_now k w2 = (c, w3)"
    by (metis prod.exhaust)
  have "history_ok (m\<lparr>lbm_Status := json_lbm_status (lbm_Status (setDeletionCondition c m (deletion_mark msg)))\<rparr>)
      ((c, Unhealthy) # h)" for msg
    by (simp add: history_ok_def findDeletion_json findDeletion_set_fresh assms(1) deletion_mark_def json_condition_def
        marked_since_now)
  then show ?thesis
    using assms
    by (auto simp: checkMachine_def nowM_def markForDeletion_def UpdateMachineStatus_def runs_simps clock Let_def
        caseR_def readings_eq [OF clock] verdict_of_def unhealthy_def history_ok_def [of m]
        split: prod.split option.split result.split)
qed

lemma runs_handleMarked:
  assumes "findDeletionCondition m = Some cond" and "nc_Status cond = ConditionTrue"
    and "marked_since (nc_LastTransitionTime cond) h" and "sr_Client sr = k"
  shows "runs (handleMarkedMachine sr m cond) \<lparr>world = w, trace = []\<rparr>
    (\<lambda>r t. history_ok (stored_after (trace t) m) ((snd (snd (readings k w)), verdict_of k w m r) # h) \<and>
       (\<forall>n ok. (CDeleteMachine n, ok) \<in> set (trace t) \<longrightarrow> n = key_of m \<and> unhealthy k w m \<and>
          nc_LastTransitionTime cond < snd (snd (readings k w)) + wrap64 (- sr_DeletionGracePeriod sr)))"
proof -
  obtain a w1 b w2 c w3 where clock: "k_now k w = (a, w1)" "k_now k w1 = (b, w2)" "k_now k w2 = (c, w3)"
    by (metis prod.exhaust)
  have cleared: "history_ok (m\<lparr>lbm_Status := json_lbm_status (lbm_Status (removeDeletionCondition m))\<rparr>) h'" for h'
    by (simp add: history_ok_def findDeletion_json findDeletion_remove)
  have kept: "history_ok m ((t, v) # h)" if "v \<noteq> Healthy" for t v
    using assms that by (simp add: history_ok_def marked_since_more)
  show ?thesis
    using assms(4)
    by (auto simp: handleMarkedMachine_def nowM_def DeleteMachine_def UpdateMachineStatus_def runs_simps clock Let_def
        caseR_def readings_eq [OF clock] verdict_of_def unhealthy_def cleared kept
        split: prod.split option.split result.split)
qed

lemma runs_reconcileMachineStatus:
  assumes "history_ok m h" and "sr_Client sr = k"
  shows "runs (reconcileMachineStatus sr m) \<lparr>world = w, trace = []\<rparr>
    (\<lambda>r t. history_ok (stored_after (trace t) m) ((snd (snd (readings k w)), verdict_of k w m r) # h) \<and>
       (\<forall>n ok. (CDeleteMachine n, ok) \<in> set (trace t) \<longrightarrow> n = key_of m \<and> unhealthy k w m \<and>
          (\<exists>cond. findDeletionCondition m = Some cond \<and>
             nc_LastTransitionTime cond < snd (snd (readings k w)) + wrap64 (- sr_DeletionGracePeriod sr))))"
proof (cases "findDeletionCondition m")
  case None
  from runs_checkMachine [OF this assms(2)] show ?thesis
    by (simp add: reconcileMachineStatus_def None)
next
  case (Some cond)
  then have "nc_Status cond = ConditionTrue" "marked_since (nc_LastTransitionTime cond) h"
    using assms(1) by (simp_all add: history_ok_def)
  from runs_handleMarked [OF Some this assms(2)] this(1) show ?thesis
    by (simp add: reconcileMachineStatus_def Some)
qed

lemma history_invariant: "machine_history sr m h \<Longrightarrow> history_ok m h"
proof (induction rule: machine_history.induct)
  case (reconcile m h w r t)
  from runsD [OF runs_reconcileMachineStatus [OF reconcile.IH refl] reconcile.hyps(2)] show ?case by simp
qed (simp_all add: history_ok_def)


text \<open>A machine that never reports, eleven and twenty minutes after its creation.\<close>

definition example_machine :: load_balancer_machine where
  "example_machine = \<lparr>meta_APIVersion = [], meta_Kind = [], meta_Name = ''lbm'', meta_Namespace = ''ns'', meta_UID = [],
     meta_ResourceVersion = [], meta_Labels = Map.empty, meta_Annotations = Map.empty, meta_Finalizers = [],
     meta_OwnerReferences = [], meta_CreationTimestamp = 0, meta_DeletionTimestamp = None,
     lbm_Spec = \<lparr>mspec_Infrastructure = zero_infra, mspec_PortID = [], mspec_ServerGroupID = [],
       mspec_LoadBalancerRef = \<lparr>lbr_Name = ''lb'', lbr_Namespace = ''ns''\<rparr>\<rparr>,
     lbm_Status = \<lparr>lbm_Conditions = None, lbm_Metrics = None, lbm_CreationTimestamp = None,
       lbm_LastOpenstackReconcile = None, lbm_ServerID = None, lbm_PortID = None, lbm_DefaultPortID = None,
       lbm_DefaultPortName = None, lbm_DefaultPortIP = None, lbm_ServiceAccountName = None,
       lbm_ServiceAccountSecretName = None, lbm_RoleName = None, lbm_RoleBindingName = None\<rparr>\<rparr>"

definition example_world :: "int \<Rightarrow> load_balancer_machine \<Rightarrow> mem" where
  "example_world now m = \<lparr>mem_id = 1, mem_fips = [], mem_ports = [], mem_groups = [], mem_rules = [],
     mem_servers = [], mem_servergroups = [], mem_lbs = [], mem_sets = [], mem_machines = [m], mem_secrets = [], mem_accounts = [], mem_roles = [], mem_bindings = [], mem_now = now, mem_snapshot = initial_snapshot\<rparr>"

definition example_sr :: "mem status_reconciler" where
  "example_sr = \<lparr>sr_Client = mem_kube, sr_DeletionGracePeriod = 5 * Minute, sr_time_text = Itoa\<rparr>"

definition example_marked :: load_balancer_machine where
  "example_marked = with_conditions [\<lparr>nc_Type = DeletionMarkerCondition, nc_Status = ConditionTrue,
     nc_LastHeartbeatTime = zero_time, nc_LastTransitionTime = 11 * Minute, nc_Reason = ''PendingDeletion'',
     nc_Message = ''no conditions set''\<rparr>] example_machine"

lemmas health_defs = reconcileMachineStatus_def checkMachine_def handleMarkedMachine_def markForDeletion_def
  UpdateMachineStatus_def DeleteMachine_def nowM_def readW_def bindM_def catchM_def ret_def fail_def ext_def
  shouldMachineBeDeleted_def creationTimeoutDuration_def AreRelevantConditionsMet_def relevantLBMConditionslForLBS_def
  findDeletionCondition_def setDeletionCondition_def with_conditions_def deletion_mark_def json_lbm_status_def
  json_condition_def trunc_time_def mem_kube_def mem_DeleteMachine_def example_sr_def example_world_def example_machine_def key_of_def
  Minute_def Second_def Millisecond_def zero_time_def wrap64_id in_int64_def

lemma example_marks:
  "\<exists>r t. reconcileMachineStatus example_sr example_machine \<lparr>world = example_world (11 * Minute) example_machine, trace = []\<rparr> = (r, t) \<and>
     stored_after (trace t) example_machine = example_marked \<and>
     verdict_of mem_kube (example_world (11 * Minute) example_machine) example_machine r = Unhealthy"
  by (simp add: health_defs Let_def example_marked_def verdict_of_def unhealthy_def readings_def)

lemma example_deletes:
  "\<exists>r t. reconcileMachineStatus example_sr example_marked \<lparr>world = example_world (20 * Minute) example_marked, trace = []\<rparr> = (r, t) \<and>
     (CDeleteMachine (key_of example_marked), True) \<in> set (trace t)"
  by (simp add: health_defs Let_def example_marked_def ConfigReady_def DeletionMarkerCondition_def)


lemma ready_not_deleted_witness:
  "shouldMachineBeDeleted (4 * Minute) (4 * Minute) (with_conditions
     [\<lparr>nc_Type = ty, nc_Status = ConditionTrue, nc_LastHeartbeatTime = 3 * Minute, nc_LastTransitionTime = 0,
       nc_Reason = [], nc_Message = []\<rparr>. ty \<leftarrow> relevantLBMConditionslForLBS] example_machine) = None"
  by (rule ready_not_deleted)
    (simp add: isMachineReady_def AreRelevantConditionsMet_def relevantLBMConditionslForLBS_def ConfigReady_def
      EnvoyReady_def EnvoyUpToDate_def Minute_def Second_def Millisecond_def)

lemma marker_is_transparent_witness:
  "lbm_Conditions (lbm_Status (removeDeletionCondition (setDeletionCondition 5 example_marked (deletion_mark [])))) = Some []"
proof -
  have "lbm_Conditions (lbm_Status example_marked) = Some [\<lparr>nc_Type = DeletionMarkerCondition, nc_Status = ConditionTrue,
     nc_LastHeartbeatTime = zero_time, nc_LastTransitionTime = 11 * Minute, nc_Reason = ''PendingDeletion'',
     nc_Message = ''no conditions set''\<rparr>]" by (simp add: example_marked_def)
  from marker_is_transparent [OF this] show ?thesis by simp
qed

text \<open>A machine whose three conditions are true; an earlier condition that is false does not count.\<close>

definition example_healthy :: load_balancer_machine where
  "example_healthy = with_conditions
     [\<lparr>nc_Type = ty, nc_Status = (if ty = KeepalivedMaster then ConditionFalse else ConditionTrue),
       nc_LastHeartbeatTime = 3 * Minute, nc_LastTransitionTime = 0, nc_Reason = [], nc_Message = []\<rparr>.
       ty \<leftarrow> KeepalivedMaster # relevantLBMConditionslForLBS] example_machine"

lemma conditions_met_spec_witness:
  "\<exists>cs xs c ys. lbm_Conditions (lbm_Status example_healthy) = Some cs \<and> cs = xs @ c # ys \<and> nc_Type c = EnvoyReady \<and>
     2 * Minute \<le> nc_LastHeartbeatTime c"
proof -
  have "AreRelevantConditionsMet example_healthy (2 * Minute) False = None"
    by (simp add: example_healthy_def AreRelevantConditionsMet_def relevantLBMConditionslForLBS_def ConfigReady_def
        EnvoyReady_def EnvoyUpToDate_def KeepalivedMaster_def Minute_def Second_def Millisecond_def)
  then show ?thesis
    unfolding conditions_met_spec by blast
qed

end
