(* ===== verification/LBSController.thy ===== *)
theory LBSController
  imports LBDelete MachineHealth
begin

text \<open>
  The reconciler of LoadBalancerSets,
  \<open>controllers/yawol-controller/loadbalancerset/loadbalancerset_controller.go\<close>: it creates and
  deletes LoadBalancerMachines until their number is the one desired, and reports how many are ready
  and whether one of them is the keepalived master. \<open>meta.SetStatusCondition\<close> of the Kubernetes
  libraries is a parameter of the reconciler.
\<close>

section \<open>The reconciler\<close>

record 'w set_reconciler =
  lr_Client :: "'w kube"
  lr_SetStatusCondition :: "int \<Rightarrow> condition \<Rightarrow> condition list \<Rightarrow> condition list"

definition FINALIZER :: string where
  "FINALIZER = ''stackit.cloud/loadbalancermachine''"

definition containsString :: "string list \<Rightarrow> string \<Rightarrow> bool" where
  "containsString strs s = list_ex (\<lambda>item. item = s) strs"

text \<open>\<open>fmt.Sprintf("%x", buf)[:length]\<close> of 16 random bytes.\<close>

definition hex_byte :: "char \<Rightarrow> string" where
  "hex_byte c = [''0123456789abcdef'' ! (of_char c div 16), ''0123456789abcdef'' ! (of_char c mod 16)]"

definition randomString :: "'w kube \<Rightarrow> nat \<Rightarrow> (string \<Rightarrow> ('w, 'a) kop) \<Rightarrow> ('w, 'a) kop" where
  "randomString k n m = readW (k_random k) (\<lambda>r.
     case r of
       Ok buf \<Rightarrow>
         let s = concat (map hex_byte buf)
         in if length s < n then crash ''slice bounds out of range'' else m (take n s)
     | Err e \<Rightarrow> crash (Error_text e)
     | Crash c \<Rightarrow> crash c)"

definition getMachineLabelsFromSet :: "load_balancer_set \<Rightarrow> labels" where
  "getMachineLabelsFromSet lbs = MatchLabels (sspec_Selector (set_Spec lbs))"

definition ListMachines :: "'w kube \<Rightarrow> string \<Rightarrow> labels \<Rightarrow> ('w, load_balancer_machine list) kop" where
  "ListMachines k ns q = ext (CListMachines ns q) (k_ListMachines k ns q)"

text \<open>\<open>AddFinalizerIfNeeded\<close> and \<open>RemoveFinalizerIfNeeded\<close> on a set; the answer of the patch is the
  set that is used from there on.\<close>

definition AddFinalizerToSet :: "'w kube \<Rightarrow> load_balancer_set \<Rightarrow> string \<Rightarrow> ('w, load_balancer_set) kop" where
  "AddFinalizerToSet k lbs finalizer =
     (if ContainsFinalizer (meta_Finalizers lbs) finalizer then ret lbs
      else let p = PatchFinalizers (meta_Finalizers lbs @ [finalizer])
           in ext (CPatchSetMeta (key_of lbs) p) (k_PatchSetMeta k (key_of lbs) p))"

definition RemoveFinalizerFromSet :: "'w kube \<Rightarrow> load_balancer_set \<Rightarrow> string \<Rightarrow> ('w, unit) kop" where
  "RemoveFinalizerFromSet k lbs finalizer =
     (if \<not> ContainsFinalizer (meta_Finalizers lbs) finalizer then ret ()
      else let p = PatchFinalizers (RemoveFinalizer (meta_Finalizers lbs) finalizer)
           in bindM (ext (CPatchSetMeta (key_of lbs) p) (k_PatchSetMeta k (key_of lbs) p)) (\<lambda>_. ret ()))"

section \<open>Machines\<close>

definition new_machine :: "load_balancer_set \<Rightarrow> string \<Rightarrow> load_balancer_machine" where
  "new_machine lbs name =
     \<lparr>meta_APIVersion = [], meta_Kind = [], meta_Name = name, meta_Namespace = meta_Namespace lbs, meta_UID = [],
      meta_ResourceVersion = [], meta_Labels = getMachineLabelsFromSet lbs,
      meta_Annotations = [RevisionAnnotation \<mapsto> at_key (meta_Annotations lbs) RevisionAnnotation],
      meta_Finalizers = [],
      meta_OwnerReferences = [\<lparr>or_APIVersion = meta_APIVersion lbs, or_Kind = meta_Kind lbs,
        or_Name = meta_Name lbs, or_UID = meta_UID lbs\<rparr>],
      meta_CreationTimestamp = zero_time, meta_DeletionTimestamp = None,
      lbm_Spec = tmpl_Spec (sspec_Template (set_Spec lbs)),
      lbm_Status = \<lparr>lbm_Conditions = None, lbm_Metrics = None, lbm_CreationTimestamp = None,
        lbm_LastOpenstackReconcile = None, lbm_ServerID = None, lbm_PortID = None, lbm_DefaultPortID = None,
        lbm_DefaultPortName = None, lbm_DefaultPortIP = None, lbm_ServiceAccountName = None,
        lbm_ServiceAccountSecretName = None, lbm_RoleName = None, lbm_RoleBindingName = None\<rparr>\<rparr>"

definition createMachine :: "'w kube \<Rightarrow> load_balancer_set \<Rightarrow> ('w, unit) kop" where
  "createMachine k lbs =
     randomString k 5 (\<lambda>suffix.
       let machine = new_machine lbs (meta_Name lbs @ ''-'' @ suffix) in
       thenM (record_call (CEvent (key_of machine) ''Normal'' ''Created''
           (''Created LoadBalancerMachine '' @ meta_Namespace machine @ ''/'' @ meta_Name machine)))
         (bindM (ext (CCreateMachine machine) (k_CreateMachine k machine)) (\<lambda>_. ret ())))"

definition deleteAllMachines :: "'w kube \<Rightarrow> load_balancer_set \<Rightarrow> ('w, unit) kop" where
  "deleteAllMachines k lbs =
     bindM (ListMachines k (meta_Namespace lbs) (getMachineLabelsFromSet lbs)) (\<lambda>childMachines.
       forM childMachines (\<lambda>machine.
         thenM (DeleteMachine k machine)
           (record_call (CEvent (key_of lbs) ''Normal'' ''Deleted'' (''Deleted loadBalancerMachine '' @ meta_Name machine)))))"

section \<open>Which machine to delete\<close>

definition ErrNoLBMFoundForScaleDown :: goerr where
  "ErrNoLBMFoundForScaleDown = HelperErr ''no lbm found for scale down''"

text \<open>The first loop reads the clock for every machine it looks at.\<close>

fun firstUnready :: "'w kube \<Rightarrow> load_balancer_machine list \<Rightarrow> ('w, load_balancer_machine option) kop" where
  "firstUnready k [] = ret None"
| "firstUnready k (m # ms) = nowM k (\<lambda>now. if \<not> isMachineReady now m then ret (Some m) else firstUnready k ms)"

text \<open>The second one dereferences the conditions.\<close>

fun firstNotMaster :: "load_balancer_machine list \<Rightarrow> load_balancer_machine option result" where
  "firstNotMaster [] = Ok None"
| "firstNotMaster (m # ms) =
     (case lbm_Conditions (lbm_Status m) of
        None \<Rightarrow> Crash ''nil pointer dereference''
      | Some cs \<Rightarrow>
          if list_ex (\<lambda>c. nc_Type c = KeepalivedMaster \<and> nc_Status c \<noteq> ConditionTrue) cs then Ok (Some m)
          else firstNotMaster ms)"

definition findFirstMachineForDeletion :: "'w kube \<Rightarrow> load_balancer_machine list \<Rightarrow> ('w, load_balancer_machine) kop" where
  "findFirstMachineForDeletion k machines =
     bindM (firstUnready k machines) (\<lambda>unready.
     case unready of
       Some m \<Rightarrow> ret m
     | None \<Rightarrow>
         bindM (liftR (firstNotMaster machines)) (\<lambda>notMaster.
         case notMaster of
           Some m \<Rightarrow> ret m
         | None \<Rightarrow>
             (case machines of
                [] \<Rightarrow> fail ErrNoLBMFoundForScaleDown
              | m # _ \<Rightarrow> ret m)))"

section \<open>Replicas\<close>

definition reconcileReplicas :: "'w kube \<Rightarrow> load_balancer_set \<Rightarrow> load_balancer_machine list \<Rightarrow> int \<Rightarrow> ('w, int) kop" where
  "reconcileReplicas k lbs machines deletedMachineCount =
     (if int (length machines) < sspec_Replicas (set_Spec lbs) then
        thenM (createMachine k lbs) (ret (2 * Second))
      else if sspec_Replicas (set_Spec lbs) < int (length machines) - deletedMachineCount then
        bindM (findFirstMachineForDeletion k machines) (\<lambda>machineForDeletion.
        thenM (DeleteMachine k machineForDeletion) (ret (2 * Second)))
      else ret 0)"

section \<open>Status\<close>

definition json_set_condition :: "condition \<Rightarrow> condition" where
  "json_set_condition c = c\<lparr>cond_LastTransitionTime := trunc_time (cond_LastTransitionTime c)\<rparr>"

definition json_set_status :: "set_status \<Rightarrow> set_status" where
  "json_set_status st = st\<lparr>set_Conditions := map json_set_condition (set_Conditions st)\<rparr>"

definition master_condition :: "bool \<Rightarrow> condition" where
  "master_condition hasKeepalivedMaster =
     (if hasKeepalivedMaster then
        \<lparr>cond_Type = HasKeepalivedMaster, cond_Status = ConditionTrue, cond_LastTransitionTime = zero_time,
         cond_Reason = ''KeepalivedMasterInSet'', cond_Message = ''LoadBalancerSet has a master machine''\<rparr>
      else
        \<lparr>cond_Type = HasKeepalivedMaster, cond_Status = ConditionFalse, cond_LastTransitionTime = zero_time,
         cond_Reason = ''NoKeepalivedMasterInSet'', cond_Message = ''LoadBalancerSet doesn'' @ [CHR 39] @ ''t have a master machine''\<rparr>)"

definition patchSetStatus :: "'w set_reconciler \<Rightarrow> load_balancer_set \<Rightarrow> int \<Rightarrow> bool \<Rightarrow> ('w, unit) kop" where
  "patchSetStatus lr lbs readyMachinesCount hasKeepalivedMaster =
     nowM (lr_Client lr) (\<lambda>now.
       let old = set_Status lbs;
           new = old\<lparr>set_Replicas := Some (sspec_Replicas (set_Spec lbs)),
             set_ReadyReplicas := Some readyMachinesCount,
             set_Conditions := lr_SetStatusCondition lr now (master_condition hasKeepalivedMaster) (set_Conditions old)\<rparr>
       in if new = old then ret ()
          else let new = json_set_status new in
            bindM (ext (CPatchSetStatus (key_of lbs) old new) (k_PatchSetStatus (lr_Client lr) (key_of lbs) old new)) (\<lambda>_. ret ()))"

section \<open>Deletion and reconcile\<close>

definition setDeletionRoutine :: "'w kube \<Rightarrow> load_balancer_set \<Rightarrow> ('w, int) kop" where
  "setDeletionRoutine k lbs =
     thenM (if containsString (meta_Finalizers lbs) FINALIZER then deleteAllMachines k lbs else ret ())
     (bindM (ListMachines k (meta_Namespace lbs) (getMachineLabelsFromSet lbs)) (\<lambda>childMachines.
     if childMachines \<noteq> [] then ret (10 * Second)
     else
       thenM (record_call (CMetrics ''RemoveLoadBalancerSetMetrics'' (key_of lbs)))
       (thenM (RemoveFinalizerFromSet k lbs FINALIZER)
       (ret 0))))"

text \<open>The loop that counts: deleted machines, ready machines, and whether one is the master.\<close>

record machine_counts =
  mc_ready :: int
  mc_deleted :: int
  mc_master :: bool

fun countMachines :: "'w kube \<Rightarrow> machine_counts \<Rightarrow> load_balancer_machine list \<Rightarrow> ('w, machine_counts) kop" where
  "countMachines k n [] = ret n"
| "countMachines k n (m # ms) =
     (if is_deleting m then countMachines k (n\<lparr>mc_deleted := mc_deleted n + 1\<rparr>) ms
      else
        let n = (if isMachineKeepalivedMaster m then n\<lparr>mc_master := True\<rparr> else n) in
        nowM k (\<lambda>now.
          if isMachineReady now m then countMachines k (n\<lparr>mc_ready := mc_ready n + 1\<rparr>) ms
          else countMachines k n ms))"

text \<open>The part after the listing; the error of \<open>reconcileReplicas\<close> is returned only when the status
  patch fails too. The error of \<open>AddFinalizerIfNeeded\<close> is not looked at.\<close>

definition correctAndReport :: "'w set_reconciler \<Rightarrow> load_balancer_set \<Rightarrow> load_balancer_machine list \<Rightarrow> ('w, int) kop" where
  "correctAndReport lr lbs childMachines =
     bindM (countMachines (lr_Client lr) \<lparr>mc_ready = 0, mc_deleted = 0, mc_master = False\<rparr> childMachines) (\<lambda>n.
     bindM (catchM (reconcileReplicas (lr_Client lr) lbs childMachines (mc_deleted n))
         (\<lambda>e. ret (Inl e)) (\<lambda>res. ret (Inr res))) (\<lambda>res.
     catchM (patchSetStatus lr lbs (mc_ready n) (mc_master n))
       (\<lambda>patchErr. fail (case res of Inl err \<Rightarrow> JoinedErr err patchErr | Inr _ \<Rightarrow> patchErr))
       (\<lambda>_. let requeueAfter = (case res of Inl _ \<Rightarrow> 0 | Inr d \<Rightarrow> d) in
          ret (if requeueAfter = 0 then 10 * Second else requeueAfter))))"

definition reconcileSet :: "'w set_reconciler \<Rightarrow> namespaced_name \<Rightarrow> load_balancer_set \<Rightarrow> ('w, int) kop" where
  "reconcileSet lr req lbs =
     thenM (record_call (CMetrics ''ParseLoadBalancerSetMetrics'' (key_of lbs)))
     (bindM (catchM (AddFinalizerToSet (lr_Client lr) lbs FINALIZER) (\<lambda>_. ret lbs) ret) (\<lambda>lbs.
     bindM (ListMachines (lr_Client lr) (nn_Namespace req) (getMachineLabelsFromSet lbs)) (\<lambda>childMachines.
     correctAndReport lr lbs childMachines)))"

definition SetReconcile :: "'w set_reconciler \<Rightarrow> namespaced_name \<Rightarrow> ('w, int) kop" where
  "SetReconcile lr req =
     catchM (ext (CGetSet req) (k_GetSet (lr_Client lr) req))
       (\<lambda>err. if IsNotFound err then ret 0 else fail err)
       (\<lambda>lbs. if is_deleting lbs then setDeletionRoutine (lr_Client lr) lbs else reconcileSet lr req lbs)"

section \<open>Which machine a scale down takes\<close>

definition reports_not_master :: "load_balancer_machine \<Rightarrow> bool" where
  "reports_not_master m = (\<exists>cs. lbm_Conditions (lbm_Status m) = Some cs \<and>
     (\<exists>c \<in> set cs. nc_Type c = KeepalivedMaster \<and> nc_Status c \<noteq> ConditionTrue))"

definition ready_sometime :: "'w kube \<Rightarrow> load_balancer_machine \<Rightarrow> bool" where
  "ready_sometime k m = (\<exists>w. isMachineReady (fst (k_now k w)) m)"

definition unready_sometime :: "'w kube \<Rightarrow> load_balancer_machine \<Rightarrow> bool" where
  "unready_sometime k m = (\<exists>w. \<not> isMachineReady (fst (k_now k w)) m)"

lemma ready_conditions: "isMachineReady now m \<Longrightarrow> lbm_Conditions (lbm_Status m) \<noteq> None"
  by (cases "lbm_Conditions (lbm_Status m)") (auto simp: isMachineReady_def AreRelevantConditionsMet_def)

lemma runs_firstUnready:
  "runs (firstUnready k ms) s (\<lambda>r t. trace t = trace s \<and>
     ((\<exists>m \<in> set ms. r = Ok (Some m) \<and> unready_sometime k m) \<or>
      r = Ok None \<and> (\<forall>m \<in> set ms. ready_sometime k m)))"
proof (induction ms arbitrary: s)
  case Nil
  then show ?case by (simp add: runs_simps)
next
  case (Cons m ms)
  obtain now w where now: "k_now k (world s) = (now, w)" by (cases "k_now k (world s)")
  then have "now = fst (k_now k (world s))" by simp
  then have m: "\<not> isMachineReady now m \<Longrightarrow> unready_sometime k m" "isMachineReady now m \<Longrightarrow> ready_sometime k m"
    by (auto simp: unready_sometime_def ready_sometime_def)
  show ?case
    using m by (auto simp: runs_simps now intro: runs_weaken [OF Cons.IH])
qed

lemma firstNotMaster_total:
  "\<forall>m \<in> set ms. lbm_Conditions (lbm_Status m) \<noteq> None \<Longrightarrow>
     (\<exists>m \<in> set ms. firstNotMaster ms = Ok (Some m) \<and> reports_not_master m) \<or>
     firstNotMaster ms = Ok None \<and> (\<forall>m \<in> set ms. \<not> reports_not_master m)"
  by (induction ms) (auto simp: reports_not_master_def list_ex_iff split: option.split)

text \<open>The machine found, for any list that is not empty; the dereference of the second loop is safe.\<close>

definition scale_down_choice :: "'w kube \<Rightarrow> load_balancer_machine list \<Rightarrow> load_balancer_machine \<Rightarrow> bool" where
  "scale_down_choice k ms m = (m \<in> set ms \<and>
     (unready_sometime k m \<or>
      (\<forall>m' \<in> set ms. ready_sometime k m') \<and>
      (reports_not_master m \<or> (\<forall>m' \<in> set ms. \<not> reports_not_master m') \<and> m = hd ms)))"

lemma runs_findFirst:
  assumes "ms \<noteq> []"
  shows "runs (findFirstMachineForDeletion k ms) s (\<lambda>r t. trace t = trace s \<and> (\<exists>m. r = Ok m \<and> scale_down_choice k ms m))"
proof -
  have rest: "runs (bindM (liftR (firstNotMaster ms)) (\<lambda>notMaster. case notMaster of Some m \<Rightarrow> ret m
      | None \<Rightarrow> (case ms of [] \<Rightarrow> fail ErrNoLBMFoundForScaleDown | m # _ \<Rightarrow> ret m))) t
      (\<lambda>r u. trace u = trace s \<and> (\<exists>m. r = Ok m \<and> scale_down_choice k ms m))"
    if "trace t = trace s" "\<forall>m \<in> set ms. ready_sometime k m" for t
  proof -
    have "\<forall>m \<in> set ms. lbm_Conditions (lbm_Status m) \<noteq> None"
      using that(2) ready_conditions by (fastforce simp: ready_sometime_def)
    from firstNotMaster_total [OF this] that assms show ?thesis
      by (auto simp: runs_simps scale_down_choice_def neq_Nil_conv)
  qed
  show ?thesis
    unfolding findFirstMachineForDeletion_def runs_bindM
  proof (rule runs_weaken [OF runs_firstUnready])
    fix r t
    assume "trace t = trace s \<and> ((\<exists>m \<in> set ms. r = Ok (Some m) \<and> unready_sometime k m) \<or>
        r = Ok None \<and> (\<forall>m \<in> set ms. ready_sometime k m))"
    then show "caseR (\<lambda>unready t. runs (case unready of None \<Rightarrow> bindM (liftR (firstNotMaster ms)) (\<lambda>notMaster.
          case notMaster of None \<Rightarrow> (case ms of [] \<Rightarrow> fail ErrNoLBMFoundForScaleDown | m # _ \<Rightarrow> ret m) | Some m \<Rightarrow> ret m)
        | Some m \<Rightarrow> ret m) t (\<lambda>r t. trace t = trace s \<and> (\<exists>m. r = Ok m \<and> scale_down_choice k ms m)))
      (\<lambda>e t. trace t = trace s \<and> (\<exists>m. Err e = Ok m \<and> scale_down_choice k ms m))
      (\<lambda>c t. trace t = trace s \<and> (\<exists>m. Crash c = Ok m \<and> scale_down_choice k ms m)) r t"
      using rest by (auto simp: runs_ret scale_down_choice_def)
  qed
qed

section \<open>One reconcile, one step\<close>

definition hex_digits :: "char set" where
  "hex_digits = set ''0123456789abcdef''"

lemma hex_byte_digits: "set (hex_byte c) \<subseteq> hex_digits"
proof -
  have "(of_char c :: nat) div 16 < 16" "(of_char c :: nat) mod 16 < 16"
    by (simp_all add: div_less_iff_less_mult)
  then have "''0123456789abcdef'' ! (of_char c div 16) \<in> hex_digits" "''0123456789abcdef'' ! (of_char c mod 16) \<in> hex_digits"
    unfolding hex_digits_def by (intro nth_mem, simp)+
  then show ?thesis by (simp add: hex_byte_def)
qed

lemma runs_randomString:
  assumes "\<And>suffix t. trace t = trace s \<Longrightarrow> length suffix = n \<Longrightarrow> set suffix \<subseteq> hex_digits \<Longrightarrow> runs (m suffix) t R"
    and "\<And>c t. trace t = trace s \<Longrightarrow> R (Crash c) t"
  shows "runs (randomString k n m) s R"
proof -
  have "set (take n (concat (map hex_byte buf))) \<subseteq> hex_digits" for buf
    using hex_byte_digits by (fastforce dest: in_set_takeD)
  then show ?thesis
    by (auto simp: randomString_def runs_simps Let_def assms split: prod.split result.split)
qed

definition created_machine :: "load_balancer_set \<Rightarrow> load_balancer_machine \<Rightarrow> bool" where
  "created_machine lbs m = (\<exists>suffix. length suffix = 5 \<and> set suffix \<subseteq> hex_digits \<and>
     m = new_machine lbs (meta_Name lbs @ ''-'' @ suffix))"

lemma runs_createMachine:
  fixes k :: "'w kube"
  shows "runs (createMachine k lbs) s (\<lambda>r t.
    (\<exists>m ev ok. created_machine lbs m \<and> trace t = trace s @ [(CEvent (key_of m) ''Normal'' ''Created'' ev, True), (CCreateMachine m, ok)])
    \<or> is_Crash r \<and> trace t = trace s)"
  unfolding createMachine_def
proof (rule runs_randomString)
  fix suffix and u :: "('w, call) st"
  assume "trace u = trace s" "length suffix = 5" "set suffix \<subseteq> hex_digits"
  then have "created_machine lbs (new_machine lbs (meta_Name lbs @ ''-'' @ suffix))"
    unfolding created_machine_def by blast
  with \<open>trace u = trace s\<close> show "runs (let machine = new_machine lbs (meta_Name lbs @ ''-'' @ suffix) in
      thenM (record_call (CEvent (key_of machine) ''Normal'' ''Created''
        (''Created LoadBalancerMachine '' @ meta_Namespace machine @ ''/'' @ meta_Name machine)))
      (bindM (ext (CCreateMachine machine) (k_CreateMachine k machine)) (\<lambda>_. ret ()))) u
    (\<lambda>r t. (\<exists>m ev ok. created_machine lbs m \<and>
        trace t = trace s @ [(CEvent (key_of m) ''Normal'' ''Created'' ev, True), (CCreateMachine m, ok)])
      \<or> is_Crash r \<and> trace t = trace s)"
    by (auto simp: runs_simps caseR_def Let_def split: prod.split result.split)
qed simp

text \<open>C33. The number of machines is corrected one at a time and never overshoots: a reconcile creates
  a machine only when there are fewer than desired, counting those being deleted, and then exactly
  one, made from the template of the set and named after it with five hexadecimal digits; it deletes
  a machine only when more than desired are not being deleted, and then exactly one: an unready one
  if there is one, otherwise one that reports not to be the keepalived master, otherwise the first;
  and else it does nothing. The choice never fails and never panics.\<close>

theorem replicas_one_step:
  fixes k :: "'w kube"
  assumes "reconcileReplicas k lbs ms d s = (r, t)" and "0 \<le> d" and "0 \<le> sspec_Replicas (set_Spec lbs)"
  shows "if int (length ms) < sspec_Replicas (set_Spec lbs) then
      (\<exists>m ev ok. created_machine lbs m \<and> trace t = trace s @ [(CEvent (key_of m) ''Normal'' ''Created'' ev, True), (CCreateMachine m, ok)])
      \<or> is_Crash r \<and> trace t = trace s
    else if sspec_Replicas (set_Spec lbs) < int (length ms) - d then
      (\<exists>m ok. scale_down_choice k ms m \<and> trace t = trace s @ [(CDeleteMachine (key_of m), ok)])
    else r = Ok 0 \<and> trace t = trace s"
proof -
  consider (create) "int (length ms) < sspec_Replicas (set_Spec lbs)"
    | (delete) "sspec_Replicas (set_Spec lbs) \<le> int (length ms)" "sspec_Replicas (set_Spec lbs) < int (length ms) - d"
    | (keep) "sspec_Replicas (set_Spec lbs) \<le> int (length ms)" "int (length ms) - d \<le> sspec_Replicas (set_Spec lbs)"
    by linarith
  then show ?thesis
  proof cases
    case create
    then have "runs (reconcileReplicas k lbs ms d) s (\<lambda>r t.
        (\<exists>m ev ok. created_machine lbs m \<and> trace t = trace s @ [(CEvent (key_of m) ''Normal'' ''Created'' ev, True), (CCreateMachine m, ok)])
        \<or> is_Crash r \<and> trace t = trace s)"
      using runs_createMachine [of k lbs s]
      by (auto simp: reconcileReplicas_def runs_simps caseR_def elim!: runs_weaken split: result.split)
    from runsD [OF this assms(1)] create show ?thesis by simp
  next
    case delete
    with assms(2,3) have "ms \<noteq> []" by auto
    from runs_findFirst [OF this, of k s]
    have "runs (reconcileReplicas k lbs ms d) s (\<lambda>r t. \<exists>m ok. scale_down_choice k ms m \<and> trace t = trace s @ [(CDeleteMachine (key_of m), ok)])"
      using delete
      by (auto simp: reconcileReplicas_def runs_simps caseR_def DeleteMachine_def elim!: runs_weaken split: result.split prod.split)
        blast+
    from runsD [OF this assms(1)] delete show ?thesis by simp
  next
    case keep
    then show ?thesis using assms(1) by (auto simp: reconcileReplicas_def ret_def)
  qed
qed

section \<open>What the status reports\<close>

lemma runs_countMachines:
  "runs (countMachines k n ms) s (\<lambda>r t. trace t = trace s \<and> (\<exists>n'. r = Ok n' \<and>
     mc_deleted n' = mc_deleted n + int (length (filter is_deleting ms)) \<and>
     mc_ready n \<le> mc_ready n' \<and> mc_ready n' \<le> mc_ready n + int (length (filter (\<lambda>m. \<not> is_deleting m) ms)) \<and>
     mc_ready n + int (length (filter (\<lambda>m. \<not> is_deleting m \<and> \<not> unready_sometime k m) ms)) \<le> mc_ready n' \<and>
     mc_ready n' \<le> mc_ready n + int (length (filter (\<lambda>m. \<not> is_deleting m \<and> ready_sometime k m) ms)) \<and>
     mc_master n' = (mc_master n \<or> (\<exists>m \<in> set ms. \<not> is_deleting m \<and> isMachineKeepalivedMaster m))))"
proof (induction ms arbitrary: s n)
  case Nil
  then show ?case by (simp add: runs_simps)
next
  case (Cons m ms)
  obtain now w where now: "k_now k (world s) = (now, w)" by (cases "k_now k (world s)")
  then have "now = fst (k_now k (world s))" by simp
  then have m: "\<not> isMachineReady now m \<Longrightarrow> unready_sometime k m" "isMachineReady now m \<Longrightarrow> ready_sometime k m"
    by (auto simp: unready_sometime_def ready_sometime_def)
  show ?case
    using m by (auto simp: runs_simps now Let_def intro!: runs_weaken [OF Cons.IH])
qed

lemma returns_count:
  "returns (\<lambda>n. 0 \<le> mc_ready n \<and>
     int (length (filter (\<lambda>m. \<not> is_deleting m \<and> \<not> unready_sometime k m) ms)) \<le> mc_ready n \<and>
     mc_ready n \<le> int (length (filter (\<lambda>m. \<not> is_deleting m \<and> ready_sometime k m) ms)) \<and>
     mc_deleted n = int (length (filter is_deleting ms)) \<and>
     mc_master n = (\<exists>m \<in> set ms. \<not> is_deleting m \<and> isMachineKeepalivedMaster m))
   (countMachines k \<lparr>mc_ready = 0, mc_deleted = 0, mc_master = False\<rparr> ms)"
  unfolding returns_def
proof
  fix s
  show "runs (countMachines k \<lparr>mc_ready = 0, mc_deleted = 0, mc_master = False\<rparr> ms) s (\<lambda>r _. \<forall>n. r = Ok n \<longrightarrow> 0 \<le> mc_ready n \<and>
     int (length (filter (\<lambda>m. \<not> is_deleting m \<and> \<not> unready_sometime k m) ms)) \<le> mc_ready n \<and>
     mc_ready n \<le> int (length (filter (\<lambda>m. \<not> is_deleting m \<and> ready_sometime k m) ms)) \<and>
     mc_deleted n = int (length (filter is_deleting ms)) \<and>
     mc_master n = (\<exists>m \<in> set ms. \<not> is_deleting m \<and> isMachineKeepalivedMaster m))"
    by (rule runs_weaken [OF runs_countMachines]) auto
qed

lemma emits_countMachines: "emits P (countMachines k n ms)"
proof -
  have "emits P (countMachines k n ms)" for n
    by (induction ms arbitrary: n) (auto intro!: emits_intros simp: Let_def)
  then show ?thesis .
qed

lemma returns_answer: "returns (\<lambda>x. \<exists>w w'. f w = (Ok x, w')) (ext c f)"
  by (auto simp: returns_def runs_simps split: prod.split)

text \<open>What a status patch of the set \<open>lbs\<close> says about the machines \<open>ms\<close>.\<close>

definition reports :: "'w set_reconciler \<Rightarrow> load_balancer_set \<Rightarrow> load_balancer_machine list \<Rightarrow> set_status \<Rightarrow> bool" where
  "reports lr lbs ms new = (set_Replicas new = Some (sspec_Replicas (set_Spec lbs)) \<and>
     (\<exists>n. set_ReadyReplicas new = Some n \<and>
        int (length (filter (\<lambda>m. \<not> is_deleting m \<and> \<not> unready_sometime (lr_Client lr) m) ms)) \<le> n \<and>
        n \<le> int (length (filter (\<lambda>m. \<not> is_deleting m \<and> ready_sometime (lr_Client lr) m) ms))) \<and>
     (\<exists>now. set_Conditions new = map json_set_condition (lr_SetStatusCondition lr now
        (master_condition (\<exists>m \<in> set ms. \<not> is_deleting m \<and> isMachineKeepalivedMaster m)) (set_Conditions (set_Status lbs)))))"

definition true_report :: "'w set_reconciler \<Rightarrow> namespaced_name \<Rightarrow> load_balancer_set \<Rightarrow> call \<Rightarrow> bool" where
  "true_report lr req lbs c = (\<forall>n old new. c = CPatchSetStatus n old new \<longrightarrow>
     (\<exists>lbs' ms w w'. (ContainsFinalizer (meta_Finalizers lbs) FINALIZER \<longrightarrow> lbs' = lbs) \<and> n = key_of lbs' \<and>
        k_ListMachines (lr_Client lr) (nn_Namespace req) (getMachineLabelsFromSet lbs') w = (Ok ms, w') \<and>
        reports lr lbs' ms new))"

lemma emits_reconcileReplicas:
  "(\<And>b o' ty rs msg. P (CEvent o' ty rs msg, b)) \<Longrightarrow> (\<And>b m. P (CCreateMachine m, b)) \<Longrightarrow> (\<And>b n. P (CDeleteMachine n, b)) \<Longrightarrow>
     emits P (reconcileReplicas k lbs ms d)"
proof -
  have "emits P (firstUnready k ms)"
    by (induction ms) (auto intro!: emits_intros)
  then show "(\<And>b o' ty rs msg. P (CEvent o' ty rs msg, b)) \<Longrightarrow> (\<And>b m. P (CCreateMachine m, b)) \<Longrightarrow> (\<And>b n. P (CDeleteMachine n, b)) \<Longrightarrow>
     emits P (reconcileReplicas k lbs ms d)"
    unfolding reconcileReplicas_def createMachine_def randomString_def findFirstMachineForDeletion_def DeleteMachine_def Let_def
    by (auto intro!: emits_intros split: result.split)
qed

lemma emits_patchSetStatus:
  assumes "\<And>b now. P (CPatchSetStatus (key_of lbs) (set_Status lbs) (json_set_status ((set_Status lbs)\<lparr>
      set_Replicas := Some (sspec_Replicas (set_Spec lbs)), set_ReadyReplicas := Some n,
      set_Conditions := lr_SetStatusCondition lr now (master_condition ma) (set_Conditions (set_Status lbs))\<rparr>)), b)"
  shows "emits P (patchSetStatus lr lbs n ma)"
  unfolding patchSetStatus_def Let_def by (intro emits_intros assms)

lemma emits_correctAndReport:
  assumes "ContainsFinalizer (meta_Finalizers lbs) FINALIZER \<longrightarrow> lbs' = lbs"
    and "\<exists>w w'. k_ListMachines (lr_Client lr) (nn_Namespace req) (getMachineLabelsFromSet lbs') w = (Ok ms, w')"
  shows "emits (\<lambda>c. true_report lr req lbs (fst c)) (correctAndReport lr lbs' ms)"
  unfolding correctAndReport_def
proof (rule emits_bindM_returns [OF emits_countMachines returns_count], intro emits_intros emits_reconcileReplicas emits_patchSetStatus)
  fix n b now
  let ?new = "json_set_status ((set_Status lbs')\<lparr>set_Replicas := Some (sspec_Replicas (set_Spec lbs')),
      set_ReadyReplicas := Some (mc_ready n),
      set_Conditions := lr_SetStatusCondition lr now (master_condition (mc_master n)) (set_Conditions (set_Status lbs'))\<rparr>)"
  assume "0 \<le> mc_ready n \<and> int (length (filter (\<lambda>m. \<not> is_deleting m \<and> \<not> unready_sometime (lr_Client lr) m) ms)) \<le> mc_ready n \<and>
     mc_ready n \<le> int (length (filter (\<lambda>m. \<not> is_deleting m \<and> ready_sometime (lr_Client lr) m) ms)) \<and>
     mc_deleted n = int (length (filter is_deleting ms)) \<and>
     mc_master n = (\<exists>m \<in> set ms. \<not> is_deleting m \<and> isMachineKeepalivedMaster m)"
  then have "reports lr lbs' ms ?new"
    by (auto simp: reports_def json_set_status_def)
  with assms show "true_report lr req lbs (fst (CPatchSetStatus (key_of lbs') (set_Status lbs') ?new, b))"
    unfolding true_report_def by fastforce
qed (simp_all add: true_report_def)

lemma emits_reconcileSet: "emits (\<lambda>c. true_report lr req lbs (fst c)) (reconcileSet lr req lbs)"
  unfolding reconcileSet_def
proof (intro emits_thenM emits_bindM_returns [where Q = "\<lambda>lbs'. ContainsFinalizer (meta_Finalizers lbs) FINALIZER \<longrightarrow> lbs' = lbs"])
  show "returns (\<lambda>lbs'. ContainsFinalizer (meta_Finalizers lbs) FINALIZER \<longrightarrow> lbs' = lbs)
      (catchM (AddFinalizerToSet (lr_Client lr) lbs FINALIZER) (\<lambda>_. ret lbs) ret)"
    by (auto simp: AddFinalizerToSet_def Let_def returns_def runs_simps caseR_def split: prod.split result.split)
  show "emits (\<lambda>c. true_report lr req lbs (fst c)) (bindM (ListMachines (lr_Client lr) (nn_Namespace req) (getMachineLabelsFromSet lbs'))
      (correctAndReport lr lbs'))" if "ContainsFinalizer (meta_Finalizers lbs) FINALIZER \<longrightarrow> lbs' = lbs" for lbs'
    unfolding ListMachines_def
    by (rule emits_bindM_returns [OF _ returns_answer emits_correctAndReport [OF that]]) (intro emits_intros, simp_all add: true_report_def)
qed (auto simp: true_report_def AddFinalizerToSet_def Let_def intro!: emits_intros)


section \<open>Errors of the machines\<close>

text \<open>\<open>blames Q m\<close>: an error of \<open>m\<close> comes with a call that satisfies \<open>Q\<close>.\<close>

definition blamed :: "(call \<times> bool \<Rightarrow> bool) \<Rightarrow> ('w, call) st \<Rightarrow> 'a result \<Rightarrow> ('w, call) st \<Rightarrow> bool" where
  "blamed Q s r t = (\<exists>cs. trace t = trace s @ cs \<and> (\<forall>e. r = Err e \<longrightarrow> (\<exists>c \<in> set cs. Q c)))"

definition blames :: "(call \<times> bool \<Rightarrow> bool) \<Rightarrow> ('w, 'a) kop \<Rightarrow> bool" where
  "blames Q m = (\<forall>s. runs m s (blamed Q s))"

lemma blames_runs: "blames Q m \<Longrightarrow> runs m s (blamed Q s)"
  by (simp add: blames_def)

lemma blamed_trans: "extends (\<lambda>_. True) s t \<Longrightarrow> blamed Q t r u \<Longrightarrow> blamed Q s r u"
  by (fastforce simp: extends_def blamed_def)

lemma blamed_keeps: "blamed Q s (Err e) t \<Longrightarrow> extends (\<lambda>_. True) t u \<Longrightarrow> blamed Q s r u"
  by (fastforce simp: extends_def blamed_def)

lemma blamed_extends: "blamed Q s r t \<Longrightarrow> extends (\<lambda>_. True) s t"
  by (auto simp: extends_def blamed_def)

lemma blamed_Crash: "extends (\<lambda>_. True) s t \<Longrightarrow> blamed Q s (Crash c) t"
  by (auto simp: extends_def blamed_def)

lemma blames_ret: "blames Q (ret x)"
  by (simp add: blames_def blamed_def runs_simps)

lemma blames_ext: "Q (c, False) \<Longrightarrow> blames Q (ext c f)"
  by (auto simp: blames_def blamed_def runs_simps split: prod.split)

lemma blames_record: "blames Q (record_call c)"
  by (simp add: blames_def blamed_def runs_simps)

lemma blames_now: "(\<And>x. blames Q (m x)) \<Longrightarrow> blames Q (nowM k m)"
  by (fastforce simp: blames_def blamed_def runs_simps split: prod.split elim: runs_weaken)

text \<open>The two rules for an error that is handled: the one that the handler drops, and the one whose
  call is to blame for what the handler returns.\<close>

lemma blames_dropped:
  fixes m :: "('w, 'a) kop"
  assumes m: "emits (\<lambda>_. True) m" and h: "\<And>e. blames Q (h e)" and k: "\<And>x. blames Q (k x)"
  shows "blames Q (catchM m h k)"
  unfolding blames_def runs_catchM
proof (intro allI runs_weaken [OF emits_runs [OF m]])
  fix s t :: "('w, call) st" and r :: "'a result"
  assume st: "extends (\<lambda>_. True) s t"
  show "caseR (\<lambda>x t. runs (k x) t (blamed Q s)) (\<lambda>e t. runs (h e) t (blamed Q s)) (\<lambda>c. blamed Q s (Crash c)) r t"
    by (cases r) (auto intro: blamed_Crash [OF st] runs_weaken [OF blames_runs [OF h] blamed_trans [OF st]]
        runs_weaken [OF blames_runs [OF k] blamed_trans [OF st]])
qed

lemma blames_catchM:
  fixes m :: "('w, 'a) kop"
  assumes m: "blames Q m" and h: "\<And>e. emits (\<lambda>_. True) (h e)" and k: "\<And>x. blames Q (k x)"
  shows "blames Q (catchM m h k)"
  unfolding blames_def runs_catchM
proof (intro allI runs_weaken [OF blames_runs [OF m]])
  fix s t :: "('w, call) st" and r :: "'a result"
  assume st: "blamed Q s r t"
  show "caseR (\<lambda>x t. runs (k x) t (blamed Q s)) (\<lambda>e t. runs (h e) t (blamed Q s)) (\<lambda>c. blamed Q s (Crash c)) r t"
  proof (cases r)
    case (Err e)
    with st show ?thesis by (auto intro: runs_weaken [OF emits_runs [OF h]] blamed_keeps)
  qed (use blamed_extends [OF st] in
      \<open>auto intro: blamed_Crash runs_weaken [OF blames_runs [OF k]] blamed_trans\<close>)
qed

lemma blames_bindM: "blames Q m \<Longrightarrow> (\<And>x. blames Q (k x)) \<Longrightarrow> blames Q (bindM m k)"
  unfolding bindM_def by (intro blames_catchM emits_fail)

lemma blames_thenM: "blames Q m \<Longrightarrow> blames Q k \<Longrightarrow> blames Q (thenM m k)"
  unfolding thenM_def by (rule blames_bindM)

lemmas blames_intros = blames_ret blames_ext blames_record blames_now blames_bindM blames_thenM

lemma blames_countMachines: "blames Q (countMachines k n ms)"
proof (induction ms arbitrary: n)
  case Nil
  show ?case by (simp add: blames_ret)
next
  case (Cons m ms)
  then show ?case by (auto simp: Let_def intro!: blames_now)
qed

definition listing_or_patch_failed :: "call \<times> bool \<Rightarrow> bool" where
  "listing_or_patch_failed = (\<lambda>(c, ok). \<not> ok \<and>
     ((\<exists>ns q. c = CListMachines ns q) \<or> (\<exists>n old new. c = CPatchSetStatus n old new)))"

lemma blames_patchSetStatus: "blames listing_or_patch_failed (patchSetStatus lr lbs n ma)"
  unfolding patchSetStatus_def Let_def
  by (auto simp: listing_or_patch_failed_def intro!: blames_intros)

lemma blames_correctAndReport: "blames listing_or_patch_failed (correctAndReport lr lbs ms)"
  unfolding correctAndReport_def Let_def
proof (intro blames_bindM blames_countMachines)
  fix n
  show "blames listing_or_patch_failed (catchM (reconcileReplicas (lr_Client lr) lbs ms (mc_deleted n)) (\<lambda>e. ret (Inl e)) (\<lambda>res. ret (Inr res)))"
    by (intro blames_dropped blames_ret emits_reconcileReplicas) simp_all
qed (auto intro!: blames_catchM emits_fail blames_patchSetStatus blames_ret)

text \<open>Errors of the machines are not errors of the reconcile: a reconcile of a set that is not
  being deleted returns an error only if listing the machines or writing the status failed. A
  machine that could not be created or deleted, or a finalizer that could not be written, does not
  show in the result, unlike the handling of errors elsewhere in the controllers.\<close>

theorem machine_errors_dropped:
  assumes "reconcileSet lr req lbs s = (Err e, t)"
  shows "\<exists>cs. trace t = trace s @ cs \<and> (\<exists>c \<in> set cs. listing_or_patch_failed c)"
proof -
  have "blames listing_or_patch_failed (reconcileSet lr req lbs)"
    unfolding reconcileSet_def
  proof (intro blames_thenM blames_bindM blames_record blames_correctAndReport)
    show "blames listing_or_patch_failed (catchM (AddFinalizerToSet (lr_Client lr) lbs FINALIZER) (\<lambda>_. ret lbs) ret)"
      unfolding AddFinalizerToSet_def Let_def by (intro blames_dropped blames_ret emits_intros) simp_all
  qed (auto simp: ListMachines_def listing_or_patch_failed_def intro!: blames_ext)
  then show ?thesis
    using assms by (fastforce simp: blames_def blamed_def dest: runsD)
qed

section \<open>Deleting a set\<close>

text \<open>The machines a set owns, and what the routine relies on of the API: a listing is complete, a
  deletion removes the machine or marks it and touches no other, and metadata of sets is not
  metadata of machines.\<close>

definition owned :: "load_balancer_set \<Rightarrow> load_balancer_machine \<Rightarrow> bool" where
  "owned lbs m = (meta_Namespace m = meta_Namespace lbs \<and> getMachineLabelsFromSet lbs \<subseteq>\<^sub>m meta_Labels m)"

locale machine_api =
  fixes k :: "'w kube" and machines :: "'w \<Rightarrow> load_balancer_machine set"
  assumes list_complete: "k_ListMachines k ns q w = (Ok ms, w') \<Longrightarrow>
      set ms = {m \<in> machines w. meta_Namespace m = ns \<and> q \<subseteq>\<^sub>m meta_Labels m}"
    and list_keeps: "k_ListMachines k ns q w = (r, w') \<Longrightarrow> machines w' = machines w"
    and delete_marks: "k_DeleteMachine k n w = (r1, w') \<Longrightarrow> m \<in> machines w' \<Longrightarrow>
      (r1 = Ok () \<and> key_of m = n \<longrightarrow> is_deleting m) \<and> (is_deleting m \<or> m \<in> machines w)"
    and set_meta_keeps: "k_PatchSetMeta k n p w = (r2, w') \<Longrightarrow> machines w' = machines w"
begin

text \<open>The machines of \<open>lbs\<close> that are not being deleted have keys in \<open>K\<close>.\<close>

definition live_in :: "load_balancer_set \<Rightarrow> namespaced_name set \<Rightarrow> 'w \<Rightarrow> bool" where
  "live_in lbs K w = (\<forall>m \<in> machines w. owned lbs m \<longrightarrow> is_deleting m \<or> key_of m \<in> K)"

lemma delete_step:
  "live_in lbs (insert n K) w \<Longrightarrow> k_DeleteMachine k n w = (Ok (), w') \<Longrightarrow> live_in lbs K w'"
  unfolding live_in_def using delete_marks by blast

lemma runs_delete_loop:
  "live_in lbs (key_of ` set ms) (world s) \<Longrightarrow>
     runs (forM ms (\<lambda>m. thenM (DeleteMachine k m) (record_call (CEvent (key_of lbs) ty rs (msg m))))) s
       (\<lambda>r t. is_Ok r \<longrightarrow> live_in lbs {} (world t))"
proof (induction ms arbitrary: s)
  case Nil
  then show ?case by (simp add: runs_simps)
next
  case (Cons m ms)
  obtain r w where d: "k_DeleteMachine k (key_of m) (world s) = (r, w)"
    by (cases "k_DeleteMachine k (key_of m) (world s)")
  show ?case
  proof (cases r)
    case (Ok x)
    with d Cons.prems have "live_in lbs (key_of ` set ms) w" by (auto intro: delete_step)
    with Cons.IH d Ok show ?thesis by (simp add: runs_simps DeleteMachine_def)
  qed (simp_all add: runs_simps DeleteMachine_def d)
qed

lemma listed_live:
  assumes "k_ListMachines k (meta_Namespace lbs) (getMachineLabelsFromSet lbs) w = (Ok ms, w')"
  shows "live_in lbs (key_of ` set ms) w'"
  using list_complete [OF assms] list_keeps [OF assms] by (auto simp: live_in_def owned_def)

lemma runs_deleteAllMachines:
  "runs (deleteAllMachines k lbs) s (\<lambda>r t. is_Ok r \<longrightarrow> live_in lbs {} (world t))"
  unfolding deleteAllMachines_def ListMachines_def
  by (auto simp: runs_bindM runs_ext caseR_def intro!: runs_delete_loop listed_live split: prod.split result.split)

lemma runs_after_delete:
  assumes "extends (\<lambda>c. \<forall>n p. fst c \<noteq> CPatchSetMeta n p) s u" and "L \<Longrightarrow> live_in lbs {} (world u)"
  shows "runs (bindM (ListMachines k (meta_Namespace lbs) (getMachineLabelsFromSet lbs)) (\<lambda>ms. if ms \<noteq> [] then ret (10 * Second)
      else thenM (record_call (CMetrics x (key_of lbs))) (thenM (RemoveFinalizerFromSet k lbs FINALIZER) (ret 0)))) u
    (\<lambda>r t. (\<exists>cs. trace t = trace s @ cs \<and>
        ((\<exists>n p ok. (CPatchSetMeta n p, ok) \<in> set cs) \<or> r = Ok 0 \<longrightarrow> (\<forall>m \<in> machines (world t). \<not> owned lbs m))) \<and>
      (L \<and> is_Ok r \<longrightarrow> live_in lbs {} (world t)))"
proof -
  obtain cs where cs: "trace u = trace s @ cs" "\<forall>n p ok. (CPatchSetMeta n p, ok) \<notin> set cs"
    using assms(1) by (fastforce simp: extends_def)
  obtain r w where l: "k_ListMachines k (meta_Namespace lbs) (getMachineLabelsFromSet lbs) (world u) = (r, w)"
    by (cases "k_ListMachines k (meta_Namespace lbs) (getMachineLabelsFromSet lbs) (world u)")
  note keeps = list_keeps [OF l]
  show ?thesis
  proof (cases r)
    case (Ok ms)
    with l list_complete have ms: "set ms = {m \<in> machines (world u). owned lbs m}"
      by (simp add: owned_def)
    show ?thesis
    proof (cases "ms = []")
      case True
      with ms keeps have "\<forall>m \<in> machines w. \<not> owned lbs m" by simp
      with True Ok cs show ?thesis
        by (auto simp: runs_simps caseR_def ListMachines_def RemoveFinalizerFromSet_def Let_def l live_in_def
            dest: set_meta_keeps split: prod.split result.split)
    next
      case False
      with Ok cs assms(2) keeps show ?thesis
        by (simp add: runs_simps ListMachines_def l live_in_def Second_def Millisecond_def)
    qed
  qed (use cs keeps in \<open>simp_all add: runs_simps ListMachines_def l\<close>)
qed

lemma emits_deleteAll: "(\<And>c. (\<forall>n p. fst c \<noteq> CPatchSetMeta n p) \<Longrightarrow> P c) \<Longrightarrow> emits P (deleteAllMachines k lbs)"
  unfolding deleteAllMachines_def ListMachines_def DeleteMachine_def
  by (intro emits_intros) simp_all

lemma runs_setDeletionRoutine:
  "runs (setDeletionRoutine k lbs) s (\<lambda>r t. (\<exists>cs. trace t = trace s @ cs \<and>
        ((\<exists>n p ok. (CPatchSetMeta n p, ok) \<in> set cs) \<or> r = Ok 0 \<longrightarrow> (\<forall>m \<in> machines (world t). \<not> owned lbs m))) \<and>
      (FINALIZER \<in> set (meta_Finalizers lbs) \<and> is_Ok r \<longrightarrow> live_in lbs {} (world t)))"
  (is "runs _ _ ?R")
proof -
  have str: "containsString (meta_Finalizers lbs) FINALIZER = (FINALIZER \<in> set (meta_Finalizers lbs))"
    by (auto simp: containsString_def list_ex_iff)
  have "runs (deleteAllMachines k lbs) s (\<lambda>r t. extends (\<lambda>c. \<forall>n p. fst c \<noteq> CPatchSetMeta n p) s t \<and> (is_Ok r \<longrightarrow> live_in lbs {} (world t)))"
    by (intro runs_conj runs_deleteAllMachines emits_runs emits_deleteAll)
  then have "runs (if FINALIZER \<in> set (meta_Finalizers lbs) then deleteAllMachines k lbs else ret ()) s
      (\<lambda>r u. extends (\<lambda>c. \<forall>n p. fst c \<noteq> CPatchSetMeta n p) s u \<and>
        (is_Ok r \<longrightarrow> FINALIZER \<in> set (meta_Finalizers lbs) \<longrightarrow> live_in lbs {} (world u)))"
    by (auto simp: runs_ret elim: runs_weaken)
  then show ?thesis
    unfolding setDeletionRoutine_def runs_thenM str
  proof (rule runs_weaken)
    fix r :: "unit result" and u
    assume u: "extends (\<lambda>c. \<forall>n p. fst c \<noteq> CPatchSetMeta n p) s u \<and>
        (is_Ok r \<longrightarrow> FINALIZER \<in> set (meta_Finalizers lbs) \<longrightarrow> live_in lbs {} (world u))"
    show "caseR (\<lambda>x u. runs (bindM (ListMachines k (meta_Namespace lbs) (getMachineLabelsFromSet lbs)) (\<lambda>ms. if ms \<noteq> [] then ret (10 * Second)
      else thenM (record_call (CMetrics ''RemoveLoadBalancerSetMetrics'' (key_of lbs))) (thenM (RemoveFinalizerFromSet k lbs FINALIZER) (ret 0)))) u ?R)
      (\<lambda>e. ?R (Err e)) (\<lambda>c. ?R (Crash c)) r u"
    proof (cases r)
      case (Ok x)
      with u show ?thesis by (simp only: caseR_simps) (rule runs_after_delete, simp_all)
    qed (use u in \<open>force simp: extends_def\<close>)+
  qed
qed

end

text \<open>C21. Deleting a set, its finalizer goes last: when a deletion of a set is done, or its finalizer is
  patched at all, no machine of the set is left; and every deletion that returns without an error
  leaves only machines that are being deleted, if the finalizer was there. This holds for every API
  with complete listings and deletions that remove or mark the object.\<close>

theorem set_deletion_leaves_no_machine:
  assumes "machine_api k machines" and "setDeletionRoutine k lbs s = (r, t)"
  shows "(\<exists>cs. trace t = trace s @ cs \<and>
      ((\<exists>n p ok. (CPatchSetMeta n p, ok) \<in> set cs) \<or> r = Ok 0 \<longrightarrow> (\<forall>m \<in> machines (world t). \<not> owned lbs m))) \<and>
    (FINALIZER \<in> set (meta_Finalizers lbs) \<and> is_Ok r \<longrightarrow> (\<forall>m \<in> machines (world t). owned lbs m \<longrightarrow> is_deleting m))"
  using runsD [OF machine_api.runs_setDeletionRoutine [OF assms(1)] assms(2)]
  by (simp add: machine_api.live_in_def [OF assms(1)])

interpretation mem: machine_api mem_kube "\<lambda>w. set (mem_machines w)"
proof
  fix n w r1 w' m
  assume "k_DeleteMachine mem_kube n w = (r1, w')" and "m \<in> set (mem_machines w')"
  then show "(r1 = Ok () \<and> key_of m = n \<longrightarrow> is_deleting m) \<and> (is_deleting m \<or> m \<in> set (mem_machines w))"
    by (auto simp: mem_kube_def mem_DeleteMachine_def is_deleting_def api_not_found_def split: if_splits)
qed (auto simp: selects_def mem_kube_def mem_PatchSet_def split: option.splits)

section \<open>Examples\<close>

text \<open>A set that wants one machine, and two that belong to it: one healthy, one that never reported.\<close>

definition example_set :: load_balancer_set where
  "example_set = \<lparr>meta_APIVersion = [], meta_Kind = [], meta_Name = ''set'', meta_Namespace = ''ns'', meta_UID = [],
     meta_ResourceVersion = [], meta_Labels = Map.empty, meta_Annotations = Map.empty, meta_Finalizers = [FINALIZER],
     meta_OwnerReferences = [], meta_CreationTimestamp = 0, meta_DeletionTimestamp = None,
     set_Spec = \<lparr>sspec_Selector = \<lparr>MatchLabels = [''lb'' \<mapsto> ''x''], MatchExpressions = []\<rparr>,
       sspec_Replicas = 1, sspec_Template = \<lparr>tmpl_Labels = [''lb'' \<mapsto> ''x''], tmpl_Spec = lbm_Spec example_machine\<rparr>\<rparr>,
     set_Status = \<lparr>set_AvailableReplicas = None, set_Conditions = [], set_ReadyReplicas = None, set_Replicas = None\<rparr>\<rparr>"

definition example_member :: "string \<Rightarrow> load_balancer_machine" where
  "example_member name = example_machine\<lparr>meta_Name := name, meta_Labels := [''lb'' \<mapsto> ''x'']\<rparr>"

definition example_set_world :: "load_balancer_machine list \<Rightarrow> mem" where
  "example_set_world ms = \<lparr>mem_id = 1, mem_fips = [], mem_ports = [], mem_groups = [], mem_rules = [],
     mem_servers = [], mem_servergroups = [], mem_lbs = [], mem_sets = [(key_of example_set, example_set)], mem_machines = ms,
     mem_secrets = [], mem_accounts = [], mem_roles = [], mem_bindings = [], mem_now = 0, mem_snapshot = initial_snapshot\<rparr>"

definition example_lr :: "mem set_reconciler" where
  "example_lr = \<lparr>lr_Client = mem_kube, lr_SetStatusCondition = \<lambda>now c cs. [c]\<rparr>"

lemmas set_defs = setDeletionRoutine_def deleteAllMachines_def reconcileSet_def correctAndReport_def patchSetStatus_def
  reconcileReplicas_def ListMachines_def DeleteMachine_def AddFinalizerToSet_def RemoveFinalizerFromSet_def
  ContainsFinalizer_def RemoveFinalizer_def containsString_def thenM_def bindM_def catchM_def ret_def fail_def ext_def
  record_call_def nowM_def readW_def mem_kube_def mem_DeleteMachine_def mem_PatchSet_def selects_def key_of_def
  getMachineLabelsFromSet_def example_lr_def example_set_def example_member_def example_set_world_def example_machine_def

lemma replicas_one_step_witness:
  "\<exists>m ok. scale_down_choice mem_kube [example_member ''a'', example_member ''b''] m \<and>
     trace (snd (reconcileReplicas mem_kube example_set [example_member ''a'', example_member ''b''] 0
       \<lparr>world = example_set_world [], trace = []\<rparr>)) = [(CDeleteMachine (key_of m), ok)]"
  using replicas_one_step [of mem_kube example_set "[example_member ''a'', example_member ''b'']" 0
      "\<lparr>world = example_set_world [], trace = []\<rparr>", OF prod.collapse [symmetric]]
  by (simp add: example_set_def)

lemma example_set_deletion:
  "\<exists>t. setDeletionRoutine mem_kube example_set \<lparr>world = example_set_world [example_member ''a''], trace = []\<rparr> = (Ok 0, t)"
  by (simp add: set_defs Let_def map_le_def)

lemma set_deletion_leaves_no_machine_witness:
  "\<exists>t. setDeletionRoutine mem_kube example_set \<lparr>world = example_set_world [example_member ''a''], trace = []\<rparr> = (Ok 0, t) \<and>
     (\<forall>m \<in> set (mem_machines (world t)). \<not> owned example_set m)"
proof -
  obtain t where t: "setDeletionRoutine mem_kube example_set
      \<lparr>world = example_set_world [example_member ''a''], trace = []\<rparr> = (Ok 0, t)"
    using example_set_deletion by blast
  with set_deletion_leaves_no_machine [OF mem.machine_api_axioms t] show ?thesis by blast
qed

lemma machine_errors_dropped_witness:
  "\<exists>e t cs. reconcileSet (example_lr\<lparr>lr_Client := mem_kube\<lparr>k_ListMachines := \<lambda>ns q w. (Err (OtherErr ''down''), w)\<rparr>\<rparr>)
       (key_of example_set) example_set \<lparr>world = example_set_world [], trace = []\<rparr> = (Err e, t) \<and>
     trace t = cs \<and> (\<exists>c \<in> set cs. listing_or_patch_failed c)"
proof -
  obtain e t where t: "reconcileSet (example_lr\<lparr>lr_Client := mem_kube\<lparr>k_ListMachines := \<lambda>ns q w. (Err (OtherErr ''down''), w)\<rparr>\<rparr>)
       (key_of example_set) example_set \<lparr>world = example_set_world [], trace = []\<rparr> = (Err e, t)"
    by (simp add: set_defs Let_def)
  with machine_errors_dropped [OF t] show ?thesis by simp
qed

lemma example_reconcile:
  "\<exists>r t new. reconcileSet example_lr (key_of example_set) example_set
     \<lparr>world = example_set_world [example_member ''a''], trace = []\<rparr> = (r, t) \<and>
     (CPatchSetStatus (key_of example_set) (set_Status example_set) new, True) \<in> set (trace t)"
  by (simp add: set_defs Let_def map_le_def is_deleting_def isMachineReady_def AreRelevantConditionsMet_def isMachineKeepalivedMaster_def)


end
