(* ===== verification/CloudTypes.thy ===== *)
theory CloudTypes
  imports CloudApi
begin

text \<open>
  The data of the yawol-cloud-controller (\<open>controllers/yawol-cloud-controller\<close>): the fields of the
  Kubernetes Services, Nodes and Events it reads, the patches it makes to the spec of a
  LoadBalancer with their effect, and the calls of its two clients, for the target cluster (the
  Services) and for the control cluster (the LoadBalancers).
\<close>

section \<open>Services, nodes and events\<close>

record ingress =
  ing_IP :: string
  ing_Hostname :: string
  ing_IPMode :: "string option"
  ing_Ports :: "(string \<times> int \<times> string option) list"

record service = object_meta +
  svc_Type :: string
  svc_Ports :: "service_port list"
  svc_LoadBalancerClass :: "string option"
  svc_AllocateLoadBalancerNodePorts :: "bool option"
  svc_LoadBalancerSourceRanges :: "string list option"
  svc_IPFamilies :: "string list"
  svc_Ingress :: "ingress list"

record node_address =
  na_Type :: string
  na_Address :: string

record taint =
  taint_Key :: string
  taint_Value :: string
  taint_Effect :: string

record node = object_meta +
  node_Taints :: "taint list"
  node_Addresses :: "node_address list"
  node_Conditions :: "node_condition list"

record event =
  ev_Component :: string
  ev_Kind :: string
  ev_Object :: namespaced_name
  ev_Type :: string
  ev_Reason :: string
  ev_Message :: string

section \<open>Patches of the spec of a LoadBalancer\<close>

text \<open>The merge patches of the source, by the field they set. A list, a duration or a policy that is
  nil is marshalled as \<open>null\<close> and so removes the field.\<close>

datatype spec_patch =
    SpecPorts "service_port list"
  | SpecReplicas int
  | SpecEndpoints "endpoint list"
  | SpecInfrastructure infrastructure
  | SpecInternalLB bool
  | SpecNetworkIDEmpty
  | SpecFloatingNetIDNull
  | SpecSourceRanges "string list option"
  | SpecTCPProxyProtocol bool
  | SpecPortsFilter "int list option"
  | SpecLogForward log_forward
  | SpecTCPIdleTimeout "int option"
  | SpecUDPIdleTimeout "int option"
  | SpecServerGroupPolicy string
  | SpecDebugSettings debug_settings
  | SpecExistingFloatingIP string

text \<open>Its effect by RFC 7386 and the \<open>omitempty\<close> tags: an object is merged field by field, a field
  that is omitted keeps its old value, a \<open>null\<close> removes it, a list is replaced, and the labels are
  merged key by key.\<close>

definition over_string :: "string \<Rightarrow> string \<Rightarrow> string" where
  "over_string p old = (if p = [] then old else p)"

definition merge_labels :: "labels option \<Rightarrow> labels option \<Rightarrow> labels option" where
  "merge_labels p old =
     (case p of None \<Rightarrow> None | Some new \<Rightarrow> Some (case old of None \<Rightarrow> new | Some m \<Rightarrow> m ++ new))"

definition merge_log_forward :: "log_forward \<Rightarrow> log_forward \<Rightarrow> log_forward" where
  "merge_log_forward p old = \<lparr>lf_Enabled = lf_Enabled p, lf_LokiURL = lf_LokiURL p,
     lf_ProxyURL = over_string (lf_ProxyURL p) (lf_ProxyURL old), lf_Labels = merge_labels (lf_Labels p) (lf_Labels old)\<rparr>"

definition merge_debug :: "debug_settings \<Rightarrow> debug_settings \<Rightarrow> debug_settings" where
  "merge_debug p old = \<lparr>dbg_Enabled = dbg_Enabled p, dbg_SshkeyName = over_string (dbg_SshkeyName p) (dbg_SshkeyName old)\<rparr>"

definition merge_network :: "default_network \<Rightarrow> default_network \<Rightarrow> default_network" where
  "merge_network p old = \<lparr>dn_FloatingNetID = over (dn_FloatingNetID p) (dn_FloatingNetID old),
     dn_NetworkID = dn_NetworkID p, dn_SubnetID = over (dn_SubnetID p) (dn_SubnetID old)\<rparr>"

definition merge_image :: "image_ref \<Rightarrow> image_ref \<Rightarrow> image_ref" where
  "merge_image p old = \<lparr>ImageID = over (ImageID p) (ImageID old), ImageName = over (ImageName p) (ImageName old),
     ImageSearch = over (ImageSearch p) (ImageSearch old), ImageIDOld = over (ImageIDOld p) (ImageIDOld old),
     ImageNameOld = over (ImageNameOld p) (ImageNameOld old), ImageSearchOld = over (ImageSearchOld p) (ImageSearchOld old)\<rparr>"

definition merge_flavor :: "flavor_ref \<Rightarrow> flavor_ref \<Rightarrow> flavor_ref" where
  "merge_flavor p old = \<lparr>FlavorID = over (FlavorID p) (FlavorID old), FlavorName = over (FlavorName p) (FlavorName old),
     FlavorSearch = over (FlavorSearch p) (FlavorSearch old), FlavorIDOld = over (FlavorIDOld p) (FlavorIDOld old),
     FlavorNameOld = over (FlavorNameOld p) (FlavorNameOld old), FlavorSearchOld = over (FlavorSearchOld p) (FlavorSearchOld old)\<rparr>"

definition merge_infrastructure :: "infrastructure \<Rightarrow> infrastructure \<Rightarrow> infrastructure" where
  "merge_infrastructure p old = \<lparr>
     infra_FloatingNetID = over (infra_FloatingNetID p) (infra_FloatingNetID old),
     infra_NetworkID = over_string (infra_NetworkID p) (infra_NetworkID old),
     infra_DefaultNetwork = merge_network (infra_DefaultNetwork p) (infra_DefaultNetwork old),
     infra_AdditionalNetworks = infra_AdditionalNetworks p,
     infra_Flavor = merge_flavor (infra_Flavor p) (infra_Flavor old),
     infra_Image = merge_image (infra_Image p) (infra_Image old),
     infra_AvailabilityZone = infra_AvailabilityZone p,
     infra_AuthSecretRef = \<lparr>ref_Name = over_string (ref_Name (infra_AuthSecretRef p)) (ref_Name (infra_AuthSecretRef old)),
       ref_Namespace = over_string (ref_Namespace (infra_AuthSecretRef p)) (ref_Namespace (infra_AuthSecretRef old))\<rparr>,
     infra_ProjectID = infra_ProjectID p\<rparr>"

text \<open>An empty list of addresses is omitted.\<close>

definition json_endpoint :: "endpoint \<Rightarrow> endpoint" where
  "json_endpoint ep = ep\<lparr>ep_Addresses := (if ep_Addresses ep = Some [] then None else ep_Addresses ep)\<rparr>"

fun merge_spec :: "spec_patch \<Rightarrow> lb_spec \<Rightarrow> lb_spec" where
  "merge_spec (SpecPorts ps) sp = sp\<lparr>spec_Ports := ps\<rparr>"
| "merge_spec (SpecReplicas n) sp = sp\<lparr>spec_Replicas := n\<rparr>"
| "merge_spec (SpecEndpoints eps) sp = sp\<lparr>spec_Endpoints := Some (map json_endpoint eps)\<rparr>"
| "merge_spec (SpecInfrastructure i) sp = sp\<lparr>spec_Infrastructure := merge_infrastructure i (spec_Infrastructure sp)\<rparr>"
| "merge_spec (SpecInternalLB b) sp = sp\<lparr>spec_Options := (spec_Options sp)\<lparr>opt_InternalLB := b\<rparr>\<rparr>"
| "merge_spec SpecNetworkIDEmpty sp = sp\<lparr>spec_Infrastructure := (spec_Infrastructure sp)\<lparr>infra_NetworkID := []\<rparr>\<rparr>"
| "merge_spec SpecFloatingNetIDNull sp = sp\<lparr>spec_Infrastructure := (spec_Infrastructure sp)\<lparr>infra_FloatingNetID := None\<rparr>\<rparr>"
| "merge_spec (SpecSourceRanges rs) sp = sp\<lparr>spec_Options := (spec_Options sp)\<lparr>opt_LoadBalancerSourceRanges := rs\<rparr>\<rparr>"
| "merge_spec (SpecTCPProxyProtocol b) sp = sp\<lparr>spec_Options := (spec_Options sp)\<lparr>opt_TCPProxyProtocol := b\<rparr>\<rparr>"
| "merge_spec (SpecPortsFilter ps) sp = sp\<lparr>spec_Options := (spec_Options sp)\<lparr>opt_TCPProxyProtocolPortsFilter := ps\<rparr>\<rparr>"
| "merge_spec (SpecLogForward lf) sp =
     sp\<lparr>spec_Options := (spec_Options sp)\<lparr>opt_LogForward := merge_log_forward lf (opt_LogForward (spec_Options sp))\<rparr>\<rparr>"
| "merge_spec (SpecTCPIdleTimeout d) sp = sp\<lparr>spec_Options := (spec_Options sp)\<lparr>opt_TCPIdleTimeout := d\<rparr>\<rparr>"
| "merge_spec (SpecUDPIdleTimeout d) sp = sp\<lparr>spec_Options := (spec_Options sp)\<lparr>opt_UDPIdleTimeout := d\<rparr>\<rparr>"
| "merge_spec (SpecServerGroupPolicy p) sp = sp\<lparr>spec_Options := (spec_Options sp)\<lparr>opt_ServerGroupPolicy := p\<rparr>\<rparr>"
| "merge_spec (SpecDebugSettings d) sp = sp\<lparr>spec_DebugSettings := merge_debug d (spec_DebugSettings sp)\<rparr>"
| "merge_spec (SpecExistingFloatingIP ip) sp = sp\<lparr>spec_ExistingFloatingIP := Some ip\<rparr>"

section \<open>Calls\<close>

datatype ccall =
    TGetService namespaced_name
  | TPatchFinalizers namespaced_name "string list"
  | TPatchIngress namespaced_name "ingress list"
  | TRemoveIngress namespaced_name
  | TListNodes
  | TEvent namespaced_name string string string
  | KGetLB namespaced_name
  | KListLBs string
  | KCreateLB load_balancer
  | KDeleteLB namespaced_name
  | KPatchSpec namespaced_name spec_patch
  | KPatchAnnotation namespaced_name string string
  | KGetEvent namespaced_name

text \<open>A patch yields what the server answers, which replaces the object in memory. Go visits the keys
  of a map in an order of its own at every loop: \<open>c_visit\<close> draws it from the world.\<close>

record 'w clusters =
  t_GetService :: "namespaced_name \<Rightarrow> ('w, service) gop"
  t_PatchFinalizers :: "namespaced_name \<Rightarrow> string list \<Rightarrow> ('w, service) gop"
  t_PatchIngress :: "namespaced_name \<Rightarrow> ingress list \<Rightarrow> ('w, service) gop"
  t_RemoveIngress :: "namespaced_name \<Rightarrow> ('w, service) gop"
  t_ListNodes :: "('w, node list) gop"
  c_GetLB :: "namespaced_name \<Rightarrow> ('w, load_balancer) gop"
  c_ListLBs :: "string \<Rightarrow> ('w, load_balancer list) gop"
  c_CreateLB :: "load_balancer \<Rightarrow> ('w, load_balancer) gop"
  c_DeleteLB :: "namespaced_name \<Rightarrow> ('w, unit) gop"
  c_PatchSpec :: "namespaced_name \<Rightarrow> spec_patch \<Rightarrow> ('w, load_balancer) gop"
  c_PatchAnnotation :: "namespaced_name \<Rightarrow> string \<Rightarrow> string \<Rightarrow> ('w, load_balancer) gop"
  c_GetEvent :: "namespaced_name \<Rightarrow> ('w, event) gop"
  c_visit :: "labels \<Rightarrow> 'w \<Rightarrow> string list \<times> 'w"

type_synonym ('w, 'a) cop = "(('w, ccall) st, 'a) gop"

definition visitM :: "'w clusters \<Rightarrow> labels \<Rightarrow> (string list \<Rightarrow> ('w, 'a) cop) \<Rightarrow> ('w, 'a) cop" where
  "visitM cl m f = readW (c_visit cl m) f"

lemma runs_visitM [runs_simps]:
  "runs (visitM cl m f) s R = (case c_visit cl m (world s) of (ks, w) \<Rightarrow> runs (f ks) (s\<lparr>world := w\<rparr>) R)"
  by (simp add: visitM_def runs_simps)

lemma emits_visitM [emits_intros]:
  assumes "\<And>ks. emits P (f ks)"
  shows "emits P (visitM cl m f)"
proof -
  have "runs (f ks) (s\<lparr>world := w\<rparr>) (\<lambda>_ t. extends P s t)" for ks s w
    using emits_runs [OF assms, of ks "s\<lparr>world := w\<rparr>"] by (simp add: extends_def)
  then show ?thesis
    by (auto simp: emits_def runs_simps split: prod.split)
qed

definition PatchSpec :: "'w clusters \<Rightarrow> load_balancer \<Rightarrow> spec_patch \<Rightarrow> ('w, load_balancer) cop" where
  "PatchSpec cl lb p = ext (KPatchSpec (key_of lb) p) (c_PatchSpec cl (key_of lb) p)"

definition ServiceEvent :: "service \<Rightarrow> string \<Rightarrow> string \<Rightarrow> string \<Rightarrow> ('w, unit) cop" where
  "ServiceEvent svc ty rs msg = record_call (TEvent (key_of svc) ty rs msg)"

text \<open>\<open>SendErrorAsEvent\<close> on a Service.\<close>

definition ServiceError :: "goerr \<Rightarrow> service \<Rightarrow> ('w, 'a) cop" where
  "ServiceError e svc =
     thenM (whenM (error_body e \<noteq> []) (ServiceEvent svc ''Warning'' ''Failed'' (error_body e))) (fail e)"

lemma runs_PatchSpec [runs_simps]:
  "runs (PatchSpec cl lb p) s R = (case c_PatchSpec cl (key_of lb) p (world s) of
     (r, w) \<Rightarrow> R r (s\<lparr>world := w, trace := trace s @ [(KPatchSpec (key_of lb) p, is_Ok r)]\<rparr>))"
  by (simp add: PatchSpec_def runs_simps)

lemma emits_PatchSpec [emits_intros]: "(\<And>b. P (KPatchSpec (key_of lb) p, b)) \<Longrightarrow> emits P (PatchSpec cl lb p)"
  unfolding PatchSpec_def by (intro emits_intros)

lemma runs_ServiceEvent [runs_simps]:
  "runs (ServiceEvent svc ty rs msg) s R = R (Ok ()) (s\<lparr>trace := trace s @ [(TEvent (key_of svc) ty rs msg, True)]\<rparr>)"
  by (simp add: ServiceEvent_def runs_simps)

lemma emits_ServiceEvent [emits_intros]: "P (TEvent (key_of svc) ty rs msg, True) \<Longrightarrow> emits P (ServiceEvent svc ty rs msg)"
  unfolding ServiceEvent_def by (intro emits_intros)

lemma runs_ServiceError [runs_simps]:
  "runs (ServiceError e svc) s R =
     (if error_body e \<noteq> [] then R (Err e) (s\<lparr>trace := trace s @ [(TEvent (key_of svc) ''Warning'' ''Failed'' (error_body e), True)]\<rparr>)
      else R (Err e) s)"
  by (simp add: ServiceError_def runs_simps)

lemma emits_ServiceError [emits_intros]: "(\<And>ty rs msg. P (TEvent (key_of svc) ty rs msg, True)) \<Longrightarrow> emits P (ServiceError e svc)"
  unfolding ServiceError_def by (intro emits_intros)

end
