(* ===== verification/Services.thy ===== *)
theory Services
  imports CloudTypes GoTime "HOL-Library.Word"
begin

text \<open>
  What the cloud controller reads from a Service: \<open>internal/helper/service.go\<close> and
  \<open>controllers/yawol-cloud-controller/targetcontroller/infrastructure_defaults.go\<close>. The loop
  over the annotations visits them in an order that Go leaves open.
\<close>

section \<open>Options\<close>

definition GetDebugSettings :: "service \<Rightarrow> debug_settings" where
  "GetDebugSettings svc =
     (if ParseBool_val (at_key (meta_Annotations svc) ServiceDebug)
      then \<lparr>dbg_Enabled = True,
        dbg_SshkeyName = (if at_key (meta_Annotations svc) ServiceDebugSSHKey \<noteq> [] then at_key (meta_Annotations svc) ServiceDebugSSHKey else [])\<rparr>
      else \<lparr>dbg_Enabled = False, dbg_SshkeyName = []\<rparr>)"

text \<open>\<open>int32(intPort)\<close> keeps the low 32 bits.\<close>

definition int32 :: "int \<Rightarrow> int" where
  "int32 i = sint (word_of_int i :: 32 word)"

fun ports_filter_loop :: "int list \<Rightarrow> string list \<Rightarrow> int list option" where
  "ports_filter_loop portFilter [] = Some portFilter"
| "ports_filter_loop portFilter (port # ports) =
     (case Atoi port of None \<Rightarrow> None | Some intPort \<Rightarrow> ports_filter_loop (portFilter @ [int32 intPort]) ports)"

definition getTCPProxyProtocolPortsFilter :: "string \<Rightarrow> int list option" where
  "getTCPProxyProtocolPortsFilter s =
     (if s = [] then None else ports_filter_loop [] (splitOn (CHR '','') s))"

text \<open>The loop over the annotations that sets the extra labels for the logs.\<close>

fun log_labels_loop :: "service \<Rightarrow> string list \<Rightarrow> labels \<Rightarrow> ('w, labels) cop" where
  "log_labels_loop svc [] ls = ret ls"
| "log_labels_loop svc (annotation # rest) ls =
     (if \<not> HasPrefix annotation LoadBalancerLogLabelPrefix then log_labels_loop svc rest ls
      else
        let key = TrimPrefix annotation LoadBalancerLogLabelPrefix; value = at_key (meta_Annotations svc) annotation in
        if key = [] then
          thenM (ServiceEvent svc ''Warning'' ''update'' (''Annotation '' @ annotation @ '' does not have a name. Ignoring.''))
            (log_labels_loop svc rest ls)
        else if value = [] then
          thenM (ServiceEvent svc ''Warning'' ''update'' (''Annotation '' @ annotation @ '' does not have a value. Ignoring.''))
            (log_labels_loop svc rest ls)
        else log_labels_loop svc rest (ls(key \<mapsto> value)))"

definition log_forward_of :: "'w clusters \<Rightarrow> service \<Rightarrow> ('w, log_forward) cop" where
  "log_forward_of cl svc =
     (if ParseBool_val (at_key (meta_Annotations svc) ServiceLogForward) then
        visitM cl (meta_Annotations svc) (\<lambda>annotations.
        bindM (log_labels_loop svc annotations Map.empty) (\<lambda>ls.
        ret \<lparr>lf_Enabled = True, lf_LokiURL = at_key (meta_Annotations svc) ServiceLogForwardLokiURL,
          lf_ProxyURL = at_key (meta_Annotations svc) ServiceLogForwardProxyURL, lf_Labels = Some ls\<rparr>))
      else ret \<lparr>lf_Enabled = False, lf_LokiURL = [], lf_ProxyURL = [], lf_Labels = None\<rparr>)"

definition idle_timeout_of :: "service \<Rightarrow> string \<Rightarrow> ('w, int option) cop" where
  "idle_timeout_of svc annotation =
     (let v = at_key (meta_Annotations svc) annotation in
      if v = [] then ret None
      else case ParseDuration v of
          None \<Rightarrow> thenM (ServiceEvent svc ''Warning'' ''update''
              (''Could not parse '' @ annotation @ '' to time duration. Ignoring option.'')) (ret None)
        | Some d \<Rightarrow> ret (Some d))"

text \<open>The ranges of the spec win over those of the annotation.\<close>

definition source_ranges_of :: "service \<Rightarrow> string list option" where
  "source_ranges_of svc =
     (case svc_LoadBalancerSourceRanges svc of
        Some rs \<Rightarrow> Some rs
      | None \<Rightarrow>
          (let v = at_key (meta_Annotations svc) ServiceLoadBalancerSourceRanges in
           if v \<noteq> [] then Some (splitOn (CHR '','') v) else None))"

definition GetOptions :: "'w clusters \<Rightarrow> service \<Rightarrow> ('w, lb_options) cop" where
  "GetOptions cl svc =
     (let a = at_key (meta_Annotations svc) in
      bindM (log_forward_of cl svc) (\<lambda>logForward.
      bindM (idle_timeout_of svc ServiceTCPIdleTimeout) (\<lambda>tcpIdleTimeout.
      bindM (idle_timeout_of svc ServiceUDPIdleTimeout) (\<lambda>udpIdleTimeout.
      ret \<lparr>opt_InternalLB = (a ServiceInternalLoadbalancer \<noteq> [] \<and> ParseBool_val (a ServiceInternalLoadbalancer)),
        opt_LoadBalancerSourceRanges = source_ranges_of svc,
        opt_TCPProxyProtocol = (a ServiceTCPProxyProtocol \<noteq> [] \<and> ParseBool_val (a ServiceTCPProxyProtocol)),
        opt_TCPProxyProtocolPortsFilter = (if a ServiceTCPProxyProtocolPortsFilter \<noteq> []
          then getTCPProxyProtocolPortsFilter (a ServiceTCPProxyProtocolPortsFilter) else None),
        opt_TCPIdleTimeout = tcpIdleTimeout, opt_UDPIdleTimeout = udpIdleTimeout, opt_LogForward = logForward,
        opt_ServerGroupPolicy = a ServiceServerGroupPolicy\<rparr>))))"

section \<open>Small readings\<close>

definition GetIPFromStatus :: "service \<Rightarrow> string option" where
  "GetIPFromStatus svc =
     (case svc_Ingress svc of [] \<Rightarrow> None | i # _ \<Rightarrow> if ing_IP i \<noteq> [] then Some (ing_IP i) else None)"

definition GetExistingFloatingIPFromAnnotation :: "service \<Rightarrow> string option" where
  "GetExistingFloatingIPFromAnnotation svc =
     (let v = at_key (meta_Annotations svc) ServiceExistingFloatingIP in if v \<noteq> [] then Some v else None)"

definition GetReplicasFromService :: "service \<Rightarrow> int" where
  "GetReplicasFromService svc =
     (case meta_Annotations svc ServiceReplicas of
        None \<Rightarrow> 1
      | Some replicaString \<Rightarrow> (case Atoi replicaString of None \<Rightarrow> 1 | Some replicas \<Rightarrow> replicas))"

definition GetLoadBalancerNameFromService :: "service \<Rightarrow> string" where
  "GetLoadBalancerNameFromService svc = meta_Namespace svc @ ''--'' @ meta_Name svc"

definition getLoadBalancerClass :: "service \<Rightarrow> string" where
  "getLoadBalancerClass svc =
     (let className = at_key (meta_Annotations svc) ServiceClassName in
      if className \<noteq> [] then className
      else case svc_LoadBalancerClass svc of Some c \<Rightarrow> c | None \<Rightarrow> [])"

definition CheckLoadBalancerClasses :: "service \<Rightarrow> string list \<Rightarrow> bool" where
  "CheckLoadBalancerClasses svc validClasses = (getLoadBalancerClass svc \<in> set validClasses)"

definition ErrUnsupportedProtocol :: string where
  "ErrUnsupportedProtocol = ''unsupported protocol used (TCP and UDP is supported)''"

definition ErrUnsupportedServiceOption :: string where
  "ErrUnsupportedServiceOption = ''unsupported service option is used''"

definition ErrNodePortInvalidRange :: goerr where
  "ErrNodePortInvalidRange = HelperErr ''NodePort is not between 1 and 65535''"

fun validate_ports :: "service_port list \<Rightarrow> goerr option" where
  "validate_ports [] = None"
| "validate_ports (p # ps) =
     (if sp_Protocol p \<noteq> ''TCP'' \<and> sp_Protocol p \<noteq> ''UDP''
      then Some (HelperErr (ErrUnsupportedProtocol @ '': '' @ sp_Protocol p @ '')''))
      else if sp_NodePort p > 65535 \<or> sp_NodePort p < 1 then Some ErrNodePortInvalidRange
      else validate_ports ps)"

definition ValidateService :: "service \<Rightarrow> goerr option" where
  "ValidateService svc =
     (if svc_AllocateLoadBalancerNodePorts svc = Some False
      then Some (HelperErr (ErrUnsupportedServiceOption @ '': spec.allocateLoadBalancerNodePorts=false is not supported)''))
      else validate_ports (svc_Ports svc))"

section \<open>Infrastructure defaults\<close>

record infrastructure_defaults =
  id_AuthSecretName :: "string option"
  id_FloatingNetworkID :: "string option"
  id_NetworkID :: "string option"
  id_SubnetID :: "string option"
  id_Namespace :: "string option"
  id_FlavorRef :: "flavor_ref option"
  id_ImageRef :: "image_ref option"
  id_AvailabilityZone :: "string option"
  id_InternalLB :: "bool option"

definition GetInfrastructureDetailsFromService :: "service \<Rightarrow> infrastructure_defaults" where
  "GetInfrastructureDetailsFromService svc =
     (let a = at_key (meta_Annotations svc) in
      \<lparr>id_AuthSecretName = None, id_FloatingNetworkID = None, id_NetworkID = None, id_SubnetID = None, id_Namespace = None,
       id_FlavorRef = (if a ServiceFlavorID \<noteq> [] then Some \<lparr>FlavorID = Some (a ServiceFlavorID), FlavorName = None,
         FlavorSearch = None, FlavorIDOld = None, FlavorNameOld = None, FlavorSearchOld = None\<rparr> else None),
       id_ImageRef = (if a ServiceImageID \<noteq> [] then Some \<lparr>ImageID = Some (a ServiceImageID), ImageName = None,
         ImageSearch = None, ImageIDOld = None, ImageNameOld = None, ImageSearchOld = None\<rparr> else None),
       id_AvailabilityZone = (if a ServiceAvailabilityZone \<noteq> [] then Some (a ServiceAvailabilityZone) else None),
       id_InternalLB = (if a ServiceInternalLoadbalancer \<noteq> [] then ParseBool (a ServiceInternalLoadbalancer) else None)\<rparr>)"

definition GetMergedInfrastructureDetails :: "infrastructure_defaults \<Rightarrow> service \<Rightarrow> infrastructure_defaults" where
  "GetMergedInfrastructureDetails defaults svc =
     (let c = GetInfrastructureDetailsFromService svc in
      defaults\<lparr>id_Namespace := over (id_Namespace c) (id_Namespace defaults),
        id_InternalLB := over (id_InternalLB c) (id_InternalLB defaults),
        id_ImageRef := over (id_ImageRef c) (id_ImageRef defaults),
        id_AvailabilityZone := over (id_AvailabilityZone c) (id_AvailabilityZone defaults),
        id_FlavorRef := over (id_FlavorRef c) (id_FlavorRef defaults),
        id_NetworkID := over (id_NetworkID c) (id_NetworkID defaults),
        id_FloatingNetworkID := over (id_FloatingNetworkID c) (id_FloatingNetworkID defaults),
        id_AuthSecretName := over (id_AuthSecretName c) (id_AuthSecretName defaults)\<rparr>)"

end
