(* ===== verification/GoRegexp.thy ===== *)
theory GoRegexp
  imports GoNet
begin

text \<open>
  The regular expressions of \<open>controllers/yawol-cloud-controller/targetcontroller/node_controller.go\<close>,
  over the part of Go's \<open>regexp\<close> they use. \<open>leftovers r s\<close> lists what can remain of \<open>s\<close> after a
  match of \<open>r\<close> at its beginning; an expression that begins with \<open>^\<close> matches if there is one.
\<close>

section \<open>Regular expressions\<close>

datatype rx =
    Class "char \<Rightarrow> bool"
  | Many "char \<Rightarrow> bool" \<comment> \<open>\<open>[..]{1,}\<close>\<close>
  | Eps
  | Eos \<comment> \<open>\<open>$\<close>\<close>
  | Seq rx rx
  | Alt rx rx

fun many_rest :: "(char \<Rightarrow> bool) \<Rightarrow> string \<Rightarrow> string list" where
  "many_rest p [] = []"
| "many_rest p (c # cs) = (if p c then cs # many_rest p cs else [])"

fun leftovers :: "rx \<Rightarrow> string \<Rightarrow> string list" where
  "leftovers (Class p) s = (case s of [] \<Rightarrow> [] | c # cs \<Rightarrow> if p c then [cs] else [])"
| "leftovers (Many p) s = many_rest p s"
| "leftovers Eps s = [s]"
| "leftovers Eos s = (if s = [] then [[]] else [])"
| "leftovers (Seq r q) s = concat (map (leftovers q) (leftovers r s))"
| "leftovers (Alt r q) s = leftovers r s @ leftovers q s"

definition matches_at_start :: "rx \<Rightarrow> string \<Rightarrow> bool" where
  "matches_at_start r s = (leftovers r s \<noteq> [])"

fun lit :: "string \<Rightarrow> rx" where
  "lit [] = Eps"
| "lit (c # cs) = Seq (Class (\<lambda>d. d = c)) (lit cs)"

fun alts :: "rx list \<Rightarrow> rx" where
  "alts [] = Class (\<lambda>_. False)"
| "alts [r] = r"
| "alts (r # q # rs) = Alt r (alts (q # rs))"

primrec exactly :: "nat \<Rightarrow> rx \<Rightarrow> rx" where
  "exactly 0 r = Eps"
| "exactly (Suc n) r = Seq r (exactly n r)"

primrec at_most :: "nat \<Rightarrow> rx \<Rightarrow> rx" where
  "at_most 0 r = Eps"
| "at_most (Suc n) r = Alt (Seq r (at_most n r)) Eps"

definition between :: "nat \<Rightarrow> nat \<Rightarrow> rx \<Rightarrow> rx" where
  "between m n r = Seq (exactly m r) (at_most (n - m) r)"

definition maybe :: "rx \<Rightarrow> rx" where
  "maybe r = Alt r Eps"

definition char_range :: "char \<Rightarrow> char \<Rightarrow> char \<Rightarrow> bool" where
  "char_range a b c = ((of_char a :: nat) \<le> of_char c \<and> (of_char c :: nat) \<le> of_char b)"

abbreviation digits :: "char \<Rightarrow> char \<Rightarrow> rx" where
  "digits a b \<equiv> Class (char_range a b)"

section \<open>The expressions of the source\<close>

text \<open>\<open>^(((25[0-5]|2[0-4][0-9]|[01]?[0-9][0-9]?)(\.|$)){4})\<close>\<close>

definition ipv4_octet :: rx where
  "ipv4_octet = alts [Seq (lit ''25'') (digits (CHR ''0'') (CHR ''5'')),
     Seq (lit ''2'') (Seq (digits (CHR ''0'') (CHR ''4'')) (digits (CHR ''0'') (CHR ''9''))),
     Seq (maybe (digits (CHR ''0'') (CHR ''1''))) (Seq (digits (CHR ''0'') (CHR ''9'')) (maybe (digits (CHR ''0'') (CHR ''9''))))]"

definition ipv4Regex :: rx where
  "ipv4Regex = exactly 4 (Seq ipv4_octet (Alt (lit ''.'') Eos))"

text \<open>The pieces of the other one: \<open>[0-9a-fA-F]{1,4}\<close> and
  \<open>(25[0-5]|(2[0-4]|1{0,1}[0-9]){0,1}[0-9])\<close>.\<close>

definition hextet :: rx where
  "hextet = between 1 4 (Class (\<lambda>c. char_range (CHR ''0'') (CHR ''9'') c \<or> char_range (CHR ''a'') (CHR ''f'') c \<or>
     char_range (CHR ''A'') (CHR ''F'') c))"

definition mapped_octet :: rx where
  "mapped_octet = Alt (Seq (lit ''25'') (digits (CHR ''0'') (CHR ''5'')))
     (Seq (maybe (Alt (Seq (lit ''2'') (digits (CHR ''0'') (CHR ''4'')))
        (Seq (maybe (lit ''1'')) (digits (CHR ''0'') (CHR ''9''))))) (digits (CHR ''0'') (CHR ''9'')))"

definition mapped_ipv4 :: rx where
  "mapped_ipv4 = Seq (exactly 3 (Seq mapped_octet (lit ''.''))) mapped_octet"

definition ipv6Regex :: rx where
  "ipv6Regex =
     (let hc = Seq hextet (lit '':''); ch = Seq (lit '':'') hextet in
      Seq (alts [
        Seq (exactly 7 hc) hextet,
        Seq (between 1 7 hc) (lit '':''),
        Seq (between 1 6 hc) ch,
        Seq (between 1 5 hc) (between 1 2 ch),
        Seq (between 1 4 hc) (between 1 3 ch),
        Seq (between 1 3 hc) (between 1 4 ch),
        Seq (between 1 2 hc) (between 1 5 ch),
        Seq hc (between 1 6 ch),
        Seq (lit '':'') (Alt (between 1 7 ch) (lit '':'')),
        Seq (lit ''fe80:'') (Seq (at_most 4 (Seq (lit '':'') (at_most 4 (Class (\<lambda>c. char_range (CHR ''0'') (CHR ''9'') c \<or>
            char_range (CHR ''a'') (CHR ''f'') c \<or> char_range (CHR ''A'') (CHR ''F'') c)))))
          (Seq (lit ''%'') (Many (\<lambda>c. char_range (CHR ''0'') (CHR ''9'') c \<or>
            char_range (CHR ''a'') (CHR ''z'') c \<or> char_range (CHR ''A'') (CHR ''Z'') c)))),
        Seq (lit ''::'') (Seq (maybe (Seq (lit ''ffff'') (Seq (maybe (Seq (lit '':'') (between 1 4 (lit ''0'')))) (lit '':''))))
          mapped_ipv4),
        Seq (between 1 4 hc) (Seq (lit '':'') mapped_ipv4)]) Eos)"

definition is_ipv4 :: "string \<Rightarrow> bool" where
  "is_ipv4 s = matches_at_start ipv4Regex s"

definition is_ipv6 :: "string \<Rightarrow> bool" where
  "is_ipv6 s = matches_at_start ipv6Regex s"

text \<open>The first expression has no end: a host name that begins with an address matches.\<close>

lemma is_ip_examples:
  "is_ipv4 ''192.168.0.10''" "is_ipv4 ''10.0.0.1.example.org''" "\<not> is_ipv4 ''10.0.0.256''" "\<not> is_ipv4 ''10.0.0''"
  "is_ipv6 ''2001:db8::1''" "is_ipv6 ''::ffff:10.0.0.1''" "is_ipv6 ''fe80::1%eth0''" "\<not> is_ipv6 ''1::2::3''"
  by code_simp+

end
