(* ===== verification/Nodes.thy ===== *)
theory Nodes
  imports CloudTypes GoRegexp "HOL-Library.List_Lexorder" "HOL-Library.Char_ord" "HOL-Library.Multiset"
begin

text \<open>
  The nodes behind a LoadBalancer,
  \<open>controllers/yawol-cloud-controller/targetcontroller/node_controller.go\<close>: which nodes of the target
  cluster become endpoints, with which addresses, when two lists of endpoints are the same, and the
  reconciler that brings the endpoints of every LoadBalancer up to date when a node changes.
\<close>

section \<open>Readiness\<close>

definition ToBeDeletedTaint :: string where "ToBeDeletedTaint = ''ToBeDeletedByClusterAutoscaler''"
definition NodeTerminationCondition :: string where "NodeTerminationCondition = ''Terminating''"
definition ServiceAnnotation :: string where "ServiceAnnotation = ''yawol.stackit.cloud/serviceName''"

definition ErrCouldNotReadSvcNameSpacedNameFromAnno :: goerr where
  "ErrCouldNotReadSvcNameSpacedNameFromAnno = HelperErr ''could not read service namespacedname from annotation''"

definition isNodeReady :: "node \<Rightarrow> bool" where
  "isNodeReady n =
     (if is_deleting n then False
      else case List.find (\<lambda>c. nc_Type c = ''Ready'') (node_Conditions n) of
          None \<Rightarrow> False
        | Some c \<Rightarrow> nc_Status c = ConditionTrue)"

definition isNodeTerminating :: "node \<Rightarrow> bool" where
  "isNodeTerminating n =
     (list_ex (\<lambda>t. taint_Key t = ToBeDeletedTaint) (node_Taints n) \<or>
      list_ex (\<lambda>c. nc_Type c = NodeTerminationCondition \<and> nc_Status c = ConditionTrue) (node_Conditions n))"

section \<open>Endpoints\<close>

definition address_for :: "string list \<Rightarrow> string \<Rightarrow> string list" where
  "address_for ipFamilies address =
     (if ipFamilies = [] then [address]
      else concat (map (\<lambda>f.
        if f = ''IPv4'' then (if is_ipv4 address then [address] else [])
        else if f = ''IPv6'' then (if is_ipv6 address then [address] else [])
        else []) ipFamilies))"

definition getLoadBalancerEndpointFromNode :: "node \<Rightarrow> string list \<Rightarrow> endpoint" where
  "getLoadBalancerEndpointFromNode n ipFamilies =
     \<lparr>ep_Name = meta_Name n,
      ep_Addresses = Some (concat (map (\<lambda>a. if na_Type a \<noteq> ''InternalIP'' then [] else address_for ipFamilies (na_Address a))
        (node_Addresses n)))\<rparr>"

fun endpoints_loop :: "string list \<Rightarrow> endpoint list \<Rightarrow> endpoint list \<Rightarrow> node list \<Rightarrow> endpoint list \<times> endpoint list" where
  "endpoints_loop ipFamilies readyEPs nonTerminatingEPs [] = (readyEPs, nonTerminatingEPs)"
| "endpoints_loop ipFamilies readyEPs nonTerminatingEPs (n # ns) =
     (if isNodeTerminating n then endpoints_loop ipFamilies readyEPs nonTerminatingEPs ns
      else
        let ep = getLoadBalancerEndpointFromNode n ipFamilies in
        endpoints_loop ipFamilies (if isNodeReady n then readyEPs @ [ep] else readyEPs) (nonTerminatingEPs @ [ep]) ns)"

definition getEndpointsFromNodes :: "node list \<Rightarrow> string list \<Rightarrow> endpoint list" where
  "getEndpointsFromNodes ns ipFamilies =
     (let (readyEPs, nonTerminatingEPs) = endpoints_loop ipFamilies [] [] ns in
      if readyEPs = [] then nonTerminatingEPs else readyEPs)"

text \<open>\<open>sort.Slice\<close> by name; it leaves the order of equal names open, a stable sort is taken. Both
  slices are sorted in place, so the list that is compared is also the one that is patched.\<close>

definition sort_endpoints :: "endpoint list \<Rightarrow> endpoint list" where
  "sort_endpoints eps = sort_key ep_Name eps"

definition EqualLoadBalancerEndpoints :: "endpoint list option \<Rightarrow> endpoint list option \<Rightarrow> bool" where
  "EqualLoadBalancerEndpoints eps1 eps2 = (map_option sort_endpoints eps1 = map_option sort_endpoints eps2)"

section \<open>The reconciler\<close>

text \<open>What both controllers do with the endpoints of one LoadBalancer.\<close>

definition syncEndpoints :: "'w clusters \<Rightarrow> node list \<Rightarrow> service \<Rightarrow> load_balancer \<Rightarrow> ('w, load_balancer) cop" where
  "syncEndpoints cl nodes svc lb =
     (let readyEndpoints = getEndpointsFromNodes nodes (svc_IPFamilies svc) in
      if \<not> EqualLoadBalancerEndpoints (spec_Endpoints (lb_Spec lb)) (Some readyEndpoints) then
        bindM (PatchSpec cl lb (SpecEndpoints (sort_endpoints readyEndpoints))) (\<lambda>lb.
        thenM (ServiceEvent svc ''Normal'' ''update'' ''LoadBalancer endpoints successfully synced with nodes addresses'')
          (ret lb))
      else ret lb)"

fun node_lb_loop :: "'w clusters \<Rightarrow> node list \<Rightarrow> load_balancer list \<Rightarrow> ('w, unit) cop" where
  "node_lb_loop cl nodes [] = ret ()"
| "node_lb_loop cl nodes (lb # lbs) =
     (case splitOn (CHR ''/'') (at_key (meta_Annotations lb) ServiceAnnotation) of
        [ns, n] \<Rightarrow>
          (let nn = \<lparr>nn_Namespace = ns, nn_Name = n\<rparr> in
           bindM (ext (TGetService nn) (t_GetService cl nn)) (\<lambda>svc.
           thenM (syncEndpoints cl nodes svc lb) (node_lb_loop cl nodes lbs)))
      | _ \<Rightarrow> fail ErrCouldNotReadSvcNameSpacedNameFromAnno)"

definition NodeReconcile :: "'w clusters \<Rightarrow> string option \<Rightarrow> ('w, unit) cop" where
  "NodeReconcile cl namespace =
     deref namespace (\<lambda>ns.
     bindM (ext (KListLBs ns) (c_ListLBs cl ns)) (\<lambda>lbs.
     if lbs = [] then ret ()
     else
       bindM (ext TListNodes (t_ListNodes cl)) (\<lambda>nodes.
       node_lb_loop cl nodes lbs)))"

text \<open>The predicate that decides which changes of a node are looked at.\<close>

definition node_update_relevant :: "node \<Rightarrow> node \<Rightarrow> bool" where
  "node_update_relevant oldNode newNode =
     (isNodeReady oldNode \<noteq> isNodeReady newNode \<or>
      isNodeTerminating oldNode \<noteq> isNodeTerminating newNode \<or>
      getLoadBalancerEndpointFromNode oldNode [] \<noteq> getLoadBalancerEndpointFromNode newNode [])"

section \<open>Which nodes become endpoints\<close>

lemma endpoints_loop_eq:
  "endpoints_loop fs rs us ns =
     (rs @ map (\<lambda>n. getLoadBalancerEndpointFromNode n fs) (filter isNodeReady (filter (\<lambda>n. \<not> isNodeTerminating n) ns)),
      us @ map (\<lambda>n. getLoadBalancerEndpointFromNode n fs) (filter (\<lambda>n. \<not> isNodeTerminating n) ns))"
  by (induction fs rs us ns rule: endpoints_loop.induct) (simp_all add: Let_def)

text \<open>The endpoints are the ready nodes among those that are not terminating, in their order; when
  none of these is ready, all of them, so that a failure of the health checks does not take the load
  balancer out of service.\<close>

theorem endpoints_of_nodes:
  "getEndpointsFromNodes ns fs = map (\<lambda>n. getLoadBalancerEndpointFromNode n fs)
     (let usable = filter (\<lambda>n. \<not> isNodeTerminating n) ns; ready = filter isNodeReady usable in
      if ready = [] then usable else ready)"
  by (simp add: getEndpointsFromNodes_def endpoints_loop_eq Let_def)

text \<open>The list of internal addresses determines the endpoint for every choice of families.\<close>

lemma concat_if_map: "concat (map (\<lambda>a. if \<not> p a then [] else f (g a)) xs) = concat (map f (map g (filter p xs)))"
  by (induction xs) simp_all

lemma endpoint_internal:
  "getLoadBalancerEndpointFromNode n fs = \<lparr>ep_Name = meta_Name n, ep_Addresses = Some (concat (map (address_for fs)
     (map na_Address (filter (\<lambda>a. na_Type a = ''InternalIP'') (node_Addresses n)))))\<rparr>"
  by (simp only: getLoadBalancerEndpointFromNode_def
      concat_if_map [where p = "\<lambda>a. na_Type a = ''InternalIP''" and f = "address_for fs" and g = na_Address])

lemma endpoint_families:
  "getLoadBalancerEndpointFromNode n [] = getLoadBalancerEndpointFromNode m [] \<Longrightarrow>
     getLoadBalancerEndpointFromNode n fs = getLoadBalancerEndpointFromNode m fs"
proof -
  have "concat (map (address_for []) xs) = xs" for xs
    by (induction xs) (simp_all add: address_for_def)
  then show "getLoadBalancerEndpointFromNode n [] = getLoadBalancerEndpointFromNode m [] \<Longrightarrow> ?thesis"
    unfolding endpoint_internal by (simp del: map_map)
qed

text \<open>The filter on node updates loses nothing: an update that the predicate rejects leaves the
  endpoints as they were, for every list of nodes and every choice of IP families of a service.\<close>

theorem ignored_update_keeps_endpoints:
  assumes "\<not> node_update_relevant old new"
  shows "getEndpointsFromNodes (ns @ new # ms) fs = getEndpointsFromNodes (ns @ old # ms) fs"
proof -
  note same = assms [unfolded node_update_relevant_def de_Morgan_disj not_not]
  have "getLoadBalancerEndpointFromNode new fs = getLoadBalancerEndpointFromNode old fs"
    using same endpoint_families [of old new fs] by simp
  with same have "endpoints_loop fs [] [] (ns @ new # ms) = endpoints_loop fs [] [] (ns @ old # ms)"
    by (simp add: endpoints_loop_eq)
  then show ?thesis by (simp only: getEndpointsFromNodes_def)
qed

section \<open>When endpoints are the same\<close>

lemma sort_endpoints_mset:
  assumes "distinct (map ep_Name xs)"
  shows "sort_endpoints xs = sort_endpoints ys \<longleftrightarrow> mset xs = mset ys"
proof
  assume eq: "mset xs = mset ys"
  have "inj_on ep_Name (set xs)" using assms by (simp add: distinct_map)
  with eq show "sort_endpoints xs = sort_endpoints ys"
    unfolding sort_endpoints_def by (intro sort_key_inj_key_eq) simp_all
next
  assume "sort_endpoints xs = sort_endpoints ys"
  then have "mset (sort_key ep_Name xs) = mset (sort_key ep_Name ys)"
    by (simp only: sort_endpoints_def)
  then show "mset xs = mset ys" by simp
qed

text \<open>The comparison of endpoints ignores their order and nothing else: lists with distinct names
  count as equal exactly when they have the same elements; and endpoints that were never set differ
  from an empty list.\<close>

theorem equal_endpoints_iff:
  assumes "distinct (map ep_Name xs)"
  shows "(EqualLoadBalancerEndpoints (Some xs) (Some ys) \<longleftrightarrow> mset xs = mset ys) \<and>
    \<not> EqualLoadBalancerEndpoints None (Some xs)"
  by (simp add: EqualLoadBalancerEndpoints_def sort_endpoints_mset [OF assms])

text \<open>Bringing the endpoints up to date settles: when every node that counts has an internal
  address of a family of the service, the endpoints that the server stores after the patch equal the
  ones computed from the same nodes. An endpoint without addresses is stored without the field, which
  the comparison tells from an empty list, so such a node makes every reconcile patch again.\<close>

theorem endpoints_patch_settles:
  assumes "distinct (map meta_Name ns)"
  shows "EqualLoadBalancerEndpoints (spec_Endpoints (merge_spec (SpecEndpoints (sort_endpoints (getEndpointsFromNodes ns fs))) sp))
      (Some (getEndpointsFromNodes ns fs)) \<longleftrightarrow>
    list_all (\<lambda>ep. ep_Addresses ep \<noteq> Some []) (getEndpointsFromNodes ns fs)"
proof -
  let ?eps = "getEndpointsFromNodes ns fs"
  have d: "distinct (map meta_Name (filter p ns))" for p
    using assms by (rule distinct_map_filter)
  have names: "map ep_Name (map (\<lambda>n. getLoadBalancerEndpointFromNode n fs) xs) = map meta_Name xs" for xs
    by (simp add: getLoadBalancerEndpointFromNode_def)
  have "distinct (map ep_Name ?eps)"
    by (simp only: endpoints_of_nodes Let_def filter_filter if_distrib [of "map _"] names d split: if_split) simp
  then have "distinct (map ep_Name (sort_endpoints ?eps))"
    by (simp add: sort_endpoints_def distinct_map)
  then have "distinct (map ep_Name (map json_endpoint (sort_endpoints ?eps)))"
    by (simp add: json_endpoint_def o_def)
  then have "EqualLoadBalancerEndpoints (Some (map json_endpoint (sort_endpoints ?eps))) (Some ?eps) \<longleftrightarrow>
      mset (map json_endpoint (sort_endpoints ?eps)) = mset ?eps"
    by (simp add: EqualLoadBalancerEndpoints_def sort_endpoints_mset)
  also have "\<dots> \<longleftrightarrow> image_mset json_endpoint (mset ?eps) = mset ?eps"
    by (simp add: sort_endpoints_def)
  also have "\<dots> \<longleftrightarrow> list_all (\<lambda>ep. ep_Addresses ep \<noteq> Some []) ?eps"
  proof
    assume eq: "image_mset json_endpoint (mset ?eps) = mset ?eps"
    have "ep_Addresses ep \<noteq> Some []" if "ep \<in> set ?eps" for ep
    proof -
      have "ep \<in># image_mset json_endpoint (mset ?eps)" using that eq by simp
      then show ?thesis by (auto simp: json_endpoint_def split: if_splits)
    qed
    then show "list_all (\<lambda>ep. ep_Addresses ep \<noteq> Some []) ?eps" by (simp add: list_all_iff)
  next
    assume "list_all (\<lambda>ep. ep_Addresses ep \<noteq> Some []) ?eps"
    then have "image_mset json_endpoint (mset ?eps) = image_mset (\<lambda>ep. ep) (mset ?eps)"
      by (intro image_mset_cong) (simp add: list_all_iff json_endpoint_def)
    then show "image_mset json_endpoint (mset ?eps) = mset ?eps" by simp
  qed
  finally show ?thesis by simp
qed

section \<open>Examples\<close>

definition example_node :: "string \<Rightarrow> string \<Rightarrow> string \<Rightarrow> node" where
  "example_node name address status = \<lparr>meta_APIVersion = [], meta_Kind = [], meta_Name = name, meta_Namespace = [], meta_UID = [],
     meta_ResourceVersion = [], meta_Labels = Map.empty, meta_Annotations = Map.empty, meta_Finalizers = [],
     meta_OwnerReferences = [], meta_CreationTimestamp = 0, meta_DeletionTimestamp = None,
     node_Taints = [], node_Addresses = [\<lparr>na_Type = ''InternalIP'', na_Address = address\<rparr>],
     node_Conditions = [\<lparr>nc_Type = ''Ready'', nc_Status = status, nc_LastHeartbeatTime = 0, nc_LastTransitionTime = 0,
       nc_Reason = [], nc_Message = []\<rparr>]\<rparr>"

text \<open>A heartbeat of an unready node, looked at from a cluster with a ready one.\<close>

lemma ignored_update_keeps_endpoints_witness:
  "getEndpointsFromNodes [example_node ''a'' ''10.0.0.1'' ''True'', (example_node ''b'' ''10.0.0.2'' ''False'')\<lparr>meta_ResourceVersion := ''7''\<rparr>]
     [''IPv4''] =
   getEndpointsFromNodes [example_node ''a'' ''10.0.0.1'' ''True'', example_node ''b'' ''10.0.0.2'' ''False''] [''IPv4'']"
proof -
  have "\<not> node_update_relevant (example_node ''b'' ''10.0.0.2'' ''False'') ((example_node ''b'' ''10.0.0.2'' ''False'')\<lparr>meta_ResourceVersion := ''7''\<rparr>)"
    by (simp add: node_update_relevant_def isNodeReady_def isNodeTerminating_def getLoadBalancerEndpointFromNode_def
        example_node_def is_deleting_def)
  from ignored_update_keeps_endpoints [OF this, of "[example_node ''a'' ''10.0.0.1'' ''True'']" "[]"] show ?thesis by simp
qed

lemma equal_endpoints_iff_witness:
  "EqualLoadBalancerEndpoints (Some [\<lparr>ep_Name = ''a'', ep_Addresses = None\<rparr>, \<lparr>ep_Name = ''b'', ep_Addresses = None\<rparr>])
     (Some [\<lparr>ep_Name = ''b'', ep_Addresses = None\<rparr>, \<lparr>ep_Name = ''a'', ep_Addresses = None\<rparr>])"
  using equal_endpoints_iff [of "[\<lparr>ep_Name = ''a'', ep_Addresses = None\<rparr>, \<lparr>ep_Name = ''b'', ep_Addresses = None\<rparr>]"
      "[\<lparr>ep_Name = ''b'', ep_Addresses = None\<rparr>, \<lparr>ep_Name = ''a'', ep_Addresses = None\<rparr>]"] by simp

text \<open>A node with an IPv6 address only, behind a service for IPv4.\<close>

lemma endpoints_patch_settles_witness:
  "\<not> EqualLoadBalancerEndpoints
     (spec_Endpoints (merge_spec (SpecEndpoints (sort_endpoints (getEndpointsFromNodes [example_node ''a'' ''fd00::1'' ''True''] [''IPv4'']))) zero_lb_spec))
     (Some (getEndpointsFromNodes [example_node ''a'' ''fd00::1'' ''True''] [''IPv4'']))"
proof -
  have "\<not> is_ipv4 ''fd00::1''" by code_simp
  then have eps: "getEndpointsFromNodes [example_node ''a'' ''fd00::1'' ''True''] [''IPv4''] = [\<lparr>ep_Name = ''a'', ep_Addresses = Some []\<rparr>]"
    by (simp add: getEndpointsFromNodes_def getLoadBalancerEndpointFromNode_def address_for_def example_node_def
        isNodeReady_def isNodeTerminating_def is_deleting_def ConditionTrue_def NodeTerminationCondition_def Let_def)
  have "distinct (map meta_Name [example_node ''a'' ''fd00::1'' ''True''])" by simp
  from endpoints_patch_settles [OF this, of "[''IPv4'']" zero_lb_spec] show ?thesis
    unfolding eps by simp
qed

end
