(* ===== verification/ServiceController.thy ===== *)
theory ServiceController
  imports Services Nodes HelperLB
begin

text \<open>
  The reconciler of Services,
  \<open>controllers/yawol-cloud-controller/targetcontroller/service_controller.go\<close>: it creates a LoadBalancer
  for a Service, keeps the spec of the LoadBalancer equal to what the Service asks for by one merge
  patch per difference, and deletes the LoadBalancer with the Service. SHA-256 is a parameter of the reconciler; log lines
  are left out.
\<close>

section \<open>The reconciler\<close>

definition ServiceFinalizer_svc :: string where "ServiceFinalizer_svc = ''stackit.cloud/loadbalancer''"
definition LoadBalancerLabelName :: string where "LoadBalancerLabelName = ''yawol.stackit.cloud/loadbalancer''"

definition ErrProjectIsImmutable :: goerr where
  "ErrProjectIsImmutable = HelperErr ''project id is immutable, cant be changed after initial creation''"

record 'w service_reconciler =
  sc_clusters :: "'w clusters"
  sc_InfrastructureDefaults :: infrastructure_defaults
  sc_ClassNames :: "string list"
  sc_sha256 :: "string \<Rightarrow> 8 word list"

definition AddServiceFinalizer :: "'w clusters \<Rightarrow> service \<Rightarrow> ('w, service) cop" where
  "AddServiceFinalizer cl svc =
     (if ContainsFinalizer (meta_Finalizers svc) ServiceFinalizer_svc then ret svc
      else let fs = meta_Finalizers svc @ [ServiceFinalizer_svc]
           in ext (TPatchFinalizers (key_of svc) fs) (t_PatchFinalizers cl (key_of svc) fs))"

definition RemoveServiceFinalizer :: "'w clusters \<Rightarrow> service \<Rightarrow> ('w, unit) cop" where
  "RemoveServiceFinalizer cl svc =
     (if \<not> ContainsFinalizer (meta_Finalizers svc) ServiceFinalizer_svc then ret ()
      else let fs = RemoveFinalizer (meta_Finalizers svc) ServiceFinalizer_svc
           in bindM (ext (TPatchFinalizers (key_of svc) fs) (t_PatchFinalizers cl (key_of svc) fs)) (\<lambda>_. ret ()))"

section \<open>The infrastructure a Service asks for\<close>

text \<open>\<open>*p\<close>\<close>

definition at_ptr :: "'a option \<Rightarrow> ('a \<Rightarrow> 'b result) \<Rightarrow> 'b result" where
  "at_ptr p k = (case p of None \<Rightarrow> Crash ''nil pointer dereference'' | Some x \<Rightarrow> k x)"

text \<open>The set of networks is a Go map, whose keys the loop that builds the list visits.\<close>

definition annotated_networks :: "service \<Rightarrow> labels" where
  "annotated_networks svc =
     (case meta_Annotations svc ServiceAdditionalNetworks of
        None \<Rightarrow> Map.empty
      | Some networks \<Rightarrow> foldl (\<lambda>m networkID. m(networkID \<mapsto> [])) Map.empty (splitOn (CHR '','') networks))"

definition additional_network_ids :: "service \<Rightarrow> infrastructure_defaults \<Rightarrow> labels result" where
  "additional_network_ids svc infraConfig =
     (case meta_Annotations svc ServiceDefaultNetworkID of
        None \<Rightarrow> Ok (annotated_networks svc)
      | Some networkID \<Rightarrow> at_ptr (id_NetworkID infraConfig) (\<lambda>defaultID.
          if networkID \<noteq> defaultID \<and>
             \<not> ParseBool_val (at_key (meta_Annotations svc) ServiceSkipCloudControllerDefaultNetworkID)
          then Ok ((annotated_networks svc)(defaultID \<mapsto> []))
          else Ok (annotated_networks svc)))"

definition network_list :: "string list \<Rightarrow> additional_network list option" where
  "network_list ids = (if ids = [] then None else Some (map (\<lambda>i. \<lparr>an_NetworkID = i\<rparr>) ids))"

definition getAdditionalNetworks ::
    "'w clusters \<Rightarrow> service \<Rightarrow> infrastructure_defaults \<Rightarrow> (additional_network list option \<Rightarrow> ('w, 'a) cop) \<Rightarrow> ('w, 'a) cop" where
  "getAdditionalNetworks cl svc infraConfig f =
     bindM (liftR (additional_network_ids svc infraConfig)) (\<lambda>networkIDs. visitM cl networkIDs (\<lambda>ids. f (network_list ids)))"

definition getDefaultNetwork :: "service \<Rightarrow> infrastructure_defaults \<Rightarrow> default_network result" where
  "getDefaultNetwork svc infraConfig = at_ptr (id_NetworkID infraConfig) (\<lambda>defaultID.
     Ok \<lparr>dn_FloatingNetID = over (meta_Annotations svc ServiceFloatingNetworkID) (id_FloatingNetworkID infraConfig),
       dn_NetworkID = (case meta_Annotations svc ServiceDefaultNetworkID of Some networkID \<Rightarrow> networkID | None \<Rightarrow> defaultID),
       dn_SubnetID = over (meta_Annotations svc ServiceDefaultSubnetID) (id_SubnetID infraConfig)\<rparr>)"

definition getProjectID :: "service \<Rightarrow> string option" where
  "getProjectID svc = meta_Annotations svc ServiceDefaultProjectID"

text \<open>The struct literal that the two functions share.\<close>

definition infrastructure_of ::
    "service \<Rightarrow> infrastructure_defaults \<Rightarrow> default_network \<Rightarrow> additional_network list option \<Rightarrow> infrastructure result" where
  "infrastructure_of svc infraConfig defaultNetwork additionalNetworks =
     at_ptr (id_FlavorRef infraConfig) (\<lambda>flavor.
     at_ptr (id_ImageRef infraConfig) (\<lambda>image.
     at_ptr (id_AvailabilityZone infraConfig) (\<lambda>az.
     at_ptr (id_AuthSecretName infraConfig) (\<lambda>secretName.
     at_ptr (id_Namespace infraConfig) (\<lambda>namespace.
     Ok \<lparr>infra_FloatingNetID = None, infra_NetworkID = [], infra_DefaultNetwork = defaultNetwork,
       infra_AdditionalNetworks = additionalNetworks, infra_Flavor = flavor, infra_Image = image,
       infra_AvailabilityZone = az, infra_AuthSecretRef = \<lparr>ref_Name = secretName, ref_Namespace = namespace\<rparr>,
       infra_ProjectID = getProjectID svc\<rparr>)))))"

definition newInfrastructure ::
    "'w clusters \<Rightarrow> service \<Rightarrow> infrastructure_defaults \<Rightarrow> (infrastructure \<Rightarrow> ('w, 'a) cop) \<Rightarrow> ('w, 'a) cop" where
  "newInfrastructure cl svc infraConfig f =
     bindM (liftR (getDefaultNetwork svc infraConfig)) (\<lambda>defaultNetwork.
     getAdditionalNetworks cl svc infraConfig (\<lambda>additionalNetworks.
     bindM (liftR (infrastructure_of svc infraConfig defaultNetwork additionalNetworks)) f))"

section \<open>Creating the LoadBalancer\<close>

definition getLoadBalancerNamespacedName :: "infrastructure_defaults \<Rightarrow> service \<Rightarrow> namespaced_name result" where
  "getLoadBalancerNamespacedName infraConfig svc = at_ptr (id_Namespace infraConfig) (\<lambda>ns.
     Ok \<lparr>nn_Namespace = ns, nn_Name = GetLoadBalancerNameFromService svc\<rparr>)"

definition label_hash :: "(string \<Rightarrow> 8 word list) \<Rightarrow> string \<Rightarrow> string result" where
  "label_hash sha s =
     (let h = ToLower (base32_StdEncoding (sha s))
      in if length h < 16 then Crash ''slice bounds out of range'' else Ok (take 16 h))"

definition new_load_balancer ::
    "namespaced_name \<Rightarrow> namespaced_name \<Rightarrow> string \<Rightarrow> service \<Rightarrow> infrastructure \<Rightarrow> lb_options \<Rightarrow> load_balancer" where
  "new_load_balancer lbNN svcNN hashstring svc infra options =
     \<lparr>meta_APIVersion = [], meta_Kind = [], meta_Name = nn_Name lbNN, meta_Namespace = nn_Namespace lbNN, meta_UID = [],
      meta_ResourceVersion = [], meta_Labels = Map.empty, meta_Annotations = [ServiceAnnotation \<mapsto> nn_String svcNN],
      meta_Finalizers = [], meta_OwnerReferences = [], meta_CreationTimestamp = zero_time, meta_DeletionTimestamp = None,
      lb_Spec = \<lparr>spec_Selector = \<lparr>MatchLabels = [LoadBalancerLabelName \<mapsto> hashstring], MatchExpressions = []\<rparr>,
        spec_Replicas = GetReplicasFromService svc, spec_ExistingFloatingIP = GetExistingFloatingIPFromAnnotation svc,
        spec_DebugSettings = GetDebugSettings svc, spec_Endpoints = None, spec_Ports = [],
        spec_Infrastructure = infra, spec_Options = options\<rparr>,
      lb_Status = \<lparr>ReadyReplicas = None, Replicas = None, ExternalIP = None, FloatingID = None, FloatingName = None,
        PortID = None, PortName = None, PortIP = None, ServerGroupID = None, ServerGroupName = None,
        SecurityGroupID = None, SecurityGroupName = None, SecurityGroupIDOld = None, SecurityGroupNameOld = None,
        LastOpenstackReconcile = None, OpenstackReconcileHash = None\<rparr>\<rparr>"

definition createLoadBalancer ::
    "'w service_reconciler \<Rightarrow> namespaced_name \<Rightarrow> service \<Rightarrow> infrastructure_defaults \<Rightarrow> ('w, unit) cop" where
  "createLoadBalancer sc svcNN svc infraConfig =
     deref (id_Namespace infraConfig) (\<lambda>ns.
     bindM (liftR (label_hash (sc_sha256 sc) (ns @ ''.'' @ nn_Namespace svcNN @ ''--'' @ nn_Name svcNN))) (\<lambda>hashstring.
     bindM (liftR (getLoadBalancerNamespacedName infraConfig svc)) (\<lambda>lbNN.
     newInfrastructure (sc_clusters sc) svc infraConfig (\<lambda>infra.
     bindM (GetOptions (sc_clusters sc) svc) (\<lambda>options.
     let lb = new_load_balancer lbNN svcNN hashstring svc infra options in
     bindM (ext (KCreateLB lb) (c_CreateLB (sc_clusters sc) lb)) (\<lambda>_. ret ()))))))"

section \<open>One difference, one patch\<close>

definition reconcilePorts :: "'w clusters \<Rightarrow> load_balancer \<Rightarrow> service \<Rightarrow> ('w, load_balancer) cop" where
  "reconcilePorts cl lb svc =
     (if spec_Ports (lb_Spec lb) \<noteq> svc_Ports svc then
        bindM (PatchSpec cl lb (SpecPorts (svc_Ports svc))) (\<lambda>lb.
        thenM (ServiceEvent svc ''Normal'' ''update'' ''LoadBalancer ports successfully synced with service ports'')
          (ret lb))
      else ret lb)"

definition reconcileReplicas_svc :: "'w clusters \<Rightarrow> load_balancer \<Rightarrow> service \<Rightarrow> ('w, load_balancer) cop" where
  "reconcileReplicas_svc cl lb svc =
     (let replicas = GetReplicasFromService svc in
      if replicas \<noteq> spec_Replicas (lb_Spec lb) then
        bindM (PatchSpec cl lb (SpecReplicas replicas)) (\<lambda>lb.
        thenM (ServiceEvent svc ''Normal'' ''update'' ''LoadBalancer replicas successfully synced with service replicas'')
          (ret lb))
      else ret lb)"

definition reconcileNodes :: "'w clusters \<Rightarrow> load_balancer \<Rightarrow> service \<Rightarrow> ('w, load_balancer) cop" where
  "reconcileNodes cl lb svc =
     bindM (ext TListNodes (t_ListNodes cl)) (\<lambda>nodes. syncEndpoints cl nodes svc lb)"

text \<open>A conditional patch, then the rest.\<close>

definition patchIf :: "'w clusters \<Rightarrow> bool \<Rightarrow> spec_patch \<Rightarrow> load_balancer \<Rightarrow> ('w, load_balancer) cop" where
  "patchIf cl b p lb = (if b then PatchSpec cl lb p else ret lb)"

definition reconcileInfrastructure ::
    "'w clusters \<Rightarrow> load_balancer \<Rightarrow> service \<Rightarrow> infrastructure_defaults \<Rightarrow> ('w, load_balancer) cop" where
  "reconcileInfrastructure cl lb svc infraConfig =
     (newInfrastructure cl svc infraConfig (\<lambda>newInfra.
      if infra_ProjectID newInfra \<noteq> infra_ProjectID (spec_Infrastructure (lb_Spec lb)) then ServiceError ErrProjectIsImmutable svc
      else
        bindM (patchIf cl (newInfra \<noteq> spec_Infrastructure (lb_Spec lb)) (SpecInfrastructure newInfra) lb) (\<lambda>lb.
        bindM (case id_InternalLB infraConfig of
            None \<Rightarrow> ret lb
          | Some b \<Rightarrow> patchIf cl (b \<noteq> opt_InternalLB (spec_Options (lb_Spec lb))) (SpecInternalLB b) lb) (\<lambda>lb.
        bindM (patchIf cl (infra_NetworkID (spec_Infrastructure (lb_Spec lb)) \<noteq> []) SpecNetworkIDEmpty lb) (\<lambda>lb.
        patchIf cl (infra_FloatingNetID (spec_Infrastructure (lb_Spec lb)) \<noteq> None) SpecFloatingNetIDNull lb)))))"

definition reconcileDebugSettings :: "'w clusters \<Rightarrow> load_balancer \<Rightarrow> service \<Rightarrow> ('w, load_balancer) cop" where
  "reconcileDebugSettings cl lb svc =
     patchIf cl (GetDebugSettings svc \<noteq> spec_DebugSettings (lb_Spec lb)) (SpecDebugSettings (GetDebugSettings svc)) lb"

text \<open>The options: from the ports filter on, the first one that differs is patched and the function
  returns.\<close>

definition first_option_patch :: "lb_options \<Rightarrow> lb_options \<Rightarrow> spec_patch option" where
  "first_option_patch newOptions old =
     (if opt_TCPProxyProtocolPortsFilter newOptions \<noteq> opt_TCPProxyProtocolPortsFilter old
      then Some (SpecPortsFilter (opt_TCPProxyProtocolPortsFilter newOptions))
      else if opt_LogForward newOptions \<noteq> opt_LogForward old then Some (SpecLogForward (opt_LogForward newOptions))
      else if opt_TCPIdleTimeout newOptions \<noteq> opt_TCPIdleTimeout old then Some (SpecTCPIdleTimeout (opt_TCPIdleTimeout newOptions))
      else if opt_UDPIdleTimeout newOptions \<noteq> opt_UDPIdleTimeout old then Some (SpecUDPIdleTimeout (opt_UDPIdleTimeout newOptions))
      else if opt_ServerGroupPolicy newOptions \<noteq> opt_ServerGroupPolicy old
      then Some (SpecServerGroupPolicy (opt_ServerGroupPolicy newOptions))
      else None)"

definition reconcileOptions :: "'w clusters \<Rightarrow> load_balancer \<Rightarrow> service \<Rightarrow> ('w, load_balancer) cop" where
  "reconcileOptions cl lb svc =
     (bindM (GetOptions cl svc) (\<lambda>newOptions.
      bindM (if opt_LoadBalancerSourceRanges newOptions \<noteq> opt_LoadBalancerSourceRanges (spec_Options (lb_Spec lb)) then
          bindM (PatchSpec cl lb (SpecSourceRanges (opt_LoadBalancerSourceRanges newOptions))) (\<lambda>lb.
          thenM (ServiceEvent svc ''Normal'' ''update'' ''LoadBalancer SourceRanges successfully synced with service SourceRange'')
            (ret lb))
        else ret lb) (\<lambda>lb.
      bindM (patchIf cl (opt_TCPProxyProtocol newOptions \<noteq> opt_TCPProxyProtocol (spec_Options (lb_Spec lb)))
          (SpecTCPProxyProtocol (opt_TCPProxyProtocol newOptions)) lb) (\<lambda>lb.
      case first_option_patch newOptions (spec_Options (lb_Spec lb)) of
        None \<Rightarrow> ret lb
      | Some p \<Rightarrow> PatchSpec cl lb p))))"

definition reconcileExistingFloatingIP :: "'w clusters \<Rightarrow> load_balancer \<Rightarrow> service \<Rightarrow> ('w, load_balancer) cop" where
  "reconcileExistingFloatingIP cl lb svc =
     (case GetExistingFloatingIPFromAnnotation svc of
        None \<Rightarrow> ret lb
      | Some existingIP \<Rightarrow>
          (case GetIPFromStatus svc of
             None \<Rightarrow> ret lb
           | Some statusIP \<Rightarrow>
               if existingIP \<noteq> statusIP
               then ServiceError (OtherErr ''adding a different ExistingFloatingIP is not supported after LB creation'') svc
               else patchIf cl (spec_ExistingFloatingIP (lb_Spec lb) \<noteq> Some existingIP) (SpecExistingFloatingIP existingIP) lb))"

section \<open>Reconcile\<close>

definition deletionRoutine_svc :: "'w service_reconciler \<Rightarrow> service \<Rightarrow> infrastructure_defaults \<Rightarrow> ('w, int) cop" where
  "deletionRoutine_svc sc svc infraDefaults =
     (let cl = sc_clusters sc in
      bindM (liftR (getLoadBalancerNamespacedName infraDefaults svc)) (\<lambda>nn.
      catchM (ext (KGetLB nn) (c_GetLB cl nn))
        (\<lambda>err.
          if \<not> IsNotFound err then fail err
          else if \<not> CheckLoadBalancerClasses svc (sc_ClassNames sc) then ret 0
          else
            bindM (if svc_Ingress svc \<noteq> [] then ext (TRemoveIngress (key_of svc)) (t_RemoveIngress cl (key_of svc)) else ret svc) (\<lambda>svc.
            thenM (RemoveServiceFinalizer cl svc) (ret 0)))
        (\<lambda>lb.
          if \<not> is_deleting lb then
            thenM (ext (KDeleteLB (key_of lb)) (c_DeleteLB cl (key_of lb))) (ret (5 * Second))
          else ret (5 * Second))))"

text \<open>The LoadBalancer exists and belongs to the Service.\<close>

definition syncLoadBalancer ::
    "'w clusters \<Rightarrow> infrastructure_defaults \<Rightarrow> service \<Rightarrow> load_balancer \<Rightarrow> ('w, load_balancer) cop" where
  "syncLoadBalancer cl infraDefaults svc lb =
     (bindM (reconcilePorts cl lb svc) (\<lambda>lb.
      bindM (reconcileReplicas_svc cl lb svc) (\<lambda>lb.
      bindM (reconcileNodes cl lb svc) (\<lambda>lb.
      bindM (reconcileInfrastructure cl lb svc infraDefaults) (\<lambda>lb.
      bindM (reconcileDebugSettings cl lb svc) (\<lambda>lb.
      bindM (catchM (reconcileOptions cl lb svc) (\<lambda>err. ServiceError err svc) ret) (\<lambda>lb.
      reconcileExistingFloatingIP cl lb svc)))))))"

definition reconcileService :: "'w service_reconciler \<Rightarrow> namespaced_name \<Rightarrow> infrastructure_defaults \<Rightarrow> service \<Rightarrow> ('w, int) cop" where
  "reconcileService sc req infraDefaults svc =
     (let cl = sc_clusters sc in
      bindM (AddServiceFinalizer cl svc) (\<lambda>svc.
      case ValidateService svc of
        Some e \<Rightarrow> ServiceError (OtherErr (''validation failed: '' @ Error_text e)) svc
      | None \<Rightarrow>
          deref (id_Namespace infraDefaults) (\<lambda>ns.
          let nn = \<lparr>nn_Namespace = ns, nn_Name = nn_Namespace req @ ''--'' @ nn_Name req\<rparr>; owner = meta_Namespace svc @ ''/'' @ meta_Name svc in
          catchM (ext (KGetLB nn) (c_GetLB cl nn))
            (\<lambda>err.
              if \<not> IsNotFound err then fail err
              else if is_deleting svc then thenM (RemoveServiceFinalizer cl svc) (ret 0)
              else
                catchM (createLoadBalancer sc req svc infraDefaults) (\<lambda>err. ServiceError err svc) (\<lambda>_.
                thenM (ServiceEvent svc ''Normal'' ''creation'' ''LoadBalancer is in creation'') (ret (1 * Second))))
            (\<lambda>lb.
              if at_key (meta_Annotations lb) ServiceAnnotation \<noteq> owner then
                thenM (ext (KPatchAnnotation (key_of lb) ServiceAnnotation owner) (c_PatchAnnotation cl (key_of lb) ServiceAnnotation owner))
                  (ret (1 * Second))
              else thenM (syncLoadBalancer cl infraDefaults svc lb) (ret 0)))))"

definition ServiceReconcile :: "'w service_reconciler \<Rightarrow> namespaced_name \<Rightarrow> ('w, int) cop" where
  "ServiceReconcile sc req =
     (let cl = sc_clusters sc in
      catchM (ext (TGetService req) (t_GetService cl req))
        (\<lambda>err. if IsNotFound err then ret 0 else fail err)
        (\<lambda>svc.
          let infraDefaults = GetMergedInfrastructureDetails (sc_InfrastructureDefaults sc) svc in
          if \<not> CheckLoadBalancerClasses svc (sc_ClassNames sc) then
            deref (id_Namespace infraDefaults) (\<lambda>ns.
            let nn = \<lparr>nn_Namespace = ns, nn_Name = nn_Namespace req @ ''--'' @ nn_Name req\<rparr> in
            catchM (ext (KGetLB nn) (c_GetLB cl nn))
              (\<lambda>err. if IsNotFound err then ret 0 else fail err)
              (\<lambda>_. deletionRoutine_svc sc svc infraDefaults))
          else if svc_Type svc \<noteq> ''LoadBalancer'' \<or> is_deleting svc then deletionRoutine_svc sc svc infraDefaults
          else reconcileService sc req infraDefaults svc))"

end
