(* ===== verification/ServiceSync.thy ===== *)
theory ServiceSync
  imports ServiceController
begin

text \<open>
  The synchronisation of a LoadBalancer with its Service. The locale \<open>control_plane\<close> states what the
  API of the control cluster promises of reads and merge patches; within it the functions of the
  reconciler, which patch one difference at a time, are shown to implement a function on specs,
  \<open>sync_spec\<close>. What this function achieves, how many rounds it needs and where it is stuck are then
  facts about that function.
\<close>

section \<open>Options as a function of the Service\<close>

fun log_labels :: "service \<Rightarrow> string list \<Rightarrow> labels \<Rightarrow> labels" where
  "log_labels svc [] ls = ls"
| "log_labels svc (annotation # rest) ls =
     (let key = TrimPrefix annotation LoadBalancerLogLabelPrefix; value = at_key (meta_Annotations svc) annotation in
      log_labels svc rest (if HasPrefix annotation LoadBalancerLogLabelPrefix \<and> key \<noteq> [] \<and> value \<noteq> [] then ls(key \<mapsto> value) else ls))"

definition log_forward_with :: "service \<Rightarrow> string list \<Rightarrow> log_forward" where
  "log_forward_with svc annotations =
     (if ParseBool_val (at_key (meta_Annotations svc) ServiceLogForward)
      then \<lparr>lf_Enabled = True, lf_LokiURL = at_key (meta_Annotations svc) ServiceLogForwardLokiURL,
        lf_ProxyURL = at_key (meta_Annotations svc) ServiceLogForwardProxyURL, lf_Labels = Some (log_labels svc annotations Map.empty)\<rparr>
      else \<lparr>lf_Enabled = False, lf_LokiURL = [], lf_ProxyURL = [], lf_Labels = None\<rparr>)"

definition timeout_of :: "service \<Rightarrow> string \<Rightarrow> int option" where
  "timeout_of svc annotation =
     (let v = at_key (meta_Annotations svc) annotation in if v = [] then None else ParseDuration v)"

definition options_with :: "service \<Rightarrow> string list \<Rightarrow> lb_options" where
  "options_with svc annotations = (let a = at_key (meta_Annotations svc) in
     \<lparr>opt_InternalLB = ParseBool_val (a ServiceInternalLoadbalancer),
      opt_LoadBalancerSourceRanges = source_ranges_of svc,
      opt_TCPProxyProtocol = ParseBool_val (a ServiceTCPProxyProtocol),
      opt_TCPProxyProtocolPortsFilter = getTCPProxyProtocolPortsFilter (a ServiceTCPProxyProtocolPortsFilter),
      opt_TCPIdleTimeout = timeout_of svc ServiceTCPIdleTimeout, opt_UDPIdleTimeout = timeout_of svc ServiceUDPIdleTimeout,
      opt_LogForward = log_forward_with svc annotations, opt_ServerGroupPolicy = a ServiceServerGroupPolicy\<rparr>)"

lemma ParseBool_val_Nil [simp]: "\<not> ParseBool_val []"
  by (simp add: ParseBool_val_def ParseBool_def)

lemma over_assoc: "over_string p (over_string p old) = over_string p old"
  by (simp add: over_string_def)

section \<open>The function on specs\<close>

definition merge_if :: "bool \<Rightarrow> spec_patch \<Rightarrow> lb_spec \<Rightarrow> lb_spec" where
  "merge_if b p sp = (if b then merge_spec p sp else sp)"

definition sync_endpoints :: "service \<Rightarrow> node list \<Rightarrow> lb_spec \<Rightarrow> lb_spec" where
  "sync_endpoints svc nodes sp =
     (let eps = getEndpointsFromNodes nodes (svc_IPFamilies svc) in
      merge_if (\<not> EqualLoadBalancerEndpoints (spec_Endpoints sp) (Some eps)) (SpecEndpoints (sort_endpoints eps)) sp)"

definition sync_infrastructure :: "infrastructure \<Rightarrow> bool option \<Rightarrow> lb_spec \<Rightarrow> lb_spec" where
  "sync_infrastructure new internal sp =
     (let sp = merge_if (new \<noteq> spec_Infrastructure sp) (SpecInfrastructure new) sp;
          sp = (case internal of None \<Rightarrow> sp | Some b \<Rightarrow> merge_if (b \<noteq> opt_InternalLB (spec_Options sp)) (SpecInternalLB b) sp);
          sp = merge_if (infra_NetworkID (spec_Infrastructure sp) \<noteq> []) SpecNetworkIDEmpty sp
      in merge_if (infra_FloatingNetID (spec_Infrastructure sp) \<noteq> None) SpecFloatingNetIDNull sp)"

definition sync_debug :: "service \<Rightarrow> lb_spec \<Rightarrow> lb_spec" where
  "sync_debug svc sp = merge_if (GetDebugSettings svc \<noteq> spec_DebugSettings sp) (SpecDebugSettings (GetDebugSettings svc)) sp"

definition sync_options :: "lb_options \<Rightarrow> lb_spec \<Rightarrow> lb_spec" where
  "sync_options new sp =
     (let sp = sp\<lparr>spec_Options := (spec_Options sp)\<lparr>opt_LoadBalancerSourceRanges := opt_LoadBalancerSourceRanges new\<rparr>\<rparr>;
          sp = sp\<lparr>spec_Options := (spec_Options sp)\<lparr>opt_TCPProxyProtocol := opt_TCPProxyProtocol new\<rparr>\<rparr>
      in case first_option_patch new (spec_Options sp) of None \<Rightarrow> sp | Some p \<Rightarrow> merge_spec p sp)"

definition sync_floating_ip :: "service \<Rightarrow> lb_spec \<Rightarrow> lb_spec" where
  "sync_floating_ip svc sp =
     (case (GetExistingFloatingIPFromAnnotation svc, GetIPFromStatus svc) of
        (Some ip, Some _) \<Rightarrow> sp\<lparr>spec_ExistingFloatingIP := Some ip\<rparr>
      | _ \<Rightarrow> sp)"

definition sync_spec :: "service \<Rightarrow> node list \<Rightarrow> infrastructure \<Rightarrow> bool option \<Rightarrow> lb_options \<Rightarrow> lb_spec \<Rightarrow> lb_spec" where
  "sync_spec svc nodes infra internal options sp =
     sync_floating_ip svc (sync_options options (sync_debug svc (sync_infrastructure infra internal
       (sync_endpoints svc nodes (sp\<lparr>spec_Ports := svc_Ports svc, spec_Replicas := GetReplicasFromService svc\<rparr>)))))"

section \<open>What can be read\<close>

text \<open>An answer of \<open>visit\<close> for a map, of the list of nodes, and the infrastructures that a Service can
  ask for, one for each order of its networks.\<close>

definition visited :: "'w clusters \<Rightarrow> labels \<Rightarrow> string list \<Rightarrow> bool" where
  "visited cl m ks = (\<exists>w. fst (c_visit cl m w) = ks)"

definition listed :: "'w clusters \<Rightarrow> node list \<Rightarrow> bool" where
  "listed cl nodes = (\<exists>w w'. t_ListNodes cl w = (Ok nodes, w'))"

definition asked :: "'w clusters \<Rightarrow> service \<Rightarrow> infrastructure_defaults \<Rightarrow> infrastructure \<Rightarrow> bool" where
  "asked cl svc cfg infra = (\<exists>nw m ids. getDefaultNetwork svc cfg = Ok nw \<and> additional_network_ids svc cfg = Ok m \<and>
     visited cl m ids \<and> infrastructure_of svc cfg nw (network_list ids) = Ok infra)"

section \<open>The reconciler implements it\<close>

locale control_plane =
  fixes cl :: "'w clusters" and stored :: "'w \<Rightarrow> namespaced_name \<Rightarrow> load_balancer option"
  assumes patch_spec: "c_PatchSpec cl n p w = (Ok lb', w') \<Longrightarrow>
      \<exists>lb. stored w n = Some lb \<and> lb_Spec lb' = merge_spec p (lb_Spec lb) \<and> key_of lb' = n \<and> stored w' n = Some lb'"
    and nodes_keep: "t_ListNodes cl w = (ns, w') \<Longrightarrow> stored w' = stored w"
    and visit_keeps: "c_visit cl m w = (ks, w') \<Longrightarrow> stored w' = stored w"
begin

text \<open>\<open>implements F lb m\<close>: when \<open>m\<close>, run with the stored object \<open>lb\<close>, returns an object, that object is
  the stored one, and its spec is related to the old one by \<open>F\<close>.\<close>

definition ends :: "(lb_spec \<Rightarrow> lb_spec \<Rightarrow> bool) \<Rightarrow> load_balancer \<Rightarrow> load_balancer result \<Rightarrow> ('w, ccall) st \<Rightarrow> bool" where
  "ends F lb r t = (\<forall>lb'. r = Ok lb' \<longrightarrow>
     stored (world t) (key_of lb) = Some lb' \<and> key_of lb' = key_of lb \<and> F (lb_Spec lb) (lb_Spec lb'))"

definition implements :: "(lb_spec \<Rightarrow> lb_spec \<Rightarrow> bool) \<Rightarrow> load_balancer \<Rightarrow> ('w, load_balancer) cop \<Rightarrow> bool" where
  "implements F lb m = (\<forall>s. stored (world s) (key_of lb) = Some lb \<longrightarrow> runs m s (ends F lb))"

text \<open>\<open>reads Q m\<close>: \<open>m\<close> leaves what is stored alone and returns only values that satisfy \<open>Q\<close>.\<close>

definition reads :: "('a \<Rightarrow> bool) \<Rightarrow> ('w, 'a) cop \<Rightarrow> bool" where
  "reads Q m = (\<forall>s. runs m s (\<lambda>r t. stored (world t) = stored (world s) \<and> (\<forall>x. r = Ok x \<longrightarrow> Q x)))"

lemma ends_simps [simp]: "ends F lb (Err e) t" "ends F lb (Crash c) t"
  by (simp_all add: ends_def)

lemma implements_runs: "implements F lb m \<Longrightarrow> stored (world s) (key_of lb) = Some lb \<Longrightarrow> runs m s (ends F lb)"
  by (simp add: implements_def)

lemma implements_weaken: "implements F lb m \<Longrightarrow> (\<And>y. F (lb_Spec lb) y \<Longrightarrow> G (lb_Spec lb) y) \<Longrightarrow> implements G lb m"
  unfolding implements_def ends_def by (fast elim: runs_weaken)

lemma implements_ret: "F (lb_Spec lb) (lb_Spec lb) \<Longrightarrow> implements F lb (ret lb)"
  by (simp add: implements_def ends_def runs_simps)

lemma implements_error [simp]: "implements F lb (ServiceError e svc)" "implements F lb (fail e)" "implements F lb (crash c)"
  by (simp_all add: implements_def runs_simps)

lemma implements_patch: "F (lb_Spec lb) (merge_spec p (lb_Spec lb)) \<Longrightarrow> implements F lb (PatchSpec cl lb p)"
  by (auto simp: implements_def ends_def runs_simps dest: patch_spec split: prod.split)

lemma implements_bind:
  assumes "implements F lb m" and "\<And>lb'. implements G lb' (k lb')"
  shows "implements (\<lambda>x z. \<exists>y. F x y \<and> G y z) lb (bindM m k)"
  unfolding implements_def runs_bindM
proof (intro allI impI)
  fix s :: "('w, ccall) st"
  assume "stored (world s) (key_of lb) = Some lb"
  then show "runs m s (caseR (\<lambda>x t. runs (k x) t (ends (\<lambda>x z. \<exists>y. F x y \<and> G y z) lb))
      (\<lambda>e. ends (\<lambda>x z. \<exists>y. F x y \<and> G y z) lb (Err e)) (\<lambda>c. ends (\<lambda>x z. \<exists>y. F x y \<and> G y z) lb (Crash c)))"
  proof (rule runs_weaken [OF implements_runs [OF assms(1)]])
    fix r :: "load_balancer result" and t :: "('w, ccall) st"
    assume r: "ends F lb r t"
    show "caseR (\<lambda>x t. runs (k x) t (ends (\<lambda>x z. \<exists>y. F x y \<and> G y z) lb))
      (\<lambda>e. ends (\<lambda>x z. \<exists>y. F x y \<and> G y z) lb (Err e)) (\<lambda>c. ends (\<lambda>x z. \<exists>y. F x y \<and> G y z) lb (Crash c)) r t"
    proof (cases r)
      case (Ok lb1)
      with r have lb1: "stored (world t) (key_of lb1) = Some lb1" "key_of lb1 = key_of lb" "F (lb_Spec lb) (lb_Spec lb1)"
        by (simp_all add: ends_def)
      show ?thesis
        unfolding Ok caseR_simps
        by (rule runs_weaken [OF implements_runs [OF assms(2) lb1(1)]]) (use lb1 in \<open>auto simp: ends_def\<close>)
    qed simp_all
  qed
qed

lemma implements_reads:
  assumes "reads Q m" and "\<And>x. Q x \<Longrightarrow> implements F lb (k x)"
  shows "implements F lb (bindM m k)"
  unfolding implements_def runs_bindM
proof (intro allI impI runs_weaken [OF assms(1) [unfolded reads_def, rule_format]])
  fix s t :: "('w, ccall) st" and r
  assume "stored (world s) (key_of lb) = Some lb"
    and "stored (world t) = stored (world s) \<and> (\<forall>x. r = Ok x \<longrightarrow> Q x)"
  with assms(2) show "caseR (\<lambda>x t. runs (k x) t (ends F lb)) (\<lambda>e. ends F lb (Err e)) (\<lambda>c. ends F lb (Crash c)) r t"
    by (cases r) (simp_all add: implements_def)
qed

text \<open>Readings.\<close>

lemma reads_runs:
  assumes "reads Q m" and "stored (world u) = stored (world s)"
  shows "runs m u (\<lambda>r t. stored (world t) = stored (world s) \<and> (\<forall>x. r = Ok x \<longrightarrow> Q x))"
  using assms(1) [unfolded reads_def, rule_format, of u] assms(2) by simp

lemma reads_ret: "Q x \<Longrightarrow> reads Q (ret x)"
  by (simp add: reads_def runs_simps)

lemma reads_event: "reads Q m \<Longrightarrow> reads Q (thenM (ServiceEvent svc ty rs msg) m)"
  by (subst reads_def) (simp add: runs_thenM runs_ServiceEvent reads_runs)

lemma reads_bind:
  assumes "reads P m" and "\<And>x. P x \<Longrightarrow> reads Q (k x)"
  shows "reads Q (bindM m k)"
  unfolding reads_def runs_bindM
proof (intro allI runs_weaken [OF assms(1) [unfolded reads_def, rule_format]])
  fix s t :: "('w, ccall) st" and r
  assume r: "stored (world t) = stored (world s) \<and> (\<forall>x. r = Ok x \<longrightarrow> P x)"
  show "caseR (\<lambda>x t. runs (k x) t (\<lambda>r t. stored (world t) = stored (world s) \<and> (\<forall>x. r = Ok x \<longrightarrow> Q x)))
      (\<lambda>e t. stored (world t) = stored (world s) \<and> (\<forall>x. Err e = Ok x \<longrightarrow> Q x))
      (\<lambda>c t. stored (world t) = stored (world s) \<and> (\<forall>x. Crash c = Ok x \<longrightarrow> Q x)) r t"
  proof (cases r)
    case (Ok x)
    with r assms(2) show ?thesis by (simp add: reads_runs)
  qed (use r in simp_all)
qed

lemma reads_visit:
  assumes "\<And>ks. visited cl m ks \<Longrightarrow> reads Q (f ks)"
  shows "reads Q (visitM cl m f)"
  unfolding reads_def runs_visitM
proof
  fix s :: "('w, ccall) st"
  obtain ks w where v: "c_visit cl m (world s) = (ks, w)" by (cases "c_visit cl m (world s)")
  then have "visited cl m ks" by (auto simp: visited_def intro: exI [of _ "world s"])
  with assms [THEN reads_runs, of ks "s\<lparr>world := w\<rparr>" s] visit_keeps [OF v]
  show "case c_visit cl m (world s) of (ks, w) \<Rightarrow> runs (f ks) (s\<lparr>world := w\<rparr>)
      (\<lambda>r t. stored (world t) = stored (world s) \<and> (\<forall>x. r = Ok x \<longrightarrow> Q x))"
    by (simp add: v)
qed

lemma implements_visit:
  assumes "\<And>ks. visited cl m ks \<Longrightarrow> implements F lb (f ks)"
  shows "implements F lb (visitM cl m f)"
  unfolding implements_def runs_visitM
proof (intro allI impI)
  fix s :: "('w, ccall) st"
  assume st: "stored (world s) (key_of lb) = Some lb"
  obtain ks w where v: "c_visit cl m (world s) = (ks, w)" by (cases "c_visit cl m (world s)")
  then have "visited cl m ks" by (auto simp: visited_def intro: exI [of _ "world s"])
  from implements_runs [OF assms [OF this], of "s\<lparr>world := w\<rparr>"] visit_keeps [OF v] st
  show "case c_visit cl m (world s) of (ks, w) \<Rightarrow> runs (f ks) (s\<lparr>world := w\<rparr>) (ends F lb)"
    by (simp add: v)
qed

lemma reads_log_labels: "reads (\<lambda>x. x = log_labels svc as ls) (log_labels_loop svc as ls)"
proof (induction "as" arbitrary: ls)
  case (Cons a as)
  then show ?case
    by (simp add: Let_def reads_event)
qed (simp add: reads_ret)

lemma reads_timeout: "reads (\<lambda>x. x = timeout_of svc annotation) (idle_timeout_of svc annotation)"
  by (auto simp: timeout_of_def idle_timeout_of_def reads_ret reads_event Let_def split: option.split)

lemma reads_GetOptions: "reads (\<lambda>x. \<exists>ks. visited cl (meta_Annotations svc) ks \<and> x = options_with svc ks) (GetOptions cl svc)"
proof -
  have "reads (\<lambda>x. \<exists>ks. visited cl (meta_Annotations svc) ks \<and> x = log_forward_with svc ks) (log_forward_of cl svc)"
  proof (cases "ParseBool_val (at_key (meta_Annotations svc) ServiceLogForward)")
    case True
    then show ?thesis
      by (auto simp: log_forward_of_def log_forward_with_def intro!: reads_visit reads_bind [OF reads_log_labels] reads_ret)
  next
    case False
    obtain ks where "visited cl (meta_Annotations svc) ks" by (auto simp: visited_def)
    with False show ?thesis
      by (auto simp: log_forward_of_def log_forward_with_def intro!: reads_ret)
  qed
  then show ?thesis
    unfolding GetOptions_def Let_def
    by (rule reads_bind) (auto simp: options_with_def Let_def getTCPProxyProtocolPortsFilter_def
        intro!: reads_bind [OF reads_timeout] reads_ret)
qed

text \<open>The steps.\<close>

lemma implements_event: "implements F lb m \<Longrightarrow> implements F lb (thenM (ServiceEvent svc ty rs msg) m)"
  by (subst implements_def) (simp add: runs_thenM runs_ServiceEvent implements_runs)

lemma implements_then:
  assumes "implements (\<lambda>x y. y = f x) lb m" and "\<And>lb'. implements (\<lambda>x y. y = g x) lb' (k lb')"
  shows "implements (\<lambda>x z. z = g (f x)) lb (bindM m k)"
  by (rule implements_weaken [OF implements_bind [OF assms]]) auto

lemma implements_patch_event:
  assumes "F (lb_Spec lb) (merge_spec p (lb_Spec lb))"
  shows "implements F lb (bindM (PatchSpec cl lb p) (\<lambda>lb. thenM (ServiceEvent svc ty rs msg) (ret lb)))"
proof (rule implements_weaken)
  show "implements (\<lambda>x z. \<exists>y. (x = lb_Spec lb \<and> y = merge_spec p x) \<and> z = y) lb
      (bindM (PatchSpec cl lb p) (\<lambda>lb. thenM (ServiceEvent svc ty rs msg) (ret lb)))"
    by (rule implements_bind) (simp_all add: implements_patch implements_event implements_ret)
qed (use assms in auto)

lemma implements_patchIf: "implements (\<lambda>x y. y = merge_if (c x) p x) lb (patchIf cl (c (lb_Spec lb)) p lb)"
  by (auto simp: patchIf_def merge_if_def intro: implements_patch implements_ret)

lemma implements_ports: "implements (\<lambda>x y. y = x\<lparr>spec_Ports := svc_Ports svc\<rparr>) lb (reconcilePorts cl lb svc)"
  by (auto simp: reconcilePorts_def intro!: implements_patch_event implements_ret)

lemma implements_replicas:
  "implements (\<lambda>x y. y = x\<lparr>spec_Replicas := GetReplicasFromService svc\<rparr>) lb (reconcileReplicas_svc cl lb svc)"
  by (auto simp: reconcileReplicas_svc_def Let_def intro!: implements_patch_event implements_ret)

lemma implements_nodes: "implements (\<lambda>x y. \<exists>nodes. listed cl nodes \<and> y = sync_endpoints svc nodes x) lb (reconcileNodes cl lb svc)"
proof -
  have "reads (listed cl) (ext TListNodes (t_ListNodes cl))"
    by (auto simp: reads_def runs_simps listed_def dest: nodes_keep split: prod.split)
  moreover have "implements (\<lambda>x y. \<exists>nodes. listed cl nodes \<and> y = sync_endpoints svc nodes x) lb (syncEndpoints cl nodes svc lb)"
    if "listed cl nodes" for nodes
    using that by (auto simp: syncEndpoints_def sync_endpoints_def merge_if_def Let_def intro!: implements_patch_event implements_ret)
  ultimately show ?thesis
    unfolding reconcileNodes_def by (rule implements_reads)
qed

lemma implements_liftR: "(\<And>x. r = Ok x \<Longrightarrow> implements F lb (f x)) \<Longrightarrow> implements F lb (bindM (liftR r) f)"
  by (cases r) (simp_all add: implements_def runs_simps)

lemma implements_infrastructure:
  "implements (\<lambda>x y. \<exists>infra. asked cl svc cfg infra \<and> infra_ProjectID infra = infra_ProjectID (spec_Infrastructure x) \<and>
     y = sync_infrastructure infra (id_InternalLB cfg) x) lb (reconcileInfrastructure cl lb svc cfg)"
  (is "implements ?F lb _")
  unfolding reconcileInfrastructure_def newInfrastructure_def getAdditionalNetworks_def
proof (intro implements_liftR implements_visit)
  fix nw m ids infra
  assume "getDefaultNetwork svc cfg = Ok nw" "additional_network_ids svc cfg = Ok m" "visited cl m ids"
    "infrastructure_of svc cfg nw (network_list ids) = Ok infra"
  then have infra: "asked cl svc cfg infra" by (auto simp: asked_def)
  let ?internal = "\<lambda>x. case id_InternalLB cfg of None \<Rightarrow> x | Some b \<Rightarrow> merge_if (b \<noteq> opt_InternalLB (spec_Options x)) (SpecInternalLB b) x"
  have opt: "implements (\<lambda>x y. y = ?internal x) lb (case id_InternalLB cfg of None \<Rightarrow> ret lb
      | Some b \<Rightarrow> patchIf cl (b \<noteq> opt_InternalLB (spec_Options (lb_Spec lb))) (SpecInternalLB b) lb)" for lb
    using implements_patchIf [of "\<lambda>x. the (id_InternalLB cfg) \<noteq> opt_InternalLB (spec_Options x)"]
    by (cases "id_InternalLB cfg") (simp_all add: implements_ret)
  have "implements (\<lambda>x y. y = sync_infrastructure infra (id_InternalLB cfg) x) lb
     (bindM (patchIf cl (infra \<noteq> spec_Infrastructure (lb_Spec lb)) (SpecInfrastructure infra) lb) (\<lambda>lb.
        bindM (case id_InternalLB cfg of None \<Rightarrow> ret lb
          | Some b \<Rightarrow> patchIf cl (b \<noteq> opt_InternalLB (spec_Options (lb_Spec lb))) (SpecInternalLB b) lb) (\<lambda>lb.
        bindM (patchIf cl (infra_NetworkID (spec_Infrastructure (lb_Spec lb)) \<noteq> []) SpecNetworkIDEmpty lb) (\<lambda>lb.
        patchIf cl (infra_FloatingNetID (spec_Infrastructure (lb_Spec lb)) \<noteq> None) SpecFloatingNetIDNull lb))))"
    by (rule implements_weaken [OF implements_then [OF implements_patchIf [where c = "\<lambda>x. infra \<noteq> spec_Infrastructure x"]
          implements_then [OF opt implements_then [OF
            implements_patchIf [where c = "\<lambda>x. infra_NetworkID (spec_Infrastructure x) \<noteq> []"]
            implements_patchIf [where c = "\<lambda>x. infra_FloatingNetID (spec_Infrastructure x) \<noteq> None"]]]]])
      (simp add: sync_infrastructure_def Let_def)
  then have "implements ?F lb
     (bindM (patchIf cl (infra \<noteq> spec_Infrastructure (lb_Spec lb)) (SpecInfrastructure infra) lb) (\<lambda>lb.
        bindM (case id_InternalLB cfg of None \<Rightarrow> ret lb
          | Some b \<Rightarrow> patchIf cl (b \<noteq> opt_InternalLB (spec_Options (lb_Spec lb))) (SpecInternalLB b) lb) (\<lambda>lb.
        bindM (patchIf cl (infra_NetworkID (spec_Infrastructure (lb_Spec lb)) \<noteq> []) SpecNetworkIDEmpty lb) (\<lambda>lb.
        patchIf cl (infra_FloatingNetID (spec_Infrastructure (lb_Spec lb)) \<noteq> None) SpecFloatingNetIDNull lb))))"
    if "infra_ProjectID infra = infra_ProjectID (spec_Infrastructure (lb_Spec lb))"
    by (rule implements_weaken) (use infra that in auto)
  then show "implements ?F lb (if infra_ProjectID infra \<noteq> infra_ProjectID (spec_Infrastructure (lb_Spec lb))
      then ServiceError ErrProjectIsImmutable svc
      else bindM (patchIf cl (infra \<noteq> spec_Infrastructure (lb_Spec lb)) (SpecInfrastructure infra) lb) (\<lambda>lb.
        bindM (case id_InternalLB cfg of None \<Rightarrow> ret lb
          | Some b \<Rightarrow> patchIf cl (b \<noteq> opt_InternalLB (spec_Options (lb_Spec lb))) (SpecInternalLB b) lb) (\<lambda>lb.
        bindM (patchIf cl (infra_NetworkID (spec_Infrastructure (lb_Spec lb)) \<noteq> []) SpecNetworkIDEmpty lb) (\<lambda>lb.
        patchIf cl (infra_FloatingNetID (spec_Infrastructure (lb_Spec lb)) \<noteq> None) SpecFloatingNetIDNull lb))))"
    by simp
qed

lemma implements_debug: "implements (\<lambda>x y. y = sync_debug svc x) lb (reconcileDebugSettings cl lb svc)"
  unfolding reconcileDebugSettings_def sync_debug_def by (rule implements_patchIf)

lemma implements_options:
  "implements (\<lambda>x y. \<exists>ks. visited cl (meta_Annotations svc) ks \<and> y = sync_options (options_with svc ks) x) lb (reconcileOptions cl lb svc)"
  unfolding reconcileOptions_def
proof (rule implements_reads [OF reads_GetOptions])
  fix new
  assume new: "\<exists>ks. visited cl (meta_Annotations svc) ks \<and> new = options_with svc ks"
  have ranges: "implements (\<lambda>x y. y = x\<lparr>spec_Options := (spec_Options x)\<lparr>opt_LoadBalancerSourceRanges := opt_LoadBalancerSourceRanges new\<rparr>\<rparr>) lb
      (if opt_LoadBalancerSourceRanges new \<noteq> opt_LoadBalancerSourceRanges (spec_Options (lb_Spec lb)) then
          bindM (PatchSpec cl lb (SpecSourceRanges (opt_LoadBalancerSourceRanges new))) (\<lambda>lb.
          thenM (ServiceEvent svc ''Normal'' ''update'' ''LoadBalancer SourceRanges successfully synced with service SourceRange'')
            (ret lb))
        else ret lb)" for lb
    by (auto intro!: implements_patch_event implements_ret)
  have proxy: "implements (\<lambda>x y. y = x\<lparr>spec_Options := (spec_Options x)\<lparr>opt_TCPProxyProtocol := opt_TCPProxyProtocol new\<rparr>\<rparr>) lb
      (patchIf cl (opt_TCPProxyProtocol new \<noteq> opt_TCPProxyProtocol (spec_Options (lb_Spec lb)))
          (SpecTCPProxyProtocol (opt_TCPProxyProtocol new)) lb)" for lb
    by (auto simp: patchIf_def intro!: implements_patch implements_ret)
  have rest: "implements (\<lambda>x y. y = (case first_option_patch new (spec_Options x) of None \<Rightarrow> x | Some p \<Rightarrow> merge_spec p x)) lb
      (case first_option_patch new (spec_Options (lb_Spec lb)) of None \<Rightarrow> ret lb | Some p \<Rightarrow> PatchSpec cl lb p)" for lb
    by (auto intro!: implements_patch implements_ret split: option.split)
  show "implements (\<lambda>x y. \<exists>ks. visited cl (meta_Annotations svc) ks \<and> y = sync_options (options_with svc ks) x) lb
     (bindM (if opt_LoadBalancerSourceRanges new \<noteq> opt_LoadBalancerSourceRanges (spec_Options (lb_Spec lb)) then
          bindM (PatchSpec cl lb (SpecSourceRanges (opt_LoadBalancerSourceRanges new))) (\<lambda>lb.
          thenM (ServiceEvent svc ''Normal'' ''update'' ''LoadBalancer SourceRanges successfully synced with service SourceRange'')
            (ret lb))
        else ret lb) (\<lambda>lb.
      bindM (patchIf cl (opt_TCPProxyProtocol new \<noteq> opt_TCPProxyProtocol (spec_Options (lb_Spec lb)))
          (SpecTCPProxyProtocol (opt_TCPProxyProtocol new)) lb) (\<lambda>lb.
      case first_option_patch new (spec_Options (lb_Spec lb)) of None \<Rightarrow> ret lb | Some p \<Rightarrow> PatchSpec cl lb p)))"
    by (rule implements_weaken [OF implements_then [OF ranges implements_then [OF proxy rest]]])
      (use new in \<open>auto simp only: sync_options_def Let_def\<close>)
qed

lemma implements_floating_ip: "implements (\<lambda>x y. y = sync_floating_ip svc x) lb (reconcileExistingFloatingIP cl lb svc)"
  by (auto simp: reconcileExistingFloatingIP_def sync_floating_ip_def patchIf_def intro!: implements_patch implements_ret
      split: option.split)

lemma implements_handled: "implements F lb m \<Longrightarrow> implements F lb (catchM m (\<lambda>err. ServiceError err svc) ret)"
  unfolding implements_def runs_catchM
  by (auto simp: caseR_def runs_simps elim!: runs_weaken split: result.split)

lemma implements_sync:
  "implements (\<lambda>x y. \<exists>nodes infra ks. listed cl nodes \<and> asked cl svc cfg infra \<and> visited cl (meta_Annotations svc) ks \<and>
      infra_ProjectID infra = infra_ProjectID (spec_Infrastructure x) \<and>
      y = sync_spec svc nodes infra (id_InternalLB cfg) (options_with svc ks) x) lb (syncLoadBalancer cl cfg svc lb)"
  unfolding syncLoadBalancer_def
  by (rule implements_weaken [OF implements_bind [OF implements_ports implements_bind [OF implements_replicas
        implements_bind [OF implements_nodes implements_bind [OF implements_infrastructure implements_bind [OF implements_debug
        implements_bind [OF implements_handled [OF implements_options] implements_floating_ip]]]]]]])
    (fastforce simp: sync_spec_def sync_endpoints_def merge_if_def Let_def)

end

end
