(* ===== verification/FakeClusters.thy ===== *)
theory FakeClusters
  imports ServiceSync
begin

text \<open>
  The two clusters of the yawol-cloud-controller in memory: Services, Nodes and Events of the one,
  LoadBalancers of the other, and an order for the keys of maps that turns with every loop. They satisfy
  what \<open>control_plane\<close> asks of an API server and serve to run the controller on concrete inputs.
\<close>

section \<open>The world\<close>

record cmem =
  cm_services :: "service list"
  cm_nodes :: "node list"
  cm_lbs :: "load_balancer list"
  cm_events :: "(namespaced_name \<times> event) list"
  cm_keys :: "string list"

definition answer :: "'a option \<Rightarrow> 'a result" where
  "answer x = (case x of None \<Rightarrow> Err (ApiNotFound ''not found'') | Some a \<Rightarrow> Ok a)"

definition cm_service :: "cmem \<Rightarrow> namespaced_name \<Rightarrow> service option" where
  "cm_service w n = List.find (\<lambda>svc. key_of svc = n) (cm_services w)"

definition cm_lb :: "cmem \<Rightarrow> namespaced_name \<Rightarrow> load_balancer option" where
  "cm_lb w n = List.find (\<lambda>lb. key_of lb = n) (cm_lbs w)"

text \<open>A change of one object.\<close>

definition change_lb :: "(load_balancer \<Rightarrow> load_balancer) \<Rightarrow> namespaced_name \<Rightarrow> (cmem, load_balancer) gop" where
  "change_lb f n w =
     (answer (map_option f (cm_lb w n)), w\<lparr>cm_lbs := map (\<lambda>lb. if key_of lb = n then f lb else lb) (cm_lbs w)\<rparr>)"

definition change_service :: "(service \<Rightarrow> service) \<Rightarrow> namespaced_name \<Rightarrow> (cmem, service) gop" where
  "change_service f n w =
     (answer (map_option f (cm_service w n)), w\<lparr>cm_services := map (\<lambda>svc. if key_of svc = n then f svc else svc) (cm_services w)\<rparr>)"

definition mem_CreateLB :: "load_balancer \<Rightarrow> (cmem, load_balancer) gop" where
  "mem_CreateLB lb w =
     (case cm_lb w (key_of lb) of
        Some _ \<Rightarrow> (Err (OtherErr ''already exists''), w)
      | None \<Rightarrow> (Ok lb, w\<lparr>cm_lbs := cm_lbs w @ [lb]\<rparr>))"

definition mem_DeleteLB :: "namespaced_name \<Rightarrow> (cmem, unit) gop" where
  "mem_DeleteLB n w =
     (case cm_lb w n of
        None \<Rightarrow> (Err (ApiNotFound ''not found''), w)
      | Some _ \<Rightarrow> (Ok (), w\<lparr>cm_lbs := filter (\<lambda>lb. key_of lb \<noteq> n) (cm_lbs w)\<rparr>))"

text \<open>An object whose last finalizer goes while it is being deleted is removed.\<close>

definition mem_PatchServiceFinalizers :: "namespaced_name \<Rightarrow> string list \<Rightarrow> (cmem, service) gop" where
  "mem_PatchServiceFinalizers n fs w =
     (let (r, w') = change_service (\<lambda>svc. svc\<lparr>meta_Finalizers := fs\<rparr>) n w in
      (r, w'\<lparr>cm_services := filter (\<lambda>svc. \<not> (is_deleting svc \<and> meta_Finalizers svc = [])) (cm_services w')\<rparr>))"

definition mem_clusters :: "cmem clusters" where
  "mem_clusters = \<lparr>
     t_GetService = (\<lambda>n w. (answer (cm_service w n), w)),
     t_PatchFinalizers = mem_PatchServiceFinalizers,
     t_PatchIngress = (\<lambda>n is. change_service (\<lambda>svc. svc\<lparr>svc_Ingress := is\<rparr>) n),
     t_RemoveIngress = change_service (\<lambda>svc. svc\<lparr>svc_Ingress := []\<rparr>),
     t_ListNodes = (\<lambda>w. (Ok (cm_nodes w), w)),
     c_GetLB = (\<lambda>n w. (answer (cm_lb w n), w)),
     c_ListLBs = (\<lambda>ns w. (Ok (filter (\<lambda>lb. meta_Namespace lb = ns) (cm_lbs w)), w)),
     c_CreateLB = mem_CreateLB,
     c_DeleteLB = mem_DeleteLB,
     c_PatchSpec = (\<lambda>n p. change_lb (\<lambda>lb. lb\<lparr>lb_Spec := merge_spec p (lb_Spec lb)\<rparr>) n),
     c_PatchAnnotation = (\<lambda>n k v. change_lb (\<lambda>lb. lb\<lparr>meta_Annotations := (meta_Annotations lb)(k \<mapsto> v)\<rparr>) n),
     c_GetEvent = (\<lambda>n w. (answer (map_of (cm_events w) n), w)),
     c_visit = (\<lambda>m w. (filter (\<lambda>k. m k \<noteq> None) (cm_keys w), w\<lparr>cm_keys := rotate1 (cm_keys w)\<rparr>))\<rparr>"

section \<open>The laws\<close>

lemma key_of_Spec [simp]: "key_of (lb\<lparr>lb_Spec := sp\<rparr>) = key_of lb"
  by (simp add: key_of_def)

lemma change_lb_spec:
  assumes "change_lb (\<lambda>lb. lb\<lparr>lb_Spec := g (lb_Spec lb)\<rparr>) n w = (Ok lb', w')"
  shows "\<exists>lb. cm_lb w n = Some lb \<and> lb_Spec lb' = g (lb_Spec lb) \<and> key_of lb' = n \<and> cm_lb w' n = Some lb'"
proof -
  let ?f = "\<lambda>lb :: load_balancer. lb\<lparr>lb_Spec := g (lb_Spec lb)\<rparr>"
  obtain lb where lb: "cm_lb w n = Some lb" "lb' = ?f lb" and w': "w' = w\<lparr>cm_lbs := map (\<lambda>lb. if key_of lb = n then ?f lb else lb) (cm_lbs w)\<rparr>"
    using assms by (auto simp: change_lb_def answer_def split: option.splits)
  have key: "key_of lb = n" using lb(1) unfolding cm_lb_def by (rule find_key)
  have "cm_lb w' n = map_option (\<lambda>lb. if key_of lb = n then ?f lb else lb) (cm_lb w n)"
    unfolding w' cm_lb_def by (simp add: find_change [where f = ?f])
  with lb key show ?thesis by simp
qed

interpretation clusters: control_plane mem_clusters cm_lb
  by unfold_locales (auto simp: mem_clusters_def cm_lb_def [abs_def] dest: change_lb_spec)

section \<open>An example\<close>

definition example_svc :: service where
  "example_svc = \<lparr>meta_APIVersion = [], meta_Kind = [], meta_Name = ''web'', meta_Namespace = ''shop'', meta_UID = [],
     meta_ResourceVersion = [], meta_Labels = Map.empty, meta_Annotations = Map.empty, meta_Finalizers = [ServiceFinalizer_svc],
     meta_OwnerReferences = [], meta_CreationTimestamp = 0, meta_DeletionTimestamp = None,
     svc_Type = ''LoadBalancer'', svc_Ports = [\<lparr>sp_Name = ''http'', sp_Protocol = ''TCP'', sp_AppProtocol = None, sp_Port = 80,
       sp_TargetPort = IntVal 80, sp_NodePort = 30080\<rparr>],
     svc_LoadBalancerClass = None, svc_AllocateLoadBalancerNodePorts = None, svc_LoadBalancerSourceRanges = None,
     svc_IPFamilies = [], svc_Ingress = []\<rparr>"

definition example_defaults :: infrastructure_defaults where
  "example_defaults = \<lparr>id_AuthSecretName = Some ''secret'', id_FloatingNetworkID = None, id_NetworkID = Some ''net'', id_SubnetID = None,
     id_Namespace = Some ''lbs'',
     id_FlavorRef = Some \<lparr>FlavorID = Some ''small'', FlavorName = None, FlavorSearch = None, FlavorIDOld = None, FlavorNameOld = None, FlavorSearchOld = None\<rparr>,
     id_ImageRef = Some \<lparr>ImageID = Some ''linux'', ImageName = None, ImageSearch = None, ImageIDOld = None, ImageNameOld = None, ImageSearchOld = None\<rparr>,
     id_AvailabilityZone = Some ''az1'', id_InternalLB = Some True\<rparr>"

text \<open>The LoadBalancer as it was just created for the Service, still without ports and endpoints.\<close>

definition example_created :: load_balancer where
  "example_created = new_load_balancer \<lparr>nn_Namespace = ''lbs'', nn_Name = ''shop--web''\<rparr> (key_of example_svc) ''hash'' example_svc
     (spec_Infrastructure zero_lb_spec) (options_with example_svc [])"

definition example_cmem :: cmem where
  "example_cmem = \<lparr>cm_services = [example_svc], cm_nodes = [example_node ''a'' ''10.0.0.1'' ''True''], cm_lbs = [example_created],
     cm_events = [], cm_keys = []\<rparr>"

definition example_start :: "(cmem, ccall) st" where
  "example_start = \<lparr>world = example_cmem, trace = []\<rparr>"

text \<open>Its synchronisation, run step by step without an error.\<close>

lemma example_endpoints:
  "getEndpointsFromNodes [example_node ''a'' ''10.0.0.1'' ''True''] [] = [\<lparr>ep_Name = ''a'', ep_Addresses = Some [''10.0.0.1'']\<rparr>]"
  by (simp add: getEndpointsFromNodes_def getLoadBalancerEndpointFromNode_def address_for_def example_node_def
      isNodeReady_def isNodeTerminating_def is_deleting_def ConditionTrue_def NodeTerminationCondition_def Let_def)

lemma example_replicas: "GetReplicasFromService example_svc = 1"
  by (simp add: GetReplicasFromService_def example_svc_def)

lemmas mem_run = bindM_def thenM_def catchM_def ret_def ext_def PatchSpec_def patchIf_def record_call_def ServiceEvent_def
  liftR_def visitM_def readW_def deref_def fail_def mem_clusters_def change_lb_def answer_def cm_lb_def

lemmas sync_run = syncLoadBalancer_def reconcilePorts_def reconcileReplicas_svc_def reconcileNodes_def syncEndpoints_def
  reconcileInfrastructure_def newInfrastructure_def getDefaultNetwork_def getAdditionalNetworks_def additional_network_ids_def
  annotated_networks_def network_list_def infrastructure_of_def getProjectID_def at_ptr_def reconcileDebugSettings_def
  GetDebugSettings_def reconcileOptions_def GetOptions_def log_forward_of_def idle_timeout_of_def source_ranges_of_def
  reconcileExistingFloatingIP_def GetExistingFloatingIPFromAnnotation_def EqualLoadBalancerEndpoints_def first_option_patch_def

lemmas example_defs = example_start_def example_cmem_def example_created_def new_load_balancer_def example_svc_def example_defaults_def
  zero_lb_spec_def zero_infra_def options_with_def log_forward_with_def timeout_of_def key_of_def at_key_def

lemma example_syncs: "\<exists>lb t. syncLoadBalancer mem_clusters example_defaults example_svc example_created example_start = (Ok lb, t)"
  by (simp add: mem_run sync_run example_defs example_endpoints example_replicas Let_def)

lemma example_stored: "cm_lb (world example_start) (key_of example_created) = Some example_created"
  by (simp add: example_start_def example_cmem_def cm_lb_def)

end
