(* ===== verification/ServiceOutcome.thy ===== *)
theory ServiceOutcome
  imports FakeClusters
begin

text \<open>
  What the synchronisation of a LoadBalancer with its Service achieves: the refinement of
  \<open>ServiceSync\<close> stated over the reconciler, the fields that agree after one successful reconcile, the
  number of reconciles the remaining options need, and the fields that a merge patch cannot remove.
  The examples run it on the clusters in memory.
\<close>

section \<open>The refinement\<close>

text \<open>C7. The reconciler of a Service, which looks at one aspect after the other and patches each
  difference on its own, computes a function of the spec: when it returns without an error, the
  stored LoadBalancer is the one it holds, and its spec is \<open>sync_spec\<close> of the old spec, the Service,
  the listed nodes and the infrastructure that the Service asks for, whose project has not changed.\<close>

theorem service_sync_refines:
  assumes "control_plane cl stored" and "stored (world s) (key_of lb) = Some lb"
    and "syncLoadBalancer cl cfg svc lb s = (Ok lb', t)"
  shows "stored (world t) (key_of lb) = Some lb' \<and>
    (\<exists>nodes infra ks. listed cl nodes \<and> asked cl svc cfg infra \<and> visited cl (meta_Annotations svc) ks \<and>
       infra_ProjectID infra = infra_ProjectID (spec_Infrastructure (lb_Spec lb)) \<and>
       lb_Spec lb' = sync_spec svc nodes infra (id_InternalLB cfg) (options_with svc ks) (lb_Spec lb))"
  using runsD [OF control_plane.implements_runs [OF assms(1) control_plane.implements_sync [OF assms(1)] assms(2)] assms(3)]
  by (simp add: control_plane.ends_def [OF assms(1)])

section \<open>The fields that agree\<close>

lemma first_option_patch_keeps:
  assumes "first_option_patch new old = Some p"
  shows "spec_Ports (merge_spec p sp) = spec_Ports sp \<and> spec_Replicas (merge_spec p sp) = spec_Replicas sp \<and>
    spec_Endpoints (merge_spec p sp) = spec_Endpoints sp \<and> spec_Infrastructure (merge_spec p sp) = spec_Infrastructure sp \<and>
    spec_DebugSettings (merge_spec p sp) = spec_DebugSettings sp \<and> spec_Selector (merge_spec p sp) = spec_Selector sp \<and>
    spec_ExistingFloatingIP (merge_spec p sp) = spec_ExistingFloatingIP sp \<and>
    opt_LoadBalancerSourceRanges (spec_Options (merge_spec p sp)) = opt_LoadBalancerSourceRanges (spec_Options sp) \<and>
    opt_TCPProxyProtocol (spec_Options (merge_spec p sp)) = opt_TCPProxyProtocol (spec_Options sp) \<and>
    opt_InternalLB (spec_Options (merge_spec p sp)) = opt_InternalLB (spec_Options sp)"
  using assms by (auto simp: first_option_patch_def split: if_splits)

text \<open>What each stage leaves alone.\<close>

lemma sync_options_keeps:
  "spec_Ports (sync_options new sp) = spec_Ports sp" "spec_Replicas (sync_options new sp) = spec_Replicas sp"
  "spec_Endpoints (sync_options new sp) = spec_Endpoints sp" "spec_Infrastructure (sync_options new sp) = spec_Infrastructure sp"
  "spec_DebugSettings (sync_options new sp) = spec_DebugSettings sp" "spec_Selector (sync_options new sp) = spec_Selector sp"
  "spec_ExistingFloatingIP (sync_options new sp) = spec_ExistingFloatingIP sp"
  "opt_InternalLB (spec_Options (sync_options new sp)) = opt_InternalLB (spec_Options sp)"
  "opt_LoadBalancerSourceRanges (spec_Options (sync_options new sp)) = opt_LoadBalancerSourceRanges new"
  "opt_TCPProxyProtocol (spec_Options (sync_options new sp)) = opt_TCPProxyProtocol new"
  by (simp_all add: sync_options_def Let_def first_option_patch_keeps split: option.split)

lemma sync_floating_ip_keeps:
  "spec_Ports (sync_floating_ip svc sp) = spec_Ports sp" "spec_Replicas (sync_floating_ip svc sp) = spec_Replicas sp"
  "spec_Endpoints (sync_floating_ip svc sp) = spec_Endpoints sp" "spec_Infrastructure (sync_floating_ip svc sp) = spec_Infrastructure sp"
  "spec_DebugSettings (sync_floating_ip svc sp) = spec_DebugSettings sp" "spec_Selector (sync_floating_ip svc sp) = spec_Selector sp"
  "spec_Options (sync_floating_ip svc sp) = spec_Options sp"
  by (simp_all add: sync_floating_ip_def split: option.split)

lemma sync_debug_keeps:
  "spec_Ports (sync_debug svc sp) = spec_Ports sp" "spec_Replicas (sync_debug svc sp) = spec_Replicas sp"
  "spec_Endpoints (sync_debug svc sp) = spec_Endpoints sp" "spec_Infrastructure (sync_debug svc sp) = spec_Infrastructure sp"
  "spec_Selector (sync_debug svc sp) = spec_Selector sp" "spec_Options (sync_debug svc sp) = spec_Options sp"
  "spec_ExistingFloatingIP (sync_debug svc sp) = spec_ExistingFloatingIP sp"
  by (simp_all add: sync_debug_def merge_if_def)

lemma sync_infrastructure_keeps:
  "spec_Ports (sync_infrastructure new internal sp) = spec_Ports sp" "spec_Replicas (sync_infrastructure new internal sp) = spec_Replicas sp"
  "spec_Endpoints (sync_infrastructure new internal sp) = spec_Endpoints sp"
  "spec_Selector (sync_infrastructure new internal sp) = spec_Selector sp"
  "spec_DebugSettings (sync_infrastructure new internal sp) = spec_DebugSettings sp"
  "spec_ExistingFloatingIP (sync_infrastructure new internal sp) = spec_ExistingFloatingIP sp"
  by (simp_all add: sync_infrastructure_def merge_if_def Let_def split: option.split)

lemma sync_endpoints_keeps:
  "spec_Ports (sync_endpoints svc nodes sp) = spec_Ports sp" "spec_Replicas (sync_endpoints svc nodes sp) = spec_Replicas sp"
  "spec_Infrastructure (sync_endpoints svc nodes sp) = spec_Infrastructure sp" "spec_Options (sync_endpoints svc nodes sp) = spec_Options sp"
  "spec_Selector (sync_endpoints svc nodes sp) = spec_Selector sp"
  "spec_DebugSettings (sync_endpoints svc nodes sp) = spec_DebugSettings sp"
  "spec_ExistingFloatingIP (sync_endpoints svc nodes sp) = spec_ExistingFloatingIP sp"
  by (simp_all add: sync_endpoints_def merge_if_def Let_def)

lemmas sync_keeps = sync_options_keeps sync_floating_ip_keeps sync_debug_keeps sync_infrastructure_keeps sync_endpoints_keeps

lemma json_endpoint_idem: "json_endpoint (json_endpoint ep) = json_endpoint ep"
  by (simp add: json_endpoint_def)

lemma sync_endpoints_mset:
  "\<exists>eps. spec_Endpoints (sync_endpoints svc nodes sp) = Some eps \<and>
     image_mset json_endpoint (mset eps) = image_mset json_endpoint (mset (getEndpointsFromNodes nodes (svc_IPFamilies svc)))"
proof (cases "EqualLoadBalancerEndpoints (spec_Endpoints sp) (Some (getEndpointsFromNodes nodes (svc_IPFamilies svc)))")
  case True
  then obtain eps where eps: "spec_Endpoints sp = Some eps"
      "sort_endpoints eps = sort_endpoints (getEndpointsFromNodes nodes (svc_IPFamilies svc))"
    by (auto simp: EqualLoadBalancerEndpoints_def)
  then have "mset eps = mset (getEndpointsFromNodes nodes (svc_IPFamilies svc))"
    unfolding sort_endpoints_def by (metis mset_sort)
  with True eps(1) show ?thesis by (simp add: sync_endpoints_def merge_if_def)
next
  case False
  then show ?thesis
    by (simp add: sync_endpoints_def merge_if_def Let_def sort_endpoints_def image_mset.compositionality o_def json_endpoint_idem)
qed

lemma over_same: "over x x = x"
  by (simp add: over_def split: option.split)

lemma map_add_same: "m ++ m = m"
  by (simp add: map_add_def fun_eq_iff split: option.split)

lemma sync_infrastructure_fields:
  "infra_NetworkID (spec_Infrastructure (sync_infrastructure new internal sp)) = []"
  "infra_FloatingNetID (spec_Infrastructure (sync_infrastructure new internal sp)) = None"
  "infra_DefaultNetwork (spec_Infrastructure (sync_infrastructure new internal sp)) =
     merge_network (infra_DefaultNetwork new) (infra_DefaultNetwork (spec_Infrastructure sp))"
  "infra_AdditionalNetworks (spec_Infrastructure (sync_infrastructure new internal sp)) = infra_AdditionalNetworks new"
  "infra_AvailabilityZone (spec_Infrastructure (sync_infrastructure new internal sp)) = infra_AvailabilityZone new"
  "infra_ProjectID (spec_Infrastructure (sync_infrastructure new internal sp)) = infra_ProjectID new"
  "internal = Some b \<Longrightarrow> opt_InternalLB (spec_Options (sync_infrastructure new internal sp)) = b"
  "internal = None \<Longrightarrow> opt_InternalLB (spec_Options (sync_infrastructure new internal sp)) = opt_InternalLB (spec_Options sp)"
  by (auto simp: sync_infrastructure_def merge_if_def Let_def merge_infrastructure_def merge_network_def over_same split: option.split)


section \<open>The options that wait\<close>

text \<open>The options of which a reconcile patches at most one.\<close>

definition options_lag :: "lb_options \<Rightarrow> lb_options \<Rightarrow> nat" where
  "options_lag new old = length (filter id [
     opt_TCPProxyProtocolPortsFilter new \<noteq> opt_TCPProxyProtocolPortsFilter old,
     opt_LogForward new \<noteq> opt_LogForward old,
     opt_TCPIdleTimeout new \<noteq> opt_TCPIdleTimeout old,
     opt_UDPIdleTimeout new \<noteq> opt_UDPIdleTimeout old,
     opt_ServerGroupPolicy new \<noteq> opt_ServerGroupPolicy old])"

text \<open>A merge patch with the log settings \<open>new\<close> yields them.\<close>

definition log_patch_works :: "lb_options \<Rightarrow> lb_spec \<Rightarrow> bool" where
  "log_patch_works new sp = (merge_log_forward (opt_LogForward new) (opt_LogForward (spec_Options sp)) = opt_LogForward new)"

lemma first_option_patch_cong:
  "first_option_patch new (old\<lparr>opt_LoadBalancerSourceRanges := a\<rparr>) = first_option_patch new old"
  "first_option_patch new (old\<lparr>opt_TCPProxyProtocol := b\<rparr>) = first_option_patch new old"
  by (simp_all add: first_option_patch_def)


text \<open>Log settings that a merge patch cannot produce.\<close>

lemma merge_log_forward_twice: "merge_log_forward p (merge_log_forward p old) = merge_log_forward p old"
  by (auto simp: merge_log_forward_def over_string_def merge_labels_def map_add_same map_add_assoc [symmetric] split: option.split)

lemma map_add_absorbs: "m ++ n = n \<longleftrightarrow> dom m \<subseteq> dom n"
proof
  assume "m ++ n = n"
  then have "dom (m ++ n) = dom n" by simp
  then show "dom m \<subseteq> dom n" by auto
next
  assume sub: "dom m \<subseteq> dom n"
  show "m ++ n = n"
  proof
    fix x
    show "(m ++ n) x = n x"
      using sub by (cases "n x") (auto simp: map_add_def dom_def)
  qed
qed

lemma log_patch_works_iff:
  "log_patch_works new sp \<longleftrightarrow> (let n = opt_LogForward new; o' = opt_LogForward (spec_Options sp) in
     (lf_ProxyURL n = [] \<longrightarrow> lf_ProxyURL o' = []) \<and>
     (case (lf_Labels n, lf_Labels o') of (Some m, Some m') \<Rightarrow> dom m' \<subseteq> dom m | _ \<Rightarrow> True))"
  unfolding log_patch_works_def Let_def
  by (cases "opt_LogForward new"; cases "opt_LogForward (spec_Options sp)")
    (auto simp: merge_log_forward_def over_string_def merge_labels_def map_add_absorbs split: option.split)

text \<open>Settings that are stuck: the log settings are patched as they are asked for only if no proxy
  and no label is to go away; otherwise, the merge patch leaves the old one, every later reconcile
  finds the same difference, patches it in vain and returns, and the idle timeouts and the server
  group policy that the Service asks for are never written, however often it is reconciled.\<close>

theorem stale_log_settings_block:
  assumes "opt_TCPProxyProtocolPortsFilter new = opt_TCPProxyProtocolPortsFilter (spec_Options sp)"
    and "lf_ProxyURL (opt_LogForward new) = [] \<and> lf_ProxyURL (opt_LogForward (spec_Options sp)) \<noteq> [] \<or>
      (\<exists>m m'. lf_Labels (opt_LogForward new) = Some m \<and> lf_Labels (opt_LogForward (spec_Options sp)) = Some m' \<and> \<not> dom m' \<subseteq> dom m)"
  shows "let old = spec_Options sp; now = spec_Options ((sync_options new ^^ n) sp) in
     opt_LogForward now \<noteq> opt_LogForward new \<and> opt_TCPIdleTimeout now = opt_TCPIdleTimeout old \<and>
     opt_UDPIdleTimeout now = opt_UDPIdleTimeout old \<and> opt_ServerGroupPolicy now = opt_ServerGroupPolicy old"
proof -
  have "\<not> log_patch_works new sp"
    using assms(2) unfolding log_patch_works_iff Let_def by (elim disjE exE conjE) simp_all
  moreover have stuck: "opt_LogForward (spec_Options sp') \<noteq> opt_LogForward new" if "\<not> log_patch_works new sp'" for sp'
  proof
    assume "opt_LogForward (spec_Options sp') = opt_LogForward new"
    then have "log_patch_works new sp'"
      by (auto simp: log_patch_works_iff Let_def split: option.split)
    with that show False by simp
  qed
  moreover have step: "\<not> log_patch_works new (sync_options new sp') \<and>
      (let old = spec_Options sp'; now = spec_Options (sync_options new sp') in
        opt_TCPProxyProtocolPortsFilter now = opt_TCPProxyProtocolPortsFilter old \<and> opt_TCPIdleTimeout now = opt_TCPIdleTimeout old \<and>
        opt_UDPIdleTimeout now = opt_UDPIdleTimeout old \<and> opt_ServerGroupPolicy now = opt_ServerGroupPolicy old)"
    if "\<not> log_patch_works new sp'" "opt_TCPProxyProtocolPortsFilter new = opt_TCPProxyProtocolPortsFilter (spec_Options sp')" for sp'
    using that stuck [OF that(1)]
    by (simp add: Let_def sync_options_def first_option_patch_def log_patch_works_def merge_log_forward_twice)
  ultimately have "\<not> log_patch_works new ((sync_options new ^^ n) sp) \<and>
      (let old = spec_Options sp; now = spec_Options ((sync_options new ^^ n) sp) in
        opt_TCPProxyProtocolPortsFilter now = opt_TCPProxyProtocolPortsFilter old \<and> opt_TCPIdleTimeout now = opt_TCPIdleTimeout old \<and>
        opt_UDPIdleTimeout now = opt_UDPIdleTimeout old \<and> opt_ServerGroupPolicy now = opt_ServerGroupPolicy old)"
  proof (induction n)
    case 0
    then show ?case by (simp add: Let_def)
  next
    case (Suc n)
    then show ?case
      using step [of "(sync_options new ^^ n) sp"] assms(1) by (simp add: Let_def)
  qed
  then show ?thesis
    using stuck [of "(sync_options new ^^ n) sp"] by (simp add: Let_def)
qed

section \<open>The infrastructure\<close>

text \<open>What is to be absent is absent already.\<close>

definition absent_stays :: "'a option \<Rightarrow> 'a option \<Rightarrow> bool" where
  "absent_stays new old = (new = None \<longrightarrow> old = None)"

definition removes_nothing :: "infrastructure \<Rightarrow> infrastructure \<Rightarrow> bool" where
  "removes_nothing new old = (
     (let n = infra_DefaultNetwork new; d = infra_DefaultNetwork old in
      absent_stays (dn_FloatingNetID n) (dn_FloatingNetID d) \<and> absent_stays (dn_SubnetID n) (dn_SubnetID d)) \<and>
     (let n = infra_Image new; d = infra_Image old in
      absent_stays (ImageID n) (ImageID d) \<and> absent_stays (ImageName n) (ImageName d) \<and> absent_stays (ImageSearch n) (ImageSearch d) \<and>
      absent_stays (ImageIDOld n) (ImageIDOld d) \<and> absent_stays (ImageNameOld n) (ImageNameOld d) \<and>
      absent_stays (ImageSearchOld n) (ImageSearchOld d)) \<and>
     (let n = infra_Flavor new; d = infra_Flavor old in
      absent_stays (FlavorID n) (FlavorID d) \<and> absent_stays (FlavorName n) (FlavorName d) \<and> absent_stays (FlavorSearch n) (FlavorSearch d) \<and>
      absent_stays (FlavorIDOld n) (FlavorIDOld d) \<and> absent_stays (FlavorNameOld n) (FlavorNameOld d) \<and>
      absent_stays (FlavorSearchOld n) (FlavorSearchOld d)) \<and>
     (ref_Name (infra_AuthSecretRef new) = [] \<longrightarrow> ref_Name (infra_AuthSecretRef old) = []) \<and>
     (ref_Namespace (infra_AuthSecretRef new) = [] \<longrightarrow> ref_Namespace (infra_AuthSecretRef old) = []))"

lemma over_absent: "over p x = p \<longleftrightarrow> absent_stays p x"
  by (auto simp: over_def absent_stays_def split: option.split)

lemma over_string_absent: "over_string p x = p \<longleftrightarrow> (p = [] \<longrightarrow> x = [])"
  by (auto simp: over_string_def)

lemma merge_infrastructure_iff:
  assumes "infra_NetworkID new = []" and "infra_FloatingNetID new = None"
  shows "(merge_infrastructure new old)\<lparr>infra_NetworkID := [], infra_FloatingNetID := None\<rparr> = new \<longleftrightarrow> removes_nothing new old"
proof -
  have nw: "merge_network p d = p \<longleftrightarrow> absent_stays (dn_FloatingNetID p) (dn_FloatingNetID d) \<and> absent_stays (dn_SubnetID p) (dn_SubnetID d)" for p d
    by (cases p) (simp add: merge_network_def over_absent)
  have im: "merge_image p d = p \<longleftrightarrow> absent_stays (ImageID p) (ImageID d) \<and> absent_stays (ImageName p) (ImageName d) \<and>
      absent_stays (ImageSearch p) (ImageSearch d) \<and> absent_stays (ImageIDOld p) (ImageIDOld d) \<and>
      absent_stays (ImageNameOld p) (ImageNameOld d) \<and> absent_stays (ImageSearchOld p) (ImageSearchOld d)" for p d
    by (cases p) (simp add: merge_image_def over_absent)
  have fl: "merge_flavor p d = p \<longleftrightarrow> absent_stays (FlavorID p) (FlavorID d) \<and> absent_stays (FlavorName p) (FlavorName d) \<and>
      absent_stays (FlavorSearch p) (FlavorSearch d) \<and> absent_stays (FlavorIDOld p) (FlavorIDOld d) \<and>
      absent_stays (FlavorNameOld p) (FlavorNameOld d) \<and> absent_stays (FlavorSearchOld p) (FlavorSearchOld d)" for p d
    by (cases p) (simp add: merge_flavor_def over_absent)
  have ref: "\<lparr>ref_Name = a, ref_Namespace = b\<rparr> = r \<longleftrightarrow> a = ref_Name r \<and> b = ref_Namespace r" for a b r
    by (cases r) auto
  show ?thesis
    using assms by (cases new) (auto simp: merge_infrastructure_def removes_nothing_def nw im fl ref over_string_absent Let_def)
qed

text \<open>Infrastructure that is stuck: after a reconcile the infrastructure of the LoadBalancer is the
  one the Service asks for exactly when it was already or nothing is to be removed from it; an
  optional field (a floating network, a subnet, an image or flavor reference) that the Service no longer
  asks for is omitted from the merge patch, so the old value stays, however often the LoadBalancer is
  reconciled.\<close>

theorem infrastructure_settles:
  assumes "infrastructure_of svc cfg nw nets = Ok new"
  shows "(spec_Infrastructure (sync_infrastructure new internal sp) = new \<longleftrightarrow> removes_nothing new (spec_Infrastructure sp)) \<and>
    (spec_Infrastructure ((sync_infrastructure new internal ^^ Suc n) sp) = new \<longleftrightarrow> removes_nothing new (spec_Infrastructure sp))"
proof -
  have clean: "infra_NetworkID new = []" "infra_FloatingNetID new = None"
    using assms by (auto simp: infrastructure_of_def at_ptr_def split: option.splits)
  note iff = merge_infrastructure_iff [OF clean]
  have refl: "removes_nothing x x" for x by (simp add: removes_nothing_def absent_stays_def)
  have infra: "spec_Infrastructure (sync_infrastructure new internal sp) =
      (if new = spec_Infrastructure sp then new
       else (merge_infrastructure new (spec_Infrastructure sp))\<lparr>infra_NetworkID := [], infra_FloatingNetID := None\<rparr>)" for sp
    using clean by (auto simp: sync_infrastructure_def merge_if_def Let_def merge_infrastructure_def over_def over_string_def
        split: option.split)
  have one: "spec_Infrastructure (sync_infrastructure new internal sp) = new \<longleftrightarrow> removes_nothing new (spec_Infrastructure sp)" for sp
    using iff [of "spec_Infrastructure sp"] refl by (simp add: infra)
  have keep: "removes_nothing new (spec_Infrastructure (sync_infrastructure new internal sp)) \<longleftrightarrow> removes_nothing new (spec_Infrastructure sp)" for sp
    using refl by (auto simp: infra removes_nothing_def merge_infrastructure_def merge_network_def merge_image_def merge_flavor_def
        absent_stays_def over_def over_string_def Let_def)
  have "spec_Infrastructure ((sync_infrastructure new internal ^^ Suc n) sp) = new \<longleftrightarrow> removes_nothing new (spec_Infrastructure sp)" for sp
  proof (induction n arbitrary: sp)
    case 0
    show ?case by (simp add: one)
  next
    case (Suc n)
    show ?case
      using Suc.IH [of "sync_infrastructure new internal sp"] keep [of sp] by (simp add: funpow_swap1)
  qed
  with one show ?thesis by blast
qed

section \<open>Examples\<close>

lemma service_sync_refines_witness:
  "\<exists>lb' t nodes infra ks. syncLoadBalancer mem_clusters example_defaults example_svc example_created example_start = (Ok lb', t) \<and>
     cm_lb (world t) (key_of example_created) = Some lb' \<and>
     lb_Spec lb' = sync_spec example_svc nodes infra (Some True) (options_with example_svc ks) (lb_Spec example_created)"
proof -
  obtain lb' t where run: "syncLoadBalancer mem_clusters example_defaults example_svc example_created example_start = (Ok lb', t)"
    using example_syncs by blast
  have "id_InternalLB example_defaults = Some True" by (simp add: example_defaults_def)
  with service_sync_refines [OF clusters.control_plane_axioms example_stored run] run show ?thesis by auto
qed


text \<open>A Service that asks for two timeouts at once needs two reconciles.\<close>

definition example_options :: lb_options where
  "example_options = zero_options\<lparr>opt_TCPIdleTimeout := Some 60, opt_UDPIdleTimeout := Some 30\<rparr>"


text \<open>A Service that no longer asks for a proxy, and asks for an idle timeout.\<close>

definition example_proxied :: lb_spec where
  "example_proxied = zero_lb_spec\<lparr>spec_Options := zero_options\<lparr>opt_LogForward := \<lparr>lf_Enabled = True, lf_LokiURL = ''loki'',
     lf_ProxyURL = ''proxy'', lf_Labels = Some Map.empty\<rparr>\<rparr>\<rparr>"

lemma stale_log_settings_block_witness:
  "opt_TCPIdleTimeout (spec_Options ((sync_options example_options ^^ 100) example_proxied)) = None"
proof -
  have "opt_TCPProxyProtocolPortsFilter example_options = opt_TCPProxyProtocolPortsFilter (spec_Options example_proxied)"
    and "lf_ProxyURL (opt_LogForward example_options) = [] \<and> lf_ProxyURL (opt_LogForward (spec_Options example_proxied)) \<noteq> []"
    by (simp_all add: example_options_def example_proxied_def zero_options_def)
  then have "opt_TCPIdleTimeout (spec_Options ((sync_options example_options ^^ 100) example_proxied)) =
      opt_TCPIdleTimeout (spec_Options example_proxied)"
    using stale_log_settings_block [of example_options example_proxied 100] by (simp add: Let_def)
  then show ?thesis by (simp add: example_proxied_def zero_options_def)
qed

text \<open>A subnet that the defaults no longer name.\<close>

lemma infrastructure_settles_witness:
  "\<exists>new. infrastructure_of example_svc example_defaults \<lparr>dn_FloatingNetID = None, dn_NetworkID = ''net'', dn_SubnetID = None\<rparr> None = Ok new \<and>
     spec_Infrastructure ((sync_infrastructure new None ^^ Suc 100) (zero_lb_spec\<lparr>spec_Infrastructure :=
       zero_infra\<lparr>infra_DefaultNetwork := \<lparr>dn_FloatingNetID = None, dn_NetworkID = ''net'', dn_SubnetID = Some ''sub''\<rparr>\<rparr>\<rparr>)) \<noteq> new"
proof -
  obtain new where new: "infrastructure_of example_svc example_defaults \<lparr>dn_FloatingNetID = None, dn_NetworkID = ''net'', dn_SubnetID = None\<rparr> None = Ok new"
    by (simp add: infrastructure_of_def example_defaults_def at_ptr_def)
  then have "infra_DefaultNetwork new = \<lparr>dn_FloatingNetID = None, dn_NetworkID = ''net'', dn_SubnetID = None\<rparr>"
    by (auto simp: infrastructure_of_def example_defaults_def at_ptr_def)
  then have "\<not> removes_nothing new (zero_infra\<lparr>infra_DefaultNetwork := \<lparr>dn_FloatingNetID = None, dn_NetworkID = ''net'', dn_SubnetID = Some ''sub''\<rparr>\<rparr>)"
    by (simp add: removes_nothing_def absent_stays_def)
  with infrastructure_settles [OF new, of None "zero_lb_spec\<lparr>spec_Infrastructure :=
       zero_infra\<lparr>infra_DefaultNetwork := \<lparr>dn_FloatingNetID = None, dn_NetworkID = ''net'', dn_SubnetID = Some ''sub''\<rparr>\<rparr>\<rparr>" 100] new
  show ?thesis by auto
qed

end
