(* ===== verification/ControlController.thy ===== *)
theory ControlController
  imports FakeClusters
begin

text \<open>
  The controllers of the control cluster, \<open>controllers/yawol-cloud-controller/controlcontroller\<close>: the
  address of a LoadBalancer that is ready is written into the status of its Service, and the events of
  a LoadBalancer that are meant for the user are forwarded to its Service. The locale \<open>service_status\<close>
  says what the target cluster stores when a status is patched, with a function for the defaults that
  its API server fills in.
\<close>

section \<open>The address of a LoadBalancer\<close>

text \<open>The Service that a LoadBalancer names in its annotation.\<close>

definition annotated_service :: "load_balancer \<Rightarrow> namespaced_name option" where
  "annotated_service lb =
     (case splitOn (CHR ''/'') (at_key (meta_Annotations lb) ServiceAnnotation) of
        [ns, n] \<Rightarrow> Some \<lparr>nn_Namespace = ns, nn_Name = n\<rparr>
      | _ \<Rightarrow> None)"

definition publishes :: "load_balancer \<Rightarrow> string option" where
  "publishes lb =
     (case ExternalIP (lb_Status lb) of
        None \<Rightarrow> None
      | Some ip \<Rightarrow>
          if spec_Replicas (lb_Spec lb) = 0 \<or> (case ReadyReplicas (lb_Status lb) of None \<Rightarrow> False | Some n \<Rightarrow> n > 0)
          then Some ip else None)"

definition ip_ingress :: "string \<Rightarrow> ingress" where
  "ip_ingress ip = \<lparr>ing_IP = ip, ing_Hostname = [], ing_IPMode = None, ing_Ports = []\<rparr>"

definition PatchServiceStatus :: "'w clusters \<Rightarrow> service \<Rightarrow> ingress list \<Rightarrow> ('w, service) cop" where
  "PatchServiceStatus cl svc ing = ext (TPatchIngress (key_of svc) ing) (t_PatchIngress cl (key_of svc) ing)"

definition LoadBalancerReconcile :: "'w clusters \<Rightarrow> namespaced_name \<Rightarrow> ('w, int) cop" where
  "LoadBalancerReconcile cl req =
     catchM (ext (KGetLB req) (c_GetLB cl req))
       (\<lambda>err. if IsNotFound err then ret 0 else fail err)
       (\<lambda>lb.
         case annotated_service lb of
           None \<Rightarrow> fail ErrCouldNotReadSvcNameSpacedNameFromAnno
         | Some nn \<Rightarrow>
             bindM (ext (TGetService nn) (t_GetService cl nn)) (\<lambda>svc.
             case publishes lb of
               None \<Rightarrow> ret 0
             | Some ip \<Rightarrow>
                 if [ip_ingress ip] \<noteq> svc_Ingress svc then
                   bindM (PatchServiceStatus cl svc [ip_ingress ip]) (\<lambda>svc.
                   thenM (ServiceEvent svc ''Normal'' ''creation'' (''LoadBalancer is successfully created with IP '' @ ip))
                     (ret (1 * Second)))
                 else ret 0))"

section \<open>Events\<close>

definition EventSource :: string where "EventSource = ''yawol-service''"
definition LoadBalancerKind_ev :: string where "LoadBalancerKind_ev = ''LoadBalancer''"

definition EventReconcile :: "'w clusters \<Rightarrow> namespaced_name \<Rightarrow> ('w, unit) cop" where
  "EventReconcile cl req =
     catchM (ext (KGetEvent req) (c_GetEvent cl req))
       (\<lambda>err. if IsNotFound err then ret () else fail err)
       (\<lambda>ev.
         if ev_Component ev \<noteq> EventSource \<or> ev_Kind ev \<noteq> LoadBalancerKind_ev then ret ()
         else
           catchM (ext (KGetLB (ev_Object ev)) (c_GetLB cl (ev_Object ev)))
             (\<lambda>err. if IsNotFound err then ret () else fail err)
             (\<lambda>lb.
               case annotated_service lb of
                 None \<Rightarrow> fail ErrCouldNotReadSvcNameSpacedNameFromAnno
               | Some nn \<Rightarrow>
                   bindM (ext (TGetService nn) (t_GetService cl nn)) (\<lambda>svc.
                   ServiceEvent svc (ev_Type ev) (ev_Reason ev) (ev_Message ev))))"

section \<open>The annotation\<close>

text \<open>The annotation that the service controller writes on a LoadBalancer is read back as the key of
  the Service, provided neither part has a slash, which Kubernetes names do not have; an annotation
  that is read is the one that its key gives, and one without exactly one slash is an error for the
  controllers that read it.\<close>

theorem annotation_roundtrip:
  assumes "CHR ''/'' \<notin> set (nn_Namespace nn)" and "CHR ''/'' \<notin> set (nn_Name nn)"
  shows "annotated_service (new_load_balancer lbNN nn h svc infra options) = Some nn \<and>
    (annotated_service lb = Some nn \<longleftrightarrow> at_key (meta_Annotations lb) ServiceAnnotation = nn_String nn)"
proof -
  have split: "splitOn (CHR ''/'') (nn_String nn) = [nn_Namespace nn, nn_Name nn]"
    using assms by (simp add: nn_String_def splitOn_sep splitOn_absent)
  have "at_key (meta_Annotations lb) ServiceAnnotation = nn_String nn" if a: "annotated_service lb = Some nn"
  proof -
    have "ToNamespacedName (at_key (meta_Annotations lb) ServiceAnnotation) = Ok nn"
      using a by (auto simp: annotated_service_def ToNamespacedName_def split: list.splits)
    then show ?thesis by (simp add: ToNamespacedName_Ok)
  qed
  with split show ?thesis
    by (auto simp: annotated_service_def new_load_balancer_def at_key_def)
qed

lemma annotation_roundtrip_witness:
  "annotated_service example_created = Some \<lparr>nn_Namespace = ''shop'', nn_Name = ''web''\<rparr>"
proof -
  have key: "key_of example_svc = \<lparr>nn_Namespace = ''shop'', nn_Name = ''web''\<rparr>" by (simp add: example_svc_def key_of_def)
  have "CHR ''/'' \<notin> set (nn_Namespace (key_of example_svc))" "CHR ''/'' \<notin> set (nn_Name (key_of example_svc))"
    by (simp_all add: key)
  from annotation_roundtrip [OF this] show ?thesis
    unfolding example_created_def key by blast
qed

section \<open>What is published\<close>

lemma publishes_iff:
  "publishes lb = Some ip \<longleftrightarrow> ExternalIP (lb_Status lb) = Some ip \<and>
     (spec_Replicas (lb_Spec lb) = 0 \<or> (\<exists>n. ReadyReplicas (lb_Status lb) = Some n \<and> n > 0))"
  by (auto simp: publishes_def split: option.splits)

definition status_patches :: "(ccall \<times> bool) list \<Rightarrow> (namespaced_name \<times> ingress list) list" where
  "status_patches cs = concat (map (\<lambda>(c, _). case c of TPatchIngress n ing \<Rightarrow> [(n, ing)] | _ \<Rightarrow> []) cs)"

lemma status_patches_simps [simp]:
  "status_patches [] = []" "status_patches ((TPatchIngress n ing, b) # cs) = (n, ing) # status_patches cs"
  "status_patches (xs @ ys) = status_patches xs @ status_patches ys"
  "status_patches ((TGetService n, b) # cs) = status_patches cs" "status_patches ((KGetLB n, b) # cs) = status_patches cs"
  "status_patches ((TEvent n ty rs msg, b) # cs) = status_patches cs"
  by (simp_all add: status_patches_def)

text \<open>C27. An address reaches the status of a Service only when it is the external address of the
  LoadBalancer that names this Service, and the LoadBalancer has a ready replica or is meant to have
  none; it is written alone, once, and only when the status is not already this address.\<close>

theorem external_ip_only_when_ready:
  assumes "LoadBalancerReconcile cl req s = (r, t)"
  shows "\<exists>new. trace t = trace s @ new \<and> (status_patches new \<noteq> [] \<longrightarrow>
    (\<exists>lb w ip nn svc w'. c_GetLB cl req (world s) = (Ok lb, w) \<and> annotated_service lb = Some nn \<and>
       t_GetService cl nn w = (Ok svc, w') \<and> status_patches new = [(key_of svc, [ip_ingress ip])] \<and>
       svc_Ingress svc \<noteq> [ip_ingress ip] \<and> ExternalIP (lb_Status lb) = Some ip \<and>
       (spec_Replicas (lb_Spec lb) = 0 \<or> (\<exists>n. ReadyReplicas (lb_Status lb) = Some n \<and> n > 0))))"
proof -
  have "runs (LoadBalancerReconcile cl req) s (\<lambda>_ t. \<exists>new. trace t = trace s @ new \<and> (status_patches new \<noteq> [] \<longrightarrow>
    (\<exists>lb w ip nn svc w'. c_GetLB cl req (world s) = (Ok lb, w) \<and> annotated_service lb = Some nn \<and>
       t_GetService cl nn w = (Ok svc, w') \<and> status_patches new = [(key_of svc, [ip_ingress ip])] \<and>
       svc_Ingress svc \<noteq> [ip_ingress ip] \<and> publishes lb = Some ip)))"
    unfolding LoadBalancerReconcile_def PatchServiceStatus_def
    by (auto simp: runs_simps caseR_def split: prod.split result.split option.split)
  from runsD [OF this assms] show ?thesis by (simp only: publishes_iff)
qed

section \<open>What is stored\<close>

locale service_status =
  fixes cl :: "'w clusters" and stored :: "'w \<Rightarrow> namespaced_name \<Rightarrow> service option" and fill :: "ingress list \<Rightarrow> ingress list"
  assumes get_service: "t_GetService cl n w = (Ok svc, w') \<Longrightarrow> stored w n = Some svc \<and> key_of svc = n"
    and get_service_keeps: "t_GetService cl n w = (r, w') \<Longrightarrow> stored w' = stored w"
    and get_lb_keeps: "c_GetLB cl n w = (r', w') \<Longrightarrow> stored w' = stored w"
    and patch_ingress: "t_PatchIngress cl n ing w = (Ok svc, w') \<Longrightarrow>
      stored w' n = Some svc \<and> svc_Ingress svc = fill ing"
begin

text \<open>What a reconcile finds and what it leaves.\<close>

lemma reconcile_cases:
  assumes "c_GetLB cl req (world s) = (Ok lb, w)" and "annotated_service lb = Some nn" and "publishes lb = Some ip"
  shows "runs (LoadBalancerReconcile cl req) s (\<lambda>r t. \<exists>new. trace t = trace s @ new \<and> (\<forall>d. r = Ok d \<longrightarrow>
    (case stored (world s) nn of
       None \<Rightarrow> False
     | Some svc \<Rightarrow>
         if svc_Ingress svc = [ip_ingress ip] then d = 0 \<and> status_patches new = []
         else d = 1 * Second \<and> status_patches new = [(nn, [ip_ingress ip])] \<and>
           (\<exists>svc'. stored (world t) nn = Some svc' \<and> svc_Ingress svc' = fill [ip_ingress ip]))))"
  unfolding LoadBalancerReconcile_def PatchServiceStatus_def using assms get_lb_keeps [OF assms(1)]
  by (auto simp: runs_simps caseR_def split: prod.split result.split
      dest!: get_service patch_ingress dest: get_service_keeps)

lemma reconcile_again:
  assumes "c_GetLB cl req (world s) = (Ok lb, w)" and "c_GetLB cl req (world t) = (Ok lb, w')"
    and "annotated_service lb = Some nn" and "publishes lb = Some ip"
    and "LoadBalancerReconcile cl req s = (Ok d, t)" and "status_patches (drop (length (trace s)) (trace t)) \<noteq> []"
    and "LoadBalancerReconcile cl req t = (Ok d', u)"
  shows "d = 1 * Second \<and> (status_patches (drop (length (trace t)) (trace u)) \<noteq> [] \<longleftrightarrow> fill [ip_ingress ip] \<noteq> [ip_ingress ip])"
proof -
  obtain svc where "stored (world t) nn = Some svc" "svc_Ingress svc = fill [ip_ingress ip]" "d = 1 * Second"
    using runsD [OF reconcile_cases [OF assms(1,3,4)] assms(5)] assms(6) by (auto split: if_splits option.splits)
  with runsD [OF reconcile_cases [OF assms(2,3,4)] assms(7)] show ?thesis by (auto split: if_splits option.splits)
qed

end

text \<open>The clusters in memory, with the defaults of an API server: since Kubernetes 1.30 an ingress with an
  address gets the mode \<open>VIP\<close> unless it has one.\<close>

definition default_mode :: "ingress \<Rightarrow> ingress" where
  "default_mode i = i\<lparr>ing_IPMode := (if ing_IP i \<noteq> [] \<and> ing_IPMode i = None then Some ''VIP'' else ing_IPMode i)\<rparr>"

definition mode_clusters :: "(ingress \<Rightarrow> ingress) \<Rightarrow> cmem clusters" where
  "mode_clusters f = mem_clusters\<lparr>t_PatchIngress := \<lambda>n ing. change_service (\<lambda>svc. svc\<lparr>svc_Ingress := map f ing\<rparr>) n\<rparr>"

lemma change_service_ingress:
  assumes "change_service (\<lambda>svc. svc\<lparr>svc_Ingress := ing\<rparr>) n w = (Ok svc', w')"
  shows "cm_service w' n = Some svc' \<and> svc_Ingress svc' = ing"
proof -
  let ?f = "\<lambda>svc :: service. svc\<lparr>svc_Ingress := ing\<rparr>"
  obtain svc where svc: "cm_service w n = Some svc" "svc' = ?f svc"
      and w': "w' = w\<lparr>cm_services := map (\<lambda>svc. if key_of svc = n then ?f svc else svc) (cm_services w)\<rparr>"
    using assms by (auto simp: change_service_def answer_def split: option.splits)
  have key: "key_of svc = n" using svc(1) unfolding cm_service_def by (rule find_key)
  have "key_of (?f x) = key_of x" for x by (simp add: key_of_def)
  then have "cm_service w' n = map_option (\<lambda>svc. if key_of svc = n then ?f svc else svc) (cm_service w n)"
    unfolding w' cm_service_def by (simp add: find_change [where f = ?f])
  with svc key show ?thesis by simp
qed

lemma get_service_mem:
  "t_GetService (mode_clusters f) n w = (r, w') \<Longrightarrow> w' = w \<and> (\<forall>svc. r = Ok svc \<longrightarrow> cm_service w n = Some svc \<and> key_of svc = n)"
  by (auto simp: mode_clusters_def mem_clusters_def answer_def cm_service_def
      dest: find_key [where key = key_of] split: option.splits)

interpretation statuses: service_status "mode_clusters f" cm_service "map f"
proof
  fix n ing w svc w'
  assume "t_PatchIngress (mode_clusters f) n ing w = (Ok svc, w')"
  then show "cm_service w' n = Some svc \<and> svc_Ingress svc = map f ing"
    by (intro change_service_ingress) (simp add: mode_clusters_def)
next
  fix n w r w'
  assume "c_GetLB (mode_clusters f) n w = (r, w')"
  then show "cm_service w' = cm_service w" by (auto simp: mode_clusters_def mem_clusters_def)
qed (auto dest!: get_service_mem)

text \<open>The address settles only if the server keeps what it is given: after a reconcile that wrote
  the address, which asks for another one a second later, that one writes it again exactly when the
  server stores anything else than the bare address. With the mode that Kubernetes fills in since 1.30 the
  two never agree, and the status is patched and an event sent every second.\<close>

theorem status_settles_iff_kept:
  assumes "service_status cl stored fill"
    and "c_GetLB cl req (world s) = (Ok lb, w)" and "c_GetLB cl req (world t) = (Ok lb, w')"
    and "annotated_service lb = Some nn" and "publishes lb = Some ip"
    and "LoadBalancerReconcile cl req s = (Ok d, t)" and "status_patches (drop (length (trace s)) (trace t)) \<noteq> []"
    and "LoadBalancerReconcile cl req t = (Ok d', u)"
  shows "d = 1 * Second \<and> (status_patches (drop (length (trace t)) (trace u)) \<noteq> [] \<longleftrightarrow> fill [ip_ingress ip] \<noteq> [ip_ingress ip]) \<and>
    (ip \<noteq> [] \<longrightarrow> map default_mode [ip_ingress ip] \<noteq> [ip_ingress ip])"
  using service_status.reconcile_again [OF assms] by (simp add: default_mode_def ip_ingress_def)

section \<open>Which events are forwarded\<close>

definition sent_events :: "(ccall \<times> bool) list \<Rightarrow> (namespaced_name \<times> string \<times> string \<times> string) list" where
  "sent_events cs = concat (map (\<lambda>(c, _). case c of TEvent n ty rs msg \<Rightarrow> [(n, ty, rs, msg)] | _ \<Rightarrow> []) cs)"

text \<open>Events are forwarded unchanged and selectively: a run sends at most one event, to the Service that
  the involved LoadBalancer names, with the type, reason and message of the event it looked at, and it
  sends one when and only when this event has the source \<open>yawol-service\<close>, involves a LoadBalancer, and the
  three objects can be read; any other event is done without touching anything else.\<close>

theorem events_forwarded_exactly:
  assumes "EventReconcile cl req s = (r, t)" and "c_GetEvent cl req (world s) = (Ok ev, w)"
  shows "\<exists>new. trace t = trace s @ new \<and>
    (if ev_Component ev = EventSource \<and> ev_Kind ev = LoadBalancerKind_ev
     then (case c_GetLB cl (ev_Object ev) w of
         (Ok lb, w1) \<Rightarrow>
           (case annotated_service lb of
              None \<Rightarrow> r = Err ErrCouldNotReadSvcNameSpacedNameFromAnno \<and> sent_events new = []
            | Some nn \<Rightarrow>
                (case t_GetService cl nn w1 of
                   (Ok svc, _) \<Rightarrow> r = Ok () \<and> sent_events new = [(key_of svc, ev_Type ev, ev_Reason ev, ev_Message ev)]
                 | (Err e, _) \<Rightarrow> r = Err e \<and> sent_events new = []
                 | (Crash c, _) \<Rightarrow> r = Crash c \<and> sent_events new = []))
       | (Err e, _) \<Rightarrow> r = (if IsNotFound e then Ok () else Err e) \<and> sent_events new = []
       | (Crash c, _) \<Rightarrow> r = Crash c \<and> sent_events new = [])
     else r = Ok () \<and> new = [(KGetEvent req, True)])"
  by (rule runsD [where m = "EventReconcile cl req", OF _ assms(1)])
    (auto simp: EventReconcile_def runs_simps caseR_def sent_events_def assms(2) split: prod.split result.split option.split)

section \<open>Examples\<close>

definition example_ready :: load_balancer where
  "example_ready = example_created\<lparr>lb_Status := (lb_Status example_created)\<lparr>ExternalIP := Some ''203.0.113.7'', ReadyReplicas := Some 1\<rparr>\<rparr>"

definition example_event :: event where
  "example_event = \<lparr>ev_Component = ''yawol-service'', ev_Kind = ''LoadBalancer'', ev_Object = key_of example_created,
     ev_Type = ''Warning'', ev_Reason = ''Failed'', ev_Message = ''quota exceeded''\<rparr>"

definition example_published :: "(cmem, ccall) st" where
  "example_published = \<lparr>world = example_cmem\<lparr>cm_lbs := [example_ready], cm_events := [(key_of example_svc, example_event)]\<rparr>, trace = []\<rparr>"

lemma example_service_of: "annotated_service example_ready = Some (key_of example_svc)"
  by (simp add: annotated_service_def example_ready_def example_created_def new_load_balancer_def at_key_def nn_String_def
      key_of_def example_svc_def)

lemma example_publishes: "publishes example_ready = Some ''203.0.113.7''"
  by (simp add: publishes_def example_ready_def)

lemma example_ready_key: "key_of example_ready = key_of example_created"
  by (simp add: example_ready_def key_of_def)

lemmas example_control = LoadBalancerReconcile_def PatchServiceStatus_def example_published_def example_service_of example_publishes
  example_ready_key mode_clusters_def change_service_def cm_service_def example_cmem_def

lemma external_ip_only_when_ready_witness:
  "\<exists>r t. LoadBalancerReconcile (mode_clusters id) (key_of example_created) example_published = (r, t) \<and>
     status_patches (trace t) = [(key_of example_svc, [ip_ingress ''203.0.113.7''])]"
proof -
  obtain r t where run: "LoadBalancerReconcile (mode_clusters id) (key_of example_created) example_published = (r, t)"
    by (cases "LoadBalancerReconcile (mode_clusters id) (key_of example_created) example_published")
  then have "status_patches (trace t) \<noteq> []"
    by (auto simp: example_control mem_run example_svc_def)
  moreover have "c_GetLB (mode_clusters id) (key_of example_created) (world example_published) = (Ok example_ready, world example_published)"
    by (simp add: example_control mem_run)
  moreover have "ExternalIP (lb_Status example_ready) = Some ''203.0.113.7''" by (simp add: example_ready_def)
  moreover have "t_GetService (mode_clusters id) (key_of example_svc) (world example_published) = (Ok example_svc, world example_published)"
    by (simp add: example_control mem_run)
  ultimately show ?thesis
    using external_ip_only_when_ready [OF run] run by (auto simp: example_published_def example_service_of)
qed

text \<open>With the mode filled in, the second reconcile writes the address again.\<close>

lemma status_settles_iff_kept_witness:
  "\<exists>t d u. LoadBalancerReconcile (mode_clusters default_mode) (key_of example_created) example_published = (Ok Second, t) \<and>
     LoadBalancerReconcile (mode_clusters default_mode) (key_of example_created) t = (Ok d, u) \<and>
     status_patches (drop (length (trace t)) (trace u)) \<noteq> []"
proof -
  let ?rec = "LoadBalancerReconcile (mode_clusters default_mode) (key_of example_created)"
  let ?svc = "example_svc\<lparr>svc_Ingress := [default_mode (ip_ingress ''203.0.113.7'')]\<rparr>"
  have key: "key_of ?svc = key_of example_svc" by (simp add: key_of_def)
  have differ: "default_mode (ip_ingress ''203.0.113.7'') \<noteq> ip_ingress ''203.0.113.7''"
    by (simp add: default_mode_def ip_ingress_def)
  have one: "\<exists>t. ?rec example_published = (Ok Second, t) \<and> status_patches (trace t) \<noteq> [] \<and>
      world t = (world example_published)\<lparr>cm_services := [?svc]\<rparr>"
    by (simp add: example_control mem_run key) (simp add: example_svc_def)
  then obtain t where t: "?rec example_published = (Ok Second, t)" "status_patches (trace t) \<noteq> []"
      "world t = (world example_published)\<lparr>cm_services := [?svc]\<rparr>"
    by blast
  have two: "\<exists>d u. ?rec t = (Ok d, u)"
    using t(3) differ by (simp add: example_control mem_run key)
  then obtain d u where u: "?rec t = (Ok d, u)" by blast
  have get: "c_GetLB (mode_clusters default_mode) (key_of example_created) (world x) = (Ok example_ready, world x)"
    if "cm_lbs (world x) = [example_ready]" for x :: "(cmem, ccall) st"
    using that by (simp add: example_control mem_run)
  have lbs: "cm_lbs (world example_published) = [example_ready]" "cm_lbs (world t) = [example_ready]"
    by (simp_all add: t(3)) (simp_all add: example_published_def)
  have "drop (length (trace example_published)) (trace t) = trace t" by (simp add: example_published_def)
  with status_settles_iff_kept [OF statuses.service_status_axioms get [OF lbs(1)] get [OF lbs(2)] example_service_of
      example_publishes t(1) _ u] t(2) differ t(1) u
  show ?thesis by auto
qed

lemma events_forwarded_exactly_witness:
  "\<exists>r t. EventReconcile (mode_clusters id) (key_of example_svc) example_published = (r, t) \<and> r = Ok () \<and>
     sent_events (trace t) = [(key_of example_svc, ''Warning'', ''Failed'', ''quota exceeded'')]"
proof -
  obtain r t where run: "EventReconcile (mode_clusters id) (key_of example_svc) example_published = (r, t)"
    by (cases "EventReconcile (mode_clusters id) (key_of example_svc) example_published")
  have ev: "c_GetEvent (mode_clusters id) (key_of example_svc) (world example_published) = (Ok example_event, world example_published)"
    by (simp add: example_control mem_run)
  have "c_GetLB (mode_clusters id) (key_of example_created) (world example_published) = (Ok example_ready, world example_published)"
    and "t_GetService (mode_clusters id) (key_of example_svc) (world example_published) = (Ok example_svc, world example_published)"
    by (simp_all add: example_control mem_run)
  with events_forwarded_exactly [OF run ev] run show ?thesis
    by (simp add: example_event_def EventSource_def LoadBalancerKind_ev_def example_service_of) (simp add: example_published_def)
qed

end
