(* ===== verification/ServiceLife.thy ===== *)
theory ServiceLife
  imports ControlController
begin

text \<open>
  The life of a Service in the cloud controller: what the reconciler of
  \<open>targetcontroller/service_controller.go\<close> may do to a Service and its LoadBalancer in each of its
  phases, and where it fails: a Service that leaves the class keeps its finalizer, two Services with
  the same LoadBalancer take it from each other, and the order of additional networks is read as a change.
\<close>

section \<open>Calls of the synchronisation\<close>

text \<open>Calls that neither create nor delete a LoadBalancer nor touch the Service.\<close>

fun harmless :: "ccall \<Rightarrow> bool" where
  "harmless (TPatchFinalizers n fs) = False"
| "harmless (TPatchIngress n ing) = False"
| "harmless (TRemoveIngress n) = False"
| "harmless (KCreateLB lb) = False"
| "harmless (KDeleteLB n) = False"
| "harmless (KPatchAnnotation n k v) = False"
| "harmless c = True"

definition calm :: "ccall \<times> bool \<Rightarrow> bool" where
  "calm c = harmless (fst c)"

lemma calm_simps [simp]: "calm (c, b) = harmless c"
  by (simp add: calm_def)

lemma emits_log_labels: "emits calm (log_labels_loop svc as ls)"
proof (induction "as" arbitrary: ls)
  case (Cons a as)
  then show ?case by (auto simp: Let_def intro!: emits_intros)
qed (simp add: emits_ret)

lemma emits_GetOptions: "emits calm (GetOptions cl svc)"
  unfolding GetOptions_def log_forward_of_def idle_timeout_of_def Let_def
  by (intro emits_intros emits_log_labels) simp_all

lemma emits_newInfrastructure: "(\<And>i. emits P (f i)) \<Longrightarrow> emits P (newInfrastructure cl svc cfg f)"
  unfolding newInfrastructure_def getAdditionalNetworks_def by (intro emits_intros)

lemma emits_sync: "emits calm (syncLoadBalancer cl cfg svc lb)"
  unfolding syncLoadBalancer_def reconcilePorts_def reconcileReplicas_svc_def reconcileNodes_def syncEndpoints_def
    reconcileInfrastructure_def reconcileDebugSettings_def reconcileOptions_def reconcileExistingFloatingIP_def patchIf_def Let_def
  by (intro emits_intros emits_newInfrastructure emits_GetOptions) simp_all

section \<open>A Service of another class\<close>

text \<open>A Service that leaves the class is left alone, its finalizer included: when its class is not one
  of those of the controller, a reconcile reads the Service and the LoadBalancer, deletes the
  LoadBalancer if it is there, and does nothing else. So the finalizer that it set while the class was
  its own is never removed, and unless another instance takes the Service over its deletion hangs.\<close>

theorem foreign_class_keeps_finalizer:
  assumes "t_GetService (sc_clusters sc) req (world s) = (Ok svc, w)" and "\<not> CheckLoadBalancerClasses svc (sc_ClassNames sc)"
    and "ServiceReconcile sc req s = (r, t)"
  shows "\<exists>new. trace t = trace s @ new \<and> fst ` set new \<subseteq> {TGetService req} \<union> range KGetLB \<union> range KDeleteLB"
  by (rule runsD [where m = "ServiceReconcile sc req", OF _ assms(3)])
    (auto simp: ServiceReconcile_def deletionRoutine_svc_def Let_def runs_simps caseR_def assms(1,2)
      split: prod.split result.split option.split)

section \<open>What is created\<close>

definition well_created :: "'w service_reconciler \<Rightarrow> namespaced_name \<Rightarrow> load_balancer \<Rightarrow> bool" where
  "well_created sc req lb =
     (\<exists>ns h. id_Namespace (sc_InfrastructureDefaults sc) = Some ns \<and>
        label_hash (sc_sha256 sc) (ns @ ''.'' @ nn_Namespace req @ ''--'' @ nn_Name req) = Ok h \<and>
        meta_Namespace lb = ns \<and> meta_Annotations lb = [ServiceAnnotation \<mapsto> nn_String req] \<and>
        MatchLabels (spec_Selector (lb_Spec lb)) = [LoadBalancerLabelName \<mapsto> h] \<and>
        spec_Ports (lb_Spec lb) = [] \<and> spec_Endpoints (lb_Spec lb) = None)"

fun creates :: "(load_balancer \<Rightarrow> bool) \<Rightarrow> ccall \<times> bool \<Rightarrow> bool" where
  "creates P (KCreateLB lb, b) = P lb"
| "creates P (c, b) = True"

lemma creates_calm: "calm c \<Longrightarrow> creates P c"
  by (cases c; cases "fst c") auto

lemma GetMerged_Namespace [simp]: "id_Namespace (GetMergedInfrastructureDetails d svc) = id_Namespace d"
  by (simp add: GetMergedInfrastructureDetails_def GetInfrastructureDetailsFromService_def Let_def)

lemma emits_liftR_ok: "(\<And>x. r = Ok x \<Longrightarrow> emits P (k x)) \<Longrightarrow> emits P (bindM (liftR r) k)"
  by (cases r) (simp_all add: emits_def runs_simps)

lemma emits_create:
  assumes "id_Namespace cfg = id_Namespace (sc_InfrastructureDefaults sc)"
  shows "emits (creates (well_created sc req)) (createLoadBalancer sc req svc cfg)"
  unfolding createLoadBalancer_def Let_def
  by (rule emits_deref, rule emits_liftR_ok, rule emits_liftR_ok, rule emits_newInfrastructure,
      rule emits_bindM [OF emits_weaken [OF emits_GetOptions creates_calm]])
    (use assms in \<open>auto simp: well_created_def new_load_balancer_def getLoadBalancerNamespacedName_def at_ptr_def intro!: emits_intros\<close>)

lemma emits_reconcileService:
  assumes "id_Namespace cfg = id_Namespace (sc_InfrastructureDefaults sc)"
  shows "emits (creates (well_created sc req)) (reconcileService sc req cfg svc)"
  unfolding reconcileService_def AddServiceFinalizer_def RemoveServiceFinalizer_def Let_def
  by (intro emits_intros emits_create [OF assms] emits_weaken [OF emits_sync creates_calm]) simp_all

text \<open>C29. A LoadBalancer is created only for a Service that asks for it: when a reconcile creates one, the
  Service it read is of a class of the controller and of type LoadBalancer and is not being deleted; what
  is created carries the key of the Service in its annotation, has the selector that the hash gives, and
  has neither ports nor endpoints yet.\<close>

theorem creates_only_for_loadbalancer_services:
  assumes "ServiceReconcile sc req s = (r, t)"
  shows "\<exists>new. trace t = trace s @ new \<and> (\<forall>lb ok. (KCreateLB lb, ok) \<in> set new \<longrightarrow> well_created sc req lb \<and>
    (\<exists>svc w. t_GetService (sc_clusters sc) req (world s) = (Ok svc, w) \<and> CheckLoadBalancerClasses svc (sc_ClassNames sc) \<and>
       svc_Type svc = ''LoadBalancer'' \<and> \<not> is_deleting svc))"
proof (cases "\<exists>svc w. t_GetService (sc_clusters sc) req (world s) = (Ok svc, w) \<and> CheckLoadBalancerClasses svc (sc_ClassNames sc) \<and>
       svc_Type svc = ''LoadBalancer'' \<and> \<not> is_deleting svc")
  case True
  have "emits (creates (well_created sc req)) (ServiceReconcile sc req)"
    unfolding ServiceReconcile_def deletionRoutine_svc_def RemoveServiceFinalizer_def Let_def
    by (intro emits_intros emits_reconcileService GetMerged_Namespace) simp_all
  from runsD [OF emits_runs [OF this] assms] True show ?thesis by (force simp: extends_def)
next
  case False
  have "runs (ServiceReconcile sc req) s (\<lambda>_ t. extends (creates (\<lambda>_. False)) s t)"
    using False
    by (auto simp: ServiceReconcile_def deletionRoutine_svc_def RemoveServiceFinalizer_def Let_def runs_simps caseR_def extends_def
        split: prod.split result.split option.split)
  from runsD [OF this assms] show ?thesis by (force simp: extends_def)
qed

section \<open>The finalizer goes last\<close>

definition keeps_finalizer :: "ccall \<times> bool \<Rightarrow> bool" where
  "keeps_finalizer c = (case fst c of TPatchFinalizers n fs \<Rightarrow> ServiceFinalizer_svc \<in> set fs | _ \<Rightarrow> True)"

lemma keeps_finalizer_simps [simp]:
  "keeps_finalizer (TPatchFinalizers n fs, b) = (ServiceFinalizer_svc \<in> set fs)"
  "harmless c \<Longrightarrow> keeps_finalizer (c, b)" "keeps_finalizer (KCreateLB lb, b)" "keeps_finalizer (KDeleteLB n, b)"
  "keeps_finalizer (KPatchAnnotation n k v, b)" "keeps_finalizer (TRemoveIngress n, b)"
  by (auto simp: keeps_finalizer_def split: ccall.split)

lemma keeps_finalizer_calm: "calm c \<Longrightarrow> keeps_finalizer c"
  by (cases c) simp

lemma emits_extends: "emits P m \<Longrightarrow> extends P s u \<Longrightarrow> runs m u (\<lambda>_ t. extends P s t)"
  by (rule runs_weaken [OF emits_runs]) (auto intro: extends_trans)

lemma extends_calls:
  "extends P s u \<Longrightarrow> \<forall>c \<in> set cs. P c \<Longrightarrow> extends P s (u\<lparr>world := w, trace := trace u @ cs\<rparr>)"
  "extends P s u \<Longrightarrow> \<forall>c \<in> set cs. P c \<Longrightarrow> extends P s (u\<lparr>trace := trace u @ cs\<rparr>)"
  by (auto simp: extends_def)

locale service_life =
  fixes cl :: "'w clusters" and stored :: "'w \<Rightarrow> namespaced_name \<Rightarrow> load_balancer option"
  assumes not_found: "c_GetLB cl n w = (Err e, w') \<Longrightarrow> IsNotFound e \<Longrightarrow> stored w' n = None"
    and remove_ingress: "t_RemoveIngress cl n w = (r, w') \<Longrightarrow> stored w' = stored w"
    and patch_finalizers: "t_PatchFinalizers cl n fs w = (r, w') \<Longrightarrow> stored w' = stored w"
    and service_key: "t_GetService cl n w = (Ok svc, w') \<Longrightarrow> key_of svc = n"
begin

definition safe :: "namespaced_name \<Rightarrow> ('w, ccall) st \<Rightarrow> ('w, ccall) st \<Rightarrow> bool" where
  "safe nn s t = (extends keeps_finalizer s t \<or> (\<exists>new. trace t = trace s @ new) \<and> stored (world t) nn = None)"

lemma safe_extends: "extends keeps_finalizer s t \<Longrightarrow> safe nn s t"
  by (simp add: safe_def)

lemma safe_emits: "emits keeps_finalizer m \<Longrightarrow> extends keeps_finalizer s u \<Longrightarrow> runs m u (\<lambda>_ t. safe nn s t)"
  by (rule runs_weaken [OF emits_extends [where P = keeps_finalizer and s = s]]) (simp_all add: safe_extends)

lemma safe_removal:
  assumes "extends keeps_finalizer s u" and "stored (world u) nn = None"
  shows "runs (RemoveServiceFinalizer cl svc) u (caseR (\<lambda>_ t. safe nn s t) (\<lambda>_ t. safe nn s t) (\<lambda>_ t. safe nn s t))"
  unfolding RemoveServiceFinalizer_def Let_def
  using assms by (auto simp: runs_simps caseR_def safe_def extends_def dest: patch_finalizers split: prod.split result.split)

lemma still_not_found:
  "c_GetLB cl n w = (Err e, w') \<Longrightarrow> IsNotFound e \<Longrightarrow> t_RemoveIngress cl m w' = (r, w'') \<Longrightarrow> stored w'' n = None"
  using not_found remove_ingress by fastforce

lemma safe_deletion:
  assumes "extends keeps_finalizer s u" and "sc_clusters sc = cl" and "getLoadBalancerNamespacedName cfg svc = Ok nn"
  shows "runs (deletionRoutine_svc sc svc cfg) u (\<lambda>_ t. safe nn s t)"
  unfolding deletionRoutine_svc_def Let_def assms(2,3)
  using extends_calls [OF assms(1)]
  by (auto simp: runs_simps caseR_def intro!: safe_removal safe_extends assms(1)
      dest: not_found still_not_found split: prod.split result.split)

lemma safe_reconcileService:
  assumes "extends keeps_finalizer s u" and "sc_clusters sc = cl" and "id_Namespace cfg = Some ns"
  shows "runs (reconcileService sc req cfg svc) u (\<lambda>_ t. safe \<lparr>nn_Namespace = ns, nn_Name = nn_Namespace req @ ''--'' @ nn_Name req\<rparr> s t)"
proof -
  define nn where "nn = \<lparr>nn_Namespace = ns, nn_Name = nn_Namespace req @ ''--'' @ nn_Name req\<rparr>"
  define created where "created svc = catchM (createLoadBalancer sc req svc cfg) (\<lambda>err. ServiceError err svc) (\<lambda>_.
      thenM (ServiceEvent svc ''Normal'' ''creation'' ''LoadBalancer is in creation'') (ret (1 * Second)))" for svc
  define exists where "exists svc lb = (let owner = meta_Namespace svc @ ''/'' @ meta_Name svc in
      if at_key (meta_Annotations lb) ServiceAnnotation \<noteq> owner then
        thenM (ext (KPatchAnnotation (key_of lb) ServiceAnnotation owner) (c_PatchAnnotation cl (key_of lb) ServiceAnnotation owner)) (ret (1 * Second))
      else thenM (syncLoadBalancer cl cfg svc lb) (ret 0))" for svc lb
  define after where "after svc = (case ValidateService svc of
        Some e \<Rightarrow> ServiceError (OtherErr (''validation failed: '' @ Error_text e)) svc
      | None \<Rightarrow>
          catchM (ext (KGetLB nn) (c_GetLB cl nn))
            (\<lambda>err. if \<not> IsNotFound err then fail err
              else if is_deleting svc then thenM (RemoveServiceFinalizer cl svc) (ret 0) else created svc)
            (exists svc))" for svc
  have rec: "reconcileService sc req cfg svc = bindM (AddServiceFinalizer cl svc) after"
    unfolding reconcileService_def after_def [abs_def] created_def exists_def [abs_def] assms(2,3) Let_def deref_def option.case nn_def ..
  have "emits keeps_finalizer (created svc)" "emits keeps_finalizer (exists svc lb)" for svc lb
    unfolding created_def exists_def createLoadBalancer_def Let_def
    by (intro emits_intros emits_newInfrastructure emits_weaken [OF emits_GetOptions keeps_finalizer_calm]
        emits_weaken [OF emits_sync keeps_finalizer_calm]; simp)+
  note later = this [THEN safe_emits, where nn = nn]
  have rest: "runs (after svc) v (\<lambda>_ t. safe nn s t)" if v: "extends keeps_finalizer s v" for svc v
  proof (cases "ValidateService svc")
    case None
    obtain r w where get: "c_GetLB cl nn (world v) = (r, w)" by (cases "c_GetLB cl nn (world v)")
    have now: "extends keeps_finalizer s (v\<lparr>world := w, trace := trace v @ [(KGetLB nn, b)]\<rparr>)" for b
      using extends_calls(1) [OF v] by simp
    show ?thesis
    proof (cases r)
      case (Err e)
      show ?thesis
      proof (cases "IsNotFound e")
        case True
        with get Err have gone: "stored w nn = None" using not_found by blast
        show ?thesis
          using True safe_removal [OF now [of False], of nn svc] later(1) [OF now [of False], of svc] gone
          by (simp add: after_def None runs_simps get Err)
      qed (use now [of False] in \<open>simp add: after_def None runs_simps get Err safe_extends\<close>)
    next
      case (Ok lb)
      show ?thesis
        using later(2) [OF now [of True], of svc lb] by (simp add: after_def None runs_simps get Ok)
    next
      case (Crash c)
      show ?thesis
        using now [of False] by (simp add: after_def None runs_simps get Crash safe_extends)
    qed
  next
    case (Some e)
    show ?thesis
      using extends_calls(2) [OF v] v by (simp add: after_def Some runs_simps safe_extends)
  qed
  show ?thesis
    unfolding rec AddServiceFinalizer_def Let_def runs_bindM nn_def [symmetric]
    using extends_calls(1) [OF assms(1)] assms(1) rest
    by (auto simp: runs_ret runs_ext caseR_def safe_extends split: prod.split result.split)
qed

lemma safe_reconcile:
  assumes "sc_clusters sc = cl" and "id_Namespace (sc_InfrastructureDefaults sc) = Some ns"
  shows "runs (ServiceReconcile sc req) s (\<lambda>_ t. safe \<lparr>nn_Namespace = ns, nn_Name = nn_Namespace req @ ''--'' @ nn_Name req\<rparr> s t)"
proof -
  let ?nn = "\<lparr>nn_Namespace = ns, nn_Name = nn_Namespace req @ ''--'' @ nn_Name req\<rparr>"
  let ?cfg = "GetMergedInfrastructureDetails (sc_InfrastructureDefaults sc)"
  obtain r w where get: "t_GetService cl req (world s) = (r, w)" by (cases "t_GetService cl req (world s)")
  have now: "extends keeps_finalizer s (s\<lparr>world := w, trace := trace s @ [(TGetService req, b)]\<rparr>)" for b
    using extends_calls(1) [of keeps_finalizer s s] by simp
  show ?thesis
  proof (cases r)
    case (Ok svc)
    with get have "key_of svc = req" using service_key by blast
    then have nn: "getLoadBalancerNamespacedName (?cfg svc) svc = Ok ?nn"
      by (auto simp: getLoadBalancerNamespacedName_def at_ptr_def assms(2) GetLoadBalancerNameFromService_def key_of_def)
    have cfg: "id_Namespace (?cfg svc) = Some ns" by (simp add: assms(2))
    define gone where "gone = deletionRoutine_svc sc svc (?cfg svc)"
    have del: "runs gone u (\<lambda>_ t. safe ?nn s t)" if "extends keeps_finalizer s u" for u
      unfolding gone_def by (rule safe_deletion [OF that assms(1) nn])
    have del': "runs gone (s\<lparr>world := w', trace := trace s @ [(TGetService req, True), (KGetLB ?nn, b)]\<rparr>) (\<lambda>_ t. safe ?nn s t)" for w' b
      using extends_calls(1) [of keeps_finalizer s s] by (intro del) simp
    show ?thesis
    proof (cases "CheckLoadBalancerClasses svc (sc_ClassNames sc)")
      case True
      then show ?thesis
        using del [OF now] safe_reconcileService [OF now assms(1) cfg]
        by (simp add: ServiceReconcile_def Let_def assms(1) runs_simps get Ok gone_def del: GetMerged_Namespace)
    next
      case False
      then show ?thesis
        unfolding ServiceReconcile_def Let_def assms(1) runs_catchM runs_ext get prod.case Ok caseR_simps
        using extends_calls(1) [of keeps_finalizer s s] del'
        by (auto simp: runs_simps caseR_def assms(2) gone_def intro!: safe_extends split: prod.split result.split)
    qed
  qed (use now in \<open>simp_all add: ServiceReconcile_def assms(1) runs_simps get safe_extends\<close>)
qed

end

text \<open>C20. The finalizer of a Service goes last: whenever a reconcile takes its finalizer off a Service, no
  LoadBalancer is stored under the name of that Service at the end of the reconcile, so no LoadBalancer,
  with its machines and OpenStack resources, is left behind by a Service that is gone.\<close>

theorem finalizer_goes_last:
  assumes "service_life (sc_clusters sc) stored" and "id_Namespace (sc_InfrastructureDefaults sc) = Some ns"
    and "ServiceReconcile sc req s = (r, t)"
  shows "\<exists>new. trace t = trace s @ new \<and>
    ((\<exists>n fs ok. (TPatchFinalizers n fs, ok) \<in> set new \<and> ServiceFinalizer_svc \<notin> set fs) \<longrightarrow>
     stored (world t) \<lparr>nn_Namespace = ns, nn_Name = nn_Namespace req @ ''--'' @ nn_Name req\<rparr> = None)"
  using runsD [OF service_life.safe_reconcile [OF assms(1) refl assms(2)] assms(3)]
  by (force simp: service_life.safe_def [OF assms(1)] extends_def)

lemma mem_PatchServiceFinalizers_lbs: "mem_PatchServiceFinalizers n fs w = (r, w') \<Longrightarrow> cm_lbs w' = cm_lbs w"
  by (auto simp: mem_PatchServiceFinalizers_def change_service_def)

interpretation life: service_life mem_clusters cm_lb
proof
  fix n fs w r w'
  assume "t_PatchFinalizers mem_clusters n fs w = (r, w')"
  then have "cm_lbs w' = cm_lbs w" by (intro mem_PatchServiceFinalizers_lbs) (simp add: mem_clusters_def)
  then show "cm_lb w' = cm_lb w" by (simp add: cm_lb_def [abs_def])
qed (auto simp: mem_clusters_def answer_def change_service_def cm_lb_def [abs_def] cm_service_def
    dest: find_key [where key = key_of] split: option.splits)

section \<open>Examples\<close>

definition example_sc :: "string list \<Rightarrow> cmem service_reconciler" where
  "example_sc classes = \<lparr>sc_clusters = mem_clusters, sc_InfrastructureDefaults = example_defaults, sc_ClassNames = classes,
     sc_sha256 = \<lambda>_. replicate 32 0\<rparr>"

definition example_world_of :: "service \<Rightarrow> load_balancer list \<Rightarrow> (cmem, ccall) st" where
  "example_world_of svc lbs = \<lparr>world = example_cmem\<lparr>cm_services := [svc], cm_lbs := lbs\<rparr>, trace = []\<rparr>"

text \<open>A Service without a class, and a controller for another one.\<close>

lemma foreign_class_keeps_finalizer_witness:
  "\<exists>r t. ServiceReconcile (example_sc [''other'']) (key_of example_svc) example_start = (r, t) \<and>
     fst ` set (trace t) \<subseteq> {TGetService (key_of example_svc)} \<union> range KGetLB \<union> range KDeleteLB"
proof -
  obtain r t where run: "ServiceReconcile (example_sc [''other'']) (key_of example_svc) example_start = (r, t)"
    by (cases "ServiceReconcile (example_sc [''other'']) (key_of example_svc) example_start")
  have "t_GetService (sc_clusters (example_sc [''other''])) (key_of example_svc) (world example_start) = (Ok example_svc, example_cmem)"
    and "\<not> CheckLoadBalancerClasses example_svc (sc_ClassNames (example_sc [''other'']))"
    by (simp_all add: example_sc_def example_start_def example_cmem_def cm_service_def answer_def mem_clusters_def
        CheckLoadBalancerClasses_def getLoadBalancerClass_def) (simp add: example_svc_def at_key_def)
  from foreign_class_keeps_finalizer [OF this run] run show ?thesis by (auto simp: example_start_def)
qed

text \<open>A Service that is new.\<close>

lemma example_hash: "\<exists>h. label_hash (\<lambda>_. replicate 32 0) x = Ok h"
proof -
  have "length (ToLower (base32_StdEncoding (replicate 32 0))) = 56" by code_simp
  then show ?thesis by (simp add: label_hash_def Let_def)
qed

lemmas life_run = ServiceReconcile_def reconcileService_def deletionRoutine_svc_def createLoadBalancer_def AddServiceFinalizer_def
  RemoveServiceFinalizer_def RemoveFinalizer_def ContainsFinalizer_def getLoadBalancerNamespacedName_def GetLoadBalancerNameFromService_def
  CheckLoadBalancerClasses_def getLoadBalancerClass_def ValidateService_def ServiceError_def
  GetMergedInfrastructureDetails_def GetInfrastructureDetailsFromService_def example_sc_def example_world_of_def cm_service_def
  mem_CreateLB_def is_deleting_def mem_PatchServiceFinalizers_def change_service_def

lemma creates_only_for_loadbalancer_services_witness:
  "\<exists>r t lb. ServiceReconcile (example_sc [[]]) (key_of example_svc) (example_world_of example_svc []) = (r, t) \<and>
     (KCreateLB lb, True) \<in> set (trace t) \<and> well_created (example_sc [[]]) (key_of example_svc) lb"
proof -
  obtain r t where run: "ServiceReconcile (example_sc [[]]) (key_of example_svc) (example_world_of example_svc []) = (r, t)"
    by (cases "ServiceReconcile (example_sc [[]]) (key_of example_svc) (example_world_of example_svc [])")
  obtain h where h: "label_hash (\<lambda>_. replicate 32 0) ''lbs.shop--web'' = Ok h" using example_hash by blast
  have "\<exists>lb. (KCreateLB lb, True) \<in> set (trace (snd (ServiceReconcile (example_sc [[]]) (key_of example_svc) (example_world_of example_svc []))))"
    using h by (simp add: life_run mem_run sync_run example_defs Let_def)
  with run obtain lb where lb: "(KCreateLB lb, True) \<in> set (trace t)" by auto
  have "trace (example_world_of example_svc []) = []" by (simp add: example_world_of_def)
  with creates_only_for_loadbalancer_services [OF run] lb run show ?thesis by auto
qed

text \<open>A Service that is deleted, after its LoadBalancer.\<close>

definition example_leaving :: service where
  "example_leaving = example_svc\<lparr>meta_DeletionTimestamp := Some 1\<rparr>"

lemma finalizer_goes_last_witness:
  "\<exists>r t. ServiceReconcile (example_sc [[]]) (key_of example_svc) (example_world_of example_leaving []) = (r, t) \<and>
     (TPatchFinalizers (key_of example_svc) [], True) \<in> set (trace t) \<and>
     cm_lb (world t) \<lparr>nn_Namespace = ''lbs'', nn_Name = ''shop--web''\<rparr> = None"
proof -
  obtain r t where run: "ServiceReconcile (example_sc [[]]) (key_of example_svc) (example_world_of example_leaving []) = (r, t)"
    by (cases "ServiceReconcile (example_sc [[]]) (key_of example_svc) (example_world_of example_leaving [])")
  have "(TPatchFinalizers (key_of example_svc) [], True) \<in>
      set (trace (snd (ServiceReconcile (example_sc [[]]) (key_of example_svc) (example_world_of example_leaving []))))"
    by (simp add: life_run mem_run at_ptr_def example_leaving_def example_defs ServiceFinalizer_svc_def Let_def)
  with run have fin: "(TPatchFinalizers (key_of example_svc) [], True) \<in> set (trace t)" by simp
  have life: "service_life (sc_clusters (example_sc [[]])) cm_lb"
    using life.service_life_axioms by (simp add: example_sc_def)
  have ns: "id_Namespace (sc_InfrastructureDefaults (example_sc [[]])) = Some ''lbs''"
    by (simp add: example_sc_def example_defaults_def)
  have "ServiceFinalizer_svc \<notin> set []" "trace (example_world_of example_leaving []) = []"
    by (simp_all add: example_world_of_def)
  with finalizer_goes_last [OF life ns run] fin run show ?thesis
    by (fastforce simp: key_of_def example_svc_def)
qed

end
