(* ===== verification/ServiceEdges.thy ===== *)
theory ServiceEdges
  imports ServiceLife
begin

text \<open>
  Edges of what the cloud controller reads from Services: numbers that do not fit, names that
  coincide, and maps that are visited in another order.
\<close>

section \<open>Numbers\<close>

lemma splitOn_join:
  assumes "xs \<noteq> []" and "\<And>x. x \<in> set xs \<Longrightarrow> c \<notin> set x"
  shows "splitOn c (join_sep c xs) = xs"
  using assms
proof (induction c xs rule: join_sep.induct)
  case (3 c x y ys)
  then show ?case by (simp add: splitOn_sep)
qed (simp_all add: splitOn_absent)

lemma comma_not_digit: "CHR '','' \<notin> set (Itoa i)"
proof -
  have "CHR '','' \<notin> set ds" if "list_all is_digit ds" for ds
    using that by (auto simp: list_all_iff is_digit_def)
  with nat_digits_digits show ?thesis by (simp add: Itoa_def)
qed

lemma ports_filter_loop_Itoa:
  "\<forall>n \<in> set ns. in_int64 n \<Longrightarrow> ports_filter_loop acc (map Itoa ns) = Some (acc @ map int32 ns)"
  by (induction ns arbitrary: acc) (simp_all add: Atoi_Itoa)

lemma int32_eq: "int32 n = (n + 2 ^ 31) mod 2 ^ 32 - 2 ^ 31"
  by (simp add: int32_def int_word_sint)

lemma int32_id: "int32 n = n \<longleftrightarrow> - (2 ^ 31) \<le> n \<and> n < 2 ^ 31"
proof
  assume "int32 n = n"
  then have "(n + 2 ^ 31) mod 2 ^ 32 = n + 2 ^ 31" unfolding int32_eq by simp
  then have "0 \<le> n + 2 ^ 31 \<and> n + 2 ^ 31 < 2 ^ 32"
    by (metis pos_mod_bound pos_mod_sign zero_less_numeral zero_less_power)
  then show "- (2 ^ 31) \<le> n \<and> n < 2 ^ 31" by simp
qed (simp add: int32_eq)

text \<open>The filter of ports for the proxy protocol is read back as it was written, number by number,
  but each is cut to 32 bits without a check: a number comes back as itself exactly when it fits, and
  one that does not becomes the port that its low bits spell, which may well be one of the Service.\<close>

theorem ports_filter_roundtrip:
  assumes "ns \<noteq> []" and "\<forall>n \<in> set ns. in_int64 n"
  shows "getTCPProxyProtocolPortsFilter (join_sep (CHR '','') (map Itoa ns)) = Some (map int32 ns) \<and>
    (map int32 ns = ns \<longleftrightarrow> (\<forall>n \<in> set ns. - (2 ^ 31) \<le> n \<and> n < 2 ^ 31)) \<and> int32 (n + 2 ^ 32) = int32 n"
proof -
  have "splitOn (CHR '','') (join_sep (CHR '','') (map Itoa ns)) = map Itoa ns"
    using assms(1) by (intro splitOn_join) (auto simp: comma_not_digit)
  moreover have "join_sep (CHR '','') (map Itoa ns) \<noteq> []"
    using assms(1) by (cases "(CHR '','', map Itoa ns)" rule: join_sep.cases) auto
  moreover have "map int32 ns = ns \<longleftrightarrow> (\<forall>n \<in> set ns. int32 n = n)"
    by (induction ns) auto
  moreover have "int32 (n + 2 ^ 32) = int32 n"
  proof -
    have "n + 2 ^ 32 + 2 ^ 31 = n + 2 ^ 31 + 2 ^ 32" by simp
    then show ?thesis unfolding int32_eq by (simp only: mod_add_self2)
  qed
  ultimately show ?thesis
    using ports_filter_loop_Itoa [OF assms(2), of "[]"] by (simp add: getTCPProxyProtocolPortsFilter_def int32_id)
qed

text \<open>Port 80 and 65536 * 65536 + 443.\<close>

lemma ports_filter_roundtrip_witness:
  "getTCPProxyProtocolPortsFilter (join_sep (CHR '','') (map Itoa [80, 443 + 2 ^ 32])) = Some [80, 443]"
proof -
  have "\<forall>n \<in> set [80, 443 + 2 ^ 32]. in_int64 n" by (simp add: in_int64_def)
  from ports_filter_roundtrip [OF _ this, of 443] show ?thesis by (simp add: int32_id)
qed

section \<open>Names\<close>

text \<open>The namespace of one Service continues into the name of the other.\<close>

definition overlaps :: "namespaced_name \<Rightarrow> namespaced_name \<Rightarrow> bool" where
  "overlaps a b = (\<exists>x. nn_Namespace b = nn_Namespace a @ ''--'' @ x \<and> nn_Name a = x @ ''--'' @ nn_Name b)"

lemma joined_eq:
  assumes "a @ ''--'' @ n = b @ ''--'' @ m" and "length a \<le> length b" and "b = [] \<or> last b \<noteq> CHR ''-''"
  shows "a = b \<and> n = m \<or> (\<exists>x. b = a @ ''--'' @ x \<and> n = x @ ''--'' @ m)"
proof -
  obtain d where b: "b = a @ d"
    using assms(1,2) by (metis append_eq_append_conv_if append_take_drop_id)
  with assms(1) have d: "''--'' @ n = d @ ''--'' @ m" by simp
  show ?thesis
  proof (cases d)
    case Nil
    with d b show ?thesis by simp
  next
    case (Cons c d')
    with d have c: "c = CHR ''-''" "CHR ''-'' # n = d' @ ''--'' @ m" by auto
    show ?thesis
    proof (cases d')
      case Nil
      with b Cons c assms(3) show ?thesis by simp
    next
      case (Cons c' d'')
      with c b \<open>d = c # d'\<close> show ?thesis by auto
    qed
  qed
qed

text \<open>Two Services have the same LoadBalancer exactly when they are the same or the namespace of one
  continues, after a double hyphen, into the name of the other: \<open>a--b/c\<close> and \<open>a/b--c\<close> are both named
  \<open>a--b--c\<close>. This is for namespaces that do not end with a hyphen, as those of Kubernetes do not.\<close>

theorem services_share_loadbalancer_iff:
  assumes "\<And>svc. svc \<in> {svc1, svc2} \<Longrightarrow> meta_Namespace svc = [] \<or> last (meta_Namespace svc) \<noteq> CHR ''-''"
  shows "GetLoadBalancerNameFromService svc1 = GetLoadBalancerNameFromService svc2 \<longleftrightarrow>
    key_of svc1 = key_of svc2 \<or> overlaps (key_of svc1) (key_of svc2) \<or> overlaps (key_of svc2) (key_of svc1)"
proof
  assume eq: "GetLoadBalancerNameFromService svc1 = GetLoadBalancerNameFromService svc2"
  show "key_of svc1 = key_of svc2 \<or> overlaps (key_of svc1) (key_of svc2) \<or> overlaps (key_of svc2) (key_of svc1)"
  proof (cases "length (meta_Namespace svc1) \<le> length (meta_Namespace svc2)")
    case True
    with joined_eq [OF eq [unfolded GetLoadBalancerNameFromService_def]] assms [of svc2] show ?thesis
      by (auto simp: overlaps_def key_of_def)
  next
    case False
    with joined_eq [OF eq [symmetric, unfolded GetLoadBalancerNameFromService_def]] assms [of svc1] show ?thesis
      by (auto simp: overlaps_def key_of_def)
  qed
qed (auto simp: GetLoadBalancerNameFromService_def overlaps_def key_of_def)

lemma services_share_loadbalancer_iff_witness:
  "GetLoadBalancerNameFromService (example_svc\<lparr>meta_Namespace := ''a--b'', meta_Name := ''c''\<rparr>) =
   GetLoadBalancerNameFromService (example_svc\<lparr>meta_Namespace := ''a'', meta_Name := ''b--c''\<rparr>)"
proof -
  let ?svc1 = "example_svc\<lparr>meta_Namespace := ''a--b'', meta_Name := ''c''\<rparr>" and ?svc2 = "example_svc\<lparr>meta_Namespace := ''a'', meta_Name := ''b--c''\<rparr>"
  have ns: "meta_Namespace svc = [] \<or> last (meta_Namespace svc) \<noteq> CHR ''-''" if "svc \<in> {?svc1, ?svc2}" for svc
    using that by auto
  have "overlaps (key_of ?svc2) (key_of ?svc1)" by (simp add: overlaps_def key_of_def)
  with services_share_loadbalancer_iff [of ?svc1 ?svc2] ns show ?thesis by blast
qed

text \<open>A LoadBalancer that belongs to another Service is taken over: a reconcile that finds under its name a
  LoadBalancer whose annotation names another Service only overwrites the annotation with its own key and
  comes back a second later, when it will synchronise the spec with its own Service. Two Services with
  the same name for their LoadBalancer so take it from each other without end.\<close>

theorem foreign_loadbalancer_taken_over:
  assumes "t_GetService (sc_clusters sc) req (world s) = (Ok svc, w)" and "CheckLoadBalancerClasses svc (sc_ClassNames sc)"
    and "svc_Type svc = ''LoadBalancer'' \<and> \<not> is_deleting svc \<and> ContainsFinalizer (meta_Finalizers svc) ServiceFinalizer_svc \<and>
      ValidateService svc = None"
    and "id_Namespace (sc_InfrastructureDefaults sc) = Some ns"
    and "c_GetLB (sc_clusters sc) \<lparr>nn_Namespace = ns, nn_Name = nn_Namespace req @ ''--'' @ nn_Name req\<rparr> w = (Ok lb, w')"
    and "at_key (meta_Annotations lb) ServiceAnnotation \<noteq> nn_String (key_of svc)"
    and "ServiceReconcile sc req s = (r, t)"
  shows "\<exists>ok. trace t = trace s @ [(TGetService req, True),
      (KGetLB \<lparr>nn_Namespace = ns, nn_Name = nn_Namespace req @ ''--'' @ nn_Name req\<rparr>, True),
      (KPatchAnnotation (key_of lb) ServiceAnnotation (nn_String (key_of svc)), ok)] \<and> (ok \<longrightarrow> r = Ok (1 * Second))"
proof -
  have owner: "meta_Namespace svc @ CHR ''/'' # meta_Name svc = nn_String (key_of svc)" by (simp add: nn_String_def key_of_def)
  show ?thesis
    by (rule runsD [where m = "ServiceReconcile sc req", OF _ assms(7)])
      (use assms(1-6) in \<open>auto simp: ServiceReconcile_def reconcileService_def AddServiceFinalizer_def Let_def runs_simps caseR_def owner
        split: prod.split result.split\<close>)
qed

section \<open>Orders\<close>

lemma network_list_inject: "network_list xs = network_list ys \<longleftrightarrow> xs = ys"
proof -
  have "inj (\<lambda>i. \<lparr>an_NetworkID = i\<rparr>)" by (auto simp: inj_def)
  then show ?thesis by (auto simp: network_list_def inj_map_eq_map)
qed

text \<open>The additional networks are kept in a map and listed in the order in which the map happens to be
  visited: when nothing has changed since the infrastructure was last written, a reconcile writes it
  again exactly when it visits the networks in another order than that time. A Service with two
  additional networks has its LoadBalancer patched again and again, and since the machines are made
  from the infrastructure, replaced.\<close>

theorem network_order_is_a_change:
  assumes "getDefaultNetwork svc cfg = Ok nw" and "additional_network_ids svc cfg = Ok m"
    and "infrastructure_of svc cfg nw (network_list ids) = Ok (spec_Infrastructure (lb_Spec lb))"
    and "c_visit cl m (world s) = (ids', w)" and "id_InternalLB cfg = None"
    and "reconcileInfrastructure cl lb svc cfg s = (r, t)"
  shows "\<exists>new infra. trace t = trace s @ new \<and> infrastructure_of svc cfg nw (network_list ids') = Ok infra \<and>
    (if ids' = ids then r = Ok lb \<and> new = []
     else new \<noteq> [] \<and> fst (hd new) = KPatchSpec (key_of lb) (SpecInfrastructure infra) \<and>
       infra = (spec_Infrastructure (lb_Spec lb))\<lparr>infra_AdditionalNetworks := network_list ids'\<rparr>)"
proof -
  define infra where "infra = (spec_Infrastructure (lb_Spec lb))\<lparr>infra_AdditionalNetworks := network_list ids'\<rparr>"
  have infra: "infrastructure_of svc cfg nw (network_list ids') = Ok infra"
    using assms(3) by (cases "spec_Infrastructure (lb_Spec lb)") (auto simp: infrastructure_of_def at_ptr_def infra_def split: option.splits)
  have old: "infra_AdditionalNetworks (spec_Infrastructure (lb_Spec lb)) = network_list ids"
      "infra_NetworkID (spec_Infrastructure (lb_Spec lb)) = []" "infra_FloatingNetID (spec_Infrastructure (lb_Spec lb)) = None"
    using assms(3) by (cases "spec_Infrastructure (lb_Spec lb)"; auto simp: infrastructure_of_def at_ptr_def split: option.splits)+
  have same: "infra = spec_Infrastructure (lb_Spec lb) \<longleftrightarrow> ids' = ids"
    using old(1) network_list_inject [of ids' ids] by (cases "spec_Infrastructure (lb_Spec lb)") (auto simp: infra_def)
  have proj: "infra_ProjectID infra = infra_ProjectID (spec_Infrastructure (lb_Spec lb))" by (simp add: infra_def)
  define later where "later lb = bindM (patchIf cl (infra_NetworkID (spec_Infrastructure (lb_Spec lb)) \<noteq> []) SpecNetworkIDEmpty lb) (\<lambda>lb.
        patchIf cl (infra_FloatingNetID (spec_Infrastructure (lb_Spec lb)) \<noteq> None) SpecFloatingNetIDNull lb)" for lb
  have calm: "emits calm (later lb)" for lb
    unfolding later_def patchIf_def by (intro emits_intros) simp_all
  have bind_ret: "bindM (ret x) k = k x" for x and k :: "'c \<Rightarrow> ('a, 'd) cop"
    by (simp add: bindM_def catchM_def ret_def fun_eq_iff)
  have rec: "reconcileInfrastructure cl lb svc cfg = newInfrastructure cl svc cfg (\<lambda>newInfra.
      if infra_ProjectID newInfra \<noteq> infra_ProjectID (spec_Infrastructure (lb_Spec lb)) then ServiceError ErrProjectIsImmutable svc
      else bindM (patchIf cl (newInfra \<noteq> spec_Infrastructure (lb_Spec lb)) (SpecInfrastructure newInfra) lb) later)"
    unfolding reconcileInfrastructure_def assms(5) option.case later_def [abs_def] bind_ret ..
  have "runs (reconcileInfrastructure cl lb svc cfg) s (\<lambda>r t. \<exists>new. trace t = trace s @ new \<and>
    (if ids' = ids then r = Ok lb \<and> new = []
     else new \<noteq> [] \<and> fst (hd new) = KPatchSpec (key_of lb) (SpecInfrastructure infra)))"
  proof (cases "ids' = ids")
    case True
    then show ?thesis
      using same infra by (simp add: reconcileInfrastructure_def newInfrastructure_def getAdditionalNetworks_def assms(1,2,4,5) proj
          patchIf_def runs_simps old(2,3))
  next
    case False
    then have differ: "infra \<noteq> spec_Infrastructure (lb_Spec lb)" using same by simp
    obtain r w' where patch: "c_PatchSpec cl (key_of lb) (SpecInfrastructure infra) w = (r, w')"
      by (cases "c_PatchSpec cl (key_of lb) (SpecInfrastructure infra) w")
    have "runs (later lb') (s\<lparr>world := w', trace := trace s @ [(KPatchSpec (key_of lb) (SpecInfrastructure infra), True)]\<rparr>)
        (\<lambda>r t. \<exists>new. trace t = trace s @ new \<and> new \<noteq> [] \<and> fst (hd new) = KPatchSpec (key_of lb) (SpecInfrastructure infra))" for lb'
      by (rule runs_weaken [OF emits_runs [OF calm]]) (auto simp: extends_def)
    with False differ infra show ?thesis
      by (cases r) (simp_all add: rec newInfrastructure_def getAdditionalNetworks_def assms(1,2,4) proj
          patchIf_def runs_simps patch)
  qed
  from runsD [OF this assms(6)] infra show ?thesis by (auto simp: infra_def)
qed

section \<open>Examples\<close>

text \<open>A controller that finds the LoadBalancer of another Service under the name of its own.\<close>

lemma foreign_loadbalancer_taken_over_witness:
  "\<exists>r t ok. ServiceReconcile (example_sc [[]]) (key_of example_svc)
       (example_world_of example_svc [example_created\<lparr>meta_Annotations := [ServiceAnnotation \<mapsto> ''shop--web/x'']\<rparr>]) = (r, t) \<and>
     last (trace t) = (KPatchAnnotation (key_of example_created) ServiceAnnotation ''shop/web'', ok)"
proof -
  let ?lb = "example_created\<lparr>meta_Annotations := [ServiceAnnotation \<mapsto> ''shop--web/x'']\<rparr>"
  let ?s = "example_world_of example_svc [?lb]"
  obtain r t where run: "ServiceReconcile (example_sc [[]]) (key_of example_svc) ?s = (r, t)"
    by (cases "ServiceReconcile (example_sc [[]]) (key_of example_svc) ?s")
  have key: "key_of example_svc = \<lparr>nn_Namespace = ''shop'', nn_Name = ''web''\<rparr>" by (simp add: example_svc_def key_of_def)
  have get: "t_GetService (sc_clusters (example_sc [[]])) (key_of example_svc) (world ?s) = (Ok example_svc, world ?s)"
    by (simp add: example_sc_def mem_clusters_def cm_service_def example_world_of_def answer_def)
  have classed: "CheckLoadBalancerClasses example_svc (sc_ClassNames (example_sc [[]]))"
    by (simp add: CheckLoadBalancerClasses_def getLoadBalancerClass_def example_sc_def example_svc_def at_key_def)
  have valid: "svc_Type example_svc = ''LoadBalancer'' \<and> \<not> is_deleting example_svc \<and>
      ContainsFinalizer (meta_Finalizers example_svc) ServiceFinalizer_svc \<and> ValidateService example_svc = None"
    by (simp add: example_svc_def is_deleting_def ContainsFinalizer_def ValidateService_def)
  have ns: "id_Namespace (sc_InfrastructureDefaults (example_sc [[]])) = Some ''lbs''"
    by (simp add: example_sc_def example_defaults_def)
  have lb: "c_GetLB (sc_clusters (example_sc [[]]))
      \<lparr>nn_Namespace = ''lbs'', nn_Name = nn_Namespace (key_of example_svc) @ ''--'' @ nn_Name (key_of example_svc)\<rparr> (world ?s) = (Ok ?lb, world ?s)"
    by (simp add: key) (simp add: example_sc_def mem_clusters_def cm_lb_def example_world_of_def answer_def example_created_def new_load_balancer_def
        key_of_def)
  have other: "at_key (meta_Annotations ?lb) ServiceAnnotation \<noteq> nn_String (key_of example_svc)"
    by (simp add: at_key_def key nn_String_def)
  have "key_of ?lb = key_of example_created" by (simp add: key_of_def)
  with foreign_loadbalancer_taken_over [OF get classed valid ns lb other run] run show ?thesis
    by (auto simp: key nn_String_def)
qed

text \<open>Two networks, visited in one order when they were written and in the other one now.\<close>

definition example_networks :: service where
  "example_networks = example_svc\<lparr>meta_Annotations := [ServiceAdditionalNetworks \<mapsto> ''a,b'']\<rparr>"

lemma network_order_is_a_change_witness:
  "\<exists>lb r t new infra. reconcileInfrastructure mem_clusters lb example_networks (example_defaults\<lparr>id_InternalLB := None\<rparr>)
       \<lparr>world = example_cmem\<lparr>cm_keys := [''b'', ''a'']\<rparr>, trace = []\<rparr> = (r, t) \<and> trace t = new \<and>
     infra_AdditionalNetworks (spec_Infrastructure (lb_Spec lb)) = network_list [''a'', ''b''] \<and>
     fst (hd new) = KPatchSpec (key_of lb) (SpecInfrastructure infra) \<and> infra_AdditionalNetworks infra = network_list [''b'', ''a'']"
proof -
  let ?cfg = "example_defaults\<lparr>id_InternalLB := None\<rparr>" and ?s = "\<lparr>world = example_cmem\<lparr>cm_keys := [''b'', ''a'']\<rparr>, trace = []\<rparr> :: (cmem, ccall) st"
  let ?nw = "\<lparr>dn_FloatingNetID = None, dn_NetworkID = ''net'', dn_SubnetID = None\<rparr>"
  have nw: "getDefaultNetwork example_networks ?cfg = Ok ?nw"
    by (simp add: getDefaultNetwork_def at_ptr_def example_defaults_def example_networks_def ServiceFloatingNetworkID_def
        ServiceAdditionalNetworks_def ServiceDefaultNetworkID_def ServiceDefaultSubnetID_def)
  have ids: "additional_network_ids example_networks ?cfg = Ok [''a'' \<mapsto> [], ''b'' \<mapsto> []]"
    by (simp add: additional_network_ids_def annotated_networks_def example_networks_def ServiceAdditionalNetworks_def
        ServiceDefaultNetworkID_def)
  obtain infra where infra: "infrastructure_of example_networks ?cfg ?nw (network_list [''a'', ''b'']) = Ok infra"
    by (simp add: infrastructure_of_def at_ptr_def example_defaults_def)
  define lb where "lb = zero_lb\<lparr>lb_Spec := zero_lb_spec\<lparr>spec_Infrastructure := infra\<rparr>\<rparr>"
  have lb: "infrastructure_of example_networks ?cfg ?nw (network_list [''a'', ''b'']) = Ok (spec_Infrastructure (lb_Spec lb))"
    using infra by (simp add: lb_def)
  have vis: "c_visit mem_clusters [''a'' \<mapsto> [], ''b'' \<mapsto> []] (world ?s) = ([''b'', ''a''], (world ?s)\<lparr>cm_keys := [''a'', ''b'']\<rparr>)"
    by (simp add: mem_clusters_def)
  have internal: "id_InternalLB ?cfg = None" by simp
  obtain r t where run: "reconcileInfrastructure mem_clusters lb example_networks ?cfg ?s = (r, t)"
    by (cases "reconcileInfrastructure mem_clusters lb example_networks ?cfg ?s")
  have old: "infra_AdditionalNetworks (spec_Infrastructure (lb_Spec lb)) = network_list [''a'', ''b'']"
    using lb by (cases "spec_Infrastructure (lb_Spec lb)") (auto simp: infrastructure_of_def at_ptr_def split: option.splits)
  from network_order_is_a_change [OF nw ids lb vis internal run] obtain new infra' where new: "trace t = new"
      "fst (hd new) = KPatchSpec (key_of lb) (SpecInfrastructure infra')"
      "infra' = (spec_Infrastructure (lb_Spec lb))\<lparr>infra_AdditionalNetworks := network_list [''b'', ''a'']\<rparr>"
    by auto
  then have "infra_AdditionalNetworks infra' = network_list [''b'', ''a'']" by simp
  with run old new(1,2) show ?thesis by blast
qed

end
