(* ===== verification/UserData.thy ===== *)
theory UserData
  imports HelperLB
begin

text \<open>
  The user data of a machine, the second half of \<open>internal/helper/loadbalancermachine.go\<close>: the
  cloud-config with the configuration of chrony, keepalived and promtail, the health check script, the
  kubeconfig and the arguments of the yawollet. YAML encoding of labels is a parameter, a function of the map; the
  templates are written out line by line, tabs included.
\<close>

section \<open>Texts\<close>

definition newline :: char where "newline = CHR 0x0A"

definition text_of :: "string list \<Rightarrow> string" where
  "text_of = join_sep newline"

definition tabs :: "nat \<Rightarrow> string \<Rightarrow> string" where
  "tabs n s = replicate n (CHR 0x09) @ s"

text \<open>\<open>base64.StdEncoding.EncodeToString\<close>\<close>

definition base64_alphabet :: string where
  "base64_alphabet = ''ABCDEFGHIJKLMNOPQRSTUVWXYZabcdefghijklmnopqrstuvwxyz0123456789+/''"

fun base64_chars :: "bool list \<Rightarrow> string" where
  "base64_chars [] = []"
| "base64_chars (b # bs) =
     (let group = take 6 (b # bs) in
      base64_alphabet ! bits_value (group @ replicate (6 - length group) False) #
      base64_chars (drop 6 (b # bs)))"

definition base64_StdEncoding :: "string \<Rightarrow> string" where
  "base64_StdEncoding s =
     (let cs = base64_chars (concat (map (\<lambda>c. byte_bits (of_char c)) s))
      in cs @ replicate ((4 - length cs mod 4) mod 4) CHR ''='')"

section \<open>Constants\<close>

definition YawolLibDir :: string where "YawolLibDir = ''/var/lib/yawol/''"
definition YawolletHealthCheckScript :: string where
  "YawolletHealthCheckScript = YawolLibDir @ ''check_yawollet_health.sh''"
definition VRRPInstanceName :: string where "VRRPInstanceName = ''ENVOY''"

section \<open>chrony\<close>

text \<open>The template \<open>chrony.conf.tpl\<close>, whose markers trim the white space around the loops.\<close>

definition chrony_template :: "string list \<Rightarrow> string list \<Rightarrow> string" where
  "chrony_template pools servers =
     concat (map (\<lambda>p. text_of [''pool '' @ p @ '' iburst'', []]) pools) @
     concat (map (\<lambda>s. text_of [''server '' @ s @ '' iburst'', []]) servers) @
     text_of [
      ''# Settings from alpine default chrony config'',
      ''driftfile /var/lib/chrony/chrony.drift'',
      ''rtcsync'',
      ''# prevent chrony from opening ports on the LoadBalancer machine'',
      ''cmdport 0'',
      [],
      ''# Settings from cloud-init generated chrony config'',
      ''# Stop bad estimates upsetting machine clock.'',
      ''maxupdateskew 100.0'',
      ''# Step the system clock instead of slewing it if the adjustment is larger than'',
      ''# one second, but only in the first three clock updates.'',
      ''makestep 1 3'',
      []]"

definition generateChronyConfig :: "string list \<Rightarrow> string list \<Rightarrow> string" where
  "generateChronyConfig pools servers =
     (let pools = (if pools = [] \<and> servers = [] then [''pool.ntp.org''] else pools)
      in chrony_template pools servers)"

section \<open>keepalived\<close>

definition generateKeepalivedConfig :: "string \<Rightarrow> string" where
  "generateKeepalivedConfig vip = text_of [
      ''! Configuration File for keepalived'',
      [],
      ''global_defs {'',
      tabs 1 ''router_id envoy'',
      tabs 1 ''max_auto_priority -1'',
      tabs 1 ''vrrp_garp_master_repeat 5'',
      tabs 1 ''vrrp_garp_interval 1'',
      tabs 1 ''vrrp_garp_lower_prio_repeat 1'',
      tabs 1 ''vrrp_garp_master_refresh 300'',
      tabs 1 ''vrrp_garp_master_refresh_repeat 1'',
      tabs 1 ''vrrp_higher_prio_send_advert true'',
      [],
      tabs 1 (''# Don'' @ [CHR 0x27] @ ''t run scripts configured to be run as root if any part of the path''),
      tabs 1 ''# is writable by a non-root user.'',
      tabs 1 ''enable_script_security'',
      tabs 1 ''# Specify the default username/groupname to run scripts under.'',
      tabs 1 ''# If this option is not specified, the user defaults to keepalived_script'',
      tabs 1 ''# if that user exists, otherwise the uid/gid under which keepalived is running.'',
      tabs 1 (''# If groupname is not specified, it defaults to the user'' @ [CHR 0x27] @ ''s group.''),
      tabs 1 ''# script_user username [groupname] # leave empty for using default keepalived_script user'',
      ''}'',
      [],
      ''vrrp_track_process envoy {'',
      tabs 1 ''process envoy'',
      tabs 1 ''weight 100'',
      ''}'',
      [],
      ''# check the yawollet'' @ [CHR 0x27] @ ''s readyz endpoint'',
      ''vrrp_script yawollethealth {'',
      tabs 1 (''script '' @ [CHR 0x22] @ YawolletHealthCheckScript @ [CHR 0x22]),
      tabs 1 ''interval 2'',
      tabs 1 ''timeout 10'',
      tabs 1 ''# assume script initially is in failed state'',
      tabs 1 ''init_fail'',
      tabs 1 ''rise 1'',
      tabs 1 ''fall 3'',
      tabs 1 ''weight 10'',
      ''}'',
      [],
      ''vrrp_instance '' @ VRRPInstanceName @ '' {'',
      tabs 1 ''state BACKUP'',
      tabs 1 ''interface eth0'',
      tabs 1 ''virtual_router_id 100'',
      tabs 1 ''priority 50'',
      tabs 1 ''advert_int 4'',
      [],
      tabs 1 ''authentication {'',
      tabs 2 ''auth_type PASS'',
      tabs 2 ''auth_pass yawol'',
      tabs 1 ''}'',
      [],
      tabs 1 ''virtual_ipaddress {'',
      tabs 2 vip,
      tabs 1 ''}'',
      [],
      tabs 1 ''track_process {'',
      tabs 2 ''envoy'',
      tabs 1 ''}'',
      [],
      tabs 1 ''track_script {'',
      tabs 2 ''yawollethealth'',
      tabs 1 ''}'',
      ''}'']"

definition generateYawolletHealthCheckScript :: "string \<Rightarrow> string" where
  "generateYawolletHealthCheckScript probeAddress = text_of [
      ''#!/usr/bin/env sh'',
      ''set -o errexit'',
      ''set -o pipefail'',
      ''set -o nounset'',
      [],
      ''# call the yawollet readyz endpoint'',
      ''# This will return exit code 0 if all readyz check are successful, exit code 1 otherwise'',
      ''code=$(wget --quiet --server-response --timeout=2 -O /dev/null http://'' @ probeAddress @ ''/readyz 2>&1 | awk '' @ [CHR 0x27] @ ''NR==1{print $2}'' @ [CHR 0x27] @ '')'',
      ''if [[ '' @ [CHR 0x22] @ ''$code'' @ [CHR 0x22] @ '' -eq 200 ]] ; then'',
      ''  exit 0'',
      ''else'',
      ''  exit 1'',
      ''fi'',
      []]"

section \<open>promtail\<close>

definition addRootIndent :: "string \<Rightarrow> nat \<Rightarrow> string" where
  "addRootIndent b n =
     (let prefix = replicate n CHR '' '' in
      prefix @ concat (map (\<lambda>c. if c = newline then newline # prefix else [c]) b))"

definition promtail_labels :: "string \<Rightarrow> string \<Rightarrow> labels option \<Rightarrow> labels" where
  "promtail_labels lbName lbmName ls =
     (case ls of None \<Rightarrow> Map.empty | Some m \<Rightarrow> m)(''job'' \<mapsto> ''yawol-logs'', ''lbm'' \<mapsto> lbmName, ''lb'' \<mapsto> lbName,
       ''application'' \<mapsto> ''messages'', ''__path__'' \<mapsto> ''/var/log/messages'')"

definition generatePromtailConfig :: "(labels \<Rightarrow> string result) \<Rightarrow> string \<Rightarrow> string \<Rightarrow> log_forward \<Rightarrow> string result" where
  "generatePromtailConfig yaml lbName lbmName logForward =
     (case yaml (promtail_labels lbName lbmName (lf_Labels logForward)) of
        Err e \<Rightarrow> Err e
      | Crash c \<Rightarrow> Crash c
      | Ok labelBytes \<Rightarrow> Ok (text_of [
      ''server:'',
      ''  disable: true'',
      [],
      ''positions:'',
      ''  filename: /tmp/positions.yaml'',
      [],
      ''clients:'',
      ''  - url: '' @ [CHR 0x27] @ lf_LokiURL logForward @ [CHR 0x27],
      ''    proxy_url: '' @ [CHR 0x27] @ lf_ProxyURL logForward @ [CHR 0x27],
      [],
      ''scrape_configs:'',
      ''  - job_name: messages'',
      ''    static_configs:'',
      ''      - targets:'',
      ''          - localhost'',
      ''        labels:'',
      []] @ addRootIndent labelBytes 10))"

section \<open>The cloud-config\<close>

definition probeAddress :: string where "probeAddress = ''127.0.0.1:8080''"

definition rc_update :: "bool \<Rightarrow> string" where "rc_update b = (if b then ''add'' else ''del'')"
definition rc_state :: "bool \<Rightarrow> string" where "rc_state b = (if b then ''start'' else ''stop'')"

definition yawollet_args :: "string \<Rightarrow> string \<Rightarrow> string \<Rightarrow> string \<Rightarrow> int \<Rightarrow> string" where
  "yawollet_args namespace lbName lbmName vip yawolletRequeueTime =
     ''--namespace='' @ namespace @ '' '' @
     ''--loadbalancer-name='' @ lbName @ '' '' @
     ''--loadbalancer-machine-name='' @ lbmName @ '' '' @
     ''--listen-address='' @ vip @ '' '' @
     ''--health-probe-bind-address='' @ probeAddress @ '' '' @
     ''--kubeconfig /etc/yawol/kubeconfig'' @ '' '' @
     (if yawolletRequeueTime > 0 then ''--requeue-time='' @ Itoa yawolletRequeueTime @ '' '' else [])"

definition cloud_config :: "load_balancer \<Rightarrow> string \<Rightarrow> string \<Rightarrow> string \<Rightarrow> string \<Rightarrow> string \<Rightarrow> string" where
  "cloud_config lb kubeconfig vip promtailConfig chronyConfig yawolletArgs = text_of [
      [],
      ''#cloud-config'',
      ''write_files:'',
      ''- encoding: b64'',
      ''  content: '' @ base64_StdEncoding chronyConfig,
      ''  owner: root:root'',
      ''  path: /etc/chrony/chrony.conf'',
      ''  permissions: '' @ [CHR 0x27] @ ''0644'' @ [CHR 0x27],
      ''- encoding: b64'',
      ''  content: '' @ base64_StdEncoding kubeconfig,
      ''  owner: yawol:yawol'',
      ''  path: /etc/yawol/kubeconfig'',
      ''  permissions: '' @ [CHR 0x27] @ ''0600'' @ [CHR 0x27],
      ''- encoding: b64'',
      ''  content: '' @ base64_StdEncoding (generateKeepalivedConfig vip),
      ''  owner: root:root'',
      ''  path: /etc/keepalived/keepalived.conf'',
      ''  permissions: '' @ [CHR 0x27] @ ''0644'' @ [CHR 0x27],
      ''- encoding: b64'',
      ''  content: '' @ base64_StdEncoding (generateYawolletHealthCheckScript probeAddress),
      ''  owner: root:root'',
      ''  path: '' @ YawolletHealthCheckScript,
      ''  permissions: '' @ [CHR 0x27] @ ''0755'' @ [CHR 0x27],
      ''- encoding: b64'',
      ''  content: '' @ base64_StdEncoding promtailConfig,
      ''  owner: promtail:promtail'',
      ''  path: /etc/promtail/promtail.yaml'',
      ''  permissions: '' @ [CHR 0x27] @ ''0644'' @ [CHR 0x27],
      ''- content: >'',
      ''    YAWOLLET_ARGS='' @ [CHR 0x22] @ yawolletArgs @ [CHR 0x22],
      ''  path: /etc/yawol/env.conf'',
      ''runcmd:'',
      ''  - [ /sbin/rc-service, chronyd, restart ]'',
      ''  - [ /sbin/rc-service, promtail, '' @ rc_state (lf_Enabled (opt_LogForward (spec_Options (lb_Spec lb)))) @ '' ]'',
      ''  - [ /sbin/rc-update, '' @ rc_update (lf_Enabled (opt_LogForward (spec_Options (lb_Spec lb)))) @ '', promtail, default ]'',
      ''  - [ /sbin/rc-service, sshd, '' @ rc_state (dbg_Enabled (spec_DebugSettings (lb_Spec lb))) @ '' ]'',
      ''  - [ /sbin/rc-update, '' @ rc_update (dbg_Enabled (spec_DebugSettings (lb_Spec lb))) @ '', sshd, default ]'',
      ''  - [ /sbin/rc-service, keepalived, restart ]'',
      ''  - [ /sbin/rc-service, envoy, restart ]'',
      ''  - [ /sbin/rc-service, yawollet, restart ]'',
      []]"

definition GenerateUserData ::
    "(labels \<Rightarrow> string result) \<Rightarrow> string \<Rightarrow> load_balancer \<Rightarrow> load_balancer_machine \<Rightarrow> string \<Rightarrow> int \<Rightarrow> string list \<Rightarrow> string list \<Rightarrow>
     string result" where
  "GenerateUserData yaml kubeconfig lb lbm vip yawolletRequeueTime ntpPools ntpServers =
     (let logForward = opt_LogForward (spec_Options (lb_Spec lb)) in
      case (if lf_Enabled logForward then generatePromtailConfig yaml (meta_Name lb) (meta_Name lbm) logForward
            else Ok ''disabled'') of
        Err e \<Rightarrow> Err e
      | Crash c \<Rightarrow> Crash c
      | Ok promtailConfig \<Rightarrow>
          Ok (cloud_config lb kubeconfig vip promtailConfig (generateChronyConfig ntpPools ntpServers)
            (yawollet_args (meta_Namespace lbm) (meta_Name lb) (meta_Name lbm) vip yawolletRequeueTime)))"

end
