(* ===== verification/MachineController.thy ===== *)
theory MachineController
  imports LBController GoRegexp UserData
begin

text \<open>
  The LoadBalancerMachine controller,
  \<open>controllers/yawol-controller/loadbalancermachine/loadbalancermachine_controller.go\<close>, with
  \<open>internal/helper/openstack/server.go\<close> and what it uses of
  \<open>internal/helper/loadbalancermachine.go\<close>: the port and the server of one machine, its access to the
  Kubernetes API, and the deletion of all of it. \<open>gophercloud.WaitFor\<close>, the encoding of the
  kubeconfig and of YAML, and the equality of \<open>time.Time\<close>, which looks at locations as well, are
  parameters. The machine at hand is part of the state; patches replace it by the answer of the server.
\<close>

section \<open>The machine at hand\<close>

record ('w, 'c) mst = "('w, 'c) st" +
  mcur :: load_balancer_machine

type_synonym ('w, 'a) mop = "(('w, call) mst, 'a) gop"

definition getM :: "(load_balancer_machine \<Rightarrow> ('w, 'a) mop) \<Rightarrow> ('w, 'a) mop" where
  "getM f s = f (mcur s) s"

definition putM :: "load_balancer_machine \<Rightarrow> ('w, unit) mop" where
  "putM m s = (Ok (), s\<lparr>mcur := m\<rparr>)"

lemma runs_getM [runs_simps]: "runs (getM f) s R = runs (f (mcur s)) s R"
  by (simp add: runs_def getM_def)

lemma runs_putM [runs_simps]: "runs (putM m) s R = R (Ok ()) (s\<lparr>mcur := m\<rparr>)"
  by (simp add: runs_def putM_def)

lemma emits_getM [emits_intros]: "(\<And>m. emits P (f m)) \<Longrightarrow> emits P (getM f)"
  by (simp add: emits_def runs_simps)

lemma emits_putM [emits_intros]: "emits P (putM m)"
  by (simp add: emits_def runs_simps extends_def)

definition SendErrorM :: "goerr \<Rightarrow> ('w, 'a) mop" where
  "SendErrorM e = getM (\<lambda>m. SendErrorAsEvent e (key_of m))"

definition mcall :: "machine_call \<Rightarrow> ('w, 'a) gop \<Rightarrow> (('w, call, 'z) st_scheme, 'a) gop" where
  "mcall c f = ext (CMachine c) f"

section \<open>Servers (server.go)\<close>

definition ServerStatusError :: string where "ServerStatusError = ''ERROR''"
definition ServerStatusStopped :: string where "ServerStatusStopped = ''STOPPED''"
definition ServerStatusActive :: string where "ServerStatusActive = ''ACTIVE''"
definition ServerStatusDeleted :: string where "ServerStatusDeleted = ''DELETED''"

definition GetServerByName :: "'w server_env \<Rightarrow> string \<Rightarrow> (('w, call, 'z) st_scheme, server option) gop" where
  "GetServerByName sv serverName =
     bindM (mcall (MServerList serverName) (server_List sv serverName)) (\<lambda>serverList.
     ret (List.find (\<lambda>s. srv_Name s = serverName) serverList))"

definition DeleteServer :: "'w server_env \<Rightarrow> string \<Rightarrow> (('w, call, 'z) st_scheme, unit) gop" where
  "DeleteServer sv serverID = mcall (MServerDelete serverID) (server_Delete sv serverID)"

definition GetServerByID :: "'w server_env \<Rightarrow> string \<Rightarrow> (('w, call, 'z) st_scheme, server option) gop" where
  "GetServerByID sv serverID = mcall (MServerGet serverID) (server_Get sv serverID)"

definition CreateServer :: "'w server_env \<Rightarrow> server_create_opts \<Rightarrow> string option \<Rightarrow> (('w, call, 'z) st_scheme, server option) gop" where
  "CreateServer sv opts hintOpts = mcall (MServerCreate opts hintOpts) (server_Create sv opts hintOpts)"

section \<open>Helpers (loadbalancermachine.go)\<close>

definition LoadBalancerMachineOpenstackReconcileIsNeeded :: "int \<Rightarrow> load_balancer_machine \<Rightarrow> bool" where
  "LoadBalancerMachineOpenstackReconcileIsNeeded now lbm =
     (case lbm_LastOpenstackReconcile (lbm_Status lbm) of
        None \<Rightarrow> True
      | Some lastRun \<Rightarrow> if lastRun < now - OpenstackReconcileTime + 2 * Second then True else False)"

definition patchMachine :: "'w machine_kube \<Rightarrow> machine_patch \<Rightarrow> ('w, unit) mop" where
  "patchMachine mk p = getM (\<lambda>m. bindM (mcall (MPatchStatus (key_of m) p) (mk_PatchStatus mk (key_of m) p)) putM)"

definition PatchLBMStatus :: "'w machine_kube \<Rightarrow> lbm_status \<Rightarrow> ('w, unit) mop" where
  "PatchLBMStatus mk st = patchMachine mk (MSetFields st)"

definition RemoveFromLBMStatus :: "'w machine_kube \<Rightarrow> string \<Rightarrow> ('w, unit) mop" where
  "RemoveFromLBMStatus mk key = patchMachine mk (MRemoveKey key)"

definition GetImageID :: "image_ref \<Rightarrow> string result" where
  "GetImageID spec =
     (case ImageID spec of
        Some i \<Rightarrow> Ok i
      | None \<Rightarrow> if ImageName spec \<noteq> None then Ok [] else if ImageSearch spec \<noteq> None then Ok []
          else Err (OtherErr ''imageid not found''))"

definition GetFlavorID :: "flavor_ref \<Rightarrow> string result" where
  "GetFlavorID spec =
     (case FlavorID spec of
        Some i \<Rightarrow> Ok i
      | None \<Rightarrow> if FlavorName spec \<noteq> None then Ok [] else if FlavorSearch spec \<noteq> None then Ok []
          else Err (OtherErr ''flavorid not found''))"

text \<open>\<open>GetRoleRules\<close> of \<open>internal/helper/yawollet.go\<close>\<close>

definition GetRoleRules :: "load_balancer \<Rightarrow> load_balancer_machine \<Rightarrow> policy_rule list" where
  "GetRoleRules lb lbm =
     (let yawol = [''yawol.stackit.cloud''];
          rule = (\<lambda>verbs groups resource names. \<lparr>pr_Verbs = verbs, pr_APIGroups = groups, pr_Resources = [resource], pr_ResourceNames = names\<rparr>)
      in [rule [''create'', ''patch''] [[]] ''events'' [],
          rule [''list'', ''watch''] yawol ''loadbalancers'' [],
          rule [''get''] yawol ''loadbalancers'' [meta_Name lb],
          rule [''list'', ''watch''] yawol ''loadbalancermachines'' [],
          rule [''get'', ''update'', ''patch''] yawol ''loadbalancermachines'' [meta_Name lbm],
          rule [''get'', ''update'', ''patch''] yawol ''loadbalancermachines/status'' [meta_Name lbm]])"

definition AddMachineFinalizer :: "'w machine_kube \<Rightarrow> string \<Rightarrow> ('w, unit) mop" where
  "AddMachineFinalizer mk finalizer = getM (\<lambda>m.
     if ContainsFinalizer (meta_Finalizers m) finalizer then ret ()
     else
       let fs = meta_Finalizers m @ [finalizer]
       in bindM (mcall (MPatchFinalizers (key_of m) fs) (mk_PatchFinalizers mk (key_of m) fs)) putM)"

definition RemoveMachineFinalizer :: "'w machine_kube \<Rightarrow> string \<Rightarrow> ('w, unit) mop" where
  "RemoveMachineFinalizer mk finalizer = getM (\<lambda>m.
     if \<not> ContainsFinalizer (meta_Finalizers m) finalizer then ret ()
     else
       let fs = RemoveFinalizer (meta_Finalizers m) finalizer in
       thenM (putM (m\<lparr>meta_Finalizers := fs\<rparr>))
         (bindM (mcall (MPatchFinalizers (key_of m) fs) (mk_PatchFinalizers mk (key_of m) fs)) putM))"

section \<open>The reconciler\<close>

definition ServiceFinalizer_lbm :: string where "ServiceFinalizer_lbm = ''yawol.stackit.cloud/controller4''"
definition ErrSecretNotFound :: goerr where "ErrSecretNotFound = HelperErr ''secret not found''"
definition ErrTokenNotFoundInSecret :: goerr where "ErrTokenNotFoundInSecret = HelperErr ''token in secret not found''"
definition ErrCANotFoundInSecret :: goerr where "ErrCANotFoundInSecret = HelperErr ''ca in secret not found''"
definition ErrNoNetworkID :: goerr where "ErrNoNetworkID = HelperErr ''cant get networkID for loadbalancer''"
definition ErrFailedToCreatePortForLBM :: goerr where "ErrFailedToCreatePortForLBM = HelperErr ''failed to create port for lbm''"
definition ErrLBMPortNotSet :: goerr where "ErrLBMPortNotSet = HelperErr ''load balancer machine port not set''"
definition ErrLBOrLBMPortsAreNil :: goerr where "ErrLBOrLBMPortsAreNil = HelperErr ''lb or lbm ports are nil''"
definition ErrNoFixedIPForLBPort :: goerr where "ErrNoFixedIPForLBPort = HelperErr ''no fixed ip for loadbalancer port''"
definition ErrPortNameEmpty :: goerr where "ErrPortNameEmpty = HelperErr ''port name is empty''"
definition ErrUnexpectedOpenstackStatus :: goerr where "ErrUnexpectedOpenstackStatus = HelperErr ''unexpected openstack status''"

record kube_config =
  kc_Server :: string
  kc_CertificateAuthorityData :: string
  kc_Token :: string
  kc_Namespace :: string

record 'w machine_reconciler =
  mr_Client :: "'w kube"
  mr_Objects :: "'w machine_kube"
  mr_getOsClientForIni :: "string \<Rightarrow> string option \<Rightarrow> ('w, 'w os_env \<times> 'w server_env) gop"
  mr_APIEndpoint :: string
  mr_YawolletRequeueTime :: int
  mr_NTPPools :: "string list"
  mr_NTPServers :: "string list"
  mr_WaitFor :: "int \<Rightarrow> ('w, bool) mop \<Rightarrow> ('w, unit) mop"
  mr_encode :: "kube_config \<Rightarrow> string result"
  mr_yaml :: "labels \<Rightarrow> string result"
  mr_same_time :: "int \<Rightarrow> int \<Rightarrow> bool"

section \<open>Access to the Kubernetes API\<close>

definition reconcileSA :: "'w machine_kube \<Rightarrow> ('w, service_account) mop" where
  "reconcileSA mk = getM (\<lambda>m.
     catchM (mcall (MGetSA (key_of m)) (mk_GetSA mk (key_of m)))
       (\<lambda>err.
         if IsNotFound err then
           catchM (mcall (MCreateSA (key_of m)) (mk_CreateSA mk (key_of m)))
             (\<lambda>err. fail (Suffixed err '', error creating sa'')) ret
         else fail err)
       (\<lambda>sa.
         let saNamespacedName = nn_String \<lparr>nn_Namespace = sa_Namespace sa, nn_Name = sa_Name sa\<rparr> in
         thenM (whenM (lbm_ServiceAccountName (lbm_Status m) \<noteq> Some saNamespacedName)
             (PatchLBMStatus mk (no_lbm_status\<lparr>lbm_ServiceAccountName := Some saNamespacedName\<rparr>)))
           (ret sa)))"

definition reconcileSecret :: "'w machine_kube \<Rightarrow> service_account \<Rightarrow> ('w, unit) mop" where
  "reconcileSecret mk sa = getM (\<lambda>m.
     if lbm_ServiceAccountSecretName (lbm_Status m) \<noteq> None then ret ()
     else
       case sa_Secrets sa of
         secret # _ \<Rightarrow>
           PatchLBMStatus mk (no_lbm_status\<lparr>lbm_ServiceAccountSecretName :=
             Some (nn_String \<lparr>nn_Namespace = sa_Namespace sa, nn_Name = secret\<rparr>)\<rparr>)
       | [] \<Rightarrow>
           bindM (mcall MGetVersion (mk_GetVersion mk)) (\<lambda>version.
           if IsLower version (Version 1 24) then fail ErrSecretNotFound
           else
             thenM (catchM (mcall (MGetTokenSecret (key_of m)) (mk_GetTokenSecret mk (key_of m)))
                 (\<lambda>err. if IsNotFound err then mcall (MCreateTokenSecret (key_of m) (sa_Name sa)) (mk_CreateTokenSecret mk (key_of m) (sa_Name sa))
                   else fail err)
                 ret)
               (PatchLBMStatus mk (no_lbm_status\<lparr>lbm_ServiceAccountSecretName := Some (nn_String (key_of m))\<rparr>))))"

definition reconcileRole :: "'w machine_kube \<Rightarrow> load_balancer \<Rightarrow> ('w, unit) mop" where
  "reconcileRole mk lb = getM (\<lambda>m.
     thenM (catchM (mcall (MGetRole (key_of m)) (mk_GetRole mk (key_of m)))
         (\<lambda>err. if \<not> IsNotFound err then fail err
           else mcall (MCreateRole (key_of m) (GetRoleRules lb m)) (mk_CreateRole mk (key_of m) (GetRoleRules lb m)))
         ret)
       (whenM (lbm_RoleName (lbm_Status m) \<noteq> Some (nn_String (key_of m)))
         (PatchLBMStatus mk (no_lbm_status\<lparr>lbm_RoleName := Some (nn_String (key_of m))\<rparr>))))"

text \<open>The name of the role is compared here, not the one of the binding.\<close>

definition role_binding_of :: "load_balancer_machine \<Rightarrow> role_binding" where
  "role_binding_of m = \<lparr>rb_Key = key_of m, rb_SubjectKind = ''ServiceAccount'', rb_Subject = key_of m,
     rb_RoleAPIGroup = ''rbac.authorization.k8s.io'', rb_RoleKind = ''Role'', rb_RoleName = meta_Name m\<rparr>"

definition reconcileRoleBinding :: "'w machine_kube \<Rightarrow> ('w, unit) mop" where
  "reconcileRoleBinding mk = getM (\<lambda>m.
     thenM (catchM (mcall (MGetRoleBinding (key_of m)) (mk_GetRoleBinding mk (key_of m)))
         (\<lambda>err. if \<not> IsNotFound err then fail err
           else mcall (MCreateRoleBinding (role_binding_of m)) (mk_CreateRoleBinding mk (role_binding_of m)))
         ret)
       (whenM (lbm_RoleName (lbm_Status m) \<noteq> Some (nn_String (key_of m)))
         (PatchLBMStatus mk (no_lbm_status\<lparr>lbm_RoleBindingName := Some (nn_String (key_of m))\<rparr>))))"

definition getKubeConfigForServiceAccount :: "'w machine_reconciler \<Rightarrow> string option \<Rightarrow> ('w, string) mop" where
  "getKubeConfigForServiceAccount mr namespacedName =
     (case namespacedName of
        None \<Rightarrow> fail (Suffixed ErrSecretNotFound '' NamespacedName is nil'')
      | Some name \<Rightarrow>
          bindM (liftR (ToNamespacedName name)) (\<lambda>nn.
          catchM (ext (CGetSecret nn) (k_GetSecret (mr_Client mr) nn))
            (\<lambda>err. fail (Suffixed ErrSecretNotFound ('' could not get '' @ nn_String nn)))
            (\<lambda>data.
              case data ''token'' of
                None \<Rightarrow> fail (Suffixed ErrTokenNotFoundInSecret ('': '' @ nn_Name nn))
              | Some token \<Rightarrow>
                  (case data ''ca.crt'' of
                     None \<Rightarrow> fail (Suffixed ErrCANotFoundInSecret ('': '' @ nn_Name nn))
                   | Some ca \<Rightarrow>
                       liftR (mr_encode mr \<lparr>kc_Server = mr_APIEndpoint mr, kc_CertificateAuthorityData = ca, kc_Token = token,
                         kc_Namespace = nn_Namespace nn\<rparr>)))))"

section \<open>The port of the machine\<close>

definition SendErrorLBM :: "load_balancer \<Rightarrow> goerr \<Rightarrow> ('w, 'a) mop" where
  "SendErrorLBM lb e = SendErrorAsEvent e (key_of lb)"

text \<open>The deprecated field of the network is used unless the default network is set.\<close>

definition networkID_of :: "infrastructure \<Rightarrow> string" where
  "networkID_of infra =
     (let networkID = (if infra_NetworkID infra \<noteq> [] then infra_NetworkID infra else [])
      in if dn_NetworkID (infra_DefaultNetwork infra) \<noteq> [] then dn_NetworkID (infra_DefaultNetwork infra) else networkID)"

definition migratePortID :: "'w machine_kube \<Rightarrow> ('w, unit) mop" where
  "migratePortID mk =
     thenM (getM (\<lambda>m. let st = lbm_Status m in
        whenM (lbm_PortID st \<noteq> None \<and> lbm_DefaultPortID st = None)
          (PatchLBMStatus mk (no_lbm_status\<lparr>lbm_DefaultPortID := lbm_PortID st\<rparr>))))
       (getM (\<lambda>m. let st = lbm_Status m in
        whenM (lbm_PortID st \<noteq> None \<and> lbm_DefaultPortID st \<noteq> None \<and> lbm_PortID st = lbm_DefaultPortID st)
          (RemoveFromLBMStatus mk ''portID'')))"

text \<open>Finding the port by its name or creating it, when its id is not recorded.\<close>

definition findOrCreatePort :: "'w os_env \<Rightarrow> string \<Rightarrow> string \<Rightarrow> string \<Rightarrow> ('w, port option) mop" where
  "findOrCreatePort os portName networkID subnetID =
     bindM (GetPortByName os portName) (\<lambda>port.
     case port of
       Some p \<Rightarrow> ret (Some p)
     | None \<Rightarrow> catchM (CreatePort os portName networkID subnetID) SendErrorM ret)"

definition claimPort :: "'w machine_kube \<Rightarrow> 'w os_env \<Rightarrow> load_balancer \<Rightarrow> string \<Rightarrow> string \<Rightarrow> string \<Rightarrow> ('w, port option) mop" where
  "claimPort mk os lb portName networkID subnetID =
     bindM (findOrCreatePort os portName networkID subnetID) (\<lambda>port.
     deref port (\<lambda>p.
     if port_ID p = [] then fail ErrPortIDEmpty
     else if SecurityGroupID (lb_Status lb) = None then fail ErrSecGroupIDEmpty
     else
       thenM (bindM (BindSecGroupToPortIfNeeded os (SecurityGroupID (lb_Status lb)) p) (\<lambda>_. ret ()))
       (thenM (PatchLBMStatus mk (no_lbm_status\<lparr>lbm_DefaultPortID := Some (port_ID p)\<rparr>)) (ret port))))"

text \<open>Any response of an unexpected code drops the id from the status.\<close>

definition fetchMachinePort :: "'w machine_kube \<Rightarrow> 'w os_env \<Rightarrow> string \<Rightarrow> ('w, port option) mop" where
  "fetchMachinePort mk os portID =
     catchM (GetPortByID os portID)
       (\<lambda>err. if is_unexpected_code err then thenM (RemoveFromLBMStatus mk ''defaultPortID'') (SendErrorM err)
          else SendErrorM err)
       ret"

definition publishMachineIP :: "'w machine_kube \<Rightarrow> port \<Rightarrow> ('w, unit) mop" where
  "publishMachineIP mk p = getM (\<lambda>m.
     case port_FixedIPs p of
       [] \<Rightarrow> ret ()
     | ip # _ \<Rightarrow>
         whenM (lbm_DefaultPortIP (lbm_Status m) \<noteq> Some (pip_IPAddress ip))
           (PatchLBMStatus mk (no_lbm_status\<lparr>lbm_DefaultPortIP := Some (pip_IPAddress ip)\<rparr>)))"

definition reconcilePort_lbm :: "'w machine_kube \<Rightarrow> 'w os_env \<Rightarrow> namespaced_name \<Rightarrow> load_balancer \<Rightarrow> ('w, unit) mop" where
  "reconcilePort_lbm mk os req lb =
     thenM (migratePortID mk)
     (getM (\<lambda>m.
     let infra = mspec_Infrastructure (lbm_Spec m); networkID = networkID_of infra;
         subnetID = (case dn_SubnetID (infra_DefaultNetwork infra) of None \<Rightarrow> [] | Some i \<Rightarrow> i)
     in if networkID = [] then fail ErrNoNetworkID
     else
       thenM (ext CPortClient (os_PortClient os))
       (thenM (getM (\<lambda>m. whenM (lbm_DefaultPortName (lbm_Status m) = None)
           (PatchLBMStatus mk (no_lbm_status\<lparr>lbm_DefaultPortName := Some (nn_String req)\<rparr>))))
       (getM (\<lambda>m.
       case lbm_DefaultPortName (lbm_Status m) of
         None \<Rightarrow> fail ErrPortNameEmpty
       | Some portName \<Rightarrow>
           bindM (if lbm_DefaultPortID (lbm_Status m) = None then claimPort mk os lb portName networkID subnetID
                  else ret None) (\<lambda>port.
           bindM (getM (\<lambda>m. case lbm_DefaultPortID (lbm_Status m) of
                None \<Rightarrow> ret port
              | Some portID \<Rightarrow> fetchMachinePort mk os portID)) (\<lambda>port.
           case port of
             None \<Rightarrow> fail ErrFailedToCreatePortForLBM
           | Some p \<Rightarrow> publishMachineIP mk p)))))))"

section \<open>The address pairs\<close>

text \<open>The last IPv4 address of the LoadBalancer's port is the virtual address; every fixed address
  of it becomes an allowed address pair. They are compared position by position.\<close>

fun vip_of :: "port_ip list \<Rightarrow> string \<Rightarrow> string" where
  "vip_of [] ipv4 = ipv4"
| "vip_of (ips # rest) ipv4 =
     vip_of rest (if matches_at_start ipv4Regex (pip_IPAddress ips) then pip_IPAddress ips else ipv4)"

definition desired_pairs :: "port \<Rightarrow> address_pair list" where
  "desired_pairs portLB = map (\<lambda>ips. \<lparr>ap_IPAddress = pip_IPAddress ips, ap_MACAddress = []\<rparr>) (port_FixedIPs portLB)"

fun pairs_uptodate :: "address_pair list \<Rightarrow> port_ip list \<Rightarrow> bool" where
  "pairs_uptodate (a # as) (ip # ips) = (if ap_IPAddress a \<noteq> pip_IPAddress ip then False else pairs_uptodate as ips)"
| "pairs_uptodate _ _ = True"

definition updatePairs :: "'w os_env \<Rightarrow> port \<Rightarrow> port \<Rightarrow> ('w, string) mop" where
  "updatePairs os plbm plb =
     (if length (port_FixedIPs plb) < 1 then fail ErrNoFixedIPForLBPort
      else
        let ipv4 = vip_of (port_FixedIPs plb) [] in
        if ipv4 = [] then fail ErrNoFixedIPForLBPort
        else if length (port_AllowedAddressPairs plbm) = length (port_FixedIPs plb) \<and>
            pairs_uptodate (port_AllowedAddressPairs plbm) (port_FixedIPs plb) then ret ipv4
        else thenM (SetAllowedAddressPairsInPort os plbm (Some (desired_pairs plb))) (ret ipv4))"

definition reconcilePortAddressPair :: "'w os_env \<Rightarrow> load_balancer \<Rightarrow> ('w, string) mop" where
  "reconcilePortAddressPair os lb =
     thenM (ext CPortClient (os_PortClient os))
     (getM (\<lambda>m.
     case lbm_DefaultPortID (lbm_Status m) of
       None \<Rightarrow> fail ErrLBMPortNotSet
     | Some portID \<Rightarrow>
         bindM (catchM (GetPortByID os portID) SendErrorM ret) (\<lambda>portLBM.
         bindM (catchM (GetPortByID os (mspec_PortID (lbm_Spec m))) (SendErrorLBM lb) ret) (\<lambda>portLB.
         case portLB of
           None \<Rightarrow> fail ErrLBOrLBMPortsAreNil
         | Some plb \<Rightarrow>
             (case portLBM of None \<Rightarrow> fail ErrLBOrLBMPortsAreNil | Some plbm \<Rightarrow> updatePairs os plbm plb)))))"

section \<open>The server\<close>

text \<open>\<open>strings.Join\<close>, and \<open>%q\<close> for texts without characters to escape\<close>

fun Join :: "string list \<Rightarrow> string \<Rightarrow> string" where
  "Join [] sep = []"
| "Join [x] sep = x"
| "Join (x # y # ys) sep = x @ sep @ Join (y # ys) sep"

definition quote :: "string \<Rightarrow> string" where
  "quote s = [CHR 0x22] @ s @ [CHR 0x22]"

text \<open>One poll of \<open>waitForServerStatus\<close>; \<open>gophercloud.WaitFor\<close> repeats it.\<close>

definition pollServerStatus :: "'w server_env \<Rightarrow> string \<Rightarrow> string list \<Rightarrow> string list \<Rightarrow> ('w, bool) mop" where
  "pollServerStatus sv id' pending target =
     catchM (GetServerByID sv id')
       (\<lambda>err. if is_unexpected_code err \<and> ''DELETED'' \<in> set target then ret True else fail err)
       (\<lambda>current. deref current (\<lambda>srv.
         if srv_Status srv \<in> set target then ret True
         else if length pending = 0 \<or> srv_Status srv \<in> set pending then ret False
         else if srv_Status srv = ServerStatusError then
           fail (Suffixed ErrUnexpectedOpenstackStatus ('': server status '' @ srv_Fault srv))
         else
           fail (Suffixed ErrUnexpectedOpenstackStatus
             ('':  '' @ quote (srv_Status srv) @ '', wanted target '' @ quote (Join target '', '')))))"

definition waitForServerStatus :: "'w machine_reconciler \<Rightarrow> 'w server_env \<Rightarrow> string \<Rightarrow> string list \<Rightarrow> string list \<Rightarrow> int \<Rightarrow> ('w, unit) mop" where
  "waitForServerStatus mr sv id' pending target secs =
     mr_WaitFor mr (secs * Second) (pollServerStatus sv id' pending target)"

definition server_opts :: "load_balancer_machine \<Rightarrow> load_balancer \<Rightarrow> string \<Rightarrow> string \<Rightarrow> string \<Rightarrow> string \<Rightarrow> string \<Rightarrow> server_create_opts" where
  "server_opts m lb imageID flavorID networkID portID userdata =
     (let infra = mspec_Infrastructure (lbm_Spec m);
          additional = (case infra_AdditionalNetworks infra of None \<Rightarrow> [] | Some ns \<Rightarrow> ns)
      in \<lparr>sco_Name = meta_Name m, sco_FlavorRef = flavorID, sco_ImageRef = imageID, sco_UserData = userdata,
        sco_AvailabilityZone = infra_AvailabilityZone infra,
        sco_Networks = \<lparr>snw_UUID = networkID, snw_Port = portID\<rparr> #
          map (\<lambda>n. \<lparr>snw_UUID = an_NetworkID n, snw_Port = []\<rparr>) additional,
        sco_KeyName = (if dbg_Enabled (spec_DebugSettings (lb_Spec lb)) then Some (dbg_SshkeyName (spec_DebugSettings (lb_Spec lb)))
          else None)\<rparr>)"

definition createServer :: "'w machine_reconciler \<Rightarrow> 'w server_env \<Rightarrow> load_balancer \<Rightarrow> string \<Rightarrow> ('w, server) mop" where
  "createServer mr sv lb userdata = getM (\<lambda>m.
     let infra = mspec_Infrastructure (lbm_Spec m) in
     bindM (liftR (GetImageID (infra_Image infra))) (\<lambda>imageID.
     bindM (liftR (GetFlavorID (infra_Flavor infra))) (\<lambda>flavorID.
     let networkID = networkID_of infra in
     if networkID = [] then fail ErrNoNetworkID
     else deref (lbm_DefaultPortID (lbm_Status m)) (\<lambda>portID.
       bindM (CreateServer sv (server_opts m lb imageID flavorID networkID portID userdata)
           (if mspec_ServerGroupID (lbm_Spec m) \<noteq> [] then Some (mspec_ServerGroupID (lbm_Spec m)) else None)) (\<lambda>server.
       deref server (\<lambda>srv.
       thenM (waitForServerStatus mr sv (srv_ID srv) [''BUILD''] [''ACTIVE''] 600) (ret srv)))))))"

definition recordServer :: "'w machine_reconciler \<Rightarrow> server \<Rightarrow> ('w, unit) mop" where
  "recordServer mr srv = (let mk = mr_Objects mr in
     thenM (getM (\<lambda>m. whenM (lbm_ServerID (lbm_Status m) \<noteq> Some (srv_ID srv))
         (PatchLBMStatus mk (no_lbm_status\<lparr>lbm_ServerID := Some (srv_ID srv)\<rparr>))))
       (getM (\<lambda>m. whenM (case lbm_CreationTimestamp (lbm_Status m) of None \<Rightarrow> True | Some t \<Rightarrow> \<not> mr_same_time mr (srv_Created srv) t)
         (PatchLBMStatus mk (no_lbm_status\<lparr>lbm_CreationTimestamp := Some (srv_Created srv)\<rparr>)))))"

definition reconcileServer :: "'w machine_reconciler \<Rightarrow> 'w server_env \<Rightarrow> load_balancer \<Rightarrow> string \<Rightarrow> ('w, unit) mop" where
  "reconcileServer mr sv lb vip =
     thenM (mcall MServerClient (os_ServerClient sv))
     (getM (\<lambda>m.
     bindM (getKubeConfigForServiceAccount mr (lbm_ServiceAccountSecretName (lbm_Status m))) (\<lambda>kubeconfig.
     bindM (liftR (GenerateUserData (mr_yaml mr) kubeconfig lb m vip (mr_YawolletRequeueTime mr) (mr_NTPPools mr) (mr_NTPServers mr)))
       (\<lambda>userData.
     bindM (GetServerByName sv (meta_Name m)) (\<lambda>found.
     if (case found of None \<Rightarrow> False | Some s \<Rightarrow> srv_Status s = ServerStatusError) then
       ext (CDeleteMachine (key_of m)) (k_DeleteMachine (mr_Client mr) (key_of m))
     else if lbm_DefaultPortID (lbm_Status m) = None then fail ErrPortIDEmpty
     else
       bindM (case found of
            Some s \<Rightarrow> ret s
          | None \<Rightarrow> catchM (createServer mr sv lb userData) (SendErrorLBM lb) ret)
         (recordServer mr))))))"

section \<open>Deletion\<close>

definition deleteServerAndWait :: "'w machine_reconciler \<Rightarrow> 'w server_env \<Rightarrow> string \<Rightarrow> ('w, unit) mop" where
  "deleteServerAndWait mr sv serverID =
     thenM (catchM (DeleteServer sv serverID)
         (\<lambda>err. if is_unexpected_code err then ret () else SendErrorM err) ret)
       (waitForServerStatus mr sv serverID [ServerStatusActive, ServerStatusStopped, ServerStatusError] [ServerStatusDeleted] 600)"

definition deleteServer :: "'w machine_reconciler \<Rightarrow> 'w server_env \<Rightarrow> ('w, unit) mop" where
  "deleteServer mr sv =
     thenM (mcall MServerClient (os_ServerClient sv))
     (thenM (getM (\<lambda>m. case lbm_ServerID (lbm_Status m) of None \<Rightarrow> ret () | Some serverID \<Rightarrow> deleteServerAndWait mr sv serverID))
     (getM (\<lambda>m. let serverName = meta_Name m in
     bindM (mcall (MServerList serverName) (server_List sv serverName)) (\<lambda>serverList.
     thenM (forM serverList (\<lambda>server.
         if srv_ID server = [] \<or> srv_Name server \<noteq> serverName then ret ()
         else deleteServerAndWait mr sv (srv_ID server)))
       (RemoveFromLBMStatus (mr_Objects mr) ''serverID'')))))"

definition deleteDefaultPort :: "'w machine_kube \<Rightarrow> 'w os_env \<Rightarrow> ('w, bool) mop" where
  "deleteDefaultPort mk os = getM (\<lambda>m.
     case lbm_DefaultPortID (lbm_Status m) of
       None \<Rightarrow> ret False
     | Some portID \<Rightarrow>
         thenM (catchM (DeletePort os portID)
             (\<lambda>err. if is_unexpected_code err then
                 thenM (catchM (RemoveFromLBMStatus mk ''defaultPortIP'') (\<lambda>_. ret ()) ret)
                   (RemoveFromLBMStatus mk ''defaultPortID'')
               else SendErrorM err) ret)
           (ret True))"

definition deleteDeprecatedPort :: "'w machine_kube \<Rightarrow> 'w os_env \<Rightarrow> bool \<Rightarrow> ('w, bool) mop" where
  "deleteDeprecatedPort mk os requeue = getM (\<lambda>m.
     case lbm_PortID (lbm_Status m) of
       None \<Rightarrow> ret requeue
     | Some portID \<Rightarrow>
         thenM (catchM (DeletePort os portID)
             (\<lambda>err. if is_unexpected_code err then RemoveFromLBMStatus mk ''portID'' else SendErrorM err) ret)
           (ret True))"

definition deletePortByName_lbm :: "'w machine_kube \<Rightarrow> 'w os_env \<Rightarrow> ('w, bool) mop" where
  "deletePortByName_lbm mk os = getM (\<lambda>m.
     case lbm_DefaultPortName (lbm_Status m) of
       None \<Rightarrow> ret False
     | Some portName \<Rightarrow>
         bindM (GetPortByName os portName) (\<lambda>port.
         case (case port of None \<Rightarrow> None | Some p \<Rightarrow> if port_ID p \<noteq> [] then Some p else None) of
           Some p \<Rightarrow>
             thenM (catchM (DeletePort os (port_ID p)) (\<lambda>err. if is_unexpected_code err then ret () else SendErrorM err) ret)
               (ret True)
         | None \<Rightarrow> thenM (RemoveFromLBMStatus mk ''defaultPortName'') (ret False)))"

definition deletePort_lbm :: "'w machine_kube \<Rightarrow> 'w os_env \<Rightarrow> ('w, bool) mop" where
  "deletePort_lbm mk os =
     thenM (ext CPortClient (os_PortClient os))
     (bindM (deleteDefaultPort mk os) (\<lambda>requeue.
     bindM (deleteDeprecatedPort mk os requeue) (\<lambda>requeue.
     if requeue then ret True else deletePortByName_lbm mk os)))"

text \<open>\<open>client.IgnoreNotFound\<close>\<close>

definition ignoreNotFound :: "('s, unit) gop \<Rightarrow> ('s, unit) gop" where
  "ignoreNotFound m = catchM m (\<lambda>err. if IsNotFound err then ret () else fail err) ret"

definition deleteSA :: "'w machine_kube \<Rightarrow> ('w, unit) mop" where
  "deleteSA mk = getM (\<lambda>m.
     thenM (ignoreNotFound (mcall (MDeleteSA (key_of m)) (mk_DeleteSA mk (key_of m))))
       (RemoveFromLBMStatus mk ''serviceAccountName''))"

definition deleteRoleBinding :: "'w machine_kube \<Rightarrow> ('w, unit) mop" where
  "deleteRoleBinding mk = getM (\<lambda>m.
     thenM (ignoreNotFound (mcall (MDeleteRoleBinding (key_of m)) (mk_DeleteRoleBinding mk (key_of m))))
       (RemoveFromLBMStatus mk ''roleBindingName''))"

definition deleteRole :: "'w machine_kube \<Rightarrow> ('w, unit) mop" where
  "deleteRole mk = getM (\<lambda>m.
     thenM (ignoreNotFound (mcall (MDeleteRole (key_of m)) (mk_DeleteRole mk (key_of m))))
       (RemoveFromLBMStatus mk ''roleName''))"

section \<open>Reconcile\<close>

definition deleteMachineResources :: "'w machine_reconciler \<Rightarrow> 'w os_env \<Rightarrow> 'w server_env \<Rightarrow> ('w, ctrl_result) mop" where
  "deleteMachineResources mr os sv = (let mk = mr_Objects mr in
     thenM (deleteServer mr sv)
     (bindM (deletePort_lbm mk os) (\<lambda>requeue.
     if requeue then ret requeueDefault
     else
       thenM (deleteSA mk)
       (thenM (deleteRoleBinding mk)
       (thenM (deleteRole mk)
       (thenM (getM (\<lambda>m. record_call (CMetrics ''RemoveLoadBalancerMachineMetrics'' (key_of m))))
       (thenM (RemoveMachineFinalizer mk ServiceFinalizer_lbm)
       (ret emptyResult))))))))"

definition machine_requeue :: ctrl_result where
  "machine_requeue = \<lparr>RequeueAfter = OpenstackReconcileTime\<rparr>"

definition reconcileMachineResources :: "'w machine_reconciler \<Rightarrow> 'w os_env \<Rightarrow> 'w server_env \<Rightarrow> namespaced_name \<Rightarrow> load_balancer \<Rightarrow>
    ('w, ctrl_result) mop" where
  "reconcileMachineResources mr os sv req lb = (let mk = mr_Objects mr in
     thenM (reconcilePort_lbm mk os req lb)
     (bindM (reconcilePortAddressPair os lb) (\<lambda>vip.
     thenM (reconcileServer mr sv lb vip)
     (nowM (mr_Client mr) (\<lambda>now.
     thenM (PatchLBMStatus mk (no_lbm_status\<lparr>lbm_LastOpenstackReconcile := Some now\<rparr>))
       (ret machine_requeue))))))"

definition reconcileMachine :: "'w machine_reconciler \<Rightarrow> 'w os_env \<Rightarrow> 'w server_env \<Rightarrow> namespaced_name \<Rightarrow> ('w, ctrl_result) mop" where
  "reconcileMachine mr os sv req = (let mk = mr_Objects mr in
     thenM (getM (\<lambda>m. record_call (CMetrics ''ParseLoadBalancerMachineMetrics'' (key_of m))))
     (thenM (AddMachineFinalizer mk ServiceFinalizer_lbm)
     (getM (\<lambda>m.
     let ref = mspec_LoadBalancerRef (lbm_Spec m); lbKey = \<lparr>nn_Namespace = lbr_Namespace ref, nn_Name = lbr_Name ref\<rparr> in
     bindM (ext (CGetLB lbKey) (k_GetLB (mr_Client mr) lbKey)) (\<lambda>lb.
     bindM (reconcileSA mk) (\<lambda>sa.
     thenM (reconcileSecret mk sa)
     (thenM (reconcileRole mk lb)
     (thenM (reconcileRoleBinding mk)
     (nowM (mr_Client mr) (\<lambda>now.
     getM (\<lambda>m.
     if \<not> LoadBalancerMachineOpenstackReconcileIsNeeded now m then ret machine_requeue
     else reconcileMachineResources mr os sv req lb)))))))))))"

definition Reconcile_lbm :: "'w machine_reconciler \<Rightarrow> namespaced_name \<Rightarrow> ('w, ctrl_result) mop" where
  "Reconcile_lbm mr req =
     catchM (ext (CGetMachine req) (k_GetMachine (mr_Client mr) req))
       (\<lambda>err. if IsNotFound err then ret emptyResult else fail err)
       (\<lambda>m. thenM (putM m)
         (bindM (GetOpenStackClientForInfrastructure (mr_Client mr) (mr_getOsClientForIni mr)
             (mspec_Infrastructure (lbm_Spec m))) (\<lambda>(os, sv).
         if is_deleting m then deleteMachineResources mr os sv
         else reconcileMachine mr os sv req)))"

end
