(* ===== verification/MachineCleanup.thy ===== *)
theory MachineCleanup
  imports MachineController FakeOpenstack
begin

text \<open>
  Deleting a machine. The locale \<open>machine_cloud\<close> states what the deletion relies on: the calls it
  makes create nothing, a listing by name is complete, a server whose status is \<open>DELETED\<close> is gone, and
  patches apply to the stored object. That an unexpected response to a lookup by id means that the
  server is gone, as the code takes it, is not assumed: \<open>mv_lost\<close> says that such a response was given for a server
  that exists. The locale is interpreted on the in-memory cloud.
\<close>

section \<open>Loops whose steps establish something lasting\<close>

lemma runs_forM_all:
  assumes step: "\<And>x s. x \<in> set xs \<Longrightarrow> I s \<Longrightarrow> runs (f x) s (\<lambda>r t. I t \<and> K s t \<and> (r = Ok () \<longrightarrow> Q x t))"
    and "\<And>s. K s s" and trans: "\<And>s t u. K s t \<Longrightarrow> K t u \<Longrightarrow> K s u"
    and stable: "\<And>x s t. Q x s \<Longrightarrow> K s t \<Longrightarrow> Q x t"
    and "I s"
  shows "runs (forM xs f) s (\<lambda>r t. I t \<and> K s t \<and> (r = Ok () \<longrightarrow> (\<forall>x \<in> set xs. Q x t)))"
  using step assms(5)
proof (induction xs arbitrary: s)
  case Nil
  then show ?case by (simp add: runs_simps assms(2))
next
  case (Cons x xs)
  have "runs (forM xs f) t (\<lambda>r u. I u \<and> K s u \<and> (r = Ok () \<longrightarrow> (\<forall>y \<in> set (x # xs). Q y u)))"
    if "I t" "K s t" "Q x t" for t
    by (rule runs_weaken [OF Cons.IH [OF Cons.prems(1) that(1)]]) (use that in \<open>auto intro: trans stable\<close>)
  then show ?case
    unfolding forM.simps runs_thenM
    by (intro runs_weaken [OF Cons.prems(1)]) (use Cons.prems in \<open>auto simp: caseR_def split: result.split\<close>)
qed

section \<open>Views of the world\<close>

datatype access_kind = ACCOUNT | BINDING | ROLE

record 'w machine_view =
  mv_stored :: "'w \<Rightarrow> namespaced_name \<Rightarrow> load_balancer_machine option"
  mv_servers :: "'w \<Rightarrow> (string \<times> string) set"
  mv_ports :: "'w \<Rightarrow> string set"
  mv_access :: "'w \<Rightarrow> (access_kind \<times> namespaced_name) set"
  mv_lost :: "'w \<Rightarrow> bool"
  mv_wf :: "'w \<Rightarrow> bool"

definition shrunk :: "('w, 'z) machine_view_scheme \<Rightarrow> 'w \<Rightarrow> 'w \<Rightarrow> bool" where
  "shrunk v w w' = (mv_servers v w' \<subseteq> mv_servers v w \<and> mv_ports v w' \<subseteq> mv_ports v w \<and>
     mv_access v w' \<subseteq> mv_access v w \<and> (mv_lost v w \<longrightarrow> mv_lost v w') \<and> (mv_wf v w \<longrightarrow> mv_wf v w'))"

lemma shrunk_refl [simp]: "shrunk v w w"
  by (simp add: shrunk_def)

lemma shrunk_trans: "shrunk v w w' \<Longrightarrow> shrunk v w' w'' \<Longrightarrow> shrunk v w w''"
  by (auto simp: shrunk_def)

definition quiet :: "('w, 'z) machine_view_scheme \<Rightarrow> ('w, 'a) gop \<Rightarrow> bool" where
  "quiet v f = (\<forall>w r w'. f w = (r, w') \<longrightarrow> shrunk v w w' \<and> mv_stored v w' = mv_stored v w)"

text \<open>A patch of the metadata, or something else, happened to the stored machine meanwhile.\<close>

definition same_status :: "('w, 'z) machine_view_scheme \<Rightarrow> namespaced_name \<Rightarrow> 'w \<Rightarrow> 'w \<Rightarrow> bool" where
  "same_status v n w w' = (\<forall>m'. mv_stored v w' n = Some m' \<longrightarrow>
     (\<exists>m. mv_stored v w n = Some m \<and> key_of m' = key_of m \<and> lbm_Status m' = lbm_Status m))"

text \<open>\<open>gophercloud.WaitFor\<close> polls, and succeeds only when a poll says so.\<close>

definition waits :: "(int \<Rightarrow> ('w, bool) mop \<Rightarrow> ('w, unit) mop) \<Rightarrow> bool" where
  "waits W = (\<forall>d p I s. preserves I p \<longrightarrow> I s \<longrightarrow>
     runs (W d p) s (\<lambda>r t. I t \<and> (r = Ok () \<longrightarrow> (\<exists>u. I u \<and> p u = (Ok True, t)))))"

text \<open>A deletion over many reconciles, between which others may act as long as they create nothing for
  the machine and leave its status alone.\<close>

inductive machine_deletion :: "'w machine_view \<Rightarrow> 'w machine_reconciler \<Rightarrow> 'w os_env \<Rightarrow> 'w server_env \<Rightarrow>
    load_balancer_machine \<Rightarrow> 'w \<Rightarrow> bool" for v mr os sv m0 where
  start: "mv_wf v w \<Longrightarrow> mv_stored v w (key_of m0) = Some m0 \<Longrightarrow> machine_deletion v mr os sv m0 w"
| others: "machine_deletion v mr os sv m0 w \<Longrightarrow> shrunk v w w' \<Longrightarrow> same_status v (key_of m0) w w' \<Longrightarrow> machine_deletion v mr os sv m0 w'"
| reconcile: "machine_deletion v mr os sv m0 w \<Longrightarrow> mv_stored v w (key_of m0) = Some m \<Longrightarrow>
    deleteMachineResources mr os sv \<lparr>world = w, trace = tr, mcur = m\<rparr> = (r, t) \<Longrightarrow> machine_deletion v mr os sv m0 (world t)"

locale machine_cloud =
  fixes mk :: "'w machine_kube" and os :: "'w os_env" and sv :: "'w server_env" and v :: "'w machine_view"
  assumes quiet_clients: "quiet v (os_ServerClient sv)" "quiet v (os_PortClient os)"
    and quiet_server: "quiet v (server_List sv i)" "quiet v (server_Get sv i)" "quiet v (server_Delete sv i)"
    and quiet_port: "quiet v (port_List os i)" "quiet v (port_Delete os i)"
    and quiet_access: "quiet v (mk_DeleteSA mk n)" "quiet v (mk_DeleteRole mk n)" "quiet v (mk_DeleteRoleBinding mk n)"
    and server_listed: "server_List sv name w = (Ok xs, w') \<Longrightarrow> mv_wf v w' \<Longrightarrow> (i, name) \<in> mv_servers v w' \<Longrightarrow>
        i \<noteq> [] \<and> (\<exists>x \<in> set xs. srv_ID x = i \<and> srv_Name x = name)"
    and server_gone: "server_Get sv i w = (Err e, w') \<Longrightarrow> is_unexpected_code e \<Longrightarrow> mv_wf v w' \<Longrightarrow>
        (i, name) \<in> mv_servers v w' \<Longrightarrow> mv_lost v w'"
    and server_deleted: "server_Get sv i w = (Ok (Some x), w') \<Longrightarrow> srv_Status x = ServerStatusDeleted \<Longrightarrow> mv_wf v w' \<Longrightarrow>
        (i, name) \<notin> mv_servers v w'"
    and port_listed: "port_List os name w = (Ok ps, w') \<Longrightarrow> mv_wf v w' \<Longrightarrow> name \<in> mv_ports v w' \<Longrightarrow>
        \<exists>p. find (\<lambda>p. port_Name p = name) ps = Some p \<and> port_ID p \<noteq> []"
    and access_gone: "mk_DeleteSA mk n w = (r, w') \<Longrightarrow> r = Ok () \<or> (\<exists>e. r = Err e \<and> IsNotFound e) \<Longrightarrow> (ACCOUNT, n) \<notin> mv_access v w'"
      "mk_DeleteRoleBinding mk n w = (r, w') \<Longrightarrow> r = Ok () \<or> (\<exists>e. r = Err e \<and> IsNotFound e) \<Longrightarrow> (BINDING, n) \<notin> mv_access v w'"
      "mk_DeleteRole mk n w = (r, w') \<Longrightarrow> r = Ok () \<or> (\<exists>e. r = Err e \<and> IsNotFound e) \<Longrightarrow> (ROLE, n) \<notin> mv_access v w'"
    and patch_status: "mk_PatchStatus mk n p w = (answer, w') \<Longrightarrow> shrunk v w w' \<and>
        (case answer of
           Ok m' \<Rightarrow> \<exists>m. mv_stored v w n = Some m \<and> key_of m' = key_of m \<and>
             lbm_Status m' = merge_lbm_status p (lbm_Status m) \<and> mv_stored v w' = (mv_stored v w)(n \<mapsto> m')
         | _ \<Rightarrow> mv_stored v w' = mv_stored v w)"
    and patch_finalizers: "mk_PatchFinalizers mk n fs w = (answer, w') \<Longrightarrow> mv_wf v w \<Longrightarrow> shrunk v w w' \<and> same_status v n w w'"
begin

text \<open>The invariant of a deletion that began with \<open>m0\<close>: the machine at hand is the stored one, and
  a recorded port name stays recorded until no port has it.\<close>

definition port_pending :: "load_balancer_machine \<Rightarrow> lbm_status \<Rightarrow> 'w \<Rightarrow> bool" where
  "port_pending m0 st w = (\<forall>n. lbm_DefaultPortName (lbm_Status m0) = Some n \<longrightarrow>
     lbm_DefaultPortName st = Some n \<or> n \<notin> mv_ports v w)"

definition good :: "load_balancer_machine \<Rightarrow> 'w \<Rightarrow> ('w, call) mst \<Rightarrow> bool" where
  "good m0 w0 s = (shrunk v w0 (world s) \<and> mv_wf v (world s) \<and> mv_stored v (world s) (key_of m0) = Some (mcur s) \<and>
     key_of (mcur s) = key_of m0 \<and> port_pending m0 (lbm_Status (mcur s)) (world s))"

lemma good_world:
  "good m0 w0 s \<Longrightarrow> shrunk v (world s) w \<Longrightarrow> mv_stored v w = mv_stored v (world s) \<Longrightarrow> good m0 w0 (s\<lparr>world := w, trace := tr\<rparr>)"
  by (auto simp: good_def port_pending_def shrunk_def)

lemma good_trace: "good m0 w0 (s\<lparr>trace := tr\<rparr>) = good m0 w0 s"
  by (simp add: good_def)

lemma good_start: "good m0 w0 s \<Longrightarrow> good m0 (world s) s"
  by (simp add: good_def)

lemma good_key: "good m0 w0 s \<Longrightarrow> key_of (mcur s) = key_of m0"
  by (simp add: good_def)

lemma good_name: "good m0 w0 s \<Longrightarrow> meta_Name (mcur s) = meta_Name m0"
  by (auto simp: good_def key_of_def)

lemma good_ext: "quiet v f \<Longrightarrow> preserves (good m0 w0) (ext c f)"
  unfolding preserves_def by (auto simp: runs_simps quiet_def intro: good_world split: prod.split)

lemma good_mcall: "quiet v f \<Longrightarrow> preserves (good m0 w0) (mcall c f)"
  unfolding mcall_def by (rule good_ext)

lemma preserves_getM: "(\<And>m. preserves I (f m)) \<Longrightarrow> preserves I (getM f)"
  by (simp add: preserves_def runs_simps)

lemma good_SendErrorM: "preserves (good m0 w0) (SendErrorM e)"
  unfolding SendErrorM_def by (intro preserves_getM) (simp add: preserves_def runs_simps good_trace)

lemma runs_Remove:
  assumes "good m0 w0 s" and "k = ''defaultPortName'' \<Longrightarrow> (\<forall>n. lbm_DefaultPortName (lbm_Status m0) = Some n \<longrightarrow> n \<notin> mv_ports v (world s))"
  shows "runs (RemoveFromLBMStatus mk k) s (\<lambda>_ t. good m0 w0 t)"
proof -
  obtain r w where p: "mk_PatchStatus mk (key_of m0) (MRemoveKey k) (world s) = (r, w)" by fastforce
  note law = patch_status [OF p]
  have "port_pending m0 (remove_lbm_key k (lbm_Status (mcur s))) w"
    using assms law by (cases "k = ''defaultPortName''") (auto simp: good_def port_pending_def shrunk_def remove_lbm_key_def drop_if_def)
  then have "case r of Ok m' \<Rightarrow> good m0 w0 (s\<lparr>world := w, trace := tr, mcur := m'\<rparr>)
      | _ \<Rightarrow> good m0 w0 (s\<lparr>world := w, trace := tr\<rparr>)" for tr
    using assms(1) law unfolding good_def
    by (cases r) (auto simp: shrunk_def port_pending_def intro: shrunk_trans)
  then show ?thesis
    by (cases r) (simp_all add: RemoveFromLBMStatus_def patchMachine_def mcall_def runs_simps good_key [OF assms(1)] p)
qed

lemma good_Remove: "k \<noteq> ''defaultPortName'' \<Longrightarrow> preserves (good m0 w0) (RemoveFromLBMStatus mk k)"
  unfolding preserves_def using runs_Remove by blast

lemmas good_intros = preserves_intros preserves_getM good_SendErrorM good_Remove good_ext good_mcall
  quiet_clients quiet_server quiet_port quiet_access

section \<open>Servers\<close>

definition server_gone_at :: "string \<Rightarrow> 'w \<Rightarrow> bool" where
  "server_gone_at i w = (mv_lost v w \<or> (\<forall>name. (i, name) \<notin> mv_servers v w))"

lemma server_gone_at_shrunk: "server_gone_at i w \<Longrightarrow> shrunk v w w' \<Longrightarrow> server_gone_at i w'"
  by (auto simp: server_gone_at_def shrunk_def)

lemma good_poll: "preserves (good m0 w0) (pollServerStatus sv i ps target)"
  unfolding pollServerStatus_def GetServerByID_def by (intro good_intros)

lemma poll_deleted:
  assumes "good m0 w0 u" and "pollServerStatus sv i ps [ServerStatusDeleted] u = (Ok True, t)"
  shows "server_gone_at i (world t)"
proof -
  obtain r w where g: "server_Get sv i (world u) = (r, w)" by fastforce
  have wf: "mv_wf v w"
    using assms(1) quiet_server(2) [of i] g by (auto simp: good_def quiet_def shrunk_def)
  show ?thesis
  proof (cases r)
    case (Ok x)
    have "x \<noteq> None" and "\<And>y. x = Some y \<Longrightarrow> srv_Status y = ServerStatusDeleted \<and> world t = w"
      using assms(2) Ok g
      by (auto simp: pollServerStatus_def GetServerByID_def mcall_def catchM_def ext_def deref_def ret_def fail_def crash_def
          split: if_splits option.splits)
    with server_deleted [of i "world u" _ w] g Ok wf show ?thesis
      by (auto simp: server_gone_at_def)
  next
    case (Err e)
    have "is_unexpected_code e \<and> world t = w"
      using assms(2) Err g
      by (auto simp: pollServerStatus_def GetServerByID_def mcall_def catchM_def ext_def ret_def fail_def split: if_splits)
    with server_gone [of i "world u" e w] g Err wf show ?thesis
      by (auto simp: server_gone_at_def)
  next
    case (Crash c)
    with assms(2) g show ?thesis
      by (simp add: pollServerStatus_def GetServerByID_def mcall_def catchM_def ext_def)
  qed
qed

lemma runs_deleteServerAndWait:
  assumes "waits (mr_WaitFor mr)" and "good m0 w0 s"
  shows "runs (deleteServerAndWait mr sv i) s (\<lambda>r t. good m0 w0 t \<and> (r = Ok () \<longrightarrow> server_gone_at i (world t)))"
proof -
  have del: "preserves (good m0 w0) (catchM (DeleteServer sv i) (\<lambda>err. if is_unexpected_code err then ret () else SendErrorM err) ret)"
    unfolding DeleteServer_def by (intro good_intros)
  have wait: "runs (waitForServerStatus mr sv i ps [ServerStatusDeleted] 600) u
      (\<lambda>r t. good m0 w0 t \<and> (r = Ok () \<longrightarrow> server_gone_at i (world t)))" if "good m0 w0 u" for u ps
    using assms(1) [unfolded waits_def, rule_format, OF good_poll that, of "600 * Second" i ps "[ServerStatusDeleted]"]
    unfolding waitForServerStatus_def by (rule runs_weaken) (auto dest: poll_deleted)
  show ?thesis
    unfolding deleteServerAndWait_def runs_thenM
    by (rule runs_weaken [OF preservesD [OF del assms(2)]]) (auto simp: caseR_def wait split: result.split)
qed

lemma runs_deleteServerAndWait_step:
  assumes "waits (mr_WaitFor mr)" and "good m0 w0 s"
  shows "runs (deleteServerAndWait mr sv i) s (\<lambda>r t. good m0 w0 t \<and> shrunk v (world s) (world t) \<and>
    (r = Ok () \<longrightarrow> server_gone_at i (world t)))"
  by (rule runs_weaken [OF runs_conj [OF runs_deleteServerAndWait [OF assms]
        runs_deleteServerAndWait [OF assms(1) good_start [OF assms(2)]]]]) (simp add: good_def)

definition orphan :: "string \<Rightarrow> server \<Rightarrow> bool" where
  "orphan name x = (srv_ID x \<noteq> [] \<and> srv_Name x = name)"

lemma runs_orphans:
  assumes "waits (mr_WaitFor mr)" and "good m0 w0 s"
  shows "runs (forM xs (\<lambda>server. if srv_ID server = [] \<or> srv_Name server \<noteq> name then ret ()
      else deleteServerAndWait mr sv (srv_ID server))) s
      (\<lambda>r t. good m0 w0 t \<and> shrunk v (world s) (world t) \<and>
         (r = Ok () \<longrightarrow> (\<forall>x \<in> set xs. orphan name x \<longrightarrow> server_gone_at (srv_ID x) (world t))))"
proof (rule runs_forM_all)
  show "runs (if srv_ID x = [] \<or> srv_Name x \<noteq> name then ret () else deleteServerAndWait mr sv (srv_ID x)) s
      (\<lambda>r t. good m0 w0 t \<and> shrunk v (world s) (world t) \<and> (r = Ok () \<longrightarrow> orphan name x \<longrightarrow> server_gone_at (srv_ID x) (world t)))"
    if "good m0 w0 s" for x s
    using that by (auto simp: runs_simps orphan_def elim!: runs_weaken [OF runs_deleteServerAndWait_step [OF assms(1)]])
qed (use assms(2) in \<open>auto intro: shrunk_trans server_gone_at_shrunk\<close>)

definition no_server :: "string \<Rightarrow> 'w \<Rightarrow> bool" where
  "no_server name w = (mv_lost v w \<or> (\<forall>i. (i, name) \<notin> mv_servers v w))"

lemma no_server_shrunk: "no_server name w \<Longrightarrow> shrunk v w w' \<Longrightarrow> no_server name w'"
  by (auto simp: no_server_def shrunk_def)

lemma runs_cleanOrphans:
  assumes "waits (mr_WaitFor mr)" and "mr_Objects mr = mk" and "good m0 w0 s"
  shows "runs (bindM (mcall (MServerList name) (server_List sv name)) (\<lambda>serverList.
     thenM (forM serverList (\<lambda>server.
         if srv_ID server = [] \<or> srv_Name server \<noteq> name then ret ()
         else deleteServerAndWait mr sv (srv_ID server)))
       (RemoveFromLBMStatus (mr_Objects mr) ''serverID''))) s
     (\<lambda>r t. good m0 w0 t \<and> (r = Ok () \<longrightarrow> no_server name (world t)))"
proof -
  obtain r w where l: "server_List sv name (world s) = (r, w)" by fastforce
  let ?s = "s\<lparr>world := w, trace := trace s @ [(CMachine (MServerList name), is_Ok r)]\<rparr>"
  have g: "good m0 w0 ?s"
    using assms(3) quiet_server(1) [of name] l by (auto simp: quiet_def intro: good_world)
  have done': "no_server name (world t)"
    if xs: "r = Ok xs" and t: "shrunk v w (world t)"
      and gone: "\<forall>x \<in> set xs. orphan name x \<longrightarrow> server_gone_at (srv_ID x) (world t)" for xs t
  proof -
    have False if "(i, name) \<in> mv_servers v (world t)" "\<not> mv_lost v (world t)" for i
    proof -
      have "(i, name) \<in> mv_servers v w" using that(1) t by (auto simp: shrunk_def)
      then obtain x where "x \<in> set xs" "srv_ID x = i" "srv_Name x = name" "i \<noteq> []"
        using server_listed [OF l [unfolded xs]] g by (auto simp: good_def)
      with gone that show False by (auto simp: orphan_def server_gone_at_def)
    qed
    then show ?thesis by (auto simp: no_server_def)
  qed
  have rm: "runs (RemoveFromLBMStatus mk ''serverID'') t (\<lambda>r u. good m0 w0 u \<and> no_server name (world u))"
    if "good m0 w0 t" "no_server name (world t)" for t
    by (rule runs_weaken [OF runs_conj [OF runs_Remove [OF that(1)] runs_Remove [OF good_start [OF that(1)]]]])
      (use that(2) in \<open>auto simp: good_def intro: no_server_shrunk\<close>)
  have loop: "runs (forM xs (\<lambda>server. if srv_ID server = [] \<or> srv_Name server \<noteq> name then ret ()
      else deleteServerAndWait mr sv (srv_ID server))) ?s (\<lambda>r t. good m0 w0 t \<and> (r = Ok () \<longrightarrow> no_server name (world t)))"
    if "r = Ok xs" for xs
    by (rule runs_weaken [OF runs_orphans [OF assms(1) g]]) (use done' [OF that] in auto)
  show ?thesis
  proof (cases r)
    case (Ok xs)
    have "runs (thenM (forM xs (\<lambda>server. if srv_ID server = [] \<or> srv_Name server \<noteq> name then ret ()
          else deleteServerAndWait mr sv (srv_ID server))) (RemoveFromLBMStatus mk ''serverID'')) ?s
        (\<lambda>r t. good m0 w0 t \<and> (r = Ok () \<longrightarrow> no_server name (world t)))"
      unfolding runs_thenM
      by (rule runs_weaken [OF loop [OF Ok]]) (auto simp: caseR_def split: result.split intro: runs_weaken [OF rm])
    then show ?thesis
      unfolding runs_bindM mcall_def runs_ext l assms(2) by (simp add: Ok)
  qed (use g l in \<open>simp_all add: runs_simps mcall_def\<close>)
qed

section \<open>What each step achieves\<close>

text \<open>\<open>achieves m0 m x A\<close>: the invariant survives \<open>m\<close>, and if it returns \<open>x\<close> then \<open>A\<close> holds of the world.
  Facts that survive shrinking accumulate over the steps.\<close>

definition achieves :: "load_balancer_machine \<Rightarrow> ('w, 'a) mop \<Rightarrow> 'a \<Rightarrow> ('w \<Rightarrow> bool) \<Rightarrow> bool" where
  "achieves m0 m x A = (\<forall>w0 s. good m0 w0 s \<longrightarrow> runs m s (\<lambda>r t. good m0 w0 t \<and> (r = Ok x \<longrightarrow> A (world t))))"

definition lasting :: "('w \<Rightarrow> bool) \<Rightarrow> bool" where
  "lasting D = (\<forall>w w'. D w \<longrightarrow> shrunk v w w' \<longrightarrow> D w')"

lemma achieves_bind:
  assumes "\<And>w0. preserves (good m0 w0) m" and "\<And>y. achieves m0 (k y) x A"
  shows "achieves m0 (bindM m k) x A"
  unfolding achieves_def runs_bindM
proof (intro allI impI)
  fix w0 s assume "good m0 w0 s"
  then show "runs m s (caseR (\<lambda>y t. runs (k y) t (\<lambda>r t. good m0 w0 t \<and> (r = Ok x \<longrightarrow> A (world t))))
      (\<lambda>e t. good m0 w0 t \<and> (Err e = Ok x \<longrightarrow> A (world t))) (\<lambda>c t. good m0 w0 t \<and> (Crash c = Ok x \<longrightarrow> A (world t))))"
    by (intro runs_weaken [OF preservesD [OF assms(1)]]) (use assms(2) in \<open>auto simp: achieves_def caseR_def split: result.split\<close>)
qed

lemma achieves_after: "(\<And>w0. preserves (good m0 w0) m) \<Longrightarrow> achieves m0 k x A \<Longrightarrow> achieves m0 (thenM m k) x A"
  unfolding thenM_def by (rule achieves_bind)

lemma achieves_other: "y \<noteq> x \<Longrightarrow> achieves m0 (ret y) x A"
  by (simp add: achieves_def runs_simps)

lemma achieves_before:
  assumes "\<And>w0. preserves (good m0 w0) k" and "achieves m0 m () A" and "lasting A"
  shows "achieves m0 (thenM m k) y A"
  unfolding achieves_def runs_thenM
proof (intro allI impI)
  fix w0 s assume g: "good m0 w0 s"
  have "runs k t (\<lambda>r u. good m0 w0 u \<and> (r = Ok y \<longrightarrow> A (world u)))" if t: "good m0 w0 t" "A (world t)" for t
    by (rule runs_weaken [OF runs_conj [OF preservesD [OF assms(1) t(1)] preservesD [OF assms(1) good_start [OF t(1)]]]])
      (use assms(3) t in \<open>auto simp: good_def lasting_def\<close>)
  then show "runs m s (caseR (\<lambda>_ t. runs k t (\<lambda>r t. good m0 w0 t \<and> (r = Ok y \<longrightarrow> A (world t))))
      (\<lambda>e t. good m0 w0 t \<and> (Err e = Ok y \<longrightarrow> A (world t))) (\<lambda>c t. good m0 w0 t \<and> (Crash c = Ok y \<longrightarrow> A (world t))))"
    using assms(2) [unfolded achieves_def, rule_format, OF g]
    by (elim runs_weaken) (auto simp: caseR_def split: result.split)
qed

lemma lasting_simps [simp]:
  "lasting (no_server name)" "lasting (\<lambda>w. (kd, n) \<notin> mv_access v w)" "lasting (\<lambda>w. \<forall>n. p n \<longrightarrow> n \<notin> mv_ports v w)" "lasting (\<lambda>_. True)"
  "lasting A \<Longrightarrow> lasting B \<Longrightarrow> lasting (\<lambda>w. A w \<and> B w)"
  by (auto simp: lasting_def shrunk_def no_server_def)

lemma deleteServer_achieves:
  assumes "waits (mr_WaitFor mr)" and "mr_Objects mr = mk"
  shows "achieves m0 (deleteServer mr sv) () (no_server (meta_Name m0))"
proof -
  have wait: "preserves (good m0 w0) (deleteServerAndWait mr sv i)" for w0 i
    unfolding preserves_def using runs_deleteServerAndWait [OF assms(1)] by (blast intro: runs_weaken)
  have first: "preserves (good m0 w0) (getM (\<lambda>m. case lbm_ServerID (lbm_Status m) of None \<Rightarrow> ret ()
      | Some i \<Rightarrow> deleteServerAndWait mr sv i))" for w0
    by (intro good_intros wait)
  show ?thesis
    unfolding deleteServer_def Let_def
  proof (rule achieves_after, rule good_mcall [OF quiet_clients(1)], rule achieves_after, rule first)
    show "achieves m0 (getM (\<lambda>m. bindM (mcall (MServerList (meta_Name m)) (server_List sv (meta_Name m))) (\<lambda>serverList.
        thenM (forM serverList (\<lambda>server. if srv_ID server = [] \<or> srv_Name server \<noteq> meta_Name m then ret ()
            else deleteServerAndWait mr sv (srv_ID server)))
          (RemoveFromLBMStatus (mr_Objects mr) ''serverID'')))) () (no_server (meta_Name m0))"
      unfolding achieves_def runs_getM
      by (intro allI impI, simp only: good_name) (rule runs_cleanOrphans [OF assms])
  qed
qed

definition no_port :: "load_balancer_machine \<Rightarrow> 'w \<Rightarrow> bool" where
  "no_port m0 w = (\<forall>n. lbm_DefaultPortName (lbm_Status m0) = Some n \<longrightarrow> n \<notin> mv_ports v w)"

lemma lasting_no_port [simp]: "lasting (no_port m0)"
  by (auto simp: lasting_def no_port_def shrunk_def)

lemma removePortName_achieves:
  assumes "good m0 w0 s" and "no_port m0 (world s)"
  shows "runs (thenM (RemoveFromLBMStatus mk ''defaultPortName'') (ret False)) s
    (\<lambda>r t. good m0 w0 t \<and> (r = Ok False \<longrightarrow> no_port m0 (world t)))"
proof -
  note rm = runs_Remove [where k = "''defaultPortName''", OF _ assms(2) [unfolded no_port_def]]
  show ?thesis
    unfolding runs_thenM
    by (rule runs_weaken [OF runs_conj [OF rm [OF assms(1)] rm [OF good_start [OF assms(1)]]]])
      (use assms(2) in \<open>auto simp: caseR_def runs_simps good_def shrunk_def no_port_def split: result.split\<close>)
qed

lemma deleteByName_achieves: "achieves m0 (deletePortByName_lbm mk os) False (no_port m0)"
  unfolding achieves_def
proof (intro allI impI)
  fix w0 s assume g: "good m0 w0 s"
  let ?post = "\<lambda>r t. good m0 w0 t \<and> (r = Ok False \<longrightarrow> no_port m0 (world t))"
  show "runs (deletePortByName_lbm mk os) s ?post"
  proof (cases "lbm_DefaultPortName (lbm_Status (mcur s))")
    case None
    with g show ?thesis
      by (auto simp: deletePortByName_lbm_def runs_simps good_def port_pending_def no_port_def)
  next
    case (Some n)
    obtain r w where l: "port_List os n (world s) = (r, w)" by fastforce
    have g': "good m0 w0 (s\<lparr>world := w, trace := tr\<rparr>)" for tr
      using g quiet_port(1) [of n] l by (auto simp: quiet_def intro: good_world)
    have none: "no_port m0 w" if "r = Ok ps" "(case find (\<lambda>p. port_Name p = n) ps of None \<Rightarrow> None
        | Some p \<Rightarrow> if port_ID p \<noteq> [] then Some p else None) = None" for ps
      using g' [of "[]"] port_listed [OF l [unfolded that(1)]] that(2) Some
      by (auto simp: good_def port_pending_def no_port_def split: option.splits if_splits)
    have del: "runs (thenM (catchM (DeletePort os i) (\<lambda>err. if is_unexpected_code err then ret () else SendErrorM err) ret) (ret True)) u ?post"
      if "good m0 w0 u" for u i
    proof -
      have "achieves m0 (thenM (catchM (DeletePort os i) (\<lambda>err. if is_unexpected_code err then ret () else SendErrorM err) ret) (ret True))
          False (no_port m0)"
        unfolding DeletePort_def by (intro achieves_after achieves_other good_intros) simp
      with that show ?thesis by (simp add: achieves_def)
    qed
    show ?thesis
    proof (cases r)
      case (Ok ps)
      have "runs (case (case find (\<lambda>p. port_Name p = n) ps of None \<Rightarrow> None | Some p \<Rightarrow> if port_ID p \<noteq> [] then Some p else None) of
            Some p \<Rightarrow> thenM (catchM (DeletePort os (port_ID p)) (\<lambda>err. if is_unexpected_code err then ret () else SendErrorM err) ret) (ret True)
          | None \<Rightarrow> thenM (RemoveFromLBMStatus mk ''defaultPortName'') (ret False)) (s\<lparr>world := w, trace := tr\<rparr>) ?post" for tr
        using none [OF Ok] removePortName_achieves [OF g'] del [OF g']
        by (cases "case find (\<lambda>p. port_Name p = n) ps of None \<Rightarrow> None | Some p \<Rightarrow> if port_ID p \<noteq> [] then Some p else None") simp_all
      then show ?thesis
        by (simp add: deletePortByName_lbm_def GetPortByName_def PortList_def runs_getM runs_bindM runs_ext runs_ret Some l Ok)
    qed (use g' l in \<open>simp_all add: deletePortByName_lbm_def GetPortByName_def PortList_def runs_getM runs_bindM runs_ext Some\<close>)
  qed
qed

lemma deletePort_achieves: "achieves m0 (deletePort_lbm mk os) False (no_port m0)"
proof -
  have "preserves (good m0 w0) (deleteDefaultPort mk os)" for w0
    unfolding deleteDefaultPort_def DeletePort_def by (intro good_intros) auto
  moreover have "preserves (good m0 w0) (deleteDeprecatedPort mk os b)" for w0 b
    unfolding deleteDeprecatedPort_def DeletePort_def by (intro good_intros) auto
  ultimately show ?thesis
    unfolding deletePort_lbm_def
    by (intro achieves_after achieves_bind good_intros) (auto intro: achieves_other deleteByName_achieves)
qed

lemma deleteAccess_achieves:
  "achieves m0 (deleteSA mk) () (\<lambda>w. (ACCOUNT, key_of m0) \<notin> mv_access v w)"
  "achieves m0 (deleteRoleBinding mk) () (\<lambda>w. (BINDING, key_of m0) \<notin> mv_access v w)"
  "achieves m0 (deleteRole mk) () (\<lambda>w. (ROLE, key_of m0) \<notin> mv_access v w)"
proof -
  have gone: "achieves m0 (ignoreNotFound (mcall c f)) () (\<lambda>w. (kd, key_of m0) \<notin> mv_access v w)"
    if "quiet v f" and law: "\<And>w r w'. f w = (r, w') \<Longrightarrow> r = Ok () \<or> (\<exists>e. r = Err e \<and> IsNotFound e) \<Longrightarrow> (kd, key_of m0) \<notin> mv_access v w'"
    for c f kd
    unfolding achieves_def
  proof (intro allI impI)
    fix w0 s assume g: "good m0 w0 s"
    obtain r w where f: "f (world s) = (r, w)" by fastforce
    have "good m0 w0 (s\<lparr>world := w, trace := tr\<rparr>)" for tr
      using g that(1) f by (auto simp: quiet_def intro: good_world)
    then show "runs (ignoreNotFound (mcall c f)) s (\<lambda>r t. good m0 w0 t \<and> (r = Ok () \<longrightarrow> (kd, key_of m0) \<notin> mv_access v (world t)))"
      using law [OF f] by (cases r) (auto simp: ignoreNotFound_def mcall_def runs_simps f)
  qed
  have keyed: "achieves m0 (getM f) x A" if "\<And>m. key_of m = key_of m0 \<Longrightarrow> achieves m0 (f m) x A" for f :: "load_balancer_machine \<Rightarrow> ('w, 'x) mop" and x A
    using that by (auto simp: achieves_def runs_getM dest: good_key)
  note gones = gone [OF quiet_access(1) access_gone(1)] gone [OF quiet_access(3) access_gone(2)]
    gone [OF quiet_access(2) access_gone(3)]
  show "achieves m0 (deleteSA mk) () (\<lambda>w. (ACCOUNT, key_of m0) \<notin> mv_access v w)"
    unfolding deleteSA_def by (intro keyed achieves_before) (auto intro: good_Remove gones)
  show "achieves m0 (deleteRoleBinding mk) () (\<lambda>w. (BINDING, key_of m0) \<notin> mv_access v w)"
    unfolding deleteRoleBinding_def by (intro keyed achieves_before) (auto intro: good_Remove gones)
  show "achieves m0 (deleteRole mk) () (\<lambda>w. (ROLE, key_of m0) \<notin> mv_access v w)"
    unfolding deleteRole_def by (intro keyed achieves_before) (auto intro: good_Remove gones)
qed

section \<open>The whole deletion\<close>

definition clean :: "load_balancer_machine \<Rightarrow> 'w \<Rightarrow> bool" where
  "clean m0 w = (no_server (meta_Name m0) w \<and> no_port m0 w \<and> (\<forall>kd. (kd, key_of m0) \<notin> mv_access v w))"

lemma cleanI: "no_server (meta_Name m0) w \<Longrightarrow> no_port m0 w \<Longrightarrow> (ACCOUNT, key_of m0) \<notin> mv_access v w \<Longrightarrow>
    (BINDING, key_of m0) \<notin> mv_access v w \<Longrightarrow> (ROLE, key_of m0) \<notin> mv_access v w \<Longrightarrow> clean m0 w"
  unfolding clean_def using access_kind.exhaust by metis

lemma lasting_clean: "lasting (clean m0)"
  by (auto simp: lasting_def clean_def no_port_def shrunk_def no_server_def)

definition tracked :: "load_balancer_machine \<Rightarrow> 'w \<Rightarrow> bool" where
  "tracked m0 w = (mv_wf v w \<and> (\<forall>m. mv_stored v w (key_of m0) = Some m \<longrightarrow>
     key_of m = key_of m0 \<and> port_pending m0 (lbm_Status m) w))"

lemma tracked_shrunk: "tracked m0 w \<Longrightarrow> shrunk v w w' \<Longrightarrow> same_status v (key_of m0) w w' \<Longrightarrow> tracked m0 w'"
  by (fastforce simp: tracked_def same_status_def port_pending_def shrunk_def)

definition outcome :: "load_balancer_machine \<Rightarrow> ctrl_result result \<Rightarrow> ('w, call) mst \<Rightarrow> bool" where
  "outcome m0 r t = (tracked m0 (world t) \<and> (r = Ok emptyResult \<longrightarrow> clean m0 (world t)))"

lemma good_tracked: "good m0 w0 s \<Longrightarrow> tracked m0 (world s)"
  by (simp add: good_def tracked_def)

lemma outcome_step:
  assumes "achieves m0 m x A" and "lasting D" and "good m0 w0 s" and "D (world s)"
    and "\<And>y t. good m0 w0 t \<Longrightarrow> D (world t) \<Longrightarrow> (y = x \<Longrightarrow> A (world t)) \<Longrightarrow> runs (k y) t (outcome m0)"
  shows "runs (bindM m k) s (outcome m0)"
proof -
  have m: "runs m s (\<lambda>r t. (good m0 w0 t \<and> (r = Ok x \<longrightarrow> A (world t))) \<and> D (world t))"
    by (rule runs_weaken [OF runs_conj [OF assms(1) [unfolded achieves_def, rule_format, OF assms(3)]
          assms(1) [unfolded achieves_def, rule_format, OF good_start [OF assms(3)]]]])
      (use assms(2,4) in \<open>auto simp: good_def lasting_def\<close>)
  show ?thesis
    unfolding runs_bindM
    by (rule runs_weaken [OF m]) (auto simp: caseR_def outcome_def intro: assms(5) good_tracked split: result.split)
qed

lemma runs_removeFinalizer:
  assumes "good m0 w0 s" and "clean m0 (world s)"
  shows "runs (thenM (getM (\<lambda>m. record_call (c m))) (thenM (RemoveMachineFinalizer mk fin) (ret emptyResult))) s (outcome m0)"
proof -
  note key = good_key [OF assms(1)]
  have key': "key_of (mcur s\<lparr>meta_Finalizers := fs\<rparr>) = key_of m0" for fs
    using key by (simp add: key_of_def)
  obtain answer w where p: "mk_PatchFinalizers mk (key_of m0) (RemoveFinalizer (meta_Finalizers (mcur s)) fin) (world s) = (answer, w)"
    by fastforce
  have "shrunk v (world s) w" "same_status v (key_of m0) (world s) w"
    using patch_finalizers [OF p] assms(1) by (simp_all add: good_def)
  then have "tracked m0 w" "clean m0 w"
    using good_tracked [OF assms(1)] assms(2) lasting_clean [of m0] by (auto simp: lasting_def intro: tracked_shrunk)
  then show ?thesis
    using good_tracked [OF assms(1)] assms(2)
    by (auto simp: RemoveMachineFinalizer_def mcall_def runs_simps Let_def key' p key outcome_def caseR_def split: result.split)
qed

lemma runs_deletion:
  assumes "waits (mr_WaitFor mr)" and "mr_Objects mr = mk" and "good m0 w0 s"
  shows "runs (deleteMachineResources mr os sv) s (outcome m0)"
  unfolding deleteMachineResources_def Let_def assms(2) thenM_def [of "deleteServer mr sv"] thenM_def [of "deleteSA mk"]
    thenM_def [of "deleteRoleBinding mk"] thenM_def [of "deleteRole mk"]
proof (rule outcome_step [OF deleteServer_achieves [OF assms(1,2)] lasting_simps(4) assms(3)])
  fix y :: unit and t assume g: "good m0 w0 t" and srv: "y = () \<Longrightarrow> no_server (meta_Name m0) (world t)"
  show "runs (bindM (deletePort_lbm mk os) (\<lambda>requeue. if requeue then ret requeueDefault
      else bindM (deleteSA mk) (\<lambda>_. bindM (deleteRoleBinding mk) (\<lambda>_. bindM (deleteRole mk) (\<lambda>_.
        thenM (getM (\<lambda>m. record_call (CMetrics ''RemoveLoadBalancerMachineMetrics'' (key_of m))))
          (thenM (RemoveMachineFinalizer mk ServiceFinalizer_lbm) (ret emptyResult))))))) t (outcome m0)"
  proof (rule outcome_step [OF deletePort_achieves lasting_simps(1) g srv])
    fix b t assume g: "good m0 w0 t" "no_server (meta_Name m0) (world t)" and port: "b = False \<Longrightarrow> no_port m0 (world t)"
    show "runs (if b then ret requeueDefault
      else bindM (deleteSA mk) (\<lambda>_. bindM (deleteRoleBinding mk) (\<lambda>_. bindM (deleteRole mk) (\<lambda>_.
        thenM (getM (\<lambda>m. record_call (CMetrics ''RemoveLoadBalancerMachineMetrics'' (key_of m))))
          (thenM (RemoveMachineFinalizer mk ServiceFinalizer_lbm) (ret emptyResult)))))) t (outcome m0)"
    proof (cases b)
      case True
      then show ?thesis using good_tracked [OF g(1)] by (simp add: runs_simps outcome_def requeueDefault_def emptyResult_def
          DefaultRequeueTime_def Millisecond_def)
    next
      case False
      then have b: "b = False" by simp
      have D: "lasting (\<lambda>w. no_server (meta_Name m0) w \<and> no_port m0 w)"
        "lasting (\<lambda>w. (no_server (meta_Name m0) w \<and> no_port m0 w) \<and> (ACCOUNT, key_of m0) \<notin> mv_access v w)"
        "lasting (\<lambda>w. ((no_server (meta_Name m0) w \<and> no_port m0 w) \<and> (ACCOUNT, key_of m0) \<notin> mv_access v w) \<and>
           (BINDING, key_of m0) \<notin> mv_access v w)" by simp_all
      show ?thesis
        unfolding b if_False
        by (rule outcome_step [OF deleteAccess_achieves(1) D(1) g(1)], use g(2) port False in simp,
          rule outcome_step [OF deleteAccess_achieves(2) D(2)], assumption, simp,
          rule outcome_step [OF deleteAccess_achieves(3) D(3)], assumption, simp,
          rule runs_removeFinalizer, assumption, rule cleanI) simp_all
    qed
  qed simp
qed simp

lemma tracked_good: "tracked m0 w \<Longrightarrow> mv_stored v w (key_of m0) = Some m \<Longrightarrow> good m0 w \<lparr>world = w, trace = tr, mcur = m\<rparr>"
  by (simp add: tracked_def good_def)

lemma deletion_tracked:
  assumes "waits (mr_WaitFor mr)" and "mr_Objects mr = mk"
  shows "machine_deletion v mr os sv m0 w \<Longrightarrow> tracked m0 w"
proof (induction rule: machine_deletion.induct)
  case (start w)
  then show ?case by (simp add: tracked_def port_pending_def)
next
  case (others w w')
  then show ?case by (blast intro: tracked_shrunk)
next
  case (reconcile w m tr r t)
  from runsD [OF runs_deletion [OF assms tracked_good [OF reconcile.IH reconcile.hyps(2)]] reconcile.hyps(3)] show ?case
    by (simp add: outcome_def)
qed

lemma finished_deletion:
  assumes "waits (mr_WaitFor mr)" and "mr_Objects mr = mk" and "machine_deletion v mr os sv m0 w" and "mv_stored v w (key_of m0) = Some m"
    and "deleteMachineResources mr os sv \<lparr>world = w, trace = tr, mcur = m\<rparr> = (Ok emptyResult, t)"
  shows "clean m0 (world t)"
  using runsD [OF runs_deletion [OF assms(1,2) tracked_good [OF deletion_tracked [OF assms(1-3)] assms(4)]] assms(5)]
  by (simp add: outcome_def)

end

text \<open>C4. A machine whose deletion has finished leaves nothing behind: however many reconciles it took,
  and whatever errors there were, when the routine returns an empty result (its finalizer is removed)
  no server has the name of the machine, no port has the name that the machine had recorded for its
  port when the deletion began, and its service account, role and role binding are gone - unless some
  lookup of an existing server by its id was answered by an unexpected code, which the code takes for
  the server being gone, and then a server can remain.\<close>

theorem machine_deletion_leaves_nothing:
  assumes "machine_cloud mk os sv v" and "waits (mr_WaitFor mr)" and "mr_Objects mr = mk"
    and "machine_deletion v mr os sv m0 w" and "mv_stored v w (key_of m0) = Some m"
    and "deleteMachineResources mr os sv \<lparr>world = w, trace = tr, mcur = m\<rparr> = (Ok emptyResult, t)"
  shows "(\<not> mv_lost v (world t) \<longrightarrow> (\<forall>i. (i, meta_Name m0) \<notin> mv_servers v (world t))) \<and>
    (\<forall>n. lbm_DefaultPortName (lbm_Status m0) = Some n \<longrightarrow> n \<notin> mv_ports v (world t)) \<and>
    (\<forall>kd. (kd, key_of m0) \<notin> mv_access v (world t))"
  using machine_cloud.finished_deletion [OF assms]
  unfolding machine_cloud.clean_def [OF assms(1)] machine_cloud.no_server_def [OF assms(1)] machine_cloud.no_port_def [OF assms(1)]
  by blast

section \<open>The in-memory cloud satisfies the laws\<close>

text \<open>Polling at most \<open>n\<close> times\<close>

primrec poll_up_to :: "nat \<Rightarrow> ('w, bool) mop \<Rightarrow> ('w, unit) mop" where
  "poll_up_to 0 p = fail (OtherErr ''context deadline exceeded'')"
| "poll_up_to (Suc n) p = bindM p (\<lambda>b. if b then ret () else poll_up_to n p)"

lemma runs_poll_up_to:
  assumes "preserves I p"
  shows "I s \<Longrightarrow> runs (poll_up_to n p) s (\<lambda>r t. I t \<and> (r = Ok () \<longrightarrow> (\<exists>u. I u \<and> p u = (Ok True, t))))"
proof (induction n arbitrary: s)
  case 0
  then show ?case by (simp add: runs_simps)
next
  case (Suc n)
  obtain r t where p: "p s = (r, t)" by fastforce
  have "I t" using preservesD [OF assms Suc.prems] p by (simp add: runs_def)
  with Suc show ?case
    using p by (cases r) (auto simp: runs_simps runs_def [of p] intro: Suc.IH)
qed

lemma waits_poll_up_to: "waits (\<lambda>d. poll_up_to n)"
  unfolding waits_def using runs_poll_up_to by blast

definition mem_view :: "mem machine_view" where
  "mem_view = \<lparr>
     mv_stored = (\<lambda>w n. List.find (\<lambda>x. key_of x = n) (mem_machines w)),
     mv_servers = (\<lambda>w. {(srv_ID s, srv_Name s) | s k. (k, s) \<in> set (mem_servers w) \<and> srv_Status s \<noteq> ServerStatusDeleted}),
     mv_ports = (\<lambda>w. port_Name ` set (map snd (mem_ports w))),
     mv_access = (\<lambda>w. Pair ACCOUNT ` set (mem_accounts w) \<union> Pair BINDING ` set (mem_bindings w) \<union> Pair ROLE ` set (mem_roles w)),
     mv_lost = (\<lambda>w. False),
     mv_wf = (\<lambda>w. distinct (map fst (mem_servers w)) \<and> (\<forall>(k, s) \<in> set (mem_servers w). srv_ID s = k \<and> k \<noteq> []) \<and>
        (\<forall>(k, p) \<in> set (mem_ports w). port_ID p \<noteq> []) \<and> distinct (map key_of (mem_machines w)))\<rparr>"

lemma quiet_readonly: "(\<And>w. snd (f w) = w) \<Longrightarrow> quiet mem_view f"
  unfolding quiet_def by (metis shrunk_refl snd_conv)

lemmas machine_fake_defs = fake_servers_def fake_os_def mem_machine_kube_def fake_server_List_def fake_server_Get_def
  fake_server_Delete_def fake_port_List_def fake_port_Delete_def found_def key_Delete_def

lemma shrunk_machines:
  "map key_of ms = map key_of (mem_machines w) \<Longrightarrow> shrunk mem_view w (w\<lparr>mem_machines := ms\<rparr>)"
  by (simp add: shrunk_def mem_view_def)

lemma mem_PatchMachine_view:
  assumes "mem_PatchMachine f n w = (r, w')" and "\<And>m. key_of (f m) = key_of m"
  shows "shrunk mem_view w w' \<and>
     (case r of
        Ok m' \<Rightarrow> \<exists>m. mv_stored mem_view w n = Some m \<and> m' = f m \<and> mv_stored mem_view w' = (mv_stored mem_view w)(n \<mapsto> m')
      | _ \<Rightarrow> mv_stored mem_view w' = mv_stored mem_view w)"
proof (cases "List.find (\<lambda>x. key_of x = n) (mem_machines w)")
  case None
  with assms(1) show ?thesis by (auto simp: mem_PatchMachine_def api_not_found_def)
next
  case (Some m)
  have key: "key_of m = n" using Some by (auto simp: find_Some_iff)
  have keys: "map key_of (map (\<lambda>x. if key_of x = n then f x else x) xs) = map key_of xs" for xs
    by (simp add: assms(2))
  have "List.find (\<lambda>x. key_of x = k) (map (\<lambda>x. if key_of x = n then f x else x) (mem_machines w)) =
      ((\<lambda>k. List.find (\<lambda>x. key_of x = k) (mem_machines w))(n \<mapsto> f m)) k" for k
  proof (cases "k = n")
    case True
    then show ?thesis by (simp add: find_change [where f = f and key = key_of, OF assms(2)] Some key)
  next
    case False
    have "key_of x = k" if "List.find (\<lambda>x. key_of x = k) (mem_machines w) = Some x" for x
      using that by (rule find_key)
    with False show ?thesis
      by (cases "List.find (\<lambda>x. key_of x = k) (mem_machines w)")
        (simp_all add: find_change [where f = f and key = key_of, OF assms(2)])
  qed
  then have "mv_stored mem_view (w\<lparr>mem_machines := map (\<lambda>x. if key_of x = n then f x else x) (mem_machines w)\<rparr>) =
      (mv_stored mem_view w)(n \<mapsto> f m)"
    by (simp add: mem_view_def fun_eq_iff)
  moreover have "mv_stored mem_view w n = Some m" using Some by (simp add: mem_view_def)
  moreover have "r = Ok (f m)" "w' = w\<lparr>mem_machines := map (\<lambda>x. if key_of x = n then f x else x) (mem_machines w)\<rparr>"
    using assms(1) Some by (simp_all add: mem_PatchMachine_def)
  ultimately show ?thesis
    using shrunk_machines [OF keys] by simp
qed

lemma delete_distinct_keys: "distinct (map fst xs) \<Longrightarrow> distinct (map fst (AList.delete i xs))"
  by (simp add: distinct_delete)

lemma same_status_collect:
  assumes "mem_PatchMachine (\<lambda>m. m\<lparr>meta_Finalizers := fs\<rparr>) n w = (r, w')" and "mv_wf mem_view w"
  shows "shrunk mem_view w (mem_collect_machines w') \<and> same_status mem_view n w (mem_collect_machines w')"
proof -
  have key: "key_of (m\<lparr>meta_Finalizers := fs\<rparr>) = key_of m" for m :: load_balancer_machine
    by (simp add: key_of_def)
  note view = mem_PatchMachine_view [OF assms(1) key]
  have w': "shrunk mem_view w w'" using view by simp
  then have "mv_wf mem_view w'" using assms(2) by (simp add: shrunk_def)
  then have wf: "distinct (map key_of (mem_machines w'))" by (simp add: mem_view_def)
  have coll: "shrunk mem_view w' (mem_collect_machines w')"
    by (auto simp: shrunk_def mem_view_def mem_collect_machines_def distinct_map_filter)
  have stored: "mv_stored mem_view w' k = Some m" if "mv_stored mem_view (mem_collect_machines w') k = Some m" for k m
  proof -
    have f: "List.find (\<lambda>x. key_of x = k) (mem_machines (mem_collect_machines w')) = Some m"
      using that by (simp add: mem_view_def)
    then have "m \<in> set (mem_machines (mem_collect_machines w'))" by (rule find_member)
    then have "m \<in> set (mem_machines w')" by (simp add: mem_collect_machines_def)
    from find_distinct_key [OF wf this] find_key [OF f] show ?thesis by (simp add: mem_view_def)
  qed
  have "same_status mem_view n w w'"
    using view by (cases r) (auto simp: same_status_def key)
  then show ?thesis
    using shrunk_trans [OF w' coll] stored by (auto simp: same_status_def)
qed

lemma shrunk_delete:
  "shrunk mem_view w (w\<lparr>mem_servers := AList.delete i (mem_servers w)\<rparr>)"
  "shrunk mem_view w (w\<lparr>mem_ports := AList.delete i (mem_ports w)\<rparr>)"
  unfolding shrunk_def
  by (intro conjI impI; force simp: mem_view_def delete_distinct_keys dest: delete_subset)+

lemma shrunk_remove:
  "shrunk mem_view w (mem_accounts_update (removeAll n) w)" "shrunk mem_view w (mem_bindings_update (removeAll n) w)"
  "shrunk mem_view w (mem_roles_update (removeAll n) w)"
  unfolding shrunk_def by (intro conjI impI; force simp: mem_view_def)+

interpretation fake_machines: machine_cloud mem_machine_kube "fake_os gen" fake_servers mem_view
proof
  show "quiet mem_view (os_ServerClient fake_servers)" "quiet mem_view (os_PortClient (fake_os gen))"
      "quiet mem_view (server_List fake_servers i)" "quiet mem_view (server_Get fake_servers i)"
      "quiet mem_view (port_List (fake_os gen) i)" for i
    by (rule quiet_readonly, simp add: machine_fake_defs split: option.split)+
  show "quiet mem_view (server_Delete fake_servers i)" for i
    by (auto simp: quiet_def fake_servers_def fake_server_Delete_def shrunk_delete) (simp add: mem_view_def)
  show "quiet mem_view (port_Delete (fake_os gen) i)" for i
    by (auto simp: quiet_def fake_os_def fake_port_Delete_def shrunk_delete split: option.splits) (simp add: mem_view_def)
  show "quiet mem_view (mk_DeleteSA mem_machine_kube n)" "quiet mem_view (mk_DeleteRole mem_machine_kube n)"
      "quiet mem_view (mk_DeleteRoleBinding mem_machine_kube n)" for n
    by (auto simp: quiet_def mem_machine_kube_def key_Delete_def shrunk_remove split: if_splits) (simp_all add: mem_view_def)
  show "i \<noteq> [] \<and> (\<exists>x\<in>set xs. srv_ID x = i \<and> srv_Name x = name)"
    if "server_List fake_servers name w = (Ok xs, w')" "mv_wf mem_view w'" "(i, name) \<in> mv_servers mem_view w'" for name w xs w' i
  proof -
    have xs: "xs = filter (\<lambda>v. \<not> (name \<noteq> [] \<and> name \<noteq> srv_Name v)) (map snd (mem_servers w))" and "w' = w"
      using that(1) by (auto simp: fake_servers_def fake_server_List_def)
    with that(3) obtain k s where s: "(k, s) \<in> set (mem_servers w)" "srv_ID s = i" "srv_Name s = name"
      by (auto simp: mem_view_def)
    then have "s \<in> set xs" unfolding xs by force
    moreover have "i \<noteq> []" using that(2) \<open>w' = w\<close> s by (auto simp: mem_view_def)
    ultimately show ?thesis using s by blast
  qed
  have at_key: "(i, name) \<in> mv_servers mem_view w \<Longrightarrow> mv_wf mem_view w \<Longrightarrow>
      \<exists>s. map_of (mem_servers w) i = Some s \<and> srv_Status s \<noteq> ServerStatusDeleted" for i name w
  proof -
    assume a: "(i, name) \<in> mv_servers mem_view w" "mv_wf mem_view w"
    then obtain k s where s: "(k, s) \<in> set (mem_servers w)" "srv_ID s = i" "srv_Status s \<noteq> ServerStatusDeleted"
      by (auto simp: mem_view_def)
    with a(2) have "k = i" "distinct (map fst (mem_servers w))" by (auto simp: mem_view_def)
    with s show ?thesis by auto
  qed
  show "mv_lost mem_view w'"
    if "server_Get fake_servers i w = (Err e, w')" "mv_wf mem_view w'" "(i, name) \<in> mv_servers mem_view w'" for i w e w' name
    using that(1) at_key [OF that(3,2)] by (auto simp: fake_servers_def fake_server_Get_def found_def split: option.splits)
  show "(i, name) \<notin> mv_servers mem_view w'"
    if "server_Get fake_servers i w = (Ok (Some x), w')" "srv_Status x = ServerStatusDeleted" "mv_wf mem_view w'" for i w x w' name
    using that(1,2) at_key [OF _ that(3), of i name]
    by (auto simp: fake_servers_def fake_server_Get_def found_def split: option.splits)
  show "\<exists>p. find (\<lambda>p. port_Name p = name) ps = Some p \<and> port_ID p \<noteq> []"
    if "port_List (fake_os gen) name w = (Ok ps, w')" "mv_wf mem_view w'" "name \<in> mv_ports mem_view w'" for name w ps w'
  proof -
    have ps: "ps = filter (\<lambda>v. \<not> (name \<noteq> [] \<and> name \<noteq> port_Name v)) (map snd (mem_ports w))" "w' = w"
      using that(1) by (auto simp: fake_os_def fake_port_List_def)
    from that(3) ps(2) obtain q where q: "q \<in> set (map snd (mem_ports w))" "port_Name q = name"
      by (auto simp: mem_view_def)
    then have "find (\<lambda>p. port_Name p = name) ps \<noteq> None"
      unfolding ps(1) find_None_iff by force
    then obtain p where p: "find (\<lambda>p. port_Name p = name) ps = Some p" by blast
    then have "p \<in> set (map snd (mem_ports w))"
      using find_member [OF p] unfolding ps(1) by (metis filter_is_subset subsetD)
    moreover have "\<forall>x \<in> set (mem_ports w). port_ID (snd x) \<noteq> []"
      using that(2) ps(2) by (auto simp: mem_view_def)
    ultimately show ?thesis using p by auto
  qed
  show "(ACCOUNT, n) \<notin> mv_access mem_view w'" if "mk_DeleteSA mem_machine_kube n w = (r, w')" for n w r w'
    using that by (auto simp: mem_machine_kube_def key_Delete_def mem_view_def split: if_splits)
  show "(BINDING, n) \<notin> mv_access mem_view w'" if "mk_DeleteRoleBinding mem_machine_kube n w = (r, w')" for n w r w'
    using that by (auto simp: mem_machine_kube_def key_Delete_def mem_view_def split: if_splits)
  show "(ROLE, n) \<notin> mv_access mem_view w'" if "mk_DeleteRole mem_machine_kube n w = (r, w')" for n w r w'
    using that by (auto simp: mem_machine_kube_def key_Delete_def mem_view_def split: if_splits)
next
  fix n p w answer w'
  assume p: "mk_PatchStatus mem_machine_kube n p w = (answer, w')"
  have key: "key_of (m\<lparr>lbm_Status := st\<rparr>) = key_of m" for m :: load_balancer_machine and st
    by (simp add: key_of_def)
  from p have "mem_PatchMachine (\<lambda>m. m\<lparr>lbm_Status := merge_lbm_status p (lbm_Status m)\<rparr>) n w = (answer, w')"
    by (simp add: mem_machine_kube_def)
  from mem_PatchMachine_view [OF this key] show "shrunk mem_view w w' \<and>
        (case answer of
           Ok m' \<Rightarrow> \<exists>m. mv_stored mem_view w n = Some m \<and> key_of m' = key_of m \<and>
             lbm_Status m' = merge_lbm_status p (lbm_Status m) \<and> mv_stored mem_view w' = (mv_stored mem_view w)(n \<mapsto> m')
         | _ \<Rightarrow> mv_stored mem_view w' = mv_stored mem_view w)"
    by (cases answer) (auto simp: key)
next
  fix n fs w answer w'
  assume "mk_PatchFinalizers mem_machine_kube n fs w = (answer, w')" "mv_wf mem_view w"
  then show "shrunk mem_view w w' \<and> same_status mem_view n w w'"
    using same_status_collect by (fastforce simp: mem_machine_kube_def apsnd_def map_prod_def split: prod.splits)
qed

section \<open>An example\<close>

definition mem_machine_reconciler :: "mem machine_reconciler" where
  "mem_machine_reconciler = \<lparr>mr_Client = mem_kube, mr_Objects = mem_machine_kube,
     mr_getOsClientForIni = (\<lambda>ini project w. (Ok (fake_os Itoa, fake_servers), w)),
     mr_APIEndpoint = ''https://api'', mr_YawolletRequeueTime = 0, mr_NTPPools = [], mr_NTPServers = [],
     mr_WaitFor = (\<lambda>d. poll_up_to 3), mr_encode = (\<lambda>c. Ok (kc_Token c)), mr_yaml = (\<lambda>ls. Ok []), mr_same_time = (=)\<rparr>"

definition example_machine :: "lbm_status \<Rightarrow> load_balancer_machine" where
  "example_machine st = \<lparr>meta_APIVersion = [], meta_Kind = [], meta_Name = ''m1'', meta_Namespace = ''ns'', meta_UID = [],
     meta_ResourceVersion = [], meta_Labels = Map.empty, meta_Annotations = Map.empty, meta_Finalizers = [ServiceFinalizer_lbm],
     meta_OwnerReferences = [], meta_CreationTimestamp = 0, meta_DeletionTimestamp = Some 1,
     lbm_Spec = \<lparr>mspec_Infrastructure = zero_infra, mspec_PortID = ''lb-port'', mspec_ServerGroupID = [],
       mspec_LoadBalancerRef = \<lparr>lbr_Name = ''lb'', lbr_Namespace = ''ns''\<rparr>\<rparr>,
     lbm_Status = st\<rparr>"

definition example_cloud :: "(string \<times> server) list \<Rightarrow> (string \<times> port) list \<Rightarrow> load_balancer_machine \<Rightarrow> mem" where
  "example_cloud servers ports m = \<lparr>mem_id = 1, mem_fips = [], mem_ports = ports, mem_groups = [], mem_rules = [],
     mem_servers = servers, mem_servergroups = [], mem_lbs = [], mem_sets = [], mem_machines = [m], mem_secrets = [],
     mem_accounts = [key_of m], mem_roles = [key_of m], mem_bindings = [], mem_now = 0, mem_snapshot = initial_snapshot\<rparr>"

definition example_server :: server where
  "example_server = \<lparr>srv_ID = ''7'', srv_Name = ''m1'', srv_Status = ''ACTIVE'', srv_Created = 0, srv_Fault = []\<rparr>"

definition example_port :: port where
  "example_port = \<lparr>port_ID = ''8'', port_Name = ''ns/m1'', port_NetworkID = [], port_FixedIPs = [], port_SecurityGroups = [],
     port_AllowedAddressPairs = []\<rparr>"

abbreviation example_named :: lbm_status where
  "example_named \<equiv> no_lbm_status\<lparr>lbm_DefaultPortName := Some ''ns/m1''\<rparr>"

lemmas machine_run_defs = thenM_def bindM_def catchM_def wrapM_def ret_def fail_def ext_def mcall_def getM_def putM_def
  record_call_def RemoveFromLBMStatus_def patchMachine_def deleteMachineResources_def deleteServer_def deleteServerAndWait_def
  waitForServerStatus_def pollServerStatus_def DeleteServer_def GetServerByID_def deletePort_lbm_def deleteDefaultPort_def
  deleteDeprecatedPort_def deletePortByName_lbm_def GetPortByName_def PortList_def DeletePort_def deleteSA_def
  deleteRole_def deleteRoleBinding_def ignoreNotFound_def RemoveMachineFinalizer_def mem_machine_reconciler_def
  mem_PatchMachine_def api_not_found_def remove_lbm_key_def no_lbm_status_def drop_if_def NotFoundResponse_def
  numeral_3_eq_3

lemma example_deletion1:
  "\<exists>t. deleteMachineResources mem_machine_reconciler (fake_os Itoa) fake_servers
      \<lparr>world = example_cloud [(''7'', example_server)] [(''8'', example_port)] (example_machine example_named),
       trace = [], mcur = example_machine example_named\<rparr> = (Ok requeueDefault, t) \<and>
    world t = example_cloud [] [] (example_machine example_named)"
  by (simp add: machine_run_defs machine_fake_defs example_cloud_def example_machine_def example_server_def example_port_def
      key_of_def Let_def ServerStatusActive_def ServerStatusStopped_def ServerStatusError_def ServerStatusDeleted_def)

lemma example_deletion2:
  "\<exists>t. deleteMachineResources mem_machine_reconciler (fake_os Itoa) fake_servers
      \<lparr>world = example_cloud [] [] (example_machine example_named),
       trace = [], mcur = example_machine example_named\<rparr> = (Ok emptyResult, t) \<and> mem_machines (world t) = []"
  by (simp add: machine_run_defs machine_fake_defs example_cloud_def example_machine_def
      key_of_def Let_def ContainsFinalizer_def RemoveFinalizer_def mem_collect_machines_def is_deleting_def)

lemma machine_deletion_leaves_nothing_witness:
  "\<exists>t. deleteMachineResources mem_machine_reconciler (fake_os Itoa) fake_servers
      \<lparr>world = example_cloud [] [] (example_machine example_named), trace = [], mcur = example_machine example_named\<rparr> =
        (Ok emptyResult, t) \<and>
     (\<forall>i. (i, ''m1'') \<notin> mv_servers mem_view (world t)) \<and> ''ns/m1'' \<notin> mv_ports mem_view (world t)"
proof -
  let ?m = "example_machine example_named"
  have st: "mv_stored mem_view (example_cloud srvs ps ?m) (key_of ?m) = Some ?m" for srvs ps
    by (simp add: mem_view_def example_cloud_def)
  have "mv_wf mem_view (example_cloud [(''7'', example_server)] [(''8'', example_port)] ?m)"
    by (simp add: mem_view_def example_cloud_def example_server_def example_port_def)
  from machine_deletion.start [OF this st]
  have start: "machine_deletion mem_view mem_machine_reconciler (fake_os Itoa) fake_servers ?m
      (example_cloud [(''7'', example_server)] [(''8'', example_port)] ?m)" .
  have hist: "machine_deletion mem_view mem_machine_reconciler (fake_os Itoa) fake_servers ?m (example_cloud [] [] ?m)"
    using example_deletion1 machine_deletion.reconcile [OF start st] by metis
  have mr: "waits (mr_WaitFor mem_machine_reconciler)" "mr_Objects mem_machine_reconciler = mem_machine_kube"
    by (simp_all add: mem_machine_reconciler_def waits_poll_up_to)
  obtain t where t: "deleteMachineResources mem_machine_reconciler (fake_os Itoa) fake_servers
      \<lparr>world = example_cloud [] [] ?m, trace = [], mcur = ?m\<rparr> = (Ok emptyResult, t)"
    using example_deletion2 by blast
  have "\<not> mv_lost mem_view (world t)" "meta_Name ?m = ''m1''" "lbm_DefaultPortName (lbm_Status ?m) = Some ''ns/m1''"
    by (simp_all add: mem_view_def example_machine_def)
  with machine_deletion_leaves_nothing [OF fake_machines.machine_cloud_axioms mr hist st t] t show ?thesis
    by auto
qed

end
