(* ===== verification/MachineServers.thy ===== *)
theory MachineServers
  imports MachineCleanup
begin

text \<open>
  The reconcile of a machine that is not being deleted: when a server is created and with what, which
  address pairs the port gets, and what the status records about the access to the Kubernetes API. The
  locale \<open>server_listing\<close> states that the reads before the listing change nothing and that the listing
  is complete.
\<close>

section \<open>One server per machine\<close>

fun is_create :: "call \<times> bool \<Rightarrow> bool" where
  "is_create (CMachine (MServerCreate opts hint), ok) = True"
| "is_create c = False"

definition still :: "('w \<Rightarrow> (string \<times> string) set) \<Rightarrow> ('w, 'a) gop \<Rightarrow> bool" where
  "still servers f = (\<forall>w r w'. f w = (r, w') \<longrightarrow> servers w' = servers w)"

locale server_listing =
  fixes k :: "'w kube" and sv :: "'w server_env" and servers :: "'w \<Rightarrow> (string \<times> string) set"
  assumes still_reads: "still servers (os_ServerClient sv)" "still servers (k_GetSecret k n)"
    and listed: "server_List sv name w = (Ok xs, w') \<Longrightarrow> (i, name) \<in> servers w \<Longrightarrow> \<exists>x \<in> set xs. srv_Name x = name"
begin

definition steady :: "('w, call) mst \<Rightarrow> ('w, call) mst \<Rightarrow> bool" where
  "steady s t = (mcur t = mcur s \<and> servers (world t) = servers (world s) \<and> extends (\<lambda>c. \<not> is_create c) s t)"

lemma steady_refl [simp]: "steady s s"
  by (simp add: steady_def)

lemma steady_ext:
  assumes "still servers f" and "\<And>ok. \<not> is_create (c, ok)"
  shows "preserves (steady s) (ext c f)"
  using assms by (auto simp: preserves_def runs_simps steady_def still_def extends_def split: prod.split)

lemma steady_kubeconfig: "mr_Client mr = k \<Longrightarrow> preserves (steady s) (getKubeConfigForServiceAccount mr n)"
  unfolding getKubeConfigForServiceAccount_def
  by (intro preserves_intros steady_ext) (auto simp: still_reads split: option.split intro: preserves_intros)

end

definition no_creates :: "('w, 'a) mop \<Rightarrow> bool" where
  "no_creates m = emits (\<lambda>c. \<not> is_create c) m"

lemma no_creates_patch: "no_creates (PatchLBMStatus mk st)"
  unfolding no_creates_def PatchLBMStatus_def patchMachine_def mcall_def by (intro emits_intros emits_getM emits_putM) simp

lemma no_creates_recordServer: "no_creates (recordServer mr srv)"
  unfolding no_creates_def recordServer_def Let_def
  by (intro emits_intros emits_getM no_creates_patch [unfolded no_creates_def])

lemma no_creates_poll: "no_creates (pollServerStatus sv i pending target)"
  unfolding no_creates_def pollServerStatus_def GetServerByID_def mcall_def by (intro emits_intros) simp

lemma no_creates_wait:
  assumes "waits (mr_WaitFor mr)"
  shows "no_creates (waitForServerStatus mr sv i pending target secs)"
  unfolding no_creates_def emits_def waitForServerStatus_def
proof
  fix s
  have "preserves (extends (\<lambda>c. \<not> is_create c) s) (pollServerStatus sv i pending target)"
    unfolding preserves_def
    using no_creates_poll [of sv i pending target] by (auto simp: no_creates_def intro: runs_weaken [OF emits_runs] extends_trans)
  from assms [unfolded waits_def, rule_format, OF this, of s "secs * Second"]
  show "runs (mr_WaitFor mr (secs * Second) (pollServerStatus sv i pending target)) s (\<lambda>_ t. extends (\<lambda>c. \<not> is_create c) s t)"
    by (rule runs_weaken) simp_all
qed

text \<open>The request for a server of the machine.\<close>

definition server_request :: "load_balancer_machine \<Rightarrow> load_balancer \<Rightarrow> server_create_opts \<Rightarrow> string option \<Rightarrow> bool" where
  "server_request m lb opts hint = (let infra = mspec_Infrastructure (lbm_Spec m) in
     sco_Name opts = meta_Name m \<and>
     GetImageID (infra_Image infra) = Ok (sco_ImageRef opts) \<and> GetFlavorID (infra_Flavor infra) = Ok (sco_FlavorRef opts) \<and>
     networkID_of infra \<noteq> [] \<and>
     (\<exists>portID. lbm_DefaultPortID (lbm_Status m) = Some portID \<and>
        sco_Networks opts = \<lparr>snw_UUID = networkID_of infra, snw_Port = portID\<rparr> #
          map (\<lambda>n. \<lparr>snw_UUID = an_NetworkID n, snw_Port = []\<rparr>) (case infra_AdditionalNetworks infra of None \<Rightarrow> [] | Some ns \<Rightarrow> ns)) \<and>
     sco_AvailabilityZone opts = infra_AvailabilityZone infra \<and>
     (sco_KeyName opts \<noteq> None \<longrightarrow> dbg_Enabled (spec_DebugSettings (lb_Spec lb))) \<and>
     hint = (if mspec_ServerGroupID (lbm_Spec m) \<noteq> [] then Some (mspec_ServerGroupID (lbm_Spec m)) else None))"

text \<open>At most one call between two states creates a server, and only as requested.\<close>

definition creates_only :: "(server_create_opts \<Rightarrow> string option \<Rightarrow> bool) \<Rightarrow> ('w, call) mst \<Rightarrow> ('w, call) mst \<Rightarrow> bool" where
  "creates_only P s t = (\<exists>cs. trace t = trace s @ cs \<and>
     (filter is_create cs = [] \<or> (\<exists>opts hint ok. filter is_create cs = [(CMachine (MServerCreate opts hint), ok)] \<and> P opts hint)))"

lemma creates_only_none: "extends (\<lambda>c. \<not> is_create c) s t \<Longrightarrow> creates_only P s t"
  by (auto simp: creates_only_def extends_def filter_empty_conv)

lemma creates_only_trans:
  "extends (\<lambda>c. \<not> is_create c) s t \<Longrightarrow> creates_only P t u \<Longrightarrow> creates_only P s u"
  "creates_only P s t \<Longrightarrow> extends (\<lambda>c. \<not> is_create c) t u \<Longrightarrow> creates_only P s u"
  by (fastforce simp: creates_only_def extends_def filter_empty_conv)+

lemma runs_createServer:
  assumes "waits (mr_WaitFor mr)"
  shows "runs (createServer mr sv lb userdata) s (\<lambda>_ t. creates_only (server_request (mcur s) lb) s t)"
proof -
  let ?m = "mcur s" and ?infra = "mspec_Infrastructure (lbm_Spec (mcur s))"
  let ?post = "\<lambda>_ :: server result. creates_only (server_request ?m lb) s"
  have made: "runs (bindM (CreateServer sv opts hint) (\<lambda>server. deref server (\<lambda>srv.
       thenM (waitForServerStatus mr sv (srv_ID srv) [''BUILD''] [''ACTIVE''] 600) (ret srv)))) s ?post"
    if "server_request ?m lb opts hint" for opts hint
  proof -
    obtain r w where c: "server_Create sv opts hint (world s) = (r, w)" by fastforce
    let ?s = "s\<lparr>world := w, trace := trace s @ [(CMachine (MServerCreate opts hint), is_Ok r)]\<rparr>"
    have one: "creates_only (server_request ?m lb) s ?s"
      using that by (auto simp: creates_only_def)
    have "emits (\<lambda>c. \<not> is_create c) (deref server (\<lambda>srv.
        thenM (waitForServerStatus mr sv (srv_ID srv) [''BUILD''] [''ACTIVE''] 600) (ret srv)))" for server
      by (intro emits_intros no_creates_wait [OF assms, unfolded no_creates_def])
    then have "runs (deref server (\<lambda>srv.
        thenM (waitForServerStatus mr sv (srv_ID srv) [''BUILD''] [''ACTIVE''] 600) (ret srv))) ?s ?post" for server
      by (rule runs_weaken [OF emits_runs]) (rule creates_only_trans(2) [OF one])
    with one show ?thesis
      by (cases r) (simp_all add: CreateServer_def mcall_def runs_bindM runs_ext c)
  qed
  have none: "?post r s" for r
    by (rule creates_only_none) simp
  show ?thesis
  proof (cases "GetImageID (infra_Image ?infra)"; cases "GetFlavorID (infra_Flavor ?infra)")
    fix i f assume ids: "GetImageID (infra_Image ?infra) = Ok i" "GetFlavorID (infra_Flavor ?infra) = Ok f"
    show ?thesis
    proof (cases "lbm_DefaultPortID (lbm_Status ?m)")
      case None
      then show ?thesis by (simp add: createServer_def runs_getM runs_bindM runs_liftR ids Let_def runs_fail runs_deref none)
    next
      case (Some p)
      have "networkID_of ?infra \<noteq> [] \<Longrightarrow> server_request ?m lb (server_opts ?m lb i f (networkID_of ?infra) p userdata)
          (if mspec_ServerGroupID (lbm_Spec ?m) \<noteq> [] then Some (mspec_ServerGroupID (lbm_Spec ?m)) else None)"
        by (simp add: server_request_def server_opts_def Let_def ids Some)
      from made [OF this] show ?thesis
        by (simp add: createServer_def runs_getM runs_bindM runs_liftR ids Let_def runs_fail runs_deref Some none)
    qed
  qed (simp_all add: createServer_def runs_getM runs_bindM runs_liftR Let_def none)
qed

definition server_wanted :: "('w \<Rightarrow> (string \<times> string) set) \<Rightarrow> ('w, call) mst \<Rightarrow> load_balancer \<Rightarrow> server_create_opts \<Rightarrow> string option \<Rightarrow> bool" where
  "server_wanted servers s lb opts hint =
     ((\<forall>i. (i, meta_Name (mcur s)) \<notin> servers (world s)) \<and> server_request (mcur s) lb opts hint)"

lemma creates_only_weaken: "creates_only P s t \<Longrightarrow> (\<And>x y. P x y \<Longrightarrow> Q x y) \<Longrightarrow> creates_only Q s t"
  unfolding creates_only_def by blast

context server_listing begin

lemma runs_steady_bind:
  assumes "preserves (steady s0) m" and "steady s0 s"
    and "\<And>x t. steady s0 t \<Longrightarrow> runs (f x) t (\<lambda>_ u. creates_only P s0 u)"
  shows "runs (bindM m f) s (\<lambda>_ u. creates_only P s0 u)"
  unfolding runs_bindM
  by (rule runs_weaken [OF preservesD [OF assms(1,2)]])
    (auto simp: caseR_def steady_def intro: assms(3) creates_only_none split: result.split)

text \<open>What remains once the listing has been answered.\<close>

definition settle :: "'w machine_reconciler \<Rightarrow> load_balancer \<Rightarrow> string \<Rightarrow> load_balancer_machine \<Rightarrow> server option \<Rightarrow> ('w, unit) mop" where
  "settle mr lb userData m hit =
     (if (case hit of None \<Rightarrow> False | Some s \<Rightarrow> srv_Status s = ServerStatusError) then
       ext (CDeleteMachine (key_of m)) (k_DeleteMachine (mr_Client mr) (key_of m))
     else if lbm_DefaultPortID (lbm_Status m) = None then fail ErrPortIDEmpty
     else
       bindM (case hit of
            Some s \<Rightarrow> ret s
          | None \<Rightarrow> catchM (createServer mr sv lb userData) (SendErrorLBM lb) ret)
         (recordServer mr))"

lemma runs_settle:
  assumes "waits (mr_WaitFor mr)" and m: "m = mcur s" and "\<And>opts hint. hit = None \<Longrightarrow> server_request (mcur s) lb opts hint \<Longrightarrow> P opts hint"
  shows "runs (settle mr lb userData m hit) s (\<lambda>_ t. creates_only P s t)"
proof -
  show ?thesis
  proof (cases hit)
    case (Some x)
    have "emits (\<lambda>c. \<not> is_create c) (settle mr lb userData m hit)"
      unfolding settle_def Some option.case
      by (intro emits_intros no_creates_recordServer [unfolded no_creates_def]) simp
    then show ?thesis
      by (rule runs_weaken [OF emits_runs]) (rule creates_only_none)
  next
    case None
    have new: "runs (createServer mr sv lb userData) s (\<lambda>_ t. creates_only P s t)"
      by (rule runs_weaken [OF runs_createServer [OF assms(1)]])
        (use assms(3) [OF None] in \<open>auto elim: creates_only_weaken\<close>)
    have after: "runs (bindM (catchM (\<lambda>_. (r, t)) (SendErrorLBM lb) ret) (recordServer mr)) t
        (\<lambda>_ u. creates_only P s u)" if "creates_only P s t" for r t
    proof -
      have "emits (\<lambda>c. \<not> is_create c) (bindM (case r of Ok x \<Rightarrow> ret x | Err e \<Rightarrow> SendErrorLBM lb e | Crash c \<Rightarrow> crash c) (recordServer mr))"
        unfolding SendErrorLBM_def
        by (cases r) (auto intro!: emits_intros no_creates_recordServer [unfolded no_creates_def])
      from runs_weaken [OF emits_runs [OF this], of t] creates_only_trans(2) [OF that] show ?thesis
        by (cases r) (simp_all add: runs_def catchM_def bindM_def crash_def ret_def)
    qed
    have "runs (bindM (catchM (createServer mr sv lb userData) (SendErrorLBM lb) ret) (recordServer mr)) s
        (\<lambda>_ u. creates_only P s u)"
    proof -
      obtain r t where c: "createServer mr sv lb userData s = (r, t)" by fastforce
      with new have "creates_only P s t" by (simp add: runs_def)
      from after [OF this, of r] c show ?thesis by (simp add: runs_def catchM_def bindM_def)
    qed
    moreover have "creates_only P s s"
      by (rule creates_only_none) simp
    ultimately show ?thesis
      by (simp add: settle_def None runs_fail)
  qed
qed

lemma reconcileServer_settle:
  "reconcileServer mr sv lb vip =
     thenM (mcall MServerClient (os_ServerClient sv))
     (getM (\<lambda>m.
     bindM (getKubeConfigForServiceAccount mr (lbm_ServiceAccountSecretName (lbm_Status m))) (\<lambda>kubeconfig.
     bindM (liftR (GenerateUserData (mr_yaml mr) kubeconfig lb m vip (mr_YawolletRequeueTime mr) (mr_NTPPools mr) (mr_NTPServers mr)))
       (\<lambda>userData.
     bindM (GetServerByName sv (meta_Name m)) (settle mr lb userData m)))))"
  unfolding reconcileServer_def settle_def ..

lemma runs_listing:
  assumes "waits (mr_WaitFor mr)" and "steady s0 s"
  shows "runs (bindM (GetServerByName sv (meta_Name (mcur s0))) (settle mr lb userData (mcur s0))) s
    (\<lambda>_ t. creates_only (server_wanted servers s0 lb) s0 t)"
proof -
  let ?n = "meta_Name (mcur s0)"
  obtain r w where l: "server_List sv ?n (world s) = (r, w)" by fastforce
  let ?s = "s\<lparr>world := w, trace := trace s @ [(CMachine (MServerList ?n), is_Ok r)]\<rparr>"
  have quiet: "extends (\<lambda>c. \<not> is_create c) s0 ?s"
    using assms(2) by (auto simp: steady_def extends_def)
  have cur: "mcur s0 = mcur ?s" using assms(2) by (simp add: steady_def)
  show ?thesis
  proof (cases r)
    case (Ok xs)
    have none: "(i, ?n) \<notin> servers (world s0)" if "List.find (\<lambda>s. srv_Name s = ?n) xs = None" for i
      using listed [OF l [unfolded Ok], of i] that assms(2) by (auto simp: find_None_iff steady_def)
    have "runs (settle mr lb userData (mcur s0) (List.find (\<lambda>s. srv_Name s = ?n) xs)) ?s
        (\<lambda>_ t. creates_only (server_wanted servers s0 lb) ?s t)"
      by (rule runs_settle [OF assms(1) cur]) (use none cur in \<open>auto simp: server_wanted_def\<close>)
    then show ?thesis
      by (simp add: GetServerByName_def mcall_def runs_bindM runs_ext runs_ret l Ok)
        (rule runs_weaken, assumption, rule creates_only_trans(1) [OF quiet [unfolded Ok, simplified]])
  qed (use quiet l in \<open>simp_all add: GetServerByName_def mcall_def runs_bindM runs_ext creates_only_none\<close>)
qed

lemma runs_reconcileServer:
  assumes "waits (mr_WaitFor mr)" and "mr_Client mr = k"
  shows "runs (reconcileServer mr sv lb vip) s (\<lambda>_ t. creates_only (server_wanted servers s lb) s t)"
proof -
  have client: "preserves (steady s) (mcall MServerClient (os_ServerClient sv))"
    unfolding mcall_def by (intro steady_ext still_reads) simp
  have rest: "runs (getM (\<lambda>m.
     bindM (getKubeConfigForServiceAccount mr (lbm_ServiceAccountSecretName (lbm_Status m))) (\<lambda>kubeconfig.
     bindM (liftR (GenerateUserData (mr_yaml mr) kubeconfig lb m vip (mr_YawolletRequeueTime mr) (mr_NTPPools mr) (mr_NTPServers mr)))
       (\<lambda>userData.
     bindM (GetServerByName sv (meta_Name m)) (settle mr lb userData m))))) t
     (\<lambda>_ t. creates_only (server_wanted servers s lb) s t)" if t: "steady s t" for t
  proof -
    have "mcur t = mcur s" using t by (simp add: steady_def)
    then show ?thesis
      unfolding runs_getM
      by (simp only:) (intro runs_steady_bind [OF steady_kubeconfig [OF assms(2)] t] runs_steady_bind [OF preserves_liftR]
          runs_listing [OF assms(1)])
  qed
  show ?thesis
    unfolding reconcileServer_settle thenM_def
    by (rule runs_steady_bind [OF client steady_refl]) (rule rest)
qed

end

text \<open>C6. One reconcile of the server of a machine creates at most one, and only if no server has the name of
  the machine already; the request carries that name, the image and flavor ids of the spec, a network
  interface on the port recorded for the machine in the default network (the deprecated field only
  when that is not set), one on every additional network, the server group of the spec if it has one,
  and a key only with debugging enabled.\<close>

theorem one_server_per_machine:
  assumes "server_listing (mr_Client mr) sv servers" and "waits (mr_WaitFor mr)"
    and "reconcileServer mr sv lb vip s = (r, t)"
  shows "\<exists>cs. trace t = trace s @ cs \<and>
    (filter is_create cs = [] \<or>
     (\<exists>opts hint ok. filter is_create cs = [(CMachine (MServerCreate opts hint), ok)] \<and>
        (\<forall>i. (i, meta_Name (mcur s)) \<notin> servers (world s)) \<and> server_request (mcur s) lb opts hint))"
  using runsD [OF server_listing.runs_reconcileServer [OF assms(1,2) refl] assms(3)]
  by (simp add: creates_only_def server_wanted_def)

interpretation fake_listing: server_listing mem_kube fake_servers "\<lambda>w. {(srv_ID s, srv_Name s) | s k. (k, s) \<in> set (mem_servers w)}"
proof
  show "still (\<lambda>w. {(srv_ID s, srv_Name s) | s k. (k, s) \<in> set (mem_servers w)}) (os_ServerClient fake_servers)"
    "still (\<lambda>w. {(srv_ID s, srv_Name s) | s k. (k, s) \<in> set (mem_servers w)}) (k_GetSecret mem_kube n)" for n
    by (auto simp: still_def fake_servers_def mem_kube_def)
  show "\<exists>x \<in> set xs. srv_Name x = name" if "server_List fake_servers name w = (Ok xs, w')"
    "(i, name) \<in> {(srv_ID s, srv_Name s) | s k. (k, s) \<in> set (mem_servers w)}" for name w xs w' i
    using that by (force simp: fake_servers_def fake_server_List_def)
qed

definition example_live :: load_balancer_machine where
  "example_live = (example_machine (no_lbm_status\<lparr>lbm_DefaultPortID := Some ''8'', lbm_ServiceAccountSecretName := Some ''ns/m1''\<rparr>))
     \<lparr>meta_DeletionTimestamp := None,
      lbm_Spec := \<lparr>mspec_Infrastructure = zero_infra\<lparr>infra_DefaultNetwork := \<lparr>dn_FloatingNetID = None, dn_NetworkID = ''net'', dn_SubnetID = None\<rparr>,
          infra_AdditionalNetworks := Some [\<lparr>an_NetworkID = ''extra''\<rparr>],
          infra_Image := (infra_Image zero_infra)\<lparr>ImageID := Some ''img''\<rparr>, infra_Flavor := (infra_Flavor zero_infra)\<lparr>FlavorID := Some ''flv''\<rparr>\<rparr>,
        mspec_PortID = ''lb-port'', mspec_ServerGroupID = ''grp'', mspec_LoadBalancerRef = \<lparr>lbr_Name = ''lb'', lbr_Namespace = ''ns''\<rparr>\<rparr>\<rparr>"

definition example_live_cloud :: mem where
  "example_live_cloud = (example_cloud [] [(''8'', example_port)] example_live)
     \<lparr>mem_secrets := [(\<lparr>nn_Namespace = ''ns'', nn_Name = ''m1''\<rparr>, [''token'' \<mapsto> ''t'', ''ca.crt'' \<mapsto> ''ca''])]\<rparr>"

lemma example_secret_name: "ToNamespacedName ''ns/m1'' = Ok \<lparr>nn_Namespace = ''ns'', nn_Name = ''m1''\<rparr>"
  by code_simp

lemma example_userdata: "\<exists>u. GenerateUserData (\<lambda>ls. Ok []) ''t'' zero_lb m vip 0 [] [] = Ok u"
  by (simp add: GenerateUserData_def zero_lb_def zero_lb_spec_def zero_options_def Let_def)

lemma mr_fields:
  "mr_Client mem_machine_reconciler = mem_kube" "mr_Objects mem_machine_reconciler = mem_machine_kube"
  "mr_encode mem_machine_reconciler c = Ok (kc_Token c)" "mr_yaml mem_machine_reconciler = (\<lambda>ls. Ok [])"
  "mr_YawolletRequeueTime mem_machine_reconciler = 0" "mr_NTPPools mem_machine_reconciler = []"
  "mr_NTPServers mem_machine_reconciler = []" "mr_WaitFor mem_machine_reconciler d = poll_up_to 3"
  "mr_same_time mem_machine_reconciler = (=)"
  by (simp_all add: mem_machine_reconciler_def)

lemma fake_calls:
  "os_ServerClient fake_servers w = (Ok (), w)" "server_List fake_servers n w = fake_server_List n w"
  "server_Create fake_servers opts hint w = fake_server_Create opts hint w" "server_Get fake_servers i w = fake_server_Get i w"
  "k_GetSecret mem_kube nn w = (case map_of (mem_secrets w) nn of None \<Rightarrow> api_not_found | Some x \<Rightarrow> Ok x, w)"
  "mk_PatchStatus mem_machine_kube nn p w = mem_PatchMachine (\<lambda>m. m\<lparr>lbm_Status := merge_lbm_status p (lbm_Status m)\<rparr>) nn w"
  "fake_server_List n w = (Ok (filter (\<lambda>v. \<not> (n \<noteq> [] \<and> n \<noteq> srv_Name v)) (map snd (mem_servers w))), w)"
  "fake_server_Get i w = found (mem_servers w) i w" "found store i w = (case map_of store i of None \<Rightarrow> (Err NotFoundResponse, w) | Some x \<Rightarrow> (Ok (Some x), w))"
  "fake_server_Create opts hint w =
     (if sco_KeyName opts \<noteq> None then (Crash ''interface conversion'', w)
      else
        let (i, w1) = getID w;
            server = \<lparr>srv_ID = i, srv_Name = sco_Name opts, srv_Status = ''ACTIVE'', srv_Created = mem_now w, srv_Fault = []\<rparr>
        in (Ok (Some server), w1\<lparr>mem_servers := AList.update i server (mem_servers w1)\<rparr>))"
  by (simp_all add: fake_servers_def mem_kube_def mem_machine_kube_def fake_server_List_def fake_server_Get_def found_def fake_server_Create_def)

lemma live_fields:
  "lbm_Status example_live = no_lbm_status\<lparr>lbm_DefaultPortID := Some ''8'', lbm_ServiceAccountSecretName := Some ''ns/m1''\<rparr>"
  "meta_Name example_live = ''m1''" "key_of example_live = \<lparr>nn_Namespace = ''ns'', nn_Name = ''m1''\<rparr>"
  "mspec_ServerGroupID (lbm_Spec example_live) = ''grp''"
  "GetImageID (infra_Image (mspec_Infrastructure (lbm_Spec example_live))) = Ok ''img''"
  "GetFlavorID (infra_Flavor (mspec_Infrastructure (lbm_Spec example_live))) = Ok ''flv''"
  "networkID_of (mspec_Infrastructure (lbm_Spec example_live)) = ''net''"
  "infra_AdditionalNetworks (mspec_Infrastructure (lbm_Spec example_live)) = Some [\<lparr>an_NetworkID = ''extra''\<rparr>]"
  by (simp_all add: example_live_def example_machine_def GetImageID_def GetFlavorID_def networkID_of_def key_of_def)

lemma no_debug: "\<not> dbg_Enabled (spec_DebugSettings (lb_Spec zero_lb))"
  by (simp add: zero_lb_def zero_lb_spec_def)

lemma example_server_created:
  "runs (reconcileServer mem_machine_reconciler fake_servers zero_lb ''10.0.0.1'')
     \<lparr>world = example_live_cloud, trace = [], mcur = example_live\<rparr>
     (\<lambda>r t. r = Ok () \<and> (\<exists>opts. filter is_create (trace t) = [(CMachine (MServerCreate opts (Some ''grp'')), True)] \<and>
       sco_Networks opts = [\<lparr>snw_UUID = ''net'', snw_Port = ''8''\<rparr>, \<lparr>snw_UUID = ''extra'', snw_Port = []\<rparr>]))"
proof -
  obtain u where u: "GenerateUserData (\<lambda>ls. Ok []) ''t'' zero_lb example_live ''10.0.0.1'' 0 [] [] = Ok u"
    using example_userdata by blast
  note step = runs_simps mcall_def mr_fields live_fields fake_calls
  show ?thesis
    by (simp add: reconcileServer_def getKubeConfigForServiceAccount_def step u example_live_cloud_def example_cloud_def
      example_secret_name GetServerByName_def createServer_def Let_def CreateServer_def getID_def server_opts_def
      waitForServerStatus_def pollServerStatus_def GetServerByID_def numeral_3_eq_3 recordServer_def
      PatchLBMStatus_def patchMachine_def no_lbm_status_def mem_PatchMachine_def merge_lbm_fields_def take_new_def no_debug)
qed

lemma one_server_per_machine_witness:
  "\<exists>t opts. reconcileServer mem_machine_reconciler fake_servers zero_lb ''10.0.0.1''
      \<lparr>world = example_live_cloud, trace = [], mcur = example_live\<rparr> = (Ok (), t) \<and>
    filter is_create (trace t) = [(CMachine (MServerCreate opts (Some ''grp'')), True)] \<and>
    sco_Name opts = ''m1'' \<and> sco_ImageRef opts = ''img''"
proof -
  let ?s = "\<lparr>world = example_live_cloud, trace = [], mcur = example_live\<rparr> :: (mem, call) mst"
  obtain r t where run: "reconcileServer mem_machine_reconciler fake_servers zero_lb ''10.0.0.1'' ?s = (r, t)" by fastforce
  with example_server_created obtain opts where one: "r = Ok ()"
    "filter is_create (trace t) = [(CMachine (MServerCreate opts (Some ''grp'')), True)]"
    by (auto simp: runs_def)
  have "waits (mr_WaitFor mem_machine_reconciler)"
    by (simp add: mem_machine_reconciler_def waits_poll_up_to)
  from one_server_per_machine [OF _ this run] fake_listing.server_listing_axioms
  have "server_request example_live zero_lb opts (Some ''grp'')"
    using one(2) by (auto simp: mr_fields)
  with run one show ?thesis
    by (auto simp: server_request_def Let_def live_fields)
qed

section \<open>Address pairs\<close>

lemma vip_of_last:
  "vip_of ips d = (let fours = filter (matches_at_start ipv4Regex) (map pip_IPAddress ips) in if fours = [] then d else last fours)"
  by (induction ips arbitrary: d) (auto simp: Let_def)

lemma pairs_uptodate_iff:
  "length as = length ips \<Longrightarrow> pairs_uptodate as ips \<longleftrightarrow> map ap_IPAddress as = map pip_IPAddress ips"
  by (induction as ips rule: list_induct2) auto

lemma desired_addresses: "map ap_IPAddress (desired_pairs p) = map pip_IPAddress (port_FixedIPs p)"
  by (simp add: desired_pairs_def)

fun is_port_update :: "call \<times> bool \<Rightarrow> bool" where
  "is_port_update (CPortUpdate i opts, ok) = True"
| "is_port_update c = False"

text \<open>The ports of the cloud by id, as the client answers about them.\<close>

locale port_store =
  fixes os :: "'w os_env" and ports :: "'w \<Rightarrow> string \<Rightarrow> port option" and sane :: "'w \<Rightarrow> bool"
  assumes port_client: "os_PortClient os w = (r, w') \<Longrightarrow> sane w \<Longrightarrow> ports w' = ports w \<and> sane w'"
    and port_got: "port_Get os i w = (answer, w') \<Longrightarrow> sane w \<Longrightarrow> ports w' = ports w \<and> sane w' \<and>
        (\<forall>p. answer = Ok (Some p) \<longrightarrow> ports w i = Some p \<and> port_ID p = i)"
    and port_updated: "port_Update os i \<lparr>puo_SecurityGroups = None, puo_AllowedAddressPairs = Some aps\<rparr> w = (Ok x, w') \<Longrightarrow>
        sane w \<Longrightarrow> ports w i = Some p \<Longrightarrow> sane w' \<and> ports w' = (ports w)(i \<mapsto> p\<lparr>port_AllowedAddressPairs := aps\<rparr>)"
begin

definition settled :: "load_balancer_machine \<Rightarrow> string \<Rightarrow> 'w \<Rightarrow> bool" where
  "settled m vip w = (\<exists>i plb plbm. lbm_DefaultPortID (lbm_Status m) = Some i \<and>
     ports w (mspec_PortID (lbm_Spec m)) = Some plb \<and> ports w i = Some plbm \<and>
     map ap_IPAddress (port_AllowedAddressPairs plbm) = map pip_IPAddress (port_FixedIPs plb) \<and>
     vip = vip_of (port_FixedIPs plb) [] \<and> vip \<noteq> [])"

definition pairs_post :: "('w, call) mst \<Rightarrow> string result \<Rightarrow> ('w, call) mst \<Rightarrow> bool" where
  "pairs_post s r t = ((\<forall>vip. r = Ok vip \<longrightarrow> sane (world t) \<and> mcur t = mcur s \<and> settled (mcur s) vip (world t)) \<and>
     (\<forall>v. settled (mcur s) v (world s) \<longrightarrow> extends (\<lambda>c. \<not> is_port_update c) s t \<and> (\<forall>vip. r = Ok vip \<longrightarrow> vip = v)))"

text \<open>The comparison and the update, once both ports are known.\<close>

lemma runs_pairs_update:
  assumes "sane (world s)" and "ports (world s) i = Some plbm" and "port_ID plbm = i"
    and "ports (world s) (mspec_PortID (lbm_Spec (mcur s))) = Some plb" and "lbm_DefaultPortID (lbm_Status (mcur s)) = Some i"
  shows "runs (updatePairs os plbm plb) s (pairs_post s)"
proof -
  let ?same = "map ap_IPAddress (port_AllowedAddressPairs plbm) = map pip_IPAddress (port_FixedIPs plb)"
  have same: "(length (port_AllowedAddressPairs plbm) = length (port_FixedIPs plb) \<and>
      pairs_uptodate (port_AllowedAddressPairs plbm) (port_FixedIPs plb)) = ?same"
    using pairs_uptodate_iff by (metis length_map)
  let ?opts = "\<lparr>puo_SecurityGroups = None, puo_AllowedAddressPairs = Some (desired_pairs plb)\<rparr>"
  obtain r w where u: "port_Update os i ?opts (world s) = (r, w)" by fastforce
  have "settled (mcur s) (vip_of (port_FixedIPs plb) []) w" if "r = Ok x" "vip_of (port_FixedIPs plb) [] \<noteq> []" for x
  proof -
    let ?lbid = "mspec_PortID (lbm_Spec (mcur s))"
    have w: "ports w = (ports (world s))(i \<mapsto> plbm\<lparr>port_AllowedAddressPairs := desired_pairs plb\<rparr>)"
      using port_updated [OF u [unfolded that(1)] assms(1,2)] by simp
    have "\<exists>q. ports w ?lbid = Some q \<and> port_FixedIPs q = port_FixedIPs plb"
      using assms(2,4) by (auto simp: w)
    then show ?thesis
      using assms(5) that(2) by (auto simp: settled_def w desired_addresses)
  qed
  moreover have "sane w" if "r = Ok x" for x
    using port_updated [OF u [unfolded that] assms(1,2)] by simp
  moreover have start: "settled (mcur s) v (world s) \<longleftrightarrow> ?same \<and> v = vip_of (port_FixedIPs plb) [] \<and> v \<noteq> []" for v
    using assms(2,4,5) by (simp add: settled_def conj_ac)
  ultimately have updated: "pairs_post s (case r of Ok x \<Rightarrow> Ok (vip_of (port_FixedIPs plb) []) | Err e \<Rightarrow> Err e | Crash c \<Rightarrow> Crash c)
      (s\<lparr>world := w, trace := tr\<rparr>)" if "\<not> ?same" "vip_of (port_FixedIPs plb) [] \<noteq> []" for tr
    using that by (cases r) (simp_all add: pairs_post_def)
  have "pairs_post s (Err e) s" for e
    by (simp add: pairs_post_def)
  moreover have "pairs_post s (Ok (vip_of (port_FixedIPs plb) [])) s" if "?same" "vip_of (port_FixedIPs plb) [] \<noteq> []"
    using that assms(1) start by (simp add: pairs_post_def)
  moreover have "runs (thenM (SetAllowedAddressPairsInPort os plbm (Some (desired_pairs plb))) (ret (vip_of (port_FixedIPs plb) []))) s (pairs_post s)"
    if "\<not> ?same" "vip_of (port_FixedIPs plb) [] \<noteq> []"
    using updated [OF that]
    by (cases r) (simp_all add: SetAllowedAddressPairsInPort_def PortUpdate_def runs_simps assms(3) u)
  ultimately show ?thesis
    unfolding updatePairs_def Let_def runs_if runs_fail runs_ret same by metis
qed

lemma settled_step: "ports w' = ports w \<Longrightarrow> settled m v w' = settled m v w"
  by (simp add: settled_def)

lemma pairs_post_step:
  assumes "pairs_post s' r t" and "mcur s' = mcur s" and "ports (world s') = ports (world s)"
    and "extends (\<lambda>c. \<not> is_port_update c) s s'"
  shows "pairs_post s r t"
  using assms(1) unfolding pairs_post_def assms(2) settled_step [OF assms(3)]
  using extends_trans [OF assms(4)] by blast

lemma pairs_post_fail: "\<forall>x. r \<noteq> Ok x \<Longrightarrow> extends (\<lambda>c. \<not> is_port_update c) s t \<Longrightarrow> pairs_post s r t"
  by (simp add: pairs_post_def)

text \<open>A lookup of a port whose error is reported.\<close>

lemma runs_lookup:
  assumes "sane (world s)" and report: "\<And>e t. \<exists>x u. h e t = (Err x, u) \<and> extends (\<lambda>c. \<not> is_port_update c) t u"
    and next': "\<And>p t. mcur t = mcur s \<Longrightarrow> ports (world t) = ports (world s) \<Longrightarrow> sane (world t) \<Longrightarrow>
        (\<And>q. p = Some q \<Longrightarrow> ports (world t) i = Some q \<and> port_ID q = i) \<Longrightarrow> runs (f p) t (pairs_post t)"
  shows "runs (bindM (catchM (GetPortByID os i) h ret) f) s (pairs_post s)"
proof -
  obtain r w where g: "port_Get os i (world s) = (r, w)" by fastforce
  let ?s = "s\<lparr>world := w, trace := trace s @ [(CPortGet i, is_Ok r)]\<rparr>"
  note law = port_got [OF g assms(1)]
  have ext': "extends (\<lambda>c. \<not> is_port_update c) s ?s" by (simp add: extends_def)
  show ?thesis
  proof (cases r)
    case (Ok p)
    have "runs (f p) ?s (pairs_post ?s)"
      by (rule next') (use law Ok in auto)
    then have "runs (f p) ?s (pairs_post s)"
      by (rule runs_weaken) (rule pairs_post_step, use law ext' in auto)
    then show ?thesis
      by (simp add: GetPortByID_def runs_bindM runs_catchM runs_ext runs_ret g Ok)
  next
    case (Err e)
    obtain x u where h: "h e ?s = (Err x, u)" "extends (\<lambda>c. \<not> is_port_update c) ?s u" using report by blast
    have "pairs_post s (Err x) u"
      by (rule pairs_post_fail) (use extends_trans [OF ext' h(2)] in auto)
    with h(1) Err show ?thesis
      by (simp add: GetPortByID_def runs_bindM runs_catchM runs_ext g runs_def [of "h e"])
  next
    case (Crash c)
    have "pairs_post s (Crash c) ?s"
      by (rule pairs_post_fail) (use ext' in auto)
    then show ?thesis
      by (simp add: GetPortByID_def runs_bindM runs_catchM runs_ext g Crash)
  qed
qed

lemma reported: "\<exists>x u. SendErrorM e t = (Err x, u) \<and> extends (\<lambda>c. \<not> is_port_update c) t u"
  "\<exists>x u. SendErrorLBM lb e t = (Err x, u) \<and> extends (\<lambda>c. \<not> is_port_update c) t u"
  by (auto simp: SendErrorM_def SendErrorLBM_def getM_def SendErrorAsEvent_def thenM_def bindM_def catchM_def whenM_def record_call_def
      ret_def fail_def extends_def)

lemma runs_pairs:
  assumes "sane (world s)" and "lbm_DefaultPortID (lbm_Status (mcur s)) = Some i"
  shows "runs (bindM (catchM (GetPortByID os i) SendErrorM ret) (\<lambda>portLBM.
     bindM (catchM (GetPortByID os (mspec_PortID (lbm_Spec (mcur s)))) (SendErrorLBM lb) ret) (\<lambda>portLB.
     case portLB of
       None \<Rightarrow> fail ErrLBOrLBMPortsAreNil
     | Some plb \<Rightarrow>
         (case portLBM of None \<Rightarrow> fail ErrLBOrLBMPortsAreNil | Some plbm \<Rightarrow> updatePairs os plbm plb)))) s (pairs_post s)"
proof (rule runs_lookup [OF assms(1) reported(1)], rule runs_lookup [OF _ reported(2)], goal_cases)
  case (2 portLBM t portLB u)
  have fail': "pairs_post u (Err e) u" for e by (rule pairs_post_fail) simp_all
  show ?case
  proof (cases portLB)
    case None
    then show ?thesis by (simp add: runs_fail fail')
  next
    case lb: (Some plb)
    show ?thesis
    proof (cases portLBM)
      case None
      with lb show ?thesis by (simp add: runs_fail fail')
    next
      case (Some plbm)
      have "runs (updatePairs os plbm plb) u (pairs_post u)"
        by (rule runs_pairs_update [of _ i]) (use 2 lb Some assms(2) in simp_all)
      with lb Some show ?thesis by simp
    qed
  qed
qed

lemma runs_reconcilePortAddressPair:
  assumes "sane (world s)"
  shows "runs (reconcilePortAddressPair os lb) s (pairs_post s)"
proof -
  obtain r w where c: "os_PortClient os (world s) = (r, w)" by fastforce
  let ?s = "s\<lparr>world := w, trace := trace s @ [(CPortClient, is_Ok r)]\<rparr>"
  note law = port_client [OF c assms]
  have ext': "extends (\<lambda>c. \<not> is_port_update c) s ?s" by (simp add: extends_def)
  have fail': "pairs_post s (Err e) ?s" "pairs_post s (Crash c') ?s" for e c'
    by (rule pairs_post_fail; use ext' in auto)+
  have post: "pairs_post ?s r t \<Longrightarrow> pairs_post s r t" for r t
    by (rule pairs_post_step) (use law ext' in auto)
  have sane: "sane (world ?s)" using law by simp
  show ?thesis
  proof (cases "lbm_DefaultPortID (lbm_Status (mcur s))")
    case None
    with fail' show ?thesis
      by (cases r) (simp_all add: reconcilePortAddressPair_def runs_simps c)
  next
    case (Some i)
    with runs_weaken [OF runs_pairs [OF sane, of i lb] post] fail' show ?thesis
      by (cases r) (simp_all add: reconcilePortAddressPair_def runs_thenM runs_ext runs_getM c)
  qed
qed

end


interpretation fake_ports: port_store "fake_os gen" "\<lambda>w. map_of (mem_ports w)" "\<lambda>w. \<forall>x \<in> set (mem_ports w). port_ID (snd x) = fst x"
proof (unfold_locales, goal_cases)
  case (1 w r w')
  then show ?case by (simp add: fake_os_def)
next
  case (2 i w answer w')
  then show ?case
    by (auto simp: fake_os_def fake_port_Get_def found_def split: option.splits dest!: map_of_SomeD)
next
  case (3 i aps w x w' p)
  from 3(2) map_of_SomeD [OF 3(3)] have id: "port_ID p = i" by fastforce
  from 3(1,3) have w': "w' = w\<lparr>mem_ports := AList.update i (p\<lparr>port_AllowedAddressPairs := aps\<rparr>) (mem_ports w)\<rparr>"
    by (simp add: fake_os_def fake_port_Update_def Let_def)
  have "port_ID (snd y) = fst y" if "y \<in> set (mem_ports w')" for y
    using update_subset [of y i "p\<lparr>port_AllowedAddressPairs := aps\<rparr>" "mem_ports w"] that 3(2) id by (auto simp: w')
  then show ?case by (simp add: w' update_conv')
qed

definition example_pair_cloud :: mem where
  "example_pair_cloud = example_cloud [] [(''8'', example_port), (''lb-port'', example_port\<lparr>port_ID := ''lb-port'',
     port_FixedIPs := [\<lparr>pip_SubnetID = [], pip_IPAddress = ''10.0.0.9''\<rparr>]\<rparr>)] example_live"

lemma example_vip: "matches_at_start ipv4Regex ''10.0.0.9''"
  by code_simp

lemma example_pairs:
  "runs (reconcilePortAddressPair (fake_os Itoa) zero_lb) \<lparr>world = example_pair_cloud, trace = [], mcur = example_live\<rparr>
     (\<lambda>r t. r = Ok ''10.0.0.9'' \<and> length (filter is_port_update (trace t)) = 1)"
proof -
  have "lbm_DefaultPortID (lbm_Status example_live) = Some ''8''" "mspec_PortID (lbm_Spec example_live) = ''lb-port''"
    by (simp_all add: example_live_def example_machine_def)
  then show ?thesis
    by (simp add: reconcilePortAddressPair_def runs_simps GetPortByID_def fake_os_def fake_port_Get_def found_def
      example_pair_cloud_def example_cloud_def example_port_def updatePairs_def example_vip SetAllowedAddressPairsInPort_def
      PortUpdate_def fake_port_Update_def Let_def)
qed


section \<open>Access to the Kubernetes API\<close>

definition answers_role_name :: "'w machine_kube \<Rightarrow> bool" where
  "answers_role_name mk = (\<forall>n p w m w' x. mk_PatchStatus mk n (MSetFields p) w = (Ok m, w') \<longrightarrow> lbm_RoleName p = Some x \<longrightarrow>
     key_of m = n \<and> lbm_RoleName (lbm_Status m) = Some x)"

fun records_binding :: "call \<times> bool \<Rightarrow> bool" where
  "records_binding (CMachine (MPatchStatus n (MSetFields p)), ok) = (lbm_RoleBindingName p \<noteq> None)"
| "records_binding c = False"

lemma emits_binding_recorded:
  "lbm_RoleName (lbm_Status (mcur s)) = Some (nn_String (key_of (mcur s))) \<Longrightarrow>
    runs (reconcileRoleBinding mk) s (\<lambda>_ t. extends (\<lambda>c. \<not> records_binding c) s t)"
  unfolding reconcileRoleBinding_def runs_getM
  by (rule emits_runs) (intro emits_intros; simp add: mcall_def emits_ext)

lemma runs_reconcileRole:
  assumes "answers_role_name mk"
  shows "runs (reconcileRole mk lb) s (\<lambda>r t. extends (\<lambda>c. \<not> records_binding c) s t \<and>
    (r = Ok () \<longrightarrow> lbm_RoleName (lbm_Status (mcur t)) = Some (nn_String (key_of (mcur t)))))"
proof -
  let ?m = "mcur s"
  let ?get = "catchM (mcall (MGetRole (key_of ?m)) (mk_GetRole mk (key_of ?m)))
         (\<lambda>err. if \<not> IsNotFound err then fail err
           else mcall (MCreateRole (key_of ?m) (GetRoleRules lb ?m)) (mk_CreateRole mk (key_of ?m) (GetRoleRules lb ?m)))
         ret"
  have get: "runs ?get s (\<lambda>_ t. extends (\<lambda>c. \<not> records_binding c) s t \<and> mcur t = ?m)"
    by (auto simp: runs_simps mcall_def extends_def caseR_def split: prod.split result.split)
  have patch: "runs (whenM (lbm_RoleName (lbm_Status ?m) \<noteq> Some (nn_String (key_of ?m)))
         (PatchLBMStatus mk (no_lbm_status\<lparr>lbm_RoleName := Some (nn_String (key_of ?m))\<rparr>))) t
      (\<lambda>r u. extends (\<lambda>c. \<not> records_binding c) s u \<and>
        (r = Ok () \<longrightarrow> lbm_RoleName (lbm_Status (mcur u)) = Some (nn_String (key_of (mcur u)))))"
    if "extends (\<lambda>c. \<not> records_binding c) s t \<and> mcur t = ?m" for t
  proof -
    let ?p = "no_lbm_status\<lparr>lbm_RoleName := Some (nn_String (key_of ?m))\<rparr>"
    obtain r w where p: "mk_PatchStatus mk (key_of ?m) (MSetFields ?p) (world t) = (r, w)" by fastforce
    have "key_of m = key_of ?m \<and> lbm_RoleName (lbm_Status m) = Some (nn_String (key_of ?m))" if "r = Ok m" for m
      using assms [unfolded answers_role_name_def, rule_format, of "key_of ?m" ?p "world t" m w "nn_String (key_of ?m)"] p that
      by simp
    with that p show ?thesis
      by (cases r) (auto simp: PatchLBMStatus_def patchMachine_def mcall_def runs_simps extends_def no_lbm_status_def)
  qed
  show ?thesis
    unfolding reconcileRole_def runs_getM runs_thenM
    by (rule runs_weaken [OF get]) (auto simp: caseR_def intro: patch split: result.split)
qed

text \<open>The name of the role binding is never recorded: the reconcile of the binding compares the recorded
  name of the role, which the reconcile of the role just before has set to the same text, so that no
  status patch of the two ever carries a name for the binding.\<close>

theorem role_binding_name_never_recorded:
  assumes "answers_role_name mk"
    and "thenM (reconcileRole mk lb) (reconcileRoleBinding mk) s = (r, t)"
  shows "\<exists>cs. trace t = trace s @ cs \<and> filter records_binding cs = []"
proof -
  have "runs (thenM (reconcileRole mk lb) (reconcileRoleBinding mk)) s (\<lambda>_ t. extends (\<lambda>c. \<not> records_binding c) s t)"
    unfolding runs_thenM
    by (rule runs_weaken [OF runs_reconcileRole [OF assms(1)]])
      (auto simp: caseR_def intro: runs_weaken [OF emits_binding_recorded] extends_trans split: result.split)
  from runsD [OF this assms(2)] show ?thesis
    by (auto simp: extends_def filter_empty_conv)
qed

lemma role_binding_name_never_recorded_witness:
  "\<exists>r t. thenM (reconcileRole mem_machine_kube zero_lb) (reconcileRoleBinding mem_machine_kube)
      \<lparr>world = example_live_cloud, trace = [], mcur = example_live\<rparr> = (r, t) \<and> filter records_binding (trace t) = []"
proof -
  let ?s = "\<lparr>world = example_live_cloud, trace = [], mcur = example_live\<rparr> :: (mem, call) mst"
  have "answers_role_name mem_machine_kube"
    by (auto simp: answers_role_name_def mem_machine_kube_def mem_PatchMachine_def api_not_found_def merge_lbm_fields_def take_new_def
        key_of_def find_Some_iff split: option.splits)
  moreover obtain r t where "thenM (reconcileRole mem_machine_kube zero_lb) (reconcileRoleBinding mem_machine_kube) ?s = (r, t)"
    by fastforce
  ultimately show ?thesis
    using role_binding_name_never_recorded by fastforce
qed

end
