(* ===== verification/Envoy.thy ===== *)
theory Envoy
  imports HelperLB GoRegexp "HOL-Library.Signed_Division"
begin

text \<open>
  The configuration that the yawollet builds for Envoy, the first half of
  \<open>internal/helper/yawollet.go\<close>: the checks of ports and endpoints, one cluster and one listener per
  port, the filter of source ranges, and the decision whether the configuration changed. The conversions
  to \<open>uint32\<close> are to 32-bit words and so wrap. Messages are given in \<open>EnvoyTypes\<close>; the encoding of
  messages, the text of messages, the construction of snapshots and the number of processors are
  parameters.
\<close>

section \<open>Constants\<close>

definition FilterUDPProxy :: string where "FilterUDPProxy = ''envoy.filters.udp_listener.udp_proxy''"
definition envoyHealthCheckTimeout :: int where "envoyHealthCheckTimeout = 5"
definition envoyHealthCheckInterval :: int where "envoyHealthCheckInterval = 5"
definition envoyHealthCheckUnhealthyThreshold :: "32 word" where "envoyHealthCheckUnhealthyThreshold = 3"
definition envoyHealthCheckHealthyThreshold :: "32 word" where "envoyHealthCheckHealthyThreshold = 2"
definition protocolTCP :: string where "protocolTCP = ''TCP''"
definition protocolUDP :: string where "protocolUDP = ''UDP''"

text \<open>Names of the package \<open>wellknown\<close>.\<close>

definition TransportSocketRawBuffer :: string where "TransportSocketRawBuffer = ''envoy.transport_sockets.raw_buffer''"
definition RoleBasedAccessControl :: string where "RoleBasedAccessControl = ''envoy.filters.network.rbac''"
definition TCPProxy :: string where "TCPProxy = ''envoy.filters.network.tcp_proxy''"

definition ErrPortProtocolNotSupported :: goerr where
  "ErrPortProtocolNotSupported = HelperErr ''port is not of supported protocol''"
definition ErrPortInvalidRange :: goerr where
  "ErrPortInvalidRange = HelperErr ''port is not between 1 and 65535''"
definition ErrNodePortInvalidRange_y :: goerr where
  "ErrNodePortInvalidRange_y = HelperErr ''NodePort is not between 1 and 65535''"
definition ErrEndpointAddressesNil :: goerr where
  "ErrEndpointAddressesNil = HelperErr ''endpoint addresses are nil''"
definition ErrEndpointAddressWrongFormat :: goerr where
  "ErrEndpointAddressWrongFormat = HelperErr ''endpoint address wrong address format (DNS name) not correct''"

section \<open>Names of hosts\<close>

text \<open>The expression \<open>dnsName\<close>. Its dots are not escaped, so each stands for any character but a newline;
  the class \<open>[a-zA-Z0-9-_]\<close> has the hyphen and the underscore. Characters are bytes: on ASCII text.\<close>

definition letter :: "char \<Rightarrow> bool" where
  "letter c = (char_range (CHR ''a'') (CHR ''z'') c \<or> char_range (CHR ''A'') (CHR ''Z'') c)"

definition digit :: "char \<Rightarrow> bool" where
  "digit c = char_range (CHR ''0'') (CHR ''9'') c"

definition alnum :: "char \<Rightarrow> bool" where
  "alnum c = (letter c \<or> digit c)"

definition any_char :: rx where
  "any_char = Class (\<lambda>c. c \<noteq> CHR 0x0A)"

definition dnsName :: rx where
  "dnsName =
     Seq (alts [
       Class letter,
       Seq (Class letter) (Class letter),
       Seq (Class letter) (Class digit),
       Seq (Class digit) (Class letter),
       Seq (Class alnum) (Seq (between 1 61 (Class (\<lambda>c. alnum c \<or> c = CHR ''-'' \<or> c = CHR ''_''))) (Class alnum))])
     (Seq any_char
     (Seq (Alt (between 2 6 (Class letter))
        (Seq (between 2 30 (Class (\<lambda>c. alnum c \<or> c = CHR ''-''))) (Seq any_char (between 2 3 (Class letter)))))
      Eos))"

definition is_dns_name :: "string \<Rightarrow> bool" where
  "is_dns_name s = matches_at_start dnsName s"

section \<open>Checks of the LoadBalancer\<close>

fun check_ports :: "service_port list \<Rightarrow> goerr option" where
  "check_ports [] = None"
| "check_ports (port # rest) =
     (if sp_Protocol port \<noteq> protocolTCP \<and> sp_Protocol port \<noteq> protocolUDP then Some ErrPortProtocolNotSupported
      else if sp_Port port > 65535 \<or> sp_Port port < 1 then Some ErrPortInvalidRange
      else if sp_NodePort port > 65535 \<or> sp_NodePort port < 1 then Some ErrNodePortInvalidRange_y
      else check_ports rest)"

fun check_addresses :: "string list \<Rightarrow> goerr option" where
  "check_addresses [] = None"
| "check_addresses (address # rest) =
     (if \<not> is_dns_name address \<and> ParseAddr address = None then Some ErrEndpointAddressWrongFormat
      else check_addresses rest)"

fun check_endpoints :: "endpoint list \<Rightarrow> goerr option" where
  "check_endpoints [] = None"
| "check_endpoints (e # rest) =
     (case ep_Addresses e of
        None \<Rightarrow> Some ErrEndpointAddressesNil
      | Some addresses \<Rightarrow> (case check_addresses addresses of
            Some err \<Rightarrow> Some err
          | None \<Rightarrow> check_endpoints rest))"

definition endpoints_of :: "load_balancer \<Rightarrow> endpoint list" where
  "endpoints_of lb = (case spec_Endpoints (lb_Spec lb) of None \<Rightarrow> [] | Some eps \<Rightarrow> eps)"

definition addresses_of :: "endpoint \<Rightarrow> string list" where
  "addresses_of e = (case ep_Addresses e of None \<Rightarrow> [] | Some addresses \<Rightarrow> addresses)"

section \<open>Clusters\<close>

definition uint32 :: "int \<Rightarrow> 32 word" where
  "uint32 i = word_of_int i"

definition resource_name :: "service_port \<Rightarrow> string" where
  "resource_name port = sp_Protocol port @ CHR ''-'' # Itoa (sp_Port port)"

definition seconds :: "int \<Rightarrow> duration_pb" where
  "seconds s = \<lparr>dur_Seconds = s, dur_Nanos = 0\<rparr>"

text \<open>\<open>durationpb.New\<close>, with Go's division.\<close>

definition durationpb_New :: "int \<Rightarrow> duration_pb" where
  "durationpb_New d = \<lparr>dur_Seconds = d sdiv Second, dur_Nanos = d smod Second\<rparr>"

definition proxyProtocolEnabled :: "lb_options \<Rightarrow> service_port \<Rightarrow> bool" where
  "proxyProtocolEnabled options port =
     (if \<not> opt_TCPProxyProtocol options then False
      else (case opt_TCPProxyProtocolPortsFilter options of
          None \<Rightarrow> True
        | Some filter_ports \<Rightarrow> filter_ports = [] \<or> List.member filter_ports (sp_Port port)))"

definition tcp_health_check :: health_check where
  "tcp_health_check = \<lparr>hc_Timeout = seconds envoyHealthCheckTimeout, hc_Interval = seconds envoyHealthCheckInterval,
     hc_UnhealthyThreshold = envoyHealthCheckUnhealthyThreshold, hc_HealthyThreshold = envoyHealthCheckHealthyThreshold,
     hc_TcpSend = None, hc_TcpReceive = []\<rparr>"

text \<open>\<open>anypb.New\<close>\<close>

definition any_New :: "envoy_lib \<Rightarrow> any_config \<Rightarrow> any_config result" where
  "any_New lib m = (case any_Error lib m of None \<Rightarrow> Ok m | Some e \<Rightarrow> Err e)"

definition proxy_protocol_socket :: "envoy_lib \<Rightarrow> transport_socket option" where
  "proxy_protocol_socket lib =
     (case any_New lib RawBuffer of
        Ok rawConfig \<Rightarrow>
          (case any_New lib (ProxyProtocolUpstreamTransport 2 TransportSocketRawBuffer rawConfig) of
             Ok proxyConfig \<Rightarrow> Some \<lparr>ts_Name = ''envoy.transport_sockets.upstream_proxy_protocol'', ts_Config = proxyConfig\<rparr>
           | _ \<Rightarrow> None)
      | _ \<Rightarrow> None)"

definition cluster_socket :: "socket_protocol \<Rightarrow> service_port \<Rightarrow> string \<Rightarrow> socket_address" where
  "cluster_socket protocol port address =
     \<lparr>sock_Protocol = protocol, sock_Address = address, sock_PortValue = uint32 (sp_NodePort port)\<rparr>"

definition circuit_breakers :: "int \<Rightarrow> circuit_threshold" where
  "circuit_breakers cpus = \<lparr>ct_Priority = PRIORITY_DEFAULT, ct_MaxConnections = uint32 (10000 * cpus),
     ct_MaxRequests = uint32 (8000 * cpus), ct_MaxPendingRequests = uint32 (2000 * cpus)\<rparr>"

definition port_protocol :: "service_port \<Rightarrow> socket_protocol" where
  "port_protocol port =
     (if sp_Protocol port = protocolTCP then SocketTCP
      else if sp_Protocol port = protocolUDP then SocketUDP else SocketTCP)"

definition clusterPort :: "envoy_lib \<Rightarrow> int \<Rightarrow> load_balancer \<Rightarrow> service_port \<Rightarrow> cluster" where
  "clusterPort lib cpus lb port =
     (let tcp = sp_Protocol port = protocolTCP in
      \<lparr>cl_Name = resource_name port,
       cl_ConnectTimeout = seconds 5,
       cl_Type = STATIC,
       cl_HealthyPanicThreshold = 0,
       cl_LbPolicy = ROUND_ROBIN,
       cl_AssignmentName = resource_name port,
       cl_Endpoints = map (\<lambda>e. map (cluster_socket (port_protocol port) port) (addresses_of e)) (endpoints_of lb),
       cl_DnsLookupFamily = DNS_AUTO,
       cl_HealthChecks = (if tcp then [tcp_health_check] else []),
       cl_TransportSocket = (if tcp \<and> proxyProtocolEnabled (spec_Options (lb_Spec lb)) port
          then proxy_protocol_socket lib else None),
       cl_PerConnectionBufferLimitBytes = 32 * 1024,
       cl_Thresholds = [circuit_breakers cpus]\<rparr>)"

definition createEnvoyCluster :: "envoy_lib \<Rightarrow> int \<Rightarrow> load_balancer \<Rightarrow> cluster list" where
  "createEnvoyCluster lib cpus lb = map (clusterPort lib cpus lb) (spec_Ports (lb_Spec lb))"

section \<open>Listeners\<close>

text \<open>\<open>strconv.ParseUint(s, 10, 32)\<close>\<close>

definition ParseUint32 :: "string \<Rightarrow> nat option" where
  "ParseUint32 s = (case parse_digits s of None \<Rightarrow> None | Some n \<Rightarrow> if n < 2 ^ 32 then Some n else None)"

definition source_principal :: "string \<Rightarrow> cidr_range option" where
  "source_principal sourceRange =
     (if ParseCIDR sourceRange = None then None
      else case splitOn (CHR ''/'') sourceRange of
        [address, len] \<Rightarrow> (case ParseUint32 len of
            None \<Rightarrow> None
          | Some p \<Rightarrow> Some \<lparr>cidr_AddressPrefix = address, cidr_PrefixLen = of_nat p\<rparr>)
      | _ \<Rightarrow> None)"

definition ErrCouldNotParseSourceRange :: goerr where
  "ErrCouldNotParseSourceRange = HelperErr ''could not parse LoadBalancerSourceRange''"

definition source_ranges :: "load_balancer \<Rightarrow> string list" where
  "source_ranges lb = (case opt_LoadBalancerSourceRanges (spec_Options (lb_Spec lb)) of None \<Rightarrow> [] | Some rs \<Rightarrow> rs)"

text \<open>\<open>_ = kubernetes.SendErrorAsEvent(r, err, lb)\<close>\<close>

definition ignoredEvent :: "goerr \<Rightarrow> load_balancer \<Rightarrow> (('w, call, 'z) st_scheme, unit) gop" where
  "ignoredEvent e lb = catchM (SendErrorAsEvent e (key_of lb)) (\<lambda>_. ret ()) ret"

fun collectPrincipals :: "load_balancer \<Rightarrow> string list \<Rightarrow> (('w, call, 'z) st_scheme, cidr_range list) gop" where
  "collectPrincipals lb [] = ret []"
| "collectPrincipals lb (sourceRange # rest) =
     (case source_principal sourceRange of
        None \<Rightarrow> thenM (ignoredEvent (Suffixed ErrCouldNotParseSourceRange ('': SourceRange: '' @ sourceRange)) lb)
            (collectPrincipals lb rest)
      | Some p \<Rightarrow> bindM (collectPrincipals lb rest) (\<lambda>ps. ret (p # ps)))"

definition rbac_rules :: "cidr_range list \<Rightarrow> any_config" where
  "rbac_rules principals = RBAC ''envoyrbac'' RBAC_ALLOW
     [(''load-balancer-source-ranges'', \<lparr>pol_Any = [True], pol_Principals = principals\<rparr>)]"

definition createEnvoyRBACRules :: "envoy_lib \<Rightarrow> load_balancer \<Rightarrow> (('w, call, 'z) st_scheme, any_config option) gop" where
  "createEnvoyRBACRules lib lb =
     bindM (collectPrincipals lb (source_ranges lb)) (\<lambda>principals.
     case any_New lib (rbac_rules principals) of
       Ok rules \<Rightarrow> ret (Some rules)
     | _ \<Rightarrow> thenM (ignoredEvent (Suffixed ErrCouldNotParseSourceRange '': no rule applied'') lb) (ret None))"

definition listener_socket :: "socket_protocol \<Rightarrow> string \<Rightarrow> service_port \<Rightarrow> socket_address" where
  "listener_socket protocol listenAddress port =
     \<lparr>sock_Protocol = protocol, sock_Address = listenAddress, sock_PortValue = uint32 (sp_Port port)\<rparr>"

text \<open>\<open>panic(err)\<close>\<close>

definition must :: "'a result \<Rightarrow> ('a \<Rightarrow> ('s, 'b) gop) \<Rightarrow> ('s, 'b) gop" where
  "must r k = (case r of Ok x \<Rightarrow> k x | Err e \<Rightarrow> crash (Error_text e) | Crash c \<Rightarrow> crash c)"

definition tcp_listener :: "string \<Rightarrow> service_port \<Rightarrow> envoy_filter list \<Rightarrow> any_config \<Rightarrow> listener" where
  "tcp_listener listenAddress port filters listenPort =
     \<lparr>ls_Name = resource_name port,
      ls_Address = listener_socket SocketTCP listenAddress port,
      ls_FilterChains = [filters @ [\<lparr>flt_Name = TCPProxy, flt_Config = listenPort\<rparr>]],
      ls_ListenerFilters = [], ls_Freebind = True, ls_EnableReusePort = True,
      ls_PerConnectionBufferLimitBytes = 32 * 1024\<rparr>"

definition createEnvoyTCPListener ::
  "envoy_lib \<Rightarrow> load_balancer \<Rightarrow> string \<Rightarrow> service_port \<Rightarrow> (('w, call, 'z) st_scheme, listener) gop" where
  "createEnvoyTCPListener lib lb listenAddress port =
     must (any_New lib (TcpProxy ''envoytcp'' (resource_name port)
        (map_option durationpb_New (opt_TCPIdleTimeout (spec_Options (lb_Spec lb)))))) (\<lambda>listenPort.
     bindM (if source_ranges lb \<noteq> [] then createEnvoyRBACRules lib lb else ret None) (\<lambda>rbac.
     ret (tcp_listener listenAddress port
       (case rbac of None \<Rightarrow> [] | Some rules \<Rightarrow> [\<lparr>flt_Name = RoleBasedAccessControl, flt_Config = rules\<rparr>])
       listenPort)))"

definition udp_listener :: "string \<Rightarrow> service_port \<Rightarrow> any_config \<Rightarrow> listener" where
  "udp_listener listenAddress port listenPort =
     \<lparr>ls_Name = resource_name port,
      ls_Address = listener_socket SocketUDP listenAddress port,
      ls_FilterChains = [],
      ls_ListenerFilters = [\<lparr>flt_Name = FilterUDPProxy, flt_Config = listenPort\<rparr>],
      ls_Freebind = True, ls_EnableReusePort = True,
      ls_PerConnectionBufferLimitBytes = 32 * 1024\<rparr>"

definition createEnvoyUDPListener ::
  "envoy_lib \<Rightarrow> load_balancer \<Rightarrow> string \<Rightarrow> service_port \<Rightarrow> (('w, call, 'z) st_scheme, listener) gop" where
  "createEnvoyUDPListener lib lb listenAddress port =
     must (any_New lib (UdpRoute (resource_name port))) (\<lambda>routeConfig.
     must (any_New lib (UdpProxyConfig ''envoyudp''
        (map_option durationpb_New (opt_UDPIdleTimeout (spec_Options (lb_Spec lb)))) ''route'' routeConfig)) (\<lambda>listenPort.
     ret (udp_listener listenAddress port listenPort)))"

text \<open>The listeners of the ports in order. An entry of another protocol stays \<open>nil\<close>, which the checks
  before exclude.\<close>

fun listeners_loop ::
  "envoy_lib \<Rightarrow> load_balancer \<Rightarrow> string \<Rightarrow> service_port list \<Rightarrow> (('w, call, 'z) st_scheme, listener option list) gop" where
  "listeners_loop lib lb listenAddress [] = ret []"
| "listeners_loop lib lb listenAddress (port # rest) =
     bindM (if sp_Protocol port = protocolTCP then
              bindM (createEnvoyTCPListener lib lb listenAddress port) (\<lambda>l. ret (Some l))
            else if sp_Protocol port = protocolUDP then
              bindM (createEnvoyUDPListener lib lb listenAddress port) (\<lambda>l. ret (Some l))
            else ret None) (\<lambda>l.
     bindM (listeners_loop lib lb listenAddress rest) (\<lambda>ls. ret (l # ls)))"

definition createEnvoyListener ::
  "envoy_lib \<Rightarrow> load_balancer \<Rightarrow> string \<Rightarrow> (('w, call, 'z) st_scheme, listener option list) gop" where
  "createEnvoyListener lib lb listenAddress = listeners_loop lib lb listenAddress (spec_Ports (lb_Spec lb))"

section \<open>The configuration\<close>

definition next_version :: "snapshot \<Rightarrow> string" where
  "next_version oldSnapshot =
     (let versionInt = (case Atoi (sn_ListenerVersion oldSnapshot) of None \<Rightarrow> 0 | Some v \<Rightarrow> v)
      in Itoa (wrap64 (versionInt + 1)))"

text \<open>\<open>fmt.Sprint\<close> of the resources agrees.\<close>

definition same_config :: "envoy_lib \<Rightarrow> snapshot \<Rightarrow> snapshot \<Rightarrow> bool" where
  "same_config lib new old =
     (clusters_print lib (sn_Clusters new) = clusters_print lib (sn_Clusters old) \<and>
      listeners_print lib (sn_Listeners new) = listeners_print lib (sn_Listeners old))"

text \<open>The result is the new snapshot if it changed.\<close>

definition CreateEnvoyConfig ::
  "envoy_lib \<Rightarrow> int \<Rightarrow> snapshot \<Rightarrow> load_balancer \<Rightarrow> string \<Rightarrow> (('w, call, 'z) st_scheme, snapshot option) gop" where
  "CreateEnvoyConfig lib cpus oldSnapshot lb listen =
     (case check_ports (spec_Ports (lb_Spec lb)) of
        Some e \<Rightarrow> fail e
      | None \<Rightarrow> (case check_endpoints (endpoints_of lb) of
        Some e \<Rightarrow> fail e
      | None \<Rightarrow>
        bindM (createEnvoyListener lib lb listen) (\<lambda>listeners.
        bindM (liftR (NewSnapshot lib (next_version oldSnapshot) (createEnvoyCluster lib cpus lb) (map the listeners)))
          (\<lambda>newSnapshot.
        if same_config lib newSnapshot oldSnapshot then ret None else ret (Some newSnapshot)))))"

end
