(* ===== verification/EnvoyConfig.thy ===== *)
theory EnvoyConfig
  imports Envoy
begin

text \<open>
  What the configuration for Envoy is like: \<open>CreateEnvoyConfig\<close> in closed form (it sends events and
  otherwise computes \<open>config_of\<close>), the typing of an accepted configuration, its source ranges against
  those of the security group, and its version.
\<close>

section \<open>Computations that only send events\<close>

definition only_events :: "'a result \<Rightarrow> (('w, call, 'z) st_scheme, 'a) gop \<Rightarrow> bool" where
  "only_events v m = (\<forall>s. \<exists>cs. m s = (v, s\<lparr>trace := trace s @ cs\<rparr>) \<and> (\<forall>c \<in> set cs. is_event c))"

named_theorems quiet_intros "introduction rules for only_events"

lemma only_eventsI: "m s = (v, s\<lparr>trace := trace s @ cs\<rparr>) \<Longrightarrow> (\<forall>c \<in> set cs. is_event c) \<Longrightarrow>
    \<exists>cs. m s = (v, s\<lparr>trace := trace s @ cs\<rparr>) \<and> (\<forall>c \<in> set cs. is_event c)"
  by blast

lemma only_events_ret [quiet_intros]: "only_events (Ok v) (ret v)"
  unfolding only_events_def ret_def by (intro allI only_eventsI [where cs = "[]"]) simp_all

lemma only_events_fail [quiet_intros]: "only_events (Err e) (fail e)"
  unfolding only_events_def fail_def by (intro allI only_eventsI [where cs = "[]"]) simp_all

lemma only_events_crash [quiet_intros]: "only_events (Crash c) (crash c)"
  unfolding only_events_def crash_def by (intro allI only_eventsI [where cs = "[]"]) simp_all

lemma only_events_liftR [quiet_intros]: "only_events r (liftR r)"
  unfolding only_events_def liftR_def by (intro allI only_eventsI [where cs = "[]"]) simp_all

text \<open>The result of a sequence, and its rule.\<close>

definition bindR :: "'a result \<Rightarrow> ('a \<Rightarrow> 'b result) \<Rightarrow> 'b result" where
  "bindR r f = (case r of Ok x \<Rightarrow> f x | Err e \<Rightarrow> Err e | Crash c \<Rightarrow> Crash c)"

lemma bindR_simps [simp]: "bindR (Ok x) f = f x" "bindR (Err e) f = Err e" "bindR (Crash c) f = Crash c"
  by (simp_all add: bindR_def)

lemma bindR_Ok: "bindR r f = Ok y \<longleftrightarrow> (\<exists>x. r = Ok x \<and> f x = Ok y)"
  by (cases r) simp_all

lemma only_events_bindM [quiet_intros]:
  assumes "only_events r m" and "\<And>x. r = Ok x \<Longrightarrow> only_events (f x) (k x)"
  shows "only_events (bindR r f) (bindM m k)"
  unfolding only_events_def
proof
  fix s
  obtain cs where m: "m s = (r, s\<lparr>trace := trace s @ cs\<rparr>)" and cs: "\<forall>c \<in> set cs. is_event c"
    using assms(1) unfolding only_events_def by blast
  show "\<exists>cs. bindM m k s = (bindR r f, s\<lparr>trace := trace s @ cs\<rparr>) \<and> (\<forall>c \<in> set cs. is_event c)"
  proof (cases r)
    case (Ok x)
    obtain ds where "k x (s\<lparr>trace := trace s @ cs\<rparr>) = (f x, s\<lparr>trace := (trace s @ cs) @ ds\<rparr>)" "\<forall>c \<in> set ds. is_event c"
      using assms(2) [OF Ok, unfolded only_events_def, THEN spec, of "s\<lparr>trace := trace s @ cs\<rparr>"] by auto
    then show ?thesis
      using m cs Ok by (intro exI [of _ "cs @ ds"]) (auto simp: bindM_def catchM_def)
  qed (use m cs in \<open>auto simp: bindM_def catchM_def fail_def\<close>)
qed

lemma only_events_thenM [quiet_intros]:
  "only_events (Ok ()) m \<Longrightarrow> only_events v k \<Longrightarrow> only_events v (thenM m k)"
  using only_events_bindM [of "Ok ()" m "\<lambda>_. v" "\<lambda>_. k"] by (simp add: thenM_def)

lemma only_events_ignoredEvent [quiet_intros]: "only_events (Ok ()) (ignoredEvent e lb)"
  unfolding only_events_def
proof
  fix s
  let ?cs = "if error_body e \<noteq> [] then [(CEvent (key_of lb) ''Warning'' ''Failed'' (error_body e), True)] else []"
  show "\<exists>cs. ignoredEvent e lb s = (Ok (), s\<lparr>trace := trace s @ cs\<rparr>) \<and> (\<forall>c \<in> set cs. is_event c)"
    by (rule only_eventsI [where cs = ?cs])
      (auto simp: ignoredEvent_def SendErrorAsEvent_def thenM_def bindM_def catchM_def whenM_def record_call_def
        fail_def ret_def is_event_def)
qed

section \<open>The configuration in closed form\<close>

lemma source_principal_iff: "source_principal r = None \<longleftrightarrow> ParseCIDR r = None"
proof -
  have "source_principal r \<noteq> None" if p: "ParseCIDR r = Some f" for f
  proof -
    obtain address len n where "splitOn (CHR ''/'') r = [address, len]" "parse_digits len = Some n" "n \<le> address_bits f"
      using p by (auto simp: ParseCIDR_def split: list.splits option.splits if_splits)
    moreover have "address_bits f < 2 ^ 32"
      by (cases f) (simp_all add: address_bits_def)
    ultimately show ?thesis
      using p by (simp add: source_principal_def ParseUint32_def)
  qed
  then show ?thesis by (cases "ParseCIDR r") (auto simp: source_principal_def)
qed

definition admitted :: "load_balancer \<Rightarrow> cidr_range list" where
  "admitted lb = List.map_filter source_principal (source_ranges lb)"

lemma collectPrincipals_events [quiet_intros]:
  "only_events (Ok (List.map_filter source_principal rs)) (collectPrincipals lb rs)"
proof (induction rs)
  case (Cons r rs)
  show ?case
  proof (cases "source_principal r")
    case None
    then show ?thesis
      using Cons by (simp add: map_filter_simps only_events_thenM only_events_ignoredEvent)
  next
    case (Some p)
    then show ?thesis
      using only_events_bindM [OF Cons, of "\<lambda>ps. Ok (p # ps)" "\<lambda>ps. ret (p # ps)"]
      by (simp add: map_filter_simps only_events_ret)
  qed
qed (simp add: map_filter_simps only_events_ret)

definition rbac_of :: "envoy_lib \<Rightarrow> load_balancer \<Rightarrow> any_config option" where
  "rbac_of lib lb =
     (if source_ranges lb = [] then None
      else case any_Error lib (rbac_rules (admitted lb)) of None \<Rightarrow> Some (rbac_rules (admitted lb)) | Some e \<Rightarrow> None)"

lemma rbac_events:
  "only_events (Ok (rbac_of lib lb)) (if source_ranges lb \<noteq> [] then createEnvoyRBACRules lib lb else ret None)"
proof (cases "source_ranges lb = []")
  case False
  have "only_events (Ok (rbac_of lib lb))
      (case any_New lib (rbac_rules (admitted lb)) of
         Ok rules \<Rightarrow> ret (Some rules)
       | _ \<Rightarrow> thenM (ignoredEvent (Suffixed ErrCouldNotParseSourceRange '': no rule applied'') lb) (ret None))"
    using False
    by (cases "any_Error lib (rbac_rules (admitted lb))")
      (auto simp: rbac_of_def any_New_def intro!: quiet_intros)
  then have "only_events (bindR (Ok (List.map_filter source_principal (source_ranges lb))) (\<lambda>_. Ok (rbac_of lib lb)))
      (createEnvoyRBACRules lib lb)"
    unfolding createEnvoyRBACRules_def
    by (intro only_events_bindM collectPrincipals_events) (auto simp: admitted_def)
  with False show ?thesis by simp
qed (simp add: rbac_of_def only_events_ret)

definition mustR :: "'a result \<Rightarrow> ('a \<Rightarrow> 'b result) \<Rightarrow> 'b result" where
  "mustR r f = (case r of Ok x \<Rightarrow> f x | Err e \<Rightarrow> Crash (Error_text e) | Crash c \<Rightarrow> Crash c)"

lemma mustR_Ok: "mustR r f = Ok y \<longleftrightarrow> (\<exists>x. r = Ok x \<and> f x = Ok y)"
  by (cases r) (simp_all add: mustR_def)

lemma only_events_must [quiet_intros]:
  "(\<And>x. r = Ok x \<Longrightarrow> only_events (f x) (k x)) \<Longrightarrow> only_events (mustR r f) (must r k)"
  by (cases r) (simp_all add: mustR_def must_def only_events_crash)

definition rbac_filter :: "any_config option \<Rightarrow> envoy_filter list" where
  "rbac_filter rbac = (case rbac of None \<Rightarrow> [] | Some rules \<Rightarrow> [\<lparr>flt_Name = RoleBasedAccessControl, flt_Config = rules\<rparr>])"

definition tcp_proxy :: "load_balancer \<Rightarrow> service_port \<Rightarrow> any_config" where
  "tcp_proxy lb port = TcpProxy ''envoytcp'' (resource_name port)
     (map_option durationpb_New (opt_TCPIdleTimeout (spec_Options (lb_Spec lb))))"

definition udp_proxy :: "load_balancer \<Rightarrow> any_config \<Rightarrow> any_config" where
  "udp_proxy lb route = UdpProxyConfig ''envoyudp''
     (map_option durationpb_New (opt_UDPIdleTimeout (spec_Options (lb_Spec lb)))) ''route'' route"

definition listener_of :: "envoy_lib \<Rightarrow> load_balancer \<Rightarrow> string \<Rightarrow> service_port \<Rightarrow> listener option result" where
  "listener_of lib lb addr port =
     (if sp_Protocol port = protocolTCP then
        mustR (any_New lib (tcp_proxy lb port)) (\<lambda>p. Ok (Some (tcp_listener addr port (rbac_filter (rbac_of lib lb)) p)))
      else if sp_Protocol port = protocolUDP then
        mustR (any_New lib (UdpRoute (resource_name port))) (\<lambda>route.
        mustR (any_New lib (udp_proxy lb route)) (\<lambda>p. Ok (Some (udp_listener addr port p))))
      else Ok None)"

fun listeners_of :: "envoy_lib \<Rightarrow> load_balancer \<Rightarrow> string \<Rightarrow> service_port list \<Rightarrow> listener option list result" where
  "listeners_of lib lb addr [] = Ok []"
| "listeners_of lib lb addr (port # rest) =
     bindR (listener_of lib lb addr port) (\<lambda>l. bindR (listeners_of lib lb addr rest) (\<lambda>ls. Ok (l # ls)))"

lemma tcp_listener_events:
  "only_events (mustR (any_New lib (tcp_proxy lb port)) (\<lambda>p. Ok (tcp_listener addr port (rbac_filter (rbac_of lib lb)) p)))
     (createEnvoyTCPListener lib lb addr port)"
  unfolding createEnvoyTCPListener_def tcp_proxy_def [symmetric]
proof (rule only_events_must)
  fix p
  show "only_events (Ok (tcp_listener addr port (rbac_filter (rbac_of lib lb)) p))
     (bindM (if source_ranges lb \<noteq> [] then createEnvoyRBACRules lib lb else ret None) (\<lambda>rbac.
      ret (tcp_listener addr port
        (case rbac of None \<Rightarrow> [] | Some rules \<Rightarrow> [\<lparr>flt_Name = RoleBasedAccessControl, flt_Config = rules\<rparr>]) p)))"
    using only_events_bindM [OF rbac_events only_events_ret, of lib lb "\<lambda>rbac. tcp_listener addr port (rbac_filter rbac) p"]
    by (simp add: rbac_filter_def)
qed

lemma udp_listener_events:
  "only_events (mustR (any_New lib (UdpRoute (resource_name port))) (\<lambda>route.
        mustR (any_New lib (udp_proxy lb route)) (\<lambda>p. Ok (udp_listener addr port p))))
     (createEnvoyUDPListener lib lb addr port)"
  unfolding createEnvoyUDPListener_def udp_proxy_def by (intro quiet_intros)

lemma bindR_mustR: "bindR (mustR r f) g = mustR r (\<lambda>x. bindR (f x) g)"
  by (cases r) (simp_all add: mustR_def)

lemma listener_events:
  "only_events (listener_of lib lb addr port)
     (if sp_Protocol port = protocolTCP then
        bindM (createEnvoyTCPListener lib lb addr port) (\<lambda>l. ret (Some l))
      else if sp_Protocol port = protocolUDP then
        bindM (createEnvoyUDPListener lib lb addr port) (\<lambda>l. ret (Some l))
      else ret None)"
  using only_events_bindM [OF tcp_listener_events only_events_ret, of lib lb port addr Some]
    only_events_bindM [OF udp_listener_events only_events_ret, of lib port lb addr Some]
  by (auto simp: listener_of_def bindR_mustR intro: only_events_ret)

lemma listeners_events [quiet_intros]: "only_events (listeners_of lib lb addr ports) (listeners_loop lib lb addr ports)"
proof (induction ports)
  case (Cons port rest)
  show ?case
    unfolding listeners_of.simps listeners_loop.simps by (intro only_events_bindM listener_events Cons only_events_ret)
qed (simp add: only_events_ret)

definition config_of :: "envoy_lib \<Rightarrow> int \<Rightarrow> snapshot \<Rightarrow> load_balancer \<Rightarrow> string \<Rightarrow> snapshot option result" where
  "config_of lib cpus old lb addr =
     (case check_ports (spec_Ports (lb_Spec lb)) of
        Some e \<Rightarrow> Err e
      | None \<Rightarrow> (case check_endpoints (endpoints_of lb) of
        Some e \<Rightarrow> Err e
      | None \<Rightarrow>
          bindR (listeners_of lib lb addr (spec_Ports (lb_Spec lb))) (\<lambda>ls.
          bindR (NewSnapshot lib (next_version old) (createEnvoyCluster lib cpus lb) (map the ls)) (\<lambda>sn.
          if same_config lib sn old then Ok None else Ok (Some sn)))))"

lemma only_events_option [quiet_intros]:
  "(p = None \<Longrightarrow> only_events v m) \<Longrightarrow> (\<And>x. p = Some x \<Longrightarrow> only_events (w x) (k x)) \<Longrightarrow>
     only_events (case p of None \<Rightarrow> v | Some x \<Rightarrow> w x) (case p of None \<Rightarrow> m | Some x \<Rightarrow> k x)"
  by (cases p) simp_all

lemma only_events_if [quiet_intros]:
  "only_events v m \<Longrightarrow> only_events w n \<Longrightarrow> only_events (if b then v else w) (if b then m else n)"
  by simp

lemma config_events: "only_events (config_of lib cpus old lb addr) (CreateEnvoyConfig lib cpus old lb addr)"
  unfolding config_of_def CreateEnvoyConfig_def createEnvoyListener_def by (intro quiet_intros)

lemma config_result:
  assumes run: "CreateEnvoyConfig lib cpus old lb addr s = (r, t)"
  shows "r = config_of lib cpus old lb addr" and "\<exists>cs. t = s\<lparr>trace := trace s @ cs\<rparr> \<and> (\<forall>c \<in> set cs. is_event c)"
proof -
  obtain cs where "CreateEnvoyConfig lib cpus old lb addr s = (config_of lib cpus old lb addr, s\<lparr>trace := trace s @ cs\<rparr>)"
    "\<forall>c \<in> set cs. is_event c"
    using config_events [of lib cpus old lb addr] unfolding only_events_def by blast
  with run show "r = config_of lib cpus old lb addr" "\<exists>cs. t = s\<lparr>trace := trace s @ cs\<rparr> \<and> (\<forall>c \<in> set cs. is_event c)"
    by auto
qed

section \<open>Typing\<close>

text \<open>The cluster a listener forwards to: that of the last filter of its only chain, or that of the route of its only
  listener filter.\<close>

fun tcp_target :: "any_config \<Rightarrow> string option" where
  "tcp_target (TcpProxy p c t) = Some c"
| "tcp_target m = None"

fun udp_target :: "any_config \<Rightarrow> string option" where
  "udp_target (UdpProxyConfig p t n (UdpRoute c)) = Some c"
| "udp_target m = None"

definition forwards_to :: "listener \<Rightarrow> string option" where
  "forwards_to l =
     (case ls_FilterChains l of
        [] \<Rightarrow> (case ls_ListenerFilters l of [f] \<Rightarrow> udp_target (flt_Config f) | _ \<Rightarrow> None)
      | [fs] \<Rightarrow> if fs = [] then None else tcp_target (flt_Config (last fs))
      | _ \<Rightarrow> None)"

definition valid_port :: "32 word \<Rightarrow> bool" where
  "valid_port p = (1 \<le> uint p \<and> uint p \<le> 65535)"

fun protocol_text :: "socket_protocol \<Rightarrow> string" where
  "protocol_text SocketTCP = ''TCP''"
| "protocol_text SocketUDP = ''UDP''"

text \<open>A cluster and a listener that belong together.\<close>

definition well_typed_pair :: "string \<Rightarrow> cluster \<Rightarrow> listener \<Rightarrow> bool" where
  "well_typed_pair name c l =
     (let proto = sock_Protocol (ls_Address l); p = sock_PortValue (ls_Address l) in
      cl_Name c = name \<and> cl_AssignmentName c = name \<and> ls_Name l = name \<and> forwards_to l = Some name \<and>
      valid_port p \<and> name = protocol_text proto @ CHR ''-'' # Itoa (uint p) \<and>
      (\<forall>a \<in> set (concat (cl_Endpoints c)). sock_Protocol a = proto \<and> valid_port (sock_PortValue a) \<and>
         (is_dns_name (sock_Address a) \<or> ParseAddr (sock_Address a) \<noteq> None)) \<and>
      (cl_HealthChecks c \<noteq> [] \<longleftrightarrow> proto = SocketTCP) \<and> (proto = SocketUDP \<longrightarrow> cl_TransportSocket c = None))"

definition well_typed :: "snapshot \<Rightarrow> bool" where
  "well_typed sn =
     (dom (sn_Clusters sn) = dom (sn_Listeners sn) \<and>
      (\<forall>name c l. sn_Clusters sn name = Some c \<and> sn_Listeners sn name = Some l \<longrightarrow> well_typed_pair name c l))"

text \<open>What go-control-plane documents of \<open>NewSnapshot\<close>: all resources get the version, and they are kept by
  name, of which the last one counts. It fails for an unknown type of resource only.\<close>

definition by_name :: "('a \<Rightarrow> string) \<Rightarrow> 'a list \<Rightarrow> (string \<rightharpoonup> 'a)" where
  "by_name name rs = map_of (rev (map (\<lambda>r. (name r, r)) rs))"

definition indexes_resources :: "envoy_lib \<Rightarrow> bool" where
  "indexes_resources lib = (\<forall>v cs ls. NewSnapshot lib v cs ls =
     Ok \<lparr>sn_ClusterVersion = v, sn_ListenerVersion = v, sn_Clusters = by_name cl_Name cs, sn_Listeners = by_name ls_Name ls\<rparr>)"

lemma by_name_map:
  assumes "\<And>x. x \<in> set xs \<Longrightarrow> name (f x) = key x"
  shows "by_name name (map f xs) n = map_option f (find (\<lambda>x. key x = n) (rev xs))"
proof -
  have "map_of (map (\<lambda>x. (name (f x), f x)) ys) n = map_option f (find (\<lambda>x. key x = n) ys)" if "set ys \<subseteq> set xs" for ys
    using that assms by (induction ys) auto
  from this [of "rev xs"] show ?thesis by (simp add: by_name_def rev_map [symmetric] o_def)
qed

lemma check_ports_None:
  "check_ports ports = None \<longleftrightarrow> (\<forall>p \<in> set ports. sp_Protocol p \<in> {protocolTCP, protocolUDP} \<and>
     1 \<le> sp_Port p \<and> sp_Port p \<le> 65535 \<and> 1 \<le> sp_NodePort p \<and> sp_NodePort p \<le> 65535)"
  by (induction ports) auto

lemma check_addresses_None:
  "check_addresses as = None \<longleftrightarrow> (\<forall>a \<in> set as. is_dns_name a \<or> ParseAddr a \<noteq> None)"
  by (induction as) auto

lemma check_endpoints_None:
  "check_endpoints eps = None \<longleftrightarrow>
     (\<forall>e \<in> set eps. ep_Addresses e \<noteq> None \<and> (\<forall>a \<in> set (addresses_of e). is_dns_name a \<or> ParseAddr a \<noteq> None))"
proof (induction eps)
  case (Cons e eps)
  have "check_endpoints (e # eps) = None \<longleftrightarrow>
      (\<exists>as. ep_Addresses e = Some as \<and> check_addresses as = None) \<and> check_endpoints eps = None"
    by (auto split: option.splits)
  with Cons show ?case by (auto simp: check_addresses_None addresses_of_def)
qed simp

lemma uint32_small: "0 \<le> i \<Longrightarrow> i \<le> 65535 \<Longrightarrow> uint (uint32 i) = i"
  by (simp add: uint32_def uint_word_of_int)

lemma any_New_Ok: "any_New lib m = Ok x \<longleftrightarrow> any_Error lib m = None \<and> x = m"
  by (auto simp: any_New_def split: option.splits)

definition the_listener :: "envoy_lib \<Rightarrow> load_balancer \<Rightarrow> string \<Rightarrow> service_port \<Rightarrow> listener" where
  "the_listener lib lb addr port =
     (if sp_Protocol port = protocolTCP then tcp_listener addr port (rbac_filter (rbac_of lib lb)) (tcp_proxy lb port)
      else udp_listener addr port (udp_proxy lb (UdpRoute (resource_name port))))"

lemma listener_of_Ok:
  assumes "listener_of lib lb addr port = Ok l" and "sp_Protocol port \<in> {protocolTCP, protocolUDP}"
  shows "l = Some (the_listener lib lb addr port)"
  using assms by (auto simp: listener_of_def the_listener_def mustR_Ok any_New_Ok split: if_splits)

lemma listeners_of_Ok:
  assumes "listeners_of lib lb addr ports = Ok ls" and "\<forall>p \<in> set ports. sp_Protocol p \<in> {protocolTCP, protocolUDP}"
  shows "map the ls = map (the_listener lib lb addr) ports"
  using assms by (induction ports arbitrary: ls) (auto simp: bindR_Ok dest!: listener_of_Ok)

text \<open>What an accepted configuration consists of.\<close>

lemma config_accepted:
  assumes lib: "indexes_resources lib" and ok: "config_of lib cpus old lb addr = Ok (Some sn)"
  shows "check_ports (spec_Ports (lb_Spec lb)) = None" and "check_endpoints (endpoints_of lb) = None"
    and "sn = \<lparr>sn_ClusterVersion = next_version old, sn_ListenerVersion = next_version old,
      sn_Clusters = (\<lambda>n. map_option (clusterPort lib cpus lb) (find (\<lambda>p. resource_name p = n) (rev (spec_Ports (lb_Spec lb))))),
      sn_Listeners = (\<lambda>n. map_option (the_listener lib lb addr) (find (\<lambda>p. resource_name p = n) (rev (spec_Ports (lb_Spec lb)))))\<rparr>"
proof -
  let ?ports = "spec_Ports (lb_Spec lb)"
  show p: "check_ports ?ports = None" and "check_endpoints (endpoints_of lb) = None"
    using ok by (auto simp: config_of_def split: option.splits)
  with ok obtain ls where ls: "listeners_of lib lb addr ?ports = Ok ls"
      and sn: "NewSnapshot lib (next_version old) (createEnvoyCluster lib cpus lb) (map the ls) = Ok sn"
    by (auto simp: config_of_def bindR_Ok split: if_splits)
  have "map the ls = map (the_listener lib lb addr) ?ports"
    using listeners_of_Ok [OF ls] p by (simp add: check_ports_None)
  moreover have "cl_Name (clusterPort lib cpus lb q) = resource_name q" "ls_Name (the_listener lib lb addr q) = resource_name q" for q
    by (simp_all add: clusterPort_def the_listener_def tcp_listener_def udp_listener_def Let_def)
  moreover have "sn = \<lparr>sn_ClusterVersion = next_version old, sn_ListenerVersion = next_version old,
      sn_Clusters = by_name cl_Name (createEnvoyCluster lib cpus lb), sn_Listeners = by_name ls_Name (map the ls)\<rparr>"
    using lib sn unfolding indexes_resources_def by simp
  ultimately show "sn = \<lparr>sn_ClusterVersion = next_version old, sn_ListenerVersion = next_version old,
      sn_Clusters = (\<lambda>n. map_option (clusterPort lib cpus lb) (find (\<lambda>p. resource_name p = n) (rev ?ports))),
      sn_Listeners = (\<lambda>n. map_option (the_listener lib lb addr) (find (\<lambda>p. resource_name p = n) (rev ?ports)))\<rparr>"
    by (simp add: fun_eq_iff createEnvoyCluster_def by_name_map [where key = resource_name])
qed

lemma pair_well_typed:
  assumes "port \<in> set (spec_Ports (lb_Spec lb))"
    and "check_ports (spec_Ports (lb_Spec lb)) = None" and "check_endpoints (endpoints_of lb) = None"
  shows "well_typed_pair (resource_name port) (clusterPort lib cpus lb port) (the_listener lib lb addr port)"
proof -
  have r: "1 \<le> sp_Port port" "sp_Port port \<le> 65535" "1 \<le> sp_NodePort port" "sp_NodePort port \<le> 65535"
      and proto: "sp_Protocol port \<in> {protocolTCP, protocolUDP}"
    using assms(1,2) by (auto simp: check_ports_None)
  have u: "uint (uint32 (sp_Port port)) = sp_Port port" "uint (uint32 (sp_NodePort port)) = sp_NodePort port"
    using r by (simp_all add: uint32_small)
  have sock: "sock_Protocol a = port_protocol port \<and> valid_port (sock_PortValue a) \<and>
      (is_dns_name (sock_Address a) \<or> ParseAddr (sock_Address a) \<noteq> None)"
    if "a \<in> set (concat (cl_Endpoints (clusterPort lib cpus lb port)))" for a
  proof -
    from that obtain e x where e: "e \<in> set (endpoints_of lb)" and x: "x \<in> set (addresses_of e)"
        and a: "a = cluster_socket (port_protocol port) port x"
      by (auto simp: clusterPort_def Let_def)
    have "is_dns_name x \<or> ParseAddr x \<noteq> None"
      using assms(3) e x unfolding check_endpoints_None by blast
    with a r u show ?thesis by (simp add: cluster_socket_def valid_port_def)
  qed
  from proto consider "sp_Protocol port = protocolTCP" | "sp_Protocol port = protocolUDP" by blast
  then show ?thesis
    using sock r u
    by cases (auto simp: well_typed_pair_def Let_def clusterPort_def the_listener_def tcp_listener_def udp_listener_def
        forwards_to_def tcp_proxy_def udp_proxy_def listener_socket_def valid_port_def resource_name_def port_protocol_def
        protocolTCP_def protocolUDP_def)
qed

text \<open>C13. An accepted configuration is well typed: the snapshot that \<open>CreateEnvoyConfig\<close> returns has a cluster
  for each listener and the reverse; each pair carries the same name, made of the protocol and the port the listener
  is bound to; the listener forwards to that cluster; all ports lie between 1 and 65535, so that no conversion to
  \<open>uint32\<close> wraps; the endpoints have the listener's protocol and an address that is an IP or a host name; health
  checks are there exactly for TCP, and the proxy protocol for TCP only.\<close>

theorem accepted_config_well_typed:
  assumes "indexes_resources lib" and "CreateEnvoyConfig lib cpus old lb addr s = (Ok (Some sn), t)"
  shows "well_typed sn"
proof -
  have ok: "config_of lib cpus old lb addr = Ok (Some sn)"
    using config_result(1) [OF assms(2)] by simp
  note acc = config_accepted [OF assms(1) ok]
  have "well_typed_pair n (clusterPort lib cpus lb p) (the_listener lib lb addr p)"
    if "find (\<lambda>p. resource_name p = n) (rev (spec_Ports (lb_Spec lb))) = Some p" for n p
  proof -
    have "p \<in> set (rev (spec_Ports (lb_Spec lb)))" "resource_name p = n"
      using find_holds [OF that] by simp_all
    then show ?thesis
      using pair_well_typed [OF _ acc(1,2)] by auto
  qed
  then show ?thesis
    by (auto simp: well_typed_def acc(3) dom_def)
qed

text \<open>A library for concrete runs, and a LoadBalancer with two ports.\<close>

definition example_envoy :: envoy_lib where
  "example_envoy = \<lparr>any_Error = (\<lambda>_. None),
     NewSnapshot = (\<lambda>v cs ls. Ok \<lparr>sn_ClusterVersion = v, sn_ListenerVersion = v,
       sn_Clusters = by_name cl_Name cs, sn_Listeners = by_name ls_Name ls\<rparr>),
     Consistent = (\<lambda>_. None),
     clusters_print = (\<lambda>m. if m ''TCP-80'' = None then [] else ''map[TCP-80:]''),
     listeners_print = (\<lambda>m. if m ''TCP-80'' = None then [] else ''map[TCP-80:]'')\<rparr>"

definition tcp_port :: service_port where
  "tcp_port = \<lparr>sp_Name = ''http'', sp_Protocol = ''TCP'', sp_AppProtocol = None, sp_Port = 80,
     sp_TargetPort = IntVal 8080, sp_NodePort = 30080\<rparr>"

definition udp_port :: service_port where
  "udp_port = \<lparr>sp_Name = ''dns'', sp_Protocol = ''UDP'', sp_AppProtocol = None, sp_Port = 53,
     sp_TargetPort = IntVal 53, sp_NodePort = 30053\<rparr>"

definition served_lb :: load_balancer where
  "served_lb = zero_lb\<lparr>meta_Name := ''lb'', meta_Namespace := ''ns'', meta_UID := ''uid'',
     lb_Spec := zero_lb_spec\<lparr>spec_Replicas := 1, spec_Ports := [tcp_port, udp_port],
       spec_Endpoints := Some [\<lparr>ep_Name = ''a'', ep_Addresses = Some [''10.0.0.1'', ''fd00::1'', ''a.de'']\<rparr>],
       spec_Options := zero_options\<lparr>opt_LoadBalancerSourceRanges := Some [''192.0.2.0/24'', ''bad'']\<rparr>\<rparr>\<rparr>"

lemma example_envoy_indexes: "indexes_resources example_envoy"
  by (simp add: indexes_resources_def example_envoy_def)

lemma served_addresses: "ParseAddr ''10.0.0.1'' = Some Family4" "ParseAddr ''fd00::1'' = Some Family6" "is_dns_name ''a.de''"
  by code_simp+

lemma served_checks: "check_ports (spec_Ports (lb_Spec served_lb)) = None" "check_endpoints (endpoints_of served_lb) = None"
proof -
  show "check_ports (spec_Ports (lb_Spec served_lb)) = None"
    by code_simp
  show "check_endpoints (endpoints_of served_lb) = None"
    by (simp add: check_endpoints_None endpoints_of_def addresses_of_def served_lb_def served_addresses)
qed

lemma served_ports: "spec_Ports (lb_Spec served_lb) = [tcp_port, udp_port]"
  by (simp add: served_lb_def)

lemma served_names: "resource_name tcp_port = ''TCP-80''" "resource_name udp_port = ''UDP-53''"
  by code_simp+

lemma served_protocols: "sp_Protocol tcp_port = protocolTCP" "sp_Protocol udp_port = protocolUDP" "protocolUDP \<noteq> protocolTCP"
  by (simp_all add: tcp_port_def udp_port_def protocolTCP_def protocolUDP_def)

lemma served_listeners:
  "listeners_of example_envoy served_lb addr [tcp_port, udp_port] =
     Ok [Some (the_listener example_envoy served_lb addr tcp_port), Some (the_listener example_envoy served_lb addr udp_port)]"
proof -
  have n: "any_New example_envoy m = Ok m" for m
    by (simp add: any_New_def example_envoy_def)
  show ?thesis
    using served_protocols by (simp add: listener_of_def n mustR_def the_listener_def)
qed

lemma example_config:
  "\<exists>sn. config_of example_envoy 2 initial_snapshot served_lb ''0.0.0.0'' = Ok (Some sn) \<and> sn_Listeners sn ''TCP-80'' \<noteq> None"
proof -
  let ?sn = "\<lparr>sn_ClusterVersion = next_version initial_snapshot, sn_ListenerVersion = next_version initial_snapshot,
      sn_Clusters = by_name cl_Name (createEnvoyCluster example_envoy 2 served_lb),
      sn_Listeners = by_name ls_Name [the_listener example_envoy served_lb ''0.0.0.0'' tcp_port, the_listener example_envoy served_lb ''0.0.0.0'' udp_port]\<rparr>"
  have l: "sn_Listeners ?sn ''TCP-80'' \<noteq> None"
    using served_names served_protocols by (simp add: by_name_def the_listener_def tcp_listener_def udp_listener_def)
  moreover have "sn_Listeners initial_snapshot ''TCP-80'' = None"
    by (simp add: initial_snapshot_def)
  moreover have "listeners_print example_envoy m = (if m ''TCP-80'' = None then [] else ''map[TCP-80:]'')" for m
    by (simp add: example_envoy_def)
  ultimately have "\<not> same_config example_envoy ?sn initial_snapshot"
    unfolding same_config_def by (simp only: if_False if_True list.simps simp_thms)
  then have "config_of example_envoy 2 initial_snapshot served_lb ''0.0.0.0'' = Ok (Some ?sn)"
    using example_envoy_indexes
    unfolding config_of_def served_checks option.case
    unfolding served_ports served_listeners
    by (simp add: indexes_resources_def)
  with l show ?thesis by blast
qed

lemma config_run:
  obtains t where "CreateEnvoyConfig lib cpus old lb addr s = (config_of lib cpus old lb addr, t)"
  using config_events [of lib cpus old lb addr] unfolding only_events_def by blast

lemma accepted_config_well_typed_witness: "\<exists>sn. well_typed sn \<and> sn_Listeners sn ''TCP-80'' \<noteq> None"
proof -
  obtain sn where c: "config_of example_envoy 2 initial_snapshot served_lb ''0.0.0.0'' = Ok (Some sn)"
      and l: "sn_Listeners sn ''TCP-80'' \<noteq> None"
    using example_config by blast
  obtain t where "CreateEnvoyConfig example_envoy 2 initial_snapshot served_lb ''0.0.0.0'' (\<lparr>world = (), trace = []\<rparr> :: (unit, call) st) = (Ok (Some sn), t)"
    using config_run [of example_envoy 2 initial_snapshot served_lb "''0.0.0.0''" "\<lparr>world = (), trace = []\<rparr> :: (unit, call) st"]
    unfolding c by blast
  with l show ?thesis
    using accepted_config_well_typed [OF example_envoy_indexes] by blast
qed

section \<open>Versions\<close>

lemma wrap64_range: "in_int64 (wrap64 i)"
  using signed_take_bit_int_less_exp [of 63 i] signed_take_bit_int_greater_eq_minus_exp [of 63 i]
  by (simp add: in_int64_def wrap64_def)

lemma wrap64_moves: "wrap64 (i + 1) \<noteq> i"
proof
  assume "wrap64 (i + 1) = i"
  then have "even (signed_take_bit 63 (i + 1)) = even i"
    by (simp add: wrap64_def)
  then show False
    by (simp add: even_signed_take_bit_iff)
qed

lemma next_version_moves: "next_version old \<noteq> sn_ListenerVersion old"
proof
  assume eq: "next_version old = sn_ListenerVersion old"
  define i where "i = (case Atoi (sn_ListenerVersion old) of None \<Rightarrow> 0 | Some v \<Rightarrow> v)"
  have "next_version old = Itoa (wrap64 (i + 1))"
    by (simp add: next_version_def i_def)
  then have A: "Atoi (sn_ListenerVersion old) = Some (wrap64 (i + 1))"
    using eq Atoi_Itoa [OF wrap64_range, of "i + 1"] by simp
  have "i = (case Atoi (sn_ListenerVersion old) of None \<Rightarrow> 0 | Some v \<Rightarrow> v)"
    by (fact i_def)
  also have "\<dots> = wrap64 (i + 1)"
    unfolding A by simp
  finally show False
    using wrap64_moves [of i] by simp
qed

text \<open>C25. Envoy learns of every change, and of nothing else. A new configuration has a version that differs from
  the one before, even where the counter wraps or the old version was no number, and the same one for clusters and
  listeners. Once it is in the cache, the same LoadBalancer gives no further change, whatever happened in between: the
  configuration settles after one step.\<close>

theorem config_change_is_versioned_and_settles:
  assumes "indexes_resources lib" and "CreateEnvoyConfig lib cpus old lb addr s = (Ok (Some sn), t)"
  shows "sn_ListenerVersion sn \<noteq> sn_ListenerVersion old \<and> sn_ClusterVersion sn = sn_ListenerVersion sn \<and>
     fst (CreateEnvoyConfig lib cpus sn lb addr u) = Ok None"
proof -
  have ok: "config_of lib cpus old lb addr = Ok (Some sn)"
    using config_result(1) [OF assms(2)] by simp
  then obtain ls where "listeners_of lib lb addr (spec_Ports (lb_Spec lb)) = Ok ls"
      "NewSnapshot lib (next_version old) (createEnvoyCluster lib cpus lb) (map the ls) = Ok sn"
    by (auto simp: config_of_def bindR_Ok split: option.splits if_splits)
  then have "config_of lib cpus sn lb addr = Ok None"
    using config_accepted(1,2) [OF assms(1) ok] assms(1)
    by (auto simp: config_of_def same_config_def indexes_resources_def)
  moreover have "CreateEnvoyConfig lib cpus sn lb addr u = (config_of lib cpus sn lb addr, snd (CreateEnvoyConfig lib cpus sn lb addr u))"
    using config_result(1) [of lib cpus sn lb addr u] by (simp add: prod_eq_iff)
  ultimately have "fst (CreateEnvoyConfig lib cpus sn lb addr u) = Ok None"
    by (metis fst_conv)
  then show ?thesis
    using next_version_moves [of old] config_accepted(3) [OF assms(1) ok] by simp
qed

lemma config_change_is_versioned_and_settles_witness:
  "\<exists>sn. sn_ListenerVersion sn \<noteq> ''1'' \<and>
     fst (CreateEnvoyConfig example_envoy 2 sn served_lb ''0.0.0.0'' (\<lparr>world = (), trace = []\<rparr> :: (unit, call) st)) = Ok None"
proof -
  let ?s = "\<lparr>world = (), trace = []\<rparr> :: (unit, call) st"
  obtain sn where c: "config_of example_envoy 2 initial_snapshot served_lb ''0.0.0.0'' = Ok (Some sn)"
    using example_config by blast
  obtain t where "CreateEnvoyConfig example_envoy 2 initial_snapshot served_lb ''0.0.0.0'' ?s = (Ok (Some sn), t)"
    using config_run [of example_envoy 2 initial_snapshot served_lb "''0.0.0.0''" ?s] unfolding c by blast
  from config_change_is_versioned_and_settles [OF example_envoy_indexes this, of ?s] show ?thesis
    by (intro exI [of _ sn]) (simp add: initial_snapshot_def)
qed

section \<open>Source ranges\<close>

text \<open>The prefixes that the rules of the security group open for a port.\<close>

definition opened_prefixes :: "service_port \<Rightarrow> sec_group_rule list \<Rightarrow> string set" where
  "opened_prefixes port rules = {rule_RemoteIPPrefix r |r. r \<in> set rules \<and> rule_PortRangeMin r = sp_Port port \<and>
     rule_Protocol r = ToLower (sp_Protocol port)}"

lemma port_rules_prefixes:
  "port \<in> set (spec_Ports (lb_Spec lb)) \<Longrightarrow>
     opened_prefixes port (port_rules lb) = {c \<in> set (GetLoadBalancerSourceRanges lb). ParseCIDR c \<noteq> None}"
proof -
  assume port: "port \<in> set (spec_Ports (lb_Spec lb))"
  have f: "rule_RemoteIPPrefix (port_rule p c) = c" "rule_PortRangeMin (port_rule p c) = sp_Port p"
      "rule_Protocol (port_rule p c) = ToLower (sp_Protocol p)" for p c
    by (simp_all add: port_rule_def zero_rule_def Let_def)
  have "c \<in> opened_prefixes port (port_rules lb)" if "c \<in> set (GetLoadBalancerSourceRanges lb)" "ParseCIDR c \<noteq> None" for c
    unfolding opened_prefixes_def mem_Collect_eq
    using that port by (intro exI [of _ "port_rule port c"]) (auto simp: f port_rules_def)
  then show ?thesis
    by (auto simp: opened_prefixes_def port_rules_def f)
qed

lemma source_ranges_default: "source_ranges lb \<noteq> [] \<Longrightarrow> GetLoadBalancerSourceRanges lb = source_ranges lb"
  by (auto simp: source_ranges_def GetLoadBalancerSourceRanges_def split: option.splits list.splits)

lemma admitted_set: "Some ` set (admitted lb) = source_principal ` {c \<in> set (source_ranges lb). ParseCIDR c \<noteq> None}"
proof -
  have "Some ` set (List.map_filter source_principal rs) = source_principal ` {c \<in> set rs. source_principal c \<noteq> None}" for rs
  proof (induction rs)
    case (Cons r rs)
    have "{c \<in> set (r # rs). source_principal c \<noteq> None} =
        (if source_principal r \<noteq> None then insert r {c \<in> set rs. source_principal c \<noteq> None}
         else {c \<in> set rs. source_principal c \<noteq> None})"
      by auto
    with Cons show ?case by (auto simp: map_filter_simps split: option.split)
  qed (simp add: map_filter_simps)
  then show ?thesis
    by (simp add: admitted_def source_principal_iff)
qed

text \<open>The principals of a TCP listener's first filter, and the rest of the chain.\<close>

definition admits :: "listener \<Rightarrow> cidr_range list \<Rightarrow> bool" where
  "admits l ps = (\<exists>proxy. tcp_target proxy \<noteq> None \<and> ls_FilterChains l =
     [[\<lparr>flt_Name = RoleBasedAccessControl, flt_Config = RBAC ''envoyrbac'' RBAC_ALLOW
         [(''load-balancer-source-ranges'', \<lparr>pol_Any = [True], pol_Principals = ps\<rparr>)]\<rparr>,
       \<lparr>flt_Name = TCPProxy, flt_Config = proxy\<rparr>]])"

text \<open>C12. Envoy and OpenStack let in the same sources. For a TCP port of a LoadBalancer with source ranges, the
  listener's chain begins with the RBAC filter, and its principals are exactly the ranges for which the security group
  gets a rule for that port: the invalid ranges are left out of both. (The message of the filter must be encodable;
  where it is not, the listener has no such filter at all.)\<close>

theorem source_ranges_agree_with_security_group:
  assumes "indexes_resources lib" and "CreateEnvoyConfig lib cpus old lb addr s = (Ok (Some sn), t)"
    and "port \<in> set (spec_Ports (lb_Spec lb))" and "sp_Protocol port = ''TCP''" and "source_ranges lb \<noteq> []"
    and "any_Error lib (rbac_rules (admitted lb)) = None"
    and "getSecGroupRulesForPorts lb u = (Ok rules, v)"
  shows "\<exists>l ps. sn_Listeners sn (resource_name port) = Some l \<and> admits l ps \<and>
     Some ` set ps = source_principal ` opened_prefixes port rules"
proof -
  have ok: "config_of lib cpus old lb addr = Ok (Some sn)"
    using config_result(1) [OF assms(2)] by simp
  have rules: "rules = port_rules lb"
    using yields_port_rules [of lb] assms(7) by (auto simp: yields_def dest: runsD)
  have "find (\<lambda>p. resource_name p = resource_name port) (rev (spec_Ports (lb_Spec lb))) \<noteq> None"
    using assms(3) by (auto simp: find_None_iff)
  then obtain p where p: "find (\<lambda>p. resource_name p = resource_name port) (rev (spec_Ports (lb_Spec lb))) = Some p"
    by blast
  then have "resource_name p = resource_name port" "p \<in> set (spec_Ports (lb_Spec lb))"
    using find_holds [OF p] by simp_all
  then have "sp_Protocol p = protocolTCP"
    using assms(4) config_accepted(1) [OF assms(1) ok]
    by (auto simp: resource_name_def check_ports_None protocolTCP_def protocolUDP_def)
  then have "admits (the_listener lib lb addr p) (admitted lb)"
    using assms(5,6)
    by (auto simp: admits_def the_listener_def tcp_listener_def rbac_filter_def rbac_of_def rbac_rules_def tcp_proxy_def)
  then show ?thesis
    using p port_rules_prefixes [OF assms(3)] source_ranges_default [OF assms(5)]
    by (intro exI [of _ "the_listener lib lb addr p"] exI [of _ "admitted lb"])
      (simp add: config_accepted(3) [OF assms(1) ok] rules admitted_set)
qed

lemma source_ranges_agree_with_security_group_witness:
  "\<exists>(sn :: snapshot) l ps. sn_Listeners sn (resource_name tcp_port) = Some l \<and> admits l ps \<and>
     Some ` set ps = source_principal ` opened_prefixes tcp_port (port_rules served_lb)"
proof -
  let ?s = "\<lparr>world = (), trace = []\<rparr> :: (unit, call) st"
  let ?u = "\<lparr>world = (), trace = [], cur = served_lb\<rparr> :: (unit, call) lbst"
  obtain sn where c: "config_of example_envoy 2 initial_snapshot served_lb ''0.0.0.0'' = Ok (Some sn)"
    using example_config by blast
  obtain t where run: "CreateEnvoyConfig example_envoy 2 initial_snapshot served_lb ''0.0.0.0'' ?s = (Ok (Some sn), t)"
    using config_run [of example_envoy 2 initial_snapshot served_lb "''0.0.0.0''" ?s] unfolding c by blast
  obtain v where rules: "getSecGroupRulesForPorts served_lb ?u = (Ok (port_rules served_lb), v)"
    by (rule yieldsD [OF yields_port_rules])
  have ex: "tcp_port \<in> set (spec_Ports (lb_Spec served_lb))" "sp_Protocol tcp_port = ''TCP''" "source_ranges served_lb \<noteq> []"
    by (simp_all add: served_lb_def tcp_port_def source_ranges_def)
  have enc: "any_Error example_envoy (rbac_rules (admitted served_lb)) = None"
    by (simp add: example_envoy_def)
  show ?thesis
    by (rule exI [of _ sn], rule source_ranges_agree_with_security_group [OF example_envoy_indexes run ex enc rules])
qed

end
