(* ===== verification/HostStatus.thy ===== *)
theory HostStatus
  imports HelperLB
begin

text \<open>
  What the yawollet reads from the machine it runs on: the statistics of keepalived
  (\<open>internal/keepalived/keepalived.go\<close>), the administration interface of Envoy
  (\<open>internal/envoystatus/envoystatus.go\<close>) and the readings of the system
  (\<open>internal/hostmetrics/hostmetrics.go\<close>). The host is the record \<open>host\<close> of \<open>EnvoyTypes\<close>; the
  decoding of one YAML section is its field \<open>h_yaml\<close>.
\<close>

section \<open>Calls of the host\<close>

type_synonym ('w, 'z, 'a) hop = "(('w, call, 'z) st_scheme, 'a) gop"

definition hcall :: "yawollet_call \<Rightarrow> ('w, 'a) gop \<Rightarrow> ('w, 'z, 'a) hop" where
  "hcall c f = ext (CYawollet c) f"

definition NL :: char where "NL = CHR 0x0A"
definition QUOTE :: char where "QUOTE = CHR 0x22"

text \<open>\<open>strings.Contains\<close> and \<open>strings.Trim\<close> with one character.\<close>

fun Contains :: "string \<Rightarrow> string \<Rightarrow> bool" where
  "Contains [] p = (p = [])"
| "Contains (c # cs) p = (prefix p (c # cs) \<or> Contains cs p)"

definition TrimChar :: "char \<Rightarrow> string \<Rightarrow> string" where
  "TrimChar c s = rev (dropWhile (\<lambda>d. d = c) (rev (dropWhile (\<lambda>d. d = c) s)))"

section \<open>keepalived\<close>

definition VRRPHeader :: string where "VRRPHeader = ''VRRP Instance: ''"

text \<open>A Go map with \<open>m[k] += s\<close>; the entries are kept in the order of their first appearance.\<close>

definition append_text :: "string \<Rightarrow> string \<Rightarrow> (string \<times> string) list \<Rightarrow> (string \<times> string) list" where
  "append_text k s m =
     (case map_of m k of
        None \<Rightarrow> m @ [(k, s)]
      | Some t \<Rightarrow> map (\<lambda>(k', t'). (k', if k' = k then t' @ s else t')) m)"

fun sections_loop :: "(string \<times> string) list \<Rightarrow> string \<Rightarrow> string list \<Rightarrow> (string \<times> string) list" where
  "sections_loop instances currentInstanceName [] = instances"
| "sections_loop instances currentInstanceName (line # rest) =
     (if HasPrefix line VRRPHeader then
        (let name = TrimPrefix line VRRPHeader
         in sections_loop (append_text name (VRRPHeader @ [NL]) instances) name rest)
      else if currentInstanceName \<noteq> [] then
        sections_loop (append_text currentInstanceName (line @ [NL]) instances) currentInstanceName rest
      else sections_loop instances currentInstanceName rest)"

text \<open>The source visits the map in no fixed order, which only decides the error that is reported.\<close>

fun unmarshal_all :: "(string \<Rightarrow> vrrp_instance result) \<Rightarrow> (string \<times> string) list \<Rightarrow> (string \<times> vrrp_instance) list result" where
  "unmarshal_all unmarshal [] = Ok []"
| "unmarshal_all unmarshal ((name, text) # rest) =
     (case unmarshal text of
        Ok v \<Rightarrow> (case unmarshal_all unmarshal rest of
            Ok vs \<Rightarrow> Ok ((name, v) # vs) | Err e \<Rightarrow> Err e | Crash c \<Rightarrow> Crash c)
      | Err e \<Rightarrow> Err e
      | Crash c \<Rightarrow> Crash c)"

definition ParseStats :: "(string \<Rightarrow> vrrp_instance result) \<Rightarrow> string \<Rightarrow> (string \<times> vrrp_instance) list result" where
  "ParseStats unmarshal statsContent =
     unmarshal_all unmarshal (sections_loop [] [] (splitOn NL statsContent))"

definition ReadStatsFromDisk :: "'w host \<Rightarrow> string \<Rightarrow> ('w, 'z, string \<times> int) hop" where
  "ReadStatsFromDisk h file =
     bindM (hcall (YReadFile file) (h_ReadFile h file)) (\<lambda>statFile.
     bindM (hcall (YStat file) (h_ModTime h file)) (\<lambda>modTime.
     ret (statFile, modTime)))"

definition IsMaster :: "vrrp_instance \<Rightarrow> bool" where
  "IsMaster v = (vrrp_BecameMaster v > vrrp_ReleasedMaster v)"

definition zero_vrrp :: vrrp_instance where
  "zero_vrrp = \<lparr>vrrp_Received = 0, vrrp_Sent = 0, vrrp_BecameMaster = 0, vrrp_ReleasedMaster = 0\<rparr>"

definition ReadStatsForInstanceName :: "'w host \<Rightarrow> string \<Rightarrow> string \<Rightarrow> ('w, 'z, vrrp_instance \<times> int) hop" where
  "ReadStatsForInstanceName h instanceName file =
     bindM (ReadStatsFromDisk h file) (\<lambda>(statsFile, modTime).
     bindM (liftR (ParseStats (h_yaml h) statsFile)) (\<lambda>stats.
     ret ((case map_of stats instanceName of None \<Rightarrow> zero_vrrp | Some v \<Rightarrow> v), modTime)))"

section \<open>Envoy\<close>

definition AdminAddress :: string where "AdminAddress = ''127.0.0.1:9000''"

definition admin_get :: "'w host \<Rightarrow> string \<Rightarrow> ('w, 'z, http_response) hop" where
  "admin_get h path = (let url = ''http://'' @ AdminAddress @ path in hcall (YHttpGet url) (h_HttpGet h url))"

definition GetEnvoyStatus :: "'w host \<Rightarrow> ('w, 'z, bool) hop" where
  "GetEnvoyStatus h = catchM (admin_get h ''/ready'') (\<lambda>_. ret False) (\<lambda>resp. ret (resp_StatusCode resp = 200))"

definition cds_prefix :: string where "cds_prefix = ''cluster_manager.cds.version_text: ''"
definition lds_prefix :: string where "lds_prefix = ''listener_manager.lds.version_text: ''"

definition version_value :: "string \<Rightarrow> string \<Rightarrow> string \<Rightarrow> string" where
  "version_value p line old = (if HasPrefix line p then TrimChar QUOTE (TrimPrefix line p) else old)"

fun version_lines :: "string \<Rightarrow> string \<Rightarrow> string list \<Rightarrow> string \<times> string" where
  "version_lines clusterVersion listenerVersion [] = (clusterVersion, listenerVersion)"
| "version_lines clusterVersion listenerVersion (stats # rest) =
     version_lines (version_value cds_prefix stats clusterVersion) (version_value lds_prefix stats listenerVersion) rest"

definition GetCurrentSnapshotVersion :: "'w host \<Rightarrow> ('w, 'z, string \<times> string) hop" where
  "GetCurrentSnapshotVersion h =
     bindM (admin_get h ''/stats?filter=cluster_manager.cds.version_text|listener_manager.lds.version_text'') (\<lambda>resp.
     if resp_StatusCode resp \<noteq> 200 then ret ([], [])
     else bindM (liftR (resp_Body resp)) (\<lambda>body. ret (version_lines [] [] (splitOn NL body))))"

text \<open>The metric of one line, by type and value.\<close>

definition metric_value :: "string \<Rightarrow> string" where
  "metric_value part = TrimPrefix part (hd (splitOn (CHR '':'') part) @ '': '')"

definition upstream_stat :: "string \<Rightarrow> bool" where
  "upstream_stat stats =
     (Contains stats ''upstream_cx_active'' \<or> Contains stats ''upstream_cx_total'' \<or>
      Contains stats ''upstream_cx_connect_fail'' \<or> Contains stats ''upstream_cx_tx_bytes_total'' \<or>
      Contains stats ''upstream_cx_rx_bytes_total'')"

definition envoy_metric :: "string \<Rightarrow> (string \<times> string) option" where
  "envoy_metric stats =
     (if HasPrefix stats ''cluster'' then
        (if upstream_stat stats then
           (case splitOn (CHR ''.'') stats of
              [_, name, part] \<Rightarrow>
                if Contains name ''TCP'' \<or> Contains name ''UDP''
                then Some (name @ CHR ''-'' # hd (splitOn (CHR '':'') part), metric_value part) else None
            | _ \<Rightarrow> None)
         else None)
      else if HasPrefix stats ''tcp'' then
        (if Contains stats ''idle_timeout'' then
           (case splitOn (CHR ''.'') stats of
              [_, name, part] \<Rightarrow> Some (name @ ''-idle_timeout'', metric_value part)
            | _ \<Rightarrow> None)
         else None)
      else None)"

text \<open>Metrics are stamped with the time one after the other.\<close>

fun stamped :: "'w kube \<Rightarrow> (string \<times> string) list \<Rightarrow> ('w, 'z, lbm_metric list) hop" where
  "stamped k [] = ret []"
| "stamped k ((ty, v) # rest) =
     nowM k (\<lambda>now. bindM (stamped k rest) (\<lambda>ms.
       ret (\<lparr>metric_Type = ty, metric_Value = v, metric_Time = now\<rparr> # ms)))"

definition parseEnvoyMetricsToLoadBalancerMachineMetrics :: "'w kube \<Rightarrow> string \<Rightarrow> ('w, 'z, lbm_metric list) hop" where
  "parseEnvoyMetricsToLoadBalancerMachineMetrics k envoyMetrics =
     stamped k (List.map_filter envoy_metric (splitOn NL envoyMetrics))"

definition GetCurrentStats :: "'w kube \<Rightarrow> 'w host \<Rightarrow> ('w, 'z, lbm_metric list) hop" where
  "GetCurrentStats k h =
     bindM (admin_get h ''/stats?filter=cluster|tcp'') (\<lambda>resp.
     if resp_StatusCode resp \<noteq> 200 then ret []
     else bindM (liftR (resp_Body resp)) (\<lambda>body. parseEnvoyMetricsToLoadBalancerMachineMetrics k body))"

section \<open>The system\<close>

text \<open>\<open>strconv.FormatFloat(f, 'f', 2, 64)\<close> rounds the exact value to the nearest hundredth, ties to even.\<close>

definition hundredths :: "nat \<Rightarrow> int \<Rightarrow> nat" where
  "hundredths m e =
     (if e \<ge> 0 then 100 * m * 2 ^ nat e
      else let d = 2 ^ nat (- e); q = (100 * m) div d; r = (100 * m) mod d in
        if 2 * r < d then q else if 2 * r > d then q + 1 else if even q then q else q + 1)"

definition two_digits :: "nat \<Rightarrow> string" where
  "two_digits n = [digit_char (n div 10), digit_char (n mod 10)]"

fun formatFloat :: "float64 \<Rightarrow> string" where
  "formatFloat (Finite neg m e) =
     (let n = hundredths m e in
      (if neg then ''-'' else []) @ nat_digits (n div 100) @ CHR ''.'' # two_digits (n mod 100))"
| "formatFloat (Infinite neg) = (if neg then ''-Inf'' else ''+Inf'')"
| "formatFloat NaN = ''NaN''"

definition formatUint :: "64 word \<Rightarrow> string" where
  "formatUint u = nat_digits (unat u)"

definition GetLoad :: "'w host \<Rightarrow> ('w, 'z, string \<times> string \<times> string) hop" where
  "GetLoad h =
     bindM (wrapM ''failed to fetch load information from host: '' (hcall (YReading ''load'') (h_LoadAvg h))) (\<lambda>(l1, l5, l15).
     ret (formatFloat l1, formatFloat l5, formatFloat l15))"

definition GetCPUNum :: "'w host \<Rightarrow> int" where
  "GetCPUNum h = h_NumCPU h"

definition GetCPUStealTime :: "'w host \<Rightarrow> ('w, 'z, string) hop" where
  "GetCPUStealTime h =
     catchM (hcall (YReading ''cpu'') (h_CPUTimes h)) (\<lambda>_. fail (OtherErr ''failed to return steal time''))
       (\<lambda>stats. case stats of
          [steal] \<Rightarrow> ret (formatFloat steal)
        | _ \<Rightarrow> fail (OtherErr (''expected exactly one CPU stats element, got '' @ Itoa (int (length stats)))))"

definition GetMem :: "'w host \<Rightarrow> ('w, 'z, string \<times> string \<times> string) hop" where
  "GetMem h =
     bindM (wrapM ''failed to get virtual memory stats: '' (hcall (YReading ''memory'') (h_VirtualMemory h))) (\<lambda>(total, free, available).
     ret (formatUint total, formatUint free, formatUint available))"

definition GetUptime :: "'w host \<Rightarrow> ('w, 'z, string) hop" where
  "GetUptime h =
     bindM (wrapM ''failed to get uptime stats: '' (hcall (YReading ''uptime'') (h_Uptime h))) (\<lambda>uptime.
     ret (formatUint uptime))"

end
