(* ===== verification/KeepalivedStats.thy ===== *)
theory KeepalivedStats
  imports HostStatus
begin

text \<open>
  The texts that the yawollet reads back: the sections of keepalived's statistics file and the versions that
  Envoy's administration interface reports.
\<close>

section \<open>Lines\<close>

definition text_lines :: "string list \<Rightarrow> string" where
  "text_lines ls = concat (map (\<lambda>l. l @ [NL]) ls)"

lemma text_lines_simps [simp]:
  "text_lines [] = []" "text_lines (l # ls) = l @ NL # text_lines ls" "text_lines (ls @ ls') = text_lines ls @ text_lines ls'"
  by (simp_all add: text_lines_def)

lemma splitOn_text_lines: "\<forall>l \<in> set ls. NL \<notin> set l \<Longrightarrow> splitOn NL (text_lines ls) = ls @ [[]]"
  by (induction ls) (simp_all add: splitOn_sep)

section \<open>Sections\<close>

text \<open>The loop over the lines, on the map it builds.\<close>

fun sections_map :: "(string \<rightharpoonup> string) \<Rightarrow> string \<Rightarrow> string list \<Rightarrow> (string \<rightharpoonup> string)" where
  "sections_map m inst [] = m"
| "sections_map m inst (line # rest) =
     (if HasPrefix line VRRPHeader then
        (let name = TrimPrefix line VRRPHeader
         in sections_map (m(name \<mapsto> at_key m name @ VRRPHeader @ [NL])) name rest)
      else if inst \<noteq> [] then sections_map (m(inst \<mapsto> at_key m inst @ line @ [NL])) inst rest
      else sections_map m inst rest)"

lemma map_of_append_text: "map_of (append_text k s m) = (map_of m)(k \<mapsto> at_key (map_of m) k @ s)"
proof (cases "map_of m k")
  case None
  then show ?thesis by (auto simp: append_text_def at_key_def fun_eq_iff map_add_def split: option.split)
next
  case (Some t)
  have "map_of (map (\<lambda>(k', t'). (k', if k' = k then t' @ s else t')) m) x =
      (if x = k then map_option (\<lambda>t. t @ s) (map_of m k) else map_of m x)" for x
    by (induction m) auto
  with Some show ?thesis by (simp add: append_text_def at_key_def fun_eq_iff)
qed

lemma map_of_sections_loop: "map_of (sections_loop m inst ls) = sections_map (map_of m) inst ls"
  by (induction m inst ls rule: sections_loop.induct) (simp_all del: fun_upd_apply add: map_of_append_text Let_def)

definition plain_line :: "string \<Rightarrow> bool" where
  "plain_line l = (NL \<notin> set l \<and> \<not> HasPrefix l VRRPHeader)"

lemma sections_map_body:
  "\<forall>l \<in> set body. plain_line l \<Longrightarrow> inst \<noteq> [] \<Longrightarrow> m inst = Some t \<Longrightarrow>
     sections_map m inst (body @ rest) = sections_map (m(inst \<mapsto> t @ text_lines body)) inst rest"
proof (induction body arbitrary: m t)
  case Nil
  then show ?case by (simp add: map_upd_triv)
next
  case (Cons l body)
  have "sections_map m inst ((l # body) @ rest) = sections_map (m(inst \<mapsto> t @ l @ [NL])) inst (body @ rest)"
    using Cons.prems by (simp add: plain_line_def at_key_def)
  also have "\<dots> = sections_map (m(inst \<mapsto> t @ text_lines (l # body))) inst rest"
    using Cons.IH [of "m(inst \<mapsto> t @ l @ [NL])" "t @ l @ [NL]"] Cons.prems by (simp del: fun_upd_apply add: fun_upd_same)
  finally show ?case .
qed

lemma sections_map_preface:
  "\<forall>l \<in> set ls. plain_line l \<Longrightarrow> sections_map m [] (ls @ rest) = sections_map m [] rest"
  by (induction ls) (simp_all add: plain_line_def)

text \<open>An instance and the lines of its section.\<close>

definition header_line :: "string \<Rightarrow> string" where
  "header_line name = VRRPHeader @ name"

fun block_lines :: "string \<times> string list \<Rightarrow> string list" where
  "block_lines (name, body) = header_line name # body"

definition good_block :: "string \<times> string list \<Rightarrow> bool" where
  "good_block b = (fst b \<noteq> [] \<and> NL \<notin> set (fst b) \<and> (\<forall>l \<in> set (snd b). plain_line l))"

definition stats_text :: "string list \<Rightarrow> (string \<times> string list) list \<Rightarrow> string" where
  "stats_text preface blocks = text_lines (preface @ concat (map block_lines blocks))"

definition section_text :: "string list \<Rightarrow> string" where
  "section_text body = VRRPHeader @ [NL] @ text_lines body"

lemma header_line_facts [simp]:
  "HasPrefix (header_line name) VRRPHeader" "TrimPrefix (header_line name) VRRPHeader = name"
  by (simp_all add: HasPrefix_def TrimPrefix_def header_line_def)

text \<open>Up to the line break that ends the file.\<close>

definition ends_as :: "string option \<Rightarrow> string \<Rightarrow> bool" where
  "ends_as r s = (r = Some s \<or> r = Some (s @ [NL]))"

lemma sections_map_blocks:
  assumes "\<forall>b \<in> set blocks. good_block b" and "distinct (map fst blocks)" and "fst ` set blocks \<inter> dom m = {}"
    and "inst = [] \<or> (\<exists>t. m inst = Some t)"
  shows "(\<forall>k t. m k = Some t \<longrightarrow> ends_as (sections_map m inst (concat (map block_lines blocks) @ [[]]) k) t) \<and>
     (\<forall>b \<in> set blocks. ends_as (sections_map m inst (concat (map block_lines blocks) @ [[]]) (fst b)) (section_text (snd b)))"
  using assms
proof (induction blocks arbitrary: m inst)
  case Nil
  have "\<not> HasPrefix [] VRRPHeader" by (simp add: HasPrefix_def VRRPHeader_def)
  with Nil show ?case by (auto simp: ends_as_def at_key_def)
next
  case (Cons b blocks)
  obtain name body where b: "b = (name, body)" by (cases b)
  have name: "name \<noteq> []" and body: "\<forall>l \<in> set body. plain_line l" and fresh: "m name = None"
    using Cons.prems b by (auto simp: good_block_def)
  let ?m = "m(name \<mapsto> section_text body)"
  have eq: "sections_map m inst (concat (map block_lines (b # blocks)) @ [[]]) =
      sections_map ?m name (concat (map block_lines blocks) @ [[]])"
    using sections_map_body [OF body name, of "m(name \<mapsto> VRRPHeader @ [NL])" "VRRPHeader @ [NL]" "concat (map block_lines blocks) @ [[]]"] fresh
    by (simp add: b at_key_def section_text_def)
  have IH: "(\<forall>k t. ?m k = Some t \<longrightarrow> ends_as (sections_map ?m name (concat (map block_lines blocks) @ [[]]) k) t) \<and>
     (\<forall>b \<in> set blocks. ends_as (sections_map ?m name (concat (map block_lines blocks) @ [[]]) (fst b)) (section_text (snd b)))"
  proof (rule Cons.IH)
    show "\<forall>b \<in> set blocks. good_block b" "distinct (map fst blocks)" "name = [] \<or> (\<exists>t. ?m name = Some t)"
      using Cons.prems by simp_all
    show "fst ` set blocks \<inter> dom ?m = {}"
      using Cons.prems b by auto
  qed
  show ?case
    unfolding eq
  proof (intro conjI allI impI ballI)
    fix k t
    assume "m k = Some t"
    with fresh have "?m k = Some t" by auto
    with IH show "ends_as (sections_map ?m name (concat (map block_lines blocks) @ [[]]) k) t" by blast
  next
    fix c
    assume "c \<in> set (b # blocks)"
    then consider "c = b" | "c \<in> set blocks" by auto
    then show "ends_as (sections_map ?m name (concat (map block_lines blocks) @ [[]]) (fst c)) (section_text (snd c))"
      using IH b by cases auto
  qed
qed

text \<open>The statistics of the instances are told apart. If the file is a preface followed by one block per
  instance (a header line with its name, then lines that are no header), the text that \<open>ParseStats\<close> decodes for an
  instance is its own block and nothing of the others, whatever their order; only the last one gets one more line
  break. The yawollet's own instance is therefore judged by its own counters.\<close>

theorem stats_sections_are_separated:
  assumes "\<forall>l \<in> set preface. plain_line l" and "\<forall>b \<in> set blocks. good_block b" and "distinct (map fst blocks)"
    and "(name, body) \<in> set blocks"
  shows "\<exists>t. map_of (sections_loop [] [] (splitOn NL (stats_text preface blocks))) name = Some t \<and>
     (t = section_text body \<or> t = section_text body @ [NL])"
proof -
  have "\<forall>l \<in> set (preface @ concat (map block_lines blocks)). NL \<notin> set l"
    using assms(1,2) by (fastforce simp: plain_line_def good_block_def header_line_def VRRPHeader_def NL_def)
  then have "splitOn NL (stats_text preface blocks) = preface @ concat (map block_lines blocks) @ [[]]"
    unfolding stats_text_def by (subst splitOn_text_lines) simp_all
  then have "map_of (sections_loop [] [] (splitOn NL (stats_text preface blocks))) =
      sections_map Map.empty [] (concat (map block_lines blocks) @ [[]])"
    by (simp add: map_of_sections_loop sections_map_preface [OF assms(1)])
  then have "ends_as (map_of (sections_loop [] [] (splitOn NL (stats_text preface blocks))) name) (section_text body)"
    using sections_map_blocks [OF assms(2,3), of Map.empty "[]"] assms(4) by auto
  then show ?thesis by (auto simp: ends_as_def)
qed

lemma stats_sections_are_separated_witness:
  "\<exists>t. map_of (sections_loop [] [] (splitOn NL (stats_text [''# stats''] [(''OTHER'', [''  Became master: 3'']), (''ENVOY'', [''  Became master: 1''])]))) ''ENVOY'' = Some t \<and>
     (t = section_text [''  Became master: 1''] \<or> t = section_text [''  Became master: 1''] @ [NL])"
  by (rule stats_sections_are_separated)
    (auto simp: plain_line_def good_block_def HasPrefix_def VRRPHeader_def NL_def)

section \<open>Versions\<close>

definition envoy_stats :: "string \<Rightarrow> string \<Rightarrow> string" where
  "envoy_stats clusterVersion listenerVersion = text_lines
     [cds_prefix @ [QUOTE] @ clusterVersion @ [QUOTE], lds_prefix @ [QUOTE] @ listenerVersion @ [QUOTE]]"

lemma TrimChar_quoted:
  assumes "c \<notin> set v"
  shows "TrimChar c (c # v @ [c]) = v"
proof -
  have "dropWhile (\<lambda>d. d = c) (v @ [c]) = (if v = [] then [] else v @ [c])"
    using assms by (cases v) auto
  moreover have "rev (dropWhile (\<lambda>d. d = c) (rev (v @ [c]))) = v"
    using assms by (cases "rev v") (auto simp: rev_swap)
  ultimately show ?thesis by (simp add: TrimChar_def)
qed

lemma version_value_own: "QUOTE \<notin> set v \<Longrightarrow> version_value p (p @ [QUOTE] @ v @ [QUOTE]) old = v"
  by (simp add: version_value_def HasPrefix_def TrimPrefix_def TrimChar_quoted)

lemma version_value_other:
  "version_value lds_prefix (cds_prefix @ x) old = old" "version_value cds_prefix (lds_prefix @ x) old = old"
  "version_value cds_prefix [] old = old" "version_value lds_prefix [] old = old"
  by (simp_all add: version_value_def HasPrefix_def cds_prefix_def lds_prefix_def)

lemma prefixes_one_line: "NL \<notin> set cds_prefix" "NL \<notin> set lds_prefix" "NL \<noteq> QUOTE"
  by (simp_all add: cds_prefix_def lds_prefix_def NL_def QUOTE_def)

lemma envoy_versions_read:
  assumes "NL \<notin> set c" and "NL \<notin> set l" and "QUOTE \<notin> set c" and "QUOTE \<notin> set l"
  shows "version_lines [] [] (splitOn NL (envoy_stats c l)) = (c, l)"
proof -
  have "splitOn NL (envoy_stats c l) = [cds_prefix @ [QUOTE] @ c @ [QUOTE], lds_prefix @ [QUOTE] @ l @ [QUOTE]] @ [[]]"
    unfolding envoy_stats_def by (rule splitOn_text_lines) (use assms prefixes_one_line in auto)
  then show ?thesis
    using version_value_own [OF assms(3), of cds_prefix] version_value_own [OF assms(4), of lds_prefix]
    by (simp add: version_value_other)
qed

end
