(* ===== verification/Yawollet.thy ===== *)
theory Yawollet
  imports Envoy HostStatus MachineController MachineHealth "HOL-Library.AList" "HOL-Library.List_Lexorder" "HOL-Library.Char_ord"
begin

text \<open>
  The yawollet: the second half of \<open>internal/helper/yawollet.go\<close> (conditions, metrics, ad-hoc
  debugging), the reconciler \<open>controllers/yawollet/loadbalancer_controller.go\<close>, the readiness checks
  of \<open>internal/healthz\<close> and the settings that \<open>cmd/yawollet/main.go\<close> derives from its flags.
  The map of conditions, which the code mutates, is part of the state.
\<close>

section \<open>The yawollet\<close>

definition KeepalivedProcess :: string where "KeepalivedProcess = ''KeepalivedProcess''"
definition KeepalivedStatsFile :: string where "KeepalivedStatsFile = ''KeepalivedStatsFile''"

record 'w yawollet =
  y_Client :: "'w kube"
  y_Machines :: "'w machine_kube"
  y_Host :: "'w host"
  y_Lib :: envoy_lib
  y_EnvoyCache :: "'w snapshot_cache"
  y_LoadbalancerName :: string
  y_LoadbalancerMachineName :: string
  y_ListenAddress :: string
  y_RequeueDuration :: int
  y_KeepalivedStatsFile :: string
  y_time_text :: "int \<Rightarrow> string"

section \<open>Conditions\<close>

type_synonym cond_entries = "(string \<times> node_condition) list"

record ('w, 'c) yst = "('w, 'c) st" +
  y_conditions :: cond_entries

type_synonym ('w, 'a) yop = "(('w, call) yst, 'a) gop"

definition getC :: "(cond_entries \<Rightarrow> ('w, 'a) yop) \<Rightarrow> ('w, 'a) yop" where
  "getC f s = f (y_conditions s) s"

definition putC :: "cond_entries \<Rightarrow> ('w, unit) yop" where
  "putC cs s = (Ok (), s\<lparr>y_conditions := cs\<rparr>)"

lemma runs_getC [runs_simps]: "runs (getC f) s R = runs (f (y_conditions s)) s R"
  by (simp add: runs_def getC_def)

lemma runs_putC [runs_simps]: "runs (putC cs) s R = R (Ok ()) (s\<lparr>y_conditions := cs\<rparr>)"
  by (simp add: runs_def putC_def)

lemma emits_getC [emits_intros]: "(\<And>cs. emits P (f cs)) \<Longrightarrow> emits P (getC f)"
  by (simp add: emits_def runs_simps)

lemma emits_putC [emits_intros]: "emits P (putC cs)"
  by (simp add: emits_def runs_simps extends_def)

definition transition_time :: "cond_entries \<Rightarrow> string \<Rightarrow> string \<Rightarrow> int \<Rightarrow> int" where
  "transition_time conditions t status now =
     (case map_of conditions t of
        None \<Rightarrow> now
      | Some old \<Rightarrow> if nc_Status old = status then nc_LastTransitionTime old else now)"

definition UpdateLBMConditions :: "'w kube \<Rightarrow> string \<Rightarrow> string \<Rightarrow> string \<Rightarrow> string \<Rightarrow> ('w, unit) yop" where
  "UpdateLBMConditions k condition status reason message =
     nowM k (\<lambda>now. nowM k (\<lambda>heartbeat. getC (\<lambda>conditions.
       putC (AList.update condition
         \<lparr>nc_Type = condition, nc_Status = status, nc_LastHeartbeatTime = heartbeat,
          nc_LastTransitionTime = transition_time conditions condition status now,
          nc_Reason = reason, nc_Message = message\<rparr> conditions))))"

definition CheckEnvoyVersion :: "'w yawollet \<Rightarrow> snapshot \<Rightarrow> ('w, unit) yop" where
  "CheckEnvoyVersion y snapshot = (let k = y_Client y in
     catchM (GetCurrentSnapshotVersion (y_Host y))
       (\<lambda>_. UpdateLBMConditions k EnvoyUpToDate ConditionFalse ''EnvoySnapshotUpToDate'' ''unable to get envoy snapshot version'')
       (\<lambda>(clusterVersion, listenerVersion).
         if clusterVersion = sn_ClusterVersion snapshot \<and> listenerVersion = sn_ListenerVersion snapshot
         then UpdateLBMConditions k EnvoyUpToDate ConditionTrue ''EnvoySnapshotUpToDate'' ''envoy snapshot version is up to date''
         else UpdateLBMConditions k EnvoyUpToDate ConditionFalse ''EnvoySnapshotUpToDate'' ''envoy is not up to date''))"

definition UpdateEnvoyStatus :: "'w yawollet \<Rightarrow> ('w, unit) yop" where
  "UpdateEnvoyStatus y = (let k = y_Client y in
     bindM (GetEnvoyStatus (y_Host y)) (\<lambda>ready.
       if ready then UpdateLBMConditions k EnvoyReady ConditionTrue ''EnvoyReady'' ''envoy response with 200''
       else UpdateLBMConditions k EnvoyReady ConditionFalse ''EnvoyNotReady'' ''envoy response not with 200''))"

definition bool_status :: "bool \<Rightarrow> string" where
  "bool_status b = (if b then ConditionTrue else ConditionFalse)"

definition UpdateKeepalivedStatsStatus :: "'w yawollet \<Rightarrow> ('w, unit) yop" where
  "UpdateKeepalivedStatsStatus y = (let k = y_Client y in
     if y_KeepalivedStatsFile y = [] then ret ()
     else catchM (ReadStatsForInstanceName (y_Host y) VRRPInstanceName (y_KeepalivedStatsFile y))
       (\<lambda>_. thenM (UpdateLBMConditions k KeepalivedStatsFile ConditionFalse ''CouldNotReadStats'' ''Could not get stats file'')
              (UpdateLBMConditions k KeepalivedMaster ConditionFalse ''CouldNotReadStats'' ''Could not get stats file''))
       (\<lambda>(stats, modTime).
         thenM (UpdateLBMConditions k KeepalivedMaster (bool_status (IsMaster stats)) ''KeepalivedStatus'' ''Read master status from stats file'')
           (nowM k (\<lambda>now.
              if modTime < now - 5 * Minute then
                UpdateLBMConditions k KeepalivedStatsFile ConditionFalse ''StatsNotUpToDate'' ''Keepalived stat file is older than 5 min''
              else
                UpdateLBMConditions k KeepalivedStatsFile ConditionTrue ''StatsUpToDate'' ''Keepalived stat file is newer than 5 min''))))"

text \<open>\<open>strconv.ParseInt(s, 10, 32)\<close>\<close>

definition ParseInt32 :: "string \<Rightarrow> int option" where
  "ParseInt32 s = (case Atoi s of None \<Rightarrow> None | Some i \<Rightarrow> if - (2 ^ 31) \<le> i \<and> i < 2 ^ 31 then Some i else None)"

definition pid_file :: string where "pid_file = ''/run/keepalived.pid''"

definition processCondition :: "'w kube \<Rightarrow> string \<Rightarrow> string \<Rightarrow> string \<Rightarrow> ('w, unit) yop" where
  "processCondition k status reason message = UpdateLBMConditions k KeepalivedProcess status reason message"

definition UpdateKeepalivedPIDStatus :: "'w yawollet \<Rightarrow> ('w, unit) yop" where
  "UpdateKeepalivedPIDStatus y = (let k = y_Client y; h = y_Host y in
     catchM (hcall (YReadFile pid_file) (h_ReadFile h pid_file))
       (\<lambda>_. processCondition k ConditionFalse ''CouldNotGetPIDFile'' ''Could not get pid file'')
       (\<lambda>content. case ParseInt32 (filter (\<lambda>c. c \<noteq> NL) content) of
          None \<Rightarrow> processCondition k ConditionFalse ''CouldNotGetPID'' ''Could not get pid''
        | Some pid \<Rightarrow>
            catchM (hcall (YNewProcess pid) (h_NewProcess h pid))
              (\<lambda>_. processCondition k ConditionFalse ''CouldNotKeepalivedProcess'' ''Could not get keepalived process'')
              (\<lambda>_. catchM (hcall (YIsRunning pid) (h_IsRunning h pid))
                 (\<lambda>_. processCondition k ConditionFalse ''CouldNotKeepalivedProcess'' ''Error while checking if keepalived is running'')
                 (\<lambda>running. if \<not> running
                    then processCondition k ConditionFalse ''CouldNotKeepalivedProcess'' ''Keepalived is not running''
                    else processCondition k ConditionTrue ''KeepalivedIsRunning'' ''Keepalived is running''))))"

definition UpdateKeepalivedStatus :: "'w yawollet \<Rightarrow> ('w, unit) yop" where
  "UpdateKeepalivedStatus y = thenM (UpdateKeepalivedStatsStatus y) (UpdateKeepalivedPIDStatus y)"

section \<open>Metrics\<close>

text \<open>\<open>if x, err := m; err == nil { metrics = append(metrics, ..) }\<close>\<close>

definition ifRead :: "('s, 'a) gop \<Rightarrow> ('a \<Rightarrow> ('s, lbm_metric list) gop) \<Rightarrow> ('s, lbm_metric list) gop" where
  "ifRead m f = catchM m (\<lambda>_. ret []) f"

definition keepalived_metrics :: "vrrp_instance \<Rightarrow> (string \<times> string) list" where
  "keepalived_metrics stats =
     [(''keepalivedIsMaster'', if IsMaster stats then ''1'' else ''0''),
      (''keepalivedReleasedMaster'', Itoa (vrrp_ReleasedMaster stats)),
      (''keepalivedBecameMaster'', Itoa (vrrp_BecameMaster stats)),
      (''keepalivedAdvertisementsSent'', Itoa (vrrp_Sent stats)),
      (''keepalivedAdvertisementsReceived'', Itoa (vrrp_Received stats))]"

definition GetMetrics :: "'w kube \<Rightarrow> 'w host \<Rightarrow> string \<Rightarrow> ('w, 'z, lbm_metric list) hop" where
  "GetMetrics k h keepalivedStatsFile =
     bindM (ifRead (GetLoad h) (\<lambda>(load1, load5, load15). stamped k [(''load1'', load1), (''load5'', load5), (''load15'', load15)])) (\<lambda>loads.
     bindM (ifRead (GetUptime h) (\<lambda>uptime. stamped k [(''uptime'', uptime)])) (\<lambda>uptimes.
     bindM (ifRead (GetMem h) (\<lambda>(memTotal, memFree, memAvailable).
        stamped k [(''memTotal'', memTotal), (''memFree'', memFree), (''memAvailable'', memAvailable)])) (\<lambda>mems.
     bindM (ifRead (GetCPUStealTime h) (\<lambda>stealTime. stamped k [(''stealTime'', stealTime)])) (\<lambda>steals.
     bindM (stamped k [(''numCPU'', Itoa (GetCPUNum h))]) (\<lambda>cpus.
     bindM (ifRead (GetCurrentStats k h) ret) (\<lambda>envoys.
     bindM (if keepalivedStatsFile \<noteq> [] then
              ifRead (ReadStatsForInstanceName h VRRPInstanceName keepalivedStatsFile)
                (\<lambda>(stats, modTime). stamped k (keepalived_metrics stats))
            else ret []) (\<lambda>keepaliveds.
     ret (loads @ uptimes @ mems @ steals @ cpus @ envoys @ keepaliveds))))))))"

section \<open>Ad-hoc debugging\<close>

text \<open>The expression \<open>^ssh-rsa\s+[A-Za-z0-9+/=]+$\<close>\<close>

definition space :: "char \<Rightarrow> bool" where
  "space c = (c \<in> {CHR 0x09, CHR 0x0A, CHR 0x0C, CHR 0x0D, CHR '' ''})"

definition key_char :: "char \<Rightarrow> bool" where
  "key_char c = (alnum c \<or> c = CHR ''+'' \<or> c = CHR ''/'' \<or> c = CHR ''='')"

definition sshPublicKey :: rx where
  "sshPublicKey = Seq (lit ''ssh-rsa'') (Seq (Many space) (Seq (Many key_char) Eos))"

definition is_ssh_key :: "string \<Rightarrow> bool" where
  "is_ssh_key s = matches_at_start sshPublicKey s"

definition addAuthorizedKeys :: "string \<Rightarrow> string list" where
  "addAuthorizedKeys sshKey = [''/bin/sh'', ''-c'',
     ''echo '' @ [QUOTE, NL] @ sshKey @ [NL, QUOTE] @ '' | sudo tee /home/yawoldebug/.ssh/authorized_keys'']"

definition startSSH :: "string list" where
  "startSSH = [''sudo'', ''/sbin/rc-service'', ''sshd'', ''start'']"

definition warnMachine :: "load_balancer_machine \<Rightarrow> string \<Rightarrow> string \<Rightarrow> ('w, 'z, unit) hop" where
  "warnMachine lbm reason message = record_call (CEvent (key_of lbm) ''Warning'' reason message)"

definition EnableAdHocDebugging ::
  "'w host \<Rightarrow> load_balancer \<Rightarrow> load_balancer_machine \<Rightarrow> string \<Rightarrow> ('w, 'z, unit) hop" where
  "EnableAdHocDebugging h lb lbm lbmName =
     (let enabled = ParseBool_val (at_key (meta_Annotations lb) LoadBalancerAdHocDebug) in
      case meta_Annotations lb LoadBalancerAdHocDebugSSHKey of
        None \<Rightarrow> ret ()
      | Some sshKey \<Rightarrow>
          if \<not> enabled then ret ()
          else if dbg_Enabled (spec_DebugSettings (lb_Spec lb)) then
            warnMachine lbm ''AdHocDebuggingNotEnabled''
              ''Ad-hoc debugging will not be enabled because normal debug with is already enabled''
          else if \<not> is_ssh_key sshKey then
            warnMachine lbm ''AdHocDebuggingNotEnabled''
              ''Ad-hoc debugging will not be enabled because ssh key is not valid''
          else
            catchM (hcall (YRun (addAuthorizedKeys sshKey)) (h_Run h (addAuthorizedKeys sshKey)))
              (\<lambda>err. warnMachine lbm ''AdHocDebuggingNotEnabled''
                 (''Ad-hoc debugging cant be enabled because authorized_keys cant be written: '' @ Error_text err))
              (\<lambda>_. catchM (hcall (YRun startSSH) (h_Run h startSSH))
                 (\<lambda>err. warnMachine lbm ''AdHocDebuggingNotEnabled''
                    (''Ad-hoc debugging cant be enabled because ssh cant be started: '' @ Error_text err))
                 (\<lambda>_. warnMachine lbm ''AdHocDebuggingEnabled''
                    (''Successfully enabled ad-hoc debugging access to LoadBalancerMachine '' @ [CHR 0x27] @ lbmName @ [CHR 0x27] @
                     ''. Please make sure to disable debug access once you are finished and to roll all LoadBalancerMachines''))))"

section \<open>Reconcile\<close>

definition configCondition :: "'w yawollet \<Rightarrow> string \<Rightarrow> string \<Rightarrow> string \<Rightarrow> ('w, unit) yop" where
  "configCondition y status reason message = UpdateLBMConditions (y_Client y) ConfigReady status reason message"

definition SnapshotName :: string where "SnapshotName = ''lb-id''"

text \<open>\<open>return kubernetes.SendErrorAsEvent(r.Recorder, fmt.Errorf("%w: text", err), lbm)\<close>\<close>

definition machineError :: "load_balancer_machine \<Rightarrow> string \<Rightarrow> goerr \<Rightarrow> ('w, 'z, 'a) hop" where
  "machineError lbm text err = SendErrorAsEvent (Suffixed err text) (key_of lbm)"

definition setSnapshot :: "'w yawollet \<Rightarrow> load_balancer_machine \<Rightarrow> snapshot \<Rightarrow> ('w, unit) yop" where
  "setSnapshot y lbm snapshot =
     (case Consistent (y_Lib y) snapshot of
        Some err \<Rightarrow> thenM (configCondition y ConditionFalse ''EnvoyConfigurationFailed'' ''new snapshot is not Consistent'')
            (machineError lbm '': new snapshot is not consistent'' err)
      | None \<Rightarrow>
          catchM (hcall (YSetSnapshot SnapshotName snapshot) (SetSnapshot (y_EnvoyCache y) SnapshotName snapshot))
            (\<lambda>err. thenM (configCondition y ConditionFalse ''EnvoyConfigurationFailed'' ''new snapshot cant set to envoy envoycache'')
               (machineError lbm '': unable to set new snapshot'' err))
            (\<lambda>_. thenM (configCondition y ConditionTrue ''EnvoyConfigurationUpToDate'' ''envoy config is successfully updated'')
               (record_call (CEvent (key_of lbm) ''Normal'' ''Update''
                  (''Envoy is updated to new snapshot version: '' @ sn_ClusterVersion snapshot)))))"

definition applyConfig :: "'w yawollet \<Rightarrow> load_balancer_machine \<Rightarrow> snapshot option \<Rightarrow> ('w, unit) yop" where
  "applyConfig y lbm changed =
     (case changed of
        Some snapshot \<Rightarrow> setSnapshot y lbm snapshot
      | None \<Rightarrow> configCondition y ConditionTrue ''EnvoyConfigurationCreated'' ''envoy config is already up to date'')"

definition reconcile_y :: "'w yawollet \<Rightarrow> load_balancer \<Rightarrow> load_balancer_machine \<Rightarrow> ('w, unit) yop" where
  "reconcile_y y lb lbm =
     catchM (EnableAdHocDebugging (y_Host y) lb lbm (y_LoadbalancerMachineName y)) (machineError lbm '': unable to get current snapshot'') (\<lambda>_.
     catchM (hcall (YGetSnapshot SnapshotName) (GetSnapshot (y_EnvoyCache y) SnapshotName))
       (machineError lbm '': unable to get current snapshot'') (\<lambda>oldSnapshot.
     catchM (CreateEnvoyConfig (y_Lib y) (GetCPUNum (y_Host y)) oldSnapshot lb (y_ListenAddress y))
       (\<lambda>err. thenM (configCondition y ConditionFalse ''EnvoyConfigurationFailed'' ''new snapshot cant create successful'')
          (machineError lbm '': unable to create new snapshot'' err)) (\<lambda>changed.
     thenM (applyConfig y lbm changed)
    (thenM (UpdateEnvoyStatus y)
    (thenM (CheckEnvoyVersion y (case changed of Some snapshot \<Rightarrow> snapshot | None \<Rightarrow> oldSnapshot))
           (UpdateKeepalivedStatus y))))))"

text \<open>The status patch: \<open>client.MergeFrom\<close> compares the JSON texts, and a slice without entries that
  was never made is \<open>null\<close>.\<close>

definition report_patch :: "lbm_status \<Rightarrow> node_condition list \<Rightarrow> lbm_metric list \<Rightarrow> machine_patch" where
  "report_patch old conditions metrics =
     (let st = json_lbm_status (old\<lparr>lbm_Conditions := Some conditions, lbm_Metrics := Some metrics\<rparr>);
          old = json_lbm_status old in
      MReport
        (if conditions = [] then Some None
         else if lbm_Conditions st = lbm_Conditions old then None else Some (lbm_Conditions st))
        (if lbm_Metrics st = lbm_Metrics old then None else Some (lbm_Metrics st)))"

definition initial_conditions :: "load_balancer_machine \<Rightarrow> cond_entries" where
  "initial_conditions lbm =
     (case lbm_Conditions (lbm_Status lbm) of
        None \<Rightarrow> []
      | Some cs \<Rightarrow> foldl (\<lambda>m c. AList.update (nc_Type c) c m) [] cs)"

definition sorted_conditions :: "cond_entries \<Rightarrow> node_condition list" where
  "sorted_conditions m = sort_key nc_Type (map snd m)"

text \<open>The answer of the server replaces the machine in memory. When the last step has an error, the
  duration that is returned beside it has no effect.\<close>

definition reportStatus :: "'w yawollet \<Rightarrow> load_balancer_machine \<Rightarrow> lbm_metric list \<Rightarrow> ('w, load_balancer_machine) yop" where
  "reportStatus y lbm metrics =
     getC (\<lambda>conditions. let p = report_patch (lbm_Status lbm) (sorted_conditions conditions) metrics in
       mcall (MPatchStatus (key_of lbm) p) (mk_PatchStatus (y_Machines y) (key_of lbm) p))"

definition checkConditions :: "'w yawollet \<Rightarrow> load_balancer_machine \<Rightarrow> ('w, unit) yop" where
  "checkConditions y lbm = nowM (y_Client y) (\<lambda>now.
     case AreRelevantConditionsMet lbm (now + wrap64 (- 2 * y_RequeueDuration y)) False of
       Some reason \<Rightarrow> fail (OtherErr (''not all relevant conditions are met: '' @ reason_text (y_time_text y) reason))
     | None \<Rightarrow> ret ())"

definition reconcileAndReport :: "'w yawollet \<Rightarrow> load_balancer \<Rightarrow> load_balancer_machine \<Rightarrow> ('w, int option) yop" where
  "reconcileAndReport y lb lbm =
     thenM (putC (initial_conditions lbm))
    (bindM (catchM (reconcile_y y lb lbm) (\<lambda>e. ret (Some e)) (\<lambda>_. ret None)) (\<lambda>reconcileError.
     bindM (GetMetrics (y_Client y) (y_Host y) (y_KeepalivedStatsFile y)) (\<lambda>metrics.
     bindM (reportStatus y lbm metrics) (\<lambda>lbm'.
     thenM (checkConditions y lbm')
       (case reconcileError of
          Some e \<Rightarrow> fail e
        | None \<Rightarrow> ret (Some (y_RequeueDuration y)))))))"

definition Reconcile_y :: "'w yawollet \<Rightarrow> namespaced_name \<Rightarrow> ('w, int option) yop" where
  "Reconcile_y y req =
     (if nn_Name req \<noteq> y_LoadbalancerName y then ret None
      else
        bindM (ext (CGetLB req) (k_GetLB (y_Client y) req)) (\<lambda>lb.
        let mkey = \<lparr>nn_Namespace = nn_Namespace req, nn_Name = y_LoadbalancerMachineName y\<rparr> in
        bindM (ext (CGetMachine mkey) (k_GetMachine (y_Client y) mkey)) (\<lambda>lbm.
        reconcileAndReport y lb lbm)))"

section \<open>Readiness\<close>

text \<open>The checks behind \<open>/readyz\<close>; nothing means that the check passes.\<close>

definition key_text :: "namespaced_name \<Rightarrow> string" where
  "key_text key = [QUOTE] @ nn_String key @ [QUOTE]"

definition HeartbeatHealthz :: "'w kube \<Rightarrow> (int \<Rightarrow> string) \<Rightarrow> int \<Rightarrow> namespaced_name \<Rightarrow> ('w, 'z, unit) hop" where
  "HeartbeatHealthz k tt expiration lbmKey =
     catchM (ext (CGetMachine lbmKey) (k_GetMachine k lbmKey))
       (\<lambda>_. fail (OtherErr (''failed getting LoadBalancerMachine '' @ key_text lbmKey))) (\<lambda>lbm.
     nowM k (\<lambda>now.
       case AreRelevantConditionsMet lbm (now + wrap64 (- expiration)) False of
         Some reason \<Rightarrow> fail (OtherErr (''not all relevant conditions are met: '' @ reason_text tt reason))
       | None \<Rightarrow> ret ()))"

definition LoadBalancerRevisionHealthz :: "'w kube \<Rightarrow> namespaced_name \<Rightarrow> namespaced_name \<Rightarrow> ('w, 'z, unit) hop" where
  "LoadBalancerRevisionHealthz k lbKey lbmKey =
     catchM (ext (CGetLB lbKey) (k_GetLB k lbKey))
       (\<lambda>_. fail (OtherErr (''failed getting LoadBalancer '' @ key_text lbKey))) (\<lambda>lb.
     catchM (ext (CGetMachine lbmKey) (k_GetMachine k lbmKey))
       (\<lambda>_. fail (OtherErr (''failed getting LoadBalancerMachine '' @ key_text lbmKey))) (\<lambda>lbm.
     let lbRevision = at_key (meta_Annotations lb) RevisionAnnotation;
         lbmRevision = at_key (meta_Annotations lbm) RevisionAnnotation in
     if lbRevision \<noteq> lbmRevision then
       fail (OtherErr (''LoadBalancer revision '' @ lbRevision @ '' does not match LoadBalancerMachine revision '' @ lbmRevision))
     else ret ()))"

text \<open>\<open>synced\<close> is the answer of \<open>WaitForCacheSync\<close>.\<close>

definition CacheSyncHealthz :: "bool \<Rightarrow> ('w, 'z, unit) hop" where
  "CacheSyncHealthz synced = (if \<not> synced then fail (OtherErr ''informers not synced yet'') else ret ())"

section \<open>Settings\<close>

definition requeue_seconds :: "int \<Rightarrow> int" where
  "requeue_seconds requeueTime =
     (if requeueTime < 5 then 5 else if requeueTime > 170 then 170 else requeueTime)"

definition requeue_duration :: "int \<Rightarrow> int" where
  "requeue_duration requeueTime = requeue_seconds requeueTime * Second"

text \<open>Interfaces with their addresses, each as the text of its IPv4 form if it has one. The last one
  wins; nothing means that the program exits.\<close>

fun last_ipv4 :: "string \<Rightarrow> string option list \<Rightarrow> string" where
  "last_ipv4 listenAddress [] = listenAddress"
| "last_ipv4 listenAddress (a # rest) =
     last_ipv4 (case a of None \<Rightarrow> listenAddress | Some ip \<Rightarrow> ip) rest"

fun interface_address :: "string \<Rightarrow> string \<Rightarrow> (string \<times> string option list) list \<Rightarrow> string" where
  "interface_address listenInterface listenAddress [] = listenAddress"
| "interface_address listenInterface listenAddress ((name, addrs) # rest) =
     interface_address listenInterface
       (if name = listenInterface then last_ipv4 listenAddress addrs else listenAddress) rest"

definition listen_address :: "string \<Rightarrow> string \<Rightarrow> (string \<times> string option list) list \<Rightarrow> string option" where
  "listen_address listenAddress listenInterface ifaces =
     (if listenAddress = [] then
        (if listenInterface \<noteq> [] then
           (let a = interface_address listenInterface [] ifaces in if a = [] then None else Some a)
         else Some ''0.0.0.0'')
      else Some listenAddress)"

end
