(* ===== verification/YawolletHealth.thy ===== *)
theory YawolletHealth
  imports Yawollet EnvoyConfig KeepalivedStats "HOL-Library.Multiset"
begin

text \<open>
  What the yawollet guarantees in one run: ad-hoc debugging runs two commands only, the conditions it reports are in
  order, and a refused configuration is reported and never reaches Envoy.
\<close>

section \<open>Commands\<close>

definition shell_safe :: "char \<Rightarrow> bool" where
  "shell_safe c = (alnum c \<or> c \<in> {CHR ''+'', CHR ''/'', CHR ''='', CHR ''-''} \<or> space c)"

definition command_allowed :: "load_balancer \<Rightarrow> string list \<Rightarrow> bool" where
  "command_allowed lb cmd =
     (ParseBool (at_key (meta_Annotations lb) LoadBalancerAdHocDebug) = Some True \<and>
      \<not> dbg_Enabled (spec_DebugSettings (lb_Spec lb)) \<and>
      (\<exists>sshKey. meta_Annotations lb LoadBalancerAdHocDebugSSHKey = Some sshKey \<and>
         prefix ''ssh-rsa'' sshKey \<and> list_all shell_safe sshKey \<and>
         (cmd = addAuthorizedKeys sshKey \<or> cmd = startSSH)))"

fun only_allowed_commands :: "load_balancer \<Rightarrow> call \<times> bool \<Rightarrow> bool" where
  "only_allowed_commands lb (CYawollet (YRun cmd), ok) = command_allowed lb cmd"
| "only_allowed_commands lb c = True"

lemma many_rest_split: "x \<in> set (many_rest p s) \<Longrightarrow> \<exists>u. s = u @ x \<and> list_all p u"
proof (induction s)
  case (Cons c cs)
  from Cons.prems have p: "p c" and "x = cs \<or> x \<in> set (many_rest p cs)"
    by (auto split: if_splits)
  then obtain u where "cs = u @ x" "list_all p u"
    using Cons.IH by fastforce
  with p show ?case by (intro exI [of _ "c # u"]) simp
qed simp

lemma leftovers_lit: "x \<in> set (leftovers (lit p) s) \<Longrightarrow> s = p @ x"
  by (induction p arbitrary: s) (auto split: list.splits if_splits)

lemma ssh_key_safe:
  assumes "is_ssh_key s"
  shows "prefix ''ssh-rsa'' s \<and> list_all shell_safe s"
proof -
  obtain a b c where a: "a \<in> set (leftovers (lit ''ssh-rsa'') s)" and b: "b \<in> set (many_rest space a)"
      and c: "c \<in> set (many_rest key_char b)" "c = []"
    using assms
    by (auto simp: is_ssh_key_def matches_at_start_def sshPublicKey_def simp del: lit.simps)
  obtain u v where u: "a = u @ b" "list_all space u" and v: "b = v @ c" "list_all key_char v"
    using many_rest_split [OF b] many_rest_split [OF c(1)] by blast
  have s: "s = ''ssh-rsa'' @ u @ v"
    using leftovers_lit [OF a] u v c(2) by simp
  have "list_all shell_safe ''ssh-rsa''"
    by code_simp
  moreover have "list_all shell_safe u" "list_all shell_safe v"
    using u v by (auto simp: list_all_iff shell_safe_def key_char_def)
  ultimately show ?thesis
    unfolding s by simp
qed

lemma emits_hcall [emits_intros]: "(\<And>ok. P (CYawollet c, ok)) \<Longrightarrow> emits P (hcall c f)"
  unfolding hcall_def by (intro emits_ext)

lemma emits_only_events:
  assumes "only_events v m" and "\<And>c. is_event c \<Longrightarrow> P c"
  shows "emits P m"
  unfolding emits_def
proof
  fix s
  obtain cs where "m s = (v, s\<lparr>trace := trace s @ cs\<rparr>)" "\<forall>c \<in> set cs. is_event c"
    using assms(1) unfolding only_events_def by blast
  then show "runs m s (\<lambda>_ t. extends P s t)"
    using assms(2) by (auto simp: runs_def extends_def)
qed

lemma event_allowed: "is_event c \<Longrightarrow> only_allowed_commands lb c"
  by (cases "(lb, c)" rule: only_allowed_commands.cases) (auto simp: is_event_def)

lemma emits_machineError [emits_intros]:
  "(\<And>n t r m. P (CEvent n t r m, True)) \<Longrightarrow> emits P (machineError lbm text e)"
  unfolding machineError_def by (intro emits_SendErrorAsEvent)

lemma emits_UpdateLBMConditions [emits_intros]: "emits P (UpdateLBMConditions k c st r m)"
  unfolding UpdateLBMConditions_def by (intro emits_intros)

lemma emits_adhoc: "emits (only_allowed_commands lb) (EnableAdHocDebugging h lb lbm n)"
proof -
  have ok: "command_allowed lb cmd"
    if "meta_Annotations lb LoadBalancerAdHocDebugSSHKey = Some sshKey" "is_ssh_key sshKey"
      "ParseBool_val (at_key (meta_Annotations lb) LoadBalancerAdHocDebug)" "\<not> dbg_Enabled (spec_DebugSettings (lb_Spec lb))"
      "cmd = addAuthorizedKeys sshKey \<or> cmd = startSSH" for cmd sshKey
    using that ssh_key_safe [of sshKey] by (auto simp: command_allowed_def ParseBool_val_def)
  show ?thesis
    unfolding EnableAdHocDebugging_def Let_def warnMachine_def
    by (intro emits_intros) (auto intro: ok)
qed

lemmas status_defs = applyConfig_def setSnapshot_def configCondition_def UpdateEnvoyStatus_def GetEnvoyStatus_def
  CheckEnvoyVersion_def GetCurrentSnapshotVersion_def admin_get_def UpdateKeepalivedStatus_def
  UpdateKeepalivedStatsStatus_def UpdateKeepalivedPIDStatus_def processCondition_def
  ReadStatsForInstanceName_def ReadStatsFromDisk_def

text \<open>C8. Ad-hoc debugging cannot be abused. Reconciling a LoadBalancer runs a command on the machine only if the
  annotation asks for it, regular debugging is off and a key is given; the key then begins with \<open>ssh-rsa\<close> and has
  only letters, digits, \<open>+\<close>, \<open>/\<close>, \<open>=\<close>, \<open>-\<close> and white space, so that nothing in it means anything
  inside the quotes of the shell; and the command is the one that writes that key or the one that starts sshd.\<close>

theorem adhoc_debugging_runs_safe_commands:
  assumes "reconcile_y y lb lbm s = (r, t)"
  shows "extends (only_allowed_commands lb) s t"
proof -
  have "emits (only_allowed_commands lb) (reconcile_y y lb lbm)"
    unfolding reconcile_y_def status_defs Let_def case_prod_unfold
    by (intro emits_intros emits_adhoc emits_only_events [OF config_events event_allowed]) simp_all
  then have "runs (reconcile_y y lb lbm) s (\<lambda>_ t. extends (only_allowed_commands lb) s t)"
    by (rule emits_runs)
  from runsD [OF this assms] show ?thesis .
qed

section \<open>Reported conditions\<close>

text \<open>The map of conditions: one entry per type, each under its own type.\<close>

definition conds_ok :: "cond_entries \<Rightarrow> bool" where
  "conds_ok m = (distinct (map fst m) \<and> (\<forall>(ty, c) \<in> set m. nc_Type c = ty))"

fun report_in_order :: "call \<times> bool \<Rightarrow> bool" where
  "report_in_order (CMachine (MPatchStatus n (MReport (Some (Some cs)) ms)), ok) = sorted_wrt (<) (map nc_Type cs)"
| "report_in_order c = True"

definition reports_ok :: "('w, call) yst \<Rightarrow> ('w, call) yst \<Rightarrow> bool" where
  "reports_ok s t = (extends report_in_order s t \<and> conds_ok (y_conditions t))"

lemma conds_ok_update: "conds_ok m \<Longrightarrow> nc_Type c = ty \<Longrightarrow> conds_ok (AList.update ty c m)"
  by (auto simp: conds_ok_def distinct_update dest!: update_subset)

lemma conds_ok_foldl: "conds_ok m \<Longrightarrow> conds_ok (foldl (\<lambda>m c. AList.update (nc_Type c) c m) m cs)"
  by (induction cs arbitrary: m) (simp_all add: conds_ok_update)

lemma conds_ok_initial: "conds_ok (initial_conditions lbm)"
proof -
  have "conds_ok []" by (simp add: conds_ok_def)
  then show ?thesis by (auto simp: initial_conditions_def intro: conds_ok_foldl split: option.split)
qed

lemma sorted_conditions_strict: "conds_ok m \<Longrightarrow> sorted_wrt (<) (map nc_Type (sorted_conditions m))"
proof -
  assume ok: "conds_ok m"
  then have types: "map nc_Type (map snd m) = map fst m"
    by (auto simp: conds_ok_def)
  have ms: "mset (map nc_Type (sorted_conditions m)) = mset (map fst m)"
    unfolding sorted_conditions_def types [symmetric] by (simp only: mset_map mset_sort)
  then have "distinct (map nc_Type (sorted_conditions m))"
    using ok mset_eq_imp_distinct_iff [OF ms] unfolding conds_ok_def by blast
  moreover have "sorted (map nc_Type (sorted_conditions m))"
    unfolding sorted_conditions_def by (rule sorted_sort_key)
  ultimately show ?thesis
    by (simp add: strict_sorted_iff)
qed

lemma json_types: "map nc_Type (map json_condition cs) = map nc_Type cs"
  by (simp add: json_condition_def)

lemma report_patch_order:
  assumes "conds_ok m"
  shows "report_in_order (CMachine (MPatchStatus n (report_patch st (sorted_conditions m) ms)), ok)"
  using sorted_conditions_strict [OF assms]
  by (auto simp: report_patch_def Let_def json_lbm_status_def json_types [unfolded map_map])

lemma preserves_ext_ok [preserves_intros]:
  "(\<And>ok. report_in_order (c, ok)) \<Longrightarrow> preserves (reports_ok s0) (ext c f)"
  by (auto simp: preserves_def runs_ext reports_ok_def extends_def split: prod.split)

lemma preserves_record_ok [preserves_intros]:
  "report_in_order (c, True) \<Longrightarrow> preserves (reports_ok s0) (record_call c)"
  by (auto simp: preserves_def runs_record_call reports_ok_def extends_def)

lemma preserves_now_ok [preserves_intros]:
  "(\<And>x. preserves (reports_ok s0) (f x)) \<Longrightarrow> preserves (reports_ok s0) (nowM k f)"
  unfolding nowM_def by (rule preserves_readW) (simp_all add: reports_ok_def extends_def)

lemma preserves_getC_ok [preserves_intros]:
  "(\<And>cs. conds_ok cs \<Longrightarrow> preserves (reports_ok s0) (f cs)) \<Longrightarrow> preserves (reports_ok s0) (getC f)"
  by (auto simp: preserves_def runs_getC reports_ok_def)

lemma preserves_putC_ok [preserves_intros]: "conds_ok cs \<Longrightarrow> preserves (reports_ok s0) (putC cs)"
  by (simp add: preserves_def runs_putC reports_ok_def extends_def)

lemma preserves_hcall_ok [preserves_intros]: "preserves (reports_ok s0) (hcall c f)"
  unfolding hcall_def by (intro preserves_intros) simp

lemma preserves_event_ok [preserves_intros]: "preserves (reports_ok s0) (machineError lbm text e)"
  unfolding machineError_def SendErrorAsEvent_def by (intro preserves_intros) simp

lemma preserves_config_ok [preserves_intros]: "preserves (reports_ok s0) (CreateEnvoyConfig lib cpus old lb addr)"
proof -
  have "runs (CreateEnvoyConfig lib cpus old lb addr) s (\<lambda>_ t. reports_ok s0 t)" if I: "reports_ok s0 s" for s
  proof (rule runsI)
    fix r t
    assume "CreateEnvoyConfig lib cpus old lb addr s = (r, t)"
    from config_result(2) [OF this] obtain cs where "t = s\<lparr>trace := trace s @ cs\<rparr>" "\<forall>c \<in> set cs. is_event c"
      by blast
    moreover have "is_event c \<Longrightarrow> report_in_order c" for c
      by (cases c rule: report_in_order.cases) (auto simp: is_event_def)
    ultimately show "reports_ok s0 t"
      using I by (auto simp: reports_ok_def extends_def)
  qed
  then show ?thesis by (simp add: preserves_def)
qed

lemma preserves_update_ok [preserves_intros]: "preserves (reports_ok s0) (UpdateLBMConditions k c st r m)"
  unfolding UpdateLBMConditions_def by (intro preserves_intros conds_ok_update) simp_all

lemma preserves_stamped_ok [preserves_intros]: "preserves (reports_ok s0) (stamped k ms)"
  by (induction ms) (auto intro!: preserves_intros)

lemma preserves_ifRead [preserves_intros]:
  "preserves I m \<Longrightarrow> (\<And>x. preserves I (f x)) \<Longrightarrow> preserves I (ifRead m f)"
  unfolding ifRead_def by (intro preserves_catchM preserves_ret)

lemma preserves_metrics_ok: "preserves (reports_ok s0) (GetMetrics k h file)"
  unfolding GetMetrics_def GetLoad_def GetUptime_def GetMem_def GetCPUStealTime_def GetCurrentStats_def admin_get_def Let_def
    parseEnvoyMetricsToLoadBalancerMachineMetrics_def ReadStatsForInstanceName_def ReadStatsFromDisk_def case_prod_unfold
  by (intro preserves_intros)

lemma preserves_reconcile_ok: "preserves (reports_ok s0) (reconcile_y y lb lbm)"
  unfolding reconcile_y_def EnableAdHocDebugging_def warnMachine_def status_defs Let_def case_prod_unfold
  by (intro preserves_intros) simp_all

lemma emits_reconcileAndReport: "emits report_in_order (reconcileAndReport y lb lbm)"
  unfolding emits_def
proof
  fix s :: "('a, call) yst"
  let ?s = "s\<lparr>y_conditions := initial_conditions lbm\<rparr>"
  have start: "reports_ok s ?s"
    by (simp add: reports_ok_def extends_def conds_ok_initial)
  have report: "preserves (reports_ok s) (reportStatus y lbm ms)" for ms
    unfolding reportStatus_def Let_def mcall_def by (intro preserves_intros report_patch_order)
  have check: "preserves (reports_ok s) (checkConditions y lbm')" for lbm'
    unfolding checkConditions_def by (intro preserves_intros)
  note rest = preserves_bindM preserves_thenM preserves_catchM preserves_ret preserves_fail preserves_option
    preserves_reconcile_ok preserves_metrics_ok report check
  show "runs (reconcileAndReport y lb lbm) s (\<lambda>_ t. extends report_in_order s t)"
    unfolding reconcileAndReport_def runs_thenM runs_putC caseR_simps
    by (rule runs_weaken [OF preservesD [where I = "reports_ok s", OF _ start]]) (intro rest, simp add: reports_ok_def)
qed

text \<open>Every report of conditions is in order: whatever conditions the machine had before, twice the same type
  included, and however the run ends, a list of conditions that the yawollet sends is sorted by type and has each type
  once.\<close>

theorem reported_conditions_are_sorted:
  assumes "Reconcile_y y req s = (r, t)"
  shows "extends report_in_order s t"
proof -
  have "emits report_in_order (Reconcile_y y req)"
    unfolding Reconcile_y_def Let_def by (intro emits_intros emits_reconcileAndReport) simp_all
  then show ?thesis
    using assms by (auto dest: emits_runs runsD)
qed

section \<open>Refused configurations\<close>

fun no_snapshot_set :: "call \<times> bool \<Rightarrow> bool" where
  "no_snapshot_set (CYawollet (YSetSnapshot n sn), ok) = False"
| "no_snapshot_set c = True"

definition untouched :: "('w, call) yst \<Rightarrow> ('w, call) yst \<Rightarrow> bool" where
  "untouched s t = (extends no_snapshot_set s t \<and> y_conditions t = y_conditions s)"

lemma preserves_untouched_ext: "(\<And>ok. no_snapshot_set (c, ok)) \<Longrightarrow> preserves (untouched s0) (ext c f)"
  by (auto simp: preserves_def runs_ext untouched_def extends_def split: prod.split)

lemma preserves_untouched_event: "preserves (untouched s0) (record_call (CEvent n ty r m))"
  by (auto simp: preserves_def runs_record_call untouched_def extends_def)

lemma preserves_untouched_adhoc: "preserves (untouched s0) (EnableAdHocDebugging h lb lbm n)"
  unfolding EnableAdHocDebugging_def warnMachine_def hcall_def Let_def
  by (intro preserves_intros preserves_untouched_event preserves_untouched_ext) simp_all

text \<open>The outcome for the conditions: only \<open>ConfigReady\<close> may have been set, and then to false.\<close>

definition refused :: "('w, call) yst \<Rightarrow> ('w, call) yst \<Rightarrow> bool" where
  "refused s t = (extends no_snapshot_set s t \<and>
     (\<forall>k. k \<noteq> ConfigReady \<longrightarrow> map_of (y_conditions t) k = map_of (y_conditions s) k) \<and>
     (y_conditions t = y_conditions s \<or>
      (\<exists>c. map_of (y_conditions t) ConfigReady = Some c \<and> nc_Status c = ConditionFalse \<and>
         nc_Reason c = ''EnvoyConfigurationFailed'')))"

lemma refused_machineError:
  "refused s t \<Longrightarrow> runs (machineError lbm text e) t (\<lambda>r u. \<not> is_Ok r \<and> refused s u)"
  by (auto simp: machineError_def runs_SendErrorAsEvent refused_def extends_def)

lemma config_refused:
  "config_of lib cpus old lb addr = Err e \<Longrightarrow> runs (CreateEnvoyConfig lib cpus old lb addr) s (\<lambda>r t. r = Err e \<and>
     (\<exists>cs. t = s\<lparr>trace := trace s @ cs\<rparr> \<and> (\<forall>c \<in> set cs. is_event c)))"
  by (rule runsI) (use config_result in fastforce)

lemma event_sets_nothing: "is_event c \<Longrightarrow> no_snapshot_set c"
  by (cases c rule: no_snapshot_set.cases) (auto simp: is_event_def)

lemma runs_configFailed:
  assumes "untouched s t"
  shows "runs (thenM (configCondition y ConditionFalse ''EnvoyConfigurationFailed'' msg) (machineError lbm text e)) t
     (\<lambda>r u. \<not> is_Ok r \<and> refused s u)"
proof -
  have "runs (configCondition y ConditionFalse ''EnvoyConfigurationFailed'' msg) t (\<lambda>r u. r = Ok () \<and> refused s u)"
    using assms
    by (auto simp: configCondition_def UpdateLBMConditions_def runs_simps untouched_def refused_def extends_def AList.update_conv'
        split: prod.split)
  then show ?thesis
    unfolding runs_thenM by (rule runs_weaken) (auto intro: refused_machineError)
qed

text \<open>C9. A configuration that fails the checks never reaches Envoy. Reconciling a LoadBalancer with a port, a
  protocol or an endpoint that is not valid ends in an error; no snapshot is set, so Envoy goes on with the last valid
  one; \<open>ConfigReady\<close> is the only condition that changes, and it becomes false; the heartbeats of the others stay,
  and so grow old.\<close>

theorem invalid_config_never_reaches_envoy:
  assumes "check_ports (spec_Ports (lb_Spec lb)) = Some e \<or> check_endpoints (endpoints_of lb) = Some e"
    and "reconcile_y y lb lbm s = (r, t)"
  shows "\<not> is_Ok r \<and> refused s t"
proof -
  have err: "\<exists>e. config_of lib cpus old lb addr = Err e" for lib cpus old addr
    using assms(1) by (auto simp: config_of_def split: option.split)
  have start: "untouched s s" by (simp add: untouched_def)
  have untouched_refused: "untouched s u \<Longrightarrow> refused s u" for u
    by (simp add: untouched_def refused_def)
  have config: "runs (catchM (CreateEnvoyConfig lib cpus old lb addr)
      (\<lambda>err. thenM (configCondition y ConditionFalse ''EnvoyConfigurationFailed'' msg) (machineError lbm tx err)) k) u
      (\<lambda>r t. \<not> is_Ok r \<and> refused s t)" if u: "untouched s u" for lib cpus old addr msg tx k u
  proof -
    obtain e where e: "config_of lib cpus old lb addr = Err e" using err by blast
    have "untouched s (u\<lparr>trace := trace u @ cs\<rparr>)" if "\<forall>c \<in> set cs. is_event c" for cs
      using u that event_sets_nothing by (auto simp: untouched_def extends_def)
    then show ?thesis
      unfolding runs_catchM by (intro runs_weaken [OF config_refused [OF e]]) (auto intro: runs_configFailed)
  qed
  have cache: "runs (catchM (hcall (YGetSnapshot n) f) (machineError lbm tx) k) u (\<lambda>r t. \<not> is_Ok r \<and> refused s t)"
    if u: "untouched s u" and k: "\<And>old v. untouched s v \<Longrightarrow> runs (k old) v (\<lambda>r t. \<not> is_Ok r \<and> refused s t)" for n f tx k u
  proof -
    have "preserves (untouched s) (hcall (YGetSnapshot n) f)"
      unfolding hcall_def by (rule preserves_untouched_ext) simp
    from preservesD [OF this u] show ?thesis
      unfolding runs_catchM
      by (rule runs_weaken) (auto simp: caseR_def untouched_refused intro: k refused_machineError split: result.split)
  qed
  have "runs (reconcile_y y lb lbm) s (\<lambda>r t. \<not> is_Ok r \<and> refused s t)"
    unfolding reconcile_y_def runs_catchM [of "EnableAdHocDebugging (y_Host y) lb lbm (y_LoadbalancerMachineName y)"]
    by (rule runs_weaken [OF preservesD [OF preserves_untouched_adhoc start]])
      (auto simp: caseR_def untouched_refused intro: cache config refused_machineError split: result.split)
  from runsD [OF this assms(2)] show ?thesis .
qed

end
