(* ===== verification/YawolletReady.thy ===== *)
theory YawolletReady
  imports YawolletHealth
begin

text \<open>
  How the yawollet fits the controllers: a successful run leaves a machine that the set controller counts as ready,
  the readiness check against the set controller's, and the condition \<open>EnvoyUpToDate\<close> against the versions that
  Envoy reports. The locale \<open>report_store\<close> states that a machine is fetched by its key, that a patch of its status
  is stored as it is answered and that reading the clock changes no machine; it is interpreted on the in-memory
  Kubernetes API. The last section has concrete runs on that API with an in-memory host.
\<close>

section \<open>Expirations\<close>

lemma conditions_met_earlier:
  assumes "AreRelevantConditionsMet m e False = None" and "e' \<le> e"
  shows "AreRelevantConditionsMet m e' False = None"
proof -
  have "acceptable e False c \<Longrightarrow> acceptable e' False c" for c
    using assms(2) by (simp add: acceptable_def)
  with assms(1) show ?thesis
    unfolding conditions_met_iff by blast
qed

lemma requeue_range: "5 * Second \<le> requeue_duration rt \<and> requeue_duration rt \<le> 170 * Second"
  by (simp add: requeue_duration_def requeue_seconds_def Second_def Millisecond_def)

lemma wrap_requeue: "wrap64 (- (2 * requeue_duration rt)) = - (2 * requeue_duration rt)"
  using requeue_range [of rt] by (intro wrap64_id) (simp add: in_int64_def Second_def Millisecond_def)

section \<open>The stored report\<close>

locale report_store =
  fixes k :: "'w kube" and mk :: "'w machine_kube" and stored :: "'w \<Rightarrow> namespaced_name \<Rightarrow> load_balancer_machine option"
  assumes fetched: "k_GetMachine k n w = (Ok m, w') \<Longrightarrow> key_of m = n"
    and patched: "mk_PatchStatus mk n p w = (Ok m, w') \<Longrightarrow> stored w' n = Some m"
    and clock: "k_now k w = (x, w') \<Longrightarrow> stored w' n = stored w n"

context report_store begin

text \<open>A run that ends well: the clock was read last, and the stored machine passed the test at that time.\<close>

definition passed :: "int \<Rightarrow> namespaced_name \<Rightarrow> 'w \<Rightarrow> bool" where
  "passed d n w' = (\<exists>w now m. k_now k w = (now, w') \<and> stored w' n = Some m \<and>
     AreRelevantConditionsMet m (now + wrap64 (- 2 * d)) False = None)"

lemma checked:
  assumes "y_Client y = k" and "stored (world s) n = Some m"
  shows "runs (checkConditions y m) s (\<lambda>r t. r = Ok () \<longrightarrow> passed (y_RequeueDuration y) n (world t))"
proof -
  obtain now w' where "k_now k (world s) = (now, w')" by fastforce
  with assms show ?thesis
    by (cases "AreRelevantConditionsMet m (now + wrap64 (- 2 * y_RequeueDuration y)) False")
      (auto simp: checkConditions_def runs_simps passed_def clock [OF \<open>k_now k (world s) = (now, w')\<close>])
qed

lemma reported:
  assumes "y_Machines y = mk"
  shows "runs (reportStatus y lbm ms) s (\<lambda>r t. \<forall>m. r = Ok m \<longrightarrow> stored (world t) (key_of lbm) = Some m)"
  using assms patched by (auto simp: reportStatus_def mcall_def Let_def runs_simps split: prod.split)

lemma runs_any: "runs m s (\<lambda>_ _. True)"
  by (simp add: runs_def split: prod.split)

lemma reconcile_passed:
  assumes "y_Client y = k" and "y_Machines y = mk"
  shows "runs (reconcileAndReport y lb lbm) s (\<lambda>r t. \<forall>d. r = Ok d \<longrightarrow>
     d = Some (y_RequeueDuration y) \<and> passed (y_RequeueDuration y) (key_of lbm) (world t))"
proof -
  let ?Q = "\<lambda>r t. \<forall>d. r = Ok d \<longrightarrow> d = Some (y_RequeueDuration y) \<and> passed (y_RequeueDuration y) (key_of lbm) (world t)"
  have ends: "runs (case err of Some e \<Rightarrow> fail e | None \<Rightarrow> ret (Some (y_RequeueDuration y))) t ?Q"
    if "passed (y_RequeueDuration y) (key_of lbm) (world t)" for err t
    using that by (cases err) (simp_all add: runs_simps)
  have check: "runs (thenM (checkConditions y m) (case err of Some e \<Rightarrow> fail e | None \<Rightarrow> ret (Some (y_RequeueDuration y)))) t ?Q"
    if "stored (world t) (key_of lbm) = Some m" for err m t
    unfolding runs_thenM
    by (rule runs_weaken [OF checked [OF assms(1) that]]) (auto simp: caseR_def intro: ends split: result.split)
  have report: "runs (bindM (reportStatus y lbm ms)
      (\<lambda>m. thenM (checkConditions y m) (case err of Some e \<Rightarrow> fail e | None \<Rightarrow> ret (Some (y_RequeueDuration y))))) t ?Q" for ms err t
    unfolding runs_bindM
    by (rule runs_weaken [OF reported [OF assms(2)]]) (auto simp: caseR_def intro: check split: result.split)
  show ?thesis
    unfolding reconcileAndReport_def runs_thenM [of "putC _"] runs_putC caseR_simps runs_bindM [of "catchM _ _ _"]
    by (rule runs_weaken [OF runs_any])
      (auto simp: caseR_def runs_bindM [of "GetMetrics _ _ _"] intro!: runs_weaken [OF runs_any] report split: result.split)
qed

lemma Reconcile_passed:
  assumes "y_Client y = k" and "y_Machines y = mk"
  shows "runs (Reconcile_y y req) s (\<lambda>r t. \<forall>d. r = Ok (Some d) \<longrightarrow>
     d = y_RequeueDuration y \<and> passed d \<lparr>nn_Namespace = nn_Namespace req, nn_Name = y_LoadbalancerMachineName y\<rparr> (world t))"
proof -
  have fe: "k_GetMachine (y_Client y) n w = (Ok m, w') \<Longrightarrow> key_of m = n" for n w m w'
    using fetched assms(1) by simp
  have step: "runs (reconcileAndReport y lb lbm) u (\<lambda>r t. \<forall>d. r = Ok (Some d) \<longrightarrow> d = y_RequeueDuration y \<and> passed d n (world t))"
    if "key_of lbm = n" for lb lbm n u
    by (rule runs_weaken [OF reconcile_passed [OF assms, of lb lbm]]) (use that in auto)
  then show ?thesis
    by (auto simp: Reconcile_y_def Let_def runs_simps caseR_def intro!: step intro: fe split: prod.split result.split)
qed

end

text \<open>C14. A yawollet that reports success keeps its machine alive. After a run that ends without error, the stored
  machine passes the yawollet's own readiness check at once, and the set controller counts it as ready until three
  minutes less twice the requeue duration after the last reading of the clock; with a requeue time of up to a minute
  that reaches beyond the next run.\<close>

theorem successful_run_leaves_ready_machine:
  assumes "report_store (y_Client y) (y_Machines y) stored" and "y_RequeueDuration y = requeue_duration rt"
    and "Reconcile_y y req s = (Ok (Some d), t)"
  shows "\<exists>w now m. k_now (y_Client y) w = (now, world t) \<and>
     stored (world t) \<lparr>nn_Namespace = nn_Namespace req, nn_Name = y_LoadbalancerMachineName y\<rparr> = Some m \<and>
     AreRelevantConditionsMet m (now + wrap64 (- (2 * d))) False = None \<and>
     (\<forall>later \<le> now + 180 * Second - 2 * d. isMachineReady later m) \<and>
     (rt \<le> 60 \<longrightarrow> now + d \<le> now + 180 * Second - 2 * d)"
proof -
  let ?key = "\<lparr>nn_Namespace = nn_Namespace req, nn_Name = y_LoadbalancerMachineName y\<rparr>"
  have pass: "d = y_RequeueDuration y" "report_store.passed (y_Client y) stored d ?key (world t)"
    using runsD [OF report_store.Reconcile_passed [OF assms(1) refl refl] assms(3)] by blast+
  then have d: "d = requeue_duration rt"
    using assms(2) by simp
  from pass(2) obtain w now m where w: "k_now (y_Client y) w = (now, world t)" and m: "stored (world t) ?key = Some m"
      and met: "AreRelevantConditionsMet m (now + wrap64 (- 2 * d)) False = None"
    unfolding report_store.passed_def [OF assms(1)] by blast
  have ready: "isMachineReady later m" if "later \<le> now + 180 * Second - 2 * d" for later
    unfolding isMachineReady_def using met that by (intro conditions_met_earlier [OF met]) (simp add: d wrap_requeue)
  have "d \<le> 60 * Second" if "rt \<le> 60"
    using that by (simp add: d requeue_duration_def requeue_seconds_def Second_def Millisecond_def)
  with w m met ready show ?thesis
    by (intro exI [of _ w] exI [of _ now] exI [of _ m]) (auto simp: algebra_simps)
qed

section \<open>The readiness check\<close>

definition stale_machine :: "int \<Rightarrow> load_balancer_machine" where
  "stale_machine heartbeat =
     (let cond = (\<lambda>ty. \<lparr>nc_Type = ty, nc_Status = ConditionTrue, nc_LastHeartbeatTime = heartbeat,
        nc_LastTransitionTime = 0, nc_Reason = [], nc_Message = []\<rparr>) in
      \<lparr>meta_APIVersion = [], meta_Kind = [], meta_Name = ''m'', meta_Namespace = ''ns'', meta_UID = [],
       meta_ResourceVersion = [], meta_Labels = Map.empty, meta_Annotations = Map.empty, meta_Finalizers = [],
       meta_OwnerReferences = [], meta_CreationTimestamp = 0, meta_DeletionTimestamp = None,
       lbm_Spec = \<lparr>mspec_Infrastructure = zero_infra, mspec_PortID = [], mspec_ServerGroupID = [],
         mspec_LoadBalancerRef = \<lparr>lbr_Name = [], lbr_Namespace = []\<rparr>\<rparr>,
       lbm_Status = no_lbm_status\<lparr>lbm_Conditions := Some [cond ConfigReady, cond EnvoyReady, cond EnvoyUpToDate]\<rparr>\<rparr>)"

lemma stale_machine_met: "AreRelevantConditionsMet (stale_machine h) e False = None \<longleftrightarrow> e \<le> h"
proof -
  have "acceptable e False c \<longleftrightarrow> e \<le> h" if "nc_Status c = ConditionTrue" "nc_LastHeartbeatTime c = h" for c
    using that by (simp add: acceptable_def)
  then show ?thesis
    unfolding conditions_met_iff
    by (auto simp: stale_machine_def Let_def ConfigReady_def EnvoyReady_def EnvoyUpToDate_def)
qed



section \<open>Envoy is up to date\<close>

definition version_url :: string where
  "version_url = ''http://'' @ AdminAddress @ ''/stats?filter=cluster_manager.cds.version_text|listener_manager.lds.version_text''"

lemma runs_UpdateLBMConditions:
  "runs (UpdateLBMConditions k ty st reason msg) s (\<lambda>r t. r = Ok () \<and>
     (\<exists>c. map_of (y_conditions t) ty = Some c \<and> nc_Status c = st))"
  by (auto simp: UpdateLBMConditions_def runs_simps AList.update_conv' split: prod.split)

text \<open>C26. \<open>EnvoyUpToDate\<close> tells the truth. If Envoy answers with the versions it runs, the condition becomes true
  exactly when both are those of the snapshot; and after a change of the configuration it is false for as long as Envoy
  still runs the old version.\<close>

theorem up_to_date_iff_envoy_runs_snapshot:
  assumes "indexes_resources lib" and "CreateEnvoyConfig lib cpus old lb addr u = (Ok (Some sn), v)"
    and "h_HttpGet (y_Host y) version_url (world s) = (Ok \<lparr>resp_StatusCode = 200, resp_Body = Ok (envoy_stats c l)\<rparr>, w)"
    and "set (c @ l) \<inter> {NL, QUOTE} = {}" and "CheckEnvoyVersion y sn s = (r, t)"
  shows "\<exists>con. map_of (y_conditions t) EnvoyUpToDate = Some con \<and>
     (nc_Status con = ConditionTrue \<longleftrightarrow> c = sn_ClusterVersion sn \<and> l = sn_ListenerVersion sn) \<and>
     (l = sn_ListenerVersion old \<longrightarrow> nc_Status con = ConditionFalse)"
proof -
  have new: "sn_ListenerVersion sn \<noteq> sn_ListenerVersion old"
    using config_accepted(3) [OF assms(1) config_result(1) [OF assms(2), symmetric]] next_version_moves [of old] by simp
  have read: "version_lines [] [] (splitOn NL (envoy_stats c l)) = (c, l)"
    using assms(4) by (intro envoy_versions_read) auto
  have get: "runs (GetCurrentSnapshotVersion (y_Host y)) s (\<lambda>r t. r = Ok (c, l))"
    unfolding GetCurrentSnapshotVersion_def admin_get_def hcall_def Let_def version_url_def [symmetric]
    by (simp add: runs_simps assms(3) read)
  have "runs (CheckEnvoyVersion y sn) s (\<lambda>r t. \<exists>con. map_of (y_conditions t) EnvoyUpToDate = Some con \<and>
     nc_Status con = (if c = sn_ClusterVersion sn \<and> l = sn_ListenerVersion sn then ConditionTrue else ConditionFalse))"
    unfolding CheckEnvoyVersion_def Let_def runs_catchM
    by (rule runs_weaken [OF get]) (auto simp: runs_if intro!: runs_weaken [OF runs_UpdateLBMConditions])
  from runsD [OF this assms(5)] new show ?thesis
    by (auto simp: ConditionTrue_def ConditionFalse_def split: if_splits)
qed

section \<open>The in-memory host\<close>

text \<open>A cache that keeps one snapshot, and a host on which Envoy always runs it. There is no keepalived, and the
  readings of the system fail.\<close>

definition no_reading :: "(mem, 'a) gop" where
  "no_reading w = (Err (OtherErr ''not available''), w)"

definition fake_host :: "mem host" where
  "fake_host = \<lparr>h_HttpGet = (\<lambda>url w. (Ok \<lparr>resp_StatusCode = 200,
       resp_Body = Ok (envoy_stats (sn_ClusterVersion (mem_snapshot w)) (sn_ListenerVersion (mem_snapshot w)))\<rparr>, w)),
     h_ReadFile = (\<lambda>_. no_reading), h_ModTime = (\<lambda>_. no_reading), h_NewProcess = (\<lambda>_. no_reading),
     h_IsRunning = (\<lambda>_. no_reading), h_Run = (\<lambda>_ w. (Ok (), w)), h_LoadAvg = no_reading, h_Uptime = no_reading,
     h_VirtualMemory = no_reading, h_CPUTimes = no_reading, h_NumCPU = 2, h_yaml = (\<lambda>_. Ok zero_vrrp)\<rparr>"

definition fake_cache :: "mem snapshot_cache" where
  "fake_cache = \<lparr>GetSnapshot = (\<lambda>n w. (Ok (mem_snapshot w), w)), SetSnapshot = (\<lambda>n sn w. (Ok (), w\<lparr>mem_snapshot := sn\<rparr>))\<rparr>"

text \<open>The API with the rights that the role of a machine grants: it reads its LoadBalancer and its machine.
  The clock stands still during a run.\<close>

definition forbidden_call :: "(mem, 'a) gop" where
  "forbidden_call w = (Err (OtherErr ''forbidden''), w)"

definition yawollet_kube :: "mem kube" where
  "yawollet_kube = \<lparr>
     k_now = (\<lambda>w. (mem_now w, w)),
     k_GetSecret = (\<lambda>_. forbidden_call),
     k_GetLB = (\<lambda>n w. (case map_of (mem_lbs w) n of None \<Rightarrow> api_not_found | Some x \<Rightarrow> Ok x, w)),
     k_UpdateLB = (\<lambda>_. forbidden_call), k_PatchLBStatus = (\<lambda>_ _. forbidden_call), k_PatchLBMeta = (\<lambda>_ _. forbidden_call),
     k_GetSet = (\<lambda>_. forbidden_call), k_ListSets = (\<lambda>_ _. forbidden_call), k_CreateSet = (\<lambda>_. forbidden_call),
     k_DeleteSet = (\<lambda>_. forbidden_call), k_PatchSetReplicas = (\<lambda>_ _. forbidden_call), k_PatchSetMeta = (\<lambda>_ _. forbidden_call),
     k_PatchSetStatus = (\<lambda>_ _ _. forbidden_call),
     k_GetMachine = (\<lambda>n w. (case List.find (\<lambda>x. key_of x = n) (mem_machines w) of None \<Rightarrow> api_not_found | Some x \<Rightarrow> Ok x, w)),
     k_ListMachines = (\<lambda>_ _. forbidden_call), k_CreateMachine = (\<lambda>_. forbidden_call), k_DeleteMachine = (\<lambda>_. forbidden_call),
     k_UpdateMachineStatus = (\<lambda>_ _. forbidden_call), k_random = forbidden_call\<rparr>"

lemma yawollet_kube_reads:
  "k_GetLB yawollet_kube = k_GetLB mem_kube"
  "k_GetMachine yawollet_kube = k_GetMachine mem_kube"
  by (simp_all add: yawollet_kube_def mem_kube_def)

definition fake_yawollet :: "mem yawollet" where
  "fake_yawollet = \<lparr>y_Client = yawollet_kube, y_Machines = mem_machine_kube, y_Host = fake_host, y_Lib = example_envoy,
     y_EnvoyCache = fake_cache, y_LoadbalancerName = ''lb'', y_LoadbalancerMachineName = ''m'',
     y_ListenAddress = ''0.0.0.0'', y_RequeueDuration = requeue_duration 30, y_KeepalivedStatsFile = [],
     y_time_text = (\<lambda>_. [])\<rparr>"

definition mem_machine :: "mem \<Rightarrow> namespaced_name \<Rightarrow> load_balancer_machine option" where
  "mem_machine w n = List.find (\<lambda>m. key_of m = n) (mem_machines w)"

interpretation fake_reports: report_store yawollet_kube mem_machine_kube mem_machine
proof
  fix n w m w'
  assume "k_GetMachine yawollet_kube n w = (Ok m, w')"
  then show "key_of m = n"
    by (auto simp: yawollet_kube_def api_not_found_def dest: find_key split: option.splits)
next
  fix n p w m w'
  assume a: "mk_PatchStatus mem_machine_kube n p w = (Ok m, w')"
  let ?f = "\<lambda>m. m\<lparr>lbm_Status := merge_lbm_status p (lbm_Status m)\<rparr>"
  have key: "key_of (?f x) = key_of x" for x
    by (simp add: key_of_def)
  from a obtain m0 where m0: "List.find (\<lambda>x. key_of x = n) (mem_machines w) = Some m0" "m = ?f m0"
      "mem_machines w' = map (\<lambda>x. if key_of x = n then ?f x else x) (mem_machines w)"
    by (auto simp: mem_machine_kube_def mem_PatchMachine_def api_not_found_def split: option.splits)
  with find_key [OF m0(1)] show "mem_machine w' n = Some m"
    by (simp add: mem_machine_def find_change [where key = key_of and f = ?f, OF key])
next
  fix w x w' n
  assume "k_now yawollet_kube w = (x, w')"
  then show "mem_machine w' n = mem_machine w n"
    by (auto simp: yawollet_kube_def mem_machine_def)
qed

definition plain_lb :: load_balancer where
  "plain_lb = zero_lb\<lparr>meta_Name := ''lb'', meta_Namespace := ''ns''\<rparr>"

definition yawollet_world :: mem where
  "yawollet_world = \<lparr>mem_id = 0, mem_fips = [], mem_ports = [], mem_groups = [], mem_rules = [], mem_servers = [],
     mem_servergroups = [], mem_lbs = [(\<lparr>nn_Namespace = ''ns'', nn_Name = ''lb''\<rparr>, plain_lb)], mem_sets = [],
     mem_machines = [stale_machine 0], mem_secrets = [], mem_accounts = [], mem_roles = [], mem_bindings = [],
     mem_now = 1000000000000, mem_snapshot = initial_snapshot\<rparr>"

definition yawollet_start :: "(mem, call) yst" where
  "yawollet_start = \<lparr>world = yawollet_world, trace = [], y_conditions = []\<rparr>"

text \<open>Facts about a run on this host: what holds at the time \<open>T\<close>, with the conditions that are true.\<close>

definition healthy :: "int \<Rightarrow> string set \<Rightarrow> (mem, call) yst \<Rightarrow> bool" where
  "healthy T tys s =
     (mem_snapshot (world s) = initial_snapshot \<and> mem_machines (world s) = [stale_machine 0] \<and> mem_now (world s) = T \<and>
      conds_ok (y_conditions s) \<and>
      (\<forall>ty \<in> tys. \<exists>c. map_of (y_conditions s) ty = Some c \<and> nc_Status c = ConditionTrue \<and> T \<le> nc_LastHeartbeatTime c))"

definition goes_well :: "int \<Rightarrow> string set \<Rightarrow> string set \<Rightarrow> ('a \<Rightarrow> bool) \<Rightarrow> (mem, 'a) yop \<Rightarrow> bool" where
  "goes_well T tys tys' Q m = (\<forall>s. healthy T tys s \<longrightarrow> runs m s (\<lambda>r t. (\<exists>x. r = Ok x \<and> Q x) \<and> healthy T tys' t))"

lemma goes_wellD: "goes_well T tys tys' Q m \<Longrightarrow> healthy T tys s \<Longrightarrow> runs m s (\<lambda>r t. (\<exists>x. r = Ok x \<and> Q x) \<and> healthy T tys' t)"
  by (simp add: goes_well_def)

lemma goes_well_ret: "Q x \<Longrightarrow> goes_well T tys tys Q (ret x)"
  by (simp add: goes_well_def runs_simps)

lemma goes_well_catchM:
  assumes "goes_well T tys tys' Q m" and "\<And>x. Q x \<Longrightarrow> goes_well T tys' tys'' Q' (k x)"
  shows "goes_well T tys tys'' Q' (catchM m h k)"
  unfolding goes_well_def runs_catchM
proof (intro allI impI)
  fix s
  assume "healthy T tys s"
  from goes_wellD [OF assms(1) this]
  show "runs m s (caseR (\<lambda>x t. runs (k x) t (\<lambda>r t. (\<exists>x. r = Ok x \<and> Q' x) \<and> healthy T tys'' t))
      (\<lambda>e t. runs (h e) t (\<lambda>r t. (\<exists>x. r = Ok x \<and> Q' x) \<and> healthy T tys'' t))
      (\<lambda>c t. (\<exists>x. Crash c = Ok x \<and> Q' x) \<and> healthy T tys'' t))"
    by (rule runs_weaken) (auto intro!: goes_wellD [OF assms(2)])
qed

lemma goes_well_bindM:
  "goes_well T tys tys' Q m \<Longrightarrow> (\<And>x. Q x \<Longrightarrow> goes_well T tys' tys'' Q' (k x)) \<Longrightarrow> goes_well T tys tys'' Q' (bindM m k)"
  unfolding bindM_def by (rule goes_well_catchM)

lemma goes_well_thenM:
  "goes_well T tys tys' (\<lambda>_. True) m \<Longrightarrow> goes_well T tys' tys'' Q k \<Longrightarrow> goes_well T tys tys'' Q (thenM m k)"
  unfolding thenM_def by (rule goes_well_bindM)

lemma goes_well_update:
  "goes_well T tys (if st = ConditionTrue then insert ty tys else tys - {ty}) (\<lambda>_. True)
     (UpdateLBMConditions yawollet_kube ty st reason msg)"
  by (auto simp: goes_well_def UpdateLBMConditions_def runs_simps yawollet_kube_def healthy_def AList.update_conv'
      intro!: conds_ok_update)

lemma goes_well_call:
  "(\<And>w. mem_snapshot w = initial_snapshot \<Longrightarrow> \<exists>x. f w = (Ok x, w) \<and> Q x) \<Longrightarrow> goes_well T tys tys Q (hcall c f)"
  by (fastforce simp: goes_well_def hcall_def runs_simps healthy_def)

lemma goes_well_failed_read: "goes_well T tys tys (\<lambda>_. True) (k (OtherErr ''not available'')) \<Longrightarrow>
    goes_well T tys tys (\<lambda>_. True) (catchM (hcall c no_reading) k f)"
  by (simp add: goes_well_def hcall_def runs_simps no_reading_def healthy_def)

lemma config_unchanged: "config_of example_envoy 2 initial_snapshot plain_lb addr = Ok None"
proof -
  have lb: "spec_Ports (lb_Spec plain_lb) = []" "endpoints_of plain_lb = []"
    by (simp_all add: plain_lb_def zero_lb_def zero_lb_spec_def endpoints_of_def)
  have "same_config example_envoy \<lparr>sn_ClusterVersion = v, sn_ListenerVersion = v, sn_Clusters = by_name cl_Name [],
      sn_Listeners = by_name ls_Name []\<rparr> initial_snapshot" for v
    by (simp add: same_config_def by_name_def initial_snapshot_def)
  with lb show ?thesis
    using example_envoy_indexes by (simp add: config_of_def createEnvoyCluster_def indexes_resources_def)
qed

lemma goes_well_config:
  "goes_well T tys tys (\<lambda>x. x = None) (CreateEnvoyConfig example_envoy 2 initial_snapshot plain_lb addr)"
  unfolding goes_well_def
proof (intro allI impI runsI)
  fix s r t
  assume "healthy T tys s" and "CreateEnvoyConfig example_envoy 2 initial_snapshot plain_lb addr s = (r, t)"
  with config_result [OF this(2)] config_unchanged [of addr]
  show "(\<exists>x. r = Ok x \<and> x = None) \<and> healthy T tys t"
    by (auto simp: healthy_def)
qed

lemma admin_answer:
  "goes_well T tys tys (\<lambda>resp. resp = \<lparr>resp_StatusCode = 200, resp_Body = Ok (envoy_stats ''1'' ''1'')\<rparr>) (admin_get fake_host path)"
  unfolding admin_get_def Let_def by (rule goes_well_call) (simp add: fake_host_def initial_snapshot_def)

lemma goes_well_stamped: "goes_well T tys tys (\<lambda>_. True) (stamped yawollet_kube ms)"
proof (induction ms)
  case (Cons x ms)
  have now: "goes_well T tys tys (\<lambda>_. True) (nowM yawollet_kube f)" if "\<And>n. goes_well T tys tys (\<lambda>_. True) (f n)"
    for f :: "int \<Rightarrow> (mem, lbm_metric list) yop"
    using that by (simp add: goes_well_def runs_nowM yawollet_kube_def)
  show ?case
    by (cases x) (auto intro!: now goes_well_bindM [OF Cons] goes_well_ret)
qed (simp add: goes_well_ret)

lemma goes_well_reconcile:
  "goes_well T {} {ConfigReady, EnvoyReady, EnvoyUpToDate} (\<lambda>_. True) (reconcile_y fake_yawollet plain_lb lbm)"
proof -
  have adhoc: "EnableAdHocDebugging fake_host plain_lb lbm n = ret ()" for n
    by (simp add: EnableAdHocDebugging_def plain_lb_def zero_lb_def fun_eq_iff)
  have y: "y_Client fake_yawollet = yawollet_kube" "y_Host fake_yawollet = fake_host" "y_Lib fake_yawollet = example_envoy"
      "y_EnvoyCache fake_yawollet = fake_cache" "y_KeepalivedStatsFile fake_yawollet = []" "GetCPUNum fake_host = 2"
    by (simp_all add: fake_yawollet_def fake_host_def GetCPUNum_def)
  have ne: "ConditionFalse \<noteq> ConditionTrue" "KeepalivedProcess \<notin> {ConfigReady, EnvoyReady, EnvoyUpToDate}"
    by (simp_all add: ConditionFalse_def ConditionTrue_def KeepalivedProcess_def ConfigReady_def EnvoyReady_def EnvoyUpToDate_def)
  have cache: "goes_well T tys tys (\<lambda>x. x = initial_snapshot) (hcall c (GetSnapshot fake_cache n))" for tys c n
    by (rule goes_well_call) (simp add: fake_cache_def)
  have up: "goes_well T tys (insert ty tys) (\<lambda>_. True) (UpdateLBMConditions yawollet_kube ty ConditionTrue reason msg)" for tys ty reason msg
    using goes_well_update [of T tys ConditionTrue ty reason msg] by simp
  have applied: "goes_well T {} {ConfigReady} (\<lambda>_. True) (applyConfig fake_yawollet lbm None)"
    unfolding applyConfig_def option.case configCondition_def y by (rule up)
  have envoy: "goes_well T {ConfigReady} {EnvoyReady, ConfigReady} (\<lambda>_. True) (UpdateEnvoyStatus fake_yawollet)"
    unfolding UpdateEnvoyStatus_def GetEnvoyStatus_def Let_def y
    by (rule goes_well_bindM [OF goes_well_catchM [OF admin_answer goes_well_ret [where Q = "\<lambda>x. x"]]]) (auto intro: up)
  have "version_lines [] [] (splitOn NL (envoy_stats ''1'' ''1'')) = (''1'', ''1'')"
    by (rule envoy_versions_read) (simp_all add: NL_def QUOTE_def)
  then have versions: "goes_well T tys tys (\<lambda>x. x = (''1'', ''1'')) (GetCurrentSnapshotVersion fake_host)" for tys
    unfolding GetCurrentSnapshotVersion_def
    by (intro goes_well_bindM [OF admin_answer]) (auto simp: goes_well_def runs_simps)
  have version: "goes_well T {EnvoyReady, ConfigReady} {EnvoyUpToDate, EnvoyReady, ConfigReady} (\<lambda>_. True)
      (CheckEnvoyVersion fake_yawollet initial_snapshot)"
    unfolding CheckEnvoyVersion_def Let_def y
    by (rule goes_well_catchM [OF versions]) (auto simp: initial_snapshot_def intro: up)
  have keepalived: "goes_well T {EnvoyUpToDate, EnvoyReady, ConfigReady} {ConfigReady, EnvoyReady, EnvoyUpToDate} (\<lambda>_. True)
      (UpdateKeepalivedStatus fake_yawollet)"
  proof -
    have read: "h_ReadFile fake_host f = no_reading" for f by (simp add: fake_host_def)
    have "goes_well T {ConfigReady, EnvoyReady, EnvoyUpToDate} {ConfigReady, EnvoyReady, EnvoyUpToDate} (\<lambda>_. True)
        (UpdateKeepalivedPIDStatus fake_yawollet)"
      unfolding UpdateKeepalivedPIDStatus_def Let_def y read
      by (rule goes_well_failed_read, unfold processCondition_def)
        (use goes_well_update [of T "{ConfigReady, EnvoyReady, EnvoyUpToDate}" ConditionFalse KeepalivedProcess] ne in simp)
    moreover have "UpdateKeepalivedStatsStatus fake_yawollet = ret ()"
      by (simp add: UpdateKeepalivedStatsStatus_def y)
    ultimately show ?thesis
      unfolding UpdateKeepalivedStatus_def
      by (metis (no_types, lifting) goes_well_ret goes_well_thenM insert_commute)
  qed
  show ?thesis
    unfolding reconcile_y_def y adhoc
    by (rule goes_well_catchM [OF goes_well_ret [where Q = "\<lambda>_. True"]], simp)
      (auto intro!: goes_well_catchM [OF cache] goes_well_catchM [OF goes_well_config]
        goes_well_thenM [OF applied] goes_well_thenM [OF envoy] goes_well_thenM [OF version] keepalived)
qed

lemma goes_well_not_read:
  assumes "\<And>s. runs m s (\<lambda>r t. (\<exists>e. r = Err e) \<and> (healthy T tys s \<longrightarrow> healthy T tys t))"
  shows "goes_well T tys tys (\<lambda>_. True) (ifRead m f)"
  unfolding goes_well_def ifRead_def runs_catchM
proof (intro allI impI)
  fix s
  assume h: "healthy T tys s"
  show "runs m s (caseR (\<lambda>x t. runs (f x) t (\<lambda>r t. (\<exists>x. r = Ok x \<and> True) \<and> healthy T tys t))
      (\<lambda>e t. runs (ret []) t (\<lambda>r t. (\<exists>x. r = Ok x \<and> True) \<and> healthy T tys t))
      (\<lambda>c t. (\<exists>x. Crash c = Ok x \<and> True) \<and> healthy T tys t))"
    by (rule runs_weaken [OF assms]) (use h in \<open>auto simp: runs_simps\<close>)
qed

lemma goes_well_metrics: "goes_well T tys tys (\<lambda>_. True) (GetMetrics yawollet_kube fake_host [])"
proof -
  have host: "h_LoadAvg fake_host = no_reading" "h_Uptime fake_host = no_reading" "h_VirtualMemory fake_host = no_reading"
      "h_CPUTimes fake_host = no_reading"
    by (simp_all add: fake_host_def)
  have read: "goes_well T tys tys (\<lambda>_. True) (ifRead (GetLoad fake_host) f1)"
      "goes_well T tys tys (\<lambda>_. True) (ifRead (GetUptime fake_host) f2)"
      "goes_well T tys tys (\<lambda>_. True) (ifRead (GetMem fake_host) f3)"
      "goes_well T tys tys (\<lambda>_. True) (ifRead (GetCPUStealTime fake_host) f4)" for f1 f2 f3 f4
    by (rule goes_well_not_read, simp add: GetLoad_def GetUptime_def GetMem_def GetCPUStealTime_def host hcall_def no_reading_def
        runs_simps healthy_def)+
  have envoy: "goes_well T tys tys (\<lambda>_. True) (ifRead (GetCurrentStats yawollet_kube fake_host) ret)"
  proof -
    have "goes_well T tys tys (\<lambda>_. True) (GetCurrentStats yawollet_kube fake_host)"
      unfolding GetCurrentStats_def parseEnvoyMetricsToLoadBalancerMachineMetrics_def
      by (rule goes_well_bindM [OF admin_answer])
        (use goes_well_stamped [of T tys] in \<open>simp add: goes_well_def runs_simps\<close>)
    then show ?thesis
      unfolding ifRead_def by (rule goes_well_catchM) (simp add: goes_well_ret)
  qed
  show ?thesis
    unfolding GetMetrics_def
    by (rule goes_well_bindM [OF read(1)], rule goes_well_bindM [OF read(2)], rule goes_well_bindM [OF read(3)],
        rule goes_well_bindM [OF read(4)], rule goes_well_bindM [OF goes_well_stamped], rule goes_well_bindM [OF envoy],
        rule goes_well_bindM [where Q = "\<lambda>_. True" and tys' = tys]) (simp_all add: goes_well_ret)
qed

lemma cond_map_distinct: "distinct (map nc_Type cs) \<Longrightarrow> c \<in> set cs \<Longrightarrow> cond_map cs (nc_Type c) = Some c"
proof (induction cs)
  case (Cons d cs)
  show ?case
  proof (cases "c = d")
    case True
    then have "nc_Type c \<notin> nc_Type ` set cs" using Cons.prems by simp
    then have "cond_map cs (nc_Type c) = None"
      unfolding cond_map_None by (metis imageI)
    with True show ?thesis by simp
  qed (use Cons in auto)
qed simp

lemma healthy_report:
  assumes "healthy T {ConfigReady, EnvoyReady, EnvoyUpToDate} s"
    and "lbm_Conditions (lbm_Status m) = Some (map json_condition (sorted_conditions (y_conditions s)))" and "e \<le> trunc_time T"
  shows "AreRelevantConditionsMet m e False = None"
proof -
  let ?cs = "sorted_conditions (y_conditions s)"
  have ok: "conds_ok (y_conditions s)" using assms(1) by (simp add: healthy_def)
  have true: "\<forall>ty \<in> {ConfigReady, EnvoyReady, EnvoyUpToDate}. \<exists>c. map_of (y_conditions s) ty = Some c \<and>
      nc_Status c = ConditionTrue \<and> T \<le> nc_LastHeartbeatTime c"
    using assms(1) unfolding healthy_def by (elim conjE)
  have dist: "distinct (map nc_Type (map json_condition ?cs))"
    using sorted_conditions_strict [OF ok] unfolding json_types strict_sorted_iff by simp
  have "\<exists>c. cond_map (map json_condition ?cs) ty = Some c \<and> acceptable e False c"
    if "ty \<in> {ConfigReady, EnvoyReady, EnvoyUpToDate}" for ty
  proof -
    from bspec [OF true that] obtain c
      where c: "map_of (y_conditions s) ty = Some c" "nc_Status c = ConditionTrue" "T \<le> nc_LastHeartbeatTime c"
      by (elim exE conjE)
    have entry: "(ty, c) \<in> set (y_conditions s)" by (rule map_of_SomeD [OF c(1)])
    then have "snd (ty, c) \<in> snd ` set (y_conditions s)" by (rule imageI)
    then have "c \<in> set ?cs" by (simp add: sorted_conditions_def)
    then have mem: "json_condition c \<in> set (map json_condition ?cs)" by simp
    have ty: "nc_Type (json_condition c) = ty"
      using ok entry by (auto simp: conds_ok_def json_condition_def)
    have "trunc_time T \<le> trunc_time (nc_LastHeartbeatTime c)"
      using c(3) by (simp add: trunc_time_def Second_def Millisecond_def zdiv_mono1)
    then have "acceptable e False (json_condition c)"
      using c(2) assms(3) by (simp add: acceptable_def json_condition_def)
    with cond_map_distinct [OF dist mem] ty show ?thesis by blast
  qed
  with assms(2) show ?thesis
    unfolding conditions_met_iff by blast
qed

lemma stale_machine_fields:
  "key_of (stale_machine 0) = \<lparr>nn_Namespace = ''ns'', nn_Name = ''m''\<rparr>"
  "\<exists>cs. lbm_Conditions (lbm_Status (stale_machine 0)) = Some cs \<and> map json_condition cs = cs"
  by (simp_all add: stale_machine_def key_of_def Let_def json_condition_def trunc_time_def)

lemma fake_report:
  assumes "healthy T {ConfigReady, EnvoyReady, EnvoyUpToDate} s"
  shows "runs (reportStatus fake_yawollet (stale_machine 0) ms) s (\<lambda>r t. mem_now (world t) = T \<and>
     (\<exists>m. r = Ok m \<and> lbm_Conditions (lbm_Status m) = Some (map json_condition (sorted_conditions (y_conditions s)))))"
proof -
  let ?p = "report_patch (lbm_Status (stale_machine 0)) (sorted_conditions (y_conditions s)) ms"
  obtain old where old: "lbm_Conditions (lbm_Status (stale_machine 0)) = Some old" "map json_condition old = old"
    using stale_machine_fields(2) by blast
  have "y_conditions s \<noteq> []" using assms by (auto simp: healthy_def)
  then have "sorted_conditions (y_conditions s) \<noteq> []"
    unfolding sorted_conditions_def by (metis Nil_is_map_conv length_0_conv length_sort)
  then have conds: "lbm_Conditions (merge_lbm_status ?p (lbm_Status (stale_machine 0))) =
      Some (map json_condition (sorted_conditions (y_conditions s)))"
    using old by (auto simp: report_patch_def Let_def json_lbm_status_def replaced_def)
  have "mem_machines (world s) = [stale_machine 0]" "mem_now (world s) = T"
    using assms by (simp_all add: healthy_def)
  with conds show ?thesis
    by (simp add: reportStatus_def mcall_def runs_simps Let_def fake_yawollet_def mem_machine_kube_def mem_PatchMachine_def)
qed

lemma example_successful_run:
  "runs (Reconcile_y fake_yawollet \<lparr>nn_Namespace = ''ns'', nn_Name = ''lb''\<rparr>) yawollet_start (\<lambda>r t. r = Ok (Some (requeue_duration 30)))"
proof -
  let ?T = "1000000000000 :: int" and ?R = "\<lambda>r t :: (mem, call) yst. r = Ok (Some (requeue_duration 30))"
  have y: "y_Client fake_yawollet = yawollet_kube" "y_Host fake_yawollet = fake_host" "y_KeepalivedStatsFile fake_yawollet = []"
      "y_RequeueDuration fake_yawollet = requeue_duration 30"
    by (simp_all add: fake_yawollet_def)
  have check: "runs (thenM (checkConditions fake_yawollet m) (ret (Some (requeue_duration 30)))) t ?R"
    if "healthy ?T {ConfigReady, EnvoyReady, EnvoyUpToDate} s" "mem_now (world t) = ?T"
      "lbm_Conditions (lbm_Status m) = Some (map json_condition (sorted_conditions (y_conditions s)))" for m s t
  proof -
    have "?T + wrap64 (- 2 * requeue_duration 30) \<le> trunc_time ?T"
      using wrap_requeue [of 30] by (simp add: trunc_time_def requeue_duration_def requeue_seconds_def Second_def Millisecond_def)
    from healthy_report [OF that(1,3) this] that(2) show ?thesis
      by (simp add: checkConditions_def runs_simps yawollet_kube_def y)
  qed
  have report: "runs (bindM (reportStatus fake_yawollet (stale_machine 0) ms)
      (\<lambda>m. thenM (checkConditions fake_yawollet m) (ret (Some (requeue_duration 30))))) s ?R"
    if "healthy ?T {ConfigReady, EnvoyReady, EnvoyUpToDate} s" for ms s
    unfolding runs_bindM by (rule runs_weaken [OF fake_report [OF that]]) (auto intro: check [OF that])
  have metrics: "runs (bindM (GetMetrics yawollet_kube fake_host []) (\<lambda>ms. bindM (reportStatus fake_yawollet (stale_machine 0) ms)
      (\<lambda>m. thenM (checkConditions fake_yawollet m) (ret (Some (requeue_duration 30)))))) s ?R"
    if "healthy ?T {ConfigReady, EnvoyReady, EnvoyUpToDate} s" for s
    unfolding runs_bindM [of "GetMetrics _ _ _"]
    by (rule runs_weaken [OF goes_wellD [OF goes_well_metrics that]]) (auto intro: report)
  have all: "runs (reconcileAndReport fake_yawollet plain_lb (stale_machine 0)) s ?R"
    if "healthy ?T {} (s\<lparr>y_conditions := initial_conditions (stale_machine 0)\<rparr>)" for s
    unfolding reconcileAndReport_def y runs_thenM [of "putC _"] runs_putC caseR_simps runs_bindM [of "catchM _ _ _"] runs_catchM
    by (rule runs_weaken [OF goes_wellD [OF goes_well_reconcile that]]) (auto simp: runs_simps(1) intro!: metrics)
  have "runs (reconcileAndReport fake_yawollet plain_lb (stale_machine 0)) s ?R" if "world s = yawollet_world" for s
    by (rule all) (simp add: that healthy_def yawollet_world_def conds_ok_initial)
  moreover have "k_GetLB yawollet_kube \<lparr>nn_Namespace = ''ns'', nn_Name = ''lb''\<rparr> yawollet_world = (Ok plain_lb, yawollet_world)"
    by (simp add: yawollet_kube_def yawollet_world_def)
  moreover have "k_GetMachine yawollet_kube \<lparr>nn_Namespace = ''ns'', nn_Name = ''m''\<rparr> yawollet_world = (Ok (stale_machine 0), yawollet_world)"
    by (simp add: yawollet_kube_def yawollet_world_def stale_machine_fields(1))
  ultimately show ?thesis
    by (simp add: Reconcile_y_def runs_simps Let_def fake_yawollet_def [THEN arg_cong, of y_LoadbalancerName]
        fake_yawollet_def [THEN arg_cong, of y_LoadbalancerMachineName] y yawollet_start_def)
qed

lemma successful_run_leaves_ready_machine_witness:
  "\<exists>w (t :: (mem, call) yst) now m. k_now yawollet_kube w = (now, world t) \<and>
     mem_machine (world t) \<lparr>nn_Namespace = ''ns'', nn_Name = ''m''\<rparr> = Some m \<and> isMachineReady (now + 120 * Second) m"
proof -
  let ?req = "\<lparr>nn_Namespace = ''ns'', nn_Name = ''lb''\<rparr>"
  obtain t where run: "Reconcile_y fake_yawollet ?req yawollet_start = (Ok (Some (requeue_duration 30)), t)"
    using example_successful_run by (auto simp: runs_def split: prod.splits)
  have y: "report_store (y_Client fake_yawollet) (y_Machines fake_yawollet) mem_machine" "y_RequeueDuration fake_yawollet = requeue_duration 30"
      "y_LoadbalancerMachineName fake_yawollet = ''m''" "y_Client fake_yawollet = yawollet_kube"
    using fake_reports.report_store_axioms by (simp_all add: fake_yawollet_def)
  from successful_run_leaves_ready_machine [OF y(1,2) run] obtain w now m where
      "k_now yawollet_kube w = (now, world t)" "mem_machine (world t) \<lparr>nn_Namespace = ''ns'', nn_Name = ''m''\<rparr> = Some m"
      and ready: "\<forall>later \<le> now + 180 * Second - 2 * requeue_duration 30. isMachineReady later m"
    unfolding y(3,4) namespaced_name.select_convs by blast
  moreover from ready have "isMachineReady (now + 120 * Second) m"
    by (simp add: requeue_duration_def requeue_seconds_def)
  ultimately show ?thesis by blast
qed

definition debug_lb :: load_balancer where
  "debug_lb = plain_lb\<lparr>meta_Annotations := [LoadBalancerAdHocDebug \<mapsto> ''true'', LoadBalancerAdHocDebugSSHKey \<mapsto> ''ssh-rsa AAAA'']\<rparr>"

lemma adhoc_debugging_runs_safe_commands_witness:
  "\<exists>t. extends (only_allowed_commands debug_lb) yawollet_start t \<and> command_allowed debug_lb (addAuthorizedKeys ''ssh-rsa AAAA'')"
proof -
  obtain r t where "reconcile_y fake_yawollet debug_lb (stale_machine 0) yawollet_start = (r, t)" by fastforce
  from adhoc_debugging_runs_safe_commands [OF this] have "extends (only_allowed_commands debug_lb) yawollet_start t" .
  moreover have "list_all shell_safe ''ssh-rsa AAAA''" by code_simp
  then have "command_allowed debug_lb (addAuthorizedKeys ''ssh-rsa AAAA'')"
    by (simp add: command_allowed_def debug_lb_def plain_lb_def zero_lb_def zero_lb_spec_def LoadBalancerAdHocDebug_def
        LoadBalancerAdHocDebugSSHKey_def ParseBool_def)
  ultimately show ?thesis by blast
qed

lemma reported_conditions_are_sorted_witness:
  "\<exists>t. fst (Reconcile_y fake_yawollet \<lparr>nn_Namespace = ''ns'', nn_Name = ''lb''\<rparr> yawollet_start) = Ok (Some (requeue_duration 30)) \<and>
     extends report_in_order yawollet_start t"
proof -
  obtain t where run: "Reconcile_y fake_yawollet \<lparr>nn_Namespace = ''ns'', nn_Name = ''lb''\<rparr> yawollet_start = (Ok (Some (requeue_duration 30)), t)"
    using example_successful_run by (auto simp: runs_def split: prod.splits)
  from reported_conditions_are_sorted [OF this] run show ?thesis by auto
qed

definition bad_lb :: load_balancer where
  "bad_lb = plain_lb\<lparr>lb_Spec := zero_lb_spec\<lparr>spec_Ports := [tcp_port\<lparr>sp_Port := 0\<rparr>]\<rparr>\<rparr>"

lemma invalid_config_never_reaches_envoy_witness:
  "\<exists>r t. reconcile_y fake_yawollet bad_lb (stale_machine 0) yawollet_start = (r, t) \<and> \<not> is_Ok r \<and> refused yawollet_start t"
proof -
  obtain r t where run: "reconcile_y fake_yawollet bad_lb (stale_machine 0) yawollet_start = (r, t)" by fastforce
  have "check_ports (spec_Ports (lb_Spec bad_lb)) = Some ErrPortInvalidRange"
    by (simp add: bad_lb_def tcp_port_def protocolTCP_def)
  with invalid_config_never_reaches_envoy [OF disjI1 run] run show ?thesis by blast
qed

lemma up_to_date_iff_envoy_runs_snapshot_witness:
  "\<exists>(t :: (mem, call) yst) con. map_of (y_conditions t) EnvoyUpToDate = Some con \<and> nc_Status con = ConditionFalse"
proof -
  let ?s = "\<lparr>world = (), trace = []\<rparr> :: (unit, call) st"
  obtain sn where c: "config_of example_envoy 2 initial_snapshot served_lb ''0.0.0.0'' = Ok (Some sn)"
    using example_config by blast
  obtain v where run: "CreateEnvoyConfig example_envoy 2 initial_snapshot served_lb ''0.0.0.0'' ?s = (Ok (Some sn), v)"
    using config_run [of example_envoy 2 initial_snapshot served_lb "''0.0.0.0''" ?s] unfolding c by blast
  obtain r t where check: "CheckEnvoyVersion fake_yawollet sn yawollet_start = (r, t)" by fastforce
  have get: "h_HttpGet (y_Host fake_yawollet) version_url (world yawollet_start) =
      (Ok \<lparr>resp_StatusCode = 200, resp_Body = Ok (envoy_stats ''1'' ''1'')\<rparr>, yawollet_world)"
    by (simp add: fake_yawollet_def fake_host_def yawollet_start_def yawollet_world_def initial_snapshot_def)
  have plain: "set (''1'' @ ''1'') \<inter> {NL, QUOTE} = {}"
    by (simp add: NL_def QUOTE_def)
  from up_to_date_iff_envoy_runs_snapshot [OF example_envoy_indexes run get plain check] show ?thesis
    by (auto simp: initial_snapshot_def)
qed

end
