(* ===== verification/Metrics.thy ===== *)
theory Metrics
  imports HelperLB GoTime "HOL-Library.AList"
begin

text \<open>
  The metrics of the controllers: the gauges of \<open>internal/metrics/metrics.go\<close> and the functions that fill and
  clear them (\<open>Parse..Metrics\<close> and \<open>Remove..Metrics\<close> of \<open>loadbalancer.go\<close>,
  \<open>loadbalancerset.go\<close> and \<open>loadbalancermachine.go\<close> in \<open>internal/helper\<close>). A gauge vector keeps a
  value for each combination of label values; a vector the code may not have (\<open>nil\<close>) is an option. The values are of
  any type: the conversion of integers and \<open>strconv.ParseFloat\<close> are parameters.
\<close>

section \<open>Gauges\<close>

type_synonym label_values = "(string \<times> string) list"

record 'v gauge_vec =
  gv_Labels :: "string list"
  gv_Series :: "(label_values \<times> 'v) list"

record 'v floats =
  of_integer :: "int \<Rightarrow> 'v"
  ParseFloat :: "string \<Rightarrow> 'v option"

text \<open>\<open>With(labels).Set(v)\<close> and \<open>WithLabelValues(values..).Set(v)\<close> panic unless the labels are those
  of the vector.\<close>

definition set_series :: "label_values \<Rightarrow> 'v \<Rightarrow> 'v gauge_vec \<Rightarrow> 'v gauge_vec" where
  "set_series ls v g = g\<lparr>gv_Series := AList.update ls v (gv_Series g)\<rparr>"

definition With_Set :: "label_values \<Rightarrow> 'v \<Rightarrow> 'v gauge_vec \<Rightarrow> 'v gauge_vec result" where
  "With_Set labels v g =
     (if length labels = length (gv_Labels g) \<and> list_all (\<lambda>n. map_of labels n \<noteq> None) (gv_Labels g)
      then Ok (set_series (map (\<lambda>n. (n, the (map_of labels n))) (gv_Labels g)) v g)
      else Crash ''inconsistent label cardinality'')"

definition WithLabelValues_Set :: "string list \<Rightarrow> 'v \<Rightarrow> 'v gauge_vec \<Rightarrow> 'v gauge_vec result" where
  "WithLabelValues_Set vs v g =
     (if length vs = length (gv_Labels g) then Ok (set_series (zip (gv_Labels g) vs) v g)
      else Crash ''inconsistent label cardinality'')"

text \<open>\<open>DeletePartialMatch\<close>\<close>

definition matches_labels :: "label_values \<Rightarrow> label_values \<Rightarrow> bool" where
  "matches_labels l ls = list_all (\<lambda>(k, v). map_of ls k = Some v) l"

definition DeletePartialMatch :: "label_values \<Rightarrow> 'v gauge_vec \<Rightarrow> 'v gauge_vec" where
  "DeletePartialMatch l g = g\<lparr>gv_Series := filter (\<lambda>(ls, _). \<not> matches_labels l ls) (gv_Series g)\<rparr>"

text \<open>An operation on a vector that may be missing: a method of \<open>nil\<close> panics.\<close>

definition on_vec :: "('v gauge_vec \<Rightarrow> 'v gauge_vec result) \<Rightarrow> 'v gauge_vec option \<Rightarrow> 'v gauge_vec option result" where
  "on_vec f g = (case g of
       None \<Rightarrow> Crash ''nil pointer dereference''
     | Some v \<Rightarrow> (case f v of Ok v' \<Rightarrow> Ok (Some v') | Err e \<Rightarrow> Err e | Crash c \<Rightarrow> Crash c))"

definition andR :: "'a result \<Rightarrow> ('a \<Rightarrow> 'b result) \<Rightarrow> 'b result" where
  "andR r f = (case r of Ok x \<Rightarrow> f x | Err e \<Rightarrow> Err e | Crash c \<Rightarrow> Crash c)"

definition clear_vec :: "label_values \<Rightarrow> 'v gauge_vec option \<Rightarrow> 'v gauge_vec option result" where
  "clear_vec l = on_vec (\<lambda>g. Ok (DeletePartialMatch l g))"

section \<open>The gauges of the program\<close>

record 'v lb_metrics =
  lm_InfoMetrics :: "'v gauge_vec option"
  lm_OpenstackInfoMetrics :: "'v gauge_vec option"
  lm_ReplicasMetrics :: "'v gauge_vec option"
  lm_ReplicasCurrentMetrics :: "'v gauge_vec option"
  lm_ReplicasReadyMetrics :: "'v gauge_vec option"
  lm_DeletionTimestampMetrics :: "'v gauge_vec option"

record 'v set_metrics =
  sm_ReplicasMetrics :: "'v gauge_vec option"
  sm_ReplicasCurrentMetrics :: "'v gauge_vec option"
  sm_ReplicasReadyMetrics :: "'v gauge_vec option"
  sm_DeletionTimestampMetrics :: "'v gauge_vec option"

text \<open>Of the counter of OpenStack calls only its presence matters here.\<close>

record 'v machine_metrics =
  mm_VM :: "'v gauge_vec option"
  mm_Conditions :: "'v gauge_vec option"
  mm_OpenstackMetrics :: "unit option"
  mm_OpenstackInfoMetrics :: "'v gauge_vec option"
  mm_DeletionTimestampMetrics :: "'v gauge_vec option"

definition new_vec :: "string list \<Rightarrow> 'v gauge_vec option" where
  "new_vec names = Some \<lparr>gv_Labels = names, gv_Series = []\<rparr>"

definition LoadBalancerMetrics :: "'v lb_metrics" where
  "LoadBalancerMetrics = \<lparr>
     lm_InfoMetrics = new_vec [''lb'', ''namespace'', ''isInternal'', ''tcpProxyProtocol'', ''externalIP'', ''tcpIdleTimeout'', ''udpIdleTimeout'', ''lokiEnabled''],
     lm_OpenstackInfoMetrics = new_vec [''lb'', ''namespace'', ''portID'', ''floatingID'', ''securityGroupID'', ''flavorID''],
     lm_ReplicasMetrics = new_vec [''lb'', ''namespace''],
     lm_ReplicasCurrentMetrics = new_vec [''lb'', ''namespace''],
     lm_ReplicasReadyMetrics = new_vec [''lb'', ''namespace''],
     lm_DeletionTimestampMetrics = new_vec [''lb'', ''namespace'']\<rparr>"

definition LoadBalancerSetMetrics :: "'v set_metrics" where
  "LoadBalancerSetMetrics = \<lparr>
     sm_ReplicasMetrics = new_vec [''lb'', ''lbs'', ''namespace''],
     sm_ReplicasCurrentMetrics = new_vec [''lb'', ''lbs'', ''namespace''],
     sm_ReplicasReadyMetrics = new_vec [''lb'', ''lbs'', ''namespace''],
     sm_DeletionTimestampMetrics = new_vec [''lb'', ''lbs'', ''namespace'']\<rparr>"

definition LoadBalancerMachineMetrics :: "'v machine_metrics" where
  "LoadBalancerMachineMetrics = \<lparr>
     mm_VM = new_vec [''type'', ''lb'', ''lbm'', ''namespace''],
     mm_Conditions = new_vec [''lb'', ''lbm'', ''namespace'', ''condition'', ''reason'', ''status''],
     mm_OpenstackMetrics = Some (),
     mm_OpenstackInfoMetrics = new_vec [''lb'', ''lbm'', ''namespace'', ''portID'', ''serverID'', ''flavorID'', ''imageID''],
     mm_DeletionTimestampMetrics = new_vec [''lb'', ''lbm'', ''namespace'']\<rparr>"

section \<open>Texts of labels\<close>

definition FormatBool :: "bool \<Rightarrow> string" where
  "FormatBool b = (if b then ''true'' else ''false'')"

text \<open>\<open>Duration.String\<close>: the integer part of \<open>u\<close> in units of \<open>10 ^ prec\<close>, and the fraction without
  trailing zeros.\<close>

definition pad_digits :: "nat \<Rightarrow> nat \<Rightarrow> string" where
  "pad_digits n u = (let ds = nat_digits u in replicate (n - length ds) (CHR ''0'') @ ds)"

definition fraction_text :: "nat \<Rightarrow> nat \<Rightarrow> string" where
  "fraction_text prec u =
     (let ds = rev (dropWhile (\<lambda>c. c = CHR ''0'') (rev (pad_digits prec (u mod 10 ^ prec))))
      in if prec = 0 \<or> ds = [] then [] else CHR ''.'' # ds)"

definition unsigned_duration :: "nat \<Rightarrow> string" where
  "unsigned_duration u =
     (if u = 0 then ''0s''
      else if u < 10 ^ 3 then nat_digits u @ ''ns''
      else if u < 10 ^ 6 then nat_digits (u div 10 ^ 3) @ fraction_text 3 u @ micro_sign @ ''s''
      else if u < 10 ^ 9 then nat_digits (u div 10 ^ 6) @ fraction_text 6 u @ ''ms''
      else
        let secs = u div 10 ^ 9; mins = secs div 60; hours = mins div 60 in
        (if hours > 0 then nat_digits hours @ ''h'' else []) @
        (if mins > 0 then nat_digits (mins mod 60) @ ''m'' else []) @
        nat_digits (secs mod 60) @ fraction_text 9 u @ ''s'')"

definition Duration_String :: "int \<Rightarrow> string" where
  "Duration_String d = (if d < 0 then CHR ''-'' # unsigned_duration (nat (- d)) else unsigned_duration (nat d))"

definition or_nil :: "string option \<Rightarrow> string" where
  "or_nil p = (case p of None \<Rightarrow> ''nil'' | Some x \<Rightarrow> x)"

text \<open>\<open>Time.Unix()\<close>\<close>

definition Unix :: "int \<Rightarrow> int" where
  "Unix t = t div Second"

section \<open>LoadBalancers\<close>

definition lb_labels :: "load_balancer \<Rightarrow> label_values" where
  "lb_labels lb = [(''lb'', meta_Name lb), (''namespace'', meta_Namespace lb)]"

definition info_labels :: "load_balancer \<Rightarrow> label_values" where
  "info_labels lb = (let opts = spec_Options (lb_Spec lb) in
     [(''lb'', meta_Name lb), (''namespace'', meta_Namespace lb),
      (''isInternal'', FormatBool (opt_InternalLB opts)),
      (''tcpProxyProtocol'', FormatBool (opt_TCPProxyProtocol opts)),
      (''externalIP'', or_nil (ExternalIP (lb_Status lb))),
      (''tcpIdleTimeout'', or_nil (map_option Duration_String (opt_TCPIdleTimeout opts))),
      (''udpIdleTimeout'', or_nil (map_option Duration_String (opt_UDPIdleTimeout opts))),
      (''lokiEnabled'', FormatBool (lf_Enabled (opt_LogForward opts)))])"

definition replace_series :: "label_values \<Rightarrow> label_values \<Rightarrow> 'v \<Rightarrow> 'v gauge_vec option \<Rightarrow> 'v gauge_vec option result" where
  "replace_series l labels v g =
     (if g = None then Ok None else on_vec (\<lambda>g. With_Set labels v (DeletePartialMatch l g)) g)"

definition parseLoadBalancerInfoMetric :: "'v floats \<Rightarrow> load_balancer \<Rightarrow> 'v gauge_vec option \<Rightarrow> 'v gauge_vec option result" where
  "parseLoadBalancerInfoMetric fl lb g = replace_series (lb_labels lb) (info_labels lb) (of_integer fl 1) g"

definition openstack_labels :: "load_balancer \<Rightarrow> label_values" where
  "openstack_labels lb =
     [(''lb'', meta_Name lb), (''namespace'', meta_Namespace lb),
      (''portID'', or_nil (PortID (lb_Status lb))),
      (''floatingID'', or_nil (FloatingID (lb_Status lb))),
      (''securityGroupID'', or_nil (SecurityGroupID (lb_Status lb))),
      (''flavorID'', or_nil (FlavorID (infra_Flavor (spec_Infrastructure (lb_Spec lb)))))]"

definition parseLoadBalancerOpenstackMetric :: "'v floats \<Rightarrow> load_balancer \<Rightarrow> 'v gauge_vec option \<Rightarrow> 'v gauge_vec option result" where
  "parseLoadBalancerOpenstackMetric fl lb g = replace_series (lb_labels lb) (openstack_labels lb) (of_integer fl 1) g"

definition desired_replicas :: "int option \<Rightarrow> int \<Rightarrow> int" where
  "desired_replicas deletionTimestamp replicas = (if deletionTimestamp \<noteq> None then 0 else replicas)"

text \<open>A gauge that is set only if there is a value.\<close>

definition set_if :: "'v floats \<Rightarrow> string list \<Rightarrow> int option \<Rightarrow> 'v gauge_vec option \<Rightarrow> 'v gauge_vec option result" where
  "set_if fl vs p g = (case p of None \<Rightarrow> Ok g | Some x \<Rightarrow> on_vec (WithLabelValues_Set vs (of_integer fl x)) g)"

definition parseLoadBalancerReadyMetric :: "'v floats \<Rightarrow> load_balancer \<Rightarrow> 'v lb_metrics \<Rightarrow> 'v lb_metrics result" where
  "parseLoadBalancerReadyMetric fl lb ms =
     (let vs = [meta_Name lb, meta_Namespace lb] in
      if lm_ReplicasMetrics ms = None \<or> lm_ReplicasCurrentMetrics ms = None \<or> lm_ReplicasReadyMetrics ms = None then Ok ms
      else
        andR (set_if fl vs (Some (desired_replicas (meta_DeletionTimestamp lb) (spec_Replicas (lb_Spec lb)))) (lm_ReplicasMetrics ms)) (\<lambda>g1.
        andR (set_if fl vs (Replicas (lb_Status lb)) (lm_ReplicasCurrentMetrics ms)) (\<lambda>g2.
        andR (set_if fl vs (ReadyReplicas (lb_Status lb)) (lm_ReplicasReadyMetrics ms)) (\<lambda>g3.
        Ok (ms\<lparr>lm_ReplicasMetrics := g1, lm_ReplicasCurrentMetrics := g2, lm_ReplicasReadyMetrics := g3\<rparr>)))))"

definition parseLoadBalancerDeletionTimestampMetric :: "'v floats \<Rightarrow> load_balancer \<Rightarrow> 'v gauge_vec option \<Rightarrow> 'v gauge_vec option result" where
  "parseLoadBalancerDeletionTimestampMetric fl lb g =
     (if g = None then Ok None
      else set_if fl [meta_Name lb, meta_Namespace lb] (map_option Unix (meta_DeletionTimestamp lb)) g)"

definition ParseLoadBalancerMetrics :: "'v floats \<Rightarrow> load_balancer \<Rightarrow> 'v lb_metrics option \<Rightarrow> 'v lb_metrics option result" where
  "ParseLoadBalancerMetrics fl lb metrics =
     (case metrics of
        None \<Rightarrow> Ok None
      | Some ms \<Rightarrow>
          andR (parseLoadBalancerInfoMetric fl lb (lm_InfoMetrics ms)) (\<lambda>g1.
          andR (parseLoadBalancerOpenstackMetric fl lb (lm_OpenstackInfoMetrics ms)) (\<lambda>g2.
          andR (parseLoadBalancerReadyMetric fl lb (ms\<lparr>lm_InfoMetrics := g1, lm_OpenstackInfoMetrics := g2\<rparr>)) (\<lambda>ms.
          andR (parseLoadBalancerDeletionTimestampMetric fl lb (lm_DeletionTimestampMetrics ms)) (\<lambda>g3.
          Ok (Some (ms\<lparr>lm_DeletionTimestampMetrics := g3\<rparr>)))))))"

definition RemoveLoadBalancerMetrics :: "load_balancer \<Rightarrow> 'v lb_metrics option \<Rightarrow> 'v lb_metrics option result" where
  "RemoveLoadBalancerMetrics lb metrics =
     (case metrics of
        None \<Rightarrow> Ok None
      | Some ms \<Rightarrow>
          if lm_InfoMetrics ms = None \<or> lm_OpenstackInfoMetrics ms = None \<or> lm_ReplicasMetrics ms = None \<or>
             lm_ReplicasCurrentMetrics ms = None \<or> lm_ReplicasReadyMetrics ms = None \<or> lm_DeletionTimestampMetrics ms = None
          then Ok (Some ms)
          else
            andR (clear_vec (lb_labels lb) (lm_InfoMetrics ms)) (\<lambda>g1.
            andR (clear_vec (lb_labels lb) (lm_OpenstackInfoMetrics ms)) (\<lambda>g2.
            andR (clear_vec (lb_labels lb) (lm_ReplicasMetrics ms)) (\<lambda>g3.
            andR (clear_vec (lb_labels lb) (lm_ReplicasCurrentMetrics ms)) (\<lambda>g4.
            andR (clear_vec (lb_labels lb) (lm_ReplicasReadyMetrics ms)) (\<lambda>g5.
            andR (clear_vec (lb_labels lb) (lm_DeletionTimestampMetrics ms)) (\<lambda>g6.
            Ok (Some \<lparr>lm_InfoMetrics = g1, lm_OpenstackInfoMetrics = g2, lm_ReplicasMetrics = g3,
              lm_ReplicasCurrentMetrics = g4, lm_ReplicasReadyMetrics = g5, lm_DeletionTimestampMetrics = g6\<rparr>))))))))"

section \<open>LoadBalancerSets\<close>

definition set_lb_name :: "load_balancer_set \<Rightarrow> string" where
  "set_lb_name lbs = lbr_Name (mspec_LoadBalancerRef (tmpl_Spec (sspec_Template (set_Spec lbs))))"

definition set_metrics_missing :: "'v set_metrics \<Rightarrow> bool" where
  "set_metrics_missing ms = (sm_ReplicasMetrics ms = None \<or> sm_ReplicasCurrentMetrics ms = None \<or>
     sm_ReplicasReadyMetrics ms = None \<or> sm_DeletionTimestampMetrics ms = None)"

definition ParseLoadBalancerSetMetrics :: "'v floats \<Rightarrow> load_balancer_set \<Rightarrow> 'v set_metrics option \<Rightarrow> 'v set_metrics option result" where
  "ParseLoadBalancerSetMetrics fl lbs metrics =
     (case metrics of
        None \<Rightarrow> Ok None
      | Some ms \<Rightarrow>
          if set_metrics_missing ms then Ok (Some ms)
          else
            let vs = [set_lb_name lbs, meta_Name lbs, meta_Namespace lbs] in
            andR (set_if fl vs (Some (desired_replicas (meta_DeletionTimestamp lbs) (sspec_Replicas (set_Spec lbs)))) (sm_ReplicasMetrics ms)) (\<lambda>g1.
            andR (set_if fl vs (set_Replicas (set_Status lbs)) (sm_ReplicasCurrentMetrics ms)) (\<lambda>g2.
            andR (set_if fl vs (set_ReadyReplicas (set_Status lbs)) (sm_ReplicasReadyMetrics ms)) (\<lambda>g3.
            andR (set_if fl vs (map_option Unix (meta_DeletionTimestamp lbs)) (sm_DeletionTimestampMetrics ms)) (\<lambda>g4.
            Ok (Some \<lparr>sm_ReplicasMetrics = g1, sm_ReplicasCurrentMetrics = g2, sm_ReplicasReadyMetrics = g3,
              sm_DeletionTimestampMetrics = g4\<rparr>))))))"

definition RemoveLoadBalancerSetMetrics :: "load_balancer_set \<Rightarrow> 'v set_metrics option \<Rightarrow> 'v set_metrics option result" where
  "RemoveLoadBalancerSetMetrics lbs metrics =
     (case metrics of
        None \<Rightarrow> Ok None
      | Some ms \<Rightarrow>
          if set_metrics_missing ms then Ok (Some ms)
          else
            let l = [(''lb'', set_lb_name lbs), (''lbs'', meta_Name lbs), (''namespace'', meta_Namespace lbs)] in
            andR (clear_vec l (sm_ReplicasMetrics ms)) (\<lambda>g1.
            andR (clear_vec l (sm_ReplicasCurrentMetrics ms)) (\<lambda>g2.
            andR (clear_vec l (sm_ReplicasReadyMetrics ms)) (\<lambda>g3.
            andR (clear_vec l (sm_DeletionTimestampMetrics ms)) (\<lambda>g4.
            Ok (Some \<lparr>sm_ReplicasMetrics = g1, sm_ReplicasCurrentMetrics = g2, sm_ReplicasReadyMetrics = g3,
              sm_DeletionTimestampMetrics = g4\<rparr>))))))"

section \<open>LoadBalancerMachines\<close>

definition machine_lb_name :: "load_balancer_machine \<Rightarrow> string" where
  "machine_lb_name m = lbr_Name (mspec_LoadBalancerRef (lbm_Spec m))"

definition machine_labels :: "load_balancer_machine \<Rightarrow> label_values" where
  "machine_labels m = [(''lb'', machine_lb_name m), (''lbm'', meta_Name m), (''namespace'', meta_Namespace m)]"

fun vm_loop :: "'v floats \<Rightarrow> load_balancer_machine \<Rightarrow> lbm_metric list \<Rightarrow> 'v gauge_vec option \<Rightarrow> 'v gauge_vec option result" where
  "vm_loop fl m [] g = Ok g"
| "vm_loop fl m (metric # rest) g =
     (case ParseFloat fl (metric_Value metric) of
        None \<Rightarrow> vm_loop fl m rest g
      | Some v \<Rightarrow>
          andR (on_vec (WithLabelValues_Set [metric_Type metric, machine_lb_name m, meta_Name m, meta_Namespace m] v) g)
            (\<lambda>g. vm_loop fl m rest g))"

definition parseLoadBalancerMachineVMMetrics :: "'v floats \<Rightarrow> load_balancer_machine \<Rightarrow> 'v machine_metrics option \<Rightarrow> 'v machine_metrics option result" where
  "parseLoadBalancerMachineVMMetrics fl m metrics =
     (case (lbm_Metrics (lbm_Status m), metrics) of
        (Some vs, Some ms) \<Rightarrow>
          if mm_VM ms = None then Ok metrics
          else andR (vm_loop fl m vs (mm_VM ms)) (\<lambda>g. Ok (Some (ms\<lparr>mm_VM := g\<rparr>)))
      | _ \<Rightarrow> Ok metrics)"

definition condition_labels :: "load_balancer_machine \<Rightarrow> node_condition \<Rightarrow> string list" where
  "condition_labels m c = [machine_lb_name m, meta_Name m, meta_Namespace m, nc_Type c, nc_Reason c, nc_Status c]"

fun conditions_metric_loop :: "'v floats \<Rightarrow> load_balancer_machine \<Rightarrow> node_condition list \<Rightarrow> 'v gauge_vec option \<Rightarrow> 'v gauge_vec option result" where
  "conditions_metric_loop fl m [] g = Ok g"
| "conditions_metric_loop fl m (c # rest) g =
     andR (clear_vec (machine_labels m @ [(''condition'', nc_Type c)]) g) (\<lambda>g.
     andR (on_vec (WithLabelValues_Set (condition_labels m c) (of_integer fl 1)) g) (\<lambda>g.
     conditions_metric_loop fl m rest g))"

definition parseLoadBalancerMachineConditionsMetrics :: "'v floats \<Rightarrow> load_balancer_machine \<Rightarrow> 'v machine_metrics option \<Rightarrow> 'v machine_metrics option result" where
  "parseLoadBalancerMachineConditionsMetrics fl m metrics =
     (case (lbm_Conditions (lbm_Status m), metrics) of
        (Some cs, Some ms) \<Rightarrow>
          if mm_Conditions ms = None then Ok metrics
          else andR (conditions_metric_loop fl m cs (mm_Conditions ms)) (\<lambda>g. Ok (Some (ms\<lparr>mm_Conditions := g\<rparr>)))
      | _ \<Rightarrow> Ok metrics)"

definition machine_info_labels :: "load_balancer_machine \<Rightarrow> label_values" where
  "machine_info_labels m = machine_labels m @
     [(''portID'', or_nil (lbm_DefaultPortID (lbm_Status m))),
      (''serverID'', or_nil (lbm_ServerID (lbm_Status m))),
      (''flavorID'', or_nil (FlavorID (infra_Flavor (mspec_Infrastructure (lbm_Spec m))))),
      (''imageID'', or_nil (ImageID (infra_Image (mspec_Infrastructure (lbm_Spec m)))))]"

definition parseLoadBalancerMachineOpenstackInfoMetrics :: "'v floats \<Rightarrow> load_balancer_machine \<Rightarrow> 'v machine_metrics option \<Rightarrow> 'v machine_metrics option result" where
  "parseLoadBalancerMachineOpenstackInfoMetrics fl m metrics =
     (case metrics of
        None \<Rightarrow> Ok None
      | Some ms \<Rightarrow>
          andR (replace_series (machine_labels m) (machine_info_labels m) (of_integer fl 1) (mm_OpenstackInfoMetrics ms))
            (\<lambda>g. Ok (Some (ms\<lparr>mm_OpenstackInfoMetrics := g\<rparr>))))"

definition parseLoadBalancerMachineDeletionTimestampMetrics :: "'v floats \<Rightarrow> load_balancer_machine \<Rightarrow> 'v machine_metrics option \<Rightarrow> 'v machine_metrics option result" where
  "parseLoadBalancerMachineDeletionTimestampMetrics fl m metrics =
     (case metrics of
        None \<Rightarrow> Ok None
      | Some ms \<Rightarrow>
          if mm_DeletionTimestampMetrics ms = None then Ok metrics
          else andR (set_if fl [machine_lb_name m, meta_Name m, meta_Namespace m] (map_option Unix (meta_DeletionTimestamp m))
              (mm_DeletionTimestampMetrics ms))
            (\<lambda>g. Ok (Some (ms\<lparr>mm_DeletionTimestampMetrics := g\<rparr>))))"

definition ParseLoadBalancerMachineMetrics :: "'v floats \<Rightarrow> load_balancer_machine \<Rightarrow> 'v machine_metrics option \<Rightarrow> 'v machine_metrics option result" where
  "ParseLoadBalancerMachineMetrics fl m metrics =
     andR (parseLoadBalancerMachineVMMetrics fl m metrics) (\<lambda>metrics.
     andR (parseLoadBalancerMachineConditionsMetrics fl m metrics) (\<lambda>metrics.
     andR (parseLoadBalancerMachineOpenstackInfoMetrics fl m metrics) (\<lambda>metrics.
     parseLoadBalancerMachineDeletionTimestampMetrics fl m metrics)))"

text \<open>The guard asks for the counter of OpenStack calls, not for \<open>OpenstackInfoMetrics\<close>.\<close>

definition RemoveLoadBalancerMachineMetrics :: "load_balancer_machine \<Rightarrow> 'v machine_metrics option \<Rightarrow> 'v machine_metrics option result" where
  "RemoveLoadBalancerMachineMetrics m metrics =
     (case metrics of
        None \<Rightarrow> Ok None
      | Some ms \<Rightarrow>
          if mm_VM ms = None \<or> mm_Conditions ms = None \<or> mm_OpenstackMetrics ms = None \<or> mm_DeletionTimestampMetrics ms = None
          then Ok (Some ms)
          else
            andR (clear_vec (machine_labels m) (mm_VM ms)) (\<lambda>g1.
            andR (clear_vec (machine_labels m) (mm_Conditions ms)) (\<lambda>g2.
            andR (clear_vec (machine_labels m) (mm_OpenstackInfoMetrics ms)) (\<lambda>g3.
            andR (clear_vec (machine_labels m) (mm_DeletionTimestampMetrics ms)) (\<lambda>g4.
            Ok (Some (ms\<lparr>mm_VM := g1, mm_Conditions := g2, mm_OpenstackInfoMetrics := g3, mm_DeletionTimestampMetrics := g4\<rparr>)))))))"

end
