(* ===== verification/MetricsFacts.thy ===== *)
theory MetricsFacts
  imports Metrics
begin

text \<open>
  What the gauges show. The LoadBalancer gauges refine a map from the key of a LoadBalancer to the object the controller
  has last parsed and not removed since; the machine gauges hold at most one series for a condition of a machine, and none
  of a machine that was removed; clearing the machine gauges panics exactly when the one vector its guard forgets is
  missing.
\<close>

section \<open>Sequences of calls\<close>

datatype 'o metrics_call = Parsed 'o | Removed 'o

type_synonym object_key = "string \<times> string"

definition lb_key :: "load_balancer \<Rightarrow> object_key" where
  "lb_key lb = (meta_Name lb, meta_Namespace lb)"

primrec lb_metrics_run :: "'v floats \<Rightarrow> load_balancer metrics_call list \<Rightarrow> 'v lb_metrics option \<Rightarrow> 'v lb_metrics option result" where
  "lb_metrics_run fl [] ms = Ok ms"
| "lb_metrics_run fl (c # cs) ms =
     andR (case c of Parsed lb \<Rightarrow> ParseLoadBalancerMetrics fl lb ms | Removed lb \<Rightarrow> RemoveLoadBalancerMetrics lb ms)
       (\<lambda>ms. lb_metrics_run fl cs ms)"

primrec machine_metrics_run :: "'v floats \<Rightarrow> load_balancer_machine metrics_call list \<Rightarrow> 'v machine_metrics option \<Rightarrow> 'v machine_metrics option result" where
  "machine_metrics_run fl [] ms = Ok ms"
| "machine_metrics_run fl (c # cs) ms =
     andR (case c of Parsed m \<Rightarrow> ParseLoadBalancerMachineMetrics fl m ms | Removed m \<Rightarrow> RemoveLoadBalancerMachineMetrics m ms)
       (\<lambda>ms. machine_metrics_run fl cs ms)"

text \<open>The specification: the objects that are known.\<close>

primrec known_step :: "('o \<Rightarrow> 'k) \<Rightarrow> 'o metrics_call \<Rightarrow> ('k \<Rightarrow> 'o option) \<Rightarrow> ('k \<Rightarrow> 'o option)" where
  "known_step key (Parsed x) K = K(key x \<mapsto> x)"
| "known_step key (Removed x) K = K(key x := None)"

definition known :: "('o \<Rightarrow> 'k) \<Rightarrow> 'o metrics_call list \<Rightarrow> ('k \<Rightarrow> 'o option)" where
  "known key cs = fold (known_step key) cs Map.empty"

definition matching :: "label_values \<Rightarrow> 'v gauge_vec option \<Rightarrow> (label_values \<times> 'v) list" where
  "matching l g = (case g of None \<Rightarrow> [] | Some v \<Rightarrow> filter (\<lambda>(ls, _). matches_labels l ls) (gv_Series v))"

definition key_labels :: "object_key \<Rightarrow> label_values" where
  "key_labels k = [(''lb'', fst k), (''namespace'', snd k)]"

section \<open>Gauges\<close>

named_theorems gauge

lemma andR_Ok [gauge]: "andR (Ok x) f = f x"
  by (simp add: andR_def)

lemma on_vec_Some: "on_vec f (Some v) = andR (f v) (\<lambda>v'. Ok (Some v'))"
  by (simp add: on_vec_def andR_def)

lemma clear_vec_Some [gauge]: "clear_vec l (Some v) = Ok (Some (DeletePartialMatch l v))"
  by (simp add: clear_vec_def on_vec_def)

lemma matching_cleared [gauge]:
  "matching l (Some (DeletePartialMatch l' v)) = filter (\<lambda>(ls, _). \<not> matches_labels l' ls) (matching l (Some v))"
  by (auto simp: matching_def DeletePartialMatch_def conj_commute case_prod_unfold intro: filter_cong)

lemma cleared_labels [gauge]: "gv_Labels (DeletePartialMatch l v) = gv_Labels v"
  by (simp add: DeletePartialMatch_def)

lemma set_series_labels [gauge]: "gv_Labels (set_series ls x v) = gv_Labels v"
  by (simp add: set_series_def)

lemma update_fresh: "ls \<notin> fst ` set s \<Longrightarrow> AList.update ls v s = s @ [(ls, v)]"
  by (induction s) auto

lemma filter_disjoint:
  assumes "\<And>x. x \<in> set xs \<Longrightarrow> P x \<Longrightarrow> Q x"
  shows "filter Q (filter P xs) = filter P xs"
  using assms by (intro filter_True) auto

text \<open>Clearing the series of a key and setting one of that key leaves one series of the key, and all series of others.\<close>

lemma set_after_clear:
  assumes "matches_labels l ls"
  shows "gv_Series (set_series ls x (DeletePartialMatch l v)) = gv_Series (DeletePartialMatch l v) @ [(ls, x)]"
proof -
  have "ls \<notin> fst ` set (filter (\<lambda>(ls, _). \<not> matches_labels l ls) (gv_Series v))"
    using assms by auto
  thus ?thesis
    by (simp add: set_series_def DeletePartialMatch_def update_fresh)
qed

lemma matching_set_after_clear:
  assumes "matches_labels l ls"
  shows "matching l' (Some (set_series ls x (DeletePartialMatch l v))) =
    filter (\<lambda>(ls, _). \<not> matches_labels l ls) (matching l' (Some v)) @ (if matches_labels l' ls then [(ls, x)] else [])"
  using matching_cleared [of l' l v] by (simp add: matching_def set_after_clear [OF assms])

lemma matching_self_cleared: "filter (\<lambda>(ls, _). \<not> matches_labels l ls) (matching l (Some v)) = []"
  by (auto simp: matching_def filter_empty_conv)

lemma matching_other_cleared:
  assumes "\<And>ls. matches_labels l' ls \<Longrightarrow> \<not> matches_labels l ls"
  shows "filter (\<lambda>(ls, _). \<not> matches_labels l ls) (matching l' (Some v)) = matching l' (Some v)"
  using assms by (intro filter_True) (auto simp: matching_def)

lemma lb_labels_key: "lb_labels lb = key_labels (lb_key lb)"
  by (simp add: lb_labels_def key_labels_def lb_key_def)

lemma map_of_update_series: "map_of (AList.update k v s) k' = (if k' = k then Some v else map_of s k')"
  by (simp add: update_conv')

lemma map_of_filter_key: "map_of (filter (\<lambda>(ls, _). \<not> P ls) s) k = (if P k then None else map_of s k)"
  by (induction s) auto

text \<open>A vector that is present and has the given label names.\<close>

definition has_labels :: "string list \<Rightarrow> 'v gauge_vec option \<Rightarrow> bool" where
  "has_labels names g = (case g of None \<Rightarrow> False | Some v \<Rightarrow> gv_Labels v = names)"

lemma has_labelsE:
  assumes "has_labels names g"
  obtains v where "g = Some v" "gv_Labels v = names"
  using assms by (cases g) (auto simp: has_labels_def)

lemma has_labels_Some [gauge]: "has_labels names (Some v) = (gv_Labels v = names)"
  by (simp add: has_labels_def)

lemma labels_by_name: "distinct (map fst ls) \<Longrightarrow> map (\<lambda>n. (n, the (map_of ls n))) (map fst ls) = ls"
  by (auto simp: comp_def intro: map_idI)

lemma With_Set_own:
  assumes "gv_Labels v = map fst ls" "distinct (map fst ls)"
  shows "With_Set ls x v = Ok (set_series ls x v)"
proof -
  have "list_all (\<lambda>n. map_of ls n \<noteq> None) (map fst ls)"
    by (auto simp: list_all_iff map_of_eq_None_iff rev_image_eqI)
  thus ?thesis
    using labels_by_name [OF assms(2)] by (simp add: With_Set_def assms(1))
qed

text \<open>One gauge, one call: a replaced series, a set value, a cleared key.\<close>

lemma replace_series_own:
  assumes "has_labels (map fst ls) g" "distinct (map fst ls)" "matches_labels l ls"
  shows "\<exists>g'. replace_series l ls x g = Ok g' \<and> has_labels (map fst ls) g' \<and>
    (\<forall>l'. matching l' g' = filter (\<lambda>(ls, _). \<not> matches_labels l ls) (matching l' g) @ (if matches_labels l' ls then [(ls, x)] else []))"
proof -
  obtain v where v: "g = Some v" "gv_Labels v = map fst ls" using assms(1) by (rule has_labelsE)
  show ?thesis
    by (rule exI [of _ "Some (set_series ls x (DeletePartialMatch l v))"])
      (simp add: v replace_series_def on_vec_Some With_Set_own [OF _ assms(2)] matching_set_after_clear [OF assms(3)] gauge)
qed

definition gauge_value :: "'v gauge_vec option \<Rightarrow> label_values \<Rightarrow> 'v option" where
  "gauge_value g ls = (case g of None \<Rightarrow> None | Some v \<Rightarrow> map_of (gv_Series v) ls)"

lemma key_labels_inject [simp]: "key_labels k = key_labels k' \<longleftrightarrow> k = k'"
  by (cases k; cases k') (auto simp: key_labels_def)

text \<open>Labels that identify an object: replacing the series of a key and clearing a key leave the series of all others.\<close>

locale label_key =
  fixes key_of :: "'k \<Rightarrow> label_values"
  assumes self: "matches_labels (key_of k) (key_of k)"
    and apart: "matches_labels (key_of k) ls \<Longrightarrow> matches_labels (key_of k') ls \<Longrightarrow> k = k'"
begin

lemma match_iff: "matches_labels (key_of k) (key_of k') \<longleftrightarrow> k = k'"
  using self apart by blast

lemma matching_cleared_key:
  "filter (\<lambda>(ls, _). \<not> matches_labels (key_of k) ls) (matching (key_of k') (Some v)) =
     (if k' = k then [] else matching (key_of k') (Some v))"
  using apart [of k' _ k] by (auto simp: matching_self_cleared intro: matching_other_cleared)

lemma replace_of_key:
  assumes "has_labels (map fst ls) g" "distinct (map fst ls)" "matches_labels (key_of k) ls"
  shows "\<exists>g'. replace_series (key_of k) ls x g = Ok g' \<and> has_labels (map fst ls) g' \<and>
    (\<forall>k'. matching (key_of k') g' = (if k' = k then [(ls, x)] else matching (key_of k') g))"
proof -
  obtain v where v: "g = Some v" using assms(1) by (rule has_labelsE)
  obtain g' where g': "replace_series (key_of k) ls x g = Ok g'" "has_labels (map fst ls) g'"
    "\<forall>l'. matching l' g' = filter (\<lambda>(ls, _). \<not> matches_labels (key_of k) ls) (matching l' g) @
      (if matches_labels l' ls then [(ls, x)] else [])"
    using replace_series_own [OF assms, where x = x] by blast
  have "matching (key_of k') g' = (if k' = k then [(ls, x)] else matching (key_of k') g)" for k'
  proof (cases "k' = k")
    case True
    thus ?thesis using assms(3) by (simp add: g'(3) v matching_self_cleared)
  next
    case False
    hence "\<not> matches_labels (key_of k') ls" using apart [of k' ls k] assms(3) by blast
    with False show ?thesis by (simp add: g'(3) v matching_cleared_key)
  qed
  with g'(1,2) show ?thesis by blast
qed

lemma clear_key:
  assumes "has_labels names g"
  shows "\<exists>g'. clear_vec (key_of k) g = Ok g' \<and> has_labels names g' \<and>
    (\<forall>k'. matching (key_of k') g' = (if k' = k then [] else matching (key_of k') g)) \<and>
    (\<forall>k'. gauge_value g' (key_of k') = (if k' = k then None else gauge_value g (key_of k'))) \<and>
    (\<forall>l'. set (matching l' g') \<subseteq> set (matching l' g))"
proof -
  obtain v where v: "g = Some v" "gv_Labels v = names" using assms by (rule has_labelsE)
  show ?thesis
  proof (intro exI [of _ "Some (DeletePartialMatch (key_of k) v)"] conjI allI)
    fix k' l'
    show "matching (key_of k') (Some (DeletePartialMatch (key_of k) v)) = (if k' = k then [] else matching (key_of k') g)"
      by (simp add: v matching_cleared matching_cleared_key)
    show "gauge_value (Some (DeletePartialMatch (key_of k) v)) (key_of k') = (if k' = k then None else gauge_value g (key_of k'))"
      using match_iff [of k k'] by (auto simp: v gauge_value_def DeletePartialMatch_def map_of_filter_key)
    show "set (matching l' (Some (DeletePartialMatch (key_of k) v))) \<subseteq> set (matching l' g)"
      by (auto simp: v matching_cleared)
  qed (simp_all add: v gauge)
qed

end

interpretation loadbalancer: label_key key_labels
  by unfold_locales (auto simp: key_labels_def matches_labels_def intro: prod_eqI)

lemma set_if_key:
  assumes "has_labels [''lb'', ''namespace''] g"
  shows "\<exists>g'. set_if fl [fst k, snd k] p g = Ok g' \<and> has_labels [''lb'', ''namespace''] g' \<and>
    (\<forall>k'. gauge_value g' (key_labels k') = (if k' = k \<and> p \<noteq> None then map_option (of_integer fl) p else gauge_value g (key_labels k')))"
proof (cases p)
  case None
  with assms show ?thesis by (simp add: set_if_def)
next
  case (Some x)
  obtain v where v: "g = Some v" "gv_Labels v = [''lb'', ''namespace'']" using assms by (rule has_labelsE)
  have z: "zip (gv_Labels v) [fst k, snd k] = key_labels k" by (simp add: v key_labels_def)
  have s: "set_if fl [fst k, snd k] p g = Ok (Some (set_series (key_labels k) (of_integer fl x) v))"
    unfolding Some v(1) set_if_def by (simp add: on_vec_Some WithLabelValues_Set_def z gauge) (simp add: v(2))
  show ?thesis
    by (simp add: s gauge v(2)) (simp add: v(1) Some gauge_value_def set_series_def map_of_update_series)
qed

section \<open>The gauges of LoadBalancers\<close>

definition one_series :: "'v floats \<Rightarrow> ('o \<Rightarrow> label_values) \<Rightarrow> 'o option \<Rightarrow> (label_values \<times> 'v) list" where
  "one_series fl labels x = (case x of None \<Rightarrow> [] | Some obj \<Rightarrow> [(labels obj, of_integer fl 1)])"

definition lb_replicas :: "'v floats \<Rightarrow> load_balancer \<Rightarrow> 'v" where
  "lb_replicas fl lb = of_integer fl (desired_replicas (meta_DeletionTimestamp lb) (spec_Replicas (lb_Spec lb)))"

definition info_names :: "string list" where
  "info_names = [''lb'', ''namespace'', ''isInternal'', ''tcpProxyProtocol'', ''externalIP'', ''tcpIdleTimeout'', ''udpIdleTimeout'', ''lokiEnabled'']"

definition openstack_names :: "string list" where
  "openstack_names = [''lb'', ''namespace'', ''portID'', ''floatingID'', ''securityGroupID'', ''flavorID'']"

definition lb_gauges_show :: "'v floats \<Rightarrow> (object_key \<Rightarrow> load_balancer option) \<Rightarrow> 'v lb_metrics \<Rightarrow> bool" where
  "lb_gauges_show fl K ms \<longleftrightarrow>
     has_labels info_names (lm_InfoMetrics ms) \<and>
     has_labels openstack_names (lm_OpenstackInfoMetrics ms) \<and>
     list_all (has_labels [''lb'', ''namespace''])
       [lm_ReplicasMetrics ms, lm_ReplicasCurrentMetrics ms, lm_ReplicasReadyMetrics ms, lm_DeletionTimestampMetrics ms] \<and>
     (\<forall>k. matching (key_labels k) (lm_InfoMetrics ms) = one_series fl info_labels (K k)) \<and>
     (\<forall>k. matching (key_labels k) (lm_OpenstackInfoMetrics ms) = one_series fl openstack_labels (K k)) \<and>
     (\<forall>k. gauge_value (lm_ReplicasMetrics ms) (key_labels k) = map_option (lb_replicas fl) (K k)) \<and>
     (\<forall>g \<in> {lm_ReplicasCurrentMetrics ms, lm_ReplicasReadyMetrics ms, lm_DeletionTimestampMetrics ms}.
        \<forall>k. K k = None \<longrightarrow> gauge_value g (key_labels k) = None)"

lemma label_names:
  "map fst (info_labels lb) = info_names" "map fst (openstack_labels lb) = openstack_names"
  by (simp_all only: info_labels_def openstack_labels_def info_names_def openstack_names_def Let_def list.map fst_conv)

lemma distinct_names: "distinct info_names" "distinct openstack_names"
  by code_simp+

lemma own_labels_match:
  "matches_labels (key_labels (lb_key lb)) (info_labels lb)" "matches_labels (key_labels (lb_key lb)) (openstack_labels lb)"
  by (simp_all add: info_labels_def openstack_labels_def Let_def matches_labels_def key_labels_def lb_key_def)

lemma lb_values_key: "[meta_Name lb, meta_Namespace lb] = [fst (lb_key lb), snd (lb_key lb)]"
  by (simp add: lb_key_def)

lemma has_labels_present: "has_labels names g \<Longrightarrow> g \<noteq> None"
  by (auto elim: has_labelsE)

lemma parse_keeps_gauges:
  assumes "lb_gauges_show fl K ms"
  shows "\<exists>ms'. ParseLoadBalancerMetrics fl lb (Some ms) = Ok (Some ms') \<and> lb_gauges_show fl (K(lb_key lb \<mapsto> lb)) ms'"
proof -
  note a = assms [unfolded lb_gauges_show_def list.pred_inject]
  have present: "lm_InfoMetrics ms \<noteq> None" "lm_OpenstackInfoMetrics ms \<noteq> None" "lm_ReplicasMetrics ms \<noteq> None"
      "lm_ReplicasCurrentMetrics ms \<noteq> None" "lm_ReplicasReadyMetrics ms \<noteq> None" "lm_DeletionTimestampMetrics ms \<noteq> None"
    using a by (auto dest: has_labels_present simp del: split_paired_All)
  obtain g1 where 1: "parseLoadBalancerInfoMetric fl lb (lm_InfoMetrics ms) = Ok g1"
    "has_labels info_names g1"
    "\<forall>k'. matching (key_labels k') g1 = (if k' = lb_key lb then [(info_labels lb, of_integer fl 1)] else matching (key_labels k') (lm_InfoMetrics ms))"
    using loadbalancer.replace_of_key [of "info_labels lb" "lm_InfoMetrics ms" "lb_key lb" "of_integer fl 1"] a
    unfolding parseLoadBalancerInfoMetric_def lb_labels_key by (auto simp: label_names distinct_names own_labels_match)
  obtain g2 where 2: "parseLoadBalancerOpenstackMetric fl lb (lm_OpenstackInfoMetrics ms) = Ok g2"
    "has_labels openstack_names g2"
    "\<forall>k'. matching (key_labels k') g2 = (if k' = lb_key lb then [(openstack_labels lb, of_integer fl 1)] else matching (key_labels k') (lm_OpenstackInfoMetrics ms))"
    using loadbalancer.replace_of_key [of "openstack_labels lb" "lm_OpenstackInfoMetrics ms" "lb_key lb" "of_integer fl 1"] a
    unfolding parseLoadBalancerOpenstackMetric_def lb_labels_key by (auto simp: label_names distinct_names own_labels_match)
  define lb_set where "lb_set p g g' \<longleftrightarrow> set_if fl [meta_Name lb, meta_Namespace lb] p g = Ok g' \<and> has_labels [''lb'', ''namespace''] g' \<and>
    (\<forall>k'. gauge_value g' (key_labels k') = (if k' = lb_key lb \<and> p \<noteq> None then map_option (of_integer fl) p else gauge_value g (key_labels k')))"
    for p and g g' :: "'a gauge_vec option"
  have "\<exists>g'. lb_set p g g'" if "has_labels [''lb'', ''namespace''] g" for p and g :: "'a gauge_vec option"
    using set_if_key [OF that, of fl "lb_key lb" p] unfolding lb_set_def lb_values_key .
  with a obtain g3 g4 g5 g6 where set:
    "lb_set (Some (desired_replicas (meta_DeletionTimestamp lb) (spec_Replicas (lb_Spec lb)))) (lm_ReplicasMetrics ms) g3"
    "lb_set (Replicas (lb_Status lb)) (lm_ReplicasCurrentMetrics ms) g4"
    "lb_set (ReadyReplicas (lb_Status lb)) (lm_ReplicasReadyMetrics ms) g5"
    "lb_set (map_option Unix (meta_DeletionTimestamp lb)) (lm_DeletionTimestampMetrics ms) g6"
    by metis
  define ms' where "ms' = \<lparr>lm_InfoMetrics = g1, lm_OpenstackInfoMetrics = g2, lm_ReplicasMetrics = g3,
    lm_ReplicasCurrentMetrics = g4, lm_ReplicasReadyMetrics = g5, lm_DeletionTimestampMetrics = g6\<rparr>"
  have "ParseLoadBalancerMetrics fl lb (Some ms) = Ok (Some ms')"
    using a 1(1) 2(1) set
    by (simp add: ParseLoadBalancerMetrics_def parseLoadBalancerReadyMetric_def parseLoadBalancerDeletionTimestampMetric_def
        lb_set_def ms'_def andR_Ok Let_def present del: split_paired_All not_None_eq)
  moreover have "lb_gauges_show fl (K(lb_key lb \<mapsto> lb)) ms'"
    using a 1(2,3) 2(2,3) set
    by (simp add: lb_gauges_show_def ms'_def lb_set_def one_series_def lb_replicas_def del: split_paired_All)
  ultimately show ?thesis by blast
qed

lemma remove_keeps_gauges:
  assumes "lb_gauges_show fl K ms"
  shows "\<exists>ms'. RemoveLoadBalancerMetrics lb (Some ms) = Ok (Some ms') \<and> lb_gauges_show fl (K(lb_key lb := None)) ms'"
proof -
  note a = assms [unfolded lb_gauges_show_def list.pred_inject]
  have present: "lm_InfoMetrics ms \<noteq> None" "lm_OpenstackInfoMetrics ms \<noteq> None" "lm_ReplicasMetrics ms \<noteq> None"
      "lm_ReplicasCurrentMetrics ms \<noteq> None" "lm_ReplicasReadyMetrics ms \<noteq> None" "lm_DeletionTimestampMetrics ms \<noteq> None"
    using a by (auto dest: has_labels_present simp del: split_paired_All)
  define cleared where "cleared names g g' \<longleftrightarrow> clear_vec (lb_labels lb) g = Ok g' \<and> has_labels names g' \<and>
    (\<forall>k'. matching (key_labels k') g' = (if k' = lb_key lb then [] else matching (key_labels k') g)) \<and>
    (\<forall>k'. gauge_value g' (key_labels k') = (if k' = lb_key lb then None else gauge_value g (key_labels k')))"
    for names and g g' :: "'a gauge_vec option"
  have "\<exists>g'. cleared names g g'" if "has_labels names g" for names and g :: "'a gauge_vec option"
    using loadbalancer.clear_key [OF that, of "lb_key lb"] unfolding cleared_def lb_labels_key by blast
  with a obtain g1 g2 g3 g4 g5 g6 where c:
    "cleared info_names (lm_InfoMetrics ms) g1" "cleared openstack_names (lm_OpenstackInfoMetrics ms) g2"
    "cleared [''lb'', ''namespace''] (lm_ReplicasMetrics ms) g3" "cleared [''lb'', ''namespace''] (lm_ReplicasCurrentMetrics ms) g4"
    "cleared [''lb'', ''namespace''] (lm_ReplicasReadyMetrics ms) g5" "cleared [''lb'', ''namespace''] (lm_DeletionTimestampMetrics ms) g6"
    by metis
  define ms' where "ms' = \<lparr>lm_InfoMetrics = g1, lm_OpenstackInfoMetrics = g2, lm_ReplicasMetrics = g3,
    lm_ReplicasCurrentMetrics = g4, lm_ReplicasReadyMetrics = g5, lm_DeletionTimestampMetrics = g6\<rparr>"
  have "RemoveLoadBalancerMetrics lb (Some ms) = Ok (Some ms')"
    using a c by (simp add: RemoveLoadBalancerMetrics_def cleared_def ms'_def andR_Ok present del: split_paired_All not_None_eq)
  moreover have "lb_gauges_show fl (K(lb_key lb := None)) ms'"
    using a c by (simp add: lb_gauges_show_def ms'_def cleared_def one_series_def del: split_paired_All)
  ultimately show ?thesis by blast
qed

lemma run_keeps_gauges:
  "lb_gauges_show fl K ms \<Longrightarrow>
   \<exists>ms'. lb_metrics_run fl cs (Some ms) = Ok (Some ms') \<and> lb_gauges_show fl (fold (known_step lb_key) cs K) ms'"
proof (induction cs arbitrary: K ms)
  case (Cons c cs)
  show ?case
  proof (cases c)
    case (Parsed lb)
    from parse_keeps_gauges [OF Cons.prems, of lb] obtain ms1
      where p: "ParseLoadBalancerMetrics fl lb (Some ms) = Ok (Some ms1)" and "lb_gauges_show fl (K(lb_key lb \<mapsto> lb)) ms1" by blast
    with Cons.IH [of "K(lb_key lb \<mapsto> lb)" ms1] show ?thesis by (simp add: Parsed andR_Ok del: fun_upd_apply)
  next
    case (Removed lb)
    from remove_keeps_gauges [OF Cons.prems, of lb] obtain ms1
      where p: "RemoveLoadBalancerMetrics lb (Some ms) = Ok (Some ms1)" and "lb_gauges_show fl (K(lb_key lb := None)) ms1" by blast
    with Cons.IH [of "K(lb_key lb := None)" ms1] show ?thesis by (simp add: Removed andR_Ok del: fun_upd_apply)
  qed
qed simp

lemma registered_gauges: "lb_gauges_show fl Map.empty LoadBalancerMetrics"
  by (simp add: lb_gauges_show_def LoadBalancerMetrics_def new_vec_def has_labels_Some info_names_def openstack_names_def
      matching_def one_series_def gauge_value_def)

text \<open>C38. The gauges of LoadBalancers follow the objects. After any sequence of parsed and removed LoadBalancers, starting from
  the registered vectors, no call has panicked; the information and the OpenStack gauge hold exactly one series for every
  LoadBalancer parsed and not removed since, with the labels of the object as it was parsed last, and none for any other; its
  desired replicas are shown as 0 once it is being deleted; the other gauges hold nothing of a LoadBalancer that is not known.\<close>

theorem loadbalancer_gauges_refine_known_objects:
  "\<exists>ms. lb_metrics_run fl cs (Some LoadBalancerMetrics) = Ok (Some ms) \<and>
     (\<forall>k. matching (key_labels k) (lm_InfoMetrics ms) =
        (case known lb_key cs k of None \<Rightarrow> [] | Some lb \<Rightarrow> [(info_labels lb, of_integer fl 1)])) \<and>
     (\<forall>k. matching (key_labels k) (lm_OpenstackInfoMetrics ms) =
        (case known lb_key cs k of None \<Rightarrow> [] | Some lb \<Rightarrow> [(openstack_labels lb, of_integer fl 1)])) \<and>
     (\<forall>k. gauge_value (lm_ReplicasMetrics ms) (key_labels k) =
        (case known lb_key cs k of None \<Rightarrow> None
         | Some lb \<Rightarrow> Some (of_integer fl (if meta_DeletionTimestamp lb \<noteq> None then 0 else spec_Replicas (lb_Spec lb))))) \<and>
     {k. gauge_value (lm_ReplicasCurrentMetrics ms) (key_labels k) \<noteq> None} \<subseteq> dom (known lb_key cs) \<and>
     {k. gauge_value (lm_ReplicasReadyMetrics ms) (key_labels k) \<noteq> None} \<subseteq> dom (known lb_key cs) \<and>
     {k. gauge_value (lm_DeletionTimestampMetrics ms) (key_labels k) \<noteq> None} \<subseteq> dom (known lb_key cs)"
proof -
  obtain ms where r: "lb_metrics_run fl cs (Some LoadBalancerMetrics) = Ok (Some ms)" and g: "lb_gauges_show fl (known lb_key cs) ms"
    using run_keeps_gauges [OF registered_gauges, of fl cs] unfolding known_def by blast
  show ?thesis
    using g unfolding lb_gauges_show_def one_series_def lb_replicas_def desired_replicas_def
    by (intro exI [of _ ms] conjI r) (auto simp: dom_def simp del: split_paired_All split: option.splits)
qed

section \<open>The gauges of LoadBalancerMachines\<close>

type_synonym machine_id = "string \<times> string \<times> string"

definition machine_key :: "load_balancer_machine \<Rightarrow> machine_id" where
  "machine_key m = (machine_lb_name m, meta_Name m, meta_Namespace m)"

definition machine_key_labels :: "machine_id \<Rightarrow> label_values" where
  "machine_key_labels k = [(''lb'', fst k), (''lbm'', fst (snd k)), (''namespace'', snd (snd k))]"

definition condition_key_labels :: "machine_id \<times> string \<Rightarrow> label_values" where
  "condition_key_labels kt = machine_key_labels (fst kt) @ [(''condition'', snd kt)]"

lemma machine_labels_key: "machine_labels m = machine_key_labels (machine_key m)"
  by (simp add: machine_labels_def machine_key_labels_def machine_key_def)

interpretation machine: label_key machine_key_labels
  by unfold_locales (auto simp: machine_key_labels_def matches_labels_def intro: prod_eqI)

interpretation machine_condition: label_key condition_key_labels
  by unfold_locales (auto simp: condition_key_labels_def machine_key_labels_def matches_labels_def intro!: prod_eqI)

definition machine_info_names :: "string list" where
  "machine_info_names = [''lb'', ''lbm'', ''namespace'', ''portID'', ''serverID'', ''flavorID'', ''imageID'']"

definition condition_names :: "string list" where
  "condition_names = [''lb'', ''lbm'', ''namespace'', ''condition'', ''reason'', ''status'']"

definition vm_names :: "string list" where
  "vm_names = [''type'', ''lb'', ''lbm'', ''namespace'']"

definition key_names :: "string list" where
  "key_names = [''lb'', ''lbm'', ''namespace'']"

lemma machine_info_own:
  "map fst (machine_info_labels m) = machine_info_names" "distinct machine_info_names"
  "matches_labels (machine_key_labels (machine_key m)) (machine_info_labels m)"
  by (simp_all add: machine_info_labels_def machine_labels_key machine_key_labels_def machine_info_names_def matches_labels_def)

text \<open>Setting one value keeps the series that do not match it.\<close>

lemma filter_update_other: "\<not> P k \<Longrightarrow> filter (\<lambda>(ls, _). P ls) (AList.update k v s) = filter (\<lambda>(ls, _). P ls) s"
  by (induction s) auto

lemma matching_set_other:
  "\<not> matches_labels l ls \<Longrightarrow> matching l (Some (set_series ls x v)) = matching l (Some v)"
  by (simp add: matching_def set_series_def filter_update_other)

lemma values_set:
  assumes "has_labels names g" "length vs = length names"
    and own: "matches_labels (machine_key_labels k) (zip names vs)"
  shows "\<exists>g'. on_vec (WithLabelValues_Set vs x) g = Ok g' \<and> has_labels names g' \<and>
    (\<forall>k'. k' \<noteq> k \<longrightarrow> matching (machine_key_labels k') g' = matching (machine_key_labels k') g)"
proof -
  obtain v where v: "g = Some v" "gv_Labels v = names" using assms(1) by (rule has_labelsE)
  have "\<not> matches_labels (machine_key_labels k') (zip names vs)" if "k' \<noteq> k" for k'
    using machine.apart [OF own] that by blast
  thus ?thesis
    by (auto simp: v on_vec_Some WithLabelValues_Set_def assms(2) gauge matching_set_other)
qed

lemma vm_loop_keeps:
  "has_labels vm_names g \<Longrightarrow>
   \<exists>g'. vm_loop fl m vs g = Ok g' \<and> has_labels vm_names g' \<and>
     (\<forall>k. k \<noteq> machine_key m \<longrightarrow> matching (machine_key_labels k) g' = matching (machine_key_labels k) g)"
proof (induction vs arbitrary: g)
  case (Cons metric vs)
  show ?case
  proof (cases "ParseFloat fl (metric_Value metric)")
    case (Some x)
    have "matches_labels (machine_key_labels (machine_key m)) (zip vm_names [metric_Type metric, machine_lb_name m, meta_Name m, meta_Namespace m])"
      by (simp add: matches_labels_def machine_key_labels_def vm_names_def machine_key_def)
    with values_set [OF Cons.prems, of "[metric_Type metric, machine_lb_name m, meta_Name m, meta_Namespace m]" "machine_key m" x]
    obtain g1 where g1: "on_vec (WithLabelValues_Set [metric_Type metric, machine_lb_name m, meta_Name m, meta_Namespace m] x) g = Ok g1"
      "has_labels vm_names g1"
      "\<forall>k. k \<noteq> machine_key m \<longrightarrow> matching (machine_key_labels k) g1 = matching (machine_key_labels k) g"
      by (auto simp: vm_names_def)
    from Cons.IH [OF g1(2)] g1(1,3) show ?thesis by (auto simp: Some andR_Ok)
  qed (use Cons in auto)
qed simp

text \<open>A condition replaces the series of its type; the others stay.\<close>

lemma condition_own:
  "zip condition_names (condition_labels m c) = condition_key_labels (machine_key m, nc_Type c) @ [(''reason'', nc_Reason c), (''status'', nc_Status c)]"
  "matches_labels (condition_key_labels (machine_key m, nc_Type c)) (zip condition_names (condition_labels m c))"
  "matches_labels (machine_key_labels (machine_key m)) (zip condition_names (condition_labels m c))"
  by (simp_all add: condition_names_def condition_labels_def condition_key_labels_def machine_key_labels_def machine_key_def matches_labels_def)

lemma conditions_loop_keeps:
  "has_labels condition_names g \<Longrightarrow>
   \<exists>g'. conditions_metric_loop fl m cs g = Ok g' \<and> has_labels condition_names g' \<and>
     (\<forall>k. k \<noteq> machine_key m \<longrightarrow> matching (machine_key_labels k) g' = matching (machine_key_labels k) g) \<and>
     (\<forall>kt. length (matching (condition_key_labels kt) g') \<le> max 1 (length (matching (condition_key_labels kt) g)))"
proof (induction cs arbitrary: g)
  case (Cons c cs)
  obtain v where v: "g = Some v" "gv_Labels v = condition_names" using Cons.prems by (rule has_labelsE)
  let ?kt = "(machine_key m, nc_Type c)" and ?ls = "zip condition_names (condition_labels m c)"
  define g1 where "g1 = Some (set_series ?ls (of_integer fl 1) (DeletePartialMatch (condition_key_labels ?kt) v))"
  have g1: "matching l g1 = filter (\<lambda>(ls, _). \<not> matches_labels (condition_key_labels ?kt) ls) (matching l g) @
      (if matches_labels l ?ls then [(?ls, of_integer fl 1)] else [])" for l
    unfolding g1_def v(1) by (rule matching_set_after_clear [OF condition_own(2)])
  have step: "conditions_metric_loop fl m (c # cs) g = conditions_metric_loop fl m cs g1"
    by (simp add: v machine_labels_key condition_key_labels_def g1_def on_vec_Some WithLabelValues_Set_def gauge)
      (simp add: condition_names_def condition_labels_def)
  have other: "matching (machine_key_labels k) g1 = matching (machine_key_labels k) g" if "k \<noteq> machine_key m" for k
  proof -
    have "\<not> matches_labels (machine_key_labels k) ?ls" using machine.apart [OF condition_own(3)] that by blast
    moreover have "\<not> matches_labels (condition_key_labels ?kt) ls" if "matches_labels (machine_key_labels k) ls" for ls
    proof -
      have "\<not> matches_labels (machine_key_labels (machine_key m)) ls"
        using machine.apart [OF that] \<open>k \<noteq> machine_key m\<close> by blast
      thus ?thesis by (auto simp: condition_key_labels_def matches_labels_def)
    qed
    ultimately show ?thesis by (simp add: g1 v matching_other_cleared)
  qed
  have own: "length (matching (condition_key_labels kt) g1) \<le> max 1 (length (matching (condition_key_labels kt) g))" for kt
    using machine_condition.matching_cleared_key [of ?kt kt v] machine_condition.apart [OF condition_own(2), of kt m c]
    by (cases "kt = ?kt") (auto simp: g1 v)
  have "has_labels condition_names g1" by (simp add: g1_def v gauge)
  from Cons.IH [OF this] obtain g' where g': "conditions_metric_loop fl m cs g1 = Ok g'" "has_labels condition_names g'"
    "\<forall>k. k \<noteq> machine_key m \<longrightarrow> matching (machine_key_labels k) g' = matching (machine_key_labels k) g1"
    "\<forall>kt. length (matching (condition_key_labels kt) g') \<le> max 1 (length (matching (condition_key_labels kt) g1))" by blast
  have "length (matching (condition_key_labels kt) g') \<le> max 1 (length (matching (condition_key_labels kt) g))" for kt
    using spec [OF g'(4), of kt] own [of kt] by linarith
  with g'(2,3) other show ?case unfolding step by (intro exI [of _ g'] conjI g'(1)) simp_all
qed simp

definition machine_gauges_show :: "'v floats \<Rightarrow> (machine_id \<Rightarrow> load_balancer_machine option) \<Rightarrow> 'v machine_metrics \<Rightarrow> bool" where
  "machine_gauges_show fl K ms \<longleftrightarrow>
     has_labels vm_names (mm_VM ms) \<and> has_labels condition_names (mm_Conditions ms) \<and> mm_OpenstackMetrics ms \<noteq> None \<and>
     has_labels machine_info_names (mm_OpenstackInfoMetrics ms) \<and> has_labels key_names (mm_DeletionTimestampMetrics ms) \<and>
     (\<forall>k. matching (machine_key_labels k) (mm_OpenstackInfoMetrics ms) = one_series fl machine_info_labels (K k)) \<and>
     (\<forall>kt. length (matching (condition_key_labels kt) (mm_Conditions ms)) \<le> 1) \<and>
     (\<forall>k. K k = None \<longrightarrow> matching (machine_key_labels k) (mm_VM ms) = []) \<and>
     (\<forall>k. K k = None \<longrightarrow> matching (machine_key_labels k) (mm_Conditions ms) = []) \<and>
     (\<forall>k. K k = None \<longrightarrow> matching (machine_key_labels k) (mm_DeletionTimestampMetrics ms) = [])"

lemma machine_set_if:
  assumes "has_labels key_names g"
  shows "\<exists>g'. set_if fl [machine_lb_name m, meta_Name m, meta_Namespace m] p g = Ok g' \<and> has_labels key_names g' \<and>
    (\<forall>k. k \<noteq> machine_key m \<longrightarrow> matching (machine_key_labels k) g' = matching (machine_key_labels k) g)"
proof (cases p)
  case (Some x)
  have "matches_labels (machine_key_labels (machine_key m)) (zip key_names [machine_lb_name m, meta_Name m, meta_Namespace m])"
    by (simp add: matches_labels_def machine_key_labels_def key_names_def machine_key_def)
  with values_set [OF assms, of "[machine_lb_name m, meta_Name m, meta_Namespace m]" "machine_key m" "of_integer fl x"]
  show ?thesis by (simp add: Some set_if_def key_names_def)
qed (use assms in \<open>simp add: set_if_def\<close>)

lemma vm_metrics_part:
  assumes "has_labels vm_names (mm_VM ms)"
  shows "\<exists>g. parseLoadBalancerMachineVMMetrics fl m (Some ms) = Ok (Some (ms\<lparr>mm_VM := g\<rparr>)) \<and> has_labels vm_names g \<and>
    (\<forall>k. k \<noteq> machine_key m \<longrightarrow> matching (machine_key_labels k) g = matching (machine_key_labels k) (mm_VM ms))"
proof (cases "lbm_Metrics (lbm_Status m)")
  case None
  thus ?thesis using assms by (intro exI [of _ "mm_VM ms"]) (simp add: parseLoadBalancerMachineVMMetrics_def)
next
  case (Some vs)
  from vm_loop_keeps [OF assms, of fl m vs] obtain g where g: "vm_loop fl m vs (mm_VM ms) = Ok g" "has_labels vm_names g"
    "\<forall>k. k \<noteq> machine_key m \<longrightarrow> matching (machine_key_labels k) g = matching (machine_key_labels k) (mm_VM ms)" by blast
  with has_labels_present [OF assms] show ?thesis
    by (intro exI [of _ g] conjI) (simp_all add: parseLoadBalancerMachineVMMetrics_def Some andR_Ok del: not_None_eq)
qed

lemma condition_metrics_part:
  assumes "has_labels condition_names (mm_Conditions ms)" "\<forall>kt. length (matching (condition_key_labels kt) (mm_Conditions ms)) \<le> 1"
  shows "\<exists>g. parseLoadBalancerMachineConditionsMetrics fl m (Some ms) = Ok (Some (ms\<lparr>mm_Conditions := g\<rparr>)) \<and> has_labels condition_names g \<and>
    (\<forall>k. k \<noteq> machine_key m \<longrightarrow> matching (machine_key_labels k) g = matching (machine_key_labels k) (mm_Conditions ms)) \<and>
    (\<forall>kt. length (matching (condition_key_labels kt) g) \<le> 1)"
proof (cases "lbm_Conditions (lbm_Status m)")
  case None
  thus ?thesis using assms by (intro exI [of _ "mm_Conditions ms"]) (simp add: parseLoadBalancerMachineConditionsMetrics_def)
next
  case (Some cs)
  from conditions_loop_keeps [OF assms(1), of fl m cs] obtain g
    where g: "conditions_metric_loop fl m cs (mm_Conditions ms) = Ok g" "has_labels condition_names g"
      "\<forall>k. k \<noteq> machine_key m \<longrightarrow> matching (machine_key_labels k) g = matching (machine_key_labels k) (mm_Conditions ms)"
      "\<forall>kt. length (matching (condition_key_labels kt) g) \<le> max 1 (length (matching (condition_key_labels kt) (mm_Conditions ms)))"
    by blast
  have "length (matching (condition_key_labels kt) g) \<le> 1" for kt
    using spec [OF g(4), of kt] spec [OF assms(2), of kt] by linarith
  with g(1-3) has_labels_present [OF assms(1)] show ?thesis
    by (intro exI [of _ g] conjI) (simp_all add: parseLoadBalancerMachineConditionsMetrics_def Some andR_Ok del: not_None_eq)
qed

lemma parse_keeps_machine_gauges:
  assumes "machine_gauges_show fl K ms"
  shows "\<exists>ms'. ParseLoadBalancerMachineMetrics fl m (Some ms) = Ok (Some ms') \<and> machine_gauges_show fl (K(machine_key m \<mapsto> m)) ms'"
proof -
  note a = assms [unfolded machine_gauges_show_def]
  obtain g1 where 1: "parseLoadBalancerMachineVMMetrics fl m (Some ms) = Ok (Some (ms\<lparr>mm_VM := g1\<rparr>))" "has_labels vm_names g1"
    "\<forall>k. k \<noteq> machine_key m \<longrightarrow> matching (machine_key_labels k) g1 = matching (machine_key_labels k) (mm_VM ms)"
    using vm_metrics_part [of ms fl m] a by blast
  define ms1 where "ms1 = ms\<lparr>mm_VM := g1\<rparr>"
  have same: "mm_Conditions ms1 = mm_Conditions ms" by (simp add: ms1_def)
  obtain g2 where 2: "parseLoadBalancerMachineConditionsMetrics fl m (Some ms1) = Ok (Some (ms1\<lparr>mm_Conditions := g2\<rparr>))"
    "has_labels condition_names g2"
    "\<forall>k. k \<noteq> machine_key m \<longrightarrow> matching (machine_key_labels k) g2 = matching (machine_key_labels k) (mm_Conditions ms)"
    "\<forall>kt. length (matching (condition_key_labels kt) g2) \<le> 1"
    using condition_metrics_part [of ms1 fl m] a unfolding same by blast
  obtain g3 where 3: "replace_series (machine_labels m) (machine_info_labels m) (of_integer fl 1) (mm_OpenstackInfoMetrics ms) = Ok g3"
    "has_labels machine_info_names g3"
    "\<forall>k. matching (machine_key_labels k) g3 = (if k = machine_key m then [(machine_info_labels m, of_integer fl 1)]
      else matching (machine_key_labels k) (mm_OpenstackInfoMetrics ms))"
    using machine.replace_of_key [of "machine_info_labels m" "mm_OpenstackInfoMetrics ms" "machine_key m" "of_integer fl 1"] a
    unfolding machine_labels_key machine_info_own(1) using machine_info_own by blast
  obtain g4 where 4: "set_if fl [machine_lb_name m, meta_Name m, meta_Namespace m] (map_option Unix (meta_DeletionTimestamp m))
      (mm_DeletionTimestampMetrics ms) = Ok g4" "has_labels key_names g4"
    "\<forall>k. k \<noteq> machine_key m \<longrightarrow> matching (machine_key_labels k) g4 = matching (machine_key_labels k) (mm_DeletionTimestampMetrics ms)"
    using machine_set_if a by blast
  define ms' where "ms' = ms\<lparr>mm_VM := g1, mm_Conditions := g2, mm_OpenstackInfoMetrics := g3, mm_DeletionTimestampMetrics := g4\<rparr>"
  have "ParseLoadBalancerMachineMetrics fl m (Some ms) = Ok (Some ms')"
    using 2(1) 3(1) 4(1) has_labels_present [of key_names "mm_DeletionTimestampMetrics ms"] a
    by (simp add: ParseLoadBalancerMachineMetrics_def 1(1) andR_Ok ms1_def parseLoadBalancerMachineOpenstackInfoMetrics_def
        parseLoadBalancerMachineDeletionTimestampMetrics_def ms'_def del: split_paired_All not_None_eq)
  moreover have "machine_gauges_show fl (K(machine_key m \<mapsto> m)) ms'"
    using a 1(2,3) 2(2-4) 3(2,3) 4(2,3)
    by (simp add: machine_gauges_show_def ms'_def one_series_def del: split_paired_All not_None_eq)
  ultimately show ?thesis by blast
qed

lemma remove_keeps_machine_gauges:
  assumes "machine_gauges_show fl K ms"
  shows "\<exists>ms'. RemoveLoadBalancerMachineMetrics m (Some ms) = Ok (Some ms') \<and> machine_gauges_show fl (K(machine_key m := None)) ms'"
proof -
  note a = assms [unfolded machine_gauges_show_def]
  define cleared where "cleared names g g' \<longleftrightarrow> clear_vec (machine_labels m) g = Ok g' \<and> has_labels names g' \<and>
    (\<forall>k'. matching (machine_key_labels k') g' = (if k' = machine_key m then [] else matching (machine_key_labels k') g)) \<and>
    (\<forall>kt. length (matching (condition_key_labels kt) g') \<le> length (matching (condition_key_labels kt) g))"
    for names and g g' :: "'a gauge_vec option"
  have "\<exists>g'. cleared names g g'" if h: "has_labels names g" for names and g :: "'a gauge_vec option"
  proof -
    from h obtain v where v: "g = Some v" by (rule has_labelsE)
    have "length (matching l (Some (DeletePartialMatch l' v))) \<le> length (matching l g)" for l l'
      by (simp add: v matching_cleared)
    with machine.clear_key [OF h, of "machine_key m"] show ?thesis
      unfolding cleared_def machine_labels_key by (auto simp: v clear_vec_Some)
  qed
  with a obtain g1 g2 g3 g4 where c:
    "cleared vm_names (mm_VM ms) g1" "cleared condition_names (mm_Conditions ms) g2"
    "cleared machine_info_names (mm_OpenstackInfoMetrics ms) g3" "cleared key_names (mm_DeletionTimestampMetrics ms) g4"
    by metis
  have present: "mm_VM ms \<noteq> None" "mm_Conditions ms \<noteq> None" "mm_DeletionTimestampMetrics ms \<noteq> None"
    using a by (auto dest: has_labels_present simp del: split_paired_All)
  define ms' where "ms' = ms\<lparr>mm_VM := g1, mm_Conditions := g2, mm_OpenstackInfoMetrics := g3, mm_DeletionTimestampMetrics := g4\<rparr>"
  have "RemoveLoadBalancerMachineMetrics m (Some ms) = Ok (Some ms')"
    using a c by (simp add: RemoveLoadBalancerMachineMetrics_def cleared_def ms'_def andR_Ok present del: split_paired_All not_None_eq)
  moreover have "length (matching (condition_key_labels kt) g2) \<le> 1" for kt
    using a c(2) unfolding cleared_def by (meson order_trans)
  with a c have "machine_gauges_show fl (K(machine_key m := None)) ms'"
    by (simp add: machine_gauges_show_def ms'_def cleared_def one_series_def del: split_paired_All not_None_eq)
  ultimately show ?thesis by blast
qed

lemma machine_run_keeps_gauges:
  "machine_gauges_show fl K ms \<Longrightarrow>
   \<exists>ms'. machine_metrics_run fl cs (Some ms) = Ok (Some ms') \<and> machine_gauges_show fl (fold (known_step machine_key) cs K) ms'"
proof (induction cs arbitrary: K ms)
  case (Cons c cs)
  obtain ms1 where "(case c of Parsed m \<Rightarrow> ParseLoadBalancerMachineMetrics fl m (Some ms)
      | Removed m \<Rightarrow> RemoveLoadBalancerMachineMetrics m (Some ms)) = Ok (Some ms1)" "machine_gauges_show fl (known_step machine_key c K) ms1"
    using parse_keeps_machine_gauges [OF Cons.prems] remove_keeps_machine_gauges [OF Cons.prems] by (cases c) fastforce+
  with Cons.IH [of "known_step machine_key c K" ms1] show ?case by (simp add: andR_Ok)
qed simp

lemma registered_machine_gauges: "machine_gauges_show fl Map.empty LoadBalancerMachineMetrics"
  by (simp add: machine_gauges_show_def LoadBalancerMachineMetrics_def new_vec_def has_labels_Some vm_names_def condition_names_def
      machine_info_names_def key_names_def matching_def one_series_def)

text \<open>The gauges of LoadBalancerMachines follow the machines. After any sequence of parsed and removed machines no call has
  panicked; a condition type of a machine has at most one series, whatever values its reason and status went through; the
  OpenStack gauge holds one series for every machine parsed and not removed since, with the labels as parsed last; and no gauge
  holds a series of a machine that is not known.\<close>

theorem machine_gauges_follow_known_machines:
  "\<exists>ms. machine_metrics_run fl cs (Some LoadBalancerMachineMetrics) = Ok (Some ms) \<and>
     (\<forall>k t. length (matching (machine_key_labels k @ [(''condition'', t)]) (mm_Conditions ms)) \<le> 1) \<and>
     (\<forall>k. matching (machine_key_labels k) (mm_OpenstackInfoMetrics ms) =
        (case known machine_key cs k of None \<Rightarrow> [] | Some m \<Rightarrow> [(machine_info_labels m, of_integer fl 1)])) \<and>
     {k. matching (machine_key_labels k) (mm_VM ms) \<noteq> []} \<subseteq> dom (known machine_key cs) \<and>
     {k. matching (machine_key_labels k) (mm_Conditions ms) \<noteq> []} \<subseteq> dom (known machine_key cs) \<and>
     {k. matching (machine_key_labels k) (mm_DeletionTimestampMetrics ms) \<noteq> []} \<subseteq> dom (known machine_key cs)"
proof -
  obtain ms where r: "machine_metrics_run fl cs (Some LoadBalancerMachineMetrics) = Ok (Some ms)"
    and g: "machine_gauges_show fl (known machine_key cs) ms"
    using machine_run_keeps_gauges [OF registered_machine_gauges, of fl cs] unfolding known_def by blast
  have "length (matching (machine_key_labels k @ [(''condition'', t)]) (mm_Conditions ms)) \<le> 1" for k t
    using g unfolding machine_gauges_show_def condition_key_labels_def by (metis fst_conv snd_conv)
  with g show ?thesis
    unfolding machine_gauges_show_def one_series_def
    by (intro exI [of _ ms] conjI r) (auto simp: dom_def simp del: split_paired_All split: option.splits)
qed

text \<open>Clearing the gauges of a machine panics exactly when the three vectors its guard names and the counter of OpenStack
  calls are there and the OpenStack gauge, which the guard does not name, is not; it never returns an error.\<close>

theorem machine_metrics_removal_panics_iff:
  "((\<exists>c. RemoveLoadBalancerMachineMetrics m (Some ms) = Crash c) \<longleftrightarrow>
     mm_VM ms \<noteq> None \<and> mm_Conditions ms \<noteq> None \<and> mm_OpenstackMetrics ms \<noteq> None \<and> mm_DeletionTimestampMetrics ms \<noteq> None \<and>
     mm_OpenstackInfoMetrics ms = None) \<and>
   (\<forall>e. RemoveLoadBalancerMachineMetrics m (Some ms) \<noteq> Err e)"
  by (cases "mm_VM ms"; cases "mm_Conditions ms"; cases "mm_OpenstackMetrics ms"; cases "mm_DeletionTimestampMetrics ms";
      cases "mm_OpenstackInfoMetrics ms")
    (simp_all add: RemoveLoadBalancerMachineMetrics_def clear_vec_Some andR_Ok, simp_all add: clear_vec_def on_vec_def andR_def)

end
