(* ===== verification/OsClient.thy ===== *)
theory OsClient
  imports LBController HostStatus
begin

text \<open>
  The OpenStack clients of \<open>internal/openstack\<close>: the authentication from an ini file (\<open>client.go\<close>), the clients of
  the resources (\<open>fip.go\<close>, \<open>port.go\<close>, \<open>group.go\<close>, \<open>rule.go\<close>, \<open>server.go\<close>, \<open>servergroup.go\<close>, \<open>keypair.go\<close>) and the counter of
  calls (\<open>prometheus.go\<close>). gophercloud, the ini parser and certificate pools are parameters. The last section builds
  from them the interface \<open>os_env\<close> that the controllers use.
\<close>

section \<open>The counter of calls\<close>

datatype metric_api = Nova | Neutron
datatype metric_object = MFloatingIP | MGroup | MKeyPair | MPort | MRule | MServer | MServerGroup
datatype metric_operation = OpCreate | OpDelete | OpGet | OpList | OpUpdate

primrec api_label :: "metric_api \<Rightarrow> string" where
  "api_label Nova = ''nova''"
| "api_label Neutron = ''neutron''"

primrec object_label :: "metric_object \<Rightarrow> string" where
  "object_label MFloatingIP = ''floatingip''"
| "object_label MGroup = ''group''"
| "object_label MKeyPair = ''keypair''"
| "object_label MPort = ''port''"
| "object_label MRule = ''rule''"
| "object_label MServer = ''server''"
| "object_label MServerGroup = ''servergroup''"

primrec operation_label :: "metric_operation \<Rightarrow> string" where
  "operation_label OpCreate = ''create''"
| "operation_label OpDelete = ''delete''"
| "operation_label OpGet = ''get''"
| "operation_label OpList = ''list''"
| "operation_label OpUpdate = ''update''"

type_synonym counter_vec = "string list \<Rightarrow> nat"

section \<open>State\<close>

text \<open>\<open>OSClient\<close>: the two service clients are made on first use. The counter itself is shared by all clients and part
  of the world; a client knows whether it has one.\<close>

record 's os_client =
  networkV2 :: "'s option"
  computeV2 :: "'s option"
  oc_ini :: string
  oc_overwrite :: "string option"
  oc_timeout :: int
  oc_promCounter :: bool

record ('g, 's) os_world =
  ow_cloud :: 'g
  ow_client :: "'s os_client"
  ow_calls :: counter_vec

definition increasePromCounter ::
  "bool \<Rightarrow> metric_api \<Rightarrow> metric_object \<Rightarrow> metric_operation \<Rightarrow> (('g, 's, 'z) os_world_scheme, unit) gop" where
  "increasePromCounter promCounter api obj operation w =
     (Ok (), if \<not> promCounter then w
        else w\<lparr>ow_calls := (let l = [api_label api, object_label obj, operation_label operation]
          in (ow_calls w)(l := ow_calls w l + 1))\<rparr>)"

section \<open>gophercloud\<close>

text \<open>The functions of one package, for example \<open>floatingips\<close>. The integer is the time that is left for the request;
  a list comes as pages, from which it is extracted.\<close>

record ('g, 's, 'x, 'lo, 'co, 'uo, 'obj) resource_api =
  api_AllPages :: "'s \<Rightarrow> int \<Rightarrow> 'lo \<Rightarrow> ('g, 'x) gop"
  api_ExtractAll :: "'x \<Rightarrow> 'obj list result"
  api_Create :: "'s \<Rightarrow> int \<Rightarrow> 'co \<Rightarrow> ('g, 'obj option) gop"
  api_Update :: "'s \<Rightarrow> int \<Rightarrow> string \<Rightarrow> 'uo \<Rightarrow> ('g, 'obj option) gop"
  api_Get :: "'s \<Rightarrow> int \<Rightarrow> string \<Rightarrow> ('g, 'obj option) gop"
  api_Delete :: "'s \<Rightarrow> int \<Rightarrow> string \<Rightarrow> ('g, unit) gop"

text \<open>\<open>clientconfig.AuthInfo\<close>\<close>

record auth_info =
  ai_AuthURL :: string
  ai_Username :: string
  ai_Password :: string
  ai_ProjectName :: string
  ai_ProjectID :: string
  ai_DomainName :: string
  ai_DomainID :: string

text \<open>The function that a provider authenticates itself again with: a copy of the provider without a token, options that
  forbid another round, and the version of the protocol.\<close>

record ('p, 'o) reauth =
  ra_authProvider :: 'p
  ra_Options :: 'o
  ra_V2 :: bool

text \<open>\<open>keypairs.KeyPair\<close>; nothing in the program reads one.\<close>

record key_pair =
  kp_Name :: string
  kp_PublicKey :: string
  kp_PrivateKey :: string

text \<open>\<open>gc_Section\<close> is the section \<open>[Global]\<close> of an ini file, the empty text for a missing key. \<open>'p\<close> are providers, \<open>'o\<close>
  authentication options, \<open>'r\<close> pools of certificates, \<open>'x\<close> pages.\<close>

record ('g, 's, 'p, 'o, 'r, 'x) gophercloud =
  gc_Section :: "string \<Rightarrow> (string \<Rightarrow> string) result"
  gc_Getenv :: "string \<Rightarrow> string"
  gc_NewPool :: "string \<Rightarrow> ('g, 'r) gop"
  gc_AuthOptions :: "auth_info \<Rightarrow> 'o result"
  gc_IdentityEndpoint :: "'o \<Rightarrow> string"
  gc_WithoutReauth :: "'o \<Rightarrow> 'o"
  gc_NewClient :: "string \<Rightarrow> 'p result"
  gc_SetTransport :: "'r \<Rightarrow> 'p \<Rightarrow> 'p"
  gc_Authenticate :: "int \<Rightarrow> 'p \<Rightarrow> 'o \<Rightarrow> ('g, 'p) gop"
  gc_AuthenticateV2 :: "int \<Rightarrow> 'p \<Rightarrow> 'o \<Rightarrow> ('g, 'p) gop"
  gc_AuthenticateV3 :: "int \<Rightarrow> 'p \<Rightarrow> 'o \<Rightarrow> ('g, 'p) gop"
  gc_Throwaway :: "'p \<Rightarrow> 'p"
  gc_SetReauthFunc :: "('p, 'o) reauth \<Rightarrow> 'p \<Rightarrow> 'p"
  gc_CopyTokenFrom :: "'p \<Rightarrow> 'p \<Rightarrow> 'p"
  gc_NewNetworkV2 :: "'p \<Rightarrow> string \<Rightarrow> 's result"
  gc_NewComputeV2 :: "'p \<Rightarrow> string \<Rightarrow> 's result"
  floatingips :: "('g, 's, 'x, fip_list_opts, fip_create_opts, fip_update_opts, floating_ip) resource_api"
  ports :: "('g, 's, 'x, string, port_create_opts, port_update_opts, port) resource_api"
  groups :: "('g, 's, 'x, string, string, string, sec_group) resource_api"
  rules :: "('g, 's, 'x, string, rule_create_opts, unit, sec_group_rule) resource_api"
  servers :: "('g, 's, 'x, string, server_create_opts \<times> string option, string, server) resource_api"
  servergroups :: "('g, 's, 'x, unit, string \<times> string list, unit, server_group) resource_api"
  keypairs :: "('g, 's, 'x, unit, string \<times> string, unit, key_pair) resource_api"

section \<open>Authentication\<close>

text \<open>\<open>strings.TrimSpace\<close>, on ASCII text.\<close>

definition white :: "char \<Rightarrow> bool" where
  "white c = (c \<in> {CHR 0x09, CHR 0x0A, CHR 0x0B, CHR 0x0C, CHR 0x0D, CHR '' ''})"

definition TrimSpace :: "string \<Rightarrow> string" where
  "TrimSpace s = rev (dropWhile white (rev (dropWhile white s)))"

definition auth_info_of :: "(string \<Rightarrow> string) \<Rightarrow> string option \<Rightarrow> auth_info" where
  "auth_info_of cfg overwrite =
     (let key = (\<lambda>k. TrimSpace (cfg k));
          legacyProjectName = key ''tenant-name''; projectName = key ''project-name'';
          ai = \<lparr>ai_AuthURL = key ''auth-url'', ai_Username = key ''username'', ai_Password = key ''password'',
            ai_ProjectName = (if projectName \<noteq> [] then projectName else legacyProjectName),
            ai_ProjectID = key ''project-id'', ai_DomainName = key ''domain-name'', ai_DomainID = key ''domain-id''\<rparr>
      in case overwrite of
           None \<Rightarrow> ai
         | Some projectID \<Rightarrow> ai\<lparr>ai_ProjectName := [], ai_ProjectID := projectID\<rparr>)"

text \<open>The variable \<open>OS_CACERT\<close> takes precedence over the file.\<close>

definition ca_file :: "('g, 's, 'p, 'o, 'r, 'x) gophercloud \<Rightarrow> (string \<Rightarrow> string) \<Rightarrow> string" where
  "ca_file gc cfg =
     (if gc_Getenv gc ''OS_CACERT'' \<noteq> [] then gc_Getenv gc ''OS_CACERT'' else TrimSpace (cfg ''ca-file''))"

definition reauth_of :: "('g, 's, 'p, 'o, 'r, 'x) gophercloud \<Rightarrow> string \<Rightarrow> 'o \<Rightarrow> 'p \<Rightarrow> ('p, 'o) reauth" where
  "reauth_of gc authURL ao provider =
     \<lparr>ra_authProvider = gc_Throwaway gc provider, ra_Options = gc_WithoutReauth gc ao, ra_V2 = Contains authURL ''v2''\<rparr>"

definition getProvider ::
  "('g, 's, 'p, 'o, 'r, 'x) gophercloud \<Rightarrow> string \<Rightarrow> string option \<Rightarrow> int \<Rightarrow> ('g, 'p \<times> string) gop" where
  "getProvider gc iniData overwrite timeout =
     bindM (liftR (gc_Section gc iniData)) (\<lambda>cfg.
     let authInfo = auth_info_of cfg overwrite; caFile = ca_file gc cfg in
     bindM (if caFile \<noteq> [] then bindM (gc_NewPool gc caFile) (\<lambda>roots. ret (Some roots)) else ret None) (\<lambda>transport.
     bindM (catchM (liftR (gc_AuthOptions gc authInfo))
       (\<lambda>e. fail (OtherErr (''failed to create client auth options: '' @ Error_text e))) ret) (\<lambda>ao.
     bindM (liftR (gc_NewClient gc (gc_IdentityEndpoint gc ao))) (\<lambda>provider.
     let provider = (case transport of None \<Rightarrow> provider | Some roots \<Rightarrow> gc_SetTransport gc roots provider) in
     bindM (gc_Authenticate gc timeout provider ao) (\<lambda>provider.
     ret (gc_SetReauthFunc gc (reauth_of gc (ai_AuthURL authInfo) ao provider) provider, TrimSpace (cfg ''region'')))))))"

text \<open>What the function does when the token of \<open>provider\<close> has expired.\<close>

definition ReauthFunc ::
  "('g, 's, 'p, 'o, 'r, 'x) gophercloud \<Rightarrow> int \<Rightarrow> ('p, 'o) reauth \<Rightarrow> 'p \<Rightarrow> ('g, 'p) gop" where
  "ReauthFunc gc timeout ra provider =
     bindM (if ra_V2 ra then gc_AuthenticateV2 gc timeout (ra_authProvider ra) (ra_Options ra)
            else gc_AuthenticateV3 gc timeout (ra_authProvider ra) (ra_Options ra)) (\<lambda>authProvider.
     ret (gc_CopyTokenFrom gc authProvider provider))"

definition createNetworkV2FromIni ::
  "('g, 's, 'p, 'o, 'r, 'x) gophercloud \<Rightarrow> string \<Rightarrow> string option \<Rightarrow> int \<Rightarrow> ('g, 's) gop" where
  "createNetworkV2FromIni gc iniData overwrite timeout =
     bindM (getProvider gc iniData overwrite timeout) (\<lambda>(provider, opts). liftR (gc_NewNetworkV2 gc provider opts))"

definition createComputeV2FromIni ::
  "('g, 's, 'p, 'o, 'r, 'x) gophercloud \<Rightarrow> string \<Rightarrow> string option \<Rightarrow> int \<Rightarrow> ('g, 's) gop" where
  "createComputeV2FromIni gc iniData overwrite timeout =
     bindM (getProvider gc iniData overwrite timeout) (\<lambda>(provider, opts). liftR (gc_NewComputeV2 gc provider opts))"

section \<open>The client\<close>

definition Configure :: "string \<Rightarrow> string option \<Rightarrow> int \<Rightarrow> bool \<Rightarrow> 's os_client" where
  "Configure iniBytes overwrite timeout promCounter =
     \<lparr>networkV2 = None, computeV2 = None, oc_ini = iniBytes, oc_overwrite = overwrite, oc_timeout = timeout,
      oc_promCounter = promCounter\<rparr>"

text \<open>\<open>OSFloatingIPClient\<close> and the others: all have these fields.\<close>

record 's resource_client =
  rc_service :: 's
  rc_timeout :: int
  rc_promCounter :: bool

definition resource_client_of :: "'s os_client \<Rightarrow> 's \<Rightarrow> 's resource_client" where
  "resource_client_of r sc = \<lparr>rc_service = sc, rc_timeout = oc_timeout r, rc_promCounter = oc_promCounter r\<rparr>"

text \<open>A call that reaches the cloud.\<close>

definition cloudM :: "('g, 'a) gop \<Rightarrow> (('g, 's, 'z) os_world_scheme, 'a) gop" where
  "cloudM f w = (let (r, g) = f (ow_cloud w) in (r, w\<lparr>ow_cloud := g\<rparr>))"

definition network_service ::
  "('g, 's, 'p, 'o, 'r, 'x) gophercloud \<Rightarrow> (('g, 's, 'z) os_world_scheme, 's resource_client) gop" where
  "network_service gc w =
     (let r = ow_client w in
      case networkV2 r of
        Some sc \<Rightarrow> (Ok (resource_client_of r sc), w)
      | None \<Rightarrow> bindM (cloudM (createNetworkV2FromIni gc (oc_ini r) (oc_overwrite r) (oc_timeout r)))
          (\<lambda>sc w. (Ok (resource_client_of r sc), w\<lparr>ow_client := r\<lparr>networkV2 := Some sc\<rparr>\<rparr>)) w)"

definition compute_service ::
  "('g, 's, 'p, 'o, 'r, 'x) gophercloud \<Rightarrow> (('g, 's, 'z) os_world_scheme, 's resource_client) gop" where
  "compute_service gc w =
     (let r = ow_client w in
      case computeV2 r of
        Some sc \<Rightarrow> (Ok (resource_client_of r sc), w)
      | None \<Rightarrow> bindM (cloudM (createComputeV2FromIni gc (oc_ini r) (oc_overwrite r) (oc_timeout r)))
          (\<lambda>sc w. (Ok (resource_client_of r sc), w\<lparr>ow_client := r\<lparr>computeV2 := Some sc\<rparr>\<rparr>)) w)"

definition FipClient :: "('g, 's, 'p, 'o, 'r, 'x) gophercloud \<Rightarrow> (('g, 's, 'z) os_world_scheme, 's resource_client) gop" where
  "FipClient gc = network_service gc"

definition PortClient :: "('g, 's, 'p, 'o, 'r, 'x) gophercloud \<Rightarrow> (('g, 's, 'z) os_world_scheme, 's resource_client) gop" where
  "PortClient gc = network_service gc"

definition GroupClient :: "('g, 's, 'p, 'o, 'r, 'x) gophercloud \<Rightarrow> (('g, 's, 'z) os_world_scheme, 's resource_client) gop" where
  "GroupClient gc = network_service gc"

definition RuleClient :: "('g, 's, 'p, 'o, 'r, 'x) gophercloud \<Rightarrow> (('g, 's, 'z) os_world_scheme, 's resource_client) gop" where
  "RuleClient gc = network_service gc"

definition ServerClient :: "('g, 's, 'p, 'o, 'r, 'x) gophercloud \<Rightarrow> (('g, 's, 'z) os_world_scheme, 's resource_client) gop" where
  "ServerClient gc = compute_service gc"

definition ServerGroupClient :: "('g, 's, 'p, 'o, 'r, 'x) gophercloud \<Rightarrow> (('g, 's, 'z) os_world_scheme, 's resource_client) gop" where
  "ServerGroupClient gc = compute_service gc"

definition KeyPairClient :: "('g, 's, 'p, 'o, 'r, 'x) gophercloud \<Rightarrow> (('g, 's, 'z) os_world_scheme, 's resource_client) gop" where
  "KeyPairClient gc = compute_service gc"

section \<open>The resources\<close>

text \<open>The pattern of all methods: count, then call with the timeout.\<close>

definition counted ::
  "'s resource_client \<Rightarrow> metric_api \<Rightarrow> metric_object \<Rightarrow> metric_operation \<Rightarrow> ('s \<Rightarrow> int \<Rightarrow> ('g, 'a) gop) \<Rightarrow>
   (('g, 's, 'z) os_world_scheme, 'a) gop" where
  "counted c api obj operation call =
     thenM (increasePromCounter (rc_promCounter c) api obj operation) (cloudM (call (rc_service c) (rc_timeout c)))"

definition list_all_pages ::
  "('g, 's, 'x, 'lo, 'co, 'uo, 'obj) resource_api \<Rightarrow> 'lo \<Rightarrow> 's \<Rightarrow> int \<Rightarrow> ('g, 'obj list) gop" where
  "list_all_pages res opts sc timeout = bindM (api_AllPages res sc timeout opts) (\<lambda>pages. liftR (api_ExtractAll res pages))"

definition os_fip_List ::
  "('g, 's, 'p, 'o, 'r, 'x) gophercloud \<Rightarrow> 's resource_client \<Rightarrow> fip_list_opts \<Rightarrow> (('g, 's, 'z) os_world_scheme, floating_ip list) gop" where
  "os_fip_List gc r opts = counted r Neutron MFloatingIP OpList (list_all_pages (floatingips gc) opts)"

definition os_fip_Create ::
  "('g, 's, 'p, 'o, 'r, 'x) gophercloud \<Rightarrow> 's resource_client \<Rightarrow> fip_create_opts \<Rightarrow> (('g, 's, 'z) os_world_scheme, floating_ip option) gop" where
  "os_fip_Create gc r opts = counted r Neutron MFloatingIP OpCreate (\<lambda>sc timeout. api_Create (floatingips gc) sc timeout opts)"

definition os_fip_Update ::
  "('g, 's, 'p, 'o, 'r, 'x) gophercloud \<Rightarrow> 's resource_client \<Rightarrow> string \<Rightarrow> fip_update_opts \<Rightarrow> (('g, 's, 'z) os_world_scheme, floating_ip option) gop" where
  "os_fip_Update gc r ident opts = counted r Neutron MFloatingIP OpUpdate (\<lambda>sc timeout. api_Update (floatingips gc) sc timeout ident opts)"

definition os_fip_Get ::
  "('g, 's, 'p, 'o, 'r, 'x) gophercloud \<Rightarrow> 's resource_client \<Rightarrow> string \<Rightarrow> (('g, 's, 'z) os_world_scheme, floating_ip option) gop" where
  "os_fip_Get gc r ident = counted r Neutron MFloatingIP OpGet (\<lambda>sc timeout. api_Get (floatingips gc) sc timeout ident)"

definition os_fip_Delete ::
  "('g, 's, 'p, 'o, 'r, 'x) gophercloud \<Rightarrow> 's resource_client \<Rightarrow> string \<Rightarrow> (('g, 's, 'z) os_world_scheme, unit) gop" where
  "os_fip_Delete gc r ident = counted r Neutron MFloatingIP OpDelete (\<lambda>sc timeout. api_Delete (floatingips gc) sc timeout ident)"

definition os_port_List ::
  "('g, 's, 'p, 'o, 'r, 'x) gophercloud \<Rightarrow> 's resource_client \<Rightarrow> string \<Rightarrow> (('g, 's, 'z) os_world_scheme, port list) gop" where
  "os_port_List gc r opts = counted r Neutron MPort OpList (list_all_pages (ports gc) opts)"

definition os_port_Get ::
  "('g, 's, 'p, 'o, 'r, 'x) gophercloud \<Rightarrow> 's resource_client \<Rightarrow> string \<Rightarrow> (('g, 's, 'z) os_world_scheme, port option) gop" where
  "os_port_Get gc r ident = counted r Neutron MPort OpGet (\<lambda>sc timeout. api_Get (ports gc) sc timeout ident)"

definition os_port_Create ::
  "('g, 's, 'p, 'o, 'r, 'x) gophercloud \<Rightarrow> 's resource_client \<Rightarrow> port_create_opts \<Rightarrow> (('g, 's, 'z) os_world_scheme, port option) gop" where
  "os_port_Create gc r opts = counted r Neutron MPort OpCreate (\<lambda>sc timeout. api_Create (ports gc) sc timeout opts)"

definition os_port_Update ::
  "('g, 's, 'p, 'o, 'r, 'x) gophercloud \<Rightarrow> 's resource_client \<Rightarrow> string \<Rightarrow> port_update_opts \<Rightarrow> (('g, 's, 'z) os_world_scheme, port option) gop" where
  "os_port_Update gc r ident opts = counted r Neutron MPort OpUpdate (\<lambda>sc timeout. api_Update (ports gc) sc timeout ident opts)"

definition os_port_Delete ::
  "('g, 's, 'p, 'o, 'r, 'x) gophercloud \<Rightarrow> 's resource_client \<Rightarrow> string \<Rightarrow> (('g, 's, 'z) os_world_scheme, unit) gop" where
  "os_port_Delete gc r ident = counted r Neutron MPort OpDelete (\<lambda>sc timeout. api_Delete (ports gc) sc timeout ident)"

definition os_group_List ::
  "('g, 's, 'p, 'o, 'r, 'x) gophercloud \<Rightarrow> 's resource_client \<Rightarrow> string \<Rightarrow> (('g, 's, 'z) os_world_scheme, sec_group list) gop" where
  "os_group_List gc r opts = counted r Neutron MGroup OpList (list_all_pages (groups gc) opts)"

definition os_group_Create ::
  "('g, 's, 'p, 'o, 'r, 'x) gophercloud \<Rightarrow> 's resource_client \<Rightarrow> string \<Rightarrow> (('g, 's, 'z) os_world_scheme, sec_group option) gop" where
  "os_group_Create gc r opts = counted r Neutron MGroup OpCreate (\<lambda>sc timeout. api_Create (groups gc) sc timeout opts)"

definition os_group_Update ::
  "('g, 's, 'p, 'o, 'r, 'x) gophercloud \<Rightarrow> 's resource_client \<Rightarrow> string \<Rightarrow> string \<Rightarrow> (('g, 's, 'z) os_world_scheme, sec_group option) gop" where
  "os_group_Update gc r ident opts = counted r Neutron MGroup OpUpdate (\<lambda>sc timeout. api_Update (groups gc) sc timeout ident opts)"

definition os_group_Get ::
  "('g, 's, 'p, 'o, 'r, 'x) gophercloud \<Rightarrow> 's resource_client \<Rightarrow> string \<Rightarrow> (('g, 's, 'z) os_world_scheme, sec_group option) gop" where
  "os_group_Get gc r ident = counted r Neutron MGroup OpGet (\<lambda>sc timeout. api_Get (groups gc) sc timeout ident)"

definition os_group_Delete ::
  "('g, 's, 'p, 'o, 'r, 'x) gophercloud \<Rightarrow> 's resource_client \<Rightarrow> string \<Rightarrow> (('g, 's, 'z) os_world_scheme, unit) gop" where
  "os_group_Delete gc r ident = counted r Neutron MGroup OpDelete (\<lambda>sc timeout. api_Delete (groups gc) sc timeout ident)"

definition os_rule_List ::
  "('g, 's, 'p, 'o, 'r, 'x) gophercloud \<Rightarrow> 's resource_client \<Rightarrow> string \<Rightarrow> (('g, 's, 'z) os_world_scheme, sec_group_rule list) gop" where
  "os_rule_List gc r opts = counted r Neutron MRule OpList (list_all_pages (rules gc) opts)"

definition os_rule_Create ::
  "('g, 's, 'p, 'o, 'r, 'x) gophercloud \<Rightarrow> 's resource_client \<Rightarrow> rule_create_opts \<Rightarrow> (('g, 's, 'z) os_world_scheme, sec_group_rule option) gop" where
  "os_rule_Create gc r opts = counted r Neutron MRule OpCreate (\<lambda>sc timeout. api_Create (rules gc) sc timeout opts)"

definition os_rule_Get ::
  "('g, 's, 'p, 'o, 'r, 'x) gophercloud \<Rightarrow> 's resource_client \<Rightarrow> string \<Rightarrow> (('g, 's, 'z) os_world_scheme, sec_group_rule option) gop" where
  "os_rule_Get gc r ident = counted r Neutron MRule OpGet (\<lambda>sc timeout. api_Get (rules gc) sc timeout ident)"

definition os_rule_Delete ::
  "('g, 's, 'p, 'o, 'r, 'x) gophercloud \<Rightarrow> 's resource_client \<Rightarrow> string \<Rightarrow> (('g, 's, 'z) os_world_scheme, unit) gop" where
  "os_rule_Delete gc r ident = counted r Neutron MRule OpDelete (\<lambda>sc timeout. api_Delete (rules gc) sc timeout ident)"

definition os_server_List ::
  "('g, 's, 'p, 'o, 'r, 'x) gophercloud \<Rightarrow> 's resource_client \<Rightarrow> string \<Rightarrow> (('g, 's, 'z) os_world_scheme, server list) gop" where
  "os_server_List gc r opts = counted r Nova MServer OpList (list_all_pages (servers gc) opts)"

definition os_server_Create ::
  "('g, 's, 'p, 'o, 'r, 'x) gophercloud \<Rightarrow> 's resource_client \<Rightarrow> server_create_opts \<times> string option \<Rightarrow> (('g, 's, 'z) os_world_scheme, server option) gop" where
  "os_server_Create gc r opts = counted r Nova MServer OpCreate (\<lambda>sc timeout. api_Create (servers gc) sc timeout opts)"

definition os_server_Get ::
  "('g, 's, 'p, 'o, 'r, 'x) gophercloud \<Rightarrow> 's resource_client \<Rightarrow> string \<Rightarrow> (('g, 's, 'z) os_world_scheme, server option) gop" where
  "os_server_Get gc r ident = counted r Nova MServer OpGet (\<lambda>sc timeout. api_Get (servers gc) sc timeout ident)"

definition os_server_Update ::
  "('g, 's, 'p, 'o, 'r, 'x) gophercloud \<Rightarrow> 's resource_client \<Rightarrow> string \<Rightarrow> string \<Rightarrow> (('g, 's, 'z) os_world_scheme, server option) gop" where
  "os_server_Update gc r ident opts = counted r Nova MServer OpUpdate (\<lambda>sc timeout. api_Update (servers gc) sc timeout ident opts)"

definition os_server_Delete ::
  "('g, 's, 'p, 'o, 'r, 'x) gophercloud \<Rightarrow> 's resource_client \<Rightarrow> string \<Rightarrow> (('g, 's, 'z) os_world_scheme, unit) gop" where
  "os_server_Delete gc r ident = counted r Nova MServer OpDelete (\<lambda>sc timeout. api_Delete (servers gc) sc timeout ident)"

definition os_servergroup_List ::
  "('g, 's, 'p, 'o, 'r, 'x) gophercloud \<Rightarrow> 's resource_client \<Rightarrow> unit \<Rightarrow> (('g, 's, 'z) os_world_scheme, server_group list) gop" where
  "os_servergroup_List gc r opts = counted r Nova MServerGroup OpList (list_all_pages (servergroups gc) opts)"

definition os_servergroup_Create ::
  "('g, 's, 'p, 'o, 'r, 'x) gophercloud \<Rightarrow> 's resource_client \<Rightarrow> string \<times> string list \<Rightarrow> (('g, 's, 'z) os_world_scheme, server_group option) gop" where
  "os_servergroup_Create gc r opts = counted r Nova MServerGroup OpCreate (\<lambda>sc timeout. api_Create (servergroups gc) sc timeout opts)"

definition os_servergroup_Get ::
  "('g, 's, 'p, 'o, 'r, 'x) gophercloud \<Rightarrow> 's resource_client \<Rightarrow> string \<Rightarrow> (('g, 's, 'z) os_world_scheme, server_group option) gop" where
  "os_servergroup_Get gc r ident = counted r Nova MServerGroup OpGet (\<lambda>sc timeout. api_Get (servergroups gc) sc timeout ident)"

definition os_servergroup_Delete ::
  "('g, 's, 'p, 'o, 'r, 'x) gophercloud \<Rightarrow> 's resource_client \<Rightarrow> string \<Rightarrow> (('g, 's, 'z) os_world_scheme, unit) gop" where
  "os_servergroup_Delete gc r ident = counted r Nova MServerGroup OpDelete (\<lambda>sc timeout. api_Delete (servergroups gc) sc timeout ident)"

definition os_keypair_List ::
  "('g, 's, 'p, 'o, 'r, 'x) gophercloud \<Rightarrow> 's resource_client \<Rightarrow> (('g, 's, 'z) os_world_scheme, key_pair list) gop" where
  "os_keypair_List gc r = counted r Nova MKeyPair OpList (list_all_pages (keypairs gc) ())"

definition os_keypair_Create ::
  "('g, 's, 'p, 'o, 'r, 'x) gophercloud \<Rightarrow> 's resource_client \<Rightarrow> string \<times> string \<Rightarrow> (('g, 's, 'z) os_world_scheme, key_pair option) gop" where
  "os_keypair_Create gc r opts = counted r Nova MKeyPair OpCreate (\<lambda>sc timeout. api_Create (keypairs gc) sc timeout opts)"

definition os_keypair_Get ::
  "('g, 's, 'p, 'o, 'r, 'x) gophercloud \<Rightarrow> 's resource_client \<Rightarrow> string \<Rightarrow> (('g, 's, 'z) os_world_scheme, key_pair option) gop" where
  "os_keypair_Get gc r name = counted r Nova MKeyPair OpGet (\<lambda>sc timeout. api_Get (keypairs gc) sc timeout name)"

definition os_keypair_Delete ::
  "('g, 's, 'p, 'o, 'r, 'x) gophercloud \<Rightarrow> 's resource_client \<Rightarrow> string \<Rightarrow> (('g, 's, 'z) os_world_scheme, unit) gop" where
  "os_keypair_Delete gc r name = counted r Nova MKeyPair OpDelete (\<lambda>sc timeout. api_Delete (keypairs gc) sc timeout name)"

section \<open>The interface of the controllers\<close>

text \<open>A method of a client that was produced before: its service client is the one that is kept.\<close>

definition on_network :: "('s resource_client \<Rightarrow> (('g, 's, 'z) os_world_scheme, 'a) gop) \<Rightarrow> (('g, 's, 'z) os_world_scheme, 'a) gop" where
  "on_network f w = (case networkV2 (ow_client w) of
      None \<Rightarrow> (Crash ''nil pointer dereference'', w)
    | Some sc \<Rightarrow> f (resource_client_of (ow_client w) sc) w)"

definition on_compute :: "('s resource_client \<Rightarrow> (('g, 's, 'z) os_world_scheme, 'a) gop) \<Rightarrow> (('g, 's, 'z) os_world_scheme, 'a) gop" where
  "on_compute f w = (case computeV2 (ow_client w) of
      None \<Rightarrow> (Crash ''nil pointer dereference'', w)
    | Some sc \<Rightarrow> f (resource_client_of (ow_client w) sc) w)"

definition produced :: "(('g, 's, 'z) os_world_scheme, 's resource_client) gop \<Rightarrow> (('g, 's, 'z) os_world_scheme, unit) gop" where
  "produced m = bindM m (\<lambda>_. ret ())"

definition os_client_env :: "('g, 's, 'p, 'o, 'r, 'x) gophercloud \<Rightarrow> ('g, 's, 'z) os_world_scheme os_env" where
  "os_client_env gc =
     \<lparr>os_FipClient = produced (FipClient gc), os_PortClient = produced (PortClient gc),
      os_GroupClient = produced (GroupClient gc), os_RuleClient = produced (RuleClient gc),
      os_ServerGroupClient = produced (ServerGroupClient gc),
      fip_List = (\<lambda>opts. on_network (\<lambda>r. os_fip_List gc r opts)),
      fip_Create = (\<lambda>opts. on_network (\<lambda>r. os_fip_Create gc r opts)),
      fip_Update = (\<lambda>ident opts. on_network (\<lambda>r. os_fip_Update gc r ident opts)),
      fip_Get = (\<lambda>ident. on_network (\<lambda>r. os_fip_Get gc r ident)),
      fip_Delete = (\<lambda>ident. on_network (\<lambda>r. os_fip_Delete gc r ident)),
      port_List = (\<lambda>opts. on_network (\<lambda>r. os_port_List gc r opts)),
      port_Get = (\<lambda>ident. on_network (\<lambda>r. os_port_Get gc r ident)),
      port_Create = (\<lambda>opts. on_network (\<lambda>r. os_port_Create gc r opts)),
      port_Update = (\<lambda>ident opts. on_network (\<lambda>r. os_port_Update gc r ident opts)),
      port_Delete = (\<lambda>ident. on_network (\<lambda>r. os_port_Delete gc r ident)),
      group_List = (\<lambda>opts. on_network (\<lambda>r. os_group_List gc r opts)),
      group_Create = (\<lambda>opts. on_network (\<lambda>r. os_group_Create gc r opts)),
      group_Get = (\<lambda>ident. on_network (\<lambda>r. os_group_Get gc r ident)),
      group_Delete = (\<lambda>ident. on_network (\<lambda>r. os_group_Delete gc r ident)),
      rule_Create = (\<lambda>opts. on_network (\<lambda>r. os_rule_Create gc r opts)),
      rule_Delete = (\<lambda>ident. on_network (\<lambda>r. os_rule_Delete gc r ident)),
      servergroup_List = on_compute (\<lambda>r. os_servergroup_List gc r ()),
      servergroup_Create = (\<lambda>name policies. on_compute (\<lambda>r. os_servergroup_Create gc r (name, policies))),
      servergroup_Get = (\<lambda>ident. on_compute (\<lambda>r. os_servergroup_Get gc r ident)),
      servergroup_Delete = (\<lambda>ident. on_compute (\<lambda>r. os_servergroup_Delete gc r ident))\<rparr>"

definition os_server_env :: "('g, 's, 'p, 'o, 'r, 'x) gophercloud \<Rightarrow> ('g, 's, 'z) os_world_scheme server_env" where
  "os_server_env gc =
     \<lparr>os_ServerClient = produced (ServerClient gc),
      server_List = (\<lambda>opts. on_compute (\<lambda>r. os_server_List gc r opts)),
      server_Create = (\<lambda>opts hint. on_compute (\<lambda>r. os_server_Create gc r (opts, hint))),
      server_Get = (\<lambda>ident. on_compute (\<lambda>r. os_server_Get gc r ident)),
      server_Delete = (\<lambda>ident. on_compute (\<lambda>r. os_server_Delete gc r ident))\<rparr>"

text \<open>The function \<open>getOsClientForIni\<close> that \<open>SetupWithManager\<close> installs.\<close>

definition getOsClientForIni ::
  "('g, 's, 'p, 'o, 'r, 'x) gophercloud \<Rightarrow> int \<Rightarrow> bool \<Rightarrow> string \<Rightarrow> string option \<Rightarrow>
   (('g, 's, 'z) os_world_scheme, ('g, 's, 'z) os_world_scheme os_env) gop" where
  "getOsClientForIni gc openstackTimeout openstackMetrics iniData overwrite w =
     (Ok (os_client_env gc), w\<lparr>ow_client := Configure iniData overwrite openstackTimeout openstackMetrics\<rparr>)"

end
