(* ===== verification/OsClientFacts.thy ===== *)
theory OsClientFacts
  imports OsClient
begin

text \<open>
  What the OpenStack clients promise to the controllers: the credentials and the project of the infrastructure are those
  the cloud is asked with, a connection is made once and kept, and every call is counted under its labels.
\<close>

section \<open>The project\<close>

text \<open>How a provider was authenticated: from the section \<open>cfg\<close>, for the project \<open>overwrite\<close> if there is one.\<close>

definition authenticated_for ::
  "('g, 's, 'p, 'o, 'r, 'x) gophercloud \<Rightarrow> int \<Rightarrow> (string \<Rightarrow> string) \<Rightarrow> string option \<Rightarrow> 'p \<Rightarrow> bool" where
  "authenticated_for gc timeout cfg overwrite provider \<longleftrightarrow>
     (\<exists>ai ao prov authed g g'.
        ai_Username ai = TrimSpace (cfg ''username'') \<and> ai_Password ai = TrimSpace (cfg ''password'') \<and>
        ai_AuthURL ai = TrimSpace (cfg ''auth-url'') \<and>
        ai_ProjectID ai = (case overwrite of None \<Rightarrow> TrimSpace (cfg ''project-id'') | Some p \<Rightarrow> p) \<and>
        ai_ProjectName ai = (if overwrite \<noteq> None then []
          else if TrimSpace (cfg ''project-name'') \<noteq> [] then TrimSpace (cfg ''project-name'') else TrimSpace (cfg ''tenant-name'')) \<and>
        gc_AuthOptions gc ai = Ok ao \<and>
        gc_Authenticate gc timeout prov ao g = (Ok authed, g') \<and>
        provider = gc_SetReauthFunc gc (reauth_of gc (ai_AuthURL ai) ao authed) authed)"

lemma bindM_Ok: "bindM m f s = (Ok x, t) \<longleftrightarrow> (\<exists>y u. m s = (Ok y, u) \<and> f y u = (Ok x, t))"
  by (auto simp: bindM_def catchM_def fail_def split: prod.splits result.splits)

lemma catch_rename_Ok: "catchM m (\<lambda>e. fail (h e)) ret s = (Ok x, t) \<longleftrightarrow> m s = (Ok x, t)"
  by (auto simp: catchM_def ret_def fail_def split: prod.splits result.splits)

lemma liftR_Ok: "liftR r s = (Ok x, t) \<longleftrightarrow> r = Ok x \<and> t = s"
  by (auto simp: liftR_def)

lemma ret_Ok: "ret y s = (Ok x, t) \<longleftrightarrow> y = x \<and> t = s"
  by (auto simp: ret_def)

lemma getProvider_authenticated:
  assumes "getProvider gc ini overwrite timeout g = (Ok (provider, region), g')"
  shows "\<exists>cfg. gc_Section gc ini = Ok cfg \<and> authenticated_for gc timeout cfg overwrite provider"
proof -
  obtain cfg where cfg: "gc_Section gc ini = Ok cfg"
    using assms by (auto simp: getProvider_def bindM_Ok liftR_Ok)
  let ?ai = "auth_info_of cfg overwrite"
  obtain ao prov authed g1 g2 where a: "gc_AuthOptions gc ?ai = Ok ao" "gc_Authenticate gc timeout prov ao g1 = (Ok authed, g2)"
    "provider = gc_SetReauthFunc gc (reauth_of gc (ai_AuthURL ?ai) ao authed) authed"
    using assms by (auto simp: getProvider_def bindM_Ok liftR_Ok ret_Ok catch_rename_Ok cfg Let_def)
  have "authenticated_for gc timeout cfg overwrite provider"
    unfolding authenticated_for_def a(3)
    by (rule exI [of _ ?ai], rule exI [of _ ao], rule exI [of _ prov], rule exI [of _ authed], rule exI [of _ g1], rule exI [of _ g2])
      (simp only: a(1,2), simp add: auth_info_of_def Let_def split: option.split)
  with cfg show ?thesis by blast
qed

lemma network_service_authenticated:
  assumes "network_service gc w = (Ok c, w')" "networkV2 (ow_client w) = None"
  shows "\<exists>cfg provider. gc_Section gc (oc_ini (ow_client w)) = Ok cfg \<and>
    authenticated_for gc (oc_timeout (ow_client w)) cfg (oc_overwrite (ow_client w)) provider \<and>
    (\<exists>region. gc_NewNetworkV2 gc provider region = Ok (rc_service c)) \<and> networkV2 (ow_client w') = Some (rc_service c)"
proof -
  obtain sc g where c: "createNetworkV2FromIni gc (oc_ini (ow_client w)) (oc_overwrite (ow_client w)) (oc_timeout (ow_client w)) (ow_cloud w) = (Ok sc, g)"
    "rc_service c = sc" "networkV2 (ow_client w') = Some sc"
    using assms by (auto simp: network_service_def bindM_Ok cloudM_def resource_client_of_def Let_def split: prod.splits)
  then obtain provider region g1 where p: "getProvider gc (oc_ini (ow_client w)) (oc_overwrite (ow_client w)) (oc_timeout (ow_client w)) (ow_cloud w) = (Ok (provider, region), g1)"
    "gc_NewNetworkV2 gc provider region = Ok sc"
    by (auto simp: createNetworkV2FromIni_def bindM_Ok liftR_Ok)
  show ?thesis using getProvider_authenticated [OF p(1)] p(2) c(2,3) by blast
qed

lemma compute_service_authenticated:
  assumes "compute_service gc w = (Ok c, w')" "computeV2 (ow_client w) = None"
  shows "\<exists>cfg provider. gc_Section gc (oc_ini (ow_client w)) = Ok cfg \<and>
    authenticated_for gc (oc_timeout (ow_client w)) cfg (oc_overwrite (ow_client w)) provider \<and>
    (\<exists>region. gc_NewComputeV2 gc provider region = Ok (rc_service c)) \<and> computeV2 (ow_client w') = Some (rc_service c)"
proof -
  obtain sc g where c: "createComputeV2FromIni gc (oc_ini (ow_client w)) (oc_overwrite (ow_client w)) (oc_timeout (ow_client w)) (ow_cloud w) = (Ok sc, g)"
    "rc_service c = sc" "computeV2 (ow_client w') = Some sc"
    using assms by (auto simp: compute_service_def bindM_Ok cloudM_def resource_client_of_def Let_def split: prod.splits)
  then obtain provider region g1 where p: "getProvider gc (oc_ini (ow_client w)) (oc_overwrite (ow_client w)) (oc_timeout (ow_client w)) (ow_cloud w) = (Ok (provider, region), g1)"
    "gc_NewComputeV2 gc provider region = Ok sc"
    by (auto simp: createComputeV2FromIni_def bindM_Ok liftR_Ok)
  show ?thesis using getProvider_authenticated [OF p(1)] p(2) c(2,3) by blast
qed

section \<open>Sequences of calls\<close>

text \<open>The steps of a client: producing the client of a resource, and every method of the resource clients with its labels.\<close>

datatype os_label = Produced | Called metric_api metric_object metric_operation

definition connected_network :: "('g, 's, 'z) os_world_scheme \<Rightarrow> bool" where
  "connected_network w = (networkV2 (ow_client w) \<noteq> None)"

definition connected_compute :: "('g, 's, 'z) os_world_scheme \<Rightarrow> bool" where
  "connected_compute w = (computeV2 (ow_client w) \<noteq> None)"

inductive os_step ::
  "('g, 's, 'p, 'o, 'r, 'x) gophercloud \<Rightarrow> ('g, 's, 'z) os_world_scheme \<Rightarrow> os_label \<Rightarrow> ('g, 's, 'z) os_world_scheme \<Rightarrow> bool"
  for gc where
  "os_FipClient (os_client_env gc) w = (u, w') \<Longrightarrow> os_step gc w Produced w'"
| "os_PortClient (os_client_env gc) w = (u, w') \<Longrightarrow> os_step gc w Produced w'"
| "os_GroupClient (os_client_env gc) w = (u, w') \<Longrightarrow> os_step gc w Produced w'"
| "os_RuleClient (os_client_env gc) w = (u, w') \<Longrightarrow> os_step gc w Produced w'"
| "os_ServerGroupClient (os_client_env gc) w = (u, w') \<Longrightarrow> os_step gc w Produced w'"
| "os_ServerClient (os_server_env gc) w = (u, w') \<Longrightarrow> os_step gc w Produced w'"
| "connected_network w \<Longrightarrow> fip_List (os_client_env gc) lo w = (r_fip_List, w') \<Longrightarrow> os_step gc w (Called Neutron MFloatingIP OpList) w'"
| "connected_network w \<Longrightarrow> fip_Create (os_client_env gc) co w = (r_fip_Create, w') \<Longrightarrow> os_step gc w (Called Neutron MFloatingIP OpCreate) w'"
| "connected_network w \<Longrightarrow> fip_Update (os_client_env gc) i uo w = (r_fip_Update, w') \<Longrightarrow> os_step gc w (Called Neutron MFloatingIP OpUpdate) w'"
| "connected_network w \<Longrightarrow> fip_Get (os_client_env gc) i w = (r_fip_Get, w') \<Longrightarrow> os_step gc w (Called Neutron MFloatingIP OpGet) w'"
| "connected_network w \<Longrightarrow> fip_Delete (os_client_env gc) i w = (r_fip_Delete, w') \<Longrightarrow> os_step gc w (Called Neutron MFloatingIP OpDelete) w'"
| "connected_network w \<Longrightarrow> port_List (os_client_env gc) i w = (r_port_List, w') \<Longrightarrow> os_step gc w (Called Neutron MPort OpList) w'"
| "connected_network w \<Longrightarrow> port_Get (os_client_env gc) i w = (r_port_Get, w') \<Longrightarrow> os_step gc w (Called Neutron MPort OpGet) w'"
| "connected_network w \<Longrightarrow> port_Create (os_client_env gc) co w = (r_port_Create, w') \<Longrightarrow> os_step gc w (Called Neutron MPort OpCreate) w'"
| "connected_network w \<Longrightarrow> port_Update (os_client_env gc) i uo w = (r_port_Update, w') \<Longrightarrow> os_step gc w (Called Neutron MPort OpUpdate) w'"
| "connected_network w \<Longrightarrow> port_Delete (os_client_env gc) i w = (r_port_Delete, w') \<Longrightarrow> os_step gc w (Called Neutron MPort OpDelete) w'"
| "connected_network w \<Longrightarrow> group_List (os_client_env gc) i w = (r_group_List, w') \<Longrightarrow> os_step gc w (Called Neutron MGroup OpList) w'"
| "connected_network w \<Longrightarrow> group_Create (os_client_env gc) i w = (r_group_Create, w') \<Longrightarrow> os_step gc w (Called Neutron MGroup OpCreate) w'"
| "connected_network w \<Longrightarrow> group_Get (os_client_env gc) i w = (r_group_Get, w') \<Longrightarrow> os_step gc w (Called Neutron MGroup OpGet) w'"
| "connected_network w \<Longrightarrow> group_Delete (os_client_env gc) i w = (r_group_Delete, w') \<Longrightarrow> os_step gc w (Called Neutron MGroup OpDelete) w'"
| "connected_network w \<Longrightarrow> rule_Create (os_client_env gc) co w = (r_rule_Create, w') \<Longrightarrow> os_step gc w (Called Neutron MRule OpCreate) w'"
| "connected_network w \<Longrightarrow> rule_Delete (os_client_env gc) i w = (r_rule_Delete, w') \<Longrightarrow> os_step gc w (Called Neutron MRule OpDelete) w'"
| "connected_compute w \<Longrightarrow> servergroup_List (os_client_env gc)  w = (r_servergroup_List, w') \<Longrightarrow> os_step gc w (Called Nova MServerGroup OpList) w'"
| "connected_compute w \<Longrightarrow> servergroup_Create (os_client_env gc) i ps w = (r_servergroup_Create, w') \<Longrightarrow> os_step gc w (Called Nova MServerGroup OpCreate) w'"
| "connected_compute w \<Longrightarrow> servergroup_Get (os_client_env gc) i w = (r_servergroup_Get, w') \<Longrightarrow> os_step gc w (Called Nova MServerGroup OpGet) w'"
| "connected_compute w \<Longrightarrow> servergroup_Delete (os_client_env gc) i w = (r_servergroup_Delete, w') \<Longrightarrow> os_step gc w (Called Nova MServerGroup OpDelete) w'"
| "connected_compute w \<Longrightarrow> server_List (os_server_env gc) i w = (r_server_List, w') \<Longrightarrow> os_step gc w (Called Nova MServer OpList) w'"
| "connected_compute w \<Longrightarrow> server_Create (os_server_env gc) co hint w = (r_server_Create, w') \<Longrightarrow> os_step gc w (Called Nova MServer OpCreate) w'"
| "connected_compute w \<Longrightarrow> server_Get (os_server_env gc) i w = (r_server_Get, w') \<Longrightarrow> os_step gc w (Called Nova MServer OpGet) w'"
| "connected_compute w \<Longrightarrow> server_Delete (os_server_env gc) i w = (r_server_Delete, w') \<Longrightarrow> os_step gc w (Called Nova MServer OpDelete) w'"
| "KeyPairClient gc w = (c, w') \<Longrightarrow> os_step gc w Produced w'"
| "connected_network w \<Longrightarrow> on_network (\<lambda>r. os_group_Update gc r i n) w = (r_group_Update, w') \<Longrightarrow> os_step gc w (Called Neutron MGroup OpUpdate) w'"
| "connected_network w \<Longrightarrow> on_network (\<lambda>r. os_rule_List gc r i) w = (r_rule_List, w') \<Longrightarrow> os_step gc w (Called Neutron MRule OpList) w'"
| "connected_network w \<Longrightarrow> on_network (\<lambda>r. os_rule_Get gc r i) w = (r_rule_Get, w') \<Longrightarrow> os_step gc w (Called Neutron MRule OpGet) w'"
| "connected_compute w \<Longrightarrow> on_compute (\<lambda>r. os_server_Update gc r i n) w = (r_server_Update, w') \<Longrightarrow> os_step gc w (Called Nova MServer OpUpdate) w'"
| "connected_compute w \<Longrightarrow> on_compute (\<lambda>r. os_keypair_List gc r) w = (r_keypair_List, w') \<Longrightarrow> os_step gc w (Called Nova MKeyPair OpList) w'"
| "connected_compute w \<Longrightarrow> on_compute (\<lambda>r. os_keypair_Create gc r kco) w = (r_keypair_Create, w') \<Longrightarrow> os_step gc w (Called Nova MKeyPair OpCreate) w'"
| "connected_compute w \<Longrightarrow> on_compute (\<lambda>r. os_keypair_Get gc r i) w = (r_keypair_Get, w') \<Longrightarrow> os_step gc w (Called Nova MKeyPair OpGet) w'"
| "connected_compute w \<Longrightarrow> on_compute (\<lambda>r. os_keypair_Delete gc r i) w = (r_keypair_Delete, w') \<Longrightarrow> os_step gc w (Called Nova MKeyPair OpDelete) w'"

inductive os_trace ::
  "('g, 's, 'p, 'o, 'r, 'x) gophercloud \<Rightarrow> ('g, 's, 'z) os_world_scheme \<Rightarrow> os_label list \<Rightarrow> ('g, 's, 'z) os_world_scheme \<Rightarrow> bool"
  for gc where
  os_trace_Nil: "os_trace gc w [] w"
| os_trace_Cons: "os_step gc w l w1 \<Longrightarrow> os_trace gc w1 ls w' \<Longrightarrow> os_trace gc w (l # ls) w'"

definition same_settings :: "'s os_client \<Rightarrow> 's os_client \<Rightarrow> bool" where
  "same_settings r r' \<longleftrightarrow> oc_ini r' = oc_ini r \<and> oc_overwrite r' = oc_overwrite r \<and> oc_timeout r' = oc_timeout r \<and>
     oc_promCounter r' = oc_promCounter r \<and> (networkV2 r \<noteq> None \<longrightarrow> networkV2 r' = networkV2 r) \<and>
     (computeV2 r \<noteq> None \<longrightarrow> computeV2 r' = computeV2 r)"

lemma same_settings_refl: "same_settings r r"
  by (simp add: same_settings_def)

lemma same_settings_trans: "same_settings r r' \<Longrightarrow> same_settings r' r'' \<Longrightarrow> same_settings r r''"
  by (auto simp: same_settings_def)

definition counts :: "os_label \<Rightarrow> ('g, 's, 'z) os_world_scheme \<Rightarrow> ('g, 's, 'z) os_world_scheme \<Rightarrow> bool" where
  "counts lb w w' \<longleftrightarrow> same_settings (ow_client w) (ow_client w') \<and>
     (\<forall>a ob op. ow_calls w' [api_label a, object_label ob, operation_label op] =
        ow_calls w [api_label a, object_label ob, operation_label op] +
        (if oc_promCounter (ow_client w) \<and> lb = Called a ob op then 1 else 0))"

lemma api_label_inject: "api_label a = api_label a' \<longleftrightarrow> a = a'"
  by (cases a; cases a'; simp)

lemma object_label_inject: "object_label ob = object_label ob' \<longleftrightarrow> ob = ob'"
  by (cases ob; cases ob'; simp)

lemma operation_label_inject: "operation_label op = operation_label op' \<longleftrightarrow> op = op'"
  by (cases op; cases op'; simp)

lemmas label_inject = api_label_inject object_label_inject operation_label_inject

lemma counted_counts:
  assumes "counted (resource_client_of (ow_client w) sc) a ob op call w = (r, w')"
  shows "counts (Called a ob op) w w'"
  using assms
  by (auto simp: counted_def thenM_def bindM_def catchM_def increasePromCounter_def cloudM_def resource_client_of_def counts_def
      same_settings_refl label_inject Let_def split: prod.splits if_splits)

lemma on_network_counts:
  assumes "connected_network w" "on_network (\<lambda>r. counted r a ob op (call r)) w = (x, w')"
  shows "counts (Called a ob op) w w'"
  using assms counted_counts by (auto simp: connected_network_def on_network_def)

lemma on_compute_counts:
  assumes "connected_compute w" "on_compute (\<lambda>r. counted r a ob op (call r)) w = (x, w')"
  shows "counts (Called a ob op) w w'"
  using assms counted_counts by (auto simp: connected_compute_def on_compute_def)

lemma produced_network_counts:
  assumes "produced (network_service gc) w = (x, w')"
  shows "counts Produced w w'"
  using assms
  by (auto simp: produced_def network_service_def bindM_def catchM_def cloudM_def ret_def fail_def counts_def same_settings_def Let_def
      split: prod.splits option.splits result.splits)

lemma compute_service_counts:
  assumes "compute_service gc w = (x, w')"
  shows "counts Produced w w'"
  using assms
  by (auto simp: compute_service_def bindM_def catchM_def cloudM_def ret_def fail_def counts_def same_settings_def Let_def
      split: prod.splits option.splits result.splits)

lemma produced_compute_counts:
  assumes "produced (compute_service gc) w = (x, w')"
  shows "counts Produced w w'"
  using assms
  by (auto simp: produced_def compute_service_def bindM_def catchM_def cloudM_def ret_def fail_def counts_def same_settings_def Let_def
      split: prod.splits option.splits result.splits)

lemmas method_defs = os_fip_List_def os_fip_Create_def os_fip_Update_def os_fip_Get_def os_fip_Delete_def os_port_List_def os_port_Get_def os_port_Create_def os_port_Update_def os_port_Delete_def os_group_List_def os_group_Create_def os_group_Get_def os_group_Delete_def os_group_Update_def os_rule_List_def os_rule_Get_def os_rule_Create_def os_rule_Delete_def os_servergroup_List_def os_servergroup_Create_def os_servergroup_Get_def os_servergroup_Delete_def os_server_List_def os_server_Create_def os_server_Get_def os_server_Update_def os_server_Delete_def os_keypair_List_def os_keypair_Create_def
  os_keypair_Get_def os_keypair_Delete_def

lemma step_counts: "os_step gc w lb w' \<Longrightarrow> counts lb w w'"
  by (induction rule: os_step.induct)
    (auto simp: os_client_env_def os_server_env_def method_defs FipClient_def PortClient_def GroupClient_def RuleClient_def
      ServerGroupClient_def ServerClient_def KeyPairClient_def
      intro: produced_network_counts produced_compute_counts compute_service_counts on_network_counts on_compute_counts)

lemma trace_counts:
  "os_trace gc w ls w' \<Longrightarrow> same_settings (ow_client w) (ow_client w') \<and>
     (\<forall>a ob op. ow_calls w' [api_label a, object_label ob, operation_label op] =
        ow_calls w [api_label a, object_label ob, operation_label op] +
        (if oc_promCounter (ow_client w) then count_list ls (Called a ob op) else 0))"
proof (induction rule: os_trace.induct)
  case (os_trace_Nil w)
  show ?case by (simp add: same_settings_refl)
next
  case (os_trace_Cons w lb w1 ls w')
  have step: "same_settings (ow_client w) (ow_client w1)"
    "ow_calls w1 [api_label a, object_label ob, operation_label op] = ow_calls w [api_label a, object_label ob, operation_label op] +
      (if oc_promCounter (ow_client w) \<and> lb = Called a ob op then 1 else 0)" for a ob op
    using step_counts [OF os_trace_Cons.hyps(1)] by (auto simp: counts_def)
  have "oc_promCounter (ow_client w1) = oc_promCounter (ow_client w)"
    using step(1) by (simp add: same_settings_def)
  with os_trace_Cons.IH step show ?case
    by (auto intro: same_settings_trans)
qed

lemma trace_keeps_network: "os_trace gc w ls w' \<Longrightarrow> networkV2 (ow_client w) = Some sc \<Longrightarrow> networkV2 (ow_client w') = Some sc"
  by (auto dest!: trace_counts simp: same_settings_def)

text \<open>Every call to OpenStack is counted once and a connection is made once. Over any sequence of steps of a client,
  failures included, the counter of an API, an object and an operation grows by the number of these calls (by nothing if the
  client has no counter); the settings stay; and once the client of a service was produced, producing one again contacts
  nobody and gives the same connection.\<close>

theorem openstack_calls_counted_connections_kept:
  assumes "os_trace gc w ls w'"
  shows "ow_calls w' [api_label a, object_label ob, operation_label op] =
       ow_calls w [api_label a, object_label ob, operation_label op] +
       (if oc_promCounter (ow_client w) then count_list ls (Called a ob op) else 0) \<and>
     same_settings (ow_client w) (ow_client w') \<and>
     (networkV2 (ow_client w) = Some sc \<longrightarrow>
        FipClient gc w' = (Ok (resource_client_of (ow_client w) sc), w') \<and> PortClient gc w' = FipClient gc w' \<and>
        GroupClient gc w' = FipClient gc w' \<and> RuleClient gc w' = FipClient gc w') \<and>
     (computeV2 (ow_client w) = Some sc \<longrightarrow>
        ServerClient gc w' = (Ok (resource_client_of (ow_client w) sc), w') \<and> ServerGroupClient gc w' = ServerClient gc w' \<and>
        KeyPairClient gc w' = ServerClient gc w')"
  using trace_counts [OF assms]
  by (auto simp: FipClient_def PortClient_def GroupClient_def RuleClient_def ServerClient_def ServerGroupClient_def
      KeyPairClient_def network_service_def compute_service_def same_settings_def resource_client_of_def)


section \<open>Concrete runs\<close>

definition example_api :: "(unit, string, unit, 'lo, 'co, 'uo, 'obj) resource_api" where
  "example_api = \<lparr>api_AllPages = (\<lambda>_ _ _ g. (Ok (), g)), api_ExtractAll = (\<lambda>_. Ok []), api_Create = (\<lambda>_ _ _ g. (Ok None, g)),
     api_Update = (\<lambda>_ _ _ _ g. (Ok None, g)), api_Get = (\<lambda>_ _ _ g. (Ok None, g)), api_Delete = (\<lambda>_ _ _ g. (Ok (), g))\<rparr>"

text \<open>Providers and connections are the projects they are authenticated for.\<close>

definition example_gophercloud :: "(unit, string, string, string, unit, unit) gophercloud" where
  "example_gophercloud = \<lparr>gc_Section = (\<lambda>_. Ok (\<lambda>key. if key = ''project-id'' then ''p0'' else [])), gc_Getenv = (\<lambda>_. []),
     gc_NewPool = (\<lambda>_ g. (Ok (), g)), gc_AuthOptions = (\<lambda>ai. Ok (ai_ProjectID ai)), gc_IdentityEndpoint = (\<lambda>_. []),
     gc_WithoutReauth = (\<lambda>ao. ao), gc_NewClient = (\<lambda>_. Ok []), gc_SetTransport = (\<lambda>_ prov. prov),
     gc_Authenticate = (\<lambda>_ _ ao g. (Ok ao, g)), gc_AuthenticateV2 = (\<lambda>_ _ ao g. (Ok ao, g)),
     gc_AuthenticateV3 = (\<lambda>_ _ ao g. (Ok ao, g)), gc_Throwaway = (\<lambda>prov. prov), gc_SetReauthFunc = (\<lambda>_ prov. prov),
     gc_CopyTokenFrom = (\<lambda>prov _. prov), gc_NewNetworkV2 = (\<lambda>prov _. Ok prov), gc_NewComputeV2 = (\<lambda>prov _. Ok prov),
     floatingips = example_api, ports = example_api, groups = example_api, rules = example_api, servers = example_api,
     servergroups = example_api, keypairs = example_api\<rparr>"

definition refused_call :: "('w, 'a) gop" where
  "refused_call w = (Err (OtherErr ''refused''), w)"

definition secret_kube :: "'w kube" where
  "secret_kube = \<lparr>k_now = (\<lambda>w. (0, w)), k_GetSecret = (\<lambda>_ w. (Ok [''cloudprovider.conf'' \<mapsto> ''[Global]''], w)),
     k_GetLB = (\<lambda>_. refused_call), k_UpdateLB = (\<lambda>_. refused_call), k_PatchLBStatus = (\<lambda>_ _. refused_call),
     k_PatchLBMeta = (\<lambda>_ _. refused_call), k_GetSet = (\<lambda>_. refused_call), k_ListSets = (\<lambda>_ _. refused_call),
     k_CreateSet = (\<lambda>_. refused_call), k_DeleteSet = (\<lambda>_. refused_call), k_PatchSetReplicas = (\<lambda>_ _. refused_call),
     k_PatchSetMeta = (\<lambda>_ _. refused_call), k_PatchSetStatus = (\<lambda>_ _ _. refused_call), k_GetMachine = (\<lambda>_. refused_call),
     k_ListMachines = (\<lambda>_ _. refused_call), k_CreateMachine = (\<lambda>_. refused_call), k_DeleteMachine = (\<lambda>_. refused_call),
     k_UpdateMachineStatus = (\<lambda>_ _. refused_call), k_random = refused_call\<rparr>"

definition project_infra :: infrastructure where
  "project_infra = zero_infra\<lparr>infra_ProjectID := Some ''p1''\<rparr>"

definition example_world :: "(unit, string) os_world" where
  "example_world = \<lparr>ow_cloud = (), ow_client = Configure [] None 0 False, ow_calls = (\<lambda>_. 0)\<rparr>"

definition connected_world :: "(unit, string) os_world" where
  "connected_world = example_world\<lparr>ow_client := (Configure ''[Global]'' (Some ''p1'') 20 True)\<lparr>networkV2 := Some ''p1''\<rparr>\<rparr>"

definition counted_world :: "(unit, string) os_world" where
  "counted_world = connected_world\<lparr>ow_calls := (\<lambda>_. 0)([''neutron'', ''port'', ''list''] := 1)\<rparr>"

lemma example_trace: "os_trace example_gophercloud connected_world [Called Neutron MPort OpList] counted_world"
proof (rule os_trace_Cons [OF _ os_trace_Nil])
  have "port_List (os_client_env example_gophercloud) [] connected_world = (Ok [], counted_world)"
    by (simp add: os_client_env_def on_network_def connected_world_def counted_world_def example_world_def Configure_def os_port_List_def
        counted_def thenM_def bindM_def catchM_def increasePromCounter_def resource_client_of_def cloudM_def list_all_pages_def
        example_gophercloud_def example_api_def liftR_def Let_def)
  thus "os_step example_gophercloud connected_world (Called Neutron MPort OpList) counted_world"
    by (intro os_step.intros) (simp add: connected_network_def connected_world_def)
qed

lemma openstack_calls_counted_connections_kept_witness:
  "ow_calls counted_world [''neutron'', ''port'', ''list''] = 1 \<and>
   FipClient example_gophercloud counted_world = (Ok (resource_client_of (ow_client connected_world) ''p1''), counted_world)"
  using openstack_calls_counted_connections_kept [OF example_trace, where a = Neutron and ob = MPort and op = OpList and sc = "''p1''"]
  by (simp add: connected_world_def example_world_def Configure_def)


end
