(* ===== verification/Startup.thy ===== *)
theory Startup
  imports FakeClusters MachineController OsClient
begin

text \<open>
  The start of the programs: the defaults that the yawol-cloud-controller reads from its environment
  (\<open>cmd/yawol-cloud-controller/main.go\<close>), what they mean for the LoadBalancers it makes and for the machines that the
  yawol-controller makes of these, and the OpenStack client that \<open>SetupWithManager\<close> installs for machines.
\<close>

section \<open>The environment\<close>

definition EnvClusterNamespace :: string where "EnvClusterNamespace = ''CLUSTER_NAMESPACE''"
definition EnvAuthSecretName :: string where "EnvAuthSecretName = ''SECRET_NAME''"
definition EnvFloatingNetID :: string where "EnvFloatingNetID = ''FLOATING_NET_ID''"
definition EnvNetworkID :: string where "EnvNetworkID = ''NETWORK_ID''"
definition EnvSubnetID :: string where "EnvSubnetID = ''SUBNET_ID''"
definition EnvFlavorID :: string where "EnvFlavorID = ''FLAVOR_ID''"
definition EnvFlavorName :: string where "EnvFlavorName = ''FLAVOR_NAME''"
definition EnvFlavorSearch :: string where "EnvFlavorSearch = ''FLAVOR_SEARCH''"
definition EnvImageID :: string where "EnvImageID = ''IMAGE_ID''"
definition EnvImageName :: string where "EnvImageName = ''IMAGE_NAME''"
definition EnvImageSearch :: string where "EnvImageSearch = ''IMAGE_SEARCH''"
definition EnvAvailabilityZone :: string where "EnvAvailabilityZone = ''AVAILABILITY_ZONE''"
definition EnvInternalLB :: string where "EnvInternalLB = ''INTERNAL_LB''"

text \<open>\<open>os.Getenv\<close> is a function; the empty text stands for a variable that is not set. A panic ends the program.\<close>

definition required :: "(string \<Rightarrow> string) \<Rightarrow> string \<Rightarrow> (string \<Rightarrow> 'a result) \<Rightarrow> 'a result" where
  "required env var f = (if env var = [] then Crash (''could not read env '' @ var) else f (env var))"

definition optional :: "(string \<Rightarrow> string) \<Rightarrow> string \<Rightarrow> string option" where
  "optional env var = (if env var = [] then None else Some (env var))"

definition one_of :: "(string \<Rightarrow> string) \<Rightarrow> string list \<Rightarrow> 'a result \<Rightarrow> 'a result" where
  "one_of env vars r =
     (if \<forall>var \<in> set vars. optional env var = None
      then Crash (''could not read one of envs ['' @ join_sep (CHR '','') vars @ '']'') else r)"

definition bool_values :: string where
  "bool_values = drop 2 (concat (map (\<lambda>v. '', '' @ [CHR 0x27] @ v @ [CHR 0x27])
     [''1'', ''t'', ''T'', ''true'', ''TRUE'', ''True'', ''0'', ''f'', ''F'', ''false'', ''FALSE'', ''False'']))"

definition bool_env :: "(string \<Rightarrow> string) \<Rightarrow> string \<Rightarrow> (bool \<Rightarrow> 'a result) \<Rightarrow> 'a result" where
  "bool_env env var f =
     (if env var = [] then f False
      else case ParseBool (env var) of
        None \<Rightarrow> Crash (var @ '' must match one of the following values: '' @ bool_values)
      | Some b \<Rightarrow> f b)"

definition getInfrastructureDefaultsFromEnvOrDie :: "(string \<Rightarrow> string) \<Rightarrow> infrastructure_defaults result" where
  "getInfrastructureDefaultsFromEnvOrDie env =
     required env EnvAuthSecretName (\<lambda>authSecretName.
     required env EnvFloatingNetID (\<lambda>floatingNetworkID.
     required env EnvNetworkID (\<lambda>networkID.
     required env EnvClusterNamespace (\<lambda>clusterNamespace.
     one_of env [EnvFlavorID, EnvFlavorName, EnvFlavorSearch] (
     one_of env [EnvImageID, EnvImageName, EnvImageSearch] (
     bool_env env EnvInternalLB (\<lambda>internalLb.
     Ok \<lparr>id_AuthSecretName = Some authSecretName, id_FloatingNetworkID = Some floatingNetworkID,
        id_NetworkID = Some networkID, id_SubnetID = optional env EnvSubnetID, id_Namespace = Some clusterNamespace,
        id_FlavorRef = Some \<lparr>FlavorID = optional env EnvFlavorID, FlavorName = optional env EnvFlavorName,
          FlavorSearch = optional env EnvFlavorSearch, FlavorIDOld = None, FlavorNameOld = None, FlavorSearchOld = None\<rparr>,
        id_ImageRef = Some \<lparr>ImageID = optional env EnvImageID, ImageName = optional env EnvImageName,
          ImageSearch = optional env EnvImageSearch, ImageIDOld = None, ImageNameOld = None, ImageSearchOld = None\<rparr>,
        id_AvailabilityZone = Some (env EnvAvailabilityZone), id_InternalLB = Some internalLb\<rparr>)))))))"

section \<open>The OpenStack client of machines\<close>

definition getOsClientForIni_lbm ::
  "('g, 's, 'p, 'o, 'r, 'x) gophercloud \<Rightarrow> int \<Rightarrow> bool \<Rightarrow> string \<Rightarrow> string option \<Rightarrow>
   (('g, 's, 'z) os_world_scheme, ('g, 's, 'z) os_world_scheme os_env \<times> ('g, 's, 'z) os_world_scheme server_env) gop" where
  "getOsClientForIni_lbm gc openstackTimeout openstackMetrics iniData overwrite w =
     (Ok (os_client_env gc, os_server_env gc), w\<lparr>ow_client := Configure iniData overwrite openstackTimeout openstackMetrics\<rparr>)"

section \<open>What the defaults are good for\<close>

lemma required_Ok: "required env var f = Ok x \<longleftrightarrow> env var \<noteq> [] \<and> f (env var) = Ok x"
  by (simp add: required_def)

lemma one_of_Ok: "one_of env vars r = Ok x \<longleftrightarrow> (\<exists>var \<in> set vars. env var \<noteq> []) \<and> r = Ok x"
  by (auto simp: one_of_def optional_def)

lemma bool_env_Ok: "bool_env env var f = Ok x \<longleftrightarrow> (\<exists>b. (env var = [] \<and> \<not> b \<or> env var \<noteq> [] \<and> ParseBool (env var) = Some b) \<and> f b = Ok x)"
  by (auto simp: bool_env_def split: option.splits)

text \<open>C37. A cloud controller that starts never makes a LoadBalancer that cannot be built. With the defaults read from the
  environment, and whatever the annotations of a Service are, neither its name nor its infrastructure dereferences a nil
  pointer, and the secret and the namespace are those of the environment. The machine controller then finds an image and a flavor
  without an error, but an empty one, which no server can be built of, exactly when neither the Service nor the environment gives
  an ID and only a name or a search is configured.\<close>

theorem defaults_make_buildable_infrastructure:
  assumes "getInfrastructureDefaultsFromEnvOrDie env = Ok defaults"
  shows "\<exists>network infra image flavor. let d = GetMergedInfrastructureDetails defaults svc in
     getLoadBalancerNamespacedName d svc = Ok \<lparr>nn_Namespace = env EnvClusterNamespace, nn_Name = GetLoadBalancerNameFromService svc\<rparr> \<and>
     getDefaultNetwork svc d = Ok network \<and> infrastructure_of svc d network additional = Ok infra \<and>
     infra_AuthSecretRef infra = \<lparr>ref_Name = env EnvAuthSecretName, ref_Namespace = env EnvClusterNamespace\<rparr> \<and>
     GetImageID (infra_Image infra) = Ok image \<and> GetFlavorID (infra_Flavor infra) = Ok flavor \<and>
     (image = [] \<longleftrightarrow> at_key (meta_Annotations svc) ServiceImageID = [] \<and> env EnvImageID = []) \<and>
     (flavor = [] \<longleftrightarrow> at_key (meta_Annotations svc) ServiceFlavorID = [] \<and> env EnvFlavorID = [])"
proof -
  let ?img = "at_key (meta_Annotations svc) ServiceImageID" and ?fl = "at_key (meta_Annotations svc) ServiceFlavorID"
  obtain b where env: "env EnvFlavorID \<noteq> [] \<or> env EnvFlavorName \<noteq> [] \<or> env EnvFlavorSearch \<noteq> []"
    "env EnvImageID \<noteq> [] \<or> env EnvImageName \<noteq> [] \<or> env EnvImageSearch \<noteq> []"
    and d: "defaults = \<lparr>id_AuthSecretName = Some (env EnvAuthSecretName), id_FloatingNetworkID = Some (env EnvFloatingNetID),
        id_NetworkID = Some (env EnvNetworkID), id_SubnetID = optional env EnvSubnetID, id_Namespace = Some (env EnvClusterNamespace),
        id_FlavorRef = Some \<lparr>FlavorID = optional env EnvFlavorID, FlavorName = optional env EnvFlavorName,
          FlavorSearch = optional env EnvFlavorSearch, FlavorIDOld = None, FlavorNameOld = None, FlavorSearchOld = None\<rparr>,
        id_ImageRef = Some \<lparr>ImageID = optional env EnvImageID, ImageName = optional env EnvImageName,
          ImageSearch = optional env EnvImageSearch, ImageIDOld = None, ImageNameOld = None, ImageSearchOld = None\<rparr>,
        id_AvailabilityZone = Some (env EnvAvailabilityZone), id_InternalLB = Some b\<rparr>"
    using assms unfolding getInfrastructureDefaultsFromEnvOrDie_def required_Ok one_of_Ok bool_env_Ok by auto
  have flavor: "\<exists>flavor. id_FlavorRef (GetMergedInfrastructureDetails defaults svc) = Some flavor \<and>
      (\<exists>i. GetFlavorID flavor = Ok i \<and> (i = [] \<longleftrightarrow> ?fl = [] \<and> env EnvFlavorID = []))"
    using env(1) by (auto simp: GetMergedInfrastructureDetails_def GetInfrastructureDetailsFromService_def Let_def d GetFlavorID_def optional_def)
  have image: "\<exists>image. id_ImageRef (GetMergedInfrastructureDetails defaults svc) = Some image \<and>
      (\<exists>i. GetImageID image = Ok i \<and> (i = [] \<longleftrightarrow> ?img = [] \<and> env EnvImageID = []))"
    using env(2) by (auto simp: GetMergedInfrastructureDetails_def GetInfrastructureDetailsFromService_def Let_def d GetImageID_def optional_def)
  have rest: "id_AuthSecretName (GetMergedInfrastructureDetails defaults svc) = Some (env EnvAuthSecretName)"
    "id_Namespace (GetMergedInfrastructureDetails defaults svc) = Some (env EnvClusterNamespace)"
    "id_NetworkID (GetMergedInfrastructureDetails defaults svc) = Some (env EnvNetworkID)"
    "\<exists>az. id_AvailabilityZone (GetMergedInfrastructureDetails defaults svc) = Some az"
    by (auto simp: GetMergedInfrastructureDetails_def GetInfrastructureDetailsFromService_def Let_def d over_def split: option.splits)
  show ?thesis
    using flavor image rest
    by (auto simp: Let_def getLoadBalancerNamespacedName_def getDefaultNetwork_def infrastructure_of_def at_ptr_def)
qed

lemmas env_names = EnvClusterNamespace_def EnvAuthSecretName_def EnvFloatingNetID_def EnvNetworkID_def EnvSubnetID_def EnvFlavorID_def
  EnvFlavorName_def EnvFlavorSearch_def EnvImageID_def EnvImageName_def EnvImageSearch_def EnvAvailabilityZone_def EnvInternalLB_def

definition example_env :: "string \<Rightarrow> string" where
  "example_env = at_key [EnvAuthSecretName \<mapsto> ''secret'', EnvFloatingNetID \<mapsto> ''float'', EnvNetworkID \<mapsto> ''net'',
     EnvClusterNamespace \<mapsto> ''ns'', EnvFlavorID \<mapsto> ''f1'', EnvImageName \<mapsto> ''alpine'']"

lemma defaults_make_buildable_infrastructure_witness:
  "\<exists>defaults (infra :: infrastructure). getInfrastructureDefaultsFromEnvOrDie example_env = Ok defaults \<and>
     infra_AuthSecretRef infra = \<lparr>ref_Name = ''secret'', ref_Namespace = ''ns''\<rparr> \<and> GetImageID (infra_Image infra) = Ok [] \<and>
     GetFlavorID (infra_Flavor infra) \<noteq> Ok []"
proof -
  have "getInfrastructureDefaultsFromEnvOrDie example_env \<noteq> Crash c \<and> getInfrastructureDefaultsFromEnvOrDie example_env \<noteq> Err e" for c e
    by (simp add: getInfrastructureDefaultsFromEnvOrDie_def example_env_def required_def one_of_def bool_env_def optional_def env_names)
  then obtain defaults where d: "getInfrastructureDefaultsFromEnvOrDie example_env = Ok defaults"
    by (cases "getInfrastructureDefaultsFromEnvOrDie example_env") blast+
  have e: "example_env EnvAuthSecretName = ''secret''" "example_env EnvClusterNamespace = ''ns''" "example_env EnvImageID = []"
    "example_env EnvFlavorID = ''f1''" "at_key (meta_Annotations example_svc) ServiceImageID = []"
    by (simp_all add: example_env_def env_names example_svc_def)
  from defaults_make_buildable_infrastructure [OF d, of example_svc None] obtain infra :: infrastructure and flavor where
    "infra_AuthSecretRef infra = \<lparr>ref_Name = ''secret'', ref_Namespace = ''ns''\<rparr>" "GetImageID (infra_Image infra) = Ok []"
    "GetFlavorID (infra_Flavor infra) = Ok flavor" "flavor \<noteq> []"
    by (auto simp: Let_def e)
  with d show ?thesis by fastforce
qed

end
