(* ===== verification/Watches.thy ===== *)
theory Watches
  imports Nodes LBSController YawolletReady
begin

text \<open>
  Which events the controllers look at: the filters that \<open>SetupWithManager\<close> installs
  (\<open>yawolNodePredicate\<close> of the cloud controller, those of the LoadBalancerSet, the LoadBalancerMachine and the yawollet
  controllers; the one for sets in the LoadBalancer controller is in \<open>LBController\<close>), and that a dropped update would have
  changed nothing. The predicates of controller-runtime are parameters; the locale \<open>event_predicates\<close> states what is
  documented of them.
\<close>

section \<open>Events and predicates\<close>

datatype 'o watch_event = OnCreate 'o | OnUpdate 'o 'o | OnDelete 'o | OnGeneric 'o

text \<open>\<open>GenerationChangedPredicate\<close>, \<open>AnnotationChangedPredicate\<close> and \<open>LabelChangedPredicate\<close>.\<close>

record 'o predicates =
  GenerationChanged :: "'o watch_event \<Rightarrow> bool"
  AnnotationChanged :: "'o watch_event \<Rightarrow> bool"
  LabelChanged :: "'o watch_event \<Rightarrow> bool"

text \<open>They look at updates only. The number of the generation is not among the fields of the model.\<close>

locale event_predicates =
  fixes pr :: "'a object_meta_scheme predicates" and generation :: "'a object_meta_scheme \<Rightarrow> int"
  assumes generation_update: "GenerationChanged pr (OnUpdate old new) = (generation old \<noteq> generation new)"
    and annotation_update: "AnnotationChanged pr (OnUpdate old new) = (meta_Annotations old \<noteq> meta_Annotations new)"
    and label_update: "LabelChanged pr (OnUpdate old new) = (meta_Labels old \<noteq> meta_Labels new)"
    and other_events: "(\<And>old new. e \<noteq> OnUpdate old new) \<Longrightarrow> GenerationChanged pr e \<and> AnnotationChanged pr e \<and> LabelChanged pr e"

section \<open>The filters\<close>

text \<open>\<open>predicate.Or\<close> and \<open>predicate.And\<close> are the connectives. \<open>NewPredicateFuncs\<close> applies a test to the object of the
  event, of an update to the new one.\<close>

fun event_object :: "'o watch_event \<Rightarrow> 'o" where
  "event_object (OnCreate new) = new"
| "event_object (OnUpdate old new) = new"
| "event_object (OnDelete old) = old"
| "event_object (OnGeneric obj) = obj"

fun yawolNodePredicate :: "node watch_event \<Rightarrow> bool" where
  "yawolNodePredicate (OnCreate n) = True"
| "yawolNodePredicate (OnDelete n) = True"
| "yawolNodePredicate (OnUpdate old new) = node_update_relevant old new"
| "yawolNodePredicate (OnGeneric n) = False"

definition set_filter :: "load_balancer_set predicates \<Rightarrow> load_balancer_set watch_event \<Rightarrow> bool" where
  "set_filter pr e = (GenerationChanged pr e \<or> AnnotationChanged pr e \<or> LabelChanged pr e)"

definition machine_filter :: "load_balancer_machine predicates \<Rightarrow> load_balancer_machine watch_event \<Rightarrow> bool" where
  "machine_filter pr e = GenerationChanged pr e"

definition yawollet_filter :: "load_balancer predicates \<Rightarrow> 'w yawollet \<Rightarrow> load_balancer watch_event \<Rightarrow> bool" where
  "yawollet_filter pr y e =
     (meta_Name (event_object e) = y_LoadbalancerName y \<and> (AnnotationChanged pr e \<or> GenerationChanged pr e))"

context event_predicates begin

lemma quiet_update:
  "\<not> (AnnotationChanged pr (OnUpdate old new) \<or> GenerationChanged pr (OnUpdate old new)) \<longleftrightarrow>
     meta_Annotations new = meta_Annotations old \<and> generation new = generation old"
  by (auto simp: generation_update annotation_update)

lemma quiet_update_labels:
  "\<not> (GenerationChanged pr (OnUpdate old new) \<or> AnnotationChanged pr (OnUpdate old new) \<or> LabelChanged pr (OnUpdate old new)) \<longleftrightarrow>
     meta_Annotations new = meta_Annotations old \<and> generation new = generation old \<and> meta_Labels new = meta_Labels old"
  by (auto simp: generation_update annotation_update label_update)

end

section \<open>What the yawollet reads of its LoadBalancer\<close>

text \<open>The spec, the annotations and, for events, the key.\<close>

definition same_input :: "load_balancer \<Rightarrow> load_balancer \<Rightarrow> bool" where
  "same_input a b = (lb_Spec a = lb_Spec b \<and> meta_Annotations a = meta_Annotations b \<and> key_of a = key_of b)"

text \<open>Each function of the configuration and of the debugging is determined by them.\<close>

lemmas same_inputD = same_input_def [THEN iffD1, THEN conjunct1] same_input_def [THEN iffD1, THEN conjunct2, THEN conjunct1]
  same_input_def [THEN iffD1, THEN conjunct2, THEN conjunct2]

lemma same_source_ranges: "same_input a b \<Longrightarrow> source_ranges a = source_ranges b"
  by (simp add: source_ranges_def same_inputD)

lemma same_ignoredEvent: "same_input a b \<Longrightarrow> ignoredEvent e a = ignoredEvent e b"
  by (simp add: ignoredEvent_def same_inputD)

lemma same_collectPrincipals: "same_input a b \<Longrightarrow> collectPrincipals a rs = collectPrincipals b rs"
  by (induction rs) (simp_all add: same_ignoredEvent cong: option.case_cong)

lemma same_createEnvoyTCPListener: "same_input a b \<Longrightarrow> createEnvoyTCPListener lib a addr port = createEnvoyTCPListener lib b addr port"
  by (simp add: createEnvoyTCPListener_def createEnvoyRBACRules_def same_source_ranges same_collectPrincipals same_ignoredEvent same_inputD
      cong: if_cong result.case_cong)

lemma same_createEnvoyUDPListener: "same_input a b \<Longrightarrow> createEnvoyUDPListener lib a addr port = createEnvoyUDPListener lib b addr port"
  by (simp add: createEnvoyUDPListener_def same_inputD)

lemma same_listeners_loop: "same_input a b \<Longrightarrow> listeners_loop lib a addr ports = listeners_loop lib b addr ports"
  by (induction ports) (simp_all add: same_createEnvoyTCPListener same_createEnvoyUDPListener)

lemma same_createEnvoyCluster: "same_input a b \<Longrightarrow> createEnvoyCluster lib cpus a = createEnvoyCluster lib cpus b"
  by (simp add: createEnvoyCluster_def clusterPort_def endpoints_of_def same_inputD fun_eq_iff)

lemma same_CreateEnvoyConfig: "same_input a b \<Longrightarrow> CreateEnvoyConfig lib cpus old a addr = CreateEnvoyConfig lib cpus old b addr"
  by (simp add: CreateEnvoyConfig_def createEnvoyListener_def same_listeners_loop same_createEnvoyCluster endpoints_of_def same_inputD
      cong: option.case_cong)

lemma same_EnableAdHocDebugging: "same_input a b \<Longrightarrow> EnableAdHocDebugging h a lbm n = EnableAdHocDebugging h b lbm n"
  by (simp add: EnableAdHocDebugging_def same_inputD cong: option.case_cong if_cong)

lemma same_reconcileAndReport: "same_input a b \<Longrightarrow> reconcileAndReport y a lbm = reconcileAndReport y b lbm"
  by (simp add: reconcileAndReport_def reconcile_y_def same_CreateEnvoyConfig same_EnableAdHocDebugging)

section \<open>Dropped updates\<close>

text \<open>C28. The yawollet misses nothing. An update that its filter drops is either one of another LoadBalancer, for which
  the reconciler would return at once, or it left the spec and the annotations alone, and then the whole run on the new
  object (ad-hoc debugging, configuration, conditions and report) is the one on the old object. This rests on the
  API server counting every change of a spec in the generation.\<close>

theorem dropped_updates_change_nothing:
  assumes "event_predicates pr generation" and "key_of new = key_of old"
    and "generation old = generation new \<Longrightarrow> lb_Spec old = lb_Spec new"
    and "\<not> yawollet_filter pr y (OnUpdate old new)"
  shows "if meta_Name new = y_LoadbalancerName y then reconcileAndReport y new lbm = reconcileAndReport y old lbm
    else Reconcile_y y (key_of new) = ret None"
proof (cases "meta_Name new = y_LoadbalancerName y")
  case True
  with assms(4) have "meta_Annotations new = meta_Annotations old \<and> generation new = generation old"
    by (simp add: yawollet_filter_def event_predicates.quiet_update [OF assms(1), symmetric])
  with assms(2,3) have "same_input new old" by (simp add: same_input_def)
  with True show ?thesis using same_reconcileAndReport by simp
qed (simp add: Reconcile_y_def key_of_def)

text \<open>The same for sets: what the set controller makes of a set is unchanged.\<close>

lemma dropped_set_updates_change_nothing:
  assumes "event_predicates pr generation" and "\<not> set_filter pr (OnUpdate old new)"
    and "generation old = generation new \<Longrightarrow> set_Spec old = set_Spec new"
    and "meta_APIVersion old = meta_APIVersion new" "meta_Kind old = meta_Kind new" "meta_UID old = meta_UID new" "key_of old = key_of new"
  shows "reconcileReplicas k new ms d = reconcileReplicas k old ms d"
proof -
  have "set_Spec new = set_Spec old" "meta_Annotations new = meta_Annotations old"
    using assms(2,3) event_predicates.quiet_update_labels [OF assms(1), of old new] by (simp_all add: set_filter_def)
  then show ?thesis
    using assms(4-) by (simp add: reconcileReplicas_def createMachine_def new_machine_def getMachineLabelsFromSet_def key_of_def)
qed

section \<open>The predicates of controller-runtime, concretely\<close>

definition on_update :: "('o \<Rightarrow> 'o \<Rightarrow> bool) \<Rightarrow> 'o watch_event \<Rightarrow> bool" where
  "on_update f e = (case e of OnUpdate old new \<Rightarrow> f old new | _ \<Rightarrow> True)"

definition standard_predicates :: "('a object_meta_scheme \<Rightarrow> int) \<Rightarrow> 'a object_meta_scheme predicates" where
  "standard_predicates generation =
     \<lparr>GenerationChanged = on_update (\<lambda>old new. generation old \<noteq> generation new),
      AnnotationChanged = on_update (\<lambda>old new. meta_Annotations old \<noteq> meta_Annotations new),
      LabelChanged = on_update (\<lambda>old new. meta_Labels old \<noteq> meta_Labels new)\<rparr>"

interpretation standard: event_predicates "standard_predicates generation" generation for generation
  by unfold_locales (simp_all add: standard_predicates_def on_update_def split: watch_event.split)

text \<open>A LoadBalancer whose number of ready replicas changes in the status, with the replicas as generation.\<close>

definition replicas_generation :: "load_balancer \<Rightarrow> int" where
  "replicas_generation lb = spec_Replicas (lb_Spec lb)"

definition status_update :: load_balancer where
  "status_update = plain_lb\<lparr>lb_Status := (lb_Status plain_lb)\<lparr>ReadyReplicas := Some 1\<rparr>\<rparr>"

lemma dropped_updates_change_nothing_witness:
  "status_update \<noteq> plain_lb \<and>
   reconcileAndReport fake_yawollet status_update example_machine = reconcileAndReport fake_yawollet plain_lb example_machine"
proof -
  have "\<not> yawollet_filter (standard_predicates replicas_generation) fake_yawollet (OnUpdate plain_lb status_update)"
    by (simp add: yawollet_filter_def standard_predicates_def on_update_def status_update_def replicas_generation_def)
  note dropped = dropped_updates_change_nothing [OF standard.event_predicates_axioms [of replicas_generation],
      of status_update plain_lb fake_yawollet example_machine, OF _ _ this]
  have "meta_Name status_update = y_LoadbalancerName fake_yawollet" "key_of status_update = key_of plain_lb"
    "lb_Spec plain_lb = lb_Spec status_update" "status_update \<noteq> plain_lb"
    by (simp_all add: status_update_def key_of_def fake_yawollet_def plain_lb_def zero_lb_def zero_lb_status_def)
  then show ?thesis using dropped by simp
qed

end
