(* ===== verification/EndToEnd.thy ===== *)
theory EndToEnd
  imports ServiceOutcome YawolletReady LBSController
begin

text \<open>
  Properties of several controllers together: what the cloud controller makes of a Service, the yawollet serves; and
  the machines of a LoadBalancer, made by two controllers, find their LoadBalancer and know whether they are current.
\<close>

section \<open>From the Service to Envoy\<close>

text \<open>An endpoint without addresses has none in JSON either, and is read back as one whose addresses are nil; an object
  that was read from the API has no other empty lists.\<close>

definition as_read :: "load_balancer \<Rightarrow> bool" where
  "as_read lb = (\<forall>e \<in> set (endpoints_of lb). json_endpoint e = e)"

definition reachable :: "endpoint \<Rightarrow> bool" where
  "reachable e = (addresses_of e \<noteq> [] \<and> (\<forall>a \<in> set (addresses_of e). is_dns_name a \<or> ParseAddr a \<noteq> None))"

lemma synced_endpoints:
  assumes "\<forall>e \<in> set (case spec_Endpoints sp of None \<Rightarrow> [] | Some eps \<Rightarrow> eps). json_endpoint e = e"
  shows "\<exists>eps. spec_Endpoints (sync_endpoints svc nodes sp) = Some eps \<and>
    set eps = json_endpoint ` set (getEndpointsFromNodes nodes (svc_IPFamilies svc))"
proof (cases "EqualLoadBalancerEndpoints (spec_Endpoints sp) (Some (getEndpointsFromNodes nodes (svc_IPFamilies svc)))")
  case True
  then obtain eps where eps: "spec_Endpoints sp = Some eps"
    "sort_endpoints eps = sort_endpoints (getEndpointsFromNodes nodes (svc_IPFamilies svc))"
    by (auto simp: EqualLoadBalancerEndpoints_def)
  have "set (sort_endpoints eps) = set (sort_endpoints (getEndpointsFromNodes nodes (svc_IPFamilies svc)))"
    using eps(2) by simp
  then have s: "set eps = set (getEndpointsFromNodes nodes (svc_IPFamilies svc))"
    by (simp add: sort_endpoints_def)
  have "json_endpoint ` set eps = set eps"
    using assms by (simp add: eps(1) image_def)
  with True eps(1) s show ?thesis
    by (simp add: sync_endpoints_def merge_if_def Let_def)
next
  case False
  then show ?thesis by (simp add: sync_endpoints_def merge_if_def Let_def sort_endpoints_def)
qed

text \<open>The fields the yawollet reads, after a successful synchronisation.\<close>

lemma synced_fields:
  assumes "control_plane cl stored" and "stored (world s) (key_of lb) = Some lb" and "as_read lb"
    and "syncLoadBalancer cl cfg svc lb s = (Ok lb', t)"
  shows "\<exists>nodes. listed cl nodes \<and> spec_Ports (lb_Spec lb') = svc_Ports svc \<and>
    set (endpoints_of lb') = json_endpoint ` set (getEndpointsFromNodes nodes (svc_IPFamilies svc))"
proof -
  obtain nodes infra ks where nodes: "listed cl nodes"
    and sp: "lb_Spec lb' = sync_spec svc nodes infra (id_InternalLB cfg) (options_with svc ks) (lb_Spec lb)"
    using runsD [OF control_plane.implements_runs [OF assms(1) control_plane.implements_sync [OF assms(1)] assms(2)] assms(4)]
    by (auto simp: control_plane.ends_def [OF assms(1)])
  have "\<exists>eps. spec_Endpoints (lb_Spec lb') = Some eps \<and> set eps = json_endpoint ` set (getEndpointsFromNodes nodes (svc_IPFamilies svc))"
    using assms(3) unfolding sp sync_spec_def sync_keeps by (intro synced_endpoints) (simp add: as_read_def endpoints_of_def)
  moreover have "spec_Ports (lb_Spec lb') = svc_Ports svc"
    by (simp add: sp sync_spec_def sync_keeps)
  ultimately show ?thesis using nodes by (auto simp: endpoints_of_def)
qed

lemma check_json_endpoints:
  assumes "set eps = json_endpoint ` E" and "\<forall>e \<in> E. ep_Addresses e \<noteq> None"
  shows "check_endpoints eps = None \<longleftrightarrow> (\<forall>e \<in> E. reachable e)"
proof -
  have "ep_Addresses (json_endpoint e) \<noteq> None \<and> (\<forall>a \<in> set (addresses_of (json_endpoint e)). is_dns_name a \<or> ParseAddr a \<noteq> None) \<longleftrightarrow>
      reachable e" if "e \<in> E" for e
    using that assms(2) by (auto simp: json_endpoint_def reachable_def addresses_of_def split: option.splits)
  then show ?thesis by (simp add: check_endpoints_None assms(1))
qed

lemma node_endpoints_have_addresses: "\<forall>e \<in> set (getEndpointsFromNodes ns fs). ep_Addresses e \<noteq> None"
  by (auto simp: getEndpointsFromNodes_def endpoints_loop_eq getLoadBalancerEndpointFromNode_def Let_def split: if_splits)

lemma validated_ports:
  assumes "ValidateService svc = None" and "\<forall>p \<in> set (svc_Ports svc). 1 \<le> sp_Port p \<and> sp_Port p \<le> 65535"
  shows "check_ports (svc_Ports svc) = None"
proof -
  have "check_ports ps = None" if "validate_ports ps = None" "\<forall>p \<in> set ps. 1 \<le> sp_Port p \<and> sp_Port p \<le> 65535" for ps
    using that by (induction ps) (auto simp: protocolTCP_def protocolUDP_def split: if_splits)
  with assms show ?thesis by (auto simp: ValidateService_def split: if_splits)
qed

lemma listeners_encoded:
  assumes "\<And>m. any_Error lib m = None"
  shows "is_Ok (listeners_of lib lb addr ports)"
proof -
  have "\<exists>ls. listeners_of lib lb addr ports = Ok ls"
    using assms by (induction ports) (auto simp: bindR_def mustR_def listener_of_def any_New_def)
  then show ?thesis by auto
qed

lemma config_of_Ok_iff:
  assumes "indexes_resources lib" and "\<And>m. any_Error lib m = None" and "check_ports (spec_Ports (lb_Spec lb)) = None"
  shows "is_Ok (config_of lib cpus old lb addr) \<longleftrightarrow> check_endpoints (endpoints_of lb) = None"
proof -
  obtain ls where "listeners_of lib lb addr (spec_Ports (lb_Spec lb)) = Ok ls"
    using listeners_encoded [OF assms(2)] by (metis is_Ok.elims(2))
  with assms show ?thesis
    by (auto simp: config_of_def bindR_simps indexes_resources_def split: option.split)
qed


lemma example_synced_endpoints:
  assumes "syncLoadBalancer mem_clusters example_defaults example_svc example_created example_start = (Ok lb, t)"
  shows "spec_Endpoints (lb_Spec lb) = Some [\<lparr>ep_Name = ''a'', ep_Addresses = Some [''10.0.0.1'']\<rparr>]"
  using assms
  by (simp add: mem_run sync_run example_defs example_endpoints example_replicas Let_def sort_endpoints_def json_endpoint_def
      merge_infrastructure_def over_string_def over_def merge_network_def merge_image_def merge_flavor_def zero_options_def split: prod.splits if_splits)
    (auto simp: ret_def fail_def split: result.splits)


section \<open>From the LoadBalancer to its machines\<close>

text \<open>What the API server keeps of a set that is created.\<close>

definition stored_as :: "load_balancer_set \<Rightarrow> load_balancer_set \<Rightarrow> bool" where
  "stored_as new lbs \<longleftrightarrow> meta_Name lbs = meta_Name new \<and> meta_Namespace lbs = meta_Namespace new \<and>
     meta_Labels lbs = meta_Labels new \<and> meta_Annotations lbs = meta_Annotations new \<and> set_Spec lbs = set_Spec new"

lemma new_set_fields:
  assumes "NewLoadBalancerSetForLoadBalancer lb hash revision s = (Ok lbs, s')"
  shows "meta_Namespace lbs = meta_Namespace lb \<and> meta_Annotations lbs = [RevisionAnnotation \<mapsto> Itoa revision] \<and>
     meta_Labels lbs = (MatchLabels (spec_Selector (lb_Spec lb)))(HashLabel \<mapsto> hash) \<and>
     MatchLabels (sspec_Selector (set_Spec lbs)) = meta_Labels lbs \<and>
     mspec_LoadBalancerRef (tmpl_Spec (sspec_Template (set_Spec lbs))) = \<lparr>lbr_Name = meta_Name lb, lbr_Namespace = meta_Namespace lb\<rparr> \<and>
     PortID (lb_Status lb) = Some (mspec_PortID (tmpl_Spec (sspec_Template (set_Spec lbs))))"
  using assms
  by (auto simp: NewLoadBalancerSetForLoadBalancer_def Let_def deref_def crash_def ret_def
      GetLoadBalancerSetLabelsFromLoadBalancer_def split: option.splits)

lemma revision_check_run:
  assumes "k_GetLB k lbKey (world s) = (Ok lb, w1)" and "k_GetMachine k mKey w1 = (Ok m, w2)"
    and "LoadBalancerRevisionHealthz k lbKey mKey s = (r, t)"
  shows "is_Ok r \<longleftrightarrow> at_key (meta_Annotations lb) RevisionAnnotation = at_key (meta_Annotations m) RevisionAnnotation"
  using assms
  by (auto simp: LoadBalancerRevisionHealthz_def catchM_def ext_def fail_def ret_def Let_def split: if_splits)

text \<open>C16. From the LoadBalancer to its machines. A machine that the set controller makes of a set that the LoadBalancer
  controller made is found by the selector of the set, and so are both by the selector of the LoadBalancer; it refers to the
  LoadBalancer in its own namespace, so that the machine controller and the yawollet look after that one, and to
  its port; and the revision check of the yawollet on it passes exactly as long as the revision of the LoadBalancer is still
  the one the set was made with.\<close>

theorem machines_belong_to_their_loadbalancer:
  fixes s :: "('w, call, 'z) st_scheme"
  assumes "NewLoadBalancerSetForLoadBalancer lb hash revision s0 = (Ok new, s1)" and "stored_as new lbs"
    and "created_machine lbs m" and "HashLabel \<notin> dom (MatchLabels (spec_Selector (lb_Spec lb)))"
    and "in_int64 revision" and "in_int64 revision'"
    and "k_GetLB k (key_of lb) (world s) = (Ok lb', w1)" and "meta_Annotations lb' RevisionAnnotation = Some (Itoa revision')"
    and "k_GetMachine k (key_of m) w1 = (Ok m', w2)" and "meta_Annotations m' = meta_Annotations m"
    and "LoadBalancerRevisionHealthz k (key_of lb) (key_of m) s = (r, t)"
  shows "owned lbs m \<and> GetLoadBalancerSetLabelsFromLoadBalancer lb \<subseteq>\<^sub>m meta_Labels lbs \<and>
     GetLoadBalancerSetLabelsFromLoadBalancer lb \<subseteq>\<^sub>m meta_Labels m \<and>
     mspec_LoadBalancerRef (lbm_Spec m) = \<lparr>lbr_Name = meta_Name lb, lbr_Namespace = meta_Namespace m\<rparr> \<and>
     PortID (lb_Status lb) = Some (mspec_PortID (lbm_Spec m)) \<and>
     (is_Ok r \<longleftrightarrow> revision' = revision)"
proof -
  obtain suffix where m: "m = new_machine lbs (meta_Name lbs @ ''-'' @ suffix)"
    using assms(3) by (auto simp: created_machine_def)
  note new = new_set_fields [OF assms(1)] assms(2) [unfolded stored_as_def]
  have sub: "GetLoadBalancerSetLabelsFromLoadBalancer lb \<subseteq>\<^sub>m meta_Labels lbs"
    using new assms(4) by (auto simp: GetLoadBalancerSetLabelsFromLoadBalancer_def map_le_def)
  have labels: "meta_Labels m = meta_Labels lbs" "getMachineLabelsFromSet lbs = meta_Labels lbs"
    using new by (simp_all add: m new_machine_def getMachineLabelsFromSet_def)
  have rev: "at_key (meta_Annotations m') RevisionAnnotation = Itoa revision"
    using new by (simp add: assms(10) m new_machine_def at_key_def)
  have "is_Ok r \<longleftrightarrow> Itoa revision' = Itoa revision"
    using revision_check_run [OF assms(7,9,11)] rev assms(8) by (simp add: at_key_def)
  then have "is_Ok r \<longleftrightarrow> revision' = revision"
    using Itoa_inject [OF assms(6,5)] by simp
  moreover have "owned lbs m"
    using labels by (simp add: owned_def m new_machine_def)
  moreover have "lbm_Spec m = tmpl_Spec (sspec_Template (set_Spec new))" "meta_Namespace m = meta_Namespace lb"
    using new by (simp_all add: m new_machine_def)
  ultimately show ?thesis
    using sub labels new by simp
qed

text \<open>A set of revision 3, one of its machines, and an API where the LoadBalancer has moved on to revision 4.\<close>

definition ported_lb :: load_balancer where
  "ported_lb = plain_lb\<lparr>lb_Status := zero_lb_status\<lparr>PortID := Some ''p''\<rparr>\<rparr>"

definition moved_on_kube :: "load_balancer_machine \<Rightarrow> mem kube" where
  "moved_on_kube m = yawollet_kube\<lparr>k_GetLB := (\<lambda>_ w. (Ok (ported_lb\<lparr>meta_Annotations := [RevisionAnnotation \<mapsto> Itoa 4]\<rparr>), w)),
     k_GetMachine := (\<lambda>_ w. (Ok m, w))\<rparr>"

lemma machines_belong_to_their_loadbalancer_witness:
  "\<exists>new m r t. NewLoadBalancerSetForLoadBalancer ported_lb ''h'' 3 yawollet_world = (Ok new, yawollet_world) \<and> created_machine new m \<and>
     owned new m \<and> LoadBalancerRevisionHealthz (moved_on_kube m) (key_of ported_lb) (key_of m)
       (\<lparr>world = yawollet_world, trace = []\<rparr> :: (mem, call) st) = (r, t) \<and> \<not> is_Ok r"
proof -
  let ?s = "\<lparr>world = yawollet_world, trace = []\<rparr> :: (mem, call) st"
  obtain new where new: "NewLoadBalancerSetForLoadBalancer ported_lb ''h'' 3 yawollet_world = (Ok new, yawollet_world)"
    by (simp add: NewLoadBalancerSetForLoadBalancer_def ported_lb_def deref_def ret_def Let_def)
  define m where "m = new_machine new (meta_Name new @ ''-'' @ ''0a1b2'')"
  have m: "created_machine new m" "stored_as new new"
    unfolding created_machine_def m_def stored_as_def hex_digits_def by (auto intro!: exI [of _ "''0a1b2''"])
  obtain r t where run: "LoadBalancerRevisionHealthz (moved_on_kube m) (key_of ported_lb) (key_of m) ?s = (r, t)"
    by fastforce
  have "HashLabel \<notin> dom (MatchLabels (spec_Selector (lb_Spec ported_lb)))"
    by (simp add: ported_lb_def plain_lb_def zero_lb_def zero_lb_spec_def)
  moreover have "in_int64 3" "in_int64 4" by (simp_all add: in_int64_def)
  moreover have "k_GetLB (moved_on_kube m) (key_of ported_lb) (world ?s) =
      (Ok (ported_lb\<lparr>meta_Annotations := [RevisionAnnotation \<mapsto> Itoa 4]\<rparr>), yawollet_world)"
    "k_GetMachine (moved_on_kube m) (key_of m) yawollet_world = (Ok m, yawollet_world)"
    by (simp_all add: moved_on_kube_def)
  ultimately have "owned new m \<and> (is_Ok r \<longleftrightarrow> (4 :: int) = 3)"
    using machines_belong_to_their_loadbalancer [OF new m(2,1) _ _ _ _ _ _ refl run] by simp
  with new m(1) run show ?thesis by auto
qed

section \<open>And back\<close>

text \<open>The LoadBalancer of a set, by its first owner of that kind.\<close>

definition GetLoadBalancerForLoadBalancerSet :: "'w kube \<Rightarrow> load_balancer_set \<Rightarrow> (('w, call, 'z) st_scheme, load_balancer option) gop" where
  "GetLoadBalancerForLoadBalancerSet k loadBalancerSet =
     (case List.find (\<lambda>ref. or_Kind ref = LoadBalancerKind) (meta_OwnerReferences loadBalancerSet) of
        None \<Rightarrow> ret None
      | Some ref \<Rightarrow>
          (let key = \<lparr>nn_Namespace = meta_Namespace loadBalancerSet, nn_Name = or_Name ref\<rparr> in
           bindM (ext (CGetLB key) (k_GetLB k key)) (\<lambda>lb. ret (Some lb))))"

text \<open>It finds the LoadBalancer that the set was made for, if that one's kind was filled in.\<close>

lemma set_leads_back:
  assumes "NewLoadBalancerSetForLoadBalancer lb hash revision s = (Ok lbs, s')"
  shows "GetLoadBalancerForLoadBalancerSet k lbs =
    (if meta_Kind lb = LoadBalancerKind then bindM (ext (CGetLB (key_of lb)) (k_GetLB k (key_of lb))) (\<lambda>lb. ret (Some lb)) else ret None)"
proof -
  have "meta_OwnerReferences lbs = [GetOwnersReferenceForLB lb]" "meta_Namespace lbs = meta_Namespace lb"
    using assms by (auto simp: NewLoadBalancerSetForLoadBalancer_def Let_def deref_def crash_def ret_def split: option.splits)
  then show ?thesis
    by (simp add: GetLoadBalancerForLoadBalancerSet_def GetOwnersReferenceForLB_def key_of_def Let_def)
qed

end
