(* ===== verification/Programs.thy ===== *)
theory Programs
  imports Startup YawolletReady
begin

text \<open>
  The programs of \<open>cmd\<close>: what \<open>yawol-controller\<close>, \<open>yawol-cloud-controller\<close> and \<open>yawollet\<close> make of their flags and their
  environment, which managers with which controllers they start, and when they end; and the version of the server that the
  machine controller asks for (\<open>internal/helper/kubernetes/version.go\<close>). The flag library and controller-runtime are
  parameters.
\<close>

section \<open>Flags\<close>

text \<open>The values that the command line gives, by name and kind, once \<open>fs.Parse\<close> has succeeded. Defaults are the code's.\<close>

record flag_values =
  fl_String :: "string \<Rightarrow> string option"
  fl_Int :: "string \<Rightarrow> int option"
  fl_Bool :: "string \<Rightarrow> bool option"
  fl_Duration :: "string \<Rightarrow> int option"
  fl_StringSlice :: "string \<Rightarrow> string list option"

definition flag_or :: "(string \<Rightarrow> 'a option) \<Rightarrow> string \<Rightarrow> 'a \<Rightarrow> 'a" where
  "flag_or given name absent = (case given name of None \<Rightarrow> absent | Some v \<Rightarrow> v)"

text \<open>\<open>time.Duration(i) * time.Second\<close>, in 64 bits.\<close>

definition seconds_of :: "int \<Rightarrow> int" where
  "seconds_of i = wrap64 (i * Second)"

record lease_flags =
  leasesDuration :: int
  leasesRenewDeadline :: int
  leasesRetryPeriod :: int
  leasesLeaderElectionResourceLock :: string

definition lease_flags_of :: "flag_values \<Rightarrow> lease_flags" where
  "lease_flags_of fl =
     \<lparr>leasesDuration = seconds_of (flag_or (fl_Int fl) ''leases-duration'' 60),
      leasesRenewDeadline = seconds_of (flag_or (fl_Int fl) ''leases-renew-deadline'' 50),
      leasesRetryPeriod = seconds_of (flag_or (fl_Int fl) ''leases-retry-period'' 10),
      leasesLeaderElectionResourceLock = flag_or (fl_String fl) ''leases-leader-election-resource-lock'' ''leases''\<rparr>"

section \<open>Managers\<close>

text \<open>The fields of \<open>ctrl.Options\<close> that the programs set. No namespaces stand for all.\<close>

record manager_options =
  mo_MetricsBindAddress :: string
  mo_LeaderElection :: bool
  mo_LeaderElectionID :: string
  mo_Leases :: lease_flags
  mo_Namespaces :: "string list"

text \<open>The rate limiter: an exponential delay per item, and ten retries a second in all with bursts of a hundred.\<close>

record rate_limiter =
  rl_BaseDelay :: int
  rl_MaxDelay :: int
  rl_Limit :: int
  rl_Burst :: int

definition rate_limiter_of :: "int \<Rightarrow> int \<Rightarrow> rate_limiter" where
  "rate_limiter_of base_delay max_delay = \<lparr>rl_BaseDelay = base_delay, rl_MaxDelay = max_delay, rl_Limit = 10, rl_Burst = 100\<rparr>"

text \<open>The reconcilers with their settings, as they are set up.\<close>

datatype installed =
    LoadBalancerSetup int rate_limiter int
  | LoadBalancerSetSetup int rate_limiter
  | LBMStatusSetup int rate_limiter int
  | LoadBalancerMachineSetup int rate_limiter int string int "string list" "string list"
  | ServiceSetup infrastructure_defaults "string list"
  | NodeSetup infrastructure_defaults
  | ServiceStatusSetup
  | EventSetup
  | YawolletSetup int

record manager =
  mgr_Options :: manager_options
  mgr_Setups :: "installed list"

text \<open>What controller-runtime answers: the loading of a kubeconfig, \<open>ctrl.NewManager\<close>, \<open>SetupWithManager\<close>,
  \<open>AddHealthzCheck\<close> and \<open>AddReadyzCheck\<close>, and the discovery client, which panics.\<close>

record manager_lib =
  ml_GetConfig :: "goerr option"
  ml_LoadKubeconfig :: "string \<Rightarrow> goerr option"
  ml_NewManager :: "manager_options \<Rightarrow> goerr option"
  ml_Setup :: "installed \<Rightarrow> goerr option"
  ml_AddCheck :: "string \<Rightarrow> goerr option"
  ml_DiscoveryClient :: "goerr option"

text \<open>\<open>os.Exit(1)\<close> after an error.\<close>

definition exit_on :: "goerr option \<Rightarrow> 'a result \<Rightarrow> 'a result" where
  "exit_on e r = (case e of None \<Rightarrow> r | Some err \<Rightarrow> Err err)"

fun exit_on_any :: "goerr option list \<Rightarrow> 'a result \<Rightarrow> 'a result" where
  "exit_on_any [] r = r"
| "exit_on_any (e # es) r = exit_on e (exit_on_any es r)"

definition new_manager :: "manager_lib \<Rightarrow> manager_options \<Rightarrow> installed list \<Rightarrow> manager result" where
  "new_manager ml opts setups =
     exit_on (ml_NewManager ml opts) (exit_on_any (map (ml_Setup ml) setups)
       (Ok \<lparr>mgr_Options = opts, mgr_Setups = setups\<rparr>))"

section \<open>The yawol-controller\<close>

definition EnvAPIEndpoint :: string where "EnvAPIEndpoint = ''API_ENDPOINT''"

record controller_flags =
  metricsAddrLb :: string
  metricsAddrLbs :: string
  metricsAddrLbm :: string
  enableLeaderElection :: bool
  concurrentWorkersPerReconciler :: int
  errorBackoffBaseDelay :: int
  errorBackoffMaxDelay :: int
  lbController :: bool
  lbSetController :: bool
  lbMachineController :: bool
  yawolletRequeueTime :: int
  lbmDeletionGracePeriod :: int
  ntpPools :: "string list"
  ntpServers :: "string list"
  openstackTimeout :: int

definition controller_flags_of :: "flag_values \<Rightarrow> controller_flags" where
  "controller_flags_of fl =
     \<lparr>metricsAddrLb = flag_or (fl_String fl) ''metrics-addr-lb'' '':8080'',
      metricsAddrLbs = flag_or (fl_String fl) ''metrics-addr-lbm'' '':8081'',
      metricsAddrLbm = flag_or (fl_String fl) ''metrics-addr-lbs'' '':8082'',
      enableLeaderElection = flag_or (fl_Bool fl) ''leader-elect'' False,
      concurrentWorkersPerReconciler = flag_or (fl_Int fl) ''concurrent-workers'' 30,
      errorBackoffBaseDelay = flag_or (fl_Duration fl) ''error-backoff-base-delay'' (5 * Millisecond),
      errorBackoffMaxDelay = flag_or (fl_Duration fl) ''error-backoff-max-delay'' (1000 * Second),
      lbController = flag_or (fl_Bool fl) ''enable-loadbalancer-controller'' False,
      lbSetController = flag_or (fl_Bool fl) ''enable-loadbalancerset-controller'' False,
      lbMachineController = flag_or (fl_Bool fl) ''enable-loadbalancermachine-controller'' False,
      yawolletRequeueTime = flag_or (fl_Int fl) ''yawollet-requeue-time'' 0,
      lbmDeletionGracePeriod = flag_or (fl_Duration fl) ''lbm-deletion-grace-period'' (2 * Minute),
      ntpPools = flag_or (fl_StringSlice fl) ''ntp-pool'' [],
      ntpServers = flag_or (fl_StringSlice fl) ''ntp-server'' [],
      openstackTimeout = flag_or (fl_Duration fl) ''openstack-timeout'' (20 * Second)\<rparr>"

text \<open>Without a choice all three are enabled.\<close>

definition enabled_controllers :: "controller_flags \<Rightarrow> bool \<times> bool \<times> bool" where
  "enabled_controllers c =
     (if \<not> lbController c \<and> \<not> lbSetController c \<and> \<not> lbMachineController c then (True, True, True)
      else (lbController c, lbSetController c, lbMachineController c))"

definition controller_options :: "controller_flags \<Rightarrow> lease_flags \<Rightarrow> string \<Rightarrow> string \<Rightarrow> string \<Rightarrow> manager_options" where
  "controller_options c leases clusterNamespace metricsAddr electionID =
     \<lparr>mo_MetricsBindAddress = metricsAddr, mo_LeaderElection = enableLeaderElection c, mo_LeaderElectionID = electionID,
      mo_Leases = leases, mo_Namespaces = [clusterNamespace]\<rparr>"

definition optionally :: "bool \<Rightarrow> 'a result \<Rightarrow> ('a option \<Rightarrow> 'b result) \<Rightarrow> 'b result" where
  "optionally enabled r f = (if enabled then bindR r (\<lambda>x. f (Some x)) else f None)"

definition lb_manager :: "manager_lib \<Rightarrow> controller_flags \<Rightarrow> lease_flags \<Rightarrow> rate_limiter \<Rightarrow> string \<Rightarrow> manager result" where
  "lb_manager ml c leases rl clusterNamespace =
     new_manager ml (controller_options c leases clusterNamespace (metricsAddrLb c) ''3a7ac996.stackit.cloud'')
       [LoadBalancerSetup (concurrentWorkersPerReconciler c) rl (openstackTimeout c)]"

definition set_manager :: "manager_lib \<Rightarrow> controller_flags \<Rightarrow> lease_flags \<Rightarrow> rate_limiter \<Rightarrow> string \<Rightarrow> manager result" where
  "set_manager ml c leases rl clusterNamespace =
     new_manager ml (controller_options c leases clusterNamespace (metricsAddrLbs c) ''rgp5vg43.stackit.cloud'')
       [LoadBalancerSetSetup (concurrentWorkersPerReconciler c) rl,
        LBMStatusSetup (concurrentWorkersPerReconciler c) rl (lbmDeletionGracePeriod c)]"

definition machine_manager ::
  "manager_lib \<Rightarrow> (string \<Rightarrow> string) \<Rightarrow> controller_flags \<Rightarrow> lease_flags \<Rightarrow> rate_limiter \<Rightarrow> string \<Rightarrow> manager result" where
  "machine_manager ml env c leases rl clusterNamespace =
     required env EnvAPIEndpoint (\<lambda>apiEndpoint.
       case ml_DiscoveryClient ml of
         Some e \<Rightarrow> Crash (Error_text e)
       | None \<Rightarrow>
           new_manager ml (controller_options c leases clusterNamespace (metricsAddrLbm c) ''tanf7ges.stackit.cloud'')
             [LoadBalancerMachineSetup (concurrentWorkersPerReconciler c) rl (openstackTimeout c) apiEndpoint
                (yawolletRequeueTime c) (ntpPools c) (ntpServers c)])"

text \<open>The program up to the start of its managers.\<close>

definition controller_main ::
  "manager_lib \<Rightarrow> (string \<Rightarrow> string) \<Rightarrow> flag_values \<Rightarrow> (manager option \<times> manager option \<times> manager option) result" where
  "controller_main ml env fl =
     (let c = controller_flags_of fl; leases = lease_flags_of fl; (lb, lbSet, lbMachine) = enabled_controllers c;
          rl = rate_limiter_of (errorBackoffBaseDelay c) (errorBackoffMaxDelay c) in
      required env EnvClusterNamespace (\<lambda>clusterNamespace.
      exit_on (ml_GetConfig ml) (
      optionally lb (lb_manager ml c leases rl clusterNamespace) (\<lambda>loadBalancerMgr.
      optionally lbSet (set_manager ml c leases rl clusterNamespace) (\<lambda>loadBalancerSetMgr.
      optionally lbMachine (machine_manager ml env c leases rl clusterNamespace) (\<lambda>loadBalancerMachineMgr.
      Ok (loadBalancerMgr, loadBalancerSetMgr, loadBalancerMachineMgr)))))))"

section \<open>The end of a program\<close>

text \<open>How \<open>Start\<close> of a manager ends: not at all, well, or with an error. The channel of \<open>startManager\<close> delivers
  the error, or nothing (a \<open>nil\<close>) when it is closed; that of a disabled manager never delivers.\<close>

type_synonym outcome = "goerr option option"

definition startManager :: "bool \<Rightarrow> outcome \<Rightarrow> outcome" where
  "startManager enabled start = (if enabled then start else None)"

text \<open>The exit codes that \<open>select\<close> over the channels can lead to; without any, the program runs on.\<close>

definition exit_codes :: "outcome list \<Rightarrow> nat list" where
  "exit_codes channels = map (\<lambda>err. case err of None \<Rightarrow> 0 | Some e \<Rightarrow> 1) (List.map_filter id channels)"

section \<open>The yawol-cloud-controller\<close>

definition DefaultLoadbalancerClass :: string where "DefaultLoadbalancerClass = ''stackit.cloud/yawol''"

definition class_names :: "flag_values \<Rightarrow> string list" where
  "class_names fl =
     (let given = flag_or (fl_StringSlice fl) ''classname'' [];
          classNames = (if given = [] then given @ [DefaultLoadbalancerClass] else given) in
      if flag_or (fl_Bool fl) ''empty-classname'' True then classNames @ [[]] else classNames)"

definition getConfigFromKubeconfigOrDie :: "manager_lib \<Rightarrow> string \<Rightarrow> unit result" where
  "getConfigFromKubeconfigOrDie ml kubeconfig =
     (if kubeconfig = ''inClusterConfig'' then exit_on (ml_GetConfig ml) (Ok ())
      else exit_on (ml_LoadKubeconfig ml kubeconfig) (Ok ()))"

definition target_options :: "flag_values \<Rightarrow> manager_options" where
  "target_options fl =
     \<lparr>mo_MetricsBindAddress = flag_or (fl_String fl) ''metrics-bind-address'' '':8080'',
      mo_LeaderElection = flag_or (fl_Bool fl) ''target-leader-elect'' False,
      mo_LeaderElectionID = ''4c878ae2.stackit.cloud'', mo_Leases = lease_flags_of fl, mo_Namespaces = []\<rparr>"

definition control_options :: "flag_values \<Rightarrow> string \<Rightarrow> manager_options" where
  "control_options fl namespace =
     \<lparr>mo_MetricsBindAddress = ''0'',
      mo_LeaderElection = flag_or (fl_Bool fl) ''leader-elect'' False,
      mo_LeaderElectionID = ''4c878ae2.stackit.cloud'', mo_Leases = lease_flags_of fl, mo_Namespaces = [namespace]\<rparr>"

text \<open>The namespace is dereferenced. Both managers are made before any controller is set up.\<close>

definition cloud_controller_main ::
  "manager_lib \<Rightarrow> (string \<Rightarrow> string) \<Rightarrow> flag_values \<Rightarrow> (manager \<times> manager) result" where
  "cloud_controller_main ml env fl =
     (let classNames = class_names fl in
      bindR (getInfrastructureDefaultsFromEnvOrDie env) (\<lambda>infrastructureDefaults.
      bindR (getConfigFromKubeconfigOrDie ml (flag_or (fl_String fl) ''target-kubeconfig'' [])) (\<lambda>_.
      exit_on (ml_NewManager ml (target_options fl)) (
      bindR (getConfigFromKubeconfigOrDie ml (flag_or (fl_String fl) ''control-kubeconfig'' [])) (\<lambda>_.
      case id_Namespace infrastructureDefaults of
        None \<Rightarrow> Crash ''nil pointer dereference''
      | Some namespace \<Rightarrow>
          (let target = [ServiceSetup infrastructureDefaults classNames, NodeSetup infrastructureDefaults];
               control = [ServiceStatusSetup, EventSetup] in
           exit_on (ml_NewManager ml (control_options fl namespace)) (
           exit_on_any [ml_AddCheck ml ''healthz'', ml_AddCheck ml ''readyz''] (
           exit_on_any (map (ml_Setup ml) (target @ control)) (
           Ok (\<lparr>mgr_Options = target_options fl, mgr_Setups = target\<rparr>,
               \<lparr>mgr_Options = control_options fl namespace, mgr_Setups = control\<rparr>))))))))))"

section \<open>The yawollet\<close>

definition ErrYawolletRequiredFlags :: goerr where
  "ErrYawolletRequiredFlags = HelperErr ''namespace, loadbalancer-name and loadbalancer-machine-name are required flags''"
definition ErrYawolletIPNotFound :: goerr where
  "ErrYawolletIPNotFound = HelperErr ''listen-interface is set but no IP found''"

text \<open>What the program is linked with: the clients, the host, Envoy's libraries and the listener of the management
  server.\<close>

record 'w yawollet_lib =
  yl_Client :: "'w kube"
  yl_Machines :: "'w machine_kube"
  yl_Host :: "'w host"
  yl_Envoy :: envoy_lib
  yl_EnvoyCache :: "'w snapshot_cache"
  yl_Listen :: "string \<Rightarrow> ('w, unit) gop"
  yl_time_text :: "int \<Rightarrow> string"
  yl_CacheSynced :: bool

record 'w yawollet_program =
  yp_Reconciler :: "'w yawollet"
  yp_Manager :: manager_options
  yp_ProbeAddress :: string
  yp_CachedNames :: "string \<times> string"
  yp_Readyz :: "(string \<times> (('w, call, unit) st_scheme, unit) gop) list"

definition no_leases :: lease_flags where
  "no_leases = \<lparr>leasesDuration = 0, leasesRenewDeadline = 0, leasesRetryPeriod = 0, leasesLeaderElectionResourceLock = []\<rparr>"

definition readyz_checks :: "'w yawollet_lib \<Rightarrow> string \<Rightarrow> string \<Rightarrow> string \<Rightarrow> int \<Rightarrow> (string \<times> (('w, call, unit) st_scheme, unit) gop) list" where
  "readyz_checks lib namespace loadbalancerName loadbalancerMachineName requeueDuration =
     (let lbKey = \<lparr>nn_Namespace = namespace, nn_Name = loadbalancerName\<rparr>;
          lbmKey = \<lparr>nn_Namespace = namespace, nn_Name = loadbalancerMachineName\<rparr> in
      [(''readyz'', ret ()),
       (''informer-sync'', CacheSyncHealthz (yl_CacheSynced lib)),
       (''loadbalancer-heartbeat'', HeartbeatHealthz (yl_Client lib) (yl_time_text lib) (wrap64 (2 * requeueDuration)) lbmKey),
       (''loadbalancer-revision'', LoadBalancerRevisionHealthz (yl_Client lib) lbKey lbmKey)])"

definition serve_first_snapshot :: "'w yawollet_lib \<Rightarrow> ('w, unit) gop" where
  "serve_first_snapshot lib =
     bindM (liftR (NewSnapshot (yl_Envoy lib) ''1'' [] [])) (\<lambda>snapshot.
     case Consistent (yl_Envoy lib) snapshot of
       Some err \<Rightarrow> fail err
     | None \<Rightarrow> SetSnapshot (yl_EnvoyCache lib) SnapshotName snapshot)"

definition yawollet_main ::
  "manager_lib \<Rightarrow> 'w yawollet_lib \<Rightarrow> (string \<times> string option list) list \<Rightarrow> flag_values \<Rightarrow> ('w, 'w yawollet_program) gop" where
  "yawollet_main ml lib ifaces fl =
     (let namespace = flag_or (fl_String fl) ''namespace'' [];
          loadbalancerName = flag_or (fl_String fl) ''loadbalancer-name'' [];
          loadbalancerMachineName = flag_or (fl_String fl) ''loadbalancer-machine-name'' [];
          requeueDuration = requeue_duration (flag_or (fl_Int fl) ''requeue-time'' 30);
          opts = \<lparr>mo_MetricsBindAddress = flag_or (fl_String fl) ''metrics-bind-address'' ''0'', mo_LeaderElection = False,
            mo_LeaderElectionID = [], mo_Leases = no_leases, mo_Namespaces = [namespace]\<rparr> in
      if namespace = [] \<or> loadbalancerName = [] \<or> loadbalancerMachineName = [] then fail ErrYawolletRequiredFlags
      else case listen_address (flag_or (fl_String fl) ''listen-address'' []) (flag_or (fl_String fl) ''listen-interface'' []) ifaces of
        None \<Rightarrow> fail ErrYawolletIPNotFound
      | Some listenAddress \<Rightarrow>
          thenM (serve_first_snapshot lib)
         (thenM (yl_Listen lib ''127.0.0.1:18000'')
         (liftR (exit_on (ml_GetConfig ml) (exit_on (ml_NewManager ml opts)
           (exit_on (ml_Setup ml (YawolletSetup requeueDuration))
           (exit_on_any (map (ml_AddCheck ml) [''healthz'', ''readyz'', ''informer-sync'', ''loadbalancer-heartbeat'', ''loadbalancer-revision''])
           (Ok \<lparr>yp_Reconciler = \<lparr>y_Client = yl_Client lib, y_Machines = yl_Machines lib, y_Host = yl_Host lib,
                  y_Lib = yl_Envoy lib, y_EnvoyCache = yl_EnvoyCache lib, y_LoadbalancerName = loadbalancerName,
                  y_LoadbalancerMachineName = loadbalancerMachineName, y_ListenAddress = listenAddress,
                  y_RequeueDuration = requeueDuration,
                  y_KeepalivedStatsFile = flag_or (fl_String fl) ''keepalived-stats-file'' ''/tmp/keepalived.stats'',
                  y_time_text = yl_time_text lib\<rparr>,
                yp_Manager = opts,
                yp_ProbeAddress = flag_or (fl_String fl) ''health-probe-bind-address'' ''127.0.0.1:8080'',
                yp_CachedNames = (loadbalancerName, loadbalancerMachineName),
                yp_Readyz = readyz_checks lib namespace loadbalancerName loadbalancerMachineName requeueDuration\<rparr>))))))))"

section \<open>The version of the server\<close>

text \<open>\<open>GetVersion\<close>: discovery gives the two numbers as texts.\<close>

definition GetVersion :: "('w, string \<times> string) gop \<Rightarrow> ('w, version) gop" where
  "GetVersion ServerVersion =
     bindM ServerVersion (\<lambda>(major, minor).
     case Atoi major of
       None \<Rightarrow> fail (OtherErr (''strconv.Atoi: parsing '' @ major))
     | Some ma \<Rightarrow> (case Atoi minor of
         None \<Rightarrow> fail (OtherErr (''strconv.Atoi: parsing '' @ minor))
       | Some mi \<Rightarrow> ret (Version ma mi)))"

section \<open>What is started\<close>

lemma exit_on_Ok: "exit_on e r = Ok x \<longleftrightarrow> e = None \<and> r = Ok x"
  by (cases e) (simp_all add: exit_on_def)

lemma exit_on_any_Ok: "exit_on_any es r = Ok x \<longleftrightarrow> (\<forall>e \<in> set es. e = None) \<and> r = Ok x"
  by (induction es) (auto simp: exit_on_Ok)

lemma new_manager_Ok: "new_manager ml opts is = Ok m \<Longrightarrow> m = \<lparr>mgr_Options = opts, mgr_Setups = is\<rparr>"
  by (simp add: new_manager_def exit_on_Ok exit_on_any_Ok)

lemma optionally_Ok:
  "optionally b r f = Ok x \<longleftrightarrow> (if b then \<exists>y. r = Ok y \<and> f (Some y) = Ok x else f None = Ok x)"
  by (auto simp: optionally_def bindR_Ok)

lemma machine_manager_Ok:
  "machine_manager ml env c leases rl ns = Ok m \<Longrightarrow> env EnvAPIEndpoint \<noteq> [] \<and>
     m = \<lparr>mgr_Options = controller_options c leases ns (metricsAddrLbm c) ''tanf7ges.stackit.cloud'',
       mgr_Setups = [LoadBalancerMachineSetup (concurrentWorkersPerReconciler c) rl (openstackTimeout c) (env EnvAPIEndpoint)
         (yawolletRequeueTime c) (ntpPools c) (ntpServers c)]\<rparr>"
  by (auto simp: machine_manager_def required_Ok dest: new_manager_Ok split: option.splits)

text \<open>The three managers of a program that has started, as it was asked for.\<close>

lemma controller_main_Ok:
  assumes "controller_main ml env fl = Ok (lb, lbSet, lbm)"
  defines "c \<equiv> controller_flags_of fl" and "opts \<equiv> controller_options (controller_flags_of fl) (lease_flags_of fl) (env EnvClusterNamespace)"
  shows "env EnvClusterNamespace \<noteq> [] \<and> (lb \<noteq> None, lbSet \<noteq> None, lbm \<noteq> None) = enabled_controllers c \<and>
     (\<forall>m. lb = Some m \<longrightarrow> mgr_Options m = opts (metricsAddrLb c) ''3a7ac996.stackit.cloud'') \<and>
     (\<forall>m. lbSet = Some m \<longrightarrow> mgr_Options m = opts (metricsAddrLbs c) ''rgp5vg43.stackit.cloud'') \<and>
     (\<forall>m. lbm = Some m \<longrightarrow> mgr_Options m = opts (metricsAddrLbm c) ''tanf7ges.stackit.cloud'' \<and> env EnvAPIEndpoint \<noteq> [])"
  using assms(1) unfolding c_def opts_def
  by (auto simp: controller_main_def Let_def required_Ok exit_on_Ok optionally_Ok lb_manager_def set_manager_def
      dest!: new_manager_Ok machine_manager_Ok split: prod.splits if_splits)

text \<open>C36. What a yawol-controller that starts runs. It has a namespace; it runs the controllers that were asked for, or
  all three if none was; each of their managers watches that namespace only and has a lease of its own, so that no
  controller waits for another's; the machine controller runs only with an endpoint of the API. The program runs on
  exactly as long as every manager that it started does; one that was not asked for never ends it. The metrics of machines are served at the address of the flag for sets, and those of
  sets at the address of the flag for machines.\<close>

theorem controllers_started:
  assumes "controller_main ml env fl = Ok (lb, lbSet, lbm)"
  shows "let c = controller_flags_of fl; all_of = \<not> lbController c \<and> \<not> lbSetController c \<and> \<not> lbMachineController c;
       ms = List.map_filter id [lb, lbSet, lbm] in
     (lb \<noteq> None \<longleftrightarrow> lbController c \<or> all_of) \<and> (lbSet \<noteq> None \<longleftrightarrow> lbSetController c \<or> all_of) \<and>
     (lbm \<noteq> None \<longleftrightarrow> lbMachineController c \<or> all_of) \<and>
     env EnvClusterNamespace \<noteq> [] \<and> (\<forall>m \<in> set ms. mo_Namespaces (mgr_Options m) = [env EnvClusterNamespace]) \<and>
     distinct (map (\<lambda>m. mo_LeaderElectionID (mgr_Options m)) ms) \<and> (lbm \<noteq> None \<longrightarrow> env EnvAPIEndpoint \<noteq> []) \<and>
     (exit_codes [startManager (lb \<noteq> None) o1, startManager (lbSet \<noteq> None) o2, startManager (lbm \<noteq> None) o3] = [] \<longleftrightarrow>
        (lb = None \<or> o1 = None) \<and> (lbSet = None \<or> o2 = None) \<and> (lbm = None \<or> o3 = None)) \<and>
     (\<forall>m. lbm = Some m \<longrightarrow> mo_MetricsBindAddress (mgr_Options m) = flag_or (fl_String fl) ''metrics-addr-lbs'' '':8082'') \<and>
     (\<forall>m. lbSet = Some m \<longrightarrow> mo_MetricsBindAddress (mgr_Options m) = flag_or (fl_String fl) ''metrics-addr-lbm'' '':8081'')"
  using controller_main_Ok [OF assms]
  by (auto simp: Let_def enabled_controllers_def List.map_filter_def controller_options_def controller_flags_of_def
      startManager_def exit_codes_def split: if_splits)

definition quiet_lib :: manager_lib where
  "quiet_lib = \<lparr>ml_GetConfig = None, ml_LoadKubeconfig = (\<lambda>_. None), ml_NewManager = (\<lambda>_. None), ml_Setup = (\<lambda>_. None),
     ml_AddCheck = (\<lambda>_. None), ml_DiscoveryClient = None\<rparr>"

definition no_flags :: flag_values where
  "no_flags = \<lparr>fl_String = Map.empty, fl_Int = Map.empty, fl_Bool = Map.empty, fl_Duration = Map.empty, fl_StringSlice = Map.empty\<rparr>"

lemma quiet_manager: "new_manager quiet_lib opts is = Ok \<lparr>mgr_Options = opts, mgr_Setups = is\<rparr>"
  by (simp add: new_manager_def exit_on_any_Ok exit_on_Ok quiet_lib_def)

lemma quiet_fields: "ml_GetConfig quiet_lib = None" "ml_DiscoveryClient quiet_lib = None"
  by (simp_all add: quiet_lib_def)

lemma all_enabled: "enabled_controllers (controller_flags_of no_flags) = (True, True, True)"
  by (simp add: enabled_controllers_def controller_flags_of_def no_flags_def flag_or_def)

lemma controllers_started_witness:
  "\<exists>lb lbSet lbm. controller_main quiet_lib (\<lambda>_. ''x'') no_flags = Ok (Some lb, Some lbSet, Some lbm) \<and>
     mo_MetricsBindAddress (mgr_Options lbm) = '':8082'' \<and> mo_LeaderElectionID (mgr_Options lb) \<noteq> mo_LeaderElectionID (mgr_Options lbm)"
proof -
  obtain lb lbSet lbm where run: "controller_main quiet_lib (\<lambda>_. ''x'') no_flags = Ok (Some lb, Some lbSet, Some lbm)"
    by (simp add: controller_main_def required_def exit_on_def optionally_def bindR_simps lb_manager_def set_manager_def
        machine_manager_def quiet_manager quiet_fields all_enabled Let_def)
  have "mo_MetricsBindAddress (mgr_Options lbm) = '':8082''" "mo_LeaderElectionID (mgr_Options lb) \<noteq> mo_LeaderElectionID (mgr_Options lbm)"
    using controllers_started [OF run, where ?o1.0 = None and ?o2.0 = None and ?o3.0 = None]
    by (simp_all add: Let_def List.map_filter_def no_flags_def flag_or_def)
  with run show ?thesis by blast
qed

section \<open>The other programs\<close>

text \<open>Services without a class, and those of the class of this project, are the ones a cloud controller without flags
  looks at.\<close>

lemma default_classes:
  "CheckLoadBalancerClasses svc (class_names no_flags) \<longleftrightarrow> getLoadBalancerClass svc \<in> {DefaultLoadbalancerClass, []}"
  by (auto simp: CheckLoadBalancerClasses_def class_names_def no_flags_def flag_or_def)

lemma defaults_namespace:
  "getInfrastructureDefaultsFromEnvOrDie env = Ok d \<Longrightarrow> id_Namespace d = Some (env EnvClusterNamespace)"
  unfolding getInfrastructureDefaultsFromEnvOrDie_def required_Ok one_of_Ok bool_env_Ok by (elim conjE exE) (drule sym, simp)

text \<open>The two managers of a cloud controller share one lease, which is one object if both clusters are the same.\<close>

lemma cloud_managers_share_lease:
  assumes "cloud_controller_main ml env fl = Ok (target, control)"
  shows "mo_LeaderElectionID (mgr_Options target) = mo_LeaderElectionID (mgr_Options control) \<and>
    mo_Namespaces (mgr_Options control) = [env EnvClusterNamespace] \<and> mo_Namespaces (mgr_Options target) = []"
proof -
  obtain d ns where d: "getInfrastructureDefaultsFromEnvOrDie env = Ok d" "id_Namespace d = Some ns"
    and o: "mgr_Options target = target_options fl" "mgr_Options control = control_options fl ns"
    using assms unfolding cloud_controller_main_def Let_def bindR_Ok exit_on_Ok exit_on_any_Ok
    by (clarsimp simp: exit_on_Ok exit_on_any_Ok split: option.splits)
  from defaults_namespace [OF d(1)] d(2) have "ns = env EnvClusterNamespace" by simp
  with o show ?thesis by (simp add: target_options_def control_options_def)
qed

text \<open>The minor version of a managed cluster, as in \<open>1.27+\<close>, is not a number.\<close>

lemma provider_version_rejected:
  "GetVersion (\<lambda>w. (Ok (''1'', ''27+''), w)) w = (Err (OtherErr ''strconv.Atoi: parsing 27+''), w)"
  "GetVersion (\<lambda>w. (Ok (''1'', ''27''), w)) w = (Ok (Version 1 27), w)"
proof -
  have "Atoi ''1'' = Some 1" "Atoi ''27'' = Some 27" "Atoi ''27+'' = None"
    by code_simp+
  then show "GetVersion (\<lambda>w. (Ok (''1'', ''27+''), w)) w = (Err (OtherErr ''strconv.Atoi: parsing 27+''), w)"
    "GetVersion (\<lambda>w. (Ok (''1'', ''27''), w)) w = (Ok (Version 1 27), w)"
    by (simp_all add: GetVersion_def bindM_def catchM_def fail_def ret_def)
qed

end
