(* ===== verification/YawolletRights.thy ===== *)
theory YawolletRights
  imports Programs
begin

text \<open>
  What the role that the machine controller creates for a machine allows, and that the calls of the yawollet stay
  within it. Kubernetes' reading of a role is written out: a rule allows a request if it lists the verb, the group and the
  resource, and the name unless it lists none; a role counts in its own namespace.
\<close>

section \<open>Roles\<close>

record api_request =
  rq_Verb :: string
  rq_APIGroup :: string
  rq_Resource :: string
  rq_Namespace :: string
  rq_Name :: string

definition rule_allows :: "policy_rule \<Rightarrow> api_request \<Rightarrow> bool" where
  "rule_allows p rq =
     (rq_Verb rq \<in> set (pr_Verbs p) \<and> rq_APIGroup rq \<in> set (pr_APIGroups p) \<and> rq_Resource rq \<in> set (pr_Resources p) \<and>
      (pr_ResourceNames p = [] \<or> rq_Name rq \<in> set (pr_ResourceNames p)))"

definition role_allows :: "string \<Rightarrow> policy_rule list \<Rightarrow> api_request \<Rightarrow> bool" where
  "role_allows ns ps rq = (rq_Namespace rq = ns \<and> list_ex (\<lambda>p. rule_allows p rq) ps)"

definition yawol_group :: string where "yawol_group = ''yawol.stackit.cloud''"

text \<open>The requests behind a call: objects are read through a cache, which lists and watches them, or one by one. An event is
  created or, if it is known, patched, under a name of its own. What stays on the machine asks for nothing; any other call
  may ask for anything.\<close>

fun asks :: "call \<Rightarrow> api_request \<Rightarrow> bool" where
  "asks (CGetLB n) rq =
     (rq_Verb rq \<in> {''get'', ''list'', ''watch''} \<and> rq_APIGroup rq = yawol_group \<and> rq_Resource rq = ''loadbalancers'' \<and>
      rq_Namespace rq = nn_Namespace n \<and> rq_Name rq = nn_Name n)"
| "asks (CGetMachine n) rq =
     (rq_Verb rq \<in> {''get'', ''list'', ''watch''} \<and> rq_APIGroup rq = yawol_group \<and> rq_Resource rq = ''loadbalancermachines'' \<and>
      rq_Namespace rq = nn_Namespace n \<and> rq_Name rq = nn_Name n)"
| "asks (CMachine (MPatchStatus n p)) rq =
     (rq_Verb rq = ''patch'' \<and> rq_APIGroup rq = yawol_group \<and> rq_Resource rq = ''loadbalancermachines/status'' \<and>
      rq_Namespace rq = nn_Namespace n \<and> rq_Name rq = nn_Name n)"
| "asks (CEvent n t r m) rq =
     (rq_Verb rq \<in> {''create'', ''patch''} \<and> rq_APIGroup rq = [] \<and> rq_Resource rq = ''events'' \<and> rq_Namespace rq = nn_Namespace n)"
| "asks (CYawollet c) rq = False"
| "asks c rq = True"

definition permitted :: "string \<Rightarrow> policy_rule list \<Rightarrow> call \<times> bool \<Rightarrow> bool" where
  "permitted ns ps c = (\<forall>rq. asks (fst c) rq \<longrightarrow> role_allows ns ps rq)"

text \<open>The role of a machine, spelled out.\<close>

lemma machine_role:
  "role_allows ns (GetRoleRules lb lbm) rq \<longleftrightarrow> rq_Namespace rq = ns \<and>
     (rq_APIGroup rq = [] \<and> rq_Resource rq = ''events'' \<and> rq_Verb rq \<in> {''create'', ''patch''} \<or>
      rq_APIGroup rq = yawol_group \<and>
       (rq_Resource rq \<in> {''loadbalancers'', ''loadbalancermachines''} \<and> rq_Verb rq \<in> {''list'', ''watch''} \<or>
        rq_Resource rq = ''loadbalancers'' \<and> rq_Verb rq = ''get'' \<and> rq_Name rq = meta_Name lb \<or>
        rq_Resource rq \<in> {''loadbalancermachines'', ''loadbalancermachines/status''} \<and> rq_Verb rq \<in> {''get'', ''update'', ''patch''} \<and>
          rq_Name rq = meta_Name lbm))"
  by (auto simp: role_allows_def GetRoleRules_def rule_allows_def yawol_group_def Let_def)

lemma permitted_calls:
  "permitted ns (GetRoleRules lb lbm) (CEvent n t r m, b) \<longleftrightarrow> nn_Namespace n = ns"
  "permitted ns (GetRoleRules lb lbm) (CGetLB n, b) \<longleftrightarrow> n = \<lparr>nn_Namespace = ns, nn_Name = meta_Name lb\<rparr>"
  "permitted ns (GetRoleRules lb lbm) (CGetMachine n, b) \<longleftrightarrow> n = \<lparr>nn_Namespace = ns, nn_Name = meta_Name lbm\<rparr>"
  "permitted ns (GetRoleRules lb lbm) (CMachine (MPatchStatus n p), b) \<longleftrightarrow> n = \<lparr>nn_Namespace = ns, nn_Name = meta_Name lbm\<rparr>"
  "permitted ns (GetRoleRules lb lbm) (CYawollet c, b)"
proof -
  note asked = machine_role permitted_def
  define q where "q verb g res name = \<lparr>rq_Verb = verb, rq_APIGroup = g, rq_Resource = res, rq_Namespace = nn_Namespace n, rq_Name = name\<rparr>"
    for verb g res name
  show "permitted ns (GetRoleRules lb lbm) (CEvent n t r m, b) \<longleftrightarrow> nn_Namespace n = ns"
    by (auto simp: asked q_def dest!: spec [of _ "q ''create'' [] ''events'' []"])
  show "permitted ns (GetRoleRules lb lbm) (CGetLB n, b) \<longleftrightarrow> n = \<lparr>nn_Namespace = ns, nn_Name = meta_Name lb\<rparr>"
    by (cases n) (auto simp: asked q_def dest!: spec [of _ "q ''get'' yawol_group ''loadbalancers'' (nn_Name n)"])
  show "permitted ns (GetRoleRules lb lbm) (CGetMachine n, b) \<longleftrightarrow> n = \<lparr>nn_Namespace = ns, nn_Name = meta_Name lbm\<rparr>"
    by (cases n) (auto simp: asked q_def dest!: spec [of _ "q ''get'' yawol_group ''loadbalancermachines'' (nn_Name n)"])
  show "permitted ns (GetRoleRules lb lbm) (CMachine (MPatchStatus n p), b) \<longleftrightarrow> n = \<lparr>nn_Namespace = ns, nn_Name = meta_Name lbm\<rparr>"
    by (cases n) (auto simp: asked q_def dest!: spec [of _ "q ''patch'' yawol_group ''loadbalancermachines/status'' (nn_Name n)"])
  show "permitted ns (GetRoleRules lb lbm) (CYawollet c, b)"
    by (simp add: asked)
qed


section \<open>The calls of the yawollet\<close>

text \<open>Reading an object by its key yields one with that key.\<close>

locale keyed_reads =
  fixes k :: "'w kube"
  assumes loadbalancer_key: "k_GetLB k n w = (Ok lb, w') \<Longrightarrow> key_of lb = n"
    and machine_key: "k_GetMachine k n w = (Ok lbm, w') \<Longrightarrow> key_of lbm = n"

text \<open>Events about the LoadBalancer, when its configuration is built.\<close>

lemma emits_ignoredEvent: "(\<And>t r m. P (CEvent (key_of lb) t r m, True)) \<Longrightarrow> emits P (ignoredEvent e lb)"
  unfolding ignoredEvent_def by (intro emits_intros)

lemma emits_collectPrincipals:
  assumes "\<And>t r m. P (CEvent (key_of lb) t r m, True)"
  shows "emits P (collectPrincipals lb rs)"
  by (induction rs) (auto intro!: emits_intros emits_ignoredEvent assms)

lemma emits_must: "(\<And>x. emits P (f x)) \<Longrightarrow> emits P (must r f)"
  by (cases r) (simp_all add: must_def emits_crash)

lemma emits_result: "(\<And>x. emits P (f x)) \<Longrightarrow> (\<And>e. emits P (g e)) \<Longrightarrow> (\<And>c. emits P (h c)) \<Longrightarrow>
    emits P (case r of Ok x \<Rightarrow> f x | Err e \<Rightarrow> g e | Crash c \<Rightarrow> h c)"
  by (cases r) simp_all

lemma emits_listeners:
  assumes "\<And>t r m. P (CEvent (key_of lb) t r m, True)"
  shows "emits P (listeners_loop lib lb addr sps)"
  by (induction sps)
    (auto simp: createEnvoyTCPListener_def createEnvoyUDPListener_def createEnvoyRBACRules_def
      intro!: emits_intros emits_must emits_result emits_ignoredEvent emits_collectPrincipals assms)

lemma emits_config:
  assumes "\<And>t r m. P (CEvent (key_of lb) t r m, True)"
  shows "emits P (CreateEnvoyConfig lib cpus old lb addr)"
  unfolding CreateEnvoyConfig_def createEnvoyListener_def by (intro emits_intros emits_listeners assms)

lemma emits_stamped: "emits P (stamped k ms)"
  by (induction ms) (auto intro!: emits_intros)

lemma emits_ifRead: "emits P m \<Longrightarrow> (\<And>x. emits P (f x)) \<Longrightarrow> emits P (ifRead m f)"
  unfolding ifRead_def by (intro emits_catchM emits_ret)

lemma emits_metrics: "(\<And>c ok. P (CYawollet c, ok)) \<Longrightarrow> emits P (GetMetrics k h file)"
  unfolding GetMetrics_def GetLoad_def GetUptime_def GetMem_def GetCPUStealTime_def GetCurrentStats_def admin_get_def Let_def
    parseEnvoyMetricsToLoadBalancerMachineMetrics_def ReadStatsForInstanceName_def ReadStatsFromDisk_def case_prod_unfold
  by (intro emits_intros emits_stamped emits_ifRead)

lemma emits_run:
  assumes "\<And>t r m ok. P (CEvent (key_of lb) t r m, ok)" and "\<And>t r m ok. P (CEvent (key_of lbm) t r m, ok)"
    and "\<And>c ok. P (CYawollet c, ok)" and "\<And>p ok. P (CMachine (MPatchStatus (key_of lbm) p), ok)"
  shows "emits P (reconcileAndReport y lb lbm)"
  unfolding reconcileAndReport_def reconcile_y_def EnableAdHocDebugging_def warnMachine_def status_defs Let_def case_prod_unfold
    reportStatus_def mcall_def checkConditions_def machineError_def
  by (intro emits_intros emits_config emits_metrics assms)

context keyed_reads begin

lemma emits_Reconcile:
  assumes "y_Client y = k" and "y_LoadbalancerName y = meta_Name lb" and "y_LoadbalancerMachineName y = meta_Name lbm"
    and "nn_Namespace req = ns"
  shows "emits (permitted ns (GetRoleRules lb lbm)) (Reconcile_y y req)"
proof (cases "nn_Name req = meta_Name lb")
  case True
  let ?lbm = "\<lparr>nn_Namespace = ns, nn_Name = meta_Name lbm\<rparr>"
  have req: "req = \<lparr>nn_Namespace = ns, nn_Name = meta_Name lb\<rparr>" using True assms(4) by (cases req) simp
  have reads: "returns (\<lambda>x. key_of x = n) (ext (CGetLB n) (k_GetLB k n))"
      "returns (\<lambda>x. key_of x = n) (ext (CGetMachine n) (k_GetMachine k n))" for n
    by (auto simp: returns_def runs_simps dest: loadbalancer_key machine_key)
  have run: "emits (permitted ns (GetRoleRules lb lbm)) (reconcileAndReport y a b)" if "key_of a = req" "key_of b = ?lbm" for a b
    by (rule emits_run) (simp_all add: permitted_calls that req)
  show ?thesis
    unfolding Reconcile_y_def Let_def assms(1-4)
    by (intro emits_if emits_ret emits_bindM_returns [OF _ reads(1)] emits_bindM_returns [OF _ reads(2)] emits_ext run)
      (simp_all add: permitted_calls req)
qed (simp add: Reconcile_y_def assms(2) emits_ret)

end

lemma emits_readyz:
  assumes "(name, check) \<in> set (readyz_checks lib ns (meta_Name lb) (meta_Name lbm) d)"
  shows "emits (permitted ns (GetRoleRules lb lbm)) check"
proof -
  have "check \<in> {ret (), CacheSyncHealthz (yl_CacheSynced lib),
      HeartbeatHealthz (yl_Client lib) (yl_time_text lib) (wrap64 (2 * d)) \<lparr>nn_Namespace = ns, nn_Name = meta_Name lbm\<rparr>,
      LoadBalancerRevisionHealthz (yl_Client lib) \<lparr>nn_Namespace = ns, nn_Name = meta_Name lb\<rparr> \<lparr>nn_Namespace = ns, nn_Name = meta_Name lbm\<rparr>}"
    using assms by (auto simp: readyz_checks_def Let_def)
  then show ?thesis
    unfolding CacheSyncHealthz_def HeartbeatHealthz_def LoadBalancerRevisionHealthz_def Let_def
    by (auto simp: permitted_calls intro!: emits_intros)
qed

end
