(* ===== verification/YawolletStart.thy ===== *)
theory YawolletStart
  imports YawolletRights OsClientFacts "HOL-Library.Sublist"
begin

text \<open>
  From the machine controller to the yawollet: the arguments that the user data gives the program on the machine, what
  the program makes of them, and what the role that the machine controller grants lets it do. The reading of a command
  line by the shell and the flag library is a parameter; \<open>reads_command_line\<close> states what is documented of it.
\<close>

section \<open>Command lines\<close>

text \<open>A flag with its value behind an equals sign or as the next word.\<close>

datatype flag_item = Given string string | GivenNext string string | GivenInt string int

fun item_text :: "flag_item \<Rightarrow> string" where
  "item_text (Given n v) = ''--'' @ n @ ''='' @ v"
| "item_text (GivenNext n v) = ''--'' @ n @ '' '' @ v"
| "item_text (GivenInt n i) = ''--'' @ n @ ''='' @ Itoa i"

fun item_value :: "flag_item \<Rightarrow> string \<times> string" where
  "item_value (Given n v) = (n, v)"
| "item_value (GivenNext n v) = (n, v)"
| "item_value (GivenInt n i) = (n, Itoa i)"

definition command_line :: "flag_item list \<Rightarrow> string" where
  "command_line items = concat (map (\<lambda>i. item_text i @ '' '') items)"

text \<open>Texts that neither the shell nor the list of flags takes apart.\<close>

definition plain_text :: "string \<Rightarrow> bool" where
  "plain_text s = (s \<noteq> [] \<and> list_all (\<lambda>c. alnum c \<or> c \<in> set ''-.:_/'') s)"

text \<open>The flags of the yawollet.\<close>

definition text_flags :: "string list" where
  "text_flags = [''kubeconfig'', ''metrics-bind-address'', ''health-probe-bind-address'', ''namespace'', ''loadbalancer-name'',
     ''loadbalancer-machine-name'', ''listen-address'', ''listen-interface'', ''keepalived-stats-file'']"

fun plain_item :: "flag_item \<Rightarrow> bool" where
  "plain_item (Given n v) = (n \<in> set text_flags \<and> plain_text v)"
| "plain_item (GivenNext n v) = (n \<in> set text_flags \<and> plain_text v)"
| "plain_item (GivenInt n i) = (n = ''requeue-time'' \<and> in_int64 i)"

fun text_value :: "flag_item \<Rightarrow> (string \<times> string) list" where
  "text_value (GivenInt n i) = []"
| "text_value item = [item_value item]"

fun int_value :: "flag_item \<Rightarrow> (string \<times> int) list" where
  "int_value (GivenInt n i) = [(n, i)]"
| "int_value item = []"

text \<open>The last value of a flag counts.\<close>

definition reads_command_line :: "(string \<Rightarrow> flag_values result) \<Rightarrow> bool" where
  "reads_command_line cl = (\<forall>items. list_all plain_item items \<longrightarrow>
     (\<exists>fl. cl (command_line items) = Ok fl \<and> fl_String fl = map_of (rev (concat (map text_value items))) \<and>
       fl_Int fl = map_of (rev (concat (map int_value items)))))"

section \<open>The arguments of a machine\<close>

definition machine_items :: "string \<Rightarrow> string \<Rightarrow> string \<Rightarrow> string \<Rightarrow> int \<Rightarrow> flag_item list" where
  "machine_items namespace lbName lbmName vip rq =
     [Given ''namespace'' namespace, Given ''loadbalancer-name'' lbName, Given ''loadbalancer-machine-name'' lbmName,
      Given ''listen-address'' vip, Given ''health-probe-bind-address'' probeAddress, GivenNext ''kubeconfig'' ''/etc/yawol/kubeconfig''] @
     (if rq > 0 then [GivenInt ''requeue-time'' rq] else [])"

lemma yawollet_args_items: "yawollet_args namespace lbName lbmName vip rq = command_line (machine_items namespace lbName lbmName vip rq)"
  by (simp add: yawollet_args_def command_line_def machine_items_def)

lemma plain_kubeconfig: "plain_text ''/etc/yawol/kubeconfig''" "plain_text probeAddress"
  by code_simp+

lemma args_read:
  assumes "reads_command_line cl" and "plain_text namespace" "plain_text lbName" "plain_text lbmName" "plain_text vip" and "in_int64 rq"
  shows "\<exists>fl. cl (yawollet_args namespace lbName lbmName vip rq) = Ok fl \<and>
    fl_String fl ''namespace'' = Some namespace \<and> fl_String fl ''loadbalancer-name'' = Some lbName \<and>
    fl_String fl ''loadbalancer-machine-name'' = Some lbmName \<and> fl_String fl ''listen-address'' = Some vip \<and>
    fl_String fl ''health-probe-bind-address'' = Some probeAddress \<and> fl_String fl ''kubeconfig'' = Some ''/etc/yawol/kubeconfig'' \<and>
    fl_String fl ''listen-interface'' = None \<and> fl_Int fl ''requeue-time'' = (if rq > 0 then Some rq else None)"
proof -
  let ?items = "machine_items namespace lbName lbmName vip rq"
  have "list_all plain_item ?items"
    using assms(2-) by (simp add: machine_items_def text_flags_def plain_kubeconfig)
  with assms(1) obtain fl where "cl (command_line ?items) = Ok fl"
    "fl_String fl = map_of (rev (concat (map text_value ?items)))" "fl_Int fl = map_of (rev (concat (map int_value ?items)))"
    unfolding reads_command_line_def by blast
  then show ?thesis
    by (simp add: yawollet_args_items machine_items_def)
qed

text \<open>What a program that has started is, by its flags.\<close>

lemma yawollet_started:
  assumes "yawollet_main ml lib ifaces fl s = (Ok p, t)" and "fl_String fl ''listen-address'' = Some addr" and "addr \<noteq> []"
  defines "ns \<equiv> flag_or (fl_String fl) ''namespace'' []" and "lbName \<equiv> flag_or (fl_String fl) ''loadbalancer-name'' []"
    and "lbmName \<equiv> flag_or (fl_String fl) ''loadbalancer-machine-name'' []"
    and "rd \<equiv> requeue_duration (flag_or (fl_Int fl) ''requeue-time'' 30)"
  shows "yp_Reconciler p = \<lparr>y_Client = yl_Client lib, y_Machines = yl_Machines lib, y_Host = yl_Host lib, y_Lib = yl_Envoy lib,
      y_EnvoyCache = yl_EnvoyCache lib, y_LoadbalancerName = lbName, y_LoadbalancerMachineName = lbmName, y_ListenAddress = addr,
      y_RequeueDuration = rd, y_KeepalivedStatsFile = flag_or (fl_String fl) ''keepalived-stats-file'' ''/tmp/keepalived.stats'',
      y_time_text = yl_time_text lib\<rparr>"
    "yp_ProbeAddress p = flag_or (fl_String fl) ''health-probe-bind-address'' ''127.0.0.1:8080''"
    "mo_Namespaces (yp_Manager p) = [ns]" "yp_Readyz p = readyz_checks lib ns lbName lbmName rd"
  using assms(1-3) unfolding ns_def lbName_def lbmName_def rd_def
  by (auto simp: yawollet_main_def Let_def fail_def listen_address_def flag_or_def bindM_Ok thenM_def liftR_Ok exit_on_Ok exit_on_any_Ok
      split: if_splits)


section \<open>What the yawollet looks after\<close>

text \<open>Finding lines in a text, one after the other.\<close>

lemma text_of_Cons: "text_of (l # k # ls) = l @ newline # text_of (k # ls)" "text_of [l] = l"
  by (simp_all add: text_of_def)

lemma lines_here:
  "sublist (text_of [a]) (text_of (a # d # ls))"
  "sublist (text_of [a, b, c]) (text_of (a # b # c # d # ls))"
proof -
  show "sublist (text_of [a]) (text_of (a # d # ls))"
    by (simp add: text_of_Cons)
  have "text_of (a # b # c # d # ls) = text_of [a, b, c] @ newline # text_of (d # ls)"
    by (simp add: text_of_Cons)
  then show "sublist (text_of [a, b, c]) (text_of (a # b # c # d # ls))"
    by (metis sublist_append_rightI)
qed

lemma lines_later: "sublist x (text_of (k # ls)) \<Longrightarrow> sublist x (text_of (l # k # ls))"
  by (simp add: text_of_Cons sublist_append sublist_Cons_right)

text \<open>C17. A machine starts the yawollet that looks after it. The user data of a machine sets the arguments of the program
  and stores the kubeconfig where they say; the program reads these arguments, and if it starts, it reconciles the
  LoadBalancer of the machine and reports on the machine, in the namespace of the machine only; Envoy listens
  on the virtual address; it runs every \<open>yawollet-requeue-time\<close> seconds, if that is given and between 5 and
  170, and every 30 seconds if it is not; its readiness checks read the same two objects and allow
  heartbeats twice as old; and the health check of keepalived asks at the address where it answers.\<close>

theorem yawollet_looks_after_its_machine:
  assumes "reads_command_line cl" and "in_int64 rq"
    and "plain_text (meta_Namespace lbm)" "plain_text (meta_Name lb)" "plain_text (meta_Name lbm)" "plain_text vip"
    and "GenerateUserData yaml kubeconfig lb lbm vip rq nps nss = Ok user_data"
  defines "args \<equiv> yawollet_args (meta_Namespace lbm) (meta_Name lb) (meta_Name lbm) vip rq"
  shows "sublist (''YAWOLLET_ARGS='' @ [QUOTE] @ args @ [QUOTE]) user_data \<and>
     sublist (text_of [''  content: '' @ base64_StdEncoding kubeconfig, ''  owner: yawol:yawol'', ''  path: /etc/yawol/kubeconfig'']) user_data \<and>
     (\<exists>fl. cl args = Ok fl \<and> fl_String fl ''kubeconfig'' = Some ''/etc/yawol/kubeconfig'' \<and>
       (\<forall>ml lib ifaces s p t. yawollet_main ml lib ifaces fl s = (Ok p, t) \<longrightarrow>
          y_LoadbalancerName (yp_Reconciler p) = meta_Name lb \<and> y_LoadbalancerMachineName (yp_Reconciler p) = meta_Name lbm \<and>
          mo_Namespaces (yp_Manager p) = [meta_Namespace lbm] \<and> y_ListenAddress (yp_Reconciler p) = vip \<and>
          y_RequeueDuration (yp_Reconciler p) = requeue_duration (if rq > 0 then rq else 30) \<and>
          yp_Readyz p = readyz_checks lib (meta_Namespace lbm) (meta_Name lb) (meta_Name lbm) (y_RequeueDuration (yp_Reconciler p)) \<and>
          sublist (text_of [''  content: '' @ base64_StdEncoding (generateYawolletHealthCheckScript (yp_ProbeAddress p)),
            ''  owner: root:root'', ''  path: '' @ YawolletHealthCheckScript]) user_data))"
proof -
  obtain fl where fl: "cl args = Ok fl" "fl_String fl ''namespace'' = Some (meta_Namespace lbm)"
      "fl_String fl ''loadbalancer-name'' = Some (meta_Name lb)" "fl_String fl ''loadbalancer-machine-name'' = Some (meta_Name lbm)"
      "fl_String fl ''listen-address'' = Some vip" "fl_String fl ''health-probe-bind-address'' = Some probeAddress"
      "fl_String fl ''kubeconfig'' = Some ''/etc/yawol/kubeconfig''" "fl_Int fl ''requeue-time'' = (if rq > 0 then Some rq else None)"
    using args_read [OF assms(1,3-6,2)] unfolding args_def by blast
  obtain promtail chrony where data: "user_data = cloud_config lb kubeconfig vip promtail chrony args"
    using assms(7) by (auto simp: GenerateUserData_def args_def Let_def split: result.splits if_splits)
  have line: "sublist (text_of [''    YAWOLLET_ARGS='' @ [QUOTE] @ args @ [QUOTE]]) user_data"
    unfolding data cloud_config_def QUOTE_def by (rule lines_here lines_later)+
  have "sublist (''YAWOLLET_ARGS='' @ [QUOTE] @ args @ [QUOTE]) (text_of [''    YAWOLLET_ARGS='' @ [QUOTE] @ args @ [QUOTE]])"
    by (simp add: text_of_def sublist_Cons_right)
  then have in_data: "sublist (''YAWOLLET_ARGS='' @ [QUOTE] @ args @ [QUOTE]) user_data"
    using line by (rule sublist_order.order.trans)
  have kubeconfig: "sublist (text_of [''  content: '' @ base64_StdEncoding kubeconfig, ''  owner: yawol:yawol'', ''  path: /etc/yawol/kubeconfig'']) user_data"
    unfolding data cloud_config_def by (rule lines_here lines_later)+
  have script: "sublist (text_of [''  content: '' @ base64_StdEncoding (generateYawolletHealthCheckScript probeAddress),
      ''  owner: root:root'', ''  path: '' @ YawolletHealthCheckScript]) user_data"
    unfolding data cloud_config_def by (rule lines_here lines_later)+
  have "vip \<noteq> []" using assms(6) by (simp add: plain_text_def)
  note started = yawollet_started [OF _ fl(5) this]
  have names: "flag_or (fl_String fl) ''namespace'' [] = meta_Namespace lbm" "flag_or (fl_String fl) ''loadbalancer-name'' [] = meta_Name lb"
      "flag_or (fl_String fl) ''loadbalancer-machine-name'' [] = meta_Name lbm"
      "flag_or (fl_Int fl) ''requeue-time'' 30 = (if rq > 0 then rq else 30)"
      "flag_or (fl_String fl) ''health-probe-bind-address'' ''127.0.0.1:8080'' = probeAddress"
    using fl by (simp_all add: flag_or_def)
  have "y_LoadbalancerName (yp_Reconciler p) = meta_Name lb \<and> y_LoadbalancerMachineName (yp_Reconciler p) = meta_Name lbm \<and>
      mo_Namespaces (yp_Manager p) = [meta_Namespace lbm] \<and> y_ListenAddress (yp_Reconciler p) = vip \<and>
      y_RequeueDuration (yp_Reconciler p) = requeue_duration (if rq > 0 then rq else 30) \<and>
      yp_Readyz p = readyz_checks lib (meta_Namespace lbm) (meta_Name lb) (meta_Name lbm) (y_RequeueDuration (yp_Reconciler p)) \<and>
      sublist (text_of [''  content: '' @ base64_StdEncoding (generateYawolletHealthCheckScript (yp_ProbeAddress p)),
        ''  owner: root:root'', ''  path: '' @ YawolletHealthCheckScript]) user_data"
    if "yawollet_main ml lib ifaces fl s = (Ok p, t)" for ml ifaces s p t and lib :: "'a yawollet_lib"
    unfolding started [OF that] names using script by simp
  then show ?thesis
    by (intro conjI [OF in_data] conjI [OF kubeconfig] exI [of _ fl] conjI [OF fl(1)] conjI [OF fl(7)] allI impI)
qed

section \<open>What the yawollet may do\<close>

text \<open>C18. The role of a machine is what its yawollet needs, and gives no power over others. Whatever the yawollet that runs
  with the arguments of the user data does in a reconcile or in a readiness check, however it ends, each of its
  requests to the API is allowed by the role that the machine controller creates for it; and that role allows no request
  that changes anything but events and the machine itself.\<close>

theorem yawollet_calls_are_permitted:
  assumes "keyed_reads (yl_Client lib)" and "reads_command_line cl" and "in_int64 rq"
    and "plain_text (meta_Namespace lbm)" "plain_text (meta_Name lb)" "plain_text (meta_Name lbm)" "plain_text vip"
    and "cl (yawollet_args (meta_Namespace lbm) (meta_Name lb) (meta_Name lbm) vip rq) = Ok fl"
    and "yawollet_main ml lib ifaces fl w = (Ok p, w')"
  defines "role \<equiv> GetRoleRules lb lbm" and "ns \<equiv> meta_Namespace lbm"
  shows "(\<forall>req s r t. nn_Namespace req \<in> set (mo_Namespaces (yp_Manager p)) \<and> Reconcile_y (yp_Reconciler p) req s = (r, t) \<longrightarrow>
      extends (permitted ns role) s t) \<and>
    (\<forall>name check s r t. (name, check) \<in> set (yp_Readyz p) \<and> check s = (r, t) \<longrightarrow> extends (permitted ns role) s t) \<and>
    (\<forall>rq. role_allows ns role rq \<longrightarrow>
      rq_Verb rq \<in> {''get'', ''list'', ''watch''} \<or> rq_Resource rq = ''events'' \<or> rq_Name rq = meta_Name lbm)"
proof -
  have fl: "fl_String fl ''namespace'' = Some ns" "fl_String fl ''loadbalancer-name'' = Some (meta_Name lb)"
      "fl_String fl ''loadbalancer-machine-name'' = Some (meta_Name lbm)" "fl_String fl ''listen-address'' = Some vip"
    using args_read [OF assms(2,4-7,3)] assms(8) by (auto simp: ns_def)
  have "vip \<noteq> []" using assms(7) by (simp add: plain_text_def)
  note started = yawollet_started [OF assms(9) fl(4) this]
  have namespaces: "mo_Namespaces (yp_Manager p) = [ns]"
    unfolding started by (simp add: flag_or_def fl)
  have "y_Client (yp_Reconciler p) = yl_Client lib" "y_LoadbalancerName (yp_Reconciler p) = meta_Name lb"
      "y_LoadbalancerMachineName (yp_Reconciler p) = meta_Name lbm"
    unfolding started by (simp_all add: flag_or_def fl)
  note run = keyed_reads.emits_Reconcile [OF assms(1) this]
  have "extends (permitted ns role) s t"
    if "nn_Namespace req \<in> set (mo_Namespaces (yp_Manager p))" "Reconcile_y (yp_Reconciler p) req s = (r, t)" for req s r t
    using runsD [OF emits_runs [OF run, where s = s] that(2)] that(1) by (simp add: namespaces role_def)
  moreover have "extends (permitted ns role) s t" if "(name, check) \<in> set (yp_Readyz p)" "check s = (r, t)" for name check s r t
  proof -
    have "emits (permitted ns role) check"
      using that(1) unfolding started role_def by (simp add: flag_or_def fl emits_readyz)
    from runsD [OF emits_runs [OF this, where s = s] that(2)] show ?thesis .
  qed
  moreover have "role_allows ns role rq \<longrightarrow>
      rq_Verb rq \<in> {''get'', ''list'', ''watch''} \<or> rq_Resource rq = ''events'' \<or> rq_Name rq = meta_Name lbm" for rq
    unfolding role_def machine_role by auto
  ultimately show ?thesis by blast
qed

section \<open>A reader of command lines\<close>

text \<open>The words between blanks; a flag with its value in the same word, or in the next one.\<close>

fun read_words :: "string list \<Rightarrow> (string \<times> string) list option" where
  "read_words [] = Some []"
| "read_words (w # ws) =
     (if take 2 w \<noteq> ''--'' then None
      else case splitOn (CHR ''='') (drop 2 w) of
          [n, v] \<Rightarrow> map_option (Cons (n, v)) (read_words ws)
        | [n] \<Rightarrow> (case ws of [] \<Rightarrow> None | v # rest \<Rightarrow> map_option (Cons (n, v)) (read_words rest))
        | _ \<Rightarrow> None)"

definition simple_reader :: "string \<Rightarrow> flag_values result" where
  "simple_reader s =
     (case read_words (filter (\<lambda>w. w \<noteq> []) (splitOn (CHR '' '') s)) of
        None \<Rightarrow> Err (OtherErr ''unknown flag'')
      | Some kvs \<Rightarrow> Ok (no_flags\<lparr>fl_String := map_of (filter (\<lambda>kv. fst kv \<in> set text_flags) (rev kvs)),
          fl_Int := (\<lambda>n. if n = ''requeue-time'' then Option.bind (map_of (rev kvs) n) Atoi else None)\<rparr>))"

fun item_words :: "flag_item \<Rightarrow> string list" where
  "item_words (Given n v) = [''--'' @ n @ ''='' @ v]"
| "item_words (GivenNext n v) = [''--'' @ n, v]"
| "item_words (GivenInt n i) = [''--'' @ n @ ''='' @ Itoa i]"

definition word_text :: "string \<Rightarrow> bool" where
  "word_text s = (s \<noteq> [] \<and> CHR '' '' \<notin> set s \<and> CHR ''='' \<notin> set s)"

lemma word_plain: "plain_text s \<Longrightarrow> word_text s"
proof -
  have "\<not> alnum CHR '' ''" "\<not> alnum CHR ''=''" by code_simp+
  then show "plain_text s \<Longrightarrow> word_text s" by (auto simp: plain_text_def word_text_def list_all_iff)
qed

lemma word_flags: "n \<in> set text_flags \<Longrightarrow> word_text n" "word_text ''requeue-time''"
proof -
  have "list_all word_text text_flags" by code_simp
  then show "n \<in> set text_flags \<Longrightarrow> word_text n" by (simp add: list_all_iff)
qed code_simp

lemma word_Itoa: "word_text (Itoa i)"
proof -
  have "\<not> is_digit CHR '' ''" "\<not> is_digit CHR ''=''" by code_simp+
  then have "CHR '' '' \<notin> set (nat_digits n) \<and> CHR ''='' \<notin> set (nat_digits n)" for n
    using nat_digits_digits [of n] by (auto simp: list_all_iff)
  then show ?thesis by (auto simp: word_text_def Itoa_def)
qed

lemma item_words_value:
  assumes "plain_item item"
  shows "\<exists>n v. word_text n \<and> word_text v \<and> item_value item = (n, v) \<and>
    (item_words item = [''--'' @ n @ ''='' @ v] \<and> item_text item = ''--'' @ n @ ''='' @ v \<or>
     item_words item = [''--'' @ n, v] \<and> item_text item = ''--'' @ n @ '' '' @ v)"
  using assms by (cases item) (auto simp: word_plain word_flags word_Itoa)

lemma command_words:
  assumes "list_all plain_item items"
  shows "filter (\<lambda>w. w \<noteq> []) (splitOn (CHR '' '') (command_line items)) = concat (map item_words items)"
  using assms
proof (induction items)
  case (Cons item items)
  then obtain n v where w: "word_text n" "word_text v" and it: "item_words item = [''--'' @ n @ ''='' @ v] \<and> item_text item = ''--'' @ n @ ''='' @ v \<or>
     item_words item = [''--'' @ n, v] \<and> item_text item = ''--'' @ n @ '' '' @ v"
    using item_words_value [of item] by auto
  let ?rest = "command_line items"
  have line: "command_line (item # items) = item_text item @ CHR '' '' # ?rest"
    by (simp add: command_line_def)
  have "splitOn (CHR '' '') ((''--'' @ n @ ''='' @ v) @ CHR '' '' # ?rest) = (''--'' @ n @ ''='' @ v) # splitOn (CHR '' '') ?rest"
    by (rule splitOn_sep) (use w in \<open>auto simp: word_text_def\<close>)
  moreover have "splitOn (CHR '' '') ((''--'' @ n) @ CHR '' '' # v @ CHR '' '' # ?rest) = (''--'' @ n) # splitOn (CHR '' '') (v @ CHR '' '' # ?rest)"
    by (rule splitOn_sep) (use w in \<open>auto simp: word_text_def\<close>)
  moreover have "splitOn (CHR '' '') (v @ CHR '' '' # ?rest) = v # splitOn (CHR '' '') ?rest"
    by (rule splitOn_sep) (use w in \<open>auto simp: word_text_def\<close>)
  ultimately show ?case
    using it Cons w unfolding line by (auto simp: word_text_def simp del: splitOn.simps)
qed (simp add: command_line_def)

lemma read_item_words: "list_all plain_item items \<Longrightarrow> read_words (concat (map item_words items)) = Some (map item_value items)"
proof (induction items)
  case (Cons item items)
  then obtain n v where w: "word_text n" "word_text v" "item_value item = (n, v)"
    and it: "item_words item = [''--'' @ n @ ''='' @ v] \<or> item_words item = [''--'' @ n, v]"
    using item_words_value [of item] by auto
  have "splitOn (CHR ''='') (n @ CHR ''='' # v) = [n, v]" "splitOn (CHR ''='') n = [n]"
    using w by (simp_all add: word_text_def splitOn_sep splitOn_absent)
  with it Cons w show ?case by auto
qed simp

lemma text_values_filter:
  "list_all plain_item items \<Longrightarrow> concat (map text_value items) = filter (\<lambda>kv. fst kv \<in> set text_flags) (map item_value items)"
proof (induction items)
  case (Cons item items)
  have "''requeue-time'' \<notin> set text_flags" by code_simp
  with Cons show ?case by (cases item) simp_all
qed simp

lemma int_values_last:
  "list_all plain_item items \<Longrightarrow> map_of (concat (map int_value items)) =
     (\<lambda>n. if n = ''requeue-time'' then Option.bind (map_of (map item_value items) n) Atoi else None)"
proof (induction items)
  case (Cons item items)
  have "''requeue-time'' \<notin> set text_flags" by code_simp
  with Cons show ?case by (cases item) (auto simp: fun_eq_iff Atoi_Itoa)
qed (simp add: fun_eq_iff)

lemma rev_values:
  "rev (concat (map text_value items)) = concat (map text_value (rev items))"
  "rev (concat (map int_value items)) = concat (map int_value (rev items))"
proof -
  have "rev (text_value i) = text_value i" "rev (int_value i) = int_value i" for i by (cases i; simp)+
  then show "rev (concat (map text_value items)) = concat (map text_value (rev items))"
    "rev (concat (map int_value items)) = concat (map int_value (rev items))"
    by (induction items) simp_all
qed

lemma simple_reader_reads: "reads_command_line simple_reader"
  unfolding reads_command_line_def
proof (intro allI impI)
  fix items
  assume plain: "list_all plain_item items"
  then have rev: "list_all plain_item (rev items)" by (simp add: list_all_iff)
  show "\<exists>fl. simple_reader (command_line items) = Ok fl \<and> fl_String fl = map_of (rev (concat (map text_value items))) \<and>
       fl_Int fl = map_of (rev (concat (map int_value items)))"
    by (simp add: simple_reader_def command_words [OF plain] read_item_words [OF plain] rev_values
        text_values_filter [OF rev] int_values_last [OF rev] rev_map fun_eq_iff)
qed

section \<open>A machine that starts\<close>

text \<open>The API in memory, where objects are found by their own keys, and a host on which everything can be started.\<close>

definition machine_kube :: "mem kube" where
  "machine_kube = yawollet_kube\<lparr>k_GetLB := (\<lambda>n w.
     (case List.find (\<lambda>x. key_of x = n) (map snd (mem_lbs w)) of None \<Rightarrow> api_not_found | Some x \<Rightarrow> Ok x, w))\<rparr>"

interpretation machine_reads: keyed_reads machine_kube
  by unfold_locales (auto simp: machine_kube_def yawollet_kube_def api_not_found_def dest: find_key split: option.splits)

definition machine_lib :: "mem yawollet_lib" where
  "machine_lib = \<lparr>yl_Client = machine_kube, yl_Machines = mem_machine_kube, yl_Host = fake_host, yl_Envoy = example_envoy,
     yl_EnvoyCache = fake_cache, yl_Listen = (\<lambda>_. ret ()), yl_time_text = (\<lambda>_. []), yl_CacheSynced = True\<rparr>"

lemma machine_lib_starts:
  assumes "fl_String fl ''namespace'' = Some ns" "fl_String fl ''loadbalancer-name'' = Some n" "fl_String fl ''loadbalancer-machine-name'' = Some m"
    and "fl_String fl ''listen-address'' = Some addr" and "ns \<noteq> []" "n \<noteq> []" "m \<noteq> []" "addr \<noteq> []"
  shows "\<exists>p w'. yawollet_main quiet_lib machine_lib [] fl w = (Ok p, w')"
proof -
  have "\<exists>w'. serve_first_snapshot machine_lib w = (Ok (), w')"
    by (simp add: serve_first_snapshot_def machine_lib_def example_envoy_def fake_cache_def bindM_def catchM_def liftR_def)
  then show ?thesis
    using assms by (auto simp: yawollet_main_def flag_or_def listen_address_def Let_def thenM_def bindM_Ok liftR_Ok exit_on_Ok
        exit_on_any_Ok machine_lib_def ret_def quiet_lib_def)
qed

lemma plain_names: "plain_text ''ns''" "plain_text ''lb''" "plain_text ''lbm''" "plain_text ''10.0.0.1''"
  by code_simp+

lemma example_names: "meta_Namespace example_machine = ''ns''" "meta_Name example_machine = ''lbm''"
    "meta_Name plain_lb = ''lb''" "in_int64 60"
  by (simp_all add: example_machine_def plain_lb_def in_int64_def)

lemma example_start:
  obtains fl p w' where "simple_reader (yawollet_args ''ns'' ''lb'' ''lbm'' ''10.0.0.1'' 60) = Ok fl"
    and "yawollet_main quiet_lib machine_lib [] fl yawollet_world = (Ok p, w')"
proof -
  obtain fl where fl: "simple_reader (yawollet_args ''ns'' ''lb'' ''lbm'' ''10.0.0.1'' 60) = Ok fl"
      "fl_String fl ''namespace'' = Some ''ns''" "fl_String fl ''loadbalancer-name'' = Some ''lb''"
      "fl_String fl ''loadbalancer-machine-name'' = Some ''lbm''" "fl_String fl ''listen-address'' = Some ''10.0.0.1''"
    using args_read [OF simple_reader_reads plain_names example_names(4)] by blast
  with machine_lib_starts [OF fl(2-5), of yawollet_world] that show thesis by auto
qed

lemma yawollet_looks_after_its_machine_witness:
  "\<exists>user_data fl p w'. GenerateUserData (\<lambda>_. Ok []) ''kubeconfig'' plain_lb example_machine ''10.0.0.1'' 60 [] [] = Ok user_data \<and>
     simple_reader (yawollet_args ''ns'' ''lb'' ''lbm'' ''10.0.0.1'' 60) = Ok fl \<and>
     yawollet_main quiet_lib machine_lib [] fl yawollet_world = (Ok p, w') \<and> y_LoadbalancerMachineName (yp_Reconciler p) = ''lbm'' \<and>
     y_RequeueDuration (yp_Reconciler p) = requeue_duration 60"
proof -
  obtain user_data where data: "GenerateUserData (\<lambda>_. Ok []) ''kubeconfig'' plain_lb example_machine ''10.0.0.1'' 60 [] [] = Ok user_data"
    by (simp add: GenerateUserData_def Let_def plain_lb_def zero_lb_def zero_lb_spec_def zero_options_def)
  obtain fl p w' where run: "simple_reader (yawollet_args ''ns'' ''lb'' ''lbm'' ''10.0.0.1'' 60) = Ok fl"
      "yawollet_main quiet_lib machine_lib [] fl yawollet_world = (Ok p, w')"
    by (rule example_start)
  obtain fl' where "simple_reader (yawollet_args ''ns'' ''lb'' ''lbm'' ''10.0.0.1'' 60) = Ok fl'"
    and all: "\<forall>p t. yawollet_main quiet_lib machine_lib [] fl' yawollet_world = (Ok p, t) \<longrightarrow>
       y_LoadbalancerMachineName (yp_Reconciler p) = ''lbm'' \<and> y_RequeueDuration (yp_Reconciler p) = requeue_duration 60"
    using yawollet_looks_after_its_machine [where 'a = mem, OF simple_reader_reads example_names(4), of example_machine plain_lb, unfolded example_names,
        OF plain_names data] by (elim conjE exE) (simp add: Let_def)
  with run have "fl' = fl" by simp
  with data run all show ?thesis by blast
qed

lemma yawollet_calls_are_permitted_witness:
  "\<exists>fl p w'. yawollet_main quiet_lib machine_lib [] fl yawollet_world = (Ok p, w') \<and>
     (\<forall>s r t. Reconcile_y (yp_Reconciler p) \<lparr>nn_Namespace = ''ns'', nn_Name = ''lb''\<rparr> s = (r, t) \<longrightarrow>
        extends (permitted ''ns'' (GetRoleRules plain_lb example_machine)) s t)"
proof -
  obtain fl p w' where run: "simple_reader (yawollet_args ''ns'' ''lb'' ''lbm'' ''10.0.0.1'' 60) = Ok fl"
      "yawollet_main quiet_lib machine_lib [] fl yawollet_world = (Ok p, w')"
    by (rule example_start)
  have reads: "keyed_reads (yl_Client machine_lib)"
    using machine_reads.keyed_reads_axioms by (simp add: machine_lib_def)
  note permitted = yawollet_calls_are_permitted [OF reads simple_reader_reads example_names(4), of example_machine plain_lb,
      unfolded example_names, OF plain_names run]
  have "mo_Namespaces (yp_Manager p) = [''ns'']"
    using run(2) args_read [OF simple_reader_reads plain_names example_names(4)] run(1)
    by (auto simp: yawollet_started(3) [OF run(2)] flag_or_def)
  then have "\<forall>s r t. Reconcile_y (yp_Reconciler p) \<lparr>nn_Namespace = ''ns'', nn_Name = ''lb''\<rparr> s = (r, t) \<longrightarrow>
      extends (permitted ''ns'' (GetRoleRules plain_lb example_machine)) s t"
    using permitted [THEN conjunct1, THEN spec, of "\<lparr>nn_Namespace = ''ns'', nn_Name = ''lb''\<rparr>"] by simp
  with run(2) show ?thesis by (intro exI conjI)
qed

end
