(* ===== verification/MergePatch.thy ===== *)
theory MergePatch
  imports CloudTypes MachineHealth
begin

text \<open>
  The patches as they go over the wire. The controllers send JSON merge patches, texts put together from marshalled
  structs; \<open>CloudTypes\<close> and \<open>CloudApi\<close> give each of them by what it does to a LoadBalancer. Here are the JSON
  documents themselves, with the names and the \<open>omitempty\<close> of \<open>api/v1beta1/loadbalancer_types.go\<close>, the merging of
  RFC 7386, and the proof that reading the merged document is the same as applying the patch to what was read.
  The texts of durations and times are parameters.
\<close>

section \<open>JSON\<close>

text \<open>An object is the map from its names to its values.\<close>

datatype json = JNull | JBool bool | JNum int | JStr string | JArr "json list" | JObj "string \<Rightarrow> json option"

fun fields :: "json option \<Rightarrow> string \<Rightarrow> json option" where
  "fields (Some (JObj m)) = m"
| "fields _ = Map.empty"

text \<open>\<open>MergePatch(Target, Patch)\<close> of RFC 7386. What is not an object counts as an empty one.\<close>

primrec merge_patch :: "json \<Rightarrow> json option \<Rightarrow> json" where
  "merge_patch JNull = (\<lambda>t. JNull)"
| "merge_patch (JBool b) = (\<lambda>t. JBool b)"
| "merge_patch (JNum n) = (\<lambda>t. JNum n)"
| "merge_patch (JStr s) = (\<lambda>t. JStr s)"
| "merge_patch (JArr xs) = (\<lambda>t. JArr xs)"
| "merge_patch (JObj p) = (\<lambda>t. JObj (\<lambda>k. case (map_option merge_patch \<circ> p) k of
     None \<Rightarrow> fields t k
   | Some merge \<Rightarrow> if p k = Some JNull then None else Some (merge (fields t k))))"

text \<open>A struct is marshalled field by field; nothing stands for a field that is omitted.\<close>

definition obj :: "(string \<times> json option) list \<Rightarrow> json" where
  "obj kvs = JObj (\<lambda>k. case map_of kvs k of None \<Rightarrow> None | Some v \<Rightarrow> v)"

text \<open>A field after the merge, by the field of the patch.\<close>

definition merged :: "json option \<Rightarrow> json option \<Rightarrow> json option" where
  "merged p t = (case p of None \<Rightarrow> t | Some v \<Rightarrow> if v = JNull then None else Some (merge_patch v t))"

lemma fields_merged [simp]:
  "fields (merged (Some (obj kvs)) t) k = (case map_of kvs k of None \<Rightarrow> fields t k | Some v \<Rightarrow> merged v (fields t k))"
  by (auto simp: merged_def obj_def split: option.split)

lemma merged_absent [simp]: "merged None t = t"
  by (simp add: merged_def)

section \<open>Marshalling\<close>

definition omit_string :: "string \<Rightarrow> json option" where
  "omit_string s = (if s = [] then None else Some (JStr s))"

definition omit_nil :: "('a \<Rightarrow> json) \<Rightarrow> 'a option \<Rightarrow> json option" where
  "omit_nil f p = map_option f p"

definition or_null :: "('a \<Rightarrow> json) \<Rightarrow> 'a option \<Rightarrow> json option" where
  "or_null f p = Some (case p of None \<Rightarrow> JNull | Some v \<Rightarrow> f v)"

definition array :: "('a \<Rightarrow> json) \<Rightarrow> 'a list \<Rightarrow> json" where
  "array f xs = JArr (map f xs)"

definition labels_json :: "labels \<Rightarrow> json" where
  "labels_json m = JObj (map_option JStr \<circ> m)"

section \<open>Unmarshalling\<close>

text \<open>What is absent, \<open>null\<close> or of another type leaves the zero value.\<close>

definition str_of :: "json option \<Rightarrow> string" where
  "str_of t = (case t of Some (JStr s) \<Rightarrow> s | _ \<Rightarrow> [])"

definition opt_str :: "json option \<Rightarrow> string option" where
  "opt_str t = (case t of Some (JStr s) \<Rightarrow> Some s | _ \<Rightarrow> None)"

definition num_of :: "json option \<Rightarrow> int" where
  "num_of t = (case t of Some (JNum n) \<Rightarrow> n | _ \<Rightarrow> 0)"

definition opt_num :: "json option \<Rightarrow> int option" where
  "opt_num t = (case t of Some (JNum n) \<Rightarrow> Some n | _ \<Rightarrow> None)"

definition bool_of :: "json option \<Rightarrow> bool" where
  "bool_of t = (case t of Some (JBool b) \<Rightarrow> b | _ \<Rightarrow> False)"

definition list_of :: "(json option \<Rightarrow> 'a) \<Rightarrow> json option \<Rightarrow> 'a list option" where
  "list_of f t = (case t of Some (JArr xs) \<Rightarrow> Some (map (\<lambda>x. f (Some x)) xs) | _ \<Rightarrow> None)"

definition labels_of :: "json option \<Rightarrow> labels option" where
  "labels_of t = (case t of Some (JObj m) \<Rightarrow> Some (map_option (\<lambda>v. str_of (Some v)) \<circ> m) | _ \<Rightarrow> None)"

text \<open>Text with a parser: durations and times.\<close>

definition opt_text :: "(string \<Rightarrow> 'a option) \<Rightarrow> json option \<Rightarrow> 'a option" where
  "opt_text parse t = Option.bind (opt_str t) parse"

named_theorems json_merge "reading a merged field"

lemma read_merged [json_merge]:
  "str_of (merged (omit_string s) t) = over_string s (str_of t)"
  "str_of (merged (Some (JStr s)) t) = s"
  "opt_str (merged (omit_nil JStr p) t) = over p (opt_str t)"
  "opt_str (merged (or_null JStr p) t) = p"
  "opt_num (merged (omit_nil JNum i) t) = over i (opt_num t)"
  "num_of (merged (Some (JNum n)) t) = n"
  "bool_of (merged (Some (JBool b)) t) = b"
  "list_of f (merged (or_null (array g) xs) t) = map_option (map (\<lambda>x. f (Some (g x)))) xs"
  "list_of f (merged (Some (array g ys)) t) = Some (map (\<lambda>x. f (Some (g x))) ys)"
  by (auto simp: merged_def str_of_def opt_str_def num_of_def opt_num_def bool_of_def list_of_def omit_string_def over_string_def omit_nil_def
      or_null_def array_def over_def split: option.split)

lemma read_merged_text [json_merge]:
  assumes "\<And>d. p = Some d \<Longrightarrow> parse (show d) = Some d"
  shows "opt_text parse (merged (omit_nil (\<lambda>d. JStr (show d)) p) t) = over p (opt_text parse t)"
    and "opt_text parse (merged (or_null (\<lambda>d. JStr (show d)) p) t) = p"
  using assms by (auto simp: opt_text_def merged_def omit_nil_def or_null_def opt_str_def over_def split: option.split)

lemma read_merged_labels [json_merge]: "labels_of (merged (or_null labels_json p) t) = merge_labels p (labels_of t)"
proof (cases p)
  case (Some new)
  then have "merged (or_null labels_json p) t = Some (JObj (\<lambda>k. case new k of None \<Rightarrow> fields t k | Some s \<Rightarrow> Some (JStr s)))"
    by (auto simp: merged_def or_null_def labels_json_def fun_eq_iff split: option.split)
  then show ?thesis
    by (cases t rule: fields.cases)
      (auto simp: Some labels_of_def merge_labels_def str_of_def fun_eq_iff map_add_def split: option.split)
qed (simp add: merged_def or_null_def labels_of_def merge_labels_def)

section \<open>The structs of a spec\<close>

definition omit_zero :: "int \<Rightarrow> json option" where
  "omit_zero n = (if n = 0 then None else Some (JNum n))"

definition omit_empty :: "('a \<Rightarrow> json) \<Rightarrow> 'a list option \<Rightarrow> json option" where
  "omit_empty f xs = (case xs of None \<Rightarrow> None | Some [] \<Rightarrow> None | Some (y # ys) \<Rightarrow> Some (array f (y # ys)))"

fun target_json :: "int_or_string \<Rightarrow> json" where
  "target_json (IntVal n) = JNum n"
| "target_json (StrVal s) = JStr s"

fun target_of :: "json option \<Rightarrow> int_or_string" where
  "target_of (Some (JNum n)) = IntVal n"
| "target_of (Some (JStr s)) = StrVal s"
| "target_of _ = IntVal 0"

definition port_json :: "service_port \<Rightarrow> json" where
  "port_json p = obj [(''name'', omit_string (sp_Name p)), (''protocol'', omit_string (sp_Protocol p)),
     (''appProtocol'', omit_nil JStr (sp_AppProtocol p)), (''port'', Some (JNum (sp_Port p))),
     (''targetPort'', Some (target_json (sp_TargetPort p))), (''nodePort'', omit_zero (sp_NodePort p))]"

definition port_of :: "json option \<Rightarrow> service_port" where
  "port_of t = \<lparr>sp_Name = str_of (fields t ''name''), sp_Protocol = str_of (fields t ''protocol''),
     sp_AppProtocol = opt_str (fields t ''appProtocol''), sp_Port = num_of (fields t ''port''),
     sp_TargetPort = target_of (fields t ''targetPort''), sp_NodePort = num_of (fields t ''nodePort'')\<rparr>"

definition endpoint_json :: "endpoint \<Rightarrow> json" where
  "endpoint_json e = obj [(''name'', Some (JStr (ep_Name e))), (''addresses'', omit_empty JStr (ep_Addresses e))]"

definition endpoint_of :: "json option \<Rightarrow> endpoint" where
  "endpoint_of t = \<lparr>ep_Name = str_of (fields t ''name''), ep_Addresses = list_of str_of (fields t ''addresses'')\<rparr>"

definition debug_json :: "debug_settings \<Rightarrow> json" where
  "debug_json d = obj [(''enabled'', Some (JBool (dbg_Enabled d))), (''sshkeyName'', omit_string (dbg_SshkeyName d))]"

definition debug_of :: "json option \<Rightarrow> debug_settings" where
  "debug_of t = \<lparr>dbg_Enabled = bool_of (fields t ''enabled''), dbg_SshkeyName = str_of (fields t ''sshkeyName'')\<rparr>"

definition log_json :: "log_forward \<Rightarrow> json" where
  "log_json l = obj [(''enabled'', Some (JBool (lf_Enabled l))), (''lokiUrl'', Some (JStr (lf_LokiURL l))),
     (''proxyUrl'', omit_string (lf_ProxyURL l)), (''labels'', or_null labels_json (lf_Labels l))]"

definition log_of :: "json option \<Rightarrow> log_forward" where
  "log_of t = \<lparr>lf_Enabled = bool_of (fields t ''enabled''), lf_LokiURL = str_of (fields t ''lokiUrl''),
     lf_ProxyURL = str_of (fields t ''proxyUrl''), lf_Labels = labels_of (fields t ''labels'')\<rparr>"

definition network_json :: "default_network \<Rightarrow> json" where
  "network_json n = obj [(''floatingNetID'', omit_nil JStr (dn_FloatingNetID n)), (''networkID'', Some (JStr (dn_NetworkID n))),
     (''subnetID'', omit_nil JStr (dn_SubnetID n))]"

definition network_of :: "json option \<Rightarrow> default_network" where
  "network_of t = \<lparr>dn_FloatingNetID = opt_str (fields t ''floatingNetID''), dn_NetworkID = str_of (fields t ''networkID''),
     dn_SubnetID = opt_str (fields t ''subnetID'')\<rparr>"

definition additional_json :: "additional_network \<Rightarrow> json" where
  "additional_json n = obj [(''networkID'', Some (JStr (an_NetworkID n)))]"

definition additional_of :: "json option \<Rightarrow> additional_network" where
  "additional_of t = \<lparr>an_NetworkID = str_of (fields t ''networkID'')\<rparr>"

definition image_json :: "image_ref \<Rightarrow> json" where
  "image_json i = obj [(''imageID'', omit_nil JStr (ImageID i)), (''imageName'', omit_nil JStr (ImageName i)),
     (''imageSearch'', omit_nil JStr (ImageSearch i)), (''image_id'', omit_nil JStr (ImageIDOld i)),
     (''image_name'', omit_nil JStr (ImageNameOld i)), (''image_search'', omit_nil JStr (ImageSearchOld i))]"

definition image_ref_of :: "json option \<Rightarrow> image_ref" where
  "image_ref_of t = \<lparr>ImageID = opt_str (fields t ''imageID''), ImageName = opt_str (fields t ''imageName''),
     ImageSearch = opt_str (fields t ''imageSearch''), ImageIDOld = opt_str (fields t ''image_id''),
     ImageNameOld = opt_str (fields t ''image_name''), ImageSearchOld = opt_str (fields t ''image_search'')\<rparr>"

definition flavor_json :: "flavor_ref \<Rightarrow> json" where
  "flavor_json i = obj [(''flavorID'', omit_nil JStr (FlavorID i)), (''flavorName'', omit_nil JStr (FlavorName i)),
     (''flavorSearch'', omit_nil JStr (FlavorSearch i)), (''flavor_id'', omit_nil JStr (FlavorIDOld i)),
     (''flavor_name'', omit_nil JStr (FlavorNameOld i)), (''flavor_search'', omit_nil JStr (FlavorSearchOld i))]"

definition flavor_ref_of :: "json option \<Rightarrow> flavor_ref" where
  "flavor_ref_of t = \<lparr>FlavorID = opt_str (fields t ''flavorID''), FlavorName = opt_str (fields t ''flavorName''),
     FlavorSearch = opt_str (fields t ''flavorSearch''), FlavorIDOld = opt_str (fields t ''flavor_id''),
     FlavorNameOld = opt_str (fields t ''flavor_name''), FlavorSearchOld = opt_str (fields t ''flavor_search'')\<rparr>"

definition reference_json :: "secret_reference \<Rightarrow> json" where
  "reference_json r = obj [(''name'', omit_string (ref_Name r)), (''namespace'', omit_string (ref_Namespace r))]"

definition reference_of :: "json option \<Rightarrow> secret_reference" where
  "reference_of t = \<lparr>ref_Name = str_of (fields t ''name''), ref_Namespace = str_of (fields t ''namespace'')\<rparr>"

definition infrastructure_json :: "infrastructure \<Rightarrow> json" where
  "infrastructure_json i = obj [
     (''floatingNetID'', omit_nil JStr (infra_FloatingNetID i)), (''networkID'', omit_string (infra_NetworkID i)),
     (''defaultNetwork'', Some (network_json (infra_DefaultNetwork i))),
     (''additionalNetworks'', or_null (array additional_json) (infra_AdditionalNetworks i)),
     (''flavor'', Some (flavor_json (infra_Flavor i))), (''image'', Some (image_json (infra_Image i))),
     (''availabilityZone'', Some (JStr (infra_AvailabilityZone i))),
     (''authSecretRef'', Some (reference_json (infra_AuthSecretRef i))), (''projectID'', or_null JStr (infra_ProjectID i))]"

definition infrastructure_of_json :: "json option \<Rightarrow> infrastructure" where
  "infrastructure_of_json t = \<lparr>
     infra_FloatingNetID = opt_str (fields t ''floatingNetID''), infra_NetworkID = str_of (fields t ''networkID''),
     infra_DefaultNetwork = network_of (fields t ''defaultNetwork''),
     infra_AdditionalNetworks = list_of additional_of (fields t ''additionalNetworks''),
     infra_Flavor = flavor_ref_of (fields t ''flavor''), infra_Image = image_ref_of (fields t ''image''),
     infra_AvailabilityZone = str_of (fields t ''availabilityZone''),
     infra_AuthSecretRef = reference_of (fields t ''authSecretRef''), infra_ProjectID = opt_str (fields t ''projectID'')\<rparr>"

text \<open>Each struct merges as its model says.\<close>

lemma fields_obj [simp]: "fields (Some (obj kvs)) k = (case map_of kvs k of None \<Rightarrow> None | Some v \<Rightarrow> v)"
  by (simp add: obj_def)

lemma read_new [json_merge]:
  "str_of (omit_string s) = s" "str_of (Some (JStr s)) = s" "opt_str (omit_nil JStr p) = p" "num_of (omit_zero n) = n"
  "num_of (Some (JNum n)) = n" "target_of (Some (target_json x)) = x"
  "list_of f (omit_empty g xs) = (if xs = Some [] then None else map_option (map (\<lambda>x. f (Some (g x)))) xs)"
  by (auto simp: str_of_def omit_string_def opt_str_def omit_nil_def num_of_def omit_zero_def list_of_def omit_empty_def array_def
      split: option.split list.split) (cases x; simp)

lemma merged_structs [json_merge]:
  "debug_of (merged (Some (debug_json d)) t) = merge_debug d (debug_of t)"
  "log_of (merged (Some (log_json l)) t) = merge_log_forward l (log_of t)"
  "network_of (merged (Some (network_json n)) t) = merge_network n (network_of t)"
  "image_ref_of (merged (Some (image_json i)) t) = merge_image i (image_ref_of t)"
  "flavor_ref_of (merged (Some (flavor_json fl)) t) = merge_flavor fl (flavor_ref_of t)"
  by (simp_all add: debug_of_def debug_json_def merge_debug_def log_of_def log_json_def merge_log_forward_def network_of_def network_json_def
      merge_network_def image_ref_of_def image_json_def merge_image_def flavor_ref_of_def flavor_json_def merge_flavor_def json_merge)

lemma read_structs [json_merge]:
  "port_of (Some (port_json p)) = p" "endpoint_of (Some (endpoint_json e)) = json_endpoint e"
  "additional_of (Some (additional_json a)) = a"
  by (simp_all add: port_of_def port_json_def endpoint_of_def endpoint_json_def json_endpoint_def additional_of_def additional_json_def json_merge
      option.map_ident)

lemma merged_infrastructure [json_merge]:
  "infrastructure_of_json (merged (Some (infrastructure_json i)) t) = merge_infrastructure i (infrastructure_of_json t)"
  by (simp add: infrastructure_of_json_def infrastructure_json_def merge_infrastructure_def reference_of_def reference_json_def json_merge
      option.map_ident)

section \<open>The spec\<close>

definition requirement_of :: "json option \<Rightarrow> label_selector_requirement" where
  "requirement_of t = \<lparr>req_Key = str_of (fields t ''key''), req_Operator = str_of (fields t ''operator''),
     req_Values = (case list_of str_of (fields t ''values'') of None \<Rightarrow> [] | Some vs \<Rightarrow> vs)\<rparr>"

definition selector_of :: "json option \<Rightarrow> label_selector" where
  "selector_of t = \<lparr>MatchLabels = (case labels_of (fields t ''matchLabels'') of None \<Rightarrow> Map.empty | Some m \<Rightarrow> m),
     MatchExpressions = (case list_of requirement_of (fields t ''matchExpressions'') of None \<Rightarrow> [] | Some rs \<Rightarrow> rs)\<rparr>"

definition options_of :: "(string \<Rightarrow> int option) \<Rightarrow> json option \<Rightarrow> lb_options" where
  "options_of parse t = \<lparr>opt_InternalLB = bool_of (fields t ''internalLB''),
     opt_LoadBalancerSourceRanges = list_of str_of (fields t ''loadBalancerSourceRanges''),
     opt_TCPProxyProtocol = bool_of (fields t ''tcpProxyProtocol''),
     opt_TCPProxyProtocolPortsFilter = list_of num_of (fields t ''tcpProxyProtocolPortFilter''),
     opt_TCPIdleTimeout = opt_text parse (fields t ''tcpIdleTimeout''),
     opt_UDPIdleTimeout = opt_text parse (fields t ''udpIdleTimeout''),
     opt_LogForward = log_of (fields t ''logForward''), opt_ServerGroupPolicy = str_of (fields t ''serverGroupPolicy'')\<rparr>"

definition spec_of :: "(string \<Rightarrow> int option) \<Rightarrow> json option \<Rightarrow> lb_spec" where
  "spec_of parse t = \<lparr>spec_Selector = selector_of (fields t ''selector''), spec_Replicas = num_of (fields t ''replicas''),
     spec_ExistingFloatingIP = opt_str (fields t ''existingFloatingIP''), spec_DebugSettings = debug_of (fields t ''debugSettings''),
     spec_Endpoints = list_of endpoint_of (fields t ''endpoints''),
     spec_Ports = (case list_of port_of (fields t ''ports'') of None \<Rightarrow> [] | Some ps \<Rightarrow> ps),
     spec_Infrastructure = infrastructure_of_json (fields t ''infrastructure''), spec_Options = options_of parse (fields t ''options'')\<rparr>"

text \<open>The documents that the reconciler of Services and that of Nodes send.\<close>

definition nested :: "string \<Rightarrow> json option \<Rightarrow> json" where
  "nested k v = obj [(k, v)]"

fun spec_json :: "(int \<Rightarrow> string) \<Rightarrow> spec_patch \<Rightarrow> json" where
  "spec_json show (SpecPorts ps) = nested ''ports'' (Some (array port_json ps))"
| "spec_json show (SpecReplicas n) = nested ''replicas'' (Some (JNum n))"
| "spec_json show (SpecEndpoints eps) = nested ''endpoints'' (Some (array endpoint_json eps))"
| "spec_json show (SpecInfrastructure i) = nested ''infrastructure'' (Some (infrastructure_json i))"
| "spec_json show (SpecInternalLB b) = nested ''options'' (Some (nested ''internalLB'' (Some (JBool b))))"
| "spec_json show SpecNetworkIDEmpty = nested ''infrastructure'' (Some (nested ''networkID'' (Some (JStr []))))"
| "spec_json show SpecFloatingNetIDNull = nested ''infrastructure'' (Some (nested ''floatingNetID'' (Some JNull)))"
| "spec_json show (SpecSourceRanges rs) = nested ''options'' (Some (nested ''loadBalancerSourceRanges'' (or_null (array JStr) rs)))"
| "spec_json show (SpecTCPProxyProtocol b) = nested ''options'' (Some (nested ''tcpProxyProtocol'' (Some (JBool b))))"
| "spec_json show (SpecPortsFilter ps) = nested ''options'' (Some (nested ''tcpProxyProtocolPortFilter'' (or_null (array JNum) ps)))"
| "spec_json show (SpecLogForward l) = nested ''options'' (Some (nested ''logForward'' (Some (log_json l))))"
| "spec_json show (SpecTCPIdleTimeout d) = nested ''options'' (Some (nested ''tcpIdleTimeout'' (or_null (\<lambda>d. JStr (show d)) d)))"
| "spec_json show (SpecUDPIdleTimeout d) = nested ''options'' (Some (nested ''udpIdleTimeout'' (or_null (\<lambda>d. JStr (show d)) d)))"
| "spec_json show (SpecServerGroupPolicy p) = nested ''options'' (Some (nested ''serverGroupPolicy'' (Some (JStr p))))"
| "spec_json show (SpecDebugSettings d) = nested ''debugSettings'' (Some (debug_json d))"
| "spec_json show (SpecExistingFloatingIP ip) = nested ''existingFloatingIP'' (Some (JStr ip))"

definition spec_document :: "(int \<Rightarrow> string) \<Rightarrow> spec_patch \<Rightarrow> json" where
  "spec_document show c = nested ''spec'' (Some (spec_json show c))"

lemma merged_null [json_merge]: "merged (Some JNull) t = None" "opt_str None = None" "opt_str (merged (Some (JStr x)) t) = Some x"
  by (simp_all add: merged_def opt_str_def)

lemma merged_single [json_merge]:
  "infrastructure_of_json (merged (Some (nested ''networkID'' (Some (JStr [])))) t) = (infrastructure_of_json t)\<lparr>infra_NetworkID := []\<rparr>"
  "infrastructure_of_json (merged (Some (nested ''floatingNetID'' (Some JNull))) t) = (infrastructure_of_json t)\<lparr>infra_FloatingNetID := None\<rparr>"
  by (simp_all add: infrastructure_of_json_def nested_def json_merge)

lemma fields_nested [simp]: "fields (merged (Some (nested k v)) t) l = (if l = k then merged v (fields t k) else fields t l)"
  by (simp add: nested_def)

lemma merged_spec:
  assumes "\<And>d. parse (show d) = Some d"
  shows "spec_of parse (merged (Some (spec_json show c)) t) = merge_spec c (spec_of parse t)"
  by (cases c) (simp_all add: spec_of_def options_of_def json_merge assms option.map_ident)

section \<open>The statuses\<close>

text \<open>Times are marshalled in seconds; the zero time is \<open>null\<close>.\<close>

definition time_json :: "(int \<Rightarrow> string) \<Rightarrow> int \<Rightarrow> json" where
  "time_json show t = JStr (show (trunc_time t))"

definition plain_time_json :: "(int \<Rightarrow> string) \<Rightarrow> int \<Rightarrow> json option" where
  "plain_time_json show t = Some (if t = zero_time then JNull else time_json show t)"

definition time_of :: "(string \<Rightarrow> int option) \<Rightarrow> json option \<Rightarrow> int" where
  "time_of parse t = (case opt_text parse t of None \<Rightarrow> zero_time | Some x \<Rightarrow> x)"

definition status_fields :: "(int \<Rightarrow> string) \<Rightarrow> lb_status \<Rightarrow> (string \<times> json option) list" where
  "status_fields show st = [(''readyReplicas'', omit_nil JNum (ReadyReplicas st)), (''replicas'', omit_nil JNum (Replicas st)),
     (''externalIP'', omit_nil JStr (ExternalIP st)), (''floatingID'', omit_nil JStr (FloatingID st)),
     (''floatingName'', omit_nil JStr (FloatingName st)), (''portID'', omit_nil JStr (PortID st)),
     (''portName'', omit_nil JStr (PortName st)), (''portIP'', omit_nil JStr (PortIP st)),
     (''serverGroupID'', omit_nil JStr (ServerGroupID st)), (''serverGroupName'', omit_nil JStr (ServerGroupName st)),
     (''securityGroupID'', omit_nil JStr (SecurityGroupID st)), (''securityGroupName'', omit_nil JStr (SecurityGroupName st)),
     (''security_group_id'', omit_nil JStr (SecurityGroupIDOld st)), (''security_group_name'', omit_nil JStr (SecurityGroupNameOld st)),
     (''lastOpenstackReconcile'', omit_nil (time_json show) (LastOpenstackReconcile st)),
     (''openstackReconcileHash'', omit_nil JStr (OpenstackReconcileHash st))]"

definition status_of :: "(string \<Rightarrow> int option) \<Rightarrow> json option \<Rightarrow> lb_status" where
  "status_of parse t = \<lparr>ReadyReplicas = opt_num (fields t ''readyReplicas''), Replicas = opt_num (fields t ''replicas''),
     ExternalIP = opt_str (fields t ''externalIP''), FloatingID = opt_str (fields t ''floatingID''),
     FloatingName = opt_str (fields t ''floatingName''), PortID = opt_str (fields t ''portID''),
     PortName = opt_str (fields t ''portName''), PortIP = opt_str (fields t ''portIP''),
     ServerGroupID = opt_str (fields t ''serverGroupID''), ServerGroupName = opt_str (fields t ''serverGroupName''),
     SecurityGroupID = opt_str (fields t ''securityGroupID''), SecurityGroupName = opt_str (fields t ''securityGroupName''),
     SecurityGroupIDOld = opt_str (fields t ''security_group_id''), SecurityGroupNameOld = opt_str (fields t ''security_group_name''),
     LastOpenstackReconcile = opt_text parse (fields t ''lastOpenstackReconcile''),
     OpenstackReconcileHash = opt_str (fields t ''openstackReconcileHash'')\<rparr>"

text \<open>\<open>client.MergeFrom\<close>: the fields that differ, \<open>null\<close> for those that are gone. (When no field differs the real document is
  empty; merging an empty status is the same to a reader.)\<close>

definition changed_fields :: "(string \<times> json option) list \<Rightarrow> (string \<times> json option) list \<Rightarrow> (string \<times> json option) list" where
  "changed_fields old new = map2 (\<lambda>(k, a) (_, b). (k, if a = b then None else or_null (\<lambda>v. v) b)) old new"

fun status_json :: "(int \<Rightarrow> string) \<Rightarrow> status_patch \<Rightarrow> json" where
  "status_json show (SetFields p) = obj (status_fields show p)"
| "status_json show (RemoveKey k) = nested k (Some JNull)"
| "status_json show (DiffStatus a b) = obj (changed_fields (status_fields show a) (status_fields show b))"

definition status_document :: "(int \<Rightarrow> string) \<Rightarrow> status_patch \<Rightarrow> json" where
  "status_document show p = nested ''status'' (Some (status_json show p))"

definition lb_status_seconds :: "lb_status \<Rightarrow> lb_status" where
  "lb_status_seconds st = st\<lparr>LastOpenstackReconcile := map_option trunc_time (LastOpenstackReconcile st)\<rparr>"

fun status_patch_seconds :: "status_patch \<Rightarrow> status_patch" where
  "status_patch_seconds (SetFields p) = SetFields (lb_status_seconds p)"
| "status_patch_seconds (RemoveKey k) = RemoveKey k"
| "status_patch_seconds (DiffStatus a b) = DiffStatus (lb_status_seconds a) (lb_status_seconds b)"

lemma read_delta [json_merge]:
  "opt_str (merged (if omit_nil JStr a = omit_nil JStr b then None else or_null (\<lambda>v. v) (omit_nil JStr b)) t) = diff a b (opt_str t)"
  "opt_num (merged (if omit_nil JNum i = omit_nil JNum j then None else or_null (\<lambda>v. v) (omit_nil JNum j)) t) = diff i j (opt_num t)"
proof -
  show "opt_str (merged (if omit_nil JStr a = omit_nil JStr b then None else or_null (\<lambda>v. v) (omit_nil JStr b)) t) = diff a b (opt_str t)"
    by (cases a; cases b) (simp_all add: merged_def omit_nil_def or_null_def opt_str_def diff_def)
  show "opt_num (merged (if omit_nil JNum i = omit_nil JNum j then None else or_null (\<lambda>v. v) (omit_nil JNum j)) t) = diff i j (opt_num t)"
    by (cases i; cases j) (simp_all add: merged_def omit_nil_def or_null_def opt_num_def diff_def)
qed

lemma read_delta_time [json_merge]:
  assumes "\<And>t. parse (show t) = Some t"
  shows "opt_text parse (merged (if omit_nil (time_json show) a = omit_nil (time_json show) b then None else or_null (\<lambda>v. v) (omit_nil (time_json show) b)) t) =
    diff (map_option trunc_time a) (map_option trunc_time b) (opt_text parse t)"
proof -
  have inj: "show x = show y \<longleftrightarrow> x = y" for x y by (metis assms option.inject)
  show ?thesis
    by (cases a; cases b) (simp_all add: inj merged_def omit_nil_def or_null_def opt_text_def opt_str_def diff_def time_json_def assms)
qed

lemma read_time [json_merge]:
  assumes "\<And>t. parse (show t) = Some t"
  shows "opt_text parse (merged (omit_nil (time_json show) p) t) = over (map_option trunc_time p) (opt_text parse t)"
    and "time_of parse (plain_time_json show x) = trunc_time x"
proof -
  show "opt_text parse (merged (omit_nil (time_json show) p) t) = over (map_option trunc_time p) (opt_text parse t)"
    by (cases p) (simp_all add: merged_def omit_nil_def opt_text_def opt_str_def time_json_def over_def assms)
  show "time_of parse (plain_time_json show x) = trunc_time x"
    by (simp add: time_of_def plain_time_json_def opt_text_def opt_str_def time_json_def assms zero_time_def trunc_time_def)
qed

lemma removed [json_merge]:
  "opt_str (if b then merged (Some JNull) t else u) = clear_if b (opt_str u)"
  "opt_num (if b then merged (Some JNull) t else u) = clear_if b (opt_num u)"
  "opt_text parse (if b then merged (Some JNull) t else u) = clear_if b (opt_text parse u)"
  by (simp_all add: merged_def opt_str_def opt_num_def opt_text_def)

lemma merged_status:
  assumes "\<And>t. parse (show t) = Some t"
  shows "status_of parse (merged (Some (status_json show p)) t) = merge_status (status_patch_seconds p) (status_of parse t)"
proof (cases p)
  case (SetFields st)
  then show ?thesis
    by (simp add: status_of_def status_fields_def merge_fields_def lb_status_seconds_def json_merge assms)
next
  case (RemoveKey k)
  then show ?thesis
    by (simp add: status_of_def remove_key_def eq_commute [of k] removed del: merged_null)
next
  case (DiffStatus a b)
  then show ?thesis
    by (simp add: status_of_def status_fields_def changed_fields_def merge_diff_def lb_status_seconds_def json_merge assms cong: if_cong)
qed

text \<open>The status of a machine, with its conditions and metrics.\<close>

definition condition_json :: "(int \<Rightarrow> string) \<Rightarrow> node_condition \<Rightarrow> json" where
  "condition_json show c = obj [(''type'', Some (JStr (nc_Type c))), (''status'', Some (JStr (nc_Status c))),
     (''lastHeartbeatTime'', plain_time_json show (nc_LastHeartbeatTime c)),
     (''lastTransitionTime'', plain_time_json show (nc_LastTransitionTime c)),
     (''reason'', omit_string (nc_Reason c)), (''message'', omit_string (nc_Message c))]"

definition condition_of :: "(string \<Rightarrow> int option) \<Rightarrow> json option \<Rightarrow> node_condition" where
  "condition_of parse t = \<lparr>nc_Type = str_of (fields t ''type''), nc_Status = str_of (fields t ''status''),
     nc_LastHeartbeatTime = time_of parse (fields t ''lastHeartbeatTime''),
     nc_LastTransitionTime = time_of parse (fields t ''lastTransitionTime''),
     nc_Reason = str_of (fields t ''reason''), nc_Message = str_of (fields t ''message'')\<rparr>"

definition metric_json :: "(int \<Rightarrow> string) \<Rightarrow> lbm_metric \<Rightarrow> json" where
  "metric_json show m = obj [(''type'', Some (JStr (metric_Type m))), (''value'', Some (JStr (metric_Value m))),
     (''timestamp'', plain_time_json show (metric_Time m))]"

definition metric_of :: "(string \<Rightarrow> int option) \<Rightarrow> json option \<Rightarrow> lbm_metric" where
  "metric_of parse t = \<lparr>metric_Type = str_of (fields t ''type''), metric_Value = str_of (fields t ''value''),
     metric_Time = time_of parse (fields t ''timestamp'')\<rparr>"

definition lbm_status_json :: "(int \<Rightarrow> string) \<Rightarrow> lbm_status \<Rightarrow> json" where
  "lbm_status_json show st = obj [
     (''conditions'', omit_nil (array (condition_json show)) (lbm_Conditions st)),
     (''metrics'', omit_nil (array (metric_json show)) (lbm_Metrics st)),
     (''creationTimestamp'', omit_nil (time_json show) (lbm_CreationTimestamp st)),
     (''lastOpenstackReconcile'', omit_nil (time_json show) (lbm_LastOpenstackReconcile st)),
     (''serverID'', omit_nil JStr (lbm_ServerID st)), (''portID'', omit_nil JStr (lbm_PortID st)),
     (''defaultPortID'', omit_nil JStr (lbm_DefaultPortID st)), (''defaultPortName'', omit_nil JStr (lbm_DefaultPortName st)),
     (''defaultPortIP'', omit_nil JStr (lbm_DefaultPortIP st)), (''serviceAccountName'', omit_nil JStr (lbm_ServiceAccountName st)),
     (''serviceAccountSecretName'', omit_nil JStr (lbm_ServiceAccountSecretName st)),
     (''roleName'', omit_nil JStr (lbm_RoleName st)), (''roleBindingName'', omit_nil JStr (lbm_RoleBindingName st))]"

definition lbm_status_of :: "(string \<Rightarrow> int option) \<Rightarrow> json option \<Rightarrow> lbm_status" where
  "lbm_status_of parse t = \<lparr>lbm_Conditions = list_of (condition_of parse) (fields t ''conditions''),
     lbm_Metrics = list_of (metric_of parse) (fields t ''metrics''),
     lbm_CreationTimestamp = opt_text parse (fields t ''creationTimestamp''),
     lbm_LastOpenstackReconcile = opt_text parse (fields t ''lastOpenstackReconcile''),
     lbm_ServerID = opt_str (fields t ''serverID''), lbm_PortID = opt_str (fields t ''portID''),
     lbm_DefaultPortID = opt_str (fields t ''defaultPortID''), lbm_DefaultPortName = opt_str (fields t ''defaultPortName''),
     lbm_DefaultPortIP = opt_str (fields t ''defaultPortIP''), lbm_ServiceAccountName = opt_str (fields t ''serviceAccountName''),
     lbm_ServiceAccountSecretName = opt_str (fields t ''serviceAccountSecretName''),
     lbm_RoleName = opt_str (fields t ''roleName''), lbm_RoleBindingName = opt_str (fields t ''roleBindingName'')\<rparr>"

fun machine_patch_json :: "(int \<Rightarrow> string) \<Rightarrow> machine_patch \<Rightarrow> json" where
  "machine_patch_json show (MSetFields p) = lbm_status_json show p"
| "machine_patch_json show (MRemoveKey k) = nested k (Some JNull)"
| "machine_patch_json show (MReport cs ms) = obj [
     (''conditions'', case cs of None \<Rightarrow> None | Some x \<Rightarrow> or_null (array (condition_json show)) x),
     (''metrics'', case ms of None \<Rightarrow> None | Some x \<Rightarrow> or_null (array (metric_json show)) x)]"

definition machine_document :: "(int \<Rightarrow> string) \<Rightarrow> machine_patch \<Rightarrow> json" where
  "machine_document show p = nested ''status'' (Some (machine_patch_json show p))"

definition json_metric :: "lbm_metric \<Rightarrow> lbm_metric" where
  "json_metric m = m\<lparr>metric_Time := trunc_time (metric_Time m)\<rparr>"

fun machine_patch_seconds :: "machine_patch \<Rightarrow> machine_patch" where
  "machine_patch_seconds (MSetFields p) = MSetFields (json_lbm_status p)"
| "machine_patch_seconds (MRemoveKey k) = MRemoveKey k"
| "machine_patch_seconds (MReport cs ms) = MReport (map_option (map_option (map json_condition)) cs) (map_option (map_option (map json_metric)) ms)"

lemma read_reports [json_merge]:
  assumes "\<And>t. parse (show t) = Some t"
  shows "condition_of parse (Some (condition_json show c)) = json_condition c"
    and "metric_of parse (Some (metric_json show m)) = json_metric m"
  by (simp_all add: condition_of_def condition_json_def json_condition_def metric_of_def metric_json_def json_metric_def json_merge assms)

lemma read_merged_list [json_merge]:
  "list_of f (merged (omit_nil (array g) xs) t) = take_new (map_option (map (\<lambda>x. f (Some (g x)))) xs) (list_of f t)"
  by (cases xs) (simp_all add: merged_def omit_nil_def list_of_def array_def take_new_def)

lemma removed_machine [json_merge]:
  "opt_str (if b then merged (Some JNull) t else u) = drop_if b (opt_str u)"
  "opt_text parse (if b then merged (Some JNull) t else u) = drop_if b (opt_text parse u)"
  "list_of f (if b then merged (Some JNull) t else u) = drop_if b (list_of f u)"
  by (simp_all add: merged_def opt_str_def opt_text_def list_of_def drop_if_def)

lemma over_take_new: "over p x = take_new p x"
  by (simp add: over_def take_new_def)

lemma merged_machine_status:
  assumes "\<And>t. parse (show t) = Some t"
  shows "lbm_status_of parse (merged (Some (machine_patch_json show p)) t) = merge_lbm_status (machine_patch_seconds p) (lbm_status_of parse t)"
proof (cases p)
  case (MSetFields st)
  then show ?thesis
    by (simp add: lbm_status_of_def lbm_status_json_def merge_lbm_fields_def json_lbm_status_def json_merge assms over_take_new json_metric_def)
next
  case (MRemoveKey k)
  then show ?thesis
    by (simp add: lbm_status_of_def remove_lbm_key_def eq_commute [of k] removed_machine del: merged_null)
next
  case (MReport cs ms)
  then show ?thesis
    by (simp add: lbm_status_of_def replaced_def json_merge assms split: option.split)
qed

section \<open>Patches are merge patches\<close>

text \<open>C19. What the controllers' patches do is what the API server does with the documents they send. Merging the document of a
  patch into that of an object by RFC 7386 and reading the result gives the object with the patch applied, for every
  patch of the spec of a LoadBalancer, of its status and of the status of a machine, whatever was stored before,
  missing fields included; times are read back in seconds. Nothing beside the spec or the status changes.\<close>

theorem patches_are_merge_patches:
  assumes "\<And>d. parse_duration (show_duration d) = Some d" and "\<And>t. parse_time (show_time t) = Some t"
  defines "spec \<equiv> \<lambda>doc. spec_of parse_duration (fields doc ''spec'')" and "status \<equiv> \<lambda>doc. status_of parse_time (fields doc ''status'')"
    and "machine \<equiv> \<lambda>doc. lbm_status_of parse_time (fields doc ''status'')"
  shows "spec (merged (Some (spec_document show_duration c)) doc) = merge_spec c (spec doc) \<and>
    status (merged (Some (status_document show_time p)) doc) = merge_status (status_patch_seconds p) (status doc) \<and>
    machine (merged (Some (machine_document show_time q)) doc) = merge_lbm_status (machine_patch_seconds q) (machine doc) \<and>
    (\<forall>k. k \<noteq> ''spec'' \<longrightarrow> fields (merged (Some (spec_document show_duration c)) doc) k = fields doc k) \<and>
    (\<forall>k. k \<noteq> ''status'' \<longrightarrow> fields (merged (Some (status_document show_time p)) doc) k = fields doc k \<and>
       fields (merged (Some (machine_document show_time q)) doc) k = fields doc k)"
  unfolding spec_def status_def machine_def
  by (simp add: spec_document_def status_document_def machine_document_def merged_spec [OF assms(1)] merged_status [OF assms(2)]
      merged_machine_status [OF assms(2)])

text \<open>Numbers in decimals, and a document with a floating IP, a proxy and a key that no struct knows.\<close>

definition digits_int :: "string \<Rightarrow> int option" where
  "digits_int s = (case s of [] \<Rightarrow> None
     | c # cs \<Rightarrow> if c = CHR ''-'' then map_option (\<lambda>n. - int n) (parse_digits cs) else map_option int (parse_digits s))"

lemma digits_int_Itoa: "digits_int (Itoa i) = Some i"
proof (cases "i < 0")
  case False
  obtain c cs where d: "nat_digits (nat i) = c # cs" by (cases "nat_digits (nat i)") simp_all
  then have "c \<noteq> CHR ''-''"
    using nat_digits_digits [of "nat i"] digit_not_sign by (auto simp: list_all_iff)
  with False d parse_nat_digits [of "nat i"] show ?thesis by (simp add: digits_int_def Itoa_def)
qed (simp add: digits_int_def Itoa_def parse_nat_digits)

definition stored_document :: json where
  "stored_document = obj [(''spec'', Some (obj [(''replicas'', Some (JNum 2)),
       (''options'', Some (obj [(''logForward'', Some (obj [(''proxyUrl'', Some (JStr ''http://proxy''))]))]))])),
     (''status'', Some (obj [(''floatingID'', Some (JStr ''fip'')), (''security_group_id'', Some (JStr ''old''))])),
     (''other'', Some (JBool True))]"

lemma patches_are_merge_patches_witness:
  "lf_ProxyURL (opt_LogForward (spec_Options (spec_of digits_int (fields (merged
       (Some (spec_document Itoa (SpecLogForward \<lparr>lf_Enabled = True, lf_LokiURL = ''http://loki'', lf_ProxyURL = [], lf_Labels = None\<rparr>)))
       (Some stored_document)) ''spec'')))) = ''http://proxy'' \<and>
   status_of digits_int (fields (merged (Some (status_document Itoa (RemoveKey ''floatingID''))) (Some stored_document)) ''status'') =
     (status_of digits_int (fields (Some stored_document) ''status''))\<lparr>FloatingID := None\<rparr>"
proof -
  note square = patches_are_merge_patches [where parse_duration = digits_int and show_duration = Itoa and parse_time = digits_int and
      show_time = Itoa and doc = "Some stored_document", OF digits_int_Itoa digits_int_Itoa]
  have "lf_ProxyURL (opt_LogForward (spec_Options (spec_of digits_int (fields (Some stored_document) ''spec'')))) = ''http://proxy''"
    by (simp add: stored_document_def spec_of_def options_of_def log_of_def str_of_def)
  with square [of "SpecLogForward \<lparr>lf_Enabled = True, lf_LokiURL = ''http://loki'', lf_ProxyURL = [], lf_Labels = None\<rparr>" "RemoveKey ''floatingID''"]
  show ?thesis
    by (simp add: merge_log_forward_def over_string_def remove_key_def)
qed

end
