(* ===== verification/Spec2Isabelle.thy ===== *)
theory Spec2Isabelle
  imports OpenstackHelper UserResources Rollout LBSController ServiceOutcome ServiceEdges MachineServers
    EnvoyConfig KeepalivedStats YawolletReady MetricsFacts OsClientFacts Startup
    Watches EndToEnd YawolletStart MergePatch
begin

text \<open>
  yawol: LoadBalancers for Kubernetes on OpenStack. A verification library for the Go code under \<open>src/\<close>.

  \<^bold>\<open>The program.\<close> Three programs share the custom resources LoadBalancer, LoadBalancerSet and LoadBalancerMachine.
  The yawol-cloud-controller watches the Services and Nodes of a target cluster and keeps a LoadBalancer per Service in
  the control cluster. The yawol-controller turns a LoadBalancer into OpenStack resources (floating IP, port, security
  group, server group) and into one LoadBalancerSet per revision of its specification; a set into machines; and a machine
  into a port and a server, whose user data starts the third program. That one, the yawollet, runs on the machine,
  configures Envoy and reports conditions and metrics in the status of its machine; the set controller replaces the
  machines whose conditions are bad or too old. The programs talk through the stored objects only.

  \<^bold>\<open>How the code is modelled.\<close> A Go function with effects is a HOL function on an explicit state (\<open>Prelude\<close>: type
  \<open>gop\<close>). Its result is \<open>Ok\<close> with a value, \<open>Err\<close> with an error, or \<open>Crash\<close>, a run-time panic (a nil pointer that is
  dereferenced, an index out of range); deferred calls, early returns and ignored errors are written out. The state has
  the world behind the clients and the trace of all calls made to it, each with the flag whether it succeeded. The world
  is of any type: the Kubernetes API and OpenStack are records of functions (\<open>kube\<close>, \<open>machine_kube\<close>, \<open>os_env\<close>,
  \<open>server_env\<close>, the two clusters of \<open>CloudTypes\<close>, the \<open>host\<close> and the \<open>snapshot_cache\<close> of \<open>EnvoyTypes\<close>) that may
  answer and change the world as they like, other clients and lost answers included. Structs are records, pointers and
  slices that may be nil are options, Go's \<open>int\<close> is an integer with \<open>wrap64\<close> where it can overflow, \<open>uint32\<close> and
  \<open>uint64\<close> are words, strings are lists of bytes, and maps are functions or, where their order shows, association lists.
  Objects that the code mutates through a pointer are fields of the state. All loops are structural recursions over the
  list the Go loop ranges over, but for \<open>ParseDuration\<close>, which has its own termination proof; there is no fuel, except
  that \<open>gophercloud.WaitFor\<close>, which polls for a time, is a parameter.

  \<^bold>\<open>The theories and the code.\<close>
  \<^item> \<open>Prelude\<close>, \<open>GoStrings\<close>, \<open>GoNet\<close>, \<open>GoTime\<close>, \<open>GoRegexp\<close>: errors, results, state, the rules for \<open>runs\<close> (what holds
    after an operation), \<open>emits\<close> (which calls it makes) and \<open>preserves\<close>; the parts of Go's library the code calls;
    \<open>internal/helper/kubernetes/namespacedname.go\<close> and \<open>version.go\<close>.
  \<^item> \<open>ApiTypes\<close>, \<open>MachineApi\<close>, \<open>EnvoyTypes\<close>, \<open>CloudApi\<close>, \<open>CloudTypes\<close>: \<open>api/v1beta1\<close>, the interfaces of
    \<open>internal/openstack/interface.go\<close>, the calls and the effect of patches, Envoy's messages, Services and Nodes.
  \<^item> \<open>OpenstackHelper\<close>: \<open>internal/helper/openstack\<close>. \<open>HelperLB\<close>: \<open>internal/helper/loadbalancer.go\<close>,
    \<open>loadbalancerset.go\<close>, \<open>others.go\<close>. \<open>UserData\<close>: the templates of \<open>internal/helper/loadbalancermachine.go\<close>.
  \<^item> \<open>LBDelete\<close>, \<open>LBController\<close>: \<open>controllers/yawol-controller/loadbalancer\<close> (\<open>deletionRoutine\<close>, \<open>Reconcile\<close>).
  \<^item> \<open>MachineHealth\<close>, \<open>LBSController\<close>: \<open>controllers/yawol-controller/loadbalancerset\<close> (\<open>AreRelevantConditionsMet\<close>,
    the controller that marks and deletes unhealthy machines, \<open>reconcileSet\<close>).
  \<^item> \<open>MachineController\<close>: \<open>controllers/yawol-controller/loadbalancermachine\<close> (\<open>Reconcile_lbm\<close>: service account, role,
    port, address pairs, server, and their deletion).
  \<^item> \<open>Services\<close>, \<open>Nodes\<close>, \<open>ServiceController\<close>: \<open>controllers/yawol-cloud-controller/targetcontroller\<close> and
    \<open>internal/helper/service.go\<close>. \<open>ControlController\<close>: \<open>controlcontroller\<close>.
  \<^item> \<open>Envoy\<close>, \<open>HostStatus\<close>, \<open>Yawollet\<close>: \<open>internal/helper/yawollet.go\<close>, \<open>internal/keepalived\<close>, \<open>internal/envoystatus\<close>,
    \<open>internal/hostmetrics\<close>, \<open>internal/healthz\<close>, \<open>controllers/yawollet\<close> and the settings of \<open>cmd/yawollet/main.go\<close>.
  \<^item> \<open>Metrics\<close>: \<open>internal/metrics/metrics.go\<close> and the functions of \<open>internal/helper\<close> that fill and clear the gauges.
  \<^item> \<open>OsClient\<close>: the clients of \<open>internal/openstack\<close>, from the ini file to the counted call, as an instance of the interface
    \<open>os_env\<close> that the controllers use. \<open>Startup\<close>: the environment of \<open>cmd/yawol-cloud-controller/main.go\<close>.
  \<^item> \<open>Programs\<close>: the three programs of \<open>cmd\<close>, from their flags to the managers, controllers and readiness checks that
    they start, and \<open>GetVersion\<close>. \<open>Watches\<close>: the filters of events that the \<open>SetupWithManager\<close> methods install.
  \<^item> \<open>MergePatch\<close>: the JSON documents of the patches, with the names of \<open>api/v1beta1\<close>, and RFC 7386.
  \<^item> \<open>FakeOpenstack\<close>, \<open>FakeClusters\<close>: \<open>internal/openstack/testing/fake.go\<close> and clusters in memory. They interpret the
    locales and run the examples.

  \<^bold>\<open>What the lemmas show.\<close>
  \<^item> \<open>OpenstackHelper\<close>, \<open>HelperLB\<close>: which calls the synchronisation of a security group makes, that it converges, and
    what the desired rules open; hashes and revisions; the keepalived wait.
  \<^item> \<open>DeletionCleanup\<close>, \<open>UserResources\<close>, \<open>Rollout\<close>: a finished deletion leaves no resource with a recorded name, over any
    number of reconciles; the user's own resources are never deleted; old sets are scaled down only behind a ready one.
  \<^item> \<open>MachineHealth\<close>, \<open>LBSController\<close>: when a machine is healthy, deleted, created or counted, and which errors are lost.
  \<^item> \<open>MachineCleanup\<close>, \<open>MachineServers\<close>: a finished deletion of a machine leaves no server, port or access; at most one
    server is created, with the content asked for; the address pairs of the port settle.
  \<^item> \<open>ServiceSync\<close>, \<open>ServiceOutcome\<close>, \<open>ServiceLife\<close>, \<open>ServiceEdges\<close>: the reconciler of a Service, which patches one
    difference at a time, refines the function \<open>sync_spec\<close>; what agrees afterwards and what never does; when LoadBalancers
    are created and finalizers removed. \<open>Nodes\<close>, \<open>ControlController\<close>: endpoints, published addresses, forwarded events.
  \<^item> \<open>EnvoyConfig\<close>: an accepted configuration is well typed, admits the sources that the security group admits, and gets
    a new version exactly when it changed. \<open>KeepalivedStats\<close>: texts are read back. \<open>YawolletHealth\<close>, \<open>YawolletReady\<close>:
    only safe commands run, reports are in order, invalid configurations go nowhere, and how the yawollet's readiness
    relates to that of the set controller.
  \<^item> \<open>Watches\<close>: a dropped update would have changed nothing. \<open>EndToEnd\<close>: the components together, from a Service and the
    nodes to the configuration of Envoy, and from a LoadBalancer over its set to the machines and their revision check.
    \<open>Programs\<close>: which managers run, with which leases, and for how long. \<open>YawolletStart\<close>, \<open>YawolletRights\<close>: the
    user data of a machine starts the yawollet that looks after it, and its role allows what it does and no more.
  \<^item> \<open>MergePatch\<close>: the effect of a patch on the structs, which the other theories use, is that of merging its document.
  \<^item> \<open>MetricsFacts\<close>: the gauges refine the map of known objects; nothing stays of removed ones. \<open>OsClientFacts\<close>: the
    project that is asked for, connections that are kept, calls that are counted. \<open>Startup\<close>: what the defaults are good for.

  \<^bold>\<open>What is assumed.\<close> Laws of the systems behind the clients are the assumptions of locales (\<open>deletion_cloud\<close>, \<open>lb_cloud\<close>,
  \<open>machine_api\<close>, \<open>machine_cloud\<close>, \<open>server_listing\<close>, \<open>port_store\<close>, \<open>control_plane\<close>, \<open>service_life\<close>, \<open>service_status\<close>,
  \<open>report_store\<close>, \<open>keyed_reads\<close>, and \<open>event_predicates\<close> for the predicates of controller-runtime): mostly that a patch is stored as it is answered, that a listing is complete and that no other client
  interferes with the object. Each is interpreted on the in-memory systems, so none is contradictory. The object that a patch
  answers with replaces the one in memory as a whole; the decoder of client-go, which keeps what the answer lacks, is not
  modelled. Error codes of OpenStack are not assumed to be truthful; where the code relies on them the theorems say so (\<open>mv_lost\<close> in
  \<open>MachineCleanup\<close>). Parameters without laws: SHA-256, random strings, the JSON text that is hashed, YAML, the encoding and printing
  of Envoy's messages (\<open>indexes_resources\<close> in \<open>EnvoyConfig\<close> says that a snapshot keeps resources by name), the order of
  maps, the clock, the conversion of numbers to floating point, gophercloud. With a law: that durations and times are read back as
  written (\<open>MergePatch\<close>), and how a command line is read (\<open>reads_command_line\<close> in \<open>YawolletStart\<close>).

  \<^bold>\<open>Not modelled.\<close> The flag library and controller-runtime, of which the programs' use is modelled; log lines; gophercloud and what
  it does with a timeout; the callback clients of the tests; the generated deep copies; charts and images. Concurrency is that of the code: controllers run one
  reconcile per object at a time, and what others do meanwhile is in the answers of the world.
\<close>

end
